(* ===== verification/Kylins_Prelude.thy ===== *)
theory Kylins_Prelude
  imports Main "HOL-Library.Word"
begin

text \<open>
  Shared vocabulary of the development: the machine integers of the Rust sources, the
  result type of fallible functions, and the generic facts about lists, words and results
  that several components use.

  \<^item> \<open>u8\<close>, \<open>u16\<close>, \<open>u32\<close>, \<open>u64\<close> are words of their width; \<open>i64\<close> columns and clocks are
    \<^typ>\<open>int\<close> where the code never comes near the limits.
  \<^item> \<open>Result<T, E>\<close> is \<open>'e + 'a\<close>; the operator \<open>?\<close> is \<open>res_bind\<close>.
  \<^item> A call that may panic returns \<open>'a panicky\<close>: a panic is a value of the model, never an
    unspecified term.
\<close>

unbundle bit_operations_syntax

type_synonym u8 = "8 word"
type_synonym u16 = "16 word"
type_synonym u32 = "32 word"
type_synonym u64 = "64 word"

section \<open>Collections of facts\<close>

named_theorems invariant_intros \<open>preservation lemmas of the component invariants\<close>
named_theorems res_simps \<open>inversion of the result combinators\<close>
named_theorems nat_of_word \<open>word operations read as natural numbers\<close>

section \<open>Results\<close>

datatype 'a panicky = Panicked | Returned 'a

fun res_bind :: "'e + 'a \<Rightarrow> ('a \<Rightarrow> 'e + 'b) \<Rightarrow> 'e + 'b" where
  "res_bind (Inl e) f = Inl e"
| "res_bind (Inr x) f = f x"

fun map_err :: "('e \<Rightarrow> 'f) \<Rightarrow> 'e + 'a \<Rightarrow> 'f + 'a" where
  "map_err g (Inl e) = Inl (g e)"
| "map_err g (Inr x) = Inr x"

fun unwrap_or :: "'a \<Rightarrow> 'e + 'a \<Rightarrow> 'a" where
  "unwrap_or d (Inl e) = d"
| "unwrap_or d (Inr x) = x"

fun opt_or :: "'a \<Rightarrow> 'a option \<Rightarrow> 'a" where
  "opt_or d None = d"
| "opt_or d (Some x) = x"

lemma res_bind_Inr_iff [res_simps]:
  "res_bind r f = Inr y \<longleftrightarrow> (\<exists>x. r = Inr x \<and> f x = Inr y)"
  by (cases r) auto

lemma res_bind_Inl_iff [res_simps]:
  "res_bind r f = Inl e \<longleftrightarrow> r = Inl e \<or> (\<exists>x. r = Inr x \<and> f x = Inl e)"
  by (cases r) auto

lemma map_err_Inr_iff [res_simps]: "map_err g r = Inr y \<longleftrightarrow> r = Inr y"
  by (cases r) auto

lemma map_err_Inl_iff [res_simps]: "map_err g r = Inl e \<longleftrightarrow> (\<exists>d. r = Inl d \<and> e = g d)"
  by (cases r) auto

lemma res_bind_cong [fundef_cong]:
  "r = r' \<Longrightarrow> (\<And>x. r' = Inr x \<Longrightarrow> f x = f' x) \<Longrightarrow> res_bind r f = res_bind r' f'"
  by (cases r') auto

text \<open>Folding a fallible step over a list: the \<open>for\<close> loop whose body uses \<open>?\<close>.\<close>

fun fold_res :: "('a \<Rightarrow> 's \<Rightarrow> 'e + 's) \<Rightarrow> 'a list \<Rightarrow> 's \<Rightarrow> 'e + 's" where
  "fold_res f [] s = Inr s"
| "fold_res f (x # xs) s = res_bind (f x s) (fold_res f xs)"

lemma fold_res_append:
  "fold_res f (xs @ ys) s = res_bind (fold_res f xs s) (fold_res f ys)"
proof (induction xs arbitrary: s)
  case Nil
  then show ?case by simp
next
  case (Cons x xs)
  then show ?case by (cases "f x s") simp_all
qed

lemma fold_res_invariant:
  assumes "fold_res f xs s = Inr t" and "P s"
    and "\<And>x a b. x \<in> set xs \<Longrightarrow> P a \<Longrightarrow> f x a = Inr b \<Longrightarrow> P b"
  shows "P t"
  using assms
proof (induction xs arbitrary: s)
  case Nil
  then show ?case by simp
next
  case (Cons x xs)
  from Cons.prems(1) obtain a where "f x s = Inr a" and "fold_res f xs a = Inr t"
    by (auto simp: res_simps)
  with Cons show ?case by (metis list.set_intros)
qed

section \<open>Effectful functions\<close>

text \<open>
  A fallible \<open>async fn\<close> over a state \<open>'s\<close> (the world behind a socket, the database, the
  fields of \<open>self\<close>): it may panic, fail or return, and the state it leaves is kept in all
  three cases, because a failure does not undo the effects before it.
\<close>

type_synonym ('s, 'e, 'a) io = "'s \<Rightarrow> ('e + 'a) panicky \<times> 's"

definition io_ret :: "'a \<Rightarrow> ('s, 'e, 'a) io" where
  "io_ret x s = (Returned (Inr x), s)"

definition io_fail :: "'e \<Rightarrow> ('s, 'e, 'a) io" where
  "io_fail e s = (Returned (Inl e), s)"

definition io_bind :: "('s, 'e, 'a) io \<Rightarrow> ('a \<Rightarrow> ('s, 'e, 'b) io) \<Rightarrow> ('s, 'e, 'b) io" where
  "io_bind m f s =
     (case m s of
        (Panicked, s') \<Rightarrow> (Panicked, s')
      | (Returned (Inl e), s') \<Rightarrow> (Returned (Inl e), s')
      | (Returned (Inr x), s') \<Rightarrow> f x s')"

definition io_lift :: "'e + 'a \<Rightarrow> ('s, 'e, 'a) io" where
  "io_lift r s = (Returned r, s)"

lemma io_ret_bind [simp]: "io_bind (io_ret x) f = f x"
  by (simp add: io_bind_def io_ret_def fun_eq_iff)

lemma io_fail_bind [simp]: "io_bind (io_fail e) f = io_fail e"
  by (simp add: io_bind_def io_fail_def fun_eq_iff)

lemma io_bind_ret [simp]: "io_bind m io_ret = m"
  by (auto simp: io_bind_def io_ret_def fun_eq_iff split: prod.splits panicky.splits sum.splits)

lemma io_bind_assoc: "io_bind (io_bind m f) g = io_bind m (\<lambda>x. io_bind (f x) g)"
  by (auto simp: io_bind_def fun_eq_iff split: prod.splits panicky.splits sum.splits)

lemma io_lift_simps [simp]: "io_lift (Inr x) = io_ret x" "io_lift (Inl e) = io_fail e"
  by (simp_all add: io_lift_def io_ret_def io_fail_def fun_eq_iff)

lemma io_bind_Inr_iff [res_simps]:
  "io_bind m f s = (Returned (Inr y), t) \<longleftrightarrow>
     (\<exists>x s'. m s = (Returned (Inr x), s') \<and> f x s' = (Returned (Inr y), t))"
  by (auto simp: io_bind_def split: prod.splits panicky.splits sum.splits)

lemma io_bind_Inl_iff [res_simps]:
  "io_bind m f s = (Returned (Inl e), t) \<longleftrightarrow>
     m s = (Returned (Inl e), t) \<or>
     (\<exists>x s'. m s = (Returned (Inr x), s') \<and> f x s' = (Returned (Inl e), t))"
  by (auto simp: io_bind_def split: prod.splits panicky.splits sum.splits)

text \<open>
  A relation between the state before and after that every step keeps is kept by a sequence.
\<close>

definition io_keeps :: "('s \<Rightarrow> 's \<Rightarrow> bool) \<Rightarrow> ('s, 'e, 'a) io \<Rightarrow> bool" where
  "io_keeps R m \<longleftrightarrow> (\<forall>s. R s (snd (m s)))"

lemma io_keeps_ret [invariant_intros]: "(\<And>s. R s s) \<Longrightarrow> io_keeps R (io_ret x)"
  by (simp add: io_keeps_def io_ret_def)

lemma io_keeps_fail [invariant_intros]: "(\<And>s. R s s) \<Longrightarrow> io_keeps R (io_fail e)"
  by (simp add: io_keeps_def io_fail_def)

lemma io_keeps_lift [invariant_intros]: "(\<And>s. R s s) \<Longrightarrow> io_keeps R (io_lift r)"
  by (simp add: io_keeps_def io_lift_def)

lemma io_keeps_bind:
  assumes "io_keeps R m" and "\<And>x. io_keeps R (f x)" and "\<And>a b c. R a b \<Longrightarrow> R b c \<Longrightarrow> R a c"
  shows "io_keeps R (io_bind m f)"
  unfolding io_keeps_def
proof
  fix s
  obtain r s' where m: "m s = (r, s')" by (cases "m s")
  with assms(1) have s': "R s s'" by (auto simp: io_keeps_def dest: spec [of _ s])
  have "R s' (snd (f x s'))" for x using assms(2) [of x] by (simp add: io_keeps_def)
  then show "R s (snd (io_bind m f s))"
    using m s' assms(3) by (auto simp: io_bind_def split: panicky.splits sum.splits)
qed

section \<open>Lists and association tables\<close>

text \<open>
  \<open>slice.iter().find(..).map(..)\<close> over a table of pairs is \<^const>\<open>map_of\<close>; the lookup by
  name goes through the second component.
\<close>

fun find_key :: "('v \<Rightarrow> bool) \<Rightarrow> ('k \<times> 'v) list \<Rightarrow> 'k option" where
  "find_key p [] = None"
| "find_key p ((k, v) # kvs) = (if p v then Some k else find_key p kvs)"

lemma find_key_distinct:
  assumes "(k, v) \<in> set kvs" and "p v"
    and "\<And>k' v'. (k', v') \<in> set kvs \<Longrightarrow> p v' \<Longrightarrow> k' = k"
  shows "find_key p kvs = Some k"
  using assms
proof (induction kvs)
  case Nil
  then show ?case by simp
next
  case (Cons kv kvs)
  obtain k' v' where kv: "kv = (k', v')" by (cases kv)
  show ?case
  proof (cases "p v'")
    case True
    with kv Cons.prems(3) [of k' v'] have "k' = k" by simp
    with True kv show ?thesis by simp
  next
    case False
    with Cons.prems(1,2) kv have "(k, v) \<in> set kvs" by auto
    moreover have "\<And>k'' v''. (k'', v'') \<in> set kvs \<Longrightarrow> p v'' \<Longrightarrow> k'' = k"
      using Cons.prems(3) by (meson list.set_intros(2))
    ultimately have "find_key p kvs = Some k" using Cons.IH Cons.prems(2) by blast
    with False kv show ?thesis by simp
  qed
qed

lemma find_key_SomeD:
  "find_key p kvs = Some k \<Longrightarrow> \<exists>v. (k, v) \<in> set kvs \<and> p v"
  by (induction kvs) (auto split: if_splits)

lemma drop_eq_append_imp:
  "drop n xs = ys @ zs \<Longrightarrow> drop (n + length ys) xs = zs"
  by (metis add.commute append_eq_conv_conj drop_drop)

lemma drop_eq_Cons_nth:
  "drop n xs = y # ys \<Longrightarrow> n < length xs \<and> xs ! n = y \<and> drop (Suc n) xs = ys"
  by (metis Cons_nth_drop_Suc drop_all leI list.distinct(1) list.inject)

lemma drop_eq_append_take:
  "drop n xs = ys @ zs \<Longrightarrow> take (length ys) (drop n xs) = ys"
  by simp

lemma drop_eq_append_length:
  "drop n xs = ys @ zs \<Longrightarrow> ys \<noteq> [] \<Longrightarrow> n + length ys \<le> length xs"
  by (drule arg_cong [where f = length]) (cases ys; simp)

section \<open>Words read as natural numbers\<close>

lemma unat_and_127 [nat_of_word]: "unat (w AND 127 :: 'a::len word) = unat w mod 128"
  if "7 \<le> LENGTH('a)"
proof -
  have "(127 :: 'a word) = mask 7" by (simp add: mask_eq_exp_minus_1)
  then have "w AND 127 = take_bit 7 w" by (simp only: take_bit_eq_mask)
  then have "unat (w AND 127) = take_bit 7 (unat w)" by (simp only: unsigned_take_bit_eq)
  also have "\<dots> = unat w mod 128" by (simp add: take_bit_eq_mod)
  finally show ?thesis .
qed

lemma unat_drop_bit [nat_of_word]: "unat (drop_bit n (w :: 'a::len word)) = unat w div 2 ^ n"
  by (rule trans [OF unat_drop_bit_eq drop_bit_eq_div])

lemma find_SomeD: "find P xs = Some x \<Longrightarrow> x \<in> set xs \<and> P x"
  by (induction xs) (auto split: if_splits)

end
