(* ===== verification/Rust_Std.thy ===== *)
theory Rust_Std
  imports Kylins_Prelude "HOL-Library.Char_ord"
begin

text \<open>
  The part of Rust's standard library the modelled code rests on: strings as UTF-8 byte
  sequences (\<open>as_bytes\<close>, \<open>from_utf8\<close>, \<open>from_utf8_lossy\<close>), decimal \<open>parse\<close> and
  \<open>to_string\<close> of the integer types, ASCII case folding and trimming.

  A Rust \<open>String\<close> is a \<^typ>\<open>string\<close> whose characters are its UTF-8 bytes, so \<open>len()\<close> is
  \<^const>\<open>length\<close>; that a value really is UTF-8 is the predicate \<open>utf8_string\<close>.
\<close>

section \<open>Strings and bytes\<close>

definition as_bytes :: "string \<Rightarrow> u8 list" where
  "as_bytes s = map of_char s"

definition of_bytes :: "u8 list \<Rightarrow> string" where
  "of_bytes bs = map (\<lambda>b. char_of (unat b)) bs"

lemma unat_of_char [simp]: "unat (of_char c :: u8) = of_char c"
  by (cases c) simp

lemma of_bytes_as_bytes [simp]: "of_bytes (as_bytes s) = s"
  by (simp add: as_bytes_def of_bytes_def comp_def)

lemma as_bytes_of_bytes [simp]: "as_bytes (of_bytes bs) = bs"
proof -
  have "of_char (char_of (unat b)) = b" for b :: u8
  proof (rule word_unat_eq_iff [THEN iffD2])
    have "unat b < 256" using unsigned_less [of b] by simp
    then show "unat (of_char (char_of (unat b)) :: u8) = unat b" by (simp add: of_char_of)
  qed
  then show ?thesis by (simp add: as_bytes_def of_bytes_def comp_def)
qed

lemma as_bytes_append [simp]: "as_bytes (s @ t) = as_bytes s @ as_bytes t"
  by (simp add: as_bytes_def)

lemma length_as_bytes [simp]: "length (as_bytes s) = length s"
  by (simp add: as_bytes_def)

lemma length_of_bytes [simp]: "length (of_bytes bs) = length bs"
  by (simp add: of_bytes_def)

lemma as_bytes_eq_iff [simp]: "as_bytes s = as_bytes t \<longleftrightarrow> s = t"
  by (metis of_bytes_as_bytes)

lemma zero_in_as_bytes: "0 \<in> set (as_bytes s) \<longleftrightarrow> CHR 0x00 \<in> set s"
proof -
  have "of_char c = (0 :: u8) \<longleftrightarrow> c = CHR 0x00" for c
  proof
    assume "of_char c = (0 :: u8)"
    then have "of_bytes (as_bytes [c]) = of_bytes [0]" by (simp add: as_bytes_def)
    then have "[c] = of_bytes [0]" by (simp only: of_bytes_as_bytes)
    then show "c = CHR 0x00" by (simp add: of_bytes_def char_of_def)
  qed simp
  then show ?thesis by (auto simp: as_bytes_def image_iff)
qed

section \<open>UTF-8\<close>

text \<open>
  \<open>utf8_head\<close> looks at the front of a non-empty byte sequence the way
  \<open>core::str::lossy\<close> does: it says whether a whole scalar value starts there, and how many
  bytes it takes, or how many bytes of a broken sequence are replaced together.
\<close>

definition in_range :: "u8 \<Rightarrow> u8 \<Rightarrow> u8 list \<Rightarrow> nat \<Rightarrow> bool" where
  "in_range lo hi bs i = (i < length bs \<and> lo \<le> bs ! i \<and> bs ! i \<le> hi)"

definition utf8_second :: "u8 \<Rightarrow> u8 \<times> u8" where
  "utf8_second b =
     (if b = 0xE0 then (0xA0, 0xBF) else if b = 0xED then (0x80, 0x9F)
      else if b = 0xF0 then (0x90, 0xBF) else if b = 0xF4 then (0x80, 0x8F)
      else (0x80, 0xBF))"

definition utf8_head :: "u8 list \<Rightarrow> bool \<times> nat" where
  "utf8_head bs =
     (let b = hd bs; snd_ok = in_range (fst (utf8_second b)) (snd (utf8_second b)) bs 1;
          cont = in_range 0x80 0xBF bs
      in if b < 0x80 then (True, 1)
         else if 0xC2 \<le> b \<and> b \<le> 0xDF then (if cont 1 then (True, 2) else (False, 1))
         else if 0xE0 \<le> b \<and> b \<le> 0xEF then
           (if \<not> snd_ok then (False, 1) else if \<not> cont 2 then (False, 2) else (True, 3))
         else if 0xF0 \<le> b \<and> b \<le> 0xF4 then
           (if \<not> snd_ok then (False, 1) else if \<not> cont 2 then (False, 2)
            else if \<not> cont 3 then (False, 3) else (True, 4))
         else (False, 1))"

lemma utf8_head_pos: "0 < snd (utf8_head bs)"
  by (simp add: utf8_head_def Let_def)

lemma utf8_head_le: "bs \<noteq> [] \<Longrightarrow> snd (utf8_head bs) \<le> length bs"
  by (cases bs) (auto simp: utf8_head_def Let_def in_range_def Suc_le_eq)

function utf8_valid :: "u8 list \<Rightarrow> bool" where
  "utf8_valid bs =
     (if bs = [] then True
      else if fst (utf8_head bs) then utf8_valid (drop (snd (utf8_head bs)) bs)
      else False)"
  by pat_completeness auto
termination
  by (relation "measure length") (auto simp: utf8_head_pos)

definition replacement_char :: "u8 list" where
  "replacement_char = [0xEF, 0xBF, 0xBD]"

function utf8_lossy :: "u8 list \<Rightarrow> u8 list" where
  "utf8_lossy bs =
     (if bs = [] then []
      else (if fst (utf8_head bs) then take (snd (utf8_head bs)) bs else replacement_char)
           @ utf8_lossy (drop (snd (utf8_head bs)) bs))"
  by pat_completeness auto
termination
  by (relation "measure length") (auto simp: utf8_head_pos)

declare utf8_valid.simps [simp del] utf8_lossy.simps [simp del]

definition utf8_string :: "string \<Rightarrow> bool" where
  "utf8_string s = utf8_valid (as_bytes s)"

definition from_utf8 :: "u8 list \<Rightarrow> string option" where
  "from_utf8 bs = (if utf8_valid bs then Some (of_bytes bs) else None)"

definition from_utf8_lossy :: "u8 list \<Rightarrow> string" where
  "from_utf8_lossy bs = of_bytes (utf8_lossy bs)"

lemma utf8_valid_Nil [simp]: "utf8_valid []"
  by (simp add: utf8_valid.simps)

lemma utf8_head_ascii: "b < 0x80 \<Longrightarrow> utf8_head (b # bs) = (True, 1)"
  unfolding utf8_head_def Let_def list.sel by (rule if_P)

lemma utf8_valid_ascii_Cons [simp]:
  assumes "b < 0x80" shows "utf8_valid (b # bs) \<longleftrightarrow> utf8_valid bs"
  unfolding utf8_valid.simps [of "b # bs"] utf8_head_ascii [OF assms] by simp

lemma utf8_lossy_valid: "utf8_valid bs \<Longrightarrow> utf8_lossy bs = bs"
proof (induction bs rule: utf8_valid.induct)
  case (1 bs)
  show ?case
  proof (cases "bs = []")
    case True
    then show ?thesis by (simp add: utf8_lossy.simps)
  next
    case False
    with "1.prems" have "fst (utf8_head bs)" "utf8_valid (drop (snd (utf8_head bs)) bs)"
      by (auto simp: utf8_valid.simps [of bs] split: if_splits)
    with False "1.IH" show ?thesis by (simp add: utf8_lossy.simps [of bs])
  qed
qed

lemma from_utf8_lossy_as_bytes [simp]: "utf8_string s \<Longrightarrow> from_utf8_lossy (as_bytes s) = s"
  by (simp add: utf8_string_def from_utf8_lossy_def utf8_lossy_valid)

lemma from_utf8_as_bytes [simp]: "utf8_string s \<Longrightarrow> from_utf8 (as_bytes s) = Some s"
  by (simp add: utf8_string_def from_utf8_def)

lemma utf8_string_ascii: "list_all (\<lambda>c. of_char c < (128 :: nat)) s \<Longrightarrow> utf8_string s"
  unfolding utf8_string_def as_bytes_def
  by (induction s) (simp_all add: word_less_nat_alt)

section \<open>Decimal numbers\<close>

text \<open>
  \<open>str::parse\<close> of an unsigned type takes an optional \<open>+\<close> and at least one digit and fails
  when the value does not fit; \<open>i64\<close> also takes \<open>-\<close>. The accumulator of the library checks
  the bound at each digit, which for a non-negative value is the same as checking it once.
\<close>

definition digit_val :: "char \<Rightarrow> nat option" where
  "digit_val c = (let n = of_char c :: nat in if 48 \<le> n \<and> n \<le> 57 then Some (n - 48) else None)"

fun digits_val :: "nat \<Rightarrow> string \<Rightarrow> nat option" where
  "digits_val acc [] = Some acc"
| "digits_val acc (c # cs) =
     (case digit_val c of None \<Rightarrow> None | Some d \<Rightarrow> digits_val (10 * acc + d) cs)"

fun strip_plus :: "string \<Rightarrow> string" where
  "strip_plus [] = []"
| "strip_plus (c # cs) = (if c = CHR ''+'' then cs else c # cs)"

definition parse_unsigned :: "nat \<Rightarrow> string \<Rightarrow> nat option" where
  "parse_unsigned max_val s =
     (if strip_plus s = [] then None
      else case digits_val 0 (strip_plus s) of
        None \<Rightarrow> None | Some n \<Rightarrow> if n \<le> max_val then Some n else None)"

definition parse_u8 :: "string \<Rightarrow> u8 option" where
  "parse_u8 s = map_option of_nat (parse_unsigned 255 s)"

definition parse_u32 :: "string \<Rightarrow> u32 option" where
  "parse_u32 s = map_option of_nat (parse_unsigned 4294967295 s)"

definition parse_i64 :: "string \<Rightarrow> int option" where
  "parse_i64 s =
     (if s \<noteq> [] \<and> hd s = CHR ''-''
      then (if tl s = [] then None
            else case digits_val 0 (tl s) of
              None \<Rightarrow> None | Some n \<Rightarrow> if n \<le> 2 ^ 63 then Some (- int n) else None)
      else map_option int (parse_unsigned (2 ^ 63 - 1) s))"

definition digit_char :: "nat \<Rightarrow> char" where
  "digit_char d = char_of (48 + d)"

fun dec_string :: "nat \<Rightarrow> string" where
  "dec_string n = (if n < 10 then [digit_char n] else dec_string (n div 10) @ [digit_char (n mod 10)])"

declare dec_string.simps [simp del]

lemma digit_val_digit_char: "d < 10 \<Longrightarrow> digit_val (digit_char d) = Some d"
  by (simp add: digit_val_def digit_char_def of_char_of Let_def)

lemma digits_val_append:
  "digits_val acc (xs @ ys) =
     (case digits_val acc xs of None \<Rightarrow> None | Some n \<Rightarrow> digits_val n ys)"
  by (induction xs arbitrary: acc) (auto split: option.splits)

lemma digits_val_dec_string: "digits_val 0 (dec_string n) = Some n"
proof (induction n rule: dec_string.induct)
  case (1 n)
  show ?case
  proof (cases "n < 10")
    case True
    then show ?thesis by (simp add: dec_string.simps [of n] digit_val_digit_char)
  next
    case False
    with 1 show ?thesis
      by (simp add: dec_string.simps [of n] digits_val_append digit_val_digit_char)
  qed
qed

lemma dec_string_not_Nil: "dec_string n \<noteq> []"
  by (subst dec_string.simps) simp

lemma digit_char_not_plus: "d < 10 \<Longrightarrow> digit_char d \<noteq> CHR ''+''"
proof
  assume "d < 10" and "digit_char d = CHR ''+''"
  then have "digit_val (CHR ''+'') = Some d" using digit_val_digit_char by metis
  then show False by (simp add: digit_val_def)
qed

lemma strip_plus_dec_string: "strip_plus (dec_string n) = dec_string n"
proof (induction n rule: dec_string.induct)
  case (1 n)
  show ?case
  proof (cases "n < 10")
    case True
    then show ?thesis by (simp add: dec_string.simps [of n] digit_char_not_plus)
  next
    case False
    with 1 have "strip_plus (dec_string (n div 10)) = dec_string (n div 10)" by simp
    with False dec_string_not_Nil [of "n div 10"] show ?thesis
      by (cases "dec_string (n div 10)") (auto simp: dec_string.simps [of n] split: if_splits)
  qed
qed

lemma parse_unsigned_dec_string: "n \<le> m \<Longrightarrow> parse_unsigned m (dec_string n) = Some n"
  by (simp add: parse_unsigned_def strip_plus_dec_string dec_string_not_Nil digits_val_dec_string)

lemma parse_u32_dec_string [simp]: "parse_u32 (dec_string (unat w)) = Some w"
proof -
  have "unat w < 2 ^ LENGTH(32)" by (rule unsigned_less)
  then have "unat w \<le> 4294967295" by simp
  then show ?thesis by (simp add: parse_u32_def parse_unsigned_dec_string)
qed

lemma digit_char_ascii: "d < 10 \<Longrightarrow> of_char (digit_char d) < (128 :: nat) \<and> 0 < (of_char (digit_char d) :: nat)"
  by (simp add: digit_char_def of_char_of)

lemma dec_string_ascii:
  "list_all (\<lambda>c. of_char c < (128 :: nat) \<and> 0 < (of_char c :: nat)) (dec_string n)"
proof (induction n rule: dec_string.induct)
  case (1 n)
  then show ?case
    by (cases "n < 10") (simp_all add: dec_string.simps [of n] digit_char_ascii)
qed

section \<open>ASCII case\<close>

definition ascii_lower :: "char \<Rightarrow> char" where
  "ascii_lower c = (let n = of_char c :: nat in if 65 \<le> n \<and> n \<le> 90 then char_of (n + 32) else c)"

definition to_ascii_lowercase :: "string \<Rightarrow> string" where
  "to_ascii_lowercase s = map ascii_lower s"

definition eq_ignore_ascii_case :: "string \<Rightarrow> string \<Rightarrow> bool" where
  "eq_ignore_ascii_case s t = (to_ascii_lowercase s = to_ascii_lowercase t)"

section \<open>Other string operations\<close>

text \<open>\<open>str::trim\<close> on ASCII text; header values are ASCII once \<open>to_str\<close> has accepted them.\<close>

definition is_space :: "char \<Rightarrow> bool" where
  "is_space c = (let n = of_char c :: nat in n = 32 \<or> (9 \<le> n \<and> n \<le> 13))"

definition trim_ascii :: "string \<Rightarrow> string" where
  "trim_ascii s = rev (dropWhile is_space (rev (dropWhile is_space s)))"

definition trim_end_char :: "char \<Rightarrow> string \<Rightarrow> string" where
  "trim_end_char c s = rev (dropWhile (\<lambda>x. x = c) (rev s))"

fun starts_with :: "string \<Rightarrow> string \<Rightarrow> bool" where
  "starts_with [] s = True"
| "starts_with (p # ps) [] = False"
| "starts_with (p # ps) (c # cs) = (p = c \<and> starts_with ps cs)"

fun contains_str :: "string \<Rightarrow> string \<Rightarrow> bool" where
  "contains_str p [] = (p = [])"
| "contains_str p (c # cs) = (starts_with p (c # cs) \<or> contains_str p cs)"

lemma starts_with_iff: "starts_with p s \<longleftrightarrow> (\<exists>t. s = p @ t)"
  by (induction p s rule: starts_with.induct) auto

lemma contains_str_iff: "contains_str p s \<longleftrightarrow> (\<exists>a b. s = a @ p @ b)"
proof (induction s)
  case IH: (Cons c cs)
  show ?case
  proof
    assume "contains_str p (c # cs)"
    then show "\<exists>a b. c # cs = a @ p @ b"
      using IH by (auto simp: starts_with_iff) (metis append_Cons append_Nil)+
  next
    assume "\<exists>a b. c # cs = a @ p @ b"
    then obtain a b where ab: "c # cs = a @ p @ b" by blast
    show "contains_str p (c # cs)"
    proof (cases a)
      case Nil
      with ab have "starts_with p (c # cs)" by (simp add: starts_with_iff)
      then show ?thesis by simp
    next
      case (Cons d ds)
      with ab have "\<exists>a b. cs = a @ p @ b" by auto
      with IH show ?thesis by simp
    qed
  qed
qed simp

definition hex_upper :: "nat \<Rightarrow> char" where
  "hex_upper d = (if d < 10 then char_of (48 + d) else char_of (55 + d))"

text \<open>Addition on \<open>i64\<close> in a release build wraps.\<close>

definition wrap_i64 :: "int \<Rightarrow> int" where
  "wrap_i64 n = (n + 2 ^ 63) mod 2 ^ 64 - 2 ^ 63"

lemma wrap_i64_id: "- (2 ^ 63) \<le> n \<Longrightarrow> n < 2 ^ 63 \<Longrightarrow> wrap_i64 n = n"
  by (simp add: wrap_i64_def)

end
