(* ===== verification/Wbxml_Code_Pages.thy ===== *)
theory Wbxml_Code_Pages
  imports Rust_Std
begin

text \<open>
  \<open>eas/wbxml/global_tokens.rs\<close> and \<open>eas/wbxml/code_pages.rs\<close>: the global tokens of the
  ActiveSync WBXML subset, the 26 tag tables, and the lookups of \<open>CodePage\<close>. The tables are
  the source's, entry by entry. The lemmas show that they are consistent: within a page the
  token ids ascend and stay between \<open>TAG_BASE\<close> and \<open>0x3F\<close> (so the content and attribute bits
  and the global tokens never collide with a tag), the names differ even without case, and
  the two lookups invert each other.
\<close>

section \<open>Global tokens\<close>

abbreviation SWITCH_PAGE :: u8 where "SWITCH_PAGE \<equiv> 0x00"
abbreviation END_TOKEN :: u8 where "END_TOKEN \<equiv> 0x01"
abbreviation ENTITY :: u8 where "ENTITY \<equiv> 0x02"
abbreviation STR_I :: u8 where "STR_I \<equiv> 0x03"
abbreviation LITERAL :: u8 where "LITERAL \<equiv> 0x04"
abbreviation TAG_BASE :: u8 where "TAG_BASE \<equiv> 0x05"
abbreviation WITH_CONTENT :: u8 where "WITH_CONTENT \<equiv> 0x40"
abbreviation WITH_ATTRIBUTES :: u8 where "WITH_ATTRIBUTES \<equiv> 0x80"
abbreviation OPAQUE :: u8 where "OPAQUE \<equiv> 0xC3"

definition is_global_token :: "u8 \<Rightarrow> bool" where
  "is_global_token token = (token < TAG_BASE)"

section \<open>Code pages\<close>

type_synonym token_table = "(u8 \<times> string) list"

record code_page =
  namespace :: string
  xmlns :: string
  tokens :: token_table

definition NUM_CODE_PAGES :: nat where
  "NUM_CODE_PAGES = 26"

definition page_tag_name :: "code_page \<Rightarrow> u8 \<Rightarrow> string option" where
  "page_tag_name p t = map_of (tokens p) t"

definition page_token :: "code_page \<Rightarrow> string \<Rightarrow> u8 option" where
  "page_token p name =
     (let needle = to_ascii_lowercase name
      in find_key (\<lambda>n. to_ascii_lowercase n = needle) (tokens p))"

section \<open>The tables\<close>

definition AIRSYNC_TOKENS :: "token_table" where
  "AIRSYNC_TOKENS = [
    (0x05, ''Sync''), (0x06, ''Responses''), (0x07, ''Add''), (0x08, ''Change''),
    (0x09, ''Delete''), (0x0A, ''Fetch''), (0x0B, ''SyncKey''), (0x0C, ''ClientId''),
    (0x0D, ''ServerId''), (0x0E, ''Status''), (0x0F, ''Collection''), (0x10, ''Class''),
    (0x12, ''CollectionId''), (0x13, ''GetChanges''), (0x14, ''MoreAvailable''),
    (0x15, ''WindowSize''), (0x16, ''Commands''), (0x17, ''Options''), (0x18, ''FilterType''),
    (0x1B, ''Conflict''), (0x1C, ''Collections''), (0x1D, ''ApplicationData''),
    (0x1E, ''DeletesAsMoves''), (0x20, ''Supported''), (0x21, ''SoftDelete''),
    (0x22, ''MIMESupport''), (0x23, ''MIMETruncation''), (0x24, ''Wait''), (0x25, ''Limit''),
    (0x26, ''Partial''), (0x27, ''ConversationMode''), (0x28, ''MaxItems''),
    (0x29, ''HeartbeatInterval'')]"

definition CONTACTS_TOKENS :: "token_table" where
  "CONTACTS_TOKENS = [
    (0x05, ''Anniversary''), (0x06, ''AssistantName''), (0x07, ''AssistantPhoneNumber''),
    (0x08, ''Birthday''), (0x0C, ''Business2PhoneNumber''), (0x0D, ''BusinessAddressCity''),
    (0x0E, ''BusinessAddressCountry''), (0x0F, ''BusinessAddressPostalCode''),
    (0x10, ''BusinessAddressState''), (0x11, ''BusinessAddressStreet''),
    (0x12, ''BusinessFaxNumber''), (0x13, ''BusinessPhoneNumber''), (0x14, ''CarPhoneNumber''),
    (0x15, ''Categories''), (0x16, ''Category''), (0x17, ''Children''), (0x18, ''Child''),
    (0x19, ''CompanyName''), (0x1A, ''Department''), (0x1B, ''Email1Address''),
    (0x1C, ''Email2Address''), (0x1D, ''Email3Address''), (0x1E, ''FileAs''),
    (0x1F, ''FirstName''), (0x20, ''Home2PhoneNumber''), (0x21, ''HomeAddressCity''),
    (0x22, ''HomeAddressCountry''), (0x23, ''HomeAddressPostalCode''),
    (0x24, ''HomeAddressState''), (0x25, ''HomeAddressStreet''), (0x26, ''HomeFaxNumber''),
    (0x27, ''HomePhoneNumber''), (0x28, ''JobTitle''), (0x29, ''LastName''),
    (0x2A, ''MiddleName''), (0x2B, ''MobilePhoneNumber''), (0x2C, ''OfficeLocation''),
    (0x2D, ''OtherAddressCity''), (0x2E, ''OtherAddressCountry''),
    (0x2F, ''OtherAddressPostalCode''), (0x30, ''OtherAddressState''),
    (0x31, ''OtherAddressStreet''), (0x32, ''PagerNumber''), (0x33, ''RadioPhoneNumber''),
    (0x34, ''Spouse''), (0x35, ''Suffix''), (0x36, ''Title''), (0x37, ''WebPage''),
    (0x38, ''YomiCompanyName''), (0x39, ''YomiFirstName''), (0x3A, ''YomiLastName''),
    (0x3C, ''Picture''), (0x3D, ''Alias''), (0x3E, ''WeightedRank'')]"

definition EMAIL_TOKENS :: "token_table" where
  "EMAIL_TOKENS = [
    (0x0F, ''DateReceived''), (0x11, ''DisplayTo''), (0x12, ''Importance''),
    (0x13, ''MessageClass''), (0x14, ''Subject''), (0x15, ''Read''), (0x16, ''To''),
    (0x17, ''Cc''), (0x18, ''From''), (0x19, ''ReplyTo''), (0x1A, ''AllDayEvent''),
    (0x1B, ''Categories''), (0x1C, ''Category''), (0x1D, ''DtStamp''), (0x1E, ''EndTime''),
    (0x1F, ''InstanceType''), (0x20, ''BusyStatus''), (0x21, ''Location''),
    (0x22, ''MeetingRequest''), (0x23, ''Organizer''), (0x24, ''RecurrenceId''),
    (0x25, ''Reminder''), (0x26, ''ResponseRequested''), (0x27, ''Recurrences''),
    (0x28, ''Recurrence''), (0x29, ''Type''), (0x2A, ''Until''), (0x2B, ''Occurrences''),
    (0x2C, ''Interval''), (0x2D, ''DayOfWeek''), (0x2E, ''DayOfMonth''), (0x2F, ''WeekOfMonth''),
    (0x30, ''MonthOfYear''), (0x31, ''StartTime''), (0x32, ''Sensitivity''),
    (0x33, ''TimeZone''), (0x34, ''GlobalObjId''), (0x35, ''ThreadTopic''),
    (0x39, ''InternetCPID''), (0x3A, ''Flag''), (0x3B, ''Status''), (0x3C, ''ContentClass''),
    (0x3D, ''FlagType''), (0x3E, ''CompleteTime''), (0x3F, ''DisallowNewTimeProposal'')]"

definition AIRNOTIFY_TOKENS :: "token_table" where
  "AIRNOTIFY_TOKENS = []"

definition CALENDAR_TOKENS :: "token_table" where
  "CALENDAR_TOKENS = [
    (0x05, ''Timezone''), (0x06, ''AllDayEvent''), (0x07, ''Attendees''), (0x08, ''Attendee''),
    (0x09, ''Email''), (0x0A, ''Name''), (0x0D, ''BusyStatus''), (0x0E, ''Categories''),
    (0x0F, ''Category''), (0x11, ''DtStamp''), (0x12, ''EndTime''), (0x13, ''Exception''),
    (0x14, ''Exceptions''), (0x15, ''Deleted''), (0x16, ''ExceptionStartTime''),
    (0x17, ''Location''), (0x18, ''MeetingStatus''), (0x19, ''OrganizerEmail''),
    (0x1A, ''OrganizerName''), (0x1B, ''Recurrence''), (0x1C, ''Type''), (0x1D, ''Until''),
    (0x1E, ''Occurrences''), (0x1F, ''Interval''), (0x20, ''DayOfWeek''), (0x21, ''DayOfMonth''),
    (0x22, ''WeekOfMonth''), (0x23, ''MonthOfYear''), (0x24, ''Reminder''),
    (0x25, ''Sensitivity''), (0x26, ''Subject''), (0x27, ''StartTime''), (0x28, ''UID''),
    (0x29, ''AttendeeStatus''), (0x2A, ''AttendeeType''), (0x33, ''DisallowNewTimeProposal''),
    (0x34, ''ResponseRequested''), (0x35, ''AppointmentReplyTime''), (0x36, ''ResponseType''),
    (0x37, ''CalendarType''), (0x38, ''IsLeapMonth''), (0x39, ''FirstDayOfWeek''),
    (0x3A, ''OnlineMeetingConfLink''), (0x3B, ''OnlineMeetingExternalLink''),
    (0x3C, ''ClientUid'')]"

definition MOVE_TOKENS :: "token_table" where
  "MOVE_TOKENS = [
    (0x05, ''MoveItems''), (0x06, ''Move''), (0x07, ''SrcMsgId''), (0x08, ''SrcFldId''),
    (0x09, ''DstFldId''), (0x0A, ''Response''), (0x0B, ''Status''), (0x0C, ''DstMsgId'')]"

definition GIE_TOKENS :: "token_table" where
  "GIE_TOKENS = [
    (0x05, ''GetItemEstimate''), (0x07, ''Collections''), (0x08, ''Collection''),
    (0x09, ''Class''), (0x0A, ''CollectionId''), (0x0C, ''Estimate''), (0x0D, ''Response''),
    (0x0E, ''Status'')]"

definition FOLDER_TOKENS :: "token_table" where
  "FOLDER_TOKENS = [
    (0x05, ''Folders''), (0x06, ''Folder''), (0x07, ''DisplayName''), (0x08, ''ServerId''),
    (0x09, ''ParentId''), (0x0A, ''Type''), (0x0C, ''Status''), (0x0E, ''Changes''),
    (0x0F, ''Add''), (0x10, ''Delete''), (0x11, ''Update''), (0x12, ''SyncKey''),
    (0x13, ''FolderCreate''), (0x14, ''FolderDelete''), (0x15, ''FolderUpdate''),
    (0x16, ''FolderSync''), (0x17, ''Count'')]"

definition MREQ_TOKENS :: "token_table" where
  "MREQ_TOKENS = [
    (0x05, ''CalendarId''), (0x06, ''CollectionId''), (0x07, ''MeetingResponse''),
    (0x08, ''RequestId''), (0x09, ''Request''), (0x0A, ''Result''), (0x0B, ''Status''),
    (0x0C, ''UserResponse''), (0x0E, ''InstanceId''), (0x10, ''ProposedStartTime''),
    (0x11, ''ProposedEndTime''), (0x12, ''SendResponse'')]"

definition TASK_TOKENS :: "token_table" where
  "TASK_TOKENS = [
    (0x08, ''Categories''), (0x09, ''Category''), (0x0A, ''Complete''),
    (0x0B, ''DateCompleted''), (0x0C, ''DueDate''), (0x0D, ''UtcDueDate''),
    (0x0E, ''Importance''), (0x0F, ''Recurrence''), (0x10, ''Type''), (0x11, ''Start''),
    (0x12, ''Until''), (0x13, ''Occurrences''), (0x14, ''Interval''), (0x15, ''DayOfMonth''),
    (0x16, ''DayOfWeek''), (0x17, ''WeekOfMonth''), (0x18, ''MonthOfYear''),
    (0x19, ''Regenerate''), (0x1A, ''DeadOccur''), (0x1B, ''ReminderSet''),
    (0x1C, ''ReminderTime''), (0x1D, ''Sensitivity''), (0x1E, ''StartDate''),
    (0x1F, ''UtcStartDate''), (0x20, ''Subject''), (0x22, ''OrdinalDate''),
    (0x23, ''SubOrdinalDate''), (0x24, ''CalendarType''), (0x25, ''IsLeapMonth''),
    (0x26, ''FirstDayOfWeek'')]"

definition RECIPIENTS_TOKENS :: "token_table" where
  "RECIPIENTS_TOKENS = [
    (0x05, ''ResolveRecipients''), (0x06, ''Response''), (0x07, ''Status''), (0x08, ''Type''),
    (0x09, ''Recipient''), (0x0A, ''DisplayName''), (0x0B, ''EmailAddress''),
    (0x0C, ''Certificates''), (0x0D, ''Certificate''), (0x0E, ''MiniCertificate''),
    (0x0F, ''Options''), (0x10, ''To''), (0x11, ''CertificateRetrieval''),
    (0x12, ''RecipientCount''), (0x13, ''MaxCertificates''), (0x14, ''MaxAmbiguousRecipients''),
    (0x15, ''CertificateCount''), (0x16, ''Availability''), (0x17, ''StartTime''),
    (0x18, ''EndTime''), (0x19, ''MergedFreeBusy''), (0x1A, ''Picture''), (0x1B, ''MaxSize''),
    (0x1C, ''Data''), (0x1D, ''MaxPictures'')]"

definition VALIDATE_TOKENS :: "token_table" where
  "VALIDATE_TOKENS = [
    (0x05, ''ValidateCert''), (0x06, ''Certificates''), (0x07, ''Certificate''),
    (0x08, ''CertificateChain''), (0x09, ''CheckCrl''), (0x0A, ''Status'')]"

definition CONTACTS2_TOKENS :: "token_table" where
  "CONTACTS2_TOKENS = [
    (0x05, ''CustomerId''), (0x06, ''GovernmentId''), (0x07, ''IMAddress''),
    (0x08, ''IMAddress2''), (0x09, ''IMAddress3''), (0x0A, ''ManagerName''),
    (0x0B, ''CompanyMainPhone''), (0x0C, ''AccountName''), (0x0D, ''NickName''), (0x0E, ''MMS'')]"

definition PING_TOKENS :: "token_table" where
  "PING_TOKENS = [
    (0x05, ''Ping''), (0x07, ''Status''), (0x08, ''HeartbeatInterval''), (0x09, ''Folders''),
    (0x0A, ''Folder''), (0x0B, ''Id''), (0x0C, ''Class''), (0x0D, ''MaxFolders'')]"

definition PROVISION_TOKENS :: "token_table" where
  "PROVISION_TOKENS = [
    (0x05, ''Provision''), (0x06, ''Policies''), (0x07, ''Policy''), (0x08, ''PolicyType''),
    (0x09, ''PolicyKey''), (0x0A, ''Data''), (0x0B, ''Status''), (0x0C, ''RemoteWipe''),
    (0x0D, ''EASProvisionDoc''), (0x0E, ''DevicePasswordEnabled''),
    (0x0F, ''AlphanumericDevicePasswordRequired''), (0x10, ''RequireStorageCardEncryption''),
    (0x11, ''PasswordRecoveryEnabled''), (0x13, ''AttachmentsEnabled''),
    (0x14, ''MinDevicePasswordLength''), (0x15, ''MaxInactivityTimeDeviceLock''),
    (0x16, ''MaxDevicePasswordFailedAttempts''), (0x17, ''MaxAttachmentSize''),
    (0x18, ''AllowSimpleDevicePassword''), (0x19, ''DevicePasswordExpiration''),
    (0x1A, ''DevicePasswordHistory''), (0x1B, ''AllowStorageCard''), (0x1C, ''AllowCamera''),
    (0x1D, ''RequireDeviceEncryption''), (0x1E, ''AllowUnsignedApplications''),
    (0x1F, ''AllowUnsignedInstallationPackages''),
    (0x20, ''MinDevicePasswordComplexCharacters''), (0x21, ''AllowWiFi''),
    (0x22, ''AllowTextMessaging''), (0x23, ''AllowPOPIMAPEmail''), (0x24, ''AllowBluetooth''),
    (0x25, ''AllowIrDA''), (0x26, ''RequireManualSyncWhenRoaming''),
    (0x27, ''AllowDesktopSync''), (0x28, ''MaxCalendarAgeFilter''), (0x29, ''AllowHTMLEmail''),
    (0x2A, ''MaxEmailAgeFilter''), (0x2B, ''MaxEmailBodyTruncationSize''),
    (0x2C, ''MaxEmailHTMLBodyTruncationSize''), (0x2D, ''RequireSignedSMIMEMessages''),
    (0x2E, ''RequireEncryptedSMIMEMessages''), (0x2F, ''RequireSignedSMIMEAlgorithm''),
    (0x30, ''RequireEncryptionSMIMEAlgorithm''),
    (0x31, ''AllowSMIMEEncryptionAlgorithmNegotiation''), (0x32, ''AllowSMIMESoftCerts''),
    (0x33, ''AllowBrowser''), (0x34, ''AllowConsumerEmail''), (0x35, ''AllowRemoteDesktop''),
    (0x36, ''AllowInternetSharing''), (0x37, ''UnapprovedInROMApplicationList''),
    (0x38, ''ApplicationName''), (0x39, ''ApprovedApplicationList''), (0x3A, ''Hash''),
    (0x3B, ''AccountOnlyRemoteWipe'')]"

definition SEARCH_TOKENS :: "token_table" where
  "SEARCH_TOKENS = [
    (0x05, ''Search''), (0x07, ''Store''), (0x08, ''Name''), (0x09, ''Query''),
    (0x0A, ''Options''), (0x0B, ''Range''), (0x0C, ''Status''), (0x0D, ''Response''),
    (0x0E, ''Result''), (0x0F, ''Properties''), (0x10, ''Total''), (0x11, ''EqualTo''),
    (0x12, ''Value''), (0x13, ''And''), (0x14, ''Or''), (0x15, ''FreeText''),
    (0x17, ''DeepTraversal''), (0x18, ''LongId''), (0x19, ''RebuildResults''),
    (0x1A, ''LessThan''), (0x1B, ''GreaterThan''), (0x1E, ''UserName''), (0x1F, ''Password''),
    (0x20, ''ConversationId''), (0x21, ''Picture''), (0x22, ''MaxSize''), (0x23, ''MaxPictures'')]"

definition GAL_TOKENS :: "token_table" where
  "GAL_TOKENS = [
    (0x05, ''DisplayName''), (0x06, ''Phone''), (0x07, ''Office''), (0x08, ''Title''),
    (0x09, ''Company''), (0x0A, ''Alias''), (0x0B, ''FirstName''), (0x0C, ''LastName''),
    (0x0D, ''HomePhone''), (0x0E, ''MobilePhone''), (0x0F, ''EmailAddress''),
    (0x10, ''Picture''), (0x11, ''Status''), (0x12, ''Data'')]"

definition BASE_TOKENS :: "token_table" where
  "BASE_TOKENS = [
    (0x05, ''BodyPreference''), (0x06, ''Type''), (0x07, ''TruncationSize''),
    (0x08, ''AllOrNone''), (0x0A, ''Body''), (0x0B, ''Data''), (0x0C, ''EstimatedDataSize''),
    (0x0D, ''Truncated''), (0x0E, ''Attachments''), (0x0F, ''Attachment''),
    (0x10, ''DisplayName''), (0x11, ''FileReference''), (0x12, ''Method''),
    (0x13, ''ContentId''), (0x14, ''ContentLocation''), (0x15, ''IsInline''),
    (0x16, ''NativeBodyType''), (0x17, ''ContentType''), (0x18, ''Preview''),
    (0x19, ''BodyPartPreference''), (0x1A, ''BodyPart''), (0x1B, ''Status''), (0x1C, ''Add''),
    (0x1D, ''Delete''), (0x1E, ''ClientId''), (0x1F, ''Content''), (0x20, ''Location''),
    (0x21, ''Annotation''), (0x22, ''Street''), (0x23, ''City''), (0x24, ''State''),
    (0x25, ''Country''), (0x26, ''PostalCode''), (0x27, ''Latitude''), (0x28, ''Longitude''),
    (0x29, ''Accuracy''), (0x2A, ''Altitude''), (0x2B, ''AltitudeAccuracy''),
    (0x2C, ''LocationUri''), (0x2D, ''InstanceId'')]"

definition SETTINGS_TOKENS :: "token_table" where
  "SETTINGS_TOKENS = [
    (0x05, ''Settings''), (0x06, ''Status''), (0x07, ''Get''), (0x08, ''Set''), (0x09, ''Oof''),
    (0x0A, ''OofState''), (0x0B, ''StartTime''), (0x0C, ''EndTime''), (0x0D, ''OofMessage''),
    (0x0E, ''AppliesToInternal''), (0x0F, ''AppliesToExternalKnown''),
    (0x10, ''AppliesToExternalUnknown''), (0x11, ''Enabled''), (0x12, ''ReplyMessage''),
    (0x13, ''BodyType''), (0x14, ''DevicePassword''), (0x15, ''Password''),
    (0x16, ''DeviceInformation''), (0x17, ''Model''), (0x18, ''IMEI''), (0x19, ''FriendlyName''),
    (0x1A, ''OS''), (0x1B, ''OSLanguage''), (0x1C, ''PhoneNumber''), (0x1D, ''UserInformation''),
    (0x1E, ''EmailAddresses''), (0x1F, ''SMTPAddress''), (0x20, ''UserAgent''),
    (0x21, ''EnableOutboundSMS''), (0x22, ''MobileOperator''), (0x23, ''PrimarySmtpAddress''),
    (0x24, ''Accounts''), (0x25, ''Account''), (0x26, ''AccountId''), (0x27, ''AccountName''),
    (0x28, ''UserDisplayName''), (0x29, ''SendDisabled''),
    (0x2B, ''RightsManagementInformation'')]"

definition DOCS_TOKENS :: "token_table" where
  "DOCS_TOKENS = [
    (0x05, ''LinkId''), (0x06, ''DisplayName''), (0x07, ''IsFolder''), (0x08, ''CreationDate''),
    (0x09, ''LastModifiedDate''), (0x0A, ''IsHidden''), (0x0B, ''ContentLength''),
    (0x0C, ''ContentType'')]"

definition ITEMS_TOKENS :: "token_table" where
  "ITEMS_TOKENS = [
    (0x05, ''ItemOperations''), (0x06, ''Fetch''), (0x07, ''Store''), (0x08, ''Options''),
    (0x09, ''Range''), (0x0A, ''Total''), (0x0B, ''Properties''), (0x0C, ''Data''),
    (0x0D, ''Status''), (0x0E, ''Response''), (0x0F, ''Version''), (0x10, ''Schema''),
    (0x11, ''Part''), (0x12, ''EmptyFolderContents''), (0x13, ''DeleteSubFolders''),
    (0x14, ''UserName''), (0x15, ''Password''), (0x16, ''Move''), (0x17, ''DstFldId''),
    (0x18, ''ConversationId''), (0x19, ''MoveAlways'')]"

definition COMPOSE_TOKENS :: "token_table" where
  "COMPOSE_TOKENS = [
    (0x05, ''SendMail''), (0x06, ''SmartForward''), (0x07, ''SmartReply''),
    (0x08, ''SaveInSentItems''), (0x09, ''ReplaceMime''), (0x0B, ''Source''),
    (0x0C, ''FolderId''), (0x0D, ''ItemId''), (0x0E, ''LongId''), (0x0F, ''InstanceId''),
    (0x10, ''Mime''), (0x11, ''ClientId''), (0x12, ''Status''), (0x13, ''AccountId''),
    (0x15, ''Forwardees''), (0x16, ''Forwardee''), (0x17, ''ForwardeeName''),
    (0x18, ''ForwardeeEmail'')]"

definition EMAIL2_TOKENS :: "token_table" where
  "EMAIL2_TOKENS = [
    (0x05, ''UmCallerID''), (0x06, ''UmUserNotes''), (0x07, ''UmAttDuration''),
    (0x08, ''UmAttOrder''), (0x09, ''ConversationId''), (0x0A, ''ConversationIndex''),
    (0x0B, ''LastVerbExecuted''), (0x0C, ''LastVerbExecutionTime''), (0x0D, ''ReceivedAsBcc''),
    (0x0E, ''Sender''), (0x0F, ''CalendarType''), (0x10, ''IsLeapMonth''), (0x11, ''AccountId''),
    (0x12, ''FirstDayOfWeek''), (0x13, ''MeetingMessageType''), (0x15, ''IsDraft''),
    (0x16, ''Bcc''), (0x17, ''Send'')]"

definition NOTES_TOKENS :: "token_table" where
  "NOTES_TOKENS = [
    (0x05, ''Subject''), (0x06, ''MessageClass''), (0x07, ''LastModifiedDate''),
    (0x08, ''Categories''), (0x09, ''Category'')]"

definition RIGHTS_TOKENS :: "token_table" where
  "RIGHTS_TOKENS = [
    (0x05, ''RightsManagementSupport''), (0x06, ''RightsManagementTemplates''),
    (0x07, ''RightsManagementTemplate''), (0x08, ''RightsManagementLicense''),
    (0x09, ''EditAllowed''), (0x0A, ''ReplyAllowed''), (0x0B, ''ReplyAllAllowed''),
    (0x0C, ''ForwardAllowed''), (0x0D, ''ModifyRecipientsAllowed''), (0x0E, ''ExtractAllowed''),
    (0x0F, ''PrintAllowed''), (0x10, ''ExportAllowed''), (0x11, ''ProgrammaticAccessAllowed''),
    (0x12, ''Owner''), (0x13, ''ContentExpiryDate''), (0x14, ''TemplateID''),
    (0x15, ''TemplateName''), (0x16, ''TemplateDescription''), (0x17, ''ContentOwner''),
    (0x18, ''RemoveRightsManagementProtection'')]"

definition FIND_TOKENS :: "token_table" where
  "FIND_TOKENS = [
    (0x05, ''Find''), (0x06, ''SearchId''), (0x07, ''ExecuteSearch''),
    (0x08, ''MailBoxSearchCriterion''), (0x09, ''Query''), (0x0A, ''Status''),
    (0x0B, ''FreeText''), (0x0C, ''Options''), (0x0D, ''Range''), (0x0E, ''DeepTraversal''),
    (0x11, ''Response''), (0x12, ''Result''), (0x13, ''Properties''), (0x14, ''Preview''),
    (0x15, ''HasAttachments''), (0x16, ''Total''), (0x17, ''DisplayCc''), (0x18, ''DisplayBcc''),
    (0x19, ''GALSearchCriterion''), (0x20, ''MaxPictures''), (0x21, ''MaxSize''),
    (0x22, ''Picture'')]"

definition CODE_PAGES :: "code_page list" where
  "CODE_PAGES = [
    \<lparr>namespace = ''AirSync'', xmlns = ''airsync'', tokens = AIRSYNC_TOKENS\<rparr>,
    \<lparr>namespace = ''Contacts'', xmlns = ''contacts'', tokens = CONTACTS_TOKENS\<rparr>,
    \<lparr>namespace = ''Email'', xmlns = ''email'', tokens = EMAIL_TOKENS\<rparr>,
    \<lparr>namespace = '''', xmlns = '''', tokens = AIRNOTIFY_TOKENS\<rparr>,
    \<lparr>namespace = ''Calendar'', xmlns = ''calendar'', tokens = CALENDAR_TOKENS\<rparr>,
    \<lparr>namespace = ''Move'', xmlns = ''move'', tokens = MOVE_TOKENS\<rparr>,
    \<lparr>namespace = ''GetItemEstimate'', xmlns = ''getitemestimate'', tokens = GIE_TOKENS\<rparr>,
    \<lparr>namespace = ''FolderHierarchy'', xmlns = ''folderhierarchy'', tokens = FOLDER_TOKENS\<rparr>,
    \<lparr>namespace = ''MeetingResponse'', xmlns = ''meetingresponse'', tokens = MREQ_TOKENS\<rparr>,
    \<lparr>namespace = ''Tasks'', xmlns = ''tasks'', tokens = TASK_TOKENS\<rparr>,
    \<lparr>namespace = ''ResolveRecipients'', xmlns = ''resolverecipients'', tokens = RECIPIENTS_TOKENS\<rparr>,
    \<lparr>namespace = ''ValidateCert'', xmlns = ''ValidateCert'', tokens = VALIDATE_TOKENS\<rparr>,
    \<lparr>namespace = ''Contacts2'', xmlns = ''contacts2'', tokens = CONTACTS2_TOKENS\<rparr>,
    \<lparr>namespace = ''Ping'', xmlns = ''ping'', tokens = PING_TOKENS\<rparr>,
    \<lparr>namespace = ''Provision'', xmlns = ''provision'', tokens = PROVISION_TOKENS\<rparr>,
    \<lparr>namespace = ''Search'', xmlns = ''search'', tokens = SEARCH_TOKENS\<rparr>,
    \<lparr>namespace = ''GAL'', xmlns = ''gal'', tokens = GAL_TOKENS\<rparr>,
    \<lparr>namespace = ''AirSyncBase'', xmlns = ''airsyncbase'', tokens = BASE_TOKENS\<rparr>,
    \<lparr>namespace = ''Settings'', xmlns = ''settings'', tokens = SETTINGS_TOKENS\<rparr>,
    \<lparr>namespace = ''DocumentLibrary'', xmlns = ''documentlibrary'', tokens = DOCS_TOKENS\<rparr>,
    \<lparr>namespace = ''ItemOperations'', xmlns = ''itemoperations'', tokens = ITEMS_TOKENS\<rparr>,
    \<lparr>namespace = ''ComposeMail'', xmlns = ''composemail'', tokens = COMPOSE_TOKENS\<rparr>,
    \<lparr>namespace = ''Email2'', xmlns = ''email2'', tokens = EMAIL2_TOKENS\<rparr>,
    \<lparr>namespace = ''Notes'', xmlns = ''notes'', tokens = NOTES_TOKENS\<rparr>,
    \<lparr>namespace = ''RightsManagement'', xmlns = ''rightsmanagement'', tokens = RIGHTS_TOKENS\<rparr>,
    \<lparr>namespace = ''Find'', xmlns = ''find'', tokens = FIND_TOKENS\<rparr>]"

section \<open>Lookups by page index\<close>

definition code_page_at :: "u8 \<Rightarrow> code_page option" where
  "code_page_at page =
     (if unat page < length CODE_PAGES then Some (CODE_PAGES ! unat page) else None)"

definition is_valid_page :: "u8 \<Rightarrow> bool" where
  "is_valid_page page = (unat page < NUM_CODE_PAGES)"

definition is_valid_tag :: "u8 \<Rightarrow> u8 \<Rightarrow> bool" where
  "is_valid_tag page t =
     (case code_page_at page of Some p \<Rightarrow> page_tag_name p t \<noteq> None | None \<Rightarrow> False)"

definition is_global_tag :: "u8 \<Rightarrow> bool" where
  "is_global_tag t = is_global_token t"

lemmas table_defs =
  AIRSYNC_TOKENS_def CONTACTS_TOKENS_def EMAIL_TOKENS_def AIRNOTIFY_TOKENS_def
  CALENDAR_TOKENS_def MOVE_TOKENS_def GIE_TOKENS_def FOLDER_TOKENS_def MREQ_TOKENS_def
  TASK_TOKENS_def RECIPIENTS_TOKENS_def VALIDATE_TOKENS_def CONTACTS2_TOKENS_def
  PING_TOKENS_def PROVISION_TOKENS_def SEARCH_TOKENS_def GAL_TOKENS_def BASE_TOKENS_def
  SETTINGS_TOKENS_def DOCS_TOKENS_def ITEMS_TOKENS_def COMPOSE_TOKENS_def EMAIL2_TOKENS_def
  NOTES_TOKENS_def RIGHTS_TOKENS_def FIND_TOKENS_def

section \<open>Consistency of the tables\<close>

text \<open>
  Comparing 600 names pairwise and without case is slow in the kernel; comparing a number
  computed from the low five bits of each letter is not, and a name determines the number
  whatever its case is.
\<close>

fun low5 :: "char \<Rightarrow> int" where
  "low5 (Char b0 b1 b2 b3 b4 b5 b6 b7) =
     (if b0 then 1 else 0) + (if b1 then 2 else 0) + (if b2 then 4 else 0) + (if b3 then 8 else 0)
     + (if b4 then 16 else 0)"

fun name_key :: "int \<Rightarrow> string \<Rightarrow> int" where
  "name_key a [] = a"
| "name_key a (c # cs) = name_key (32 * a + low5 c) cs"

lemma low5_of_char: "\<exists>k. of_char c = low5 c + 32 * k"
proof (cases c)
  case (Char b0 b1 b2 b3 b4 b5 b6 b7)
  have "of_char c = low5 c + 32 * (of_bool b5 + 2 * of_bool b6 + 4 * of_bool b7)"
    by (simp add: Char of_char_def of_bool_def)
  then show ?thesis by blast
qed

lemma low5_range: "0 \<le> low5 c \<and> low5 c < 32"
  by (cases c) simp

lemma low5_mod: "low5 c = of_char c mod 32"
  using low5_of_char [of c] low5_range [of c] by auto

lemma low5_ascii_lower: "low5 (ascii_lower c) = low5 c"
proof -
  define n where "n = (of_char c :: nat)"
  have int_n: "(of_char c :: int) = int n" by (simp only: n_def of_nat_of_char)
  have "n + 32 < 256" if "n \<le> 90" using that by simp
  then have "(of_char (char_of (n + 32)) :: int) = int n + 32" if "n \<le> 90"
    using that by (metis mod_less of_char_of of_nat_add of_nat_numeral of_nat_of_char)
  then show ?thesis
    by (simp add: low5_mod ascii_lower_def Let_def int_n flip: n_def)
qed

lemma name_key_lower: "name_key a (to_ascii_lowercase s) = name_key a s"
  by (induction s arbitrary: a) (simp_all add: to_ascii_lowercase_def low5_ascii_lower)

definition table_ok :: "token_table \<Rightarrow> bool" where
  "table_ok ts =
     (sorted_wrt (<) (map fst ts)
      \<and> list_all (\<lambda>(t, n). TAG_BASE \<le> t \<and> t < 0x40) ts
      \<and> distinct (map (\<lambda>(t, n). name_key 0 n) ts))"

lemma CODE_PAGES_table_ok: "list_all (\<lambda>p. table_ok (tokens p)) CODE_PAGES"
  by code_simp

lemma length_CODE_PAGES [simp]: "length CODE_PAGES = NUM_CODE_PAGES"
  by (simp add: CODE_PAGES_def NUM_CODE_PAGES_def)

lemma code_page_at_valid: "code_page_at page = Some p \<Longrightarrow> is_valid_page page \<and> p \<in> set CODE_PAGES"
  by (auto simp: code_page_at_def is_valid_page_def split: if_splits)

lemma code_page_at_None_iff: "code_page_at page = None \<longleftrightarrow> \<not> is_valid_page page"
  by (simp add: code_page_at_def is_valid_page_def)

lemma page_table_ok: "p \<in> set CODE_PAGES \<Longrightarrow> table_ok (tokens p)"
  using CODE_PAGES_table_ok by (simp add: list_all_iff)

lemma table_ok_distinct_tokens: "table_ok ts \<Longrightarrow> distinct (map fst ts)"
  unfolding table_ok_def by (simp add: strict_sorted_iff)

lemma table_ok_range: "table_ok ts \<Longrightarrow> (t, n) \<in> set ts \<Longrightarrow> TAG_BASE \<le> t \<and> t < 0x40"
  by (auto simp: table_ok_def list_all_iff)

lemma distinct_map_inj:
  "distinct (map f xs) \<Longrightarrow> x \<in> set xs \<Longrightarrow> y \<in> set xs \<Longrightarrow> f x = f y \<Longrightarrow> x = y"
  by (simp add: distinct_map inj_on_def)

lemma table_ok_names_inj:
  assumes "table_ok ts" and "(t, n) \<in> set ts" and "(t', n') \<in> set ts"
    and "to_ascii_lowercase n = to_ascii_lowercase n'"
  shows "t = t' \<and> n = n'"
proof -
  have "name_key 0 n = name_key 0 n'" using assms(4) by (metis name_key_lower)
  then show ?thesis
    using distinct_map_inj [of "\<lambda>(t, n). name_key 0 n" ts "(t, n)" "(t', n')"] assms(1-3)
    by (simp add: table_ok_def)
qed

text \<open>The two lookups of a page invert each other, the second up to case.\<close>

lemma page_token_of_tag_name:
  assumes "p \<in> set CODE_PAGES" and "page_tag_name p t = Some n"
  shows "page_token p n = Some t"
proof -
  have ok: "table_ok (tokens p)" using assms(1) by (rule page_table_ok)
  have mem: "(t, n) \<in> set (tokens p)"
    using assms(2) by (auto simp: page_tag_name_def dest: map_of_SomeD)
  show ?thesis unfolding page_token_def Let_def
    by (rule find_key_distinct [OF mem]) (auto dest: table_ok_names_inj [OF ok mem])
qed

lemma page_tag_name_of_token:
  assumes "p \<in> set CODE_PAGES" and "page_token p name = Some t"
  shows "\<exists>n. page_tag_name p t = Some n \<and> eq_ignore_ascii_case n name"
proof -
  have ok: "table_ok (tokens p)" using assms(1) by (rule page_table_ok)
  obtain n where mem: "(t, n) \<in> set (tokens p)" and eq: "to_ascii_lowercase n = to_ascii_lowercase name"
    using assms(2) by (auto simp: page_token_def Let_def dest: find_key_SomeD)
  from table_ok_distinct_tokens [OF ok] mem have "map_of (tokens p) t = Some n" by simp
  with eq show ?thesis by (simp add: page_tag_name_def eq_ignore_ascii_case_def)
qed

lemma is_valid_tag_bounds:
  "is_valid_tag page t \<Longrightarrow> is_valid_page page \<and> TAG_BASE \<le> t \<and> t < 0x40"
  by (auto simp: is_valid_tag_def page_tag_name_def split: option.splits
      dest!: code_page_at_valid page_table_ok map_of_SomeD dest: table_ok_range)

lemma registered_tag_not_global: "is_valid_tag page t \<Longrightarrow> \<not> is_global_tag t"
  by (auto simp: is_global_tag_def is_global_token_def dest: is_valid_tag_bounds)

end
