(* ===== verification/Wbxml_Types.thy ===== *)
theory Wbxml_Types
  imports Wbxml_Code_Pages
begin

text \<open>
  \<open>eas/wbxml/types.rs\<close> and \<open>eas/wbxml/error.rs\<close>: the element tree, its three kinds of leaf
  value, the constructors the command builders use, and the codec's errors.
\<close>

datatype wbxml_value = EmptyValue | TextValue string | OpaqueValue "u8 list"

datatype wbxml_element =
  WbxmlElement (el_page: u8) (el_token: u8) (el_children: "wbxml_element list") (el_value: wbxml_value)

datatype wbxml_error =
    UnexpectedEof
  | EmptyStream
  | StringTableUnsupported
  | UnknownCodePage u8
  | UnsupportedGlobalToken u8
  | AttributesUnsupported u8
  | UnexpectedToken string u8
  | UnexpectedEndOfDocument
  | InvalidMultibyteInteger
  | UnbalancedEnd
  | UnclosedTags
  | NegativeOpaqueLength
  | InvalidUtf8
  | InvalidContent string
  | UnexpectedTag u8 u8 u8 u8

definition el_empty :: "u8 \<Rightarrow> u8 \<Rightarrow> wbxml_element" where
  "el_empty page t = WbxmlElement page t [] EmptyValue"

definition el_text :: "u8 \<Rightarrow> u8 \<Rightarrow> string \<Rightarrow> wbxml_element" where
  "el_text page t s = WbxmlElement page t [] (TextValue s)"

definition el_opaque :: "u8 \<Rightarrow> u8 \<Rightarrow> u8 list \<Rightarrow> wbxml_element" where
  "el_opaque page t bs = WbxmlElement page t [] (OpaqueValue bs)"

definition el_container :: "u8 \<Rightarrow> u8 \<Rightarrow> wbxml_element list \<Rightarrow> wbxml_element" where
  "el_container page t cs = WbxmlElement page t cs EmptyValue"

definition with_child :: "wbxml_element \<Rightarrow> wbxml_element \<Rightarrow> wbxml_element" where
  "with_child e c = WbxmlElement (el_page e) (el_token e) (el_children e @ [c]) (el_value e)"

definition el_tag_name :: "wbxml_element \<Rightarrow> string" where
  "el_tag_name e =
     (case Option.bind (code_page_at (el_page e)) (\<lambda>p. page_tag_name p (el_token e)) of
        Some n \<Rightarrow> n | None \<Rightarrow> ''unknown'')"

definition el_is_global :: "wbxml_element \<Rightarrow> bool" where
  "el_is_global e = is_global_token (el_token e)"

lemmas el_defs = el_empty_def el_text_def el_opaque_def el_container_def

lemma el_tag_name_valid:
  "is_valid_tag (el_page e) (el_token e) \<longleftrightarrow>
     (\<exists>p n. code_page_at (el_page e) = Some p \<and> page_tag_name p (el_token e) = Some n
        \<and> el_tag_name e = n)"
  by (auto simp: is_valid_tag_def el_tag_name_def split: option.splits)

end
