(* ===== verification/Wbxml_Serializer.thy ===== *)
theory Wbxml_Serializer
  imports Wbxml_Types
begin

text \<open>
  \<open>eas/wbxml/serializer.rs\<close>: the streaming \<open>Serializer\<close> (a state record and one function per
  method) and \<open>serialize_tree\<close>. Methods take \<open>&mut self\<close> and return the changed state; on an
  error the state is dropped, as every caller drops the serializer when \<open>?\<close> propagates one.
  \<open>enc\<close> is the specification: the bytes of an element as a function of the element and of the
  code page in force, and \<open>serialize_element_enc\<close> shows the state machine produces it.
\<close>

section \<open>The streaming serializer\<close>

record serializer =
  ser_output :: "u8 list"
  ser_pending :: "(u8 \<times> u8) option"
  ser_depth :: nat
  ser_page :: u8
  ser_started :: bool

definition HEADER :: "u8 list" where
  "HEADER = [0x03, 0x01, 0x6A, 0x00]"

definition serializer_new :: serializer where
  "serializer_new = \<lparr>ser_output = HEADER, ser_pending = None, ser_depth = 0, ser_page = 0,
     ser_started = True\<rparr>"

definition serializer_without_header :: serializer where
  "serializer_without_header = \<lparr>ser_output = [], ser_pending = None, ser_depth = 0, ser_page = 0,
     ser_started = False\<rparr>"

definition ser_reset :: "serializer \<Rightarrow> serializer" where
  "ser_reset s = s\<lparr>ser_output := (if ser_started s then HEADER else []), ser_pending := None,
     ser_depth := 0, ser_page := 0\<rparr>"

definition ser_done :: "serializer \<Rightarrow> wbxml_error + u8 list" where
  "ser_done s =
     (if ser_depth s \<noteq> 0 \<or> ser_pending s \<noteq> None then Inl UnclosedTags else Inr (ser_output s))"

definition push_bytes :: "u8 list \<Rightarrow> serializer \<Rightarrow> serializer" where
  "push_bytes bs s = s\<lparr>ser_output := ser_output s @ bs\<rparr>"

definition emit_tag :: "u8 \<Rightarrow> u8 \<Rightarrow> bool \<Rightarrow> serializer \<Rightarrow> wbxml_error + serializer" where
  "emit_tag page t degenerated s =
     res_bind
       (if page \<noteq> ser_page s
        then (if \<not> is_valid_page page then Inl (UnknownCodePage page)
              else Inr ((push_bytes [SWITCH_PAGE, page] s)\<lparr>ser_page := page\<rparr>))
        else Inr s)
       (\<lambda>s. let byte = t AND 0x3F;
                byte = (if \<not> degenerated then byte OR WITH_CONTENT else byte)
            in Inr (push_bytes [byte] s))"

definition flush_pending :: "bool \<Rightarrow> serializer \<Rightarrow> wbxml_error + serializer" where
  "flush_pending degenerated s =
     (case ser_pending s of
        Some (page, t) \<Rightarrow>
          res_bind (emit_tag page t degenerated (s\<lparr>ser_pending := None\<rparr>))
            (\<lambda>s. Inr (if \<not> degenerated then s\<lparr>ser_depth := ser_depth s + 1\<rparr> else s))
      | None \<Rightarrow> Inr s)"

definition ser_start :: "u8 \<Rightarrow> u8 \<Rightarrow> serializer \<Rightarrow> wbxml_error + serializer" where
  "ser_start page t s =
     res_bind (flush_pending False s) (\<lambda>s. Inr (s\<lparr>ser_pending := Some (page, t)\<rparr>))"

definition ser_end :: "serializer \<Rightarrow> wbxml_error + serializer" where
  "ser_end s =
     (case ser_pending s of
        Some (page, t) \<Rightarrow> emit_tag page t True (s\<lparr>ser_pending := None\<rparr>)
      | None \<Rightarrow>
          if ser_depth s = 0 then Inl UnbalancedEnd
          else Inr (push_bytes [END_TOKEN] (s\<lparr>ser_depth := ser_depth s - 1\<rparr>)))"

definition write_inline_string :: "string \<Rightarrow> serializer \<Rightarrow> serializer" where
  "write_inline_string str s = push_bytes (STR_I # as_bytes str @ [0]) s"

text \<open>The low-to-high base-128 digits that the first loop of \<open>write_multibyte_uint\<close> collects.\<close>

function mb_digits :: "u32 \<Rightarrow> u8 list" where
  "mb_digits v =
     (let b = ucast (v AND 0x7F); v' = drop_bit 7 v
      in if v' = 0 then [b] else b # mb_digits v')"
  by pat_completeness auto
termination
proof (relation "measure unat", simp_all add: Let_def)
  fix v :: u32
  assume "drop_bit 7 v \<noteq> 0"
  then have "unat (drop_bit 7 v) \<noteq> 0" by (simp add: unat_eq_0)
  then have "0 < unat v div 128" by (simp add: unat_drop_bit)
  then show "unat (drop_bit 7 v) < unat v" by (simp add: unat_drop_bit)
qed

declare mb_digits.simps [simp del]

definition mb_bytes :: "u32 \<Rightarrow> u8 list" where
  "mb_bytes v =
     (let ds = mb_digits v in map (\<lambda>d. d OR 0x80) (rev (tl ds)) @ [hd ds])"

definition write_multibyte_uint :: "u32 \<Rightarrow> serializer \<Rightarrow> serializer" where
  "write_multibyte_uint v s = push_bytes (mb_bytes v) s"

definition ser_text :: "string \<Rightarrow> serializer \<Rightarrow> wbxml_error + serializer" where
  "ser_text str s =
     res_bind (flush_pending False s) (\<lambda>s. Inr (write_inline_string str s))"

definition ser_opaque :: "u8 list \<Rightarrow> serializer \<Rightarrow> wbxml_error + serializer" where
  "ser_opaque data s =
     (if data = [] then Inr s
      else res_bind (flush_pending False s)
        (\<lambda>s. Inr (push_bytes data
               (write_multibyte_uint (of_nat (length data)) (push_bytes [OPAQUE] s)))))"

definition empty_tag :: "u8 \<Rightarrow> u8 \<Rightarrow> serializer \<Rightarrow> wbxml_error + serializer" where
  "empty_tag page t s = res_bind (ser_start page t s) ser_end"

definition data_tag :: "u8 \<Rightarrow> u8 \<Rightarrow> string \<Rightarrow> serializer \<Rightarrow> wbxml_error + serializer" where
  "data_tag page t v s =
     res_bind (ser_start page t s) (\<lambda>s. res_bind (ser_text v s) ser_end)"

section \<open>Serializing a tree\<close>

fun serialize_element :: "wbxml_element \<Rightarrow> serializer \<Rightarrow> wbxml_error + serializer"
  and serialize_children :: "wbxml_element list \<Rightarrow> serializer \<Rightarrow> wbxml_error + serializer" where
  "serialize_element (WbxmlElement page t cs v) s =
     res_bind (ser_start page t s) (\<lambda>s.
     res_bind
       (if cs \<noteq> [] then serialize_children cs s
        else case v of
            EmptyValue \<Rightarrow> Inr s
          | TextValue str \<Rightarrow> ser_text str s
          | OpaqueValue b \<Rightarrow> ser_opaque b s)
       ser_end)"
| "serialize_children [] s = Inr s"
| "serialize_children (c # cs) s = res_bind (serialize_element c s) (serialize_children cs)"

definition serialize_tree :: "wbxml_element \<Rightarrow> wbxml_error + u8 list" where
  "serialize_tree root = res_bind (serialize_element root serializer_new) ser_done"

section \<open>Multibyte integers\<close>

lemma bit_127: "bit (0x7F :: int) n \<longleftrightarrow> n < 7"
proof -
  have "(0x7F :: int) = mask 7" by (simp add: mask_eq_exp_minus_1)
  then show ?thesis by (simp only: bit_mask_iff) simp
qed

lemma bit_128: "bit (0x80 :: int) n \<longleftrightarrow> n = 7"
proof -
  have "(0x80 :: int) = 2 ^ 7" by simp
  then show ?thesis by (simp only: bit_exp_iff) auto
qed

lemmas bit_masks = bit_simps bit_127 bit_128

lemma mb_digit_masks:
  fixes v :: u32
  shows "(ucast (v AND 0x7F) :: u8) AND 0x80 = 0"
    and "((ucast (v AND 0x7F) :: u8) OR 0x80) AND 0x80 \<noteq> 0"
    and "ucast ((ucast (v AND 0x7F) :: u8) AND 0x7F) = v AND 0x7F"
    and "ucast (((ucast (v AND 0x7F) :: u8) OR 0x80) AND 0x7F) = v AND 0x7F"
proof -
  show "(ucast (v AND 0x7F) :: u8) AND 0x80 = 0"
    by (rule bit_word_eqI) (auto simp: bit_masks)
  have "bit (((ucast (v AND 0x7F) :: u8) OR 0x80) AND 0x80) 7"
    by (simp add: bit_masks)
  then show "((ucast (v AND 0x7F) :: u8) OR 0x80) AND 0x80 \<noteq> 0"
    by (metis bit_0_eq bot_apply bot_bool_def)
  show "ucast ((ucast (v AND 0x7F) :: u8) AND 0x7F) = v AND 0x7F"
    by (rule bit_word_eqI) (auto simp: bit_masks)
  show "ucast (((ucast (v AND 0x7F) :: u8) OR 0x80) AND 0x7F) = v AND 0x7F"
    by (rule bit_word_eqI) (auto simp: bit_masks)
qed

lemma mb_join: "push_bit 7 (drop_bit 7 v) OR (v AND 0x7F) = (v :: u32)"
  by (rule bit_word_eqI) (auto simp: bit_masks)

definition mb_continued :: "u32 \<Rightarrow> u8 list" where
  "mb_continued v = map (\<lambda>d. d OR 0x80) (rev (mb_digits v))"

lemma mb_digits_not_Nil [simp]: "mb_digits v \<noteq> []"
  by (subst mb_digits.simps) (simp add: Let_def)

lemma mb_continued_step:
  "mb_continued v = (if drop_bit 7 v = 0 then [] else mb_continued (drop_bit 7 v))
     @ [ucast (v AND 0x7F) OR 0x80]"
  by (simp add: mb_continued_def mb_digits.simps [of v] Let_def)

lemma mb_bytes_step:
  "mb_bytes v = (if drop_bit 7 v = 0 then [] else mb_continued (drop_bit 7 v))
     @ [ucast (v AND 0x7F)]"
  by (simp add: mb_bytes_def mb_continued_def mb_digits.simps [of v] Let_def)

text \<open>The buffer of five bytes is always large enough: the index of the first loop stays below 5.\<close>

lemma length_mb_digits_le:
  "unat v < 128 ^ Suc n \<Longrightarrow> length (mb_digits v) \<le> Suc n"
proof (induction n arbitrary: v)
  case 0
  then have "unat (drop_bit 7 v) = 0" by (simp add: unat_drop_bit)
  then have "drop_bit 7 v = 0" by (simp add: unat_eq_0)
  then show ?case by (simp add: mb_digits.simps [of v] Let_def)
next
  case (Suc n)
  have "unat v < 128 ^ Suc n * 128" using Suc.prems by (simp add: mult.commute)
  then have "unat (drop_bit 7 v) < 128 ^ Suc n" by (simp add: unat_drop_bit less_mult_imp_div_less)
  then have "length (mb_digits (drop_bit 7 v)) \<le> Suc n" by (rule Suc.IH)
  then show ?case by (simp add: mb_digits.simps [of v] Let_def)
qed

lemma length_mb_digits: "length (mb_digits v) \<le> 5"
proof -
  have "unat v < 2 ^ LENGTH(32)" by (rule unsigned_less)
  then show ?thesis using length_mb_digits_le [of v 4] by simp
qed

section \<open>The bytes of an element\<close>

fun enc_tag :: "u8 \<Rightarrow> u8 \<Rightarrow> u8 \<Rightarrow> bool \<Rightarrow> u8 list" where
  "enc_tag cur page t content =
     (if page \<noteq> cur then [SWITCH_PAGE, page] else [])
       @ [if content then (t AND 0x3F) OR WITH_CONTENT else t AND 0x3F]"

fun last_page :: "u8 \<Rightarrow> wbxml_element \<Rightarrow> u8" where
  "last_page cur (WbxmlElement page t cs v) = fold (\<lambda>c p. last_page p c) cs page"

abbreviation last_pages :: "u8 \<Rightarrow> wbxml_element list \<Rightarrow> u8" where
  "last_pages cur cs \<equiv> fold (\<lambda>c p. last_page p c) cs cur"

fun enc :: "u8 \<Rightarrow> wbxml_element \<Rightarrow> u8 list"
  and encs :: "u8 \<Rightarrow> wbxml_element list \<Rightarrow> u8 list" where
  "enc cur (WbxmlElement page t cs v) =
     (if cs \<noteq> [] then enc_tag cur page t True @ encs page cs @ [END_TOKEN]
      else case v of
          EmptyValue \<Rightarrow> enc_tag cur page t False
        | TextValue str \<Rightarrow>
            enc_tag cur page t True @ STR_I # as_bytes str @ [0, END_TOKEN]
        | OpaqueValue b \<Rightarrow>
            if b = [] then enc_tag cur page t False
            else enc_tag cur page t True
                   @ OPAQUE # mb_bytes (of_nat (length b)) @ b @ [END_TOKEN])"
| "encs cur [] = []"
| "encs cur (c # cs) = enc cur c @ encs (last_page cur c) cs"

fun pages_valid :: "wbxml_element \<Rightarrow> bool" where
  "pages_valid (WbxmlElement page t cs v) \<longleftrightarrow> is_valid_page page \<and> list_all pages_valid cs"

lemma emit_tag_enc:
  "is_valid_page page \<Longrightarrow>
   emit_tag page t (\<not> content) s =
     Inr (s\<lparr>ser_output := ser_output s @ enc_tag (ser_page s) page t content, ser_page := page\<rparr>)"
  by (auto simp: emit_tag_def push_bytes_def)

lemma flush_pending_None: "ser_pending s = None \<Longrightarrow> flush_pending d s = Inr s"
  by (simp add: flush_pending_def)

lemma flush_pending_clears: "flush_pending d s = Inr s0 \<Longrightarrow> ser_pending s0 = None"
  by (auto simp: flush_pending_def emit_tag_def push_bytes_def Let_def
      split: option.splits prod.splits if_splits)

text \<open>Closing an element whose start tag has been flushed: the END byte, one level up.\<close>

lemma ser_end_flushed:
  "ser_pending s = None \<Longrightarrow> ser_depth s = Suc d \<Longrightarrow>
   ser_end s = Inr (s\<lparr>ser_output := ser_output s @ [END_TOKEN], ser_depth := d\<rparr>)"
  by (simp add: ser_end_def push_bytes_def)

definition enc_ok :: "wbxml_element \<Rightarrow> bool" where
  "enc_ok e \<longleftrightarrow> (\<forall>s s0. flush_pending False s = Inr s0 \<longrightarrow>
     serialize_element e s =
       Inr (s0\<lparr>ser_output := ser_output s0 @ enc (ser_page s0) e,
              ser_page := last_page (ser_page s0) e\<rparr>))"

lemma serialize_children_enc:
  assumes "list_all enc_ok cs" and "ser_pending s = None"
  shows "serialize_children cs s =
    Inr (s\<lparr>ser_output := ser_output s @ encs (ser_page s) cs,
           ser_page := last_pages (ser_page s) cs\<rparr>)"
  using assms
proof (induction cs arbitrary: s)
  case Nil
  then show ?case by simp
next
  case (Cons c cs)
  let ?s = "s\<lparr>ser_output := ser_output s @ enc (ser_page s) c, ser_page := last_page (ser_page s) c\<rparr>"
  have "serialize_element c s = Inr ?s"
    using Cons.prems flush_pending_None [of s False] by (simp add: enc_ok_def)
  moreover have "serialize_children cs ?s =
      Inr (?s\<lparr>ser_output := ser_output ?s @ encs (ser_page ?s) cs,
              ser_page := last_pages (ser_page ?s) cs\<rparr>)"
    using Cons.prems by (intro Cons.IH) simp_all
  ultimately show ?case by simp
qed

lemma serialize_children_flush:
  assumes "list_all enc_ok cs" and "cs \<noteq> []" and "flush_pending False s = Inr s0"
  shows "serialize_children cs s = serialize_children cs s0"
proof -
  from assms(2) obtain c cs' where cs: "cs = c # cs'" by (cases cs) auto
  have "ser_pending s0 = None" using assms(3) by (rule flush_pending_clears)
  with assms show ?thesis
    using flush_pending_None [of s0 False] by (simp add: cs enc_ok_def)
qed

lemma serialize_element_enc_ok: "pages_valid e \<Longrightarrow> enc_ok e"
proof (induction e)
  case (WbxmlElement page t cs v)
  have valid: "is_valid_page page" and cs: "list_all enc_ok cs"
    using WbxmlElement by (auto simp: list_all_iff)
  show ?case unfolding enc_ok_def
  proof (intro allI impI)
    fix s s0
    assume s0: "flush_pending False s = Inr s0"
    let ?open = "s0\<lparr>ser_output := ser_output s0 @ enc_tag (ser_page s0) page t True, ser_page := page,
                    ser_depth := Suc (ser_depth s0)\<rparr>"
    have none: "ser_pending s0 = None" using s0 by (rule flush_pending_clears)
    have start: "ser_start page t s = Inr (s0\<lparr>ser_pending := Some (page, t)\<rparr>)"
      by (simp add: ser_start_def s0)
    have flush: "flush_pending False (s0\<lparr>ser_pending := Some (page, t)\<rparr>) = Inr ?open"
      using emit_tag_enc [OF valid, of t True "s0\<lparr>ser_pending := None\<rparr>"]
      by (simp add: flush_pending_def none [symmetric])
    have degenerate: "ser_end (s0\<lparr>ser_pending := Some (page, t)\<rparr>) =
        Inr (s0\<lparr>ser_output := ser_output s0 @ enc_tag (ser_page s0) page t False, ser_page := page\<rparr>)"
      using emit_tag_enc [OF valid, of t False "s0\<lparr>ser_pending := None\<rparr>"]
      by (simp add: ser_end_def none [symmetric])
    show "serialize_element (WbxmlElement page t cs v) s =
        Inr (s0\<lparr>ser_output := ser_output s0 @ enc (ser_page s0) (WbxmlElement page t cs v),
               ser_page := last_page (ser_page s0) (WbxmlElement page t cs v)\<rparr>)"
    proof (cases "cs = []")
      case False
      then show ?thesis
        using serialize_children_flush [OF cs False flush] serialize_children_enc [OF cs, of ?open]
        by (simp add: start none ser_end_flushed del: enc_tag.simps)
    next
      case True
      then show ?thesis
        by (cases v) (simp_all add: start flush degenerate none ser_end_flushed ser_text_def
            ser_opaque_def write_inline_string_def write_multibyte_uint_def push_bytes_def
            del: enc_tag.simps)
    qed
  qed
qed

lemma serialize_tree_enc:
  assumes "pages_valid e"
  shows "serialize_tree e = Inr (HEADER @ enc 0 e)"
proof -
  have "flush_pending False serializer_new = Inr serializer_new"
    by (simp add: flush_pending_None serializer_new_def)
  with serialize_element_enc_ok [OF assms]
  have "serialize_element e serializer_new =
      Inr (serializer_new\<lparr>ser_output := HEADER @ enc 0 e, ser_page := last_page 0 e\<rparr>)"
    by (simp add: enc_ok_def serializer_new_def)
  then show ?thesis by (simp add: serialize_tree_def ser_done_def serializer_new_def)
qed

text \<open>An element on an unregistered code page is refused, wherever it sits in the tree.\<close>

lemma emit_tag_invalid:
  "\<not> is_valid_page page \<Longrightarrow> is_valid_page (ser_page s) \<Longrightarrow> emit_tag page t d s = Inl (UnknownCodePage page)"
  by (auto simp: emit_tag_def)

lemma serialize_element_flush_error:
  "flush_pending False s = Inl err \<Longrightarrow> serialize_element e s = Inl err"
  by (cases e) (simp add: ser_start_def)

lemma last_page_valid: "pages_valid e \<Longrightarrow> is_valid_page (last_page cur e)"
proof (induction e arbitrary: cur)
  case (WbxmlElement page t cs v)
  then have "list_all pages_valid cs" "is_valid_page page" by simp_all
  moreover have "is_valid_page (last_pages p ds)"
    if "set ds \<subseteq> set cs" and "list_all pages_valid ds" and "is_valid_page p" for p ds
    using that
  proof (induction ds arbitrary: p)
    case (Cons d ds)
    then show ?case using WbxmlElement.IH [of d p] by simp
  qed simp
  ultimately show ?case by simp
qed

definition refused :: "wbxml_element \<Rightarrow> bool" where
  "refused e \<longleftrightarrow> (\<forall>s s0. flush_pending False s = Inr s0 \<longrightarrow> is_valid_page (ser_page s0) \<longrightarrow>
     (\<exists>p. serialize_element e s = Inl (UnknownCodePage p)))"

lemma serialize_children_refused:
  assumes "\<not> list_all pages_valid cs" and "\<forall>c \<in> set cs. \<not> pages_valid c \<longrightarrow> refused c"
    and "flush_pending False s = Inr s0" and "is_valid_page (ser_page s0)"
  shows "\<exists>p. serialize_children cs s = Inl (UnknownCodePage p)"
  using assms
proof (induction cs arbitrary: s s0)
  case (Cons c cs)
  show ?case
  proof (cases "pages_valid c")
    case False
    with Cons.prems have "\<exists>p. serialize_element c s = Inl (UnknownCodePage p)"
      by (auto simp: refused_def)
    then show ?thesis by auto
  next
    case True
    let ?s = "s0\<lparr>ser_output := ser_output s0 @ enc (ser_page s0) c, ser_page := last_page (ser_page s0) c\<rparr>"
    have "serialize_element c s = Inr ?s"
      using serialize_element_enc_ok [OF True] Cons.prems(3) by (simp add: enc_ok_def)
    moreover have "flush_pending False ?s = Inr ?s"
      by (rule flush_pending_None) (simp add: flush_pending_clears [OF Cons.prems(3)])
    ultimately show ?thesis using Cons.IH [of ?s ?s] Cons.prems(1,2) True
      by (simp add: last_page_valid)
  qed
qed simp

lemma serialize_element_refused: "\<not> pages_valid e \<Longrightarrow> refused e"
proof (induction e)
  case (WbxmlElement page t cs v)
  show ?case unfolding refused_def
  proof (intro allI impI)
    fix s s0
    assume s0: "flush_pending False s = Inr s0" and cur: "is_valid_page (ser_page s0)"
    let ?s = "s0\<lparr>ser_pending := Some (page, t)\<rparr>"
    have start: "ser_start page t s = Inr ?s" by (simp add: ser_start_def s0)
    show "\<exists>p. serialize_element (WbxmlElement page t cs v) s = Inl (UnknownCodePage p)"
    proof (cases "is_valid_page page")
      case False
      then have flush: "flush_pending False ?s = Inl (UnknownCodePage page)"
        and "ser_end ?s = Inl (UnknownCodePage page)"
        using cur by (simp_all add: flush_pending_def ser_end_def emit_tag_invalid)
      then show ?thesis
        by (cases v; cases cs) (auto simp: start ser_text_def ser_opaque_def serialize_element_flush_error)
    next
      case True
      with WbxmlElement have cs: "\<not> list_all pages_valid cs"
        "\<forall>c \<in> set cs. \<not> pages_valid c \<longrightarrow> refused c" by auto
      let ?open = "s0\<lparr>ser_output := ser_output s0 @ enc_tag (ser_page s0) page t True,
          ser_page := page, ser_depth := Suc (ser_depth s0)\<rparr>"
      have "flush_pending False ?s = Inr ?open"
        using emit_tag_enc [OF True, of t True "s0\<lparr>ser_pending := None\<rparr>"]
          flush_pending_clears [OF s0] by (simp add: flush_pending_def)
      from serialize_children_refused [OF cs this] True obtain p
        where "serialize_children cs ?s = Inl (UnknownCodePage p)" by auto
      with cs(1) show ?thesis by (auto simp: start)
    qed
  qed
qed

lemma serialize_tree_refused:
  assumes "\<not> pages_valid e"
  shows "\<exists>p. serialize_tree e = Inl (UnknownCodePage p)"
proof -
  have "flush_pending False serializer_new = Inr serializer_new"
    by (simp add: flush_pending_None serializer_new_def)
  moreover have "is_valid_page (ser_page serializer_new)"
    by (simp add: serializer_new_def is_valid_page_def NUM_CODE_PAGES_def)
  ultimately have "\<exists>p. serialize_element e serializer_new = Inl (UnknownCodePage p)"
    using serialize_element_refused [OF assms] unfolding refused_def by blast
  then show ?thesis by (auto simp: serialize_tree_def)
qed

end
