(* ===== verification/Wbxml_Deserializer.thy ===== *)
theory Wbxml_Deserializer
  imports Wbxml_Serializer
begin

text \<open>
  \<open>eas/wbxml/deserializer.rs\<close>: the pull parser \<open>Deserializer\<close> and \<open>deserialize_to_tree\<close>, and
  the round trip through \<open>serialize_tree\<close>. A \<open>Vec\<close> used as a stack is a list whose head is the
  top. \<open>deserialize_to_tree\<close> contains an \<open>expect\<close>, so it returns a \<^typ>\<open>'a panicky\<close>.
\<close>

section \<open>The pull parser\<close>

datatype deserializer_event = EvStart | EvEnd | EvText | EvOpaque | EvDone

record deserializer =
  de_input :: "u8 list"
  de_pos :: nat
  de_open_stack :: "(u8 \<times> u8) list"
  de_current_page :: u8
  de_current_tag :: "u8 \<times> u8"
  de_no_content :: bool
  de_text :: string
  de_opaque_bytes :: "u8 list"
  de_last_event :: "deserializer_event option"

definition push_tag :: "u8 \<Rightarrow> deserializer \<Rightarrow> deserializer" where
  "push_tag t d =
     (let pair = (de_current_page d, t)
      in d\<lparr>de_current_tag := pair, de_open_stack := pair # de_open_stack d\<rparr>)"

definition pop_tag :: "deserializer \<Rightarrow> deserializer" where
  "pop_tag d =
     (case de_open_stack d of
        [] \<Rightarrow> d
      | popped # st \<Rightarrow> d\<lparr>de_open_stack := st, de_current_tag := popped\<rparr>)"

definition read_byte :: "deserializer \<Rightarrow> wbxml_error + u8 \<times> deserializer" where
  "read_byte d =
     (if de_pos d < length (de_input d)
      then Inr (de_input d ! de_pos d, d\<lparr>de_pos := de_pos d + 1\<rparr>)
      else Inl UnexpectedEof)"

function read_uint_loop :: "nat \<Rightarrow> u32 \<Rightarrow> deserializer \<Rightarrow> wbxml_error + u32 \<times> deserializer" where
  "read_uint_loop count result d =
     (if count \<ge> 5 then Inl InvalidMultibyteInteger
      else res_bind (read_byte d) (\<lambda>(b, d).
        let result = push_bit 7 result OR ucast (b AND 0x7F)
        in if b AND 0x80 = 0 then Inr (result, d)
           else read_uint_loop (count + 1) result d))"
  by pat_completeness auto
termination by (relation "measure (\<lambda>(count, _, _). 5 - count)") auto

declare read_uint_loop.simps [simp del]

definition read_uint :: "deserializer \<Rightarrow> wbxml_error + u32 \<times> deserializer" where
  "read_uint = read_uint_loop 0 0"

function read_string_loop :: "nat \<Rightarrow> deserializer \<Rightarrow> wbxml_error + string \<times> deserializer" where
  "read_string_loop start d =
     (if de_pos d < length (de_input d)
      then if de_input d ! de_pos d = 0
           then Inr (from_utf8_lossy (take (de_pos d - start) (drop start (de_input d))),
                     d\<lparr>de_pos := de_pos d + 1\<rparr>)
           else read_string_loop start (d\<lparr>de_pos := de_pos d + 1\<rparr>)
      else Inl UnexpectedEof)"
  by pat_completeness auto
termination by (relation "measure (\<lambda>(_, d). length (de_input d) - de_pos d)") auto

declare read_string_loop.simps [simp del]

definition read_inline_string :: "deserializer \<Rightarrow> wbxml_error + string \<times> deserializer" where
  "read_inline_string d = read_string_loop (de_pos d) d"

definition read_opaque :: "nat \<Rightarrow> deserializer \<Rightarrow> wbxml_error + deserializer" where
  "read_opaque n d =
     (if de_pos d + n > length (de_input d) then Inl UnexpectedEof
      else Inr (d\<lparr>de_opaque_bytes := de_opaque_bytes d @ take n (drop (de_pos d) (de_input d)),
                  de_pos := de_pos d + n\<rparr>))"

definition read_header :: "deserializer \<Rightarrow> wbxml_error + deserializer" where
  "read_header d =
     (if de_input d = [] then Inl EmptyStream
      else res_bind (read_byte d) (\<lambda>(version, d).
           res_bind (read_uint d) (\<lambda>(public_id, d).
           res_bind (read_uint d) (\<lambda>(charset, d).
           if charset \<noteq> 0x6A then Inl InvalidUtf8
           else res_bind (read_uint d) (\<lambda>(string_table_len, d).
                if string_table_len \<noteq> 0 then Inl StringTableUnsupported else Inr d)))))"

definition deserializer_new :: "u8 list \<Rightarrow> wbxml_error + deserializer" where
  "deserializer_new input =
     read_header \<lparr>de_input = input, de_pos = 0, de_open_stack = [], de_current_page = 0,
       de_current_tag = (0, 0), de_no_content = False, de_text = [], de_opaque_bytes = [],
       de_last_event = None\<rparr>"

definition de_depth :: "deserializer \<Rightarrow> nat" where
  "de_depth d = length (de_open_stack d)"

lemma read_byte_pos: "read_byte d = Inr (b, d') \<Longrightarrow>
    d' = d\<lparr>de_pos := Suc (de_pos d)\<rparr> \<and> de_pos d < length (de_input d)"
  by (auto simp: read_byte_def split: if_splits)

function switch_pages :: "u8 \<Rightarrow> deserializer \<Rightarrow> wbxml_error + u8 \<times> deserializer" where
  "switch_pages i d =
     (if i = SWITCH_PAGE
      then res_bind (read_byte d) (\<lambda>(new_page, d).
           if \<not> is_valid_page new_page then Inl (UnknownCodePage new_page)
           else res_bind (read_byte (d\<lparr>de_current_page := new_page\<rparr>)) (\<lambda>(i, d). switch_pages i d))
      else Inr (i, d))"
  by pat_completeness auto
termination
  by (relation "measure (\<lambda>(_, d). length (de_input d) - de_pos d)") (auto dest!: read_byte_pos)

declare switch_pages.simps [simp del]

definition dispatch_token :: "u8 \<Rightarrow> deserializer \<Rightarrow> wbxml_error + deserializer_event \<times> deserializer" where
  "dispatch_token i d =
     (if i = END_TOKEN then Inr (EvEnd, pop_tag d)
      else if i = STR_I then
        res_bind (read_inline_string d) (\<lambda>(str, d). Inr (EvText, d\<lparr>de_text := str\<rparr>))
      else if i = OPAQUE then
        res_bind (read_uint d) (\<lambda>(n, d).
        res_bind (read_opaque (unat n) d) (\<lambda>d. Inr (EvOpaque, d)))
      else if i = ENTITY \<or> i = LITERAL then Inl (UnsupportedGlobalToken i)
      else if i AND WITH_ATTRIBUTES \<noteq> 0 then Inl (AttributesUnsupported i)
      else let t = i AND 0x3F;
               has_content = i AND 0x40 \<noteq> 0;
               d = (push_tag t d)\<lparr>de_no_content := \<not> has_content\<rparr>;
               d = (if \<not> has_content then pop_tag d else d)
           in Inr (EvStart, d))"

definition de_next :: "deserializer \<Rightarrow> wbxml_error + deserializer_event \<times> deserializer" where
  "de_next d0 =
     (let d = d0\<lparr>de_text := [], de_opaque_bytes := []\<rparr>
      in if de_no_content d
         then Inr (EvEnd, d\<lparr>de_no_content := False, de_last_event := Some EvEnd\<rparr>)
         else if de_pos d \<ge> length (de_input d)
         then Inr (EvDone, d\<lparr>de_last_event := Some EvDone\<rparr>)
         else res_bind (read_byte d) (\<lambda>(i, d).
              res_bind (switch_pages i d) (\<lambda>(i, d).
              res_bind (dispatch_token i d) (\<lambda>(event, d).
              Inr (event, d\<lparr>de_last_event := Some event\<rparr>)))))"

section \<open>Progress of the parser\<close>

text \<open>Every operation keeps the input and never moves backwards.\<close>

definition advances :: "deserializer \<Rightarrow> deserializer \<Rightarrow> bool" where
  "advances d d' \<longleftrightarrow> de_input d' = de_input d \<and> de_pos d \<le> de_pos d'"

lemma advances_refl [simp]: "advances d d"
  by (simp add: advances_def)

lemma advances_trans: "advances d d' \<Longrightarrow> advances d' d'' \<Longrightarrow> advances d d''"
  by (auto simp: advances_def)

lemma read_uint_loop_advances:
  "read_uint_loop count r d = Inr (v, d') \<Longrightarrow> advances d d' \<and> de_no_content d' = de_no_content d"
proof (induction count r d rule: read_uint_loop.induct)
  case (1 count r d)
  show ?case
  proof (cases "read_byte d")
    case (Inl e)
    with "1.prems" show ?thesis by (simp add: read_uint_loop.simps [of count] split: if_splits)
  next
    case (Inr p)
    obtain b d1 where p: "p = (b, d1)" by (cases p)
    with Inr have rb: "read_byte d = Inr (b, d1)" by simp
    note d1 = read_byte_pos [OF this]
    show ?thesis
    proof (cases "b AND 0x80 = 0")
      case True
      with "1.prems" rb d1 show ?thesis
        by (auto simp: read_uint_loop.simps [of count] advances_def split: if_splits)
    next
      case False
      with "1.prems" rb have c: "\<not> 5 \<le> count" and
        "read_uint_loop (count + 1) (push_bit 7 r OR ucast (b AND 0x7F)) d1 = Inr (v, d')"
        by (auto simp: read_uint_loop.simps [of count] split: if_splits)
      then have "advances d1 d' \<and> de_no_content d' = de_no_content d1"
        using "1.IH" [OF c rb refl refl False] by simp
      with d1 show ?thesis by (auto simp: advances_def)
    qed
  qed
qed

lemma read_string_loop_advances:
  "read_string_loop start d = Inr (str, d') \<Longrightarrow> advances d d' \<and> de_no_content d' = de_no_content d"
proof (induction start d rule: read_string_loop.induct)
  case (1 start d)
  from "1.prems" show ?case
    using "1.IH" by (subst (asm) read_string_loop.simps) (force simp: advances_def split: if_splits)
qed

lemma switch_pages_advances:
  "switch_pages i d = Inr (j, d') \<Longrightarrow> advances d d' \<and> de_no_content d' = de_no_content d"
proof (induction i d rule: switch_pages.induct)
  case (1 i d)
  show ?case
  proof (cases "i = SWITCH_PAGE")
    case False
    with "1.prems" show ?thesis by (simp add: switch_pages.simps [of i])
  next
    case True
    have "switch_pages SWITCH_PAGE d = Inr (j, d')" using "1.prems" True by simp
    then obtain np d1 k d2
      where r1: "read_byte d = Inr (np, d1)" and v: "is_valid_page np"
        and r2: "read_byte (d1\<lparr>de_current_page := np\<rparr>) = Inr (k, d2)"
        and sw: "switch_pages k d2 = Inr (j, d')"
      by (subst (asm) switch_pages.simps) (auto simp: res_simps split: if_splits)
    from "1.IH" [OF True r1 refl _ r2 refl sw] v
    show ?thesis using read_byte_pos [OF r1] read_byte_pos [OF r2] by (auto simp: advances_def)
  qed
qed

lemma dispatch_token_advances: "dispatch_token i d = Inr (ev, d') \<Longrightarrow> advances d d' \<and> ev \<noteq> EvDone"
  by (auto simp: dispatch_token_def res_simps read_inline_string_def read_uint_def read_opaque_def
      pop_tag_def push_tag_def Let_def advances_def
      dest!: read_uint_loop_advances read_string_loop_advances split: if_splits list.splits)

definition de_measure :: "deserializer \<Rightarrow> nat" where
  "de_measure d = 2 * (length (de_input d) - de_pos d) + (if de_no_content d then 1 else 0)"

lemma de_next_decreases:
  assumes "de_next d = Inr (ev, d')" and "ev \<noteq> EvDone"
  shows "de_measure d' < de_measure d"
proof (cases "de_no_content d")
  case True
  with assms show ?thesis by (auto simp: de_next_def de_measure_def)
next
  case False
  let ?d = "d\<lparr>de_text := [], de_opaque_bytes := []\<rparr>"
  from False assms obtain i d1 j d2 d3
    where lt: "de_pos d < length (de_input d)"
      and rb: "read_byte ?d = Inr (i, d1)" and sw: "switch_pages i d1 = Inr (j, d2)"
      and dt: "dispatch_token j d2 = Inr (ev, d3)" and d': "d' = d3\<lparr>de_last_event := Some ev\<rparr>"
    by (auto simp: de_next_def Let_def res_simps split: if_splits)
  have "advances d1 d3"
    using switch_pages_advances [OF sw] dispatch_token_advances [OF dt] advances_trans by blast
  then have "de_input d3 = de_input d \<and> Suc (de_pos d) \<le> de_pos d3"
    using read_byte_pos [OF rb] by (auto simp: advances_def)
  with lt d' False show ?thesis by (auto simp: de_measure_def)
qed

section \<open>The tree builder\<close>

function tree_loop :: "deserializer \<Rightarrow> wbxml_element list \<Rightarrow> wbxml_element option
    \<Rightarrow> (wbxml_error + wbxml_element) panicky" where
  "tree_loop d stack root =
     (case de_next d of
        Inl e \<Rightarrow> Returned (Inl e)
      | Inr (event, d') \<Rightarrow>
          (case event of
             EvDone \<Rightarrow>
               Returned (case root of Some el \<Rightarrow> Inr el | None \<Rightarrow> Inl UnexpectedEndOfDocument)
           | EvStart \<Rightarrow>
               (case de_current_tag d' of (page, t) \<Rightarrow> tree_loop d' (el_empty page t # stack) root)
           | EvText \<Rightarrow>
               tree_loop d' (case stack of
                   el # st \<Rightarrow> WbxmlElement (el_page el) (el_token el) (el_children el)
                                 (TextValue (de_text d')) # st
                 | [] \<Rightarrow> []) root
           | EvOpaque \<Rightarrow>
               tree_loop d' (case stack of
                   el # st \<Rightarrow> WbxmlElement (el_page el) (el_token el) (el_children el)
                                 (OpaqueValue (de_opaque_bytes d')) # st
                 | [] \<Rightarrow> []) root
           | EvEnd \<Rightarrow>
               (case stack of
                  [] \<Rightarrow> Panicked
                | el # parent # st \<Rightarrow> tree_loop d' (with_child parent el # st) root
                | [el] \<Rightarrow>
                    (if root = None then tree_loop d' [] (Some el)
                     else Returned (Inl (UnexpectedToken ''single root element'' END_TOKEN))))))"
  by pat_completeness auto
termination
  by (relation "measure (\<lambda>(d, _, _). de_measure d)") (auto intro: de_next_decreases)

declare tree_loop.simps [simp del]

definition deserialize_to_tree :: "u8 list \<Rightarrow> (wbxml_error + wbxml_element) panicky" where
  "deserialize_to_tree input =
     (case deserializer_new input of
        Inl e \<Rightarrow> Returned (Inl e)
      | Inr d \<Rightarrow> tree_loop d [] None)"

section \<open>Reading back what the serializer writes\<close>

definition at_bytes :: "deserializer \<Rightarrow> u8 list \<Rightarrow> bool" where
  "at_bytes d bs \<longleftrightarrow> drop (de_pos d) (de_input d) = bs"

definition skip :: "nat \<Rightarrow> deserializer \<Rightarrow> deserializer" where
  "skip n d = d\<lparr>de_pos := de_pos d + n\<rparr>"

lemma skip_simps [simp]:
  "de_input (skip n d) = de_input d" "de_pos (skip n d) = de_pos d + n"
  "de_open_stack (skip n d) = de_open_stack d" "de_current_page (skip n d) = de_current_page d"
  "de_current_tag (skip n d) = de_current_tag d" "de_no_content (skip n d) = de_no_content d"
  "de_text (skip n d) = de_text d" "de_opaque_bytes (skip n d) = de_opaque_bytes d"
  "skip m (skip n d) = skip (n + m) d" "skip 0 d = d"
  by (simp_all add: skip_def add.assoc)

lemma at_bytes_skip: "at_bytes d (xs @ ys) \<Longrightarrow> n = length xs \<Longrightarrow> at_bytes (skip n d) ys"
  by (simp add: at_bytes_def drop_eq_append_imp)

lemma read_byte_at: "at_bytes d (b # bs) \<Longrightarrow> read_byte d = Inr (b, skip 1 d)"
  by (auto simp: at_bytes_def read_byte_def skip_def dest!: drop_eq_Cons_nth)

lemma read_uint_loop_at:
  "at_bytes d (b # bs) \<Longrightarrow> c < 5 \<Longrightarrow>
   read_uint_loop c r d =
     (let r' = push_bit 7 r OR ucast (b AND 0x7F)
      in if b AND 0x80 = 0 then Inr (r', skip 1 d) else read_uint_loop (c + 1) r' (skip 1 d))"
  by (subst read_uint_loop.simps) (simp add: read_byte_at Let_def)

lemma length_mb_continued: "length (mb_continued v) = length (mb_digits v)"
  by (simp add: mb_continued_def)

lemma read_uint_continued:
  "at_bytes d (mb_continued v @ bs) \<Longrightarrow>
   read_uint_loop 0 0 d =
     read_uint_loop (length (mb_digits v)) v (skip (length (mb_digits v)) d)"
proof (induction v arbitrary: bs rule: mb_digits.induct)
  case (1 v)
  let ?w = "drop_bit 7 v"
  have flag: "((ucast (v AND 0x7F) :: u8) OR 0x80) AND 0x80 \<noteq> 0" by (rule mb_digit_masks)
  note join = mb_digit_masks(4) [of v] mb_join [of v]
  show ?case
  proof (cases "?w = 0")
    case True
    then have "at_bytes d ((ucast (v AND 0x7F) OR 0x80) # bs)"
      using "1.prems" by (simp add: mb_continued_step [of v])
    from read_uint_loop_at [OF this, of 0 0] True flag join show ?thesis
      by (simp add: mb_digits.simps [of v] Let_def)
  next
    case False
    then have at: "at_bytes d (mb_continued ?w @ (ucast (v AND 0x7F) OR 0x80) # bs)"
      using "1.prems" by (simp add: mb_continued_step [of v])
    let ?n = "length (mb_digits ?w)"
    have len: "length (mb_digits v) = Suc ?n"
      using False by (simp add: mb_digits.simps [of v] Let_def)
    then have "?n < 5" using length_mb_digits [of v] by simp
    moreover have "at_bytes (skip ?n d) ((ucast (v AND 0x7F) OR 0x80) # bs)"
      using at by (rule at_bytes_skip) (simp add: length_mb_continued)
    ultimately have "read_uint_loop ?n ?w (skip ?n d)
        = read_uint_loop (Suc ?n) v (skip (Suc ?n) d)"
      using read_uint_loop_at [of "skip ?n d" _ bs ?n ?w] flag join by (simp add: Let_def)
    with "1.IH" [OF refl refl False at] len show ?thesis by simp
  qed
qed

lemma length_mb_bytes: "length (mb_bytes v) = length (mb_digits v)"
  by (simp add: mb_bytes_def Let_def)

lemma read_uint_mb_bytes:
  assumes at: "at_bytes d (mb_bytes v @ bs)"
  shows "read_uint d = Inr (v, skip (length (mb_bytes v)) d)"
proof -
  let ?w = "drop_bit 7 v" and ?b = "ucast (v AND 0x7F) :: u8"
  note last = mb_digit_masks(1,3) [of v] mb_join [of v]
  show ?thesis
  proof (cases "?w = 0")
    case True
    then have "at_bytes d (?b # bs)" using at by (simp add: mb_bytes_step)
    from read_uint_loop_at [OF this, of 0 0] True last show ?thesis
      by (simp add: read_uint_def mb_bytes_step Let_def)
  next
    case False
    let ?n = "length (mb_digits ?w)"
    have at': "at_bytes d (mb_continued ?w @ ?b # bs)" using at False by (simp add: mb_bytes_step)
    have len: "length (mb_bytes v) = Suc ?n"
      using False by (simp add: mb_bytes_step length_mb_continued)
    then have "?n < 5" using length_mb_digits [of v] by (simp add: length_mb_bytes)
    moreover have "at_bytes (skip ?n d) (?b # bs)"
      using at' by (rule at_bytes_skip) (simp add: length_mb_continued)
    ultimately have "read_uint_loop ?n ?w (skip ?n d) = Inr (v, skip (Suc ?n) d)"
      using read_uint_loop_at [of "skip ?n d" ?b bs ?n ?w] last by (simp add: Let_def)
    with read_uint_continued [OF at'] len show ?thesis by (simp add: read_uint_def)
  qed
qed

lemma read_string_at:
  "at_bytes (skip k d) (xs @ 0 # bs) \<Longrightarrow> 0 \<notin> set xs \<Longrightarrow>
   read_string_loop (de_pos d) (skip k d) =
     Inr (from_utf8_lossy (take (k + length xs) (drop (de_pos d) (de_input d))),
          skip (k + length xs + 1) d)"
proof (induction xs arbitrary: k)
  case Nil
  then show ?case
    by (subst read_string_loop.simps) (auto simp: at_bytes_def skip_def dest!: drop_eq_Cons_nth)
next
  case (Cons x xs)
  have at: "at_bytes (skip (Suc k) d) (xs @ 0 # bs)"
    using at_bytes_skip [of "skip k d" "[x]" "xs @ 0 # bs" 1] Cons.prems by simp
  have "read_string_loop (de_pos d) (skip k d) = read_string_loop (de_pos d) (skip (Suc k) d)"
    using Cons.prems
    by (subst read_string_loop.simps) (auto simp: at_bytes_def skip_def dest!: drop_eq_Cons_nth)
  with Cons.IH [OF at] Cons.prems show ?case by simp
qed

lemma read_inline_string_at:
  assumes "at_bytes d (as_bytes str @ 0 # bs)" and "utf8_string str" and "CHR 0x00 \<notin> set str"
  shows "read_inline_string d = Inr (str, skip (Suc (length str)) d)"
proof -
  have nz: "0 \<notin> set (as_bytes str)" using assms(3) by (simp add: zero_in_as_bytes)
  have "take (length str) (drop (de_pos d) (de_input d)) = as_bytes str"
    using assms(1) by (simp add: at_bytes_def)
  with read_string_at [of 0 d "as_bytes str" bs] assms nz show ?thesis
    by (simp add: read_inline_string_def)
qed

section \<open>The events of an encoded element\<close>

fun leaf_wf :: "wbxml_value \<Rightarrow> bool" where
  "leaf_wf EmptyValue \<longleftrightarrow> True"
| "leaf_wf (TextValue str) \<longleftrightarrow> utf8_string str \<and> CHR 0x00 \<notin> set str"
| "leaf_wf (OpaqueValue b) \<longleftrightarrow> b \<noteq> [] \<and> length b < 2 ^ 32"

fun codec_wf :: "wbxml_element \<Rightarrow> bool" where
  "codec_wf (WbxmlElement page t cs v) \<longleftrightarrow>
     is_valid_page page \<and> TAG_BASE \<le> t \<and> t < 0x40 \<and> list_all codec_wf cs \<and>
     (if cs \<noteq> [] then v = EmptyValue else leaf_wf v)"

lemma codec_wf_pages_valid: "codec_wf e \<Longrightarrow> pages_valid e"
  by (induction e) (auto simp: list_all_iff)

definition is_tag_byte :: "u8 \<Rightarrow> u8 \<Rightarrow> bool \<Rightarrow> bool" where
  "is_tag_byte b t content \<longleftrightarrow>
     b \<noteq> SWITCH_PAGE \<and> b \<noteq> END_TOKEN \<and> b \<noteq> STR_I \<and> b \<noteq> OPAQUE \<and> b \<noteq> ENTITY \<and> b \<noteq> LITERAL
     \<and> b AND WITH_ATTRIBUTES = 0 \<and> b AND 0x3F = t \<and> (b AND 0x40 \<noteq> 0) = content"

definition tag_byte :: "u8 \<Rightarrow> bool \<Rightarrow> u8" where
  "tag_byte t content = (if content then (t AND 0x3F) OR WITH_CONTENT else t AND 0x3F)"

lemma enc_tag_byte:
  "enc_tag cur page t content = (if page \<noteq> cur then [SWITCH_PAGE, page] else []) @ [tag_byte t content]"
  by (simp add: tag_byte_def)

lemma tag_bytes_ok: "list_all (\<lambda>n. let t = word_of_nat n
    in is_tag_byte (tag_byte t True) t True \<and> is_tag_byte (tag_byte t False) t False) [5..<64]"
  by code_simp

lemma tag_byte_ok: "TAG_BASE \<le> t \<Longrightarrow> t < 0x40 \<Longrightarrow> is_tag_byte (tag_byte t content) t content"
proof -
  assume "TAG_BASE \<le> t" and "t < 0x40"
  then have "unat t \<in> set [5..<64]"
    by (simp add: word_le_nat_alt word_less_nat_alt del: upt_rec_numeral)
  then have "is_tag_byte (tag_byte (word_of_nat (unat t)) True) (word_of_nat (unat t)) True \<and>
      is_tag_byte (tag_byte (word_of_nat (unat t)) False) (word_of_nat (unat t)) False"
    using tag_bytes_ok by (simp only: list_all_iff Let_def)
  then show ?thesis by (cases content) simp_all
qed

definition ready :: "deserializer \<Rightarrow> u8 \<Rightarrow> u8 list \<Rightarrow> bool" where
  "ready d page bs \<longleftrightarrow> at_bytes d bs \<and> de_current_page d = page \<and> \<not> de_no_content d"

lemma ready_not_at_end:
  assumes "ready d page (b # bs)"
  shows "de_next d =
    (let d = d\<lparr>de_text := [], de_opaque_bytes := []\<rparr>
     in res_bind (switch_pages b (skip 1 d)) (\<lambda>(i, d).
        res_bind (dispatch_token i d) (\<lambda>(event, d).
        Inr (event, d\<lparr>de_last_event := Some event\<rparr>))))"
proof -
  let ?d = "d\<lparr>de_text := [], de_opaque_bytes := []\<rparr>"
  have "at_bytes ?d (b # bs)" using assms by (simp add: ready_def at_bytes_def)
  then have "read_byte ?d = Inr (b, skip 1 ?d)" by (rule read_byte_at)
  moreover have "de_pos d < length (de_input d)"
    using assms by (auto simp: ready_def at_bytes_def dest!: drop_eq_Cons_nth)
  ultimately show ?thesis using assms by (simp add: de_next_def ready_def)
qed

lemma switch_pages_other: "b \<noteq> SWITCH_PAGE \<Longrightarrow> switch_pages b d = Inr (b, d)"
  by (simp add: switch_pages.simps)

lemma switch_pages_one:
  assumes "at_bytes d (page # b # bs)" and "is_valid_page page" and "b \<noteq> SWITCH_PAGE"
  shows "switch_pages SWITCH_PAGE d = Inr (b, (skip 2 d)\<lparr>de_current_page := page\<rparr>)"
proof -
  let ?d = "(skip 1 d)\<lparr>de_current_page := page\<rparr>"
  have "at_bytes (skip 1 d) (b # bs)"
    using at_bytes_skip [of d "[page]" "b # bs" 1] assms(1) by simp
  then have "at_bytes ?d (b # bs)" by (simp add: at_bytes_def)
  then have "read_byte ?d = Inr (b, skip 1 ?d)" by (rule read_byte_at)
  moreover have "skip 1 ?d = (skip 2 d)\<lparr>de_current_page := page\<rparr>" by (simp add: skip_def)
  ultimately show ?thesis
    using read_byte_at [OF assms(1)] assms(2,3)
    by (subst switch_pages.simps) (simp add: switch_pages_other)
qed

lemma dispatch_tag:
  assumes "is_tag_byte b t content"
  shows "dispatch_token b d =
    Inr (EvStart, (if content then push_tag t d else pop_tag (push_tag t d))\<lparr>de_no_content := \<not> content\<rparr>)"
  using assms by (auto simp: is_tag_byte_def dispatch_token_def Let_def pop_tag_def push_tag_def)

text \<open>A start tag, with or without a page switch in front.\<close>

lemma next_tag:
  assumes rd: "ready d cur (enc_tag cur page t content @ bs)" and valid: "is_valid_page page"
    and t: "TAG_BASE \<le> t" "t < 0x40"
  shows "\<exists>d'. de_next d = Inr (EvStart, d') \<and> de_current_tag d' = (page, t) \<and>
    at_bytes d' bs \<and> de_current_page d' = page \<and> de_no_content d' = (\<not> content)"
proof -
  define b where "b = tag_byte t content"
  let ?d = "d\<lparr>de_text := [], de_opaque_bytes := []\<rparr>"
  let ?e = "(skip (if page = cur then 1 else 3) ?d)\<lparr>de_current_page := page\<rparr>"
  have tag: "is_tag_byte b t content" unfolding b_def using t by (rule tag_byte_ok)
  then have b: "b \<noteq> SWITCH_PAGE" by (simp add: is_tag_byte_def)
  have rd: "ready d cur ((if page \<noteq> cur then [SWITCH_PAGE, page] else []) @ b # bs)"
    using rd by (simp add: enc_tag_byte b_def del: enc_tag.simps)
  have at: "at_bytes ?e bs"
    using rd at_bytes_skip [of d "[SWITCH_PAGE, page, b]" bs 3] at_bytes_skip [of d "[b]" bs 1]
    by (auto simp: ready_def at_bytes_def)
  have "de_next d = res_bind (Inr (b, ?e)) (\<lambda>(i, d).
        res_bind (dispatch_token i d) (\<lambda>(event, d). Inr (event, d\<lparr>de_last_event := Some event\<rparr>)))"
  proof (cases "page = cur")
    case True
    with rd have "ready d cur (b # bs)" by simp
    moreover have e: "?e = skip 1 ?d" using True rd by (simp add: ready_def skip_def)
    ultimately show ?thesis unfolding e by (simp only: ready_not_at_end Let_def switch_pages_other [OF b])
  next
    case False
    with rd have rd': "ready d cur (SWITCH_PAGE # page # b # bs)" by simp
    then have "at_bytes (skip 1 ?d) (page # b # bs)"
      using at_bytes_skip [of d "[SWITCH_PAGE]" "page # b # bs" 1] by (simp add: ready_def at_bytes_def)
    from switch_pages_one [OF this valid b]
    have "switch_pages SWITCH_PAGE (skip 1 ?d) = Inr (b, ?e)" using False by (simp add: numeral_3_eq_3)
    with rd' show ?thesis by (simp only: ready_not_at_end Let_def)
  qed
  then show ?thesis using dispatch_tag [OF tag, of ?e] at
    by (cases content) (simp_all add: push_tag_def pop_tag_def at_bytes_def Let_def)
qed

lemma next_degenerate_end:
  assumes "at_bytes d bs" and "de_no_content d"
  shows "\<exists>d'. de_next d = Inr (EvEnd, d') \<and> ready d' (de_current_page d) bs"
  using assms by (simp add: de_next_def ready_def at_bytes_def)

lemma next_end:
  assumes "ready d page (END_TOKEN # bs)"
  shows "\<exists>d'. de_next d = Inr (EvEnd, d') \<and> ready d' page bs"
  using assms at_bytes_skip [of d "[END_TOKEN]" bs 1] ready_not_at_end [OF assms]
  by (auto simp: switch_pages_other dispatch_token_def ready_def at_bytes_def pop_tag_def Let_def
      split: list.splits)

lemma next_text:
  assumes rd: "ready d page (STR_I # as_bytes str @ 0 # bs)" and str: "utf8_string str" "CHR 0x00 \<notin> set str"
  shows "\<exists>d'. de_next d = Inr (EvText, d') \<and> de_text d' = str \<and> ready d' page bs"
proof -
  let ?d = "skip 1 (d\<lparr>de_text := [], de_opaque_bytes := []\<rparr>)"
  have at: "at_bytes ?d (as_bytes str @ 0 # bs)"
    using rd at_bytes_skip [of d "[STR_I]" "as_bytes str @ 0 # bs" 1] by (simp add: ready_def at_bytes_def)
  note read_inline_string_at [OF at str]
  moreover have "at_bytes (skip (Suc (length str)) ?d) bs"
    using at_bytes_skip [of ?d "as_bytes str @ [0]" bs "Suc (length str)"] at by simp
  ultimately show ?thesis
    using rd ready_not_at_end [OF rd]
    by (simp add: switch_pages_other dispatch_token_def ready_def at_bytes_def Let_def)
qed

lemma next_opaque:
  assumes rd: "ready d page (OPAQUE # mb_bytes (of_nat (length b)) @ b @ bs)" and len: "b \<noteq> []" "length b < 2 ^ 32"
  shows "\<exists>d'. de_next d = Inr (EvOpaque, d') \<and> de_opaque_bytes d' = b \<and> ready d' page bs"
proof -
  let ?v = "of_nat (length b) :: u32"
  let ?d = "skip 1 (d\<lparr>de_text := [], de_opaque_bytes := []\<rparr>)"
  let ?e = "skip (length (mb_bytes ?v)) ?d"
  have at: "at_bytes ?d (mb_bytes ?v @ b @ bs)"
    using rd at_bytes_skip [of d "[OPAQUE]" "mb_bytes ?v @ b @ bs" 1] by (simp add: ready_def at_bytes_def)
  have at': "at_bytes ?e (b @ bs)" by (rule at_bytes_skip [OF at]) simp
  have v: "unat ?v = length b" using len by (simp add: unat_of_nat take_bit_nat_eq_self)
  have "de_pos ?e + length b \<le> length (de_input d)"
    using drop_eq_append_length [of "de_pos ?e" "de_input ?e" b bs] at' rd len
    by (cases b) (auto simp: at_bytes_def ready_def dest!: drop_eq_Cons_nth)
  then have "read_opaque (length b) ?e = Inr ((skip (length b) ?e)\<lparr>de_opaque_bytes := b\<rparr>)"
    using at' by (simp add: read_opaque_def skip_def at_bytes_def)
  moreover have "at_bytes (skip (length b) ?e) bs" by (rule at_bytes_skip [OF at']) simp
  ultimately show ?thesis
    using rd ready_not_at_end [OF rd] read_uint_mb_bytes [OF at] v
    by (simp add: switch_pages_other dispatch_token_def ready_def at_bytes_def Let_def)
qed

lemma next_done:
  assumes "ready d page []"
  shows "\<exists>d'. de_next d = Inr (EvDone, d')"
  using assms by (auto simp: ready_def at_bytes_def de_next_def)

section \<open>Rebuilding the tree\<close>

fun attach :: "wbxml_element \<Rightarrow> wbxml_element list \<times> wbxml_element option
    \<Rightarrow> wbxml_element list \<times> wbxml_element option" where
  "attach e ([], root) = ([], Some e)"
| "attach e (parent # st, root) = (with_child parent e # st, root)"

abbreviation tree_loop_at :: "deserializer \<Rightarrow> wbxml_element list \<times> wbxml_element option
    \<Rightarrow> (wbxml_error + wbxml_element) panicky" where
  "tree_loop_at d sr \<equiv> tree_loop d (fst sr) (snd sr)"

text \<open>The loop can take an element here: below an open one, or as the first root.\<close>

definition room :: "wbxml_element list \<times> wbxml_element option \<Rightarrow> bool" where
  "room sr \<longleftrightarrow> (fst sr = [] \<longrightarrow> snd sr = None)"

definition rebuilt :: "wbxml_element \<Rightarrow> bool" where
  "rebuilt e \<longleftrightarrow> (\<forall>d cur bs sr. ready d cur (enc cur e @ bs) \<longrightarrow> room sr \<longrightarrow>
     (\<exists>d'. ready d' (last_page cur e) bs \<and> tree_loop_at d sr = tree_loop_at d' (attach e sr)))"

lemma tree_loop_start:
  "de_next d = Inr (EvStart, d') \<Longrightarrow> de_current_tag d' = (page, t) \<Longrightarrow>
   tree_loop d stack root = tree_loop d' (el_empty page t # stack) root"
  by (subst tree_loop.simps) simp

lemma tree_loop_end:
  "de_next d = Inr (EvEnd, d') \<Longrightarrow> room sr \<Longrightarrow>
   tree_loop d (e # fst sr) (snd sr) = tree_loop_at d' (attach e sr)"
  by (subst tree_loop.simps) (cases sr; auto simp: room_def neq_Nil_conv split: list.split)

lemma tree_loop_leaf:
  "de_next d = Inr (EvText, d') \<Longrightarrow> tree_loop d (el_empty page t # st) root =
     tree_loop d' (WbxmlElement page t [] (TextValue (de_text d')) # st) root"
  "de_next d = Inr (EvOpaque, d') \<Longrightarrow> tree_loop d (el_empty page t # st) root =
     tree_loop d' (WbxmlElement page t [] (OpaqueValue (de_opaque_bytes d')) # st) root"
  by (subst tree_loop.simps, simp add: el_empty_def)+

lemma rebuilt_children:
  assumes "list_all rebuilt cs" and "ready d cur (encs cur cs @ bs)"
  shows "\<exists>d'. ready d' (last_pages cur cs) bs \<and>
    tree_loop d (WbxmlElement page t ks v # st) root
      = tree_loop d' (WbxmlElement page t (ks @ cs) v # st) root"
  using assms
proof (induction cs arbitrary: d cur ks)
  case Nil
  then show ?case by auto
next
  case (Cons c cs)
  have "ready d cur (enc cur c @ encs (last_page cur c) cs @ bs)" using Cons.prems by simp
  moreover have "rebuilt c" using Cons.prems(1) by simp
  moreover have "room (WbxmlElement page t ks v # st, root)" by (simp add: room_def)
  ultimately obtain d1 where "ready d1 (last_page cur c) (encs (last_page cur c) cs @ bs)"
    "tree_loop_at d (WbxmlElement page t ks v # st, root)
      = tree_loop_at d1 (attach c (WbxmlElement page t ks v # st, root))"
    unfolding rebuilt_def by blast
  then have d1: "ready d1 (last_page cur c) (encs (last_page cur c) cs @ bs)"
    "tree_loop d (WbxmlElement page t ks v # st) root
      = tree_loop d1 (WbxmlElement page t (ks @ [c]) v # st) root"
    by (simp_all add: with_child_def)
  from Cons.IH [OF _ d1(1), of "ks @ [c]"] Cons.prems(1) d1(2) show ?case by simp
qed

lemma codec_wf_rebuilt: "codec_wf e \<Longrightarrow> rebuilt e"
proof (induction e)
  case (WbxmlElement page t cs v)
  let ?e = "WbxmlElement page t cs v"
  have wf: "is_valid_page page" "TAG_BASE \<le> t" "t < 0x40" and cs: "list_all rebuilt cs"
    and v: "if cs \<noteq> [] then v = EmptyValue else leaf_wf v"
    using WbxmlElement by (auto simp: list_all_iff)
  show ?case unfolding rebuilt_def
  proof (intro allI impI)
    fix d cur bs sr
    assume rd: "ready d cur (enc cur ?e @ bs)" and room: "room sr"
    have opened: "\<exists>d1. at_bytes d1 bs' \<and> de_current_page d1 = page \<and> de_no_content d1 = (\<not> content)
        \<and> tree_loop_at d sr = tree_loop d1 (el_empty page t # fst sr) (snd sr)"
      if "enc cur ?e @ bs = enc_tag cur page t content @ bs'" for content bs'
      using next_tag [OF rd [unfolded that] wf] tree_loop_start by blast
    have closed: "\<exists>d'. ready d' page bs \<and> tree_loop d2 (x # fst sr) (snd sr) = tree_loop_at d' (attach x sr)"
      if "ready d2 page (END_TOKEN # bs)" for d2 x
      using next_end [OF that] tree_loop_end [OF _ room] by blast
    have degenerate: "\<exists>d'. ready d' page bs \<and> tree_loop_at d sr = tree_loop_at d' (attach (el_empty page t) sr)"
      if "enc cur ?e = enc_tag cur page t False"
      using opened [of False bs] that next_degenerate_end tree_loop_end [OF _ room]
      by (metis (no_types, lifting))
    show "\<exists>d'. ready d' (last_page cur ?e) bs \<and> tree_loop_at d sr = tree_loop_at d' (attach ?e sr)"
    proof (cases "cs = []")
      case False
      with v have ve: "v = EmptyValue" by simp
      obtain d1 where d1: "ready d1 page (encs page cs @ END_TOKEN # bs)"
        and l1: "tree_loop_at d sr = tree_loop d1 (el_empty page t # fst sr) (snd sr)"
        using opened [of True "encs page cs @ END_TOKEN # bs"] False by (auto simp: ready_def)
      from rebuilt_children [OF cs d1, of page t "[]" v "fst sr" "snd sr"]
      obtain d2 where "ready d2 (last_pages page cs) (END_TOKEN # bs)"
        and l2: "tree_loop d1 (el_empty page t # fst sr) (snd sr) = tree_loop d2 (?e # fst sr) (snd sr)"
        by (auto simp: el_empty_def ve)
      from next_end [OF this(1)] tree_loop_end [OF _ room, of d2 _ ?e] l1 l2
      show ?thesis by auto
    next
      case True
      show ?thesis
      proof (cases v)
        case EmptyValue
        with True degenerate show ?thesis by (simp add: el_empty_def)
      next
        case (TextValue str)
        with v True have str: "utf8_string str" "CHR 0x00 \<notin> set str" by simp_all
        obtain d1 where d1: "ready d1 page (STR_I # as_bytes str @ 0 # END_TOKEN # bs)"
          and l1: "tree_loop_at d sr = tree_loop d1 (el_empty page t # fst sr) (snd sr)"
          using opened [of True "STR_I # as_bytes str @ 0 # END_TOKEN # bs"] True TextValue
          by (auto simp: ready_def)
        from next_text [OF d1 str] obtain d2 where
          d2: "de_next d1 = Inr (EvText, d2)" "de_text d2 = str" "ready d2 page (END_TOKEN # bs)"
          by auto
        with closed [OF d2(3), of ?e] l1 tree_loop_leaf(1) [OF d2(1)] True TextValue
        show ?thesis by simp
      next
        case (OpaqueValue b)
        with v True have b: "b \<noteq> []" "length b < 2 ^ 32" by simp_all
        let ?bs = "OPAQUE # mb_bytes (of_nat (length b)) @ b @ END_TOKEN # bs"
        obtain d1 where d1: "ready d1 page ?bs"
          and l1: "tree_loop_at d sr = tree_loop d1 (el_empty page t # fst sr) (snd sr)"
          using opened [of True ?bs] True OpaqueValue b by (auto simp: ready_def)
        from next_opaque [OF d1 b] obtain d2 where
          d2: "de_next d1 = Inr (EvOpaque, d2)" "de_opaque_bytes d2 = b" "ready d2 page (END_TOKEN # bs)"
          by auto
        with closed [OF d2(3), of ?e] l1 tree_loop_leaf(2) [OF d2(1)] True OpaqueValue
        show ?thesis by simp
      qed
    qed
  qed
qed

lemma deserializer_new_header:
  "\<exists>d. deserializer_new (HEADER @ bs) = Inr d \<and> ready d 0 bs"
proof -
  define d where "d = \<lparr>de_input = HEADER @ bs, de_pos = 0, de_open_stack = [], de_current_page = 0,
       de_current_tag = (0, 0), de_no_content = False, de_text = [], de_opaque_bytes = [],
       de_last_event = None\<rparr>"
  have at: "at_bytes d (0x03 # 0x01 # 0x6A # 0x00 # bs)" by (simp add: d_def at_bytes_def HEADER_def)
  have one: "read_uint e = Inr (ucast (b AND 0x7F), skip 1 e)"
    if "at_bytes e (b # cs)" and "b AND 0x80 = 0" for e b cs
    using read_uint_loop_at [OF that(1), of 0 0] that(2) by (simp add: read_uint_def)
  have at1: "at_bytes (skip 1 d) (0x01 # 0x6A # 0x00 # bs)"
    using at_bytes_skip [of d "[0x03]" _ 1] at by simp
  have at2: "at_bytes (skip 2 d) (0x6A # 0x00 # bs)"
    using at_bytes_skip [of d "[0x03, 0x01]" _ 2] at by simp
  have at3: "at_bytes (skip 3 d) (0x00 # bs)"
    using at_bytes_skip [of d "[0x03, 0x01, 0x6A]" _ 3] at by simp
  have at4: "at_bytes (skip 4 d) bs"
    using at_bytes_skip [of d "[0x03, 0x01, 0x6A, 0x00]" _ 4] at by simp
  have two: "skip (Suc (Suc 0)) d = skip 2 d" by (simp add: skip_def)
  have nonempty: "de_input d \<noteq> []" by (simp add: d_def HEADER_def)
  have "read_header d = Inr (skip 4 d)"
    using read_byte_at [OF at] one [OF at1] one [OF at2] one [OF at3] two nonempty
    by (simp add: read_header_def)
  moreover have "ready (skip 4 d) 0 bs" using at4 by (simp add: ready_def d_def)
  ultimately show ?thesis by (simp add: deserializer_new_def d_def)
qed

lemma codec_roundtrip:
  assumes "codec_wf e"
  shows "\<exists>bs. serialize_tree e = Inr bs \<and> deserialize_to_tree bs = Returned (Inr e)"
proof -
  from deserializer_new_header [of "enc 0 e"] obtain d
    where d: "deserializer_new (HEADER @ enc 0 e) = Inr d" "ready d 0 (enc 0 e @ [])" by auto
  have "room ([], None)" by (simp add: room_def)
  with codec_wf_rebuilt [OF assms] d(2) obtain d' where d': "ready d' (last_page 0 e) []"
    "tree_loop_at d ([], None) = tree_loop_at d' (attach e ([], None))"
    unfolding rebuilt_def by blast
  from next_done [OF d'(1)] have "tree_loop d' [] (Some e) = Returned (Inr e)"
    by (auto simp: tree_loop.simps [of d'])
  then show ?thesis
    using d(1) d'(2) serialize_tree_enc [OF codec_wf_pages_valid [OF assms]]
    by (simp add: deserialize_to_tree_def)
qed

section \<open>The codec as an interface\<close>

text \<open>
  What the client relies on: a well-formed value has an encoding, and decoding an encoding gives
  the value back without an error or a panic.
\<close>

locale wire_codec =
  fixes encode :: "'e \<Rightarrow> 'err + 'b list"
    and decode :: "'b list \<Rightarrow> ('err + 'e) panicky"
    and wf :: "'e \<Rightarrow> bool"
  assumes roundtrip: "wf e \<Longrightarrow> \<exists>bs. encode e = Inr bs \<and> decode bs = Returned (Inr e)"
begin

lemma decode_encode: "wf e \<Longrightarrow> encode e = Inr bs \<Longrightarrow> decode bs = Returned (Inr e)"
  using roundtrip [of e] by auto

lemma encode_inj: "wf a \<Longrightarrow> wf b \<Longrightarrow> encode a = encode b \<Longrightarrow> a = b"
  using roundtrip [of a] roundtrip [of b] by auto

lemma encode_defined: "wf e \<Longrightarrow> encode e \<noteq> Inl err"
  using roundtrip [of e] by auto

end

interpretation wbxml: wire_codec serialize_tree deserialize_to_tree codec_wf
  by unfold_locales (rule codec_roundtrip)

text \<open>C1. A WBXML round trip: every element tree whose pages are registered, whose tokens are tag
  tokens, whose texts are UTF-8 without NUL and whose opaque values are non-empty and shorter than
  2^32 bytes serializes, and the deserializer rebuilds exactly that tree from the bytes.\<close>

theorem wbxml_roundtrip:
  assumes "codec_wf e"
  shows "\<exists>bs. serialize_tree e = Inr bs \<and> deserialize_to_tree bs = Returned (Inr e)"
  using assms by (rule wbxml.roundtrip)

lemma wbxml_roundtrip_witness:
  "\<exists>bs. serialize_tree (el_container 7 0x16 [el_text 7 0x12 ''0'', el_opaque 21 0x10 [1, 2]]) = Inr bs \<and>
     deserialize_to_tree bs = Returned (Inr (el_container 7 0x16 [el_text 7 0x12 ''0'', el_opaque 21 0x10 [1, 2]]))"
  by (rule wbxml_roundtrip) (simp add: el_defs is_valid_page_def NUM_CODE_PAGES_def utf8_string_ascii)

text \<open>The serializer fails only on an unregistered code page: on a tree whose pages are all
  registered it returns the header followed by the bytes of the specification \<open>enc\<close> (each page
  switch written when the page changes, and only then), on any other tree it returns the
  unknown-page error.\<close>

lemma serialize_tree_spec:
  "if pages_valid e then serialize_tree e = Inr (HEADER @ enc 0 e)
   else \<exists>p. serialize_tree e = Inl (UnknownCodePage p)"
  by (simp add: serialize_tree_enc serialize_tree_refused)

text \<open>The deserializer panics on five bytes that a server can send: a header followed by a
  bare END token. \<open>pop_tag\<close> does not report the missing start tag, and the \<open>expect\<close> in
  \<open>deserialize_to_tree\<close> aborts the task.\<close>

lemma deserialize_unbalanced_end_panics:
  "deserialize_to_tree (HEADER @ END_TOKEN # bs) = Panicked"
proof -
  from deserializer_new_header [of "END_TOKEN # bs"] obtain d
    where d: "deserializer_new (HEADER @ END_TOKEN # bs) = Inr d" "ready d 0 (END_TOKEN # bs)" by auto
  from next_end [OF d(2)] obtain d' where "de_next d = Inr (EvEnd, d')" by auto
  with d(1) show ?thesis by (simp add: deserialize_to_tree_def tree_loop.simps [of d])
qed

end
