(* ===== verification/Eas_Status.thy ===== *)
theory Eas_Status
  imports Rust_Std
begin

text \<open>
  \<open>eas/status.rs\<close>: the table from a status code to the recovery it calls for, one function per
  kind of status.
\<close>

datatype recovery_action =
    ActionOk | RetryProvision | ResetSyncKey | RunFolderSync | RefreshToken | FollowRedirect
  | RetryTransient | SurfaceAuth | SurfacePermanent

definition recovery_action_for_common :: "u32 \<Rightarrow> recovery_action" where
  "recovery_action_for_common status =
     (if status = 1 then ActionOk
      else if 142 \<le> status \<and> status \<le> 144 then RetryProvision
      else if status = 140 \<or> status = 126 then SurfacePermanent
      else SurfacePermanent)"

definition recovery_action_for_sync :: "u32 \<Rightarrow> recovery_action" where
  "recovery_action_for_sync status =
     (if status = 1 \<or> status = 6 then ActionOk
      else if status = 3 then ResetSyncKey
      else if status = 12 then RunFolderSync
      else SurfacePermanent)"

definition recovery_action_for_folder_sync :: "u32 \<Rightarrow> recovery_action" where
  "recovery_action_for_folder_sync status =
     (if status = 1 then ActionOk
      else if status = 9 then ResetSyncKey
      else if status = 126 \<or> status = 142 then RetryProvision
      else SurfacePermanent)"

definition recovery_action_for_ping :: "u32 \<Rightarrow> recovery_action" where
  "recovery_action_for_ping status =
     (if status = 1 \<or> status = 2 then ActionOk
      else if status = 7 then RunFolderSync
      else SurfacePermanent)"

definition recovery_action_for_provision :: "u32 \<Rightarrow> recovery_action" where
  "recovery_action_for_provision status = (if status = 1 then ActionOk else SurfacePermanent)"

definition recovery_action_for_send_mail :: "u32 \<Rightarrow> recovery_action" where
  "recovery_action_for_send_mail status =
     (if 140 \<le> status \<and> status \<le> 144 then RetryProvision
      else if status = 111 \<or> status = 132 then RetryTransient
      else if status = 130 \<or> status = 131 then SurfaceAuth
      else SurfacePermanent)"

definition recovery_action_for_http :: "u16 \<Rightarrow> bool \<Rightarrow> recovery_action" where
  "recovery_action_for_http status is_oauth =
     (if status = 200 then ActionOk
      else if status = 401 \<and> is_oauth then RefreshToken
      else if status = 401 \<or> status = 403 then SurfaceAuth
      else if status = 429 then RetryTransient
      else if status = 449 then RetryProvision
      else if status = 451 then FollowRedirect
      else if 500 \<le> status \<and> status \<le> 599 then RetryTransient
      else SurfacePermanent)"

lemmas recovery_defs =
  recovery_action_for_common_def recovery_action_for_sync_def recovery_action_for_folder_sync_def
  recovery_action_for_ping_def recovery_action_for_provision_def recovery_action_for_send_mail_def
  recovery_action_for_http_def

text \<open>The statuses with which a sync of one collection goes on, and with which it starts over.\<close>

lemma sync_action_cases:
  "recovery_action_for_sync status = ActionOk \<longleftrightarrow> status \<in> {1, 6}"
  "recovery_action_for_sync status = ResetSyncKey \<longleftrightarrow> status = 3"
  "recovery_action_for_sync status = RunFolderSync \<longleftrightarrow> status = 12"
  by (auto simp: recovery_defs)

lemma http_action_cases:
  "recovery_action_for_http status oauth = RetryProvision \<longleftrightarrow> status = 449"
  "recovery_action_for_http status oauth = RefreshToken \<longleftrightarrow> status = 401 \<and> oauth"
  "recovery_action_for_http status oauth = FollowRedirect \<longleftrightarrow> status = 451"
  by (auto simp: recovery_defs)

end
