(* ===== verification/Eas_Types.thy ===== *)
theory Eas_Types
  imports Wbxml_Types
begin

text \<open>
  \<open>eas/types.rs\<close>, the \<open>EasAuth\<close> of \<open>eas/auth.rs\<close> and the \<open>EasError\<close> of \<open>eas/client.rs\<close>: the
  account's configuration, the requests and results of the commands and their errors.
\<close>

section \<open>Configuration\<close>

datatype eas_auth =
    Basic (auth_username: string) (auth_password: string)
  | OAuth (access_token: string) (refresh_token: "string option") (client_id: string)
      (client_secret: "string option") (token_url: string) (oauth_scope: "string option")

record eas_config =
  cfg_url :: string
  cfg_username :: string
  cfg_password :: string
  cfg_protocol_version :: string
  cfg_device_id :: string
  cfg_device_type :: string
  cfg_user_agent :: string
  cfg_policy_key :: string
  cfg_accept_invalid_certs :: bool
  cfg_auth_type :: string
  cfg_auth :: "eas_auth option"

definition eas_config_default :: eas_config where
  "eas_config_default =
     \<lparr>cfg_url = [], cfg_username = [], cfg_password = [], cfg_protocol_version = ''16.1'',
      cfg_device_id = [], cfg_device_type = ''KylinsMail'', cfg_user_agent = ''KylinsMail/1.0'',
      cfg_policy_key = [], cfg_accept_invalid_certs = False, cfg_auth_type = [], cfg_auth = None\<rparr>"

section \<open>Folders\<close>

record eas_folder =
  fld_server_id :: string
  fld_parent_id :: string
  fld_display_name :: string
  fld_class :: string
  fld_folder_type :: "u8 option"

definition eas_folder_default :: eas_folder where
  "eas_folder_default = \<lparr>fld_server_id = [], fld_parent_id = [], fld_display_name = [],
     fld_class = [], fld_folder_type = None\<rparr>"

record folder_sync_result =
  fsr_sync_key :: string
  fsr_changes :: "eas_folder list"
  fsr_deletions :: "string list"

definition folder_sync_result_default :: folder_sync_result where
  "folder_sync_result_default = \<lparr>fsr_sync_key = [], fsr_changes = [], fsr_deletions = []\<rparr>"

section \<open>Sync\<close>

record sync_request =
  req_collection_id :: string
  req_sync_key :: string
  req_class :: string
  req_window_size :: u32
  req_filter_age_days :: u32
  req_fetch_body :: bool

record eas_attachment =
  att_file_reference :: string
  att_display_name :: string
  att_content_id :: "string option"
  att_is_inline :: bool
  att_estimated_data_size :: "u32 option"
  att_method :: "u8 option"
  att_content_type :: "string option"
  att_content_location :: "string option"

definition eas_attachment_default :: eas_attachment where
  "eas_attachment_default = \<lparr>att_file_reference = [], att_display_name = [], att_content_id = None,
     att_is_inline = False, att_estimated_data_size = None, att_method = None,
     att_content_type = None, att_content_location = None\<rparr>"

record eas_item =
  item_server_id :: string
  item_subject :: "string option"
  item_from :: "string option"
  item_to :: "string option"
  item_cc :: "string option"
  item_bcc :: "string option"
  item_reply_to :: "string option"
  item_date_received :: "string option"
  item_read :: "bool option"
  item_flag :: "bool option"
  item_importance :: "u8 option"
  item_body_html :: "string option"
  item_body_text :: "string option"
  item_body_truncated :: "bool option"
  item_preview :: "string option"
  item_has_attachments :: bool
  item_attachments :: "eas_attachment list"
  item_conversation_id :: "u8 list option"
  item_is_draft :: "bool option"
  item_message_id :: "string option"

definition eas_item_default :: eas_item where
  "eas_item_default = \<lparr>item_server_id = [], item_subject = None, item_from = None, item_to = None,
     item_cc = None, item_bcc = None, item_reply_to = None, item_date_received = None,
     item_read = None, item_flag = None, item_importance = None, item_body_html = None,
     item_body_text = None, item_body_truncated = None, item_preview = None,
     item_has_attachments = False, item_attachments = [], item_conversation_id = None,
     item_is_draft = None, item_message_id = None\<rparr>"

record sync_result =
  sr_sync_key :: string
  sr_added :: "eas_item list"
  sr_updated :: "eas_item list"
  sr_deleted_server_ids :: "string list"
  sr_more_available :: bool
  sr_status :: u32

definition default_sync_status :: u32 where
  "default_sync_status = 1"

definition sync_result_default :: sync_result where
  "sync_result_default = \<lparr>sr_sync_key = [], sr_added = [], sr_updated = [],
     sr_deleted_server_ids = [], sr_more_available = False, sr_status = default_sync_status\<rparr>"

section \<open>The other commands\<close>

record item_operations_fetch_request =
  iof_server_id :: string
  iof_collection_id :: string
  iof_file_reference :: "string option"

record item_operations_fetch_result =
  ior_status :: u8
  ior_data :: "string option"
  ior_content_type :: "string option"

record get_item_estimate_request =
  gie_collection_id :: string
  gie_sync_key :: string
  gie_class :: string
  gie_filter_age_days :: u32

record get_item_estimate_result =
  gier_count :: u32
  gier_collection_id :: string

record ping_collection =
  pc_collection_id :: string
  pc_class :: string

record ping_request =
  ping_heartbeat_interval :: u32
  ping_monitored_collections :: "ping_collection list"

record send_mail_request =
  sm_mime :: "u8 list"
  sm_save_to_sent :: bool
  sm_client_id :: "string option"

text \<open>\<open>SmartForwardRequest\<close> and \<open>SmartReplyRequest\<close> have the same fields.\<close>

record smart_request =
  smart_mime_base64 :: string
  smart_source_server_id :: string
  smart_source_collection_id :: string
  smart_save_to_sent :: bool
  smart_replace_mime :: bool

record folder_create_request =
  fc_parent_id :: string
  fc_display_name :: string
  fc_class :: string

record folder_update_request =
  fu_server_id :: string
  fu_parent_id :: "string option"
  fu_display_name :: "string option"

record provision_result =
  pr_status :: u32
  pr_policy_key :: "string option"
  pr_remote_wipe :: bool

section \<open>Errors\<close>

datatype eas_error =
    Transport string
  | HttpStatus (http_status: u16) (http_body: string) (http_retry_after: "int option")
  | WbxmlFailure wbxml_error
  | UnexpectedRoot u8 u8
  | CommandStatus u32 string
  | AuthRefreshFailed string

end
