(* ===== verification/Eas_Commands.thy ===== *)
theory Eas_Commands
  imports Eas_Types
begin

text \<open>
  \<open>eas/commands.rs\<close> and \<open>eas/provision.rs\<close>: the request builders and response parsers of the
  commands, from and to element trees. Third-party base64 is the parameter \<open>b64\<close>. The token
  constants are those of the source, which for ItemOperations and GetItemEstimate are not those
  of the code pages; the lemmas at the end show what that means for a response.
\<close>

section \<open>Token constants\<close>

abbreviation PAGE_AIRSYNC :: u8 where "PAGE_AIRSYNC \<equiv> 0"
abbreviation PAGE_FOLDER :: u8 where "PAGE_FOLDER \<equiv> 7"
abbreviation PAGE_PING :: u8 where "PAGE_PING \<equiv> 13"
abbreviation PAGE_ITEM_OPS :: u8 where "PAGE_ITEM_OPS \<equiv> 20"
abbreviation PAGE_COMPOSE :: u8 where "PAGE_COMPOSE \<equiv> 21"
abbreviation AS_SYNC :: u8 where "AS_SYNC \<equiv> 0x05"
abbreviation AS_RESPONSES :: u8 where "AS_RESPONSES \<equiv> 0x06"
abbreviation AS_ADD :: u8 where "AS_ADD \<equiv> 0x07"
abbreviation AS_CHANGE :: u8 where "AS_CHANGE \<equiv> 0x08"
abbreviation AS_DELETE :: u8 where "AS_DELETE \<equiv> 0x09"
abbreviation AS_FETCH :: u8 where "AS_FETCH \<equiv> 0x0A"
abbreviation AS_SYNC_KEY :: u8 where "AS_SYNC_KEY \<equiv> 0x0B"
abbreviation AS_CLIENT_ID :: u8 where "AS_CLIENT_ID \<equiv> 0x0C"
abbreviation AS_SERVER_ID :: u8 where "AS_SERVER_ID \<equiv> 0x0D"
abbreviation AS_STATUS :: u8 where "AS_STATUS \<equiv> 0x0E"
abbreviation AS_COLLECTION :: u8 where "AS_COLLECTION \<equiv> 0x0F"
abbreviation AS_COLLECTIONS :: u8 where "AS_COLLECTIONS \<equiv> 0x1C"
abbreviation AS_CLASS :: u8 where "AS_CLASS \<equiv> 0x10"
abbreviation AS_COLLECTION_ID :: u8 where "AS_COLLECTION_ID \<equiv> 0x12"
abbreviation AS_GET_CHANGES :: u8 where "AS_GET_CHANGES \<equiv> 0x13"
abbreviation AS_MORE_AVAILABLE :: u8 where "AS_MORE_AVAILABLE \<equiv> 0x14"
abbreviation AS_WINDOW_SIZE :: u8 where "AS_WINDOW_SIZE \<equiv> 0x15"
abbreviation AS_COMMANDS :: u8 where "AS_COMMANDS \<equiv> 0x16"
abbreviation AS_OPTIONS :: u8 where "AS_OPTIONS \<equiv> 0x17"
abbreviation AS_APPLICATION_DATA :: u8 where "AS_APPLICATION_DATA \<equiv> 0x1D"
abbreviation FH_FOLDERS :: u8 where "FH_FOLDERS \<equiv> 0x05"
abbreviation FH_FOLDER :: u8 where "FH_FOLDER \<equiv> 0x06"
abbreviation FH_DISPLAY_NAME :: u8 where "FH_DISPLAY_NAME \<equiv> 0x07"
abbreviation FH_SERVER_ID :: u8 where "FH_SERVER_ID \<equiv> 0x08"
abbreviation FH_PARENT_ID :: u8 where "FH_PARENT_ID \<equiv> 0x09"
abbreviation FH_TYPE :: u8 where "FH_TYPE \<equiv> 0x0A"
abbreviation FH_STATUS :: u8 where "FH_STATUS \<equiv> 0x0C"
abbreviation FH_CHANGES :: u8 where "FH_CHANGES \<equiv> 0x0E"
abbreviation FH_ADD :: u8 where "FH_ADD \<equiv> 0x0F"
abbreviation FH_DELETE :: u8 where "FH_DELETE \<equiv> 0x10"
abbreviation FH_UPDATE :: u8 where "FH_UPDATE \<equiv> 0x11"
abbreviation FH_SYNC_KEY :: u8 where "FH_SYNC_KEY \<equiv> 0x12"
abbreviation FH_FOLDER_CREATE :: u8 where "FH_FOLDER_CREATE \<equiv> 0x13"
abbreviation FH_FOLDER_DELETE :: u8 where "FH_FOLDER_DELETE \<equiv> 0x14"
abbreviation FH_FOLDER_UPDATE :: u8 where "FH_FOLDER_UPDATE \<equiv> 0x15"
abbreviation FH_FOLDER_SYNC :: u8 where "FH_FOLDER_SYNC \<equiv> 0x16"
abbreviation FH_COUNT :: u8 where "FH_COUNT \<equiv> 0x17"
abbreviation PING_PING :: u8 where "PING_PING \<equiv> 0x05"
abbreviation PING_STATUS :: u8 where "PING_STATUS \<equiv> 0x07"
abbreviation PING_HEARTBEAT_INTERVAL :: u8 where "PING_HEARTBEAT_INTERVAL \<equiv> 0x08"
abbreviation PING_FOLDERS :: u8 where "PING_FOLDERS \<equiv> 0x09"
abbreviation PING_FOLDER :: u8 where "PING_FOLDER \<equiv> 0x0A"
abbreviation PING_ID :: u8 where "PING_ID \<equiv> 0x0B"
abbreviation PING_CLASS :: u8 where "PING_CLASS \<equiv> 0x0C"
abbreviation PING_MAX_FOLDERS :: u8 where "PING_MAX_FOLDERS \<equiv> 0x0D"
abbreviation IO_ITEMOPERATIONS :: u8 where "IO_ITEMOPERATIONS \<equiv> 0x05"
abbreviation IO_FETCH :: u8 where "IO_FETCH \<equiv> 0x06"
abbreviation IO_STORE :: u8 where "IO_STORE \<equiv> 0x07"
abbreviation IO_RESPONSE :: u8 where "IO_RESPONSE \<equiv> 0x08"
abbreviation IO_STATUS :: u8 where "IO_STATUS \<equiv> 0x0A"
abbreviation IO_COLLECTION_ID :: u8 where "IO_COLLECTION_ID \<equiv> 0x0B"
abbreviation IO_SERVER_ID :: u8 where "IO_SERVER_ID \<equiv> 0x0C"
abbreviation IO_FILE_REFERENCE :: u8 where "IO_FILE_REFERENCE \<equiv> 0x0D"
abbreviation IO_PROPERTIES :: u8 where "IO_PROPERTIES \<equiv> 0x0F"
abbreviation IO_DATA :: u8 where "IO_DATA \<equiv> 0x10"
abbreviation IO_CONTENT_TYPE :: u8 where "IO_CONTENT_TYPE \<equiv> 0x12"

text \<open>From \<open>wbxml/tags.rs\<close>, and the constants local to the GetItemEstimate functions.\<close>

abbreviation BASE_PAGE :: u8 where "BASE_PAGE \<equiv> 0x11"
abbreviation BODY_PREFERENCE :: u8 where "BODY_PREFERENCE \<equiv> 0x05"
abbreviation BODY_TYPE :: u8 where "BODY_TYPE \<equiv> 0x06"
abbreviation SEND_MAIL :: u8 where "SEND_MAIL \<equiv> 0x05"
abbreviation SMART_FORWARD :: u8 where "SMART_FORWARD \<equiv> 0x06"
abbreviation SMART_REPLY :: u8 where "SMART_REPLY \<equiv> 0x07"
abbreviation SAVE_IN_SENT_ITEMS :: u8 where "SAVE_IN_SENT_ITEMS \<equiv> 0x08"
abbreviation REPLACE_MIME :: u8 where "REPLACE_MIME \<equiv> 0x09"
abbreviation COMPOSE_SOURCE :: u8 where "COMPOSE_SOURCE \<equiv> 0x0B"
abbreviation COMPOSE_FOLDER_ID :: u8 where "COMPOSE_FOLDER_ID \<equiv> 0x0C"
abbreviation COMPOSE_ITEM_ID :: u8 where "COMPOSE_ITEM_ID \<equiv> 0x0D"
abbreviation MIME :: u8 where "MIME \<equiv> 0x10"
abbreviation COMPOSE_CLIENT_ID :: u8 where "COMPOSE_CLIENT_ID \<equiv> 0x11"
abbreviation COMPOSE_STATUS :: u8 where "COMPOSE_STATUS \<equiv> 0x12"
abbreviation PAGE_PROVISION :: u8 where "PAGE_PROVISION \<equiv> 0x0E"
abbreviation PROVISION :: u8 where "PROVISION \<equiv> 0x05"
abbreviation POLICIES :: u8 where "POLICIES \<equiv> 0x06"
abbreviation POLICY :: u8 where "POLICY \<equiv> 0x07"
abbreviation POLICY_TYPE :: u8 where "POLICY_TYPE \<equiv> 0x08"
abbreviation POLICY_KEY :: u8 where "POLICY_KEY \<equiv> 0x09"
abbreviation PROVISION_STATUS :: u8 where "PROVISION_STATUS \<equiv> 0x0B"
abbreviation REMOTE_WIPE :: u8 where "REMOTE_WIPE \<equiv> 0x0C"
abbreviation PAGE_GIE :: u8 where "PAGE_GIE \<equiv> 6"
abbreviation GIE_GET_ITEM_ESTIMATE :: u8 where "GIE_GET_ITEM_ESTIMATE \<equiv> 0x05"
abbreviation GIE_RESPONSE :: u8 where "GIE_RESPONSE \<equiv> 0x06"
abbreviation GIE_COLLECTIONS :: u8 where "GIE_COLLECTIONS \<equiv> 0x07"
abbreviation GIE_COLLECTION :: u8 where "GIE_COLLECTION \<equiv> 0x08"
abbreviation GIE_CLASS :: u8 where "GIE_CLASS \<equiv> 0x09"
abbreviation GIE_FILTER_TYPE :: u8 where "GIE_FILTER_TYPE \<equiv> 0x0A"
abbreviation GIE_SYNC_KEY :: u8 where "GIE_SYNC_KEY \<equiv> 0x0B"
abbreviation GIE_COLLECTION_ID :: u8 where "GIE_COLLECTION_ID \<equiv> 0x0C"
abbreviation GIE_ESTIMATE :: u8 where "GIE_ESTIMATE \<equiv> 0x05"

section \<open>Reading values\<close>

definition expect_tag :: "wbxml_element \<Rightarrow> u8 \<Rightarrow> u8 \<Rightarrow> wbxml_error + unit" where
  "expect_tag e page t =
     (if el_page e \<noteq> page \<or> el_token e \<noteq> t
      then Inl (UnexpectedTag page t (el_page e) (el_token e)) else Inr ())"

definition text_value :: "wbxml_element \<Rightarrow> wbxml_error + string" where
  "text_value e =
     (case el_value e of
        TextValue s \<Rightarrow> Inr s
      | OpaqueValue b \<Rightarrow>
          (case from_utf8 b of
             Some s \<Rightarrow> Inr s
           | None \<Rightarrow> Inl (InvalidContent
               (''tag '' @ el_tag_name e @ '' had non-UTF-8 opaque value'')))
      | EmptyValue \<Rightarrow> Inr [])"

definition text_value_opt :: "wbxml_element \<Rightarrow> string option" where
  "text_value_opt e =
     (case el_value e of
        TextValue s \<Rightarrow> Some s
      | OpaqueValue b \<Rightarrow> from_utf8 b
      | EmptyValue \<Rightarrow> None)"

definition is_el :: "wbxml_element \<Rightarrow> u8 \<Rightarrow> u8 \<Rightarrow> bool" where
  "is_el e page t \<longleftrightarrow> el_page e = page \<and> el_token e = t"

section \<open>FolderSync\<close>

definition build_folder_sync_request :: "string \<Rightarrow> wbxml_element" where
  "build_folder_sync_request sync_key =
     el_container PAGE_FOLDER FH_FOLDER_SYNC [el_text PAGE_FOLDER FH_SYNC_KEY sync_key]"

definition em_dash :: string where
  "em_dash = of_bytes [0xE2, 0x80, 0x94]"

definition folder_sync_status_message :: "u32 \<Rightarrow> string" where
  "folder_sync_status_message status =
     (if status = 1 then ''success''
      else if status = 3 then ''invalid synchronization key''
      else if status = 4 then ''malformed request''
      else if status = 5 then ''synchronization state no longer exists''
      else if status = 6 then ''synchronization state is not current''
      else if status = 9 then ''folder hierarchy out of date''
      else if status = 12 then ''back-end database unavailable''
      else if status = 126
      then ''provision required before folder sync '' @ em_dash @ '' run Provision command first''
      else if status = 142
      then ''device not partnered '' @ em_dash @ '' run Provision to establish device partnership''
      else ''unknown status code'')"

definition find_child_text :: "wbxml_element \<Rightarrow> u8 \<Rightarrow> string option" where
  "find_child_text e t = Option.bind (find (\<lambda>c. el_token c = t) (el_children e)) text_value_opt"

definition folder_type_to_class :: "string \<Rightarrow> string" where
  "folder_type_to_class s =
     (if s \<in> {''1'', ''2'', ''3'', ''4'', ''5'', ''6'', ''12'', ''19''} then ''Email''
      else if s = ''7'' then ''Tasks''
      else if s = ''8'' then ''Calendar''
      else if s = ''9'' then ''Contacts''
      else if s \<in> {''10'', ''11''} then ''Notes''
      else ''Email'')"

definition folder_element_step :: "wbxml_element \<Rightarrow> eas_folder \<Rightarrow> wbxml_error + eas_folder" where
  "folder_element_step c f =
     (if is_el c PAGE_FOLDER FH_SERVER_ID
      then res_bind (text_value c) (\<lambda>s. Inr (f\<lparr>fld_server_id := s\<rparr>))
      else if is_el c PAGE_FOLDER FH_PARENT_ID
      then res_bind (text_value c) (\<lambda>s. Inr (f\<lparr>fld_parent_id := s\<rparr>))
      else if is_el c PAGE_FOLDER FH_DISPLAY_NAME
      then res_bind (text_value c) (\<lambda>s. Inr (f\<lparr>fld_display_name := s\<rparr>))
      else if is_el c PAGE_FOLDER FH_TYPE
      then res_bind (text_value c) (\<lambda>s.
             Inr (f\<lparr>fld_class := folder_type_to_class s, fld_folder_type := parse_u8 s\<rparr>))
      else Inr f)"

definition parse_folder_element :: "wbxml_element \<Rightarrow> wbxml_error + eas_folder" where
  "parse_folder_element e = fold_res folder_element_step (el_children e) eas_folder_default"

definition folder_change_step ::
    "wbxml_element \<Rightarrow> folder_sync_result \<Rightarrow> wbxml_error + folder_sync_result" where
  "folder_change_step c r =
     (if is_el c PAGE_FOLDER FH_ADD \<or> is_el c PAGE_FOLDER FH_UPDATE
      then res_bind (parse_folder_element c) (\<lambda>f. Inr (r\<lparr>fsr_changes := fsr_changes r @ [f]\<rparr>))
      else if is_el c PAGE_FOLDER FH_DELETE
      then res_bind
             (case find_child_text c FH_SERVER_ID of Some s \<Rightarrow> Inr s | None \<Rightarrow> text_value c)
             (\<lambda>s. Inr (r\<lparr>fsr_deletions := fsr_deletions r @ [s]\<rparr>))
      else Inr r)"

definition parse_folder_changes ::
    "wbxml_element \<Rightarrow> folder_sync_result \<Rightarrow> wbxml_error + folder_sync_result" where
  "parse_folder_changes changes r = fold_res folder_change_step (el_children changes) r"

definition folder_sync_step ::
    "wbxml_element \<Rightarrow> folder_sync_result \<times> u32 \<Rightarrow> wbxml_error + folder_sync_result \<times> u32" where
  "folder_sync_step c rs =
     (case rs of (r, status) \<Rightarrow>
        if is_el c PAGE_FOLDER FH_SYNC_KEY
        then res_bind (text_value c) (\<lambda>s. Inr (r\<lparr>fsr_sync_key := s\<rparr>, status))
        else if is_el c PAGE_FOLDER FH_CHANGES
        then res_bind (parse_folder_changes c r) (\<lambda>r. Inr (r, status))
        else if is_el c PAGE_FOLDER FH_STATUS
        then Inr (r, opt_or 1 (parse_u32 (unwrap_or [] (text_value c))))
        else Inr (r, status))"

definition parse_folder_sync_response :: "wbxml_element \<Rightarrow> wbxml_error + folder_sync_result" where
  "parse_folder_sync_response root =
     res_bind (expect_tag root PAGE_FOLDER FH_FOLDER_SYNC) (\<lambda>_.
     res_bind (fold_res folder_sync_step (el_children root) (folder_sync_result_default, 1))
       (\<lambda>(r, status).
         if status \<noteq> 1
         then Inl (InvalidContent (''FolderSync status '' @ dec_string (unat status) @ '': ''
                    @ folder_sync_status_message status))
         else Inr r))"

section \<open>Sync\<close>

definition build_sync_request :: "sync_request \<Rightarrow> wbxml_element" where
  "build_sync_request req =
     (let collection_children =
            [el_text PAGE_AIRSYNC AS_SYNC_KEY (req_sync_key req),
             el_text PAGE_AIRSYNC AS_COLLECTION_ID (req_collection_id req),
             el_empty PAGE_AIRSYNC AS_GET_CHANGES];
          collection_children = collection_children @
            (if req_window_size req \<noteq> 0
             then [el_text PAGE_AIRSYNC AS_WINDOW_SIZE (dec_string (unat (req_window_size req)))]
             else []);
          collection_children = collection_children @
            (if req_fetch_body req
             then [el_container PAGE_AIRSYNC AS_OPTIONS
                     [el_container BASE_PAGE BODY_PREFERENCE [el_text BASE_PAGE BODY_TYPE ''2'']]]
             else []);
          collection = el_container PAGE_AIRSYNC AS_COLLECTION collection_children;
          collection =
            (if req_class req \<noteq> []
             then el_container PAGE_AIRSYNC AS_COLLECTION
                    (el_children collection @ [el_text PAGE_AIRSYNC AS_CLASS (req_class req)])
             else collection)
      in el_container PAGE_AIRSYNC AS_SYNC
           [el_container PAGE_AIRSYNC AS_COLLECTIONS [collection]])"

record body_fields =
  bf_type :: "u8 option"
  bf_data :: "string option"
  bf_truncated :: bool
  bf_preview :: "string option"

definition body_step :: "wbxml_element \<Rightarrow> body_fields \<Rightarrow> body_fields" where
  "body_step c b =
     (if el_tag_name c = ''Type'' then b\<lparr>bf_type := Option.bind (text_value_opt c) parse_u8\<rparr>
      else if el_tag_name c = ''Data'' then b\<lparr>bf_data := text_value_opt c\<rparr>
      else if el_tag_name c = ''Truncated'' then b\<lparr>bf_truncated := text_value_opt c = Some ''1''\<rparr>
      else if el_tag_name c = ''Preview'' then b\<lparr>bf_preview := text_value_opt c\<rparr>
      else b)"

definition parse_body :: "wbxml_element \<Rightarrow> eas_item \<Rightarrow> eas_item" where
  "parse_body e item =
     (let b = fold body_step (el_children e)
                \<lparr>bf_type = None, bf_data = None, bf_truncated = False, bf_preview = None\<rparr>;
          item = (if bf_type b = Some 2 then item\<lparr>item_body_html := bf_data b\<rparr>
                  else if bf_type b = Some 1 then item\<lparr>item_body_text := bf_data b\<rparr>
                  else item\<lparr>item_body_html := bf_data b, item_body_text := bf_data b\<rparr>)
      in item\<lparr>item_body_truncated := (if bf_truncated b then Some True else None),
              item_preview := bf_preview b\<rparr>)"

definition attachment_step :: "wbxml_element \<Rightarrow> eas_attachment \<Rightarrow> eas_attachment" where
  "attachment_step c a =
     (let v = text_value_opt c; n = el_tag_name c
      in if n = ''DisplayName'' then a\<lparr>att_display_name := opt_or [] v\<rparr>
         else if n = ''FileReference'' then a\<lparr>att_file_reference := opt_or [] v\<rparr>
         else if n = ''Method'' then a\<lparr>att_method := Option.bind v parse_u8\<rparr>
         else if n = ''ContentId'' then a\<lparr>att_content_id := v\<rparr>
         else if n = ''IsInline'' then a\<lparr>att_is_inline := v = Some ''1''\<rparr>
         else if n = ''ContentType'' then a\<lparr>att_content_type := v\<rparr>
         else if n = ''EstimatedDataSize''
         then a\<lparr>att_estimated_data_size := Option.bind v parse_u32\<rparr>
         else if n = ''ContentLocation'' then a\<lparr>att_content_location := v\<rparr>
         else a)"

definition parse_attachments :: "wbxml_element \<Rightarrow> eas_item \<Rightarrow> eas_item" where
  "parse_attachments e item =
     (let item = fold (\<lambda>c item.
            if el_tag_name c \<noteq> ''Attachment'' then item
            else item\<lparr>item_attachments := item_attachments item
                        @ [fold attachment_step (el_children c) eas_attachment_default]\<rparr>)
            (el_children e) item
      in item\<lparr>item_has_attachments := item_attachments item \<noteq> []\<rparr>)"

definition application_data_step :: "wbxml_element \<Rightarrow> eas_item \<Rightarrow> eas_item" where
  "application_data_step c item =
     (let v = text_value_opt c; n = el_tag_name c
      in if n = ''Subject'' then item\<lparr>item_subject := v\<rparr>
         else if n = ''From'' then item\<lparr>item_from := v\<rparr>
         else if n = ''To'' then item\<lparr>item_to := v\<rparr>
         else if n = ''Cc'' then item\<lparr>item_cc := v\<rparr>
         else if n = ''Bcc'' then item\<lparr>item_bcc := v\<rparr>
         else if n = ''ReplyTo'' then item\<lparr>item_reply_to := v\<rparr>
         else if n = ''DateReceived'' then item\<lparr>item_date_received := v\<rparr>
         else if n = ''Read'' then item\<lparr>item_read := map_option (\<lambda>s. s = ''1'') v\<rparr>
         else if n = ''Flag''
         then item\<lparr>item_flag := Some (list_ex
                (\<lambda>f. el_tag_name f = ''Status'' \<and> text_value_opt f = Some ''2'') (el_children c))\<rparr>
         else if n = ''Importance'' then item\<lparr>item_importance := Option.bind v parse_u8\<rparr>
         else if n = ''Body'' then parse_body c item
         else if n = ''Attachments'' then parse_attachments c item
         else if n = ''ConversationId''
         then item\<lparr>item_conversation_id :=
                (case el_value c of
                   OpaqueValue b \<Rightarrow> if b \<noteq> [] then Some b else None
                 | TextValue s \<Rightarrow> if s \<noteq> [] then Some (as_bytes s) else None
                 | EmptyValue \<Rightarrow> None)\<rparr>
         else if n = ''IsDraft'' then item\<lparr>item_is_draft := map_option (\<lambda>s. s = ''1'') v\<rparr>
         else item)"

definition parse_application_data :: "wbxml_element \<Rightarrow> eas_item \<Rightarrow> eas_item" where
  "parse_application_data e item = fold application_data_step (el_children e) item"

definition item_step :: "wbxml_element \<Rightarrow> eas_item \<Rightarrow> wbxml_error + eas_item" where
  "item_step c item =
     (if is_el c PAGE_AIRSYNC AS_SERVER_ID
      then res_bind (text_value c) (\<lambda>s. Inr (item\<lparr>item_server_id := s\<rparr>))
      else if is_el c PAGE_AIRSYNC AS_APPLICATION_DATA then Inr (parse_application_data c item)
      else Inr item)"

definition parse_item :: "wbxml_element \<Rightarrow> wbxml_error + eas_item" where
  "parse_item e = fold_res item_step (el_children e) eas_item_default"

definition sync_command_step :: "wbxml_element \<Rightarrow> sync_result \<Rightarrow> wbxml_error + sync_result" where
  "sync_command_step cmd r =
     (if is_el cmd PAGE_AIRSYNC AS_ADD \<or> is_el cmd PAGE_AIRSYNC AS_CHANGE
      then res_bind (parse_item cmd) (\<lambda>item.
             if el_token cmd = AS_ADD then Inr (r\<lparr>sr_added := sr_added r @ [item]\<rparr>)
             else Inr (r\<lparr>sr_updated := sr_updated r @ [item]\<rparr>))
      else if is_el cmd PAGE_AIRSYNC AS_DELETE
      then res_bind (text_value cmd) (\<lambda>s.
             Inr (r\<lparr>sr_deleted_server_ids := sr_deleted_server_ids r @ [s]\<rparr>))
      else Inr r)"

definition sync_collection_step :: "wbxml_element \<Rightarrow> sync_result \<Rightarrow> wbxml_error + sync_result" where
  "sync_collection_step c r =
     (if is_el c PAGE_AIRSYNC AS_SYNC_KEY
      then res_bind (text_value c) (\<lambda>s. Inr (r\<lparr>sr_sync_key := s\<rparr>))
      else if is_el c PAGE_AIRSYNC AS_MORE_AVAILABLE then Inr (r\<lparr>sr_more_available := True\<rparr>)
      else if is_el c PAGE_AIRSYNC AS_STATUS
      then Inr (case text_value c of
                  Inr s \<Rightarrow> (case parse_u32 s of Some n \<Rightarrow> r\<lparr>sr_status := n\<rparr> | None \<Rightarrow> r)
                | Inl _ \<Rightarrow> r)
      else if is_el c PAGE_AIRSYNC AS_COMMANDS
      then fold_res sync_command_step (el_children c) r
      else Inr r)"

definition parse_sync_collection :: "wbxml_element \<Rightarrow> sync_result \<Rightarrow> wbxml_error + sync_result" where
  "parse_sync_collection col r = fold_res sync_collection_step (el_children col) r"

definition parse_sync_response :: "wbxml_element \<Rightarrow> wbxml_error + sync_result" where
  "parse_sync_response root =
     res_bind (expect_tag root PAGE_AIRSYNC AS_SYNC) (\<lambda>_.
     fold_res (\<lambda>child r.
         if is_el child PAGE_AIRSYNC AS_COLLECTIONS
         then fold_res (\<lambda>col r.
                if is_el col PAGE_AIRSYNC AS_COLLECTION then parse_sync_collection col r else Inr r)
                (el_children child) r
         else Inr r)
       (el_children root) sync_result_default)"

section \<open>SendMail, SmartForward, SmartReply\<close>

definition build_send_mail_request :: "send_mail_request \<Rightarrow> wbxml_element" where
  "build_send_mail_request req =
     el_container PAGE_COMPOSE SEND_MAIL
       ((case sm_client_id req of
           Some cid \<Rightarrow> [el_text PAGE_COMPOSE COMPOSE_CLIENT_ID cid] | None \<Rightarrow> [])
        @ (if sm_save_to_sent req then [el_empty PAGE_COMPOSE SAVE_IN_SENT_ITEMS] else [])
        @ [el_opaque PAGE_COMPOSE MIME (sm_mime req)])"

definition smart_children :: "smart_request \<Rightarrow> wbxml_element list" where
  "smart_children req =
     [el_empty PAGE_COMPOSE SAVE_IN_SENT_ITEMS,
      el_opaque PAGE_COMPOSE MIME (as_bytes (smart_mime_base64 req)),
      el_container PAGE_COMPOSE COMPOSE_SOURCE
        [el_text PAGE_COMPOSE COMPOSE_FOLDER_ID (smart_source_collection_id req),
         el_text PAGE_COMPOSE COMPOSE_ITEM_ID (smart_source_server_id req)]]
     @ (if smart_replace_mime req then [el_empty PAGE_COMPOSE REPLACE_MIME] else [])"

definition build_smart_forward_request :: "smart_request \<Rightarrow> wbxml_element" where
  "build_smart_forward_request req = el_container PAGE_COMPOSE SMART_FORWARD (smart_children req)"

definition build_smart_reply_request :: "smart_request \<Rightarrow> wbxml_element" where
  "build_smart_reply_request req = el_container PAGE_COMPOSE SMART_REPLY (smart_children req)"

definition parse_send_mail_response :: "wbxml_element \<Rightarrow> wbxml_error + u32" where
  "parse_send_mail_response root =
     (case find (\<lambda>c. is_el c PAGE_COMPOSE COMPOSE_STATUS) (el_children root) of
        Some c \<Rightarrow>
          res_bind (text_value c) (\<lambda>s.
            case parse_u32 s of
              Some n \<Rightarrow> Inr n
            | None \<Rightarrow> Inl (InvalidContent (''non-numeric status: '' @ s)))
      | None \<Rightarrow> Inr 1)"

section \<open>ItemOperations\<close>

definition build_item_operations_request :: "item_operations_fetch_request \<Rightarrow> wbxml_element" where
  "build_item_operations_request req =
     el_container PAGE_ITEM_OPS IO_ITEMOPERATIONS
       [el_container PAGE_ITEM_OPS IO_FETCH
          (el_text PAGE_ITEM_OPS IO_STORE ''Mailbox''
           # (case iof_file_reference req of
                Some file_ref \<Rightarrow> [el_text PAGE_ITEM_OPS IO_FILE_REFERENCE file_ref]
              | None \<Rightarrow>
                  [el_text PAGE_ITEM_OPS IO_COLLECTION_ID (iof_collection_id req),
                   el_text PAGE_ITEM_OPS IO_SERVER_ID (iof_server_id req)]))]"

definition io_property_step :: "(u8 list \<Rightarrow> string) \<Rightarrow> wbxml_element
    \<Rightarrow> item_operations_fetch_result \<Rightarrow> item_operations_fetch_result" where
  "io_property_step b64 p r =
     (if is_el p PAGE_ITEM_OPS IO_DATA
      then r\<lparr>ior_data := (case el_value p of
               TextValue t \<Rightarrow> Some t | OpaqueValue b \<Rightarrow> Some (b64 b) | EmptyValue \<Rightarrow> None)\<rparr>
      else if is_el p PAGE_ITEM_OPS IO_CONTENT_TYPE
      then r\<lparr>ior_content_type := (case el_value p of TextValue t \<Rightarrow> Some t | _ \<Rightarrow> None)\<rparr>
      else r)"

definition io_fetch_step :: "(u8 list \<Rightarrow> string) \<Rightarrow> wbxml_element
    \<Rightarrow> item_operations_fetch_result \<Rightarrow> item_operations_fetch_result" where
  "io_fetch_step b64 c r =
     (if is_el c PAGE_ITEM_OPS IO_STATUS
      then r\<lparr>ior_status := opt_or 0 (parse_u8 (unwrap_or ''1'' (text_value c)))\<rparr>
      else if is_el c PAGE_ITEM_OPS IO_PROPERTIES
      then fold (io_property_step b64) (el_children c) r
      else r)"

definition parse_item_operations_response :: "(u8 list \<Rightarrow> string) \<Rightarrow> wbxml_element
    \<Rightarrow> wbxml_error + item_operations_fetch_result" where
  "parse_item_operations_response b64 root =
     Inr (fold (\<lambda>child r.
         if is_el child PAGE_ITEM_OPS IO_RESPONSE
         then fold (\<lambda>resp_child r.
                if is_el resp_child PAGE_ITEM_OPS IO_FETCH
                then fold (io_fetch_step b64) (el_children resp_child) r else r)
                (el_children child) r
         else r)
       (el_children root) \<lparr>ior_status = 0, ior_data = None, ior_content_type = None\<rparr>)"

section \<open>GetItemEstimate\<close>

definition build_get_item_estimate_request :: "get_item_estimate_request \<Rightarrow> wbxml_element" where
  "build_get_item_estimate_request req =
     el_container PAGE_GIE GIE_GET_ITEM_ESTIMATE
       [el_container PAGE_GIE GIE_COLLECTIONS
          [el_container PAGE_GIE GIE_COLLECTION
             [el_text PAGE_GIE GIE_CLASS (gie_class req),
              el_text PAGE_GIE GIE_SYNC_KEY (gie_sync_key req),
              el_text PAGE_GIE GIE_COLLECTION_ID (gie_collection_id req),
              el_text PAGE_GIE GIE_FILTER_TYPE (dec_string (unat (gie_filter_age_days req)))]]]"

definition estimate_step ::
    "wbxml_element \<Rightarrow> get_item_estimate_result \<Rightarrow> get_item_estimate_result" where
  "estimate_step c r =
     (if is_el c PAGE_GIE GIE_COLLECTION_ID
      then r\<lparr>gier_collection_id := unwrap_or [] (text_value c)\<rparr>
      else if is_el c PAGE_GIE GIE_ESTIMATE
      then r\<lparr>gier_count := opt_or 0 (parse_u32 (unwrap_or ''0'' (text_value c)))\<rparr>
      else r)"

definition parse_get_item_estimate_response ::
    "wbxml_element \<Rightarrow> wbxml_error + get_item_estimate_result" where
  "parse_get_item_estimate_response root =
     Inr (fold (\<lambda>child r.
         if is_el child PAGE_GIE GIE_RESPONSE
         then fold (\<lambda>resp_child r.
                if is_el resp_child PAGE_GIE GIE_COLLECTION
                then fold estimate_step (el_children resp_child) r else r)
                (el_children child) r
         else r)
       (el_children root) \<lparr>gier_count = 0, gier_collection_id = []\<rparr>)"

section \<open>Ping\<close>

definition build_ping_request :: "ping_request \<Rightarrow> wbxml_element" where
  "build_ping_request req =
     el_container PAGE_PING PING_PING
       [el_text PAGE_PING PING_HEARTBEAT_INTERVAL (dec_string (unat (ping_heartbeat_interval req))),
        el_container PAGE_PING PING_FOLDERS
          (map (\<lambda>c. el_container PAGE_PING PING_FOLDER
                  [el_text PAGE_PING PING_ID (pc_collection_id c),
                   el_text PAGE_PING PING_CLASS (pc_class c)])
               (ping_monitored_collections req))]"

definition ping_status_step :: "wbxml_element \<Rightarrow> string \<Rightarrow> string" where
  "ping_status_step c r =
     (if is_el c PAGE_PING PING_STATUS
      then (let status = unwrap_or [] (text_value c)
            in if status = ''1'' then ''OK''
               else if status = ''2'' then ''Timeout'' else status)
      else r)"

definition parse_ping_response :: "wbxml_element \<Rightarrow> wbxml_error + string" where
  "parse_ping_response root =
     (let status = fold ping_status_step (el_children root) []
      in Inr (if status = [] then ''OK'' else status))"

section \<open>Folder operations\<close>

definition class_to_folder_type :: "string \<Rightarrow> string" where
  "class_to_folder_type c =
     (if c = ''Email'' then ''2''
      else if c = ''Calendar'' then ''8''
      else if c = ''Contacts'' then ''9''
      else if c = ''Tasks'' then ''7''
      else ''1'')"

definition build_folder_create_request :: "folder_create_request \<Rightarrow> wbxml_element" where
  "build_folder_create_request req =
     el_container PAGE_FOLDER FH_FOLDER_CREATE
       [el_text PAGE_FOLDER FH_PARENT_ID (fc_parent_id req),
        el_text PAGE_FOLDER FH_DISPLAY_NAME (fc_display_name req),
        el_text PAGE_FOLDER FH_TYPE (class_to_folder_type (fc_class req))]"

definition build_folder_update_request :: "folder_update_request \<Rightarrow> wbxml_element" where
  "build_folder_update_request req =
     el_container PAGE_FOLDER FH_FOLDER_UPDATE
       ([el_text PAGE_FOLDER FH_SERVER_ID (fu_server_id req)]
        @ (case fu_parent_id req of Some p \<Rightarrow> [el_text PAGE_FOLDER FH_PARENT_ID p] | None \<Rightarrow> [])
        @ (case fu_display_name req of
             Some n \<Rightarrow> [el_text PAGE_FOLDER FH_DISPLAY_NAME n] | None \<Rightarrow> []))"

definition build_folder_delete_request :: "string \<Rightarrow> wbxml_element" where
  "build_folder_delete_request server_id =
     el_container PAGE_FOLDER FH_FOLDER_DELETE [el_text PAGE_FOLDER FH_SERVER_ID server_id]"

definition folder_op_step ::
    "wbxml_element \<Rightarrow> u32 \<times> string option \<Rightarrow> wbxml_error + u32 \<times> string option" where
  "folder_op_step c rs =
     (case rs of (status, new_server_id) \<Rightarrow>
        let status = (if is_el c PAGE_FOLDER FH_STATUS
                      then opt_or 1 (parse_u32 (unwrap_or ''1'' (text_value c))) else status)
        in if is_el c PAGE_FOLDER FH_SERVER_ID
           then res_bind (text_value c) (\<lambda>s. Inr (status, Some s))
           else Inr (status, new_server_id))"

definition parse_folder_op_response :: "wbxml_element \<Rightarrow> wbxml_error + u32 \<times> string option" where
  "parse_folder_op_response root = fold_res folder_op_step (el_children root) (1, None)"

section \<open>Provision\<close>

definition MS_EAS_PROVISIONING_WBXML :: string where
  "MS_EAS_PROVISIONING_WBXML = ''MS-EAS-Provisioning-WBXML''"

definition build_provision_phase1_request :: wbxml_element where
  "build_provision_phase1_request =
     el_container PAGE_PROVISION PROVISION
       [el_container PAGE_PROVISION POLICIES
          [el_container PAGE_PROVISION POLICY
             [el_text PAGE_PROVISION POLICY_TYPE MS_EAS_PROVISIONING_WBXML]]]"

definition build_provision_phase2_request :: "string \<Rightarrow> wbxml_element" where
  "build_provision_phase2_request temp_policy_key =
     el_container PAGE_PROVISION PROVISION
       [el_container PAGE_PROVISION POLICIES
          [el_container PAGE_PROVISION POLICY
             [el_text PAGE_PROVISION POLICY_TYPE MS_EAS_PROVISIONING_WBXML,
              el_text PAGE_PROVISION POLICY_KEY temp_policy_key,
              el_text PAGE_PROVISION PROVISION_STATUS ''1'']]]"

definition provision_text :: "wbxml_element \<Rightarrow> string" where
  "provision_text e =
     (case el_value e of
        TextValue s \<Rightarrow> s | OpaqueValue b \<Rightarrow> from_utf8_lossy b | EmptyValue \<Rightarrow> [])"

fun find_policy_key_in :: "wbxml_element list \<Rightarrow> string option" where
  "find_policy_key_in [] = None"
| "find_policy_key_in (policy # ps) =
     (if el_token policy \<noteq> POLICY then find_policy_key_in ps
      else case find (\<lambda>f. el_token f = POLICY_KEY) (el_children policy) of
             Some f \<Rightarrow> Some (provision_text f)
           | None \<Rightarrow> find_policy_key_in ps)"

definition find_policy_key :: "wbxml_element \<Rightarrow> string option" where
  "find_policy_key policies_el = find_policy_key_in (el_children policies_el)"

definition provision_step :: "wbxml_element \<Rightarrow> provision_result \<Rightarrow> provision_result" where
  "provision_step c r =
     (if is_el c PAGE_PROVISION PROVISION_STATUS
      then r\<lparr>pr_status := opt_or 1 (parse_u32 (provision_text c))\<rparr>
      else if is_el c PAGE_PROVISION POLICIES
      then (case find_policy_key c of Some k \<Rightarrow> r\<lparr>pr_policy_key := Some k\<rparr> | None \<Rightarrow> r)
      else if is_el c PAGE_PROVISION REMOTE_WIPE then r\<lparr>pr_remote_wipe := True\<rparr>
      else r)"

definition parse_provision_response :: "wbxml_element \<Rightarrow> wbxml_error + provision_result" where
  "parse_provision_response root =
     Inr (fold provision_step (el_children root)
            \<lparr>pr_status = 1, pr_policy_key = None, pr_remote_wipe = False\<rparr>)"

end
