(* ===== verification/Eas_Wire.thy ===== *)
theory Eas_Wire
  imports Eas_Commands Wbxml_Deserializer
begin

text \<open>
  The command builders and parsers against the wire: every request is a well-formed tree, so the
  server decodes exactly what was built; and the parsers recover the content of a response laid
  out as [MS-ASCMD] lays it out, except where the source's constants or its reading of \<open>Delete\<close>
  disagree with that layout.
\<close>

section \<open>Requests\<close>

definition wire_string :: "string \<Rightarrow> bool" where
  "wire_string s \<longleftrightarrow> utf8_string s \<and> CHR 0x00 \<notin> set s"

definition wire_mime :: "u8 list \<Rightarrow> bool" where
  "wire_mime b \<longleftrightarrow> b \<noteq> [] \<and> length b < 2 ^ 32"

lemma wire_string_ascii:
  "list_all (\<lambda>c. of_char c < (128 :: nat) \<and> 0 < (of_char c :: nat)) s \<Longrightarrow> wire_string s"
  unfolding wire_string_def
  by (auto simp: list_all_iff intro!: utf8_string_ascii)

lemma wire_string_dec [simp]: "wire_string (dec_string n)"
  by (rule wire_string_ascii [OF dec_string_ascii])

lemma codec_wf_text [simp]:
  "codec_wf (el_text p t s) \<longleftrightarrow> is_valid_page p \<and> 5 \<le> t \<and> t < 64 \<and> wire_string s"
  by (simp add: el_text_def wire_string_def)

lemma codec_wf_opaque [simp]:
  "codec_wf (el_opaque p t b) \<longleftrightarrow> is_valid_page p \<and> 5 \<le> t \<and> t < 64 \<and> wire_mime b"
  by (simp add: el_opaque_def wire_mime_def)

lemma codec_wf_empty [simp]: "codec_wf (el_empty p t) \<longleftrightarrow> is_valid_page p \<and> 5 \<le> t \<and> t < 64"
  by (simp add: el_empty_def)

lemma codec_wf_container [simp]:
  "codec_wf (el_container p t cs) \<longleftrightarrow> is_valid_page p \<and> 5 \<le> t \<and> t < 64 \<and> list_all codec_wf cs"
  by (simp add: el_container_def)

lemma valid_page_numerals [simp]:
  "is_valid_page 0" "is_valid_page 6" "is_valid_page 7" "is_valid_page 13" "is_valid_page 14"
  "is_valid_page 17" "is_valid_page 20" "is_valid_page 21"
  by (simp_all add: is_valid_page_def NUM_CODE_PAGES_def)

text \<open>The requests of all commands as one type, with the condition on their fields.\<close>

datatype eas_request =
    ReqFolderSync string
  | ReqSync sync_request
  | ReqSendMail send_mail_request
  | ReqSmartForward smart_request
  | ReqSmartReply smart_request
  | ReqItemOperations item_operations_fetch_request
  | ReqGetItemEstimate get_item_estimate_request
  | ReqPing ping_request
  | ReqFolderCreate folder_create_request
  | ReqFolderUpdate folder_update_request
  | ReqFolderDelete string
  | ReqProvision1
  | ReqProvision2 string

fun request_tree :: "eas_request \<Rightarrow> wbxml_element" where
  "request_tree (ReqFolderSync k) = build_folder_sync_request k"
| "request_tree (ReqSync r) = build_sync_request r"
| "request_tree (ReqSendMail r) = build_send_mail_request r"
| "request_tree (ReqSmartForward r) = build_smart_forward_request r"
| "request_tree (ReqSmartReply r) = build_smart_reply_request r"
| "request_tree (ReqItemOperations r) = build_item_operations_request r"
| "request_tree (ReqGetItemEstimate r) = build_get_item_estimate_request r"
| "request_tree (ReqPing r) = build_ping_request r"
| "request_tree (ReqFolderCreate r) = build_folder_create_request r"
| "request_tree (ReqFolderUpdate r) = build_folder_update_request r"
| "request_tree (ReqFolderDelete s) = build_folder_delete_request s"
| "request_tree ReqProvision1 = build_provision_phase1_request"
| "request_tree (ReqProvision2 k) = build_provision_phase2_request k"

fun request_ok :: "eas_request \<Rightarrow> bool" where
  "request_ok (ReqFolderSync k) = wire_string k"
| "request_ok (ReqSync r) = (wire_string (req_collection_id r) \<and> wire_string (req_sync_key r)
     \<and> wire_string (req_class r))"
| "request_ok (ReqSendMail r) = (wire_mime (sm_mime r) \<and> pred_option wire_string (sm_client_id r))"
| "request_ok (ReqSmartForward r) = (wire_mime (as_bytes (smart_mime_base64 r))
     \<and> wire_string (smart_source_collection_id r) \<and> wire_string (smart_source_server_id r))"
| "request_ok (ReqSmartReply r) = (wire_mime (as_bytes (smart_mime_base64 r))
     \<and> wire_string (smart_source_collection_id r) \<and> wire_string (smart_source_server_id r))"
| "request_ok (ReqItemOperations r) = (wire_string (iof_collection_id r)
     \<and> wire_string (iof_server_id r) \<and> pred_option wire_string (iof_file_reference r))"
| "request_ok (ReqGetItemEstimate r) = (wire_string (gie_collection_id r)
     \<and> wire_string (gie_sync_key r) \<and> wire_string (gie_class r))"
| "request_ok (ReqPing r) = list_all (\<lambda>c. wire_string (pc_collection_id c) \<and> wire_string (pc_class c))
     (ping_monitored_collections r)"
| "request_ok (ReqFolderCreate r) = (wire_string (fc_parent_id r) \<and> wire_string (fc_display_name r))"
| "request_ok (ReqFolderUpdate r) = (wire_string (fu_server_id r)
     \<and> pred_option wire_string (fu_parent_id r) \<and> pred_option wire_string (fu_display_name r))"
| "request_ok (ReqFolderDelete s) = wire_string s"
| "request_ok ReqProvision1 = True"
| "request_ok (ReqProvision2 k) = wire_string k"

lemmas builder_defs =
  build_folder_sync_request_def build_sync_request_def build_send_mail_request_def
  build_smart_forward_request_def build_smart_reply_request_def smart_children_def
  build_item_operations_request_def build_get_item_estimate_request_def build_ping_request_def
  build_folder_create_request_def build_folder_update_request_def build_folder_delete_request_def
  build_provision_phase1_request_def build_provision_phase2_request_def

definition nonzero_ascii :: "string \<Rightarrow> bool" where
  "nonzero_ascii s = list_all (\<lambda>c. of_char c < (128 :: nat) \<and> 0 < (of_char c :: nat)) s"

lemma wire_string_literal: "nonzero_ascii s \<Longrightarrow> wire_string s"
  unfolding nonzero_ascii_def by (rule wire_string_ascii)

lemma wire_string_literals [simp]:
  "wire_string ''Mailbox''" "wire_string ''1''" "wire_string ''2''" "wire_string ''7''"
  "wire_string ''8''" "wire_string ''9''" "wire_string ''MS-EAS-Provisioning-WBXML''"
  by (rule wire_string_literal, code_simp)+

lemma wire_string_constants [simp]:
  "wire_string (class_to_folder_type c)" "wire_string MS_EAS_PROVISIONING_WBXML"
  by (simp_all add: class_to_folder_type_def MS_EAS_PROVISIONING_WBXML_def)

lemma el_children_container [simp]: "el_children (el_container p t cs) = cs"
  by (simp add: el_container_def)

lemma option_pred: "Some x = v \<Longrightarrow> pred_option P v \<Longrightarrow> P x"
  by auto

lemma request_codec_wf: "request_ok r \<Longrightarrow> codec_wf (request_tree r)"
  by (cases r) (auto simp: builder_defs Let_def list_all_iff split: option.splits dest: option_pred)



section \<open>FolderSync responses\<close>

record folder_entry =
  fe_server_id :: string
  fe_parent_id :: string
  fe_display_name :: string
  fe_type :: u8

datatype folder_change = FolderAdd folder_entry | FolderUpdate folder_entry | FolderDelete string

definition render_folder :: "u8 \<Rightarrow> folder_entry \<Rightarrow> wbxml_element" where
  "render_folder t f = el_container PAGE_FOLDER t
     [el_text PAGE_FOLDER FH_SERVER_ID (fe_server_id f),
      el_text PAGE_FOLDER FH_PARENT_ID (fe_parent_id f),
      el_text PAGE_FOLDER FH_DISPLAY_NAME (fe_display_name f),
      el_text PAGE_FOLDER FH_TYPE (dec_string (unat (fe_type f)))]"

fun render_folder_change :: "folder_change \<Rightarrow> wbxml_element" where
  "render_folder_change (FolderAdd f) = render_folder FH_ADD f"
| "render_folder_change (FolderUpdate f) = render_folder FH_UPDATE f"
| "render_folder_change (FolderDelete s) =
     el_container PAGE_FOLDER FH_DELETE [el_text PAGE_FOLDER FH_SERVER_ID s]"

definition render_folder_sync :: "u32 \<Rightarrow> string \<Rightarrow> folder_change list \<Rightarrow> wbxml_element" where
  "render_folder_sync status key cs = el_container PAGE_FOLDER FH_FOLDER_SYNC
     [el_text PAGE_FOLDER FH_STATUS (dec_string (unat status)),
      el_text PAGE_FOLDER FH_SYNC_KEY key,
      el_container PAGE_FOLDER FH_CHANGES
        (el_text PAGE_FOLDER FH_COUNT (dec_string (length cs)) # map render_folder_change cs)]"

definition folder_of :: "folder_entry \<Rightarrow> eas_folder" where
  "folder_of f = \<lparr>fld_server_id = fe_server_id f, fld_parent_id = fe_parent_id f,
     fld_display_name = fe_display_name f, fld_class = folder_type_to_class (dec_string (unat (fe_type f))),
     fld_folder_type = Some (fe_type f)\<rparr>"

fun changed_folders :: "folder_change \<Rightarrow> eas_folder list" where
  "changed_folders (FolderAdd f) = [folder_of f]"
| "changed_folders (FolderUpdate f) = [folder_of f]"
| "changed_folders (FolderDelete s) = []"

fun deleted_folders :: "folder_change \<Rightarrow> string list" where
  "deleted_folders (FolderDelete s) = [s]"
| "deleted_folders _ = []"

lemma parse_u8_dec_string [simp]: "parse_u8 (dec_string (unat w)) = Some w"
proof -
  have "unat w < 2 ^ LENGTH(8)" by (rule unsigned_less)
  then have "unat w \<le> 255" by simp
  then show ?thesis by (simp add: parse_u8_def parse_unsigned_dec_string)
qed

lemma el_simps [simp]:
  "is_el (el_text p t s) q u \<longleftrightarrow> p = q \<and> t = u" "text_value (el_text p t s) = Inr s"
  "text_value_opt (el_text p t s) = Some s" "el_token (el_text p t s) = t"
  "el_token (el_container p t cs) = t" "el_page (el_text p t s) = p" "el_page (el_container p t cs) = p"
  "is_el (el_container p t cs) q u \<longleftrightarrow> p = q \<and> t = u" "text_value (el_container p t cs) = Inr []"
  "is_el (el_empty p t) q u \<longleftrightarrow> p = q \<and> t = u"
  by (simp_all add: is_el_def text_value_def text_value_opt_def el_defs)

lemma parse_rendered_folder: "parse_folder_element (render_folder t f) = Inr (folder_of f)"
  by (simp add: parse_folder_element_def render_folder_def folder_element_step_def
      eas_folder_default_def folder_of_def)

lemma parse_rendered_change:
  "folder_change_step (render_folder_change c) r =
     Inr (r\<lparr>fsr_changes := fsr_changes r @ changed_folders c,
            fsr_deletions := fsr_deletions r @ deleted_folders c\<rparr>)"
  by (cases c) (simp_all add: folder_change_step_def parse_rendered_folder find_child_text_def
      render_folder_def [of FH_ADD] render_folder_def [of FH_UPDATE]
      parse_rendered_folder [unfolded render_folder_def])

lemma parse_rendered_changes:
  "fold_res folder_change_step (map render_folder_change cs) r =
     Inr (r\<lparr>fsr_changes := fsr_changes r @ concat (map changed_folders cs),
            fsr_deletions := fsr_deletions r @ concat (map deleted_folders cs)\<rparr>)"
  by (induction cs arbitrary: r) (simp_all add: parse_rendered_change)

text \<open>A FolderSync response laid out by the protocol is read completely and in order: success
  returns the new sync key, every added or updated folder with its class and type, and the ids of
  the deleted ones; any other status is returned as an error that names it, never as a delta.\<close>

lemma folder_sync_parse_spec:
  "parse_folder_sync_response (render_folder_sync status key cs) =
     (if status = 1
      then Inr \<lparr>fsr_sync_key = key, fsr_changes = concat (map changed_folders cs),
                fsr_deletions = concat (map deleted_folders cs)\<rparr>
      else Inl (InvalidContent (''FolderSync status '' @ dec_string (unat status) @ '': ''
             @ folder_sync_status_message status)))"
  by (simp add: parse_folder_sync_response_def render_folder_sync_def expect_tag_def
      folder_sync_step_def parse_folder_changes_def folder_change_step_def [of "el_text _ _ _"]
      parse_rendered_changes folder_sync_result_default_def)

section \<open>Sync responses\<close>

definition tag_at :: "u8 \<Rightarrow> u8 \<Rightarrow> string" where
  "tag_at page t = el_tag_name (el_empty page t)"

lemma el_tag_name_tag_at [simp]:
  "el_tag_name (el_text p t s) = tag_at p t" "el_tag_name (el_container p t cs) = tag_at p t"
  "el_tag_name (el_empty p t) = tag_at p t"
  by (simp_all add: tag_at_def el_tag_name_def el_defs)

lemma mail_tags [simp]:
  "tag_at 2 0x14 = ''Subject''" "tag_at 2 0x18 = ''From''" "tag_at 2 0x16 = ''To''"
  "tag_at 2 0x15 = ''Read''" "tag_at 17 0x0A = ''Body''" "tag_at 17 0x06 = ''Type''"
  "tag_at 17 0x0B = ''Data''"
  by code_simp+

record mail_entry =
  me_server_id :: string
  me_subject :: string
  me_from :: string
  me_to :: string
  me_read :: bool
  me_body_type :: u8
  me_body :: string

datatype sync_command = SyncAdd mail_entry | SyncChange mail_entry | SyncDelete string

definition render_mail :: "u8 \<Rightarrow> mail_entry \<Rightarrow> wbxml_element" where
  "render_mail t m = el_container PAGE_AIRSYNC t
     [el_text PAGE_AIRSYNC AS_SERVER_ID (me_server_id m),
      el_container PAGE_AIRSYNC AS_APPLICATION_DATA
        [el_text 2 0x14 (me_subject m), el_text 2 0x18 (me_from m), el_text 2 0x16 (me_to m),
         el_text 2 0x15 (if me_read m then ''1'' else ''0''),
         el_container BASE_PAGE 0x0A
           [el_text BASE_PAGE BODY_TYPE (dec_string (unat (me_body_type m))),
            el_text BASE_PAGE 0x0B (me_body m)]]]"

fun render_sync_command :: "sync_command \<Rightarrow> wbxml_element" where
  "render_sync_command (SyncAdd m) = render_mail AS_ADD m"
| "render_sync_command (SyncChange m) = render_mail AS_CHANGE m"
| "render_sync_command (SyncDelete s) =
     el_container PAGE_AIRSYNC AS_DELETE [el_text PAGE_AIRSYNC AS_SERVER_ID s]"

definition render_sync :: "u32 \<Rightarrow> string \<Rightarrow> bool \<Rightarrow> sync_command list \<Rightarrow> wbxml_element" where
  "render_sync status key avail cs = el_container PAGE_AIRSYNC AS_SYNC
     [el_container PAGE_AIRSYNC AS_COLLECTIONS
        [el_container PAGE_AIRSYNC AS_COLLECTION
           ([el_text PAGE_AIRSYNC AS_SYNC_KEY key,
             el_text PAGE_AIRSYNC AS_STATUS (dec_string (unat status))]
            @ (if avail then [el_empty PAGE_AIRSYNC AS_MORE_AVAILABLE] else [])
            @ [el_container PAGE_AIRSYNC AS_COMMANDS (map render_sync_command cs)])]]"

definition item_of :: "mail_entry \<Rightarrow> eas_item" where
  "item_of m = eas_item_default
     \<lparr>item_server_id := me_server_id m, item_subject := Some (me_subject m),
      item_from := Some (me_from m), item_to := Some (me_to m), item_read := Some (me_read m),
      item_body_html := (if me_body_type m = 1 then None else Some (me_body m)),
      item_body_text := (if me_body_type m = 2 then None else Some (me_body m))\<rparr>"

fun added_items :: "sync_command \<Rightarrow> eas_item list" where
  "added_items (SyncAdd m) = [item_of m]"
| "added_items _ = []"

fun changed_items :: "sync_command \<Rightarrow> eas_item list" where
  "changed_items (SyncChange m) = [item_of m]"
| "changed_items _ = []"

fun deleted_ids :: "sync_command \<Rightarrow> string list" where
  "deleted_ids (SyncDelete s) = [s]"
| "deleted_ids _ = []"

lemma parse_rendered_body:
  fixes w :: u8
  shows "parse_body (el_container BASE_PAGE 0x0A
       [el_text BASE_PAGE BODY_TYPE (dec_string (unat w)), el_text BASE_PAGE 0x0B b]) item =
     item\<lparr>item_body_html := (if w = 1 then item_body_html item else Some b),
          item_body_text := (if w = 2 then item_body_text item else Some b),
          item_body_truncated := None, item_preview := None\<rparr>"
proof -
  let ?f = "\<lparr>bf_type = Some w, bf_data = Some b, bf_truncated = False, bf_preview = None\<rparr>"
  have "fold body_step [el_text BASE_PAGE BODY_TYPE (dec_string (unat w)), el_text BASE_PAGE 0x0B b]
      \<lparr>bf_type = None, bf_data = None, bf_truncated = False, bf_preview = None\<rparr> = ?f"
    by (simp add: body_step_def)
  then show ?thesis by (cases item) (simp only: parse_body_def Let_def el_children_container, simp)
qed

lemma parse_rendered_mail: "parse_item (render_mail t m) = Inr (item_of m)"
  by (simp add: parse_item_def render_mail_def item_step_def parse_application_data_def
      application_data_step_def [of "el_text _ _ _"] application_data_step_def [of "el_container _ _ _"]
      parse_rendered_body item_of_def eas_item_default_def)

lemma parse_rendered_sync_command:
  "sync_command_step (render_sync_command c) r =
     Inr (r\<lparr>sr_added := sr_added r @ added_items c, sr_updated := sr_updated r @ changed_items c,
            sr_deleted_server_ids := sr_deleted_server_ids r @ map (\<lambda>_. []) (deleted_ids c)\<rparr>)"
  using parse_rendered_mail
  by (cases c) (auto simp: sync_command_step_def render_mail_def)

lemma parse_rendered_sync_commands:
  "fold_res sync_command_step (map render_sync_command cs) r =
     Inr (r\<lparr>sr_added := sr_added r @ concat (map added_items cs),
            sr_updated := sr_updated r @ concat (map changed_items cs),
            sr_deleted_server_ids :=
              sr_deleted_server_ids r @ map (\<lambda>_. []) (concat (map deleted_ids cs))\<rparr>)"
  by (induction cs arbitrary: r) (simp_all add: parse_rendered_sync_command)

lemma parse_rendered_sync:
  "parse_sync_response (render_sync status key avail cs) =
     Inr \<lparr>sr_sync_key = key, sr_added = concat (map added_items cs),
          sr_updated = concat (map changed_items cs),
          sr_deleted_server_ids = map (\<lambda>_. []) (concat (map deleted_ids cs)),
          sr_more_available = avail, sr_status = status\<rparr>"
  by (cases avail)
    (simp_all add: parse_sync_response_def render_sync_def expect_tag_def parse_sync_collection_def
      sync_collection_step_def parse_rendered_sync_commands sync_result_default_def)

text \<open>A Sync response laid out by the protocol yields every added and every changed message
  once, in order and in its own list, with its fields and its body in the slot of its type, the new
  sync key, the status and whether more is available.\<close>

lemma sync_parse_spec:
  "\<exists>r. parse_sync_response (render_sync status key avail cs) = Inr r \<and>
     sr_added r = concat (map added_items cs) \<and> sr_updated r = concat (map changed_items cs) \<and>
     sr_sync_key r = key \<and> sr_status r = status \<and> sr_more_available r = avail"
  by (simp add: parse_rendered_sync)

text \<open>The same response loses every deletion: a \<open>Delete\<close> carries its id in a \<open>ServerId\<close>
  child, the parser reads the text of the \<open>Delete\<close> element itself, so each deleted id comes out
  as the empty string.\<close>

lemma sync_parse_loses_deleted_ids:
  "\<exists>r. parse_sync_response (render_sync status key avail cs) = Inr r \<and>
     sr_deleted_server_ids r = replicate (length (concat (map deleted_ids cs))) []"
  by (simp add: parse_rendered_sync map_replicate_const)

section \<open>Tokens that disagree with the code pages\<close>

text \<open>
  A response whose \<open>Response\<close> element has the token of the code page is not looked into: the
  parsers of ItemOperations and GetItemEstimate compare with other numbers and return their
  default result.
\<close>

definition page_token_of :: "u8 \<Rightarrow> string \<Rightarrow> u8" where
  "page_token_of page name =
     (case Option.bind (code_page_at page) (\<lambda>p. page_token p name) of Some t \<Rightarrow> t | None \<Rightarrow> 0)"

lemma response_tokens [simp]:
  "page_token_of PAGE_ITEM_OPS ''Response'' = 0x0E" "page_token_of PAGE_GIE ''Response'' = 0x0D"
  by code_simp+

text \<open>An ItemOperations response written with the tokens of code page 20 is parsed as the empty
  default, whatever the server put into it: the attachment's data is dropped without an error.\<close>

lemma item_operations_response_ignored:
  "parse_item_operations_response b64 (el_container PAGE_ITEM_OPS IO_ITEMOPERATIONS
       [el_text PAGE_ITEM_OPS (page_token_of PAGE_ITEM_OPS ''Status'') status,
        el_container PAGE_ITEM_OPS (page_token_of PAGE_ITEM_OPS ''Response'') fetches])
     = Inr \<lparr>ior_status = 0, ior_data = None, ior_content_type = None\<rparr>"
proof -
  have "page_token_of PAGE_ITEM_OPS ''Status'' = 0x0D" by code_simp
  then show ?thesis by (simp add: parse_item_operations_response_def)
qed

text \<open>A GetItemEstimate response written with the tokens of code page 6 always reads as an
  estimate of zero for an unnamed collection.\<close>

lemma estimate_response_ignored:
  "parse_get_item_estimate_response (el_container PAGE_GIE GIE_GET_ITEM_ESTIMATE
       [el_container PAGE_GIE (page_token_of PAGE_GIE ''Response'') collections])
     = Inr \<lparr>gier_count = 0, gier_collection_id = []\<rparr>"
  by (simp add: parse_get_item_estimate_response_def)

end
