(* ===== verification/Eas_Client.thy ===== *)
theory Eas_Client
  imports Eas_Wire Eas_Status
begin

text \<open>
  \<open>eas/client.rs\<close> and \<open>EasAuth::refresh\<close> of \<open>eas/auth.rs\<close>: one request to the server, the
  wrapper that retries it at most once, the Provision handshake and a method per command.

  The HTTP library, the base64 crate and the server behind them are the parameter \<open>net\<close>: a POST
  is a function of the request and of the state of the outside world. The client's state is its
  configuration and that world.
\<close>

section \<open>The outside world\<close>

record http_request =
  hq_url :: string
  hq_headers :: "(string \<times> string) list"
  hq_body :: "u8 list"

text \<open>
  What the code reads of a response: the status, headers by name, the body as text or as bytes
  (either may fail while it is received) and the clock when it arrived.
\<close>

record http_response =
  hr_status :: u16
  hr_header :: "string \<Rightarrow> string option"
  hr_text :: "string + string"
  hr_bytes :: "string + u8 list"
  hr_now_epoch :: int

datatype token_reply =
    TokenUnreachable string
  | TokenStatus string
  | TokenUnparsable string
  | TokenGranted string "string option"

record 'w net =
  net_post :: "http_request \<Rightarrow> 'w \<Rightarrow> (string + http_response) \<times> 'w"
  net_token :: "string \<Rightarrow> (string \<times> string) list \<Rightarrow> 'w \<Rightarrow> token_reply \<times> 'w"
  net_base64 :: "u8 list \<Rightarrow> string"

record 'w eas_client =
  cl_config :: eas_config
  cl_world :: 'w

type_synonym ('w, 'a) eas_io = "('w eas_client, eas_error, 'a) io"

section \<open>Authentication\<close>

definition is_oauth :: "eas_auth \<Rightarrow> bool" where
  "is_oauth a = (case a of Basic _ _ \<Rightarrow> False | OAuth _ _ _ _ _ _ \<Rightarrow> True)"

definition authorization_header :: "(u8 list \<Rightarrow> string) \<Rightarrow> eas_auth \<Rightarrow> string" where
  "authorization_header b64 a =
     (case a of
        Basic username password \<Rightarrow> ''Basic '' @ b64 (as_bytes (username @ '':'' @ password))
      | OAuth tok _ _ _ _ _ \<Rightarrow> ''Bearer '' @ tok)"

definition build_refresh_form ::
    "string \<Rightarrow> string \<Rightarrow> string option \<Rightarrow> string option \<Rightarrow> (string \<times> string) list" where
  "build_refresh_form rt cid secret scope =
     [(''grant_type'', ''refresh_token''), (''refresh_token'', rt), (''client_id'', cid)]
     @ (case secret of Some s \<Rightarrow> [(''client_secret'', s)] | None \<Rightarrow> [])
     @ (case scope of Some s \<Rightarrow> [(''scope'', s)] | None \<Rightarrow> [])"

definition refresh :: "'w net \<Rightarrow> eas_auth \<Rightarrow> 'w \<Rightarrow> (eas_error + eas_auth) \<times> 'w" where
  "refresh net a w =
     (case a of
        Basic _ _ \<Rightarrow> (Inr a, w)
      | OAuth tok rt cid secret url scope \<Rightarrow>
          (case rt of
             None \<Rightarrow>
               (Inl (AuthRefreshFailed
                  (''no refresh_token '' @ em_dash @ '' user must re-authenticate'')), w)
           | Some r \<Rightarrow>
               (case net_token net url (build_refresh_form r cid secret scope) w of
                  (TokenUnreachable e, w') \<Rightarrow>
                    (Inl (AuthRefreshFailed (''refresh request failed: '' @ e)), w')
                | (TokenStatus body, w') \<Rightarrow>
                    (Inl (AuthRefreshFailed (''refresh status: '' @ body)), w')
                | (TokenUnparsable e, w') \<Rightarrow>
                    (Inl (AuthRefreshFailed (''refresh parse: '' @ e)), w')
                | (TokenGranted new_tok new_rt, w') \<Rightarrow>
                    (Inr (OAuth new_tok (case new_rt of Some n \<Rightarrow> Some n | None \<Rightarrow> Some r)
                            cid secret url scope), w'))))"

section \<open>One request\<close>

datatype retry_decision = NoRetry | RunProvision | RefreshAccessToken | FollowLocation

definition retry_decision_for_http_err :: "u16 \<Rightarrow> bool \<Rightarrow> retry_decision" where
  "retry_decision_for_http_err status oauth =
     (case recovery_action_for_http status oauth of
        RetryProvision \<Rightarrow> RunProvision
      | RefreshToken \<Rightarrow> RefreshAccessToken
      | FollowRedirect \<Rightarrow> FollowLocation
      | _ \<Rightarrow> NoRetry)"

definition unreserved :: "u8 \<Rightarrow> bool" where
  "unreserved b \<longleftrightarrow>
     (0x41 \<le> b \<and> b \<le> 0x5A) \<or> (0x61 \<le> b \<and> b \<le> 0x7A) \<or> (0x30 \<le> b \<and> b \<le> 0x39) \<or>
     b = 0x2D \<or> b = 0x5F \<or> b = 0x2E \<or> b = 0x7E"

definition urlencode :: "string \<Rightarrow> string" where
  "urlencode s = concat (map (\<lambda>b.
     if unreserved b then of_bytes [b]
     else [CHR ''%'', hex_upper (unat b div 16), hex_upper (unat b mod 16)]) (as_bytes s))"

definition parse_retry_after_delta :: "string \<Rightarrow> int \<Rightarrow> int option" where
  "parse_retry_after_delta header_value now_epoch =
     map_option (\<lambda>delta. wrap_i64 (now_epoch + delta)) (parse_i64 (trim_ascii header_value))"

definition expect_root :: "wbxml_element \<Rightarrow> u8 \<Rightarrow> u8 \<Rightarrow> eas_error + unit" where
  "expect_root root page t =
     (if el_page root = page \<and> el_token root = t then Inr ()
      else Inl (UnexpectedRoot (el_page root) (el_token root)))"

text \<open>\<open>HeaderValue::to_str\<close> accepts visible ASCII and tabs.\<close>

definition header_str :: "string \<Rightarrow> string option" where
  "header_str v =
     (if list_all (\<lambda>c. let n = of_char c :: nat in (32 \<le> n \<and> n < 127) \<or> n = 9) v
      then Some v else None)"

definition build_http_request :: "(u8 list \<Rightarrow> string) \<Rightarrow> eas_config \<Rightarrow> string \<Rightarrow> u8 list \<Rightarrow> http_request" where
  "build_http_request b64 cfg cmd_name wbxml_bytes =
     \<lparr>hq_url = trim_end_char (CHR ''/'') (cfg_url cfg) @ ''?Cmd='' @ cmd_name
        @ ''&User='' @ urlencode (cfg_username cfg)
        @ ''&DeviceId='' @ urlencode (cfg_device_id cfg)
        @ ''&DeviceType='' @ urlencode (cfg_device_type cfg),
      hq_headers =
        [(''Authorization'',
            (case cfg_auth cfg of
               Some a \<Rightarrow> authorization_header b64 a
             | None \<Rightarrow> ''Basic '' @ b64 (as_bytes (cfg_username cfg @ '':'' @ cfg_password cfg)))),
         (''MS-ASProtocolVersion'', cfg_protocol_version cfg),
         (''Content-Type'', ''application/vnd.ms-sync.wbxml''),
         (''Accept'', ''application/vnd.ms-sync.wbxml''),
         (''X-MS-DeviceType'', cfg_device_type cfg),
         (''X-MS-DeviceId'', cfg_device_id cfg),
         (''X-MS-PolicyKey'', if cfg_policy_key cfg = [] then ''0'' else cfg_policy_key cfg),
         (''User-Agent'', cfg_user_agent cfg),
         (''Connection'', ''keep-alive'')],
      hq_body = wbxml_bytes\<rparr>"

definition read_body :: "string \<Rightarrow> http_response \<Rightarrow> (eas_error + wbxml_element) panicky" where
  "read_body content_type resp =
     (if \<not> contains_str ''vnd.ms-sync.wbxml'' content_type
      then Returned (Inl (Transport
             (''server returned non-WBXML content-type '' @ [CHR 0x27] @ content_type @ [CHR 0x27]
              @ ''. First 200 bytes: ''
              @ from_utf8_lossy (take 200 (unwrap_or [] (hr_bytes resp))))))
      else case hr_bytes resp of
          Inl e \<Rightarrow> Returned (Inl (Transport e))
        | Inr body \<Rightarrow>
            if body = [] then Returned (Inl (Transport ''empty response body''))
            else case deserialize_to_tree body of
                Panicked \<Rightarrow> Panicked
              | Returned (Inl e) \<Rightarrow> Returned (Inl (WbxmlFailure e))
              | Returned (Inr tree) \<Rightarrow> Returned (Inr tree))"

definition read_response :: "http_response \<Rightarrow> (eas_error + wbxml_element) panicky" where
  "read_response resp =
     (let retry_after = Option.bind (Option.bind (hr_header resp ''Retry-After'') header_str)
                          (\<lambda>s. parse_retry_after_delta s (hr_now_epoch resp));
          content_type = opt_or [] (Option.bind (hr_header resp ''Content-Type'') header_str)
      in if hr_status resp \<noteq> 200
         then Returned (Inl (HttpStatus (hr_status resp) (unwrap_or [] (hr_text resp)) retry_after))
         else case hr_header resp ''MS-ASProtocolStatus'' of
             Some v \<Rightarrow>
               (let s = opt_or ''0'' (header_str v)
                in if s \<noteq> ''0''
                   then Returned (Inl (CommandStatus (opt_or 0 (parse_u32 s))
                          (''protocol error from server: '' @ s)))
                   else read_body content_type resp)
           | None \<Rightarrow> read_body content_type resp)"

definition send_command_no_retry :: "'w net \<Rightarrow> string \<Rightarrow> wbxml_element \<Rightarrow> ('w, wbxml_element) eas_io" where
  "send_command_no_retry net cmd_name request_root c =
     (case serialize_tree request_root of
        Inl e \<Rightarrow> (Returned (Inl (WbxmlFailure e)), c)
      | Inr wbxml_bytes \<Rightarrow>
          (case net_post net (build_http_request (net_base64 net) (cl_config c) cmd_name wbxml_bytes)
                  (cl_world c) of
             (Inl e, w) \<Rightarrow> (Returned (Inl (Transport e)), c\<lparr>cl_world := w\<rparr>)
           | (Inr resp, w) \<Rightarrow> (read_response resp, c\<lparr>cl_world := w\<rparr>)))"

section \<open>Provision\<close>

definition check_provision_status :: "string \<Rightarrow> string \<Rightarrow> provision_result \<Rightarrow> eas_error + unit" where
  "check_provision_status wipe_message phase r =
     (if pr_remote_wipe r then Inl (CommandStatus 140 wipe_message)
      else if pr_status r \<noteq> 1
      then Inl (CommandStatus (pr_status r)
             (''Provision phase '' @ phase @ '' status '' @ dec_string (unat (pr_status r))))
      else Inr ())"

definition provision_phase :: "'w net \<Rightarrow> wbxml_element \<Rightarrow> string \<Rightarrow> string \<Rightarrow> string \<Rightarrow> ('w, string) eas_io" where
  "provision_phase net req wipe_message phase missing_key =
     io_bind (send_command_no_retry net ''Provision'' req) (\<lambda>resp.
     io_bind (io_lift (map_err WbxmlFailure (parse_provision_response resp))) (\<lambda>parsed.
     io_bind (io_lift (check_provision_status wipe_message phase parsed)) (\<lambda>_.
     case pr_policy_key parsed of
       Some k \<Rightarrow> io_ret k | None \<Rightarrow> io_fail (Transport missing_key))))"

definition provision :: "'w net \<Rightarrow> ('w, unit) eas_io" where
  "provision net =
     io_bind (provision_phase net build_provision_phase1_request
                (''server requested RemoteWipe '' @ em_dash @ '' refusing to auto-execute'') ''1''
                ''Provision phase 1 returned no PolicyKey'')
       (\<lambda>temp_key.
     io_bind (provision_phase net (build_provision_phase2_request temp_key)
                (''server requested RemoteWipe in phase 2 '' @ em_dash @ '' refusing'') ''2''
                ''Provision phase 2 returned no permanent PolicyKey'')
       (\<lambda>perm_key c. (Returned (Inr ()), c\<lparr>cl_config := (cl_config c)\<lparr>cfg_policy_key := perm_key\<rparr>\<rparr>)))"

section \<open>The retry wrapper\<close>

definition refresh_auth :: "'w net \<Rightarrow> ('w, unit) eas_io" where
  "refresh_auth net c =
     (case cfg_auth (cl_config c) of
        None \<Rightarrow> (Returned (Inr ()), c)
      | Some a \<Rightarrow>
          (case refresh net a (cl_world c) of
             (Inl e, w) \<Rightarrow> (Returned (Inl e), c\<lparr>cl_world := w\<rparr>)
           | (Inr a', w) \<Rightarrow>
               (Returned (Inr ()),
                c\<lparr>cl_world := w, cl_config := (cl_config c)\<lparr>cfg_auth := Some a'\<rparr>\<rparr>)))"

definition uses_oauth :: "eas_config \<Rightarrow> bool" where
  "uses_oauth cfg = opt_or False (map_option is_oauth (cfg_auth cfg))"

definition send_command :: "'w net \<Rightarrow> string \<Rightarrow> wbxml_element \<Rightarrow> ('w, wbxml_element) eas_io" where
  "send_command net cmd_name request_root c =
     (case send_command_no_retry net cmd_name request_root c of
        (Returned (Inl (HttpStatus status body ra)), c') \<Rightarrow>
          (case retry_decision_for_http_err status (uses_oauth (cl_config c')) of
             RunProvision \<Rightarrow>
               io_bind (provision net) (\<lambda>_. send_command_no_retry net cmd_name request_root) c'
           | RefreshAccessToken \<Rightarrow>
               io_bind (refresh_auth net) (\<lambda>_. send_command_no_retry net cmd_name request_root) c'
           | FollowLocation \<Rightarrow>
               (Returned (Inl (HttpStatus status ''redirect handling pending'' None)), c')
           | NoRetry \<Rightarrow>
               (Returned (Inl (HttpStatus status (''http '' @ dec_string (unat status)) None)), c'))
      | r \<Rightarrow> r)"

section \<open>The commands\<close>

definition run_command :: "'w net \<Rightarrow> string \<Rightarrow> wbxml_element \<Rightarrow> u8 \<Rightarrow> u8
    \<Rightarrow> (wbxml_element \<Rightarrow> wbxml_error + 'a) \<Rightarrow> ('w, 'a) eas_io" where
  "run_command net cmd_name tree page t parse =
     io_bind (send_command net cmd_name tree) (\<lambda>resp.
     io_bind (io_lift (expect_root resp page t)) (\<lambda>_.
     io_lift (map_err WbxmlFailure (parse resp))))"

definition folder_sync :: "'w net \<Rightarrow> string \<Rightarrow> ('w, folder_sync_result) eas_io" where
  "folder_sync net sync_key = run_command net ''FolderSync'' (build_folder_sync_request sync_key)
     PAGE_FOLDER FH_FOLDER_SYNC parse_folder_sync_response"

definition sync :: "'w net \<Rightarrow> sync_request \<Rightarrow> ('w, sync_result) eas_io" where
  "sync net req = run_command net ''Sync'' (build_sync_request req)
     PAGE_AIRSYNC AS_SYNC parse_sync_response"

definition send_mail :: "'w net \<Rightarrow> send_mail_request \<Rightarrow> ('w, u32) eas_io" where
  "send_mail net req = run_command net ''SendMail'' (build_send_mail_request req)
     PAGE_COMPOSE SEND_MAIL parse_send_mail_response"

definition smart_forward :: "'w net \<Rightarrow> smart_request \<Rightarrow> ('w, u32) eas_io" where
  "smart_forward net req = run_command net ''SmartForward'' (build_smart_forward_request req)
     PAGE_COMPOSE SMART_FORWARD parse_send_mail_response"

definition smart_reply :: "'w net \<Rightarrow> smart_request \<Rightarrow> ('w, u32) eas_io" where
  "smart_reply net req = run_command net ''SmartReply'' (build_smart_reply_request req)
     PAGE_COMPOSE SMART_REPLY parse_send_mail_response"

definition item_operations ::
    "'w net \<Rightarrow> item_operations_fetch_request \<Rightarrow> ('w, item_operations_fetch_result) eas_io" where
  "item_operations net req = run_command net ''ItemOperations'' (build_item_operations_request req)
     PAGE_ITEM_OPS IO_ITEMOPERATIONS (parse_item_operations_response (net_base64 net))"

definition get_item_estimate ::
    "'w net \<Rightarrow> get_item_estimate_request \<Rightarrow> ('w, get_item_estimate_result) eas_io" where
  "get_item_estimate net req =
     run_command net ''GetItemEstimate'' (build_get_item_estimate_request req)
       PAGE_GIE GIE_GET_ITEM_ESTIMATE parse_get_item_estimate_response"

definition ping :: "'w net \<Rightarrow> ping_request \<Rightarrow> ('w, string) eas_io" where
  "ping net req = run_command net ''Ping'' (build_ping_request req)
     PAGE_PING PING_PING parse_ping_response"

definition folder_create :: "'w net \<Rightarrow> folder_create_request \<Rightarrow> ('w, u32 \<times> string option) eas_io" where
  "folder_create net req = run_command net ''FolderCreate'' (build_folder_create_request req)
     PAGE_FOLDER FH_FOLDER_CREATE parse_folder_op_response"

definition folder_delete :: "'w net \<Rightarrow> string \<Rightarrow> ('w, u32 \<times> string option) eas_io" where
  "folder_delete net server_id = run_command net ''FolderDelete'' (build_folder_delete_request server_id)
     PAGE_FOLDER FH_FOLDER_DELETE parse_folder_op_response"

definition folder_update :: "'w net \<Rightarrow> folder_update_request \<Rightarrow> ('w, u32 \<times> string option) eas_io" where
  "folder_update net req = run_command net ''FolderUpdate'' (build_folder_update_request req)
     PAGE_FOLDER FH_FOLDER_UPDATE parse_folder_op_response"

section \<open>Inversion of the client\<close>

lemma send_no_retry_config:
  "send_command_no_retry net cmd tree c = (r, c') \<Longrightarrow> cl_config c' = cl_config c"
  by (auto simp: send_command_no_retry_def split: sum.splits prod.splits)

lemma provision_phase_Inr:
  "provision_phase net req wm ph mk c = (Returned (Inr k), c') \<longleftrightarrow>
     (\<exists>resp p. send_command_no_retry net ''Provision'' req c = (Returned (Inr resp), c') \<and>
        parse_provision_response resp = Inr p \<and> \<not> pr_remote_wipe p \<and> pr_status p = 1 \<and>
        pr_policy_key p = Some k)"
  (is "?l \<longleftrightarrow> ?r")
proof
  assume ?l
  then show ?r unfolding provision_phase_def
    by (auto simp: res_simps io_lift_def io_ret_def io_fail_def check_provision_status_def
        split: option.splits if_splits)
next
  assume ?r
  then show ?l
    by (auto simp: provision_phase_def io_bind_def io_lift_def io_ret_def check_provision_status_def)
qed

lemma provision_phase_config:
  "provision_phase net req wm ph mk c = (r, c') \<Longrightarrow> cl_config c' = cl_config c"
  unfolding provision_phase_def
  by (auto simp: io_bind_def io_lift_def io_ret_def io_fail_def
      split: prod.splits panicky.splits sum.splits option.splits dest: send_no_retry_config)

lemma provision_phase_wipe:
  assumes "send_command_no_retry net ''Provision'' req c = (Returned (Inr resp), c')"
    and "parse_provision_response resp = Inr p" and "pr_remote_wipe p"
  shows "provision_phase net req wm ph mk c = (Returned (Inl (CommandStatus 140 wm)), c')"
  using assms by (simp add: provision_phase_def io_bind_def io_lift_def io_fail_def check_provision_status_def)

lemma provision_failed_config:
  assumes "provision net c = (Returned (Inl e), c')"
  shows "cl_config c' = cl_config c"
  using assms unfolding provision_def
  by (auto simp: res_simps dest!: provision_phase_config)

section \<open>Number of requests\<close>

text \<open>A network that also keeps the list of the requests it was asked for.\<close>

definition logging :: "'w net \<Rightarrow> ('w \<times> http_request list) net" where
  "logging net =
     \<lparr>net_post = (\<lambda>r (w, log). case net_post net r w of (x, w') \<Rightarrow> (x, (w', log @ [r]))),
      net_token = (\<lambda>url form (w, log). case net_token net url form w of (x, w') \<Rightarrow> (x, (w', log))),
      net_base64 = net_base64 net\<rparr>"

definition requests :: "('w \<times> http_request list) eas_client \<Rightarrow> http_request list" where
  "requests c = snd (cl_world c)"

definition posts_at_most :: "nat \<Rightarrow> ('w \<times> http_request list, 'a) eas_io \<Rightarrow> bool" where
  "posts_at_most n m \<longleftrightarrow> (\<forall>c. length (requests (snd (m c))) \<le> length (requests c) + n)"

lemma posts_at_most_bind:
  assumes "posts_at_most m f" and "\<And>x. posts_at_most n (g x)"
  shows "posts_at_most (m + n) (io_bind f g)"
  unfolding posts_at_most_def
proof
  fix c
  obtain r c1 where f: "f c = (r, c1)" by (cases "f c")
  then have c1: "length (requests c1) \<le> length (requests c) + m"
    using assms(1) by (auto simp: posts_at_most_def dest: spec [of _ c])
  have "length (requests (snd (g x c1))) \<le> length (requests c1) + n" for x
    using assms(2) [of x] by (simp add: posts_at_most_def)
  then show "length (requests (snd (io_bind f g c))) \<le> length (requests c) + (m + n)"
    using c1 f by (fastforce simp: io_bind_def split: panicky.splits sum.splits intro: le_trans)
qed

lemma posts_at_most_mono: "posts_at_most m f \<Longrightarrow> m \<le> n \<Longrightarrow> posts_at_most n f"
  unfolding posts_at_most_def by (meson add_left_mono le_trans)

lemma posts_io_lift: "posts_at_most 0 (io_lift r)"
  by (simp add: posts_at_most_def io_lift_def)

lemma posts_lift_bind:
  "(\<And>x. posts_at_most n (g x)) \<Longrightarrow> posts_at_most n (io_bind (io_lift r) g)"
  using posts_at_most_bind [OF posts_io_lift, of n g r] by simp

lemma posts_send_no_retry: "posts_at_most 1 (send_command_no_retry (logging net) cmd tree)"
  unfolding posts_at_most_def
  by (auto simp: send_command_no_retry_def logging_def requests_def split: sum.splits prod.splits)

lemma posts_provision_phase: "posts_at_most 1 (provision_phase (logging net) req wm ph mk)"
proof -
  have final: "posts_at_most 0 (case k of Some k \<Rightarrow> io_ret k | None \<Rightarrow> io_fail e)" for k e
    by (simp add: posts_at_most_def io_ret_def io_fail_def split: option.splits)
  have "posts_at_most (1 + 0) (provision_phase (logging net) req wm ph mk)"
    unfolding provision_phase_def
    by (intro posts_at_most_bind posts_send_no_retry posts_lift_bind final)
  then show ?thesis by simp
qed

lemma posts_provision: "posts_at_most 2 (provision (logging net))"
proof -
  have "posts_at_most (1 + (1 + 0)) (provision (logging net))"
    unfolding provision_def
    by (intro posts_at_most_bind posts_provision_phase) (simp add: posts_at_most_def requests_def)
  then show ?thesis by (simp add: numeral_2_eq_2)
qed

lemma posts_refresh: "posts_at_most 0 (refresh_auth (logging net))"
  unfolding posts_at_most_def
  by (auto simp: refresh_auth_def refresh_def logging_def requests_def
      split: option.splits eas_auth.splits prod.splits token_reply.splits)

lemma posts_retry:
  "posts_at_most 3 (io_bind (provision (logging net)) (\<lambda>_. send_command_no_retry (logging net) cmd tree))"
  "posts_at_most 3 (io_bind (refresh_auth (logging net)) (\<lambda>_. send_command_no_retry (logging net) cmd tree))"
  using posts_at_most_bind [OF posts_provision posts_send_no_retry]
    posts_at_most_bind [OF posts_refresh posts_send_no_retry, THEN posts_at_most_mono, of 3]
  by (simp_all add: numeral_3_eq_3)

text \<open>One command makes at most four HTTP requests, whatever the server answers: the command,
  the two phases of one Provision handshake, and the command again. There is no retry loop.\<close>

lemma send_command_bounded:
  "length (requests (snd (send_command (logging net) cmd tree c))) \<le> length (requests c) + 4"
proof -
  obtain r c1 where first: "send_command_no_retry (logging net) cmd tree c = (r, c1)"
    by (cases "send_command_no_retry (logging net) cmd tree c")
  then have c1: "length (requests c1) \<le> length (requests c) + 1"
    using posts_send_no_retry [of net cmd tree] by (auto simp: posts_at_most_def dest: spec [of _ c])
  have retry: "length (requests (snd (m c1))) \<le> length (requests c) + 4"
    if "posts_at_most 3 m" for m :: "('a \<times> http_request list, wbxml_element) eas_io"
    using that c1 unfolding posts_at_most_def by (auto dest!: spec [of _ c1])
  show ?thesis
    using c1 retry [OF posts_retry(1)] retry [OF posts_retry(2)]
    by (auto simp: send_command_def first split: panicky.splits sum.splits eas_error.splits
        retry_decision.splits)
qed

section \<open>The exchange of one command\<close>

definition wbxml_reply :: "http_response \<Rightarrow> u8 list \<Rightarrow> bool" where
  "wbxml_reply resp body \<longleftrightarrow>
     hr_status resp = 200 \<and> hr_header resp ''MS-ASProtocolStatus'' = None \<and>
     hr_header resp ''Content-Type'' = Some ''application/vnd.ms-sync.wbxml'' \<and>
     hr_bytes resp = Inr body"

lemma wbxml_content_type:
  "header_str ''application/vnd.ms-sync.wbxml'' = Some ''application/vnd.ms-sync.wbxml''"
  "contains_str ''vnd.ms-sync.wbxml'' ''application/vnd.ms-sync.wbxml''"
  by code_simp+

lemma read_wbxml_reply:
  assumes "wbxml_reply resp body" and "codec_wf e" and "serialize_tree e = Inr body"
  shows "read_response resp = Returned (Inr e)"
proof -
  have "deserialize_to_tree body = Returned (Inr e)"
    using assms(2,3) by (rule wbxml.decode_encode)
  moreover from this have "body \<noteq> []"
    by (auto simp: deserialize_to_tree_def deserializer_new_def read_header_def)
  ultimately show ?thesis using assms(1)
    by (simp add: wbxml_reply_def read_response_def read_body_def wbxml_content_type)
qed

text \<open>One exchange end to end: for a well-formed request the server receives bytes that decode
  to exactly that request, and when it answers 200 with the bytes of a well-formed tree the caller
  gets that tree, the configuration unchanged.\<close>

lemma send_command_delivers:
  assumes "codec_wf req" and "codec_wf reply"
    and "serialize_tree req = Inr sent" and "serialize_tree reply = Inr body"
    and "net_post net (build_http_request (net_base64 net) (cl_config c) cmd sent) (cl_world c)
           = (Inr resp, w)"
    and "wbxml_reply resp body"
  shows "deserialize_to_tree sent = Returned (Inr req) \<and>
    send_command net cmd req c = (Returned (Inr reply), c\<lparr>cl_world := w\<rparr>)"
  using wbxml.decode_encode [OF assms(1,3)] read_wbxml_reply [OF assms(6,2,4)] assms(3,5)
  by (simp add: send_command_def send_command_no_retry_def)

definition fixed_net :: "http_response \<Rightarrow> unit net" where
  "fixed_net resp = \<lparr>net_post = (\<lambda>_ w. (Inr resp, w)),
     net_token = (\<lambda>_ _ w. (TokenGranted ''new-token'' None, w)), net_base64 = (\<lambda>_. [])\<rparr>"

definition test_client :: "unit eas_client" where
  "test_client = \<lparr>cl_config = eas_config_default, cl_world = ()\<rparr>"

definition ok_response :: "u8 list \<Rightarrow> http_response" where
  "ok_response body = \<lparr>hr_status = 200,
     hr_header = (\<lambda>h. if h = ''Content-Type'' then Some ''application/vnd.ms-sync.wbxml'' else None),
     hr_text = Inr [], hr_bytes = Inr body, hr_now_epoch = 0\<rparr>"

lemma ok_response_reply: "wbxml_reply (ok_response body) body"
  by (simp add: wbxml_reply_def ok_response_def)

lemma provision1_wf: "codec_wf build_provision_phase1_request"
  using request_codec_wf [of ReqProvision1] by simp

lemma send_command_delivers_witness:
  "\<exists>sent. serialize_tree build_provision_phase1_request = Inr sent \<and>
     deserialize_to_tree sent = Returned (Inr build_provision_phase1_request) \<and>
     send_command (fixed_net (ok_response sent)) ''Provision'' build_provision_phase1_request test_client
       = (Returned (Inr build_provision_phase1_request), test_client)"
proof -
  obtain sent where sent: "serialize_tree build_provision_phase1_request = Inr sent"
    using wbxml.roundtrip [OF provision1_wf] by auto
  show ?thesis
    using send_command_delivers [OF provision1_wf provision1_wf sent sent _ ok_response_reply,
        of "fixed_net (ok_response sent)" test_client "''Provision''" "()"] sent
    by (simp add: fixed_net_def test_client_def)
qed

section \<open>Recovery\<close>

text \<open>Provision succeeds exactly when the server accepts both phases: neither response asks for
  a remote wipe, both have status 1, the key of the first is the one acknowledged in the second, and
  only the key of the second is stored. The rest of the configuration never changes.\<close>

lemma provision_success_iff:
  "provision net c = (Returned (Inr ()), c') \<longleftrightarrow>
     (\<exists>r1 p1 temp c1 r2 p2 perm c2.
        send_command_no_retry net ''Provision'' build_provision_phase1_request c = (Returned (Inr r1), c1) \<and>
        parse_provision_response r1 = Inr p1 \<and> \<not> pr_remote_wipe p1 \<and> pr_status p1 = 1 \<and>
        pr_policy_key p1 = Some temp \<and>
        send_command_no_retry net ''Provision'' (build_provision_phase2_request temp) c1
          = (Returned (Inr r2), c2) \<and>
        parse_provision_response r2 = Inr p2 \<and> \<not> pr_remote_wipe p2 \<and> pr_status p2 = 1 \<and>
        pr_policy_key p2 = Some perm \<and>
        c' = c2\<lparr>cl_config := (cl_config c)\<lparr>cfg_policy_key := perm\<rparr>\<rparr>)"
  (is "?l \<longleftrightarrow> ?r")
proof
  assume ?l
  then obtain temp c1 perm c2 where
    phases: "provision_phase net build_provision_phase1_request
        (''server requested RemoteWipe '' @ em_dash @ '' refusing to auto-execute'') ''1''
        ''Provision phase 1 returned no PolicyKey'' c = (Returned (Inr temp), c1)"
      "provision_phase net (build_provision_phase2_request temp)
        (''server requested RemoteWipe in phase 2 '' @ em_dash @ '' refusing'') ''2''
        ''Provision phase 2 returned no permanent PolicyKey'' c1 = (Returned (Inr perm), c2)"
    and c': "c' = c2\<lparr>cl_config := (cl_config c2)\<lparr>cfg_policy_key := perm\<rparr>\<rparr>"
    by (auto simp: provision_def io_bind_Inr_iff)
  have "cl_config c2 = cl_config c" using phases by (simp add: provision_phase_config)
  with phases c' show ?r unfolding provision_phase_Inr by metis
next
  assume ?r
  then show ?l
    by (auto simp: provision_def io_bind_Inr_iff provision_phase_Inr dest: send_no_retry_config)
       (metis send_no_retry_config)
qed

text \<open>A remote wipe is never obeyed and never stored: when the first Provision response contains
  one, the handshake stops with status 140 after a single request and the configuration is that of
  before.\<close>

lemma provision_remote_wipe:
  assumes "send_command_no_retry net ''Provision'' build_provision_phase1_request c = (Returned (Inr r), c')"
    and "parse_provision_response r = Inr p" and "pr_remote_wipe p"
  shows "\<exists>m. provision net c = (Returned (Inl (CommandStatus 140 m)), c') \<and> cl_config c' = cl_config c"
  using provision_phase_wipe [OF assms] send_no_retry_config [OF assms(1)]
  by (simp add: provision_def io_bind_def)

definition wipe_tree :: wbxml_element where
  "wipe_tree = el_container PAGE_PROVISION PROVISION [el_empty PAGE_PROVISION REMOTE_WIPE]"

lemma provision_remote_wipe_witness:
  "\<exists>body m. serialize_tree wipe_tree = Inr body \<and>
     provision (fixed_net (ok_response body)) test_client
       = (Returned (Inl (CommandStatus 140 m)), test_client)"
proof -
  have wf: "codec_wf wipe_tree" by (simp add: wipe_tree_def)
  obtain body where body: "serialize_tree wipe_tree = Inr body" using wbxml.roundtrip [OF wf] by auto
  obtain sent where sent: "serialize_tree build_provision_phase1_request = Inr sent"
    using wbxml.roundtrip [OF provision1_wf] by auto
  have "send_command_no_retry (fixed_net (ok_response body)) ''Provision'' build_provision_phase1_request
      test_client = (Returned (Inr wipe_tree), test_client)"
    using read_wbxml_reply [OF ok_response_reply wf body] sent
    by (simp add: send_command_no_retry_def fixed_net_def test_client_def)
  moreover have "\<exists>p. parse_provision_response wipe_tree = Inr p \<and> pr_remote_wipe p"
    by (simp add: parse_provision_response_def wipe_tree_def provision_step_def)
  ultimately show ?thesis using provision_remote_wipe body by blast
qed

text \<open>On a 401 an OAuth account refreshes its token once and repeats the command with the new
  token in place; the refresh token is replaced only when the identity provider rotates it.\<close>

lemma send_command_refreshes_token:
  assumes "send_command_no_retry net cmd tree c = (Returned (Inl (HttpStatus 401 body ra)), c1)"
    and "cfg_auth (cl_config c) = Some (OAuth tok (Some rt) cid secret url scope)"
    and "net_token net url (build_refresh_form rt cid secret scope) (cl_world c1)
           = (TokenGranted tok' rt', w)"
  shows "send_command net cmd tree c =
    send_command_no_retry net cmd tree
      (c1\<lparr>cl_world := w, cl_config := (cl_config c)
          \<lparr>cfg_auth := Some (OAuth tok' (Some (opt_or rt rt')) cid secret url scope)\<rparr>\<rparr>)"
  using assms send_no_retry_config [OF assms(1)]
  by (simp add: send_command_def retry_decision_for_http_err_def recovery_defs uses_oauth_def
      is_oauth_def io_bind_def refresh_auth_def refresh_def split: option.splits)

definition status_response :: "u16 \<Rightarrow> (string \<Rightarrow> string option) \<Rightarrow> http_response" where
  "status_response status headers = \<lparr>hr_status = status, hr_header = headers, hr_text = Inr ''busy'',
     hr_bytes = Inr [], hr_now_epoch = 1000\<rparr>"

definition oauth_client :: "unit eas_client" where
  "oauth_client = test_client\<lparr>cl_config := eas_config_default
     \<lparr>cfg_auth := Some (OAuth ''old'' (Some ''r'') [] None [] None)\<rparr>\<rparr>"

lemma send_provision1_status:
  assumes "status \<noteq> 200"
  shows "send_command_no_retry (fixed_net (status_response status (\<lambda>_. None))) ''Provision''
      build_provision_phase1_request c = (Returned (Inl (HttpStatus status ''busy'' None)), c)"
proof -
  obtain sent where "serialize_tree build_provision_phase1_request = Inr sent"
    using wbxml.roundtrip [OF provision1_wf] by auto
  with assms show ?thesis
    by (simp add: send_command_no_retry_def fixed_net_def status_response_def read_response_def)
qed

lemma send_command_refreshes_token_witness:
  "send_command (fixed_net (status_response 401 (\<lambda>_. None))) ''Provision'' build_provision_phase1_request
      oauth_client
    = (Returned (Inl (HttpStatus 401 ''busy'' None)), oauth_client\<lparr>cl_config := eas_config_default
        \<lparr>cfg_auth := Some (OAuth ''new-token'' (Some ''r'') [] None [] None)\<rparr>\<rparr>)"
  using send_command_refreshes_token [OF send_provision1_status [of 401], of oauth_client
      "''old''" "''r''" "[]" None "[]" None "''new-token''" None "()"]
  by (simp add: oauth_client_def test_client_def fixed_net_def send_provision1_status
      [unfolded fixed_net_def])

text \<open>The wait that a throttling server asks for is lost: a 429 or 503 with a \<open>Retry-After\<close>
  header leaves \<open>send_command\<close> as an \<open>HttpStatus\<close> whose \<open>retry_after\<close> is empty, and whose body
  is not the server's.\<close>

lemma send_command_drops_retry_after:
  assumes "send_command_no_retry net cmd tree c = (Returned (Inl (HttpStatus status body (Some ra))), c')"
    and "status = 429 \<or> status = 503"
  shows "send_command net cmd tree c =
    (Returned (Inl (HttpStatus status (''http '' @ dec_string (unat status)) None)), c')"
  using assms by (auto simp: send_command_def retry_decision_for_http_err_def recovery_defs)

definition retry_after_120 :: "string \<Rightarrow> string option" where
  "retry_after_120 h = (if h = ''Retry-After'' then Some ''120'' else None)"

text \<open>A SendMail that the server accepted is reported as a failure: its success response is 200
  with an empty body, which the transport turns into an error, so the caller sends the message
  again.\<close>

lemma send_mail_success_is_error:
  assumes "serialize_tree (build_send_mail_request req) = Inr sent"
    and "net_post net (build_http_request (net_base64 net) (cl_config c) ''SendMail'' sent) (cl_world c)
           = (Inr resp, w)"
    and "wbxml_reply resp []"
  shows "send_mail net req c = (Returned (Inl (Transport ''empty response body'')), c\<lparr>cl_world := w\<rparr>)"
  using assms
  by (simp add: send_mail_def run_command_def io_bind_def send_command_def send_command_no_retry_def
      wbxml_reply_def read_response_def read_body_def wbxml_content_type)

section \<open>Query strings\<close>

text \<open>What the server does with a query value.\<close>

definition hex_val :: "char \<Rightarrow> nat" where
  "hex_val c = (let n = of_char c :: nat in if n \<le> 57 then n - 48 else n - 55)"

fun urldecode :: "string \<Rightarrow> string" where
  "urldecode [] = []"
| "urldecode (c # cs) =
     (if c = CHR ''%''
      then (case cs of
              h # l # rest \<Rightarrow> char_of (16 * hex_val h + hex_val l) # urldecode rest
            | _ \<Rightarrow> [])
      else c # urldecode cs)"

lemma hex_val_upper: "d < 16 \<Longrightarrow> hex_val (hex_upper d) = d"
  by (simp add: hex_val_def hex_upper_def of_char_of Let_def)

lemma urldecode_byte:
  "urldecode ((if unreserved b then of_bytes [b]
     else [CHR ''%'', hex_upper (unat b div 16), hex_upper (unat b mod 16)]) @ s)
   = of_bytes [b] @ urldecode s"
proof (cases "unreserved b")
  case True
  moreover from this have "b \<noteq> 0x25" by (auto simp: unreserved_def)
  then have "char_of (unat b) \<noteq> CHR ''%''"
  proof (rule contrapos_nn)
    assume "char_of (unat b) = CHR ''%''"
    then have "as_bytes (of_bytes [b]) = as_bytes ''%''" by (simp add: of_bytes_def)
    then show "b = 0x25" by (simp only: as_bytes_of_bytes) (simp add: as_bytes_def)
  qed
  ultimately show ?thesis by (simp add: of_bytes_def)
next
  case False
  have "unat b < 2 ^ LENGTH(8)" by (rule unsigned_less)
  then have "unat b div 16 < 16" by simp
  moreover have "16 * (unat b div 16) + unat b mod 16 = unat b" by simp
  ultimately show ?thesis using False by (simp add: hex_val_upper of_bytes_def)
qed

text \<open>User names, device ids and device types survive the query string: decoding the percent
  encoding gives back every byte of the value.\<close>

lemma urlencode_roundtrip: "urldecode (urlencode s) = s"
proof -
  have "urldecode (concat (map (\<lambda>b. if unreserved b then of_bytes [b]
      else [CHR ''%'', hex_upper (unat b div 16), hex_upper (unat b mod 16)]) bs)) = of_bytes bs" for bs
  proof (induction bs)
    case (Cons b bs)
    then show ?case by (simp only: list.map concat.simps urldecode_byte) (simp add: of_bytes_def)
  qed (simp add: of_bytes_def)
  then show ?thesis by (simp add: urlencode_def)
qed

end
