(* ===== verification/Mail_Source.thy ===== *)
theory Mail_Source
  imports Rust_Std
begin

text \<open>
  \<open>sync_engine/mod.rs\<close>: the vocabulary shared by the mail sources and the engine, and the
  \<open>MailSource\<close> trait as a record of its methods over the state \<open>'w\<close> of the mail server.
\<close>

section \<open>Data\<close>

record capabilities =
  cap_idle :: bool
  cap_condstore :: bool
  cap_qresync :: bool
  cap_ping :: bool
  cap_vanishearch :: bool
  cap_saves_sent_automatically :: bool
  cap_move :: bool
  cap_list_status :: bool
  cap_objectid :: bool
  cap_uidonly :: bool
  cap_enable :: bool
  cap_partial :: bool
  cap_namespace :: bool
  cap_id :: bool
  cap_gm_ext1 :: bool
  cap_uidplus :: bool
  cap_auth_oauthbearer :: bool
  cap_auth_xoauth2 :: bool
  cap_appendlimit :: "u64 option"
  cap_message_limit :: "u32 option"

definition capabilities_default :: capabilities where
  "capabilities_default = \<lparr>cap_idle = False, cap_condstore = False, cap_qresync = False,
     cap_ping = False, cap_vanishearch = False, cap_saves_sent_automatically = False,
     cap_move = False, cap_list_status = False, cap_objectid = False, cap_uidonly = False,
     cap_enable = False, cap_partial = False, cap_namespace = False, cap_id = False,
     cap_gm_ext1 = False, cap_uidplus = False, cap_auth_oauthbearer = False,
     cap_auth_xoauth2 = False, cap_appendlimit = None, cap_message_limit = None\<rparr>"

datatype cursor =
    ImapCursor (cur_uidvalidity: u32) (cur_highest_uid: u32) (cur_highest_modseq: u64)
  | EasCursor (cur_collection_id: string) (cur_sync_key: string)

definition initial_imap :: cursor where
  "initial_imap = ImapCursor 0 0 0"

definition initial_eas :: "string \<Rightarrow> cursor" where
  "initial_eas collection_id = EasCursor collection_id ''0''"

record remote_folder =
  rf_remote_id :: string
  rf_name :: string
  rf_delimiter :: string
  rf_special_use :: "string option"
  rf_role :: "string option"
  rf_parent_id :: "string option"
  rf_exists :: u32
  rf_unseen :: u32

definition remote_folder_default :: remote_folder where
  "remote_folder_default = \<lparr>rf_remote_id = [], rf_name = [], rf_delimiter = [], rf_special_use = None,
     rf_role = None, rf_parent_id = None, rf_exists = 0, rf_unseen = 0\<rparr>"

datatype crypto_kind = Encrypted | Signed | EncryptedSigned

definition is_encrypted :: "crypto_kind \<Rightarrow> bool" where
  "is_encrypted k \<longleftrightarrow> k = Encrypted \<or> k = EncryptedSigned"

definition is_signed :: "crypto_kind \<Rightarrow> bool" where
  "is_signed k \<longleftrightarrow> k = Signed \<or> k = EncryptedSigned"

definition db_flags :: "crypto_kind \<Rightarrow> int \<times> int" where
  "db_flags k = (of_bool (is_encrypted k), of_bool (is_signed k))"

definition crypto_kind_from_content_type :: "string \<Rightarrow> string \<Rightarrow> crypto_kind option" where
  "crypto_kind_from_content_type ctype smime_type =
     (let ctype = to_ascii_lowercase ctype;
          smime_type = to_ascii_lowercase smime_type;
          enc = (ctype = ''application/pkcs7-mime'' \<and> contains_str ''enveloped-data'' smime_type);
          sig = ((ctype = ''application/pkcs7-mime'' \<and> contains_str ''signed-data'' smime_type)
                 \<or> ctype = ''multipart/signed'')
      in if enc \<and> sig then Some EncryptedSigned
         else if enc then Some Encrypted
         else if sig then Some Signed
         else None)"

record remote_message =
  rm_uid :: u32
  rm_folder :: string
  rm_message_id :: "string option"
  rm_in_reply_to :: "string option"
  rm_references :: "string option"
  rm_from_address :: "string option"
  rm_from_name :: "string option"
  rm_to_addresses :: "string option"
  rm_cc_addresses :: "string option"
  rm_bcc_addresses :: "string option"
  rm_reply_to :: "string option"
  rm_subject :: "string option"
  rm_snippet :: "string option"
  rm_date :: int
  rm_is_read :: bool
  rm_is_starred :: bool
  rm_is_draft :: bool
  rm_body_html :: "string option"
  rm_body_text :: "string option"
  rm_raw_size :: u32
  rm_list_unsubscribe :: "string option"
  rm_list_unsubscribe_post :: "string option"
  rm_auth_results :: "string option"
  rm_has_attachments :: bool
  rm_crypto_kind :: "crypto_kind option"
  rm_remote_email_id :: "string option"
  rm_remote_thread_id :: "string option"

definition remote_message_default :: remote_message where
  "remote_message_default = \<lparr>rm_uid = 0, rm_folder = [], rm_message_id = None, rm_in_reply_to = None,
     rm_references = None, rm_from_address = None, rm_from_name = None, rm_to_addresses = None,
     rm_cc_addresses = None, rm_bcc_addresses = None, rm_reply_to = None, rm_subject = None,
     rm_snippet = None, rm_date = 0, rm_is_read = False, rm_is_starred = False, rm_is_draft = False,
     rm_body_html = None, rm_body_text = None, rm_raw_size = 0, rm_list_unsubscribe = None,
     rm_list_unsubscribe_post = None, rm_auth_results = None, rm_has_attachments = False,
     rm_crypto_kind = None, rm_remote_email_id = None, rm_remote_thread_id = None\<rparr>"

record flag_update =
  fu_uid :: u32
  fu_is_read :: bool
  fu_is_starred :: bool

record folder_delta =
  fd_added :: "remote_message list"
  fd_updated :: "remote_message list"
  fd_flag_updates :: "flag_update list"
  fd_vanished_uids :: "u32 list"
  fd_next_cursor :: cursor
  fd_uidvalidity_changed :: bool

datatype source_error = Unsupported | RateLimited int | Other string

definition int_string :: "int \<Rightarrow> string" where
  "int_string n = (if n < 0 then CHR ''-'' # dec_string (nat (- n)) else dec_string (nat n))"

definition source_error_string :: "source_error \<Rightarrow> string" where
  "source_error_string e =
     (case e of
        Unsupported \<Rightarrow> ''operation not supported by this source''
      | RateLimited r \<Rightarrow> ''source rate-limited; retry after epoch '' @ int_string r
      | Other m \<Rightarrow> m)"

section \<open>The trait\<close>

type_synonym ('w, 'a) source_call = "('w, source_error, 'a) io"

text \<open>
  The methods that the engine's rounds call. \<open>load_cursor\<close> reads the source's own table and
  belongs to the database, so it is given the two readers and chooses between them.
\<close>

datatype cursor_table = NoCursorTable | ImapCursorTable | EasCursorTable

record 'w mail_source =
  src_capabilities :: "'w \<Rightarrow> capabilities"
  src_cursor_table :: cursor_table
  src_list_folders :: "('w, remote_folder list) source_call"
  src_sync_folder :: "remote_folder \<Rightarrow> cursor \<Rightarrow> ('w, folder_delta) source_call"
  src_set_flags :: "remote_folder \<Rightarrow> u32 list \<Rightarrow> string \<Rightarrow> bool \<Rightarrow> ('w, unit) source_call"
  src_move_messages :: "remote_folder \<Rightarrow> u32 list \<Rightarrow> remote_folder \<Rightarrow> ('w, unit) source_call"
  src_delete_messages :: "remote_folder \<Rightarrow> u32 list \<Rightarrow> ('w, unit) source_call"
  src_append :: "remote_folder \<Rightarrow> u8 list \<Rightarrow> string list \<Rightarrow> ('w, unit) source_call"
  src_send :: "u8 list \<Rightarrow> ('w, unit) source_call"
  src_ping :: "(string \<times> string) list \<Rightarrow> ('w, unit) source_call"

section \<open>Lemmas\<close>

lemma crypto_kind_flags:
  "db_flags k = (1, 1) \<longleftrightarrow> k = EncryptedSigned" "db_flags k \<noteq> (0, 0)"
  by (cases k; simp add: db_flags_def is_encrypted_def is_signed_def)+

end
