(* ===== verification/Eas_Source.thy ===== *)
theory Eas_Source
  imports Eas_Client Mail_Source
begin

text \<open>
  \<open>sync_engine/eas_source.rs\<close>: the Exchange ActiveSync adapter behind the \<open>MailSource\<close> trait. Every
  call builds a fresh client from the stored account, so the state of the source is the world of
  the server, the policy keys it has handed to \<open>accounts::update\<close>, and the number of UUIDs drawn.
  Whether such an update succeeds is only logged.
\<close>

section \<open>The account and the client it gives\<close>

text \<open>The fields of the \<open>Account\<close> row that the adapter reads.\<close>

record eas_account =
  ea_email :: string
  ea_imap_username :: "string option"
  ea_imap_password :: "string option"
  ea_access_token :: "string option"
  ea_refresh_token :: "string option"
  ea_accept_invalid_certs :: bool
  ea_url :: "string option"
  ea_protocol_version :: "string option"
  ea_device_id :: "string option"
  ea_policy_key :: "string option"
  ea_user_agent :: "string option"
  ea_auth_type :: "string option"

definition nonempty_or :: "string \<Rightarrow> string option \<Rightarrow> string" where
  "nonempty_or dflt x = (case x of Some s \<Rightarrow> if s = [] then dflt else s | None \<Rightarrow> dflt)"

definition M365_CLIENT_ID :: string where
  "M365_CLIENT_ID = ''9e5f94bc-e8a4-4e73-b8be-63364c29d753''"

definition M365_TOKEN_URL :: string where
  "M365_TOKEN_URL = ''https://login.microsoftonline.com/common/oauth2/v2.0/token''"

definition M365_SCOPE :: string where
  "M365_SCOPE = ''https://outlook.office365.com/.default offline_access''"

definition account_uses_oauth :: "eas_account \<Rightarrow> bool" where
  "account_uses_oauth acc =
     opt_or False (map_option (\<lambda>s. eq_ignore_ascii_case s ''oauth'') (ea_auth_type acc))"

definition eas_config_of :: "eas_account \<Rightarrow> eas_config" where
  "eas_config_of acc =
     \<lparr>cfg_url = opt_or [] (ea_url acc),
      cfg_username = nonempty_or (ea_email acc) (ea_imap_username acc),
      cfg_password = opt_or [] (ea_imap_password acc),
      cfg_protocol_version = nonempty_or ''16.1'' (ea_protocol_version acc),
      cfg_device_id = opt_or [] (ea_device_id acc),
      cfg_device_type = ''KylinsMail'',
      cfg_user_agent = nonempty_or ''KylinsMail/1.0'' (ea_user_agent acc),
      cfg_policy_key = opt_or [] (ea_policy_key acc),
      cfg_accept_invalid_certs = ea_accept_invalid_certs acc,
      cfg_auth_type = opt_or ''basic'' (ea_auth_type acc),
      cfg_auth = (if account_uses_oauth acc
        then Some (OAuth (opt_or [] (ea_access_token acc)) (ea_refresh_token acc) M365_CLIENT_ID None
               M365_TOKEN_URL (Some M365_SCOPE))
        else None)\<rparr>"

record 'w eas_world =
  ew_server :: 'w
  ew_saved_keys :: "string list"
  ew_uuids :: nat

section \<open>Errors\<close>

definition u8_string :: "u8 \<Rightarrow> string" where
  "u8_string b = dec_string (unat b)"

definition u8_hex :: "u8 \<Rightarrow> string" where
  "u8_hex b = [hex_upper (unat b div 16), hex_upper (unat b mod 16)]"

definition wbxml_error_string :: "wbxml_error \<Rightarrow> string" where
  "wbxml_error_string e =
     (case e of
        UnexpectedEof \<Rightarrow> ''unexpected end of WBXML input''
      | EmptyStream \<Rightarrow> ''WBXML input stream is empty''
      | StringTableUnsupported \<Rightarrow> ''WBXML string table unsupported''
      | UnknownCodePage p \<Rightarrow> ''unknown WBXML code page '' @ u8_string p
      | UnsupportedGlobalToken t \<Rightarrow> ''unsupported WBXML global token 0x'' @ u8_hex t
      | AttributesUnsupported t \<Rightarrow> ''WBXML attributes unsupported (token 0x'' @ u8_hex t @ '')''
      | UnexpectedToken expected got \<Rightarrow>
          ''unexpected WBXML token: expected '' @ expected @ '', got 0x'' @ u8_hex got
      | UnexpectedEndOfDocument \<Rightarrow> ''hit end of WBXML document unexpectedly''
      | InvalidMultibyteInteger \<Rightarrow> ''invalid WBXML multibyte integer (too many bytes)''
      | UnbalancedEnd \<Rightarrow> ''unbalanced WBXML end() call''
      | UnclosedTags \<Rightarrow> ''WBXML serializer finalised with unclosed tags''
      | NegativeOpaqueLength \<Rightarrow> ''negative opaque data length passed to WBXML serializer''
      | InvalidUtf8 \<Rightarrow> ''WBXML opaque data is not valid UTF-8''
      | InvalidContent msg \<Rightarrow> ''invalid WBXML content: '' @ msg
      | UnexpectedTag ep et ap a_t \<Rightarrow>
          ''unexpected WBXML tag: expected page '' @ u8_string ep @ '' token 0x'' @ u8_hex et
          @ '', got page '' @ u8_string ap @ '' token 0x'' @ u8_hex a_t)"

definition eas_error_string :: "eas_error \<Rightarrow> string" where
  "eas_error_string e =
     (case e of
        Transport m \<Rightarrow> ''HTTP transport error: '' @ m
      | HttpStatus status body _ \<Rightarrow> ''HTTP '' @ dec_string (unat status) @ '': '' @ body
      | WbxmlFailure w \<Rightarrow> ''WBXML codec error: '' @ wbxml_error_string w
      | UnexpectedRoot p t \<Rightarrow> ''unexpected response root: page '' @ u8_string p @ '' token '' @ u8_string t
      | CommandStatus status m \<Rightarrow> ''command status '' @ dec_string (unat status) @ '': '' @ m
      | AuthRefreshFailed m \<Rightarrow> ''OAuth token refresh failed: '' @ m)"

definition recovery_action_debug :: "recovery_action \<Rightarrow> string" where
  "recovery_action_debug a =
     (case a of ActionOk \<Rightarrow> ''Ok'' | RetryProvision \<Rightarrow> ''RetryProvision'' | ResetSyncKey \<Rightarrow> ''ResetSyncKey''
      | RunFolderSync \<Rightarrow> ''RunFolderSync'' | RefreshToken \<Rightarrow> ''RefreshToken''
      | FollowRedirect \<Rightarrow> ''FollowRedirect'' | RetryTransient \<Rightarrow> ''RetryTransient''
      | SurfaceAuth \<Rightarrow> ''SurfaceAuth'' | SurfacePermanent \<Rightarrow> ''SurfacePermanent'')"

definition RATE_LIMIT_DEFAULT_WINDOW_SECS :: int where
  "RATE_LIMIT_DEFAULT_WINDOW_SECS = 60"

definition map_eas_error :: "eas_error \<Rightarrow> source_error" where
  "map_eas_error e =
     (case e of
        HttpStatus status body (Some ra) \<Rightarrow>
          if status = 429 \<or> status = 503 then RateLimited ra else Other (eas_error_string e)
      | HttpStatus status body None \<Rightarrow>
          if status = 429 \<or> status = 503 then RateLimited RATE_LIMIT_DEFAULT_WINDOW_SECS
          else Other (eas_error_string e)
      | _ \<Rightarrow> Other (eas_error_string e))"

definition nyi :: source_error where
  "nyi = Other ''EasSource method not yet implemented''"

section \<open>Folders and messages\<close>

definition role_from_folder_type :: "u8 option \<Rightarrow> string option" where
  "role_from_folder_type t =
     (if t = Some 2 then Some ''inbox'' else if t = Some 3 then Some ''drafts''
      else if t = Some 4 then Some ''trash'' else if t = Some 5 then Some ''sent''
      else if t = Some 6 then Some ''outbox'' else None)"

definition eas_folder_to_remote :: "eas_folder \<Rightarrow> remote_folder" where
  "eas_folder_to_remote f =
     \<lparr>rf_remote_id = fld_server_id f, rf_name = fld_display_name f, rf_delimiter = ''/'',
      rf_special_use = None, rf_role = role_from_folder_type (fld_folder_type f),
      rf_parent_id = (if fld_parent_id f = [] then None else Some (fld_parent_id f)),
      rf_exists = 0, rf_unseen = 0\<rparr>"

definition eas_uid :: "string \<Rightarrow> u32" where
  "eas_uid server_id = fold (\<lambda>b a. a * 31 + ucast (b :: u8)) (as_bytes server_id) 0"

definition parse_eas_date :: "string option \<Rightarrow> int option" where
  "parse_eas_date s = None"

definition eas_item_to_remote :: "eas_item \<Rightarrow> string \<Rightarrow> remote_message" where
  "eas_item_to_remote item folder = remote_message_default
     \<lparr>rm_uid := eas_uid (item_server_id item),
      rm_folder := folder,
      rm_message_id := item_message_id item,
      rm_from_address := item_from item,
      rm_from_name := None,
      rm_to_addresses := item_to item,
      rm_cc_addresses := item_cc item,
      rm_bcc_addresses := item_bcc item,
      rm_reply_to := item_reply_to item,
      rm_subject := item_subject item,
      rm_snippet := item_preview item,
      rm_date := opt_or 0 (parse_eas_date (item_date_received item)),
      rm_is_read := opt_or False (item_read item),
      rm_is_starred := opt_or False (item_flag item),
      rm_is_draft := opt_or False (item_is_draft item),
      rm_body_html := item_body_html item,
      rm_body_text := item_body_text item,
      rm_raw_size := 0,
      rm_has_attachments := item_has_attachments item\<rparr>"

section \<open>The methods\<close>

text \<open>
  One client per call. \<open>eas_call\<close> runs a command and, when it succeeds, stores a policy key that the
  handshake has changed.
\<close>

definition persist_policy_key_if_changed :: "eas_account \<Rightarrow> string \<Rightarrow> 'w eas_world \<Rightarrow> 'w eas_world" where
  "persist_policy_key_if_changed acc current s =
     (if current = opt_or [] (ea_policy_key acc) then s
      else s\<lparr>ew_saved_keys := ew_saved_keys s @ [current]\<rparr>)"

definition with_client :: "eas_account \<Rightarrow> ('w, 'a) eas_io \<Rightarrow> 'w eas_world
    \<Rightarrow> (eas_error + 'a) panicky \<times> string \<times> 'w eas_world" where
  "with_client acc m s =
     (case m \<lparr>cl_config = eas_config_of acc, cl_world = ew_server s\<rparr> of
        (r, c) \<Rightarrow> (r, cfg_policy_key (cl_config c), s\<lparr>ew_server := cl_world c\<rparr>))"

definition eas_call :: "eas_account \<Rightarrow> ('w, 'a) eas_io \<Rightarrow> ('w eas_world, 'a) source_call" where
  "eas_call acc m s =
     (case with_client acc m s of
        (Panicked, key, s') \<Rightarrow> (Panicked, s')
      | (Returned (Inl e), key, s') \<Rightarrow> (Returned (Inl (map_eas_error e)), s')
      | (Returned (Inr x), key, s') \<Rightarrow> (Returned (Inr x), persist_policy_key_if_changed acc key s'))"

definition eas_capabilities :: capabilities where
  "eas_capabilities = capabilities_default\<lparr>cap_ping := True, cap_saves_sent_automatically := True\<rparr>"

definition eas_list_folders :: "'w net \<Rightarrow> eas_account \<Rightarrow> ('w eas_world, remote_folder list) source_call" where
  "eas_list_folders net acc =
     io_bind (eas_call acc (folder_sync net ''0''))
       (\<lambda>result. io_ret (map eas_folder_to_remote (fsr_changes result)))"

definition sync_position :: "remote_folder \<Rightarrow> cursor \<Rightarrow> string \<times> string" where
  "sync_position folder since =
     (case since of
        EasCursor collection_id sync_key \<Rightarrow> (collection_id, sync_key)
      | _ \<Rightarrow> (rf_remote_id folder, ''0''))"

definition sync_outcome :: "remote_folder \<Rightarrow> string \<Rightarrow> sync_result \<Rightarrow> source_error + folder_delta" where
  "sync_outcome folder collection_id result =
     (case recovery_action_for_sync (sr_status result) of
        ResetSyncKey \<Rightarrow>
          Inr \<lparr>fd_added = [], fd_updated = [], fd_flag_updates = [], fd_vanished_uids = [],
               fd_next_cursor = EasCursor collection_id ''0'', fd_uidvalidity_changed = True\<rparr>
      | RunFolderSync \<Rightarrow>
          Inr \<lparr>fd_added = [], fd_updated = [], fd_flag_updates = [], fd_vanished_uids = [],
               fd_next_cursor = EasCursor collection_id ''0'', fd_uidvalidity_changed = True\<rparr>
      | ActionOk \<Rightarrow>
          Inr \<lparr>fd_added = map (\<lambda>i. eas_item_to_remote i (rf_remote_id folder)) (sr_added result),
               fd_updated = map (\<lambda>i. eas_item_to_remote i (rf_remote_id folder)) (sr_updated result),
               fd_flag_updates = [], fd_vanished_uids = [],
               fd_next_cursor = EasCursor collection_id (sr_sync_key result),
               fd_uidvalidity_changed = False\<rparr>
      | other \<Rightarrow>
          Inl (Other (''EAS sync status '' @ dec_string (unat (sr_status result)) @ '' (''
                 @ recovery_action_debug other @ '')'')))"

definition email_sync_request :: "string \<Rightarrow> string \<Rightarrow> sync_request" where
  "email_sync_request collection_id sync_key =
     \<lparr>req_collection_id = collection_id, req_sync_key = sync_key, req_class = ''Email'',
      req_window_size = 50, req_filter_age_days = 0, req_fetch_body = True\<rparr>"

definition eas_sync_folder :: "'w net \<Rightarrow> eas_account \<Rightarrow> remote_folder \<Rightarrow> cursor
    \<Rightarrow> ('w eas_world, folder_delta) source_call" where
  "eas_sync_folder net acc folder since =
     (case sync_position folder since of (collection_id, sync_key) \<Rightarrow>
        io_bind (eas_call acc (sync net (email_sync_request collection_id sync_key)))
          (\<lambda>result. io_lift (sync_outcome folder collection_id result)))"

definition eas_send :: "'w net \<Rightarrow> eas_account \<Rightarrow> (nat \<Rightarrow> string) \<Rightarrow> u8 list \<Rightarrow> ('w eas_world, unit) source_call" where
  "eas_send net acc uuid raw_mime s =
     (case with_client acc (send_mail net \<lparr>sm_mime = raw_mime, sm_save_to_sent = True,
              sm_client_id = Some (''SendMail-'' @ uuid (ew_uuids s))\<rparr>) (s\<lparr>ew_uuids := ew_uuids s + 1\<rparr>) of
        (Panicked, _, s') \<Rightarrow> (Panicked, s')
      | (Returned (Inl e), _, s') \<Rightarrow> (Returned (Inl (map_eas_error e)), s')
      | (Returned (Inr _), _, s') \<Rightarrow> (Returned (Inr ()), s'))"

definition eas_ping :: "'w net \<Rightarrow> eas_account \<Rightarrow> (string \<times> string) list \<Rightarrow> ('w eas_world, unit) source_call" where
  "eas_ping net acc collections s =
     (case with_client acc (ping net \<lparr>ping_heartbeat_interval = 1800,
              ping_monitored_collections =
                map (\<lambda>(i, c). \<lparr>pc_collection_id = i, pc_class = c\<rparr>) collections\<rparr>) s of
        (Panicked, _, s') \<Rightarrow> (Panicked, s')
      | (Returned (Inl e), _, s') \<Rightarrow> (Returned (Inl (Other (eas_error_string e))), s')
      | (Returned (Inr _), _, s') \<Rightarrow> (Returned (Inr ()), s'))"

definition eas_source :: "'w net \<Rightarrow> eas_account \<Rightarrow> (nat \<Rightarrow> string) \<Rightarrow> 'w eas_world mail_source" where
  "eas_source net acc uuid =
     \<lparr>src_capabilities = (\<lambda>_. eas_capabilities),
      src_cursor_table = EasCursorTable,
      src_list_folders = eas_list_folders net acc,
      src_sync_folder = eas_sync_folder net acc,
      src_set_flags = (\<lambda>_ _ _ _. io_fail nyi),
      src_move_messages = (\<lambda>_ _ _. io_fail nyi),
      src_delete_messages = (\<lambda>_ _. io_fail nyi),
      src_append = (\<lambda>_ _ _. io_fail nyi),
      src_send = eas_send net acc uuid,
      src_ping = eas_ping net acc\<rparr>"

section \<open>Calls that succeed and calls that fail\<close>

lemma eas_call_ok:
  assumes "m \<lparr>cl_config = eas_config_of acc, cl_world = ew_server s\<rparr>
      = (Returned (Inr x), \<lparr>cl_config = eas_config_of acc, cl_world = w\<rparr>)"
  shows "eas_call acc m s = (Returned (Inr x), s\<lparr>ew_server := w\<rparr>)"
  using assms by (simp add: eas_call_def with_client_def persist_policy_key_if_changed_def eas_config_of_def)

lemma eas_call_error:
  assumes "m \<lparr>cl_config = eas_config_of acc, cl_world = ew_server s\<rparr> = (Returned (Inl e), c)"
  shows "eas_call acc m s = (Returned (Inl (map_eas_error e)), s\<lparr>ew_server := cl_world c\<rparr>)"
  using assms by (simp add: eas_call_def with_client_def)

lemma render_sync_root: "expect_root (render_sync status key avail cs) PAGE_AIRSYNC AS_SYNC = Inr ()"
  by (simp add: expect_root_def render_sync_def el_container_def)

text \<open>C9. One synchronisation of a folder end to end, for every answer the protocol can give: when the
  server replies to the request with a Sync response, status 1 or 6 yields every added and changed
  message under its derived uid and the server's new sync key, status 3 or 12 an empty delta that
  resets the folder to key 0 and has its cache wiped, and any other status an error that names it.\<close>

theorem eas_sync_end_to_end:
  assumes "sync_position folder since = (cid, key)"
    and "codec_wf (build_sync_request (email_sync_request cid key))"
    and "codec_wf (render_sync status key' avail cs)"
    and "serialize_tree (build_sync_request (email_sync_request cid key)) = Inr sent"
    and "serialize_tree (render_sync status key' avail cs) = Inr body"
    and "net_post net (build_http_request (net_base64 net) (eas_config_of acc) ''Sync'' sent) (ew_server s)
           = (Inr resp, w)"
    and "wbxml_reply resp body"
  shows "\<exists>delta. eas_sync_folder net acc folder since s = (Returned delta, s\<lparr>ew_server := w\<rparr>) \<and>
    delta = (if status = 1 \<or> status = 6
      then Inr \<lparr>fd_added = map (\<lambda>i. eas_item_to_remote i (rf_remote_id folder)) (concat (map added_items cs)),
                fd_updated = map (\<lambda>i. eas_item_to_remote i (rf_remote_id folder)) (concat (map changed_items cs)),
                fd_flag_updates = [], fd_vanished_uids = [],
                fd_next_cursor = EasCursor cid key', fd_uidvalidity_changed = False\<rparr>
      else if status = 3 \<or> status = 12
      then Inr \<lparr>fd_added = [], fd_updated = [], fd_flag_updates = [], fd_vanished_uids = [],
                fd_next_cursor = EasCursor cid ''0'', fd_uidvalidity_changed = True\<rparr>
      else Inl (Other (''EAS sync status '' @ dec_string (unat status) @ '' (SurfacePermanent)'')))"
proof -
  let ?req = "build_sync_request (email_sync_request cid key)" and ?reply = "render_sync status key' avail cs"
  let ?c = "\<lparr>cl_config = eas_config_of acc, cl_world = ew_server s\<rparr>"
  have "send_command_no_retry net ''Sync'' ?req ?c = (Returned (Inr ?reply), ?c\<lparr>cl_world := w\<rparr>)"
    using assms(4,6) read_wbxml_reply [OF assms(7,3,5)] by (simp add: send_command_no_retry_def)
  then have "sync net (email_sync_request cid key) ?c = (Returned (Inr
      \<lparr>sr_sync_key = key', sr_added = concat (map added_items cs), sr_updated = concat (map changed_items cs),
       sr_deleted_server_ids = map (\<lambda>_. []) (concat (map deleted_ids cs)), sr_more_available = avail,
       sr_status = status\<rparr>), ?c\<lparr>cl_world := w\<rparr>)"
    by (simp add: sync_def run_command_def io_bind_def send_command_def io_lift_def io_ret_def render_sync_root
        parse_rendered_sync)
  from eas_call_ok [of "sync net (email_sync_request cid key)" acc s, simplified, OF this [simplified]]
  show ?thesis
    by (auto simp: eas_sync_folder_def assms(1) io_bind_def io_lift_def sync_outcome_def recovery_defs
        recovery_action_debug_def)
qed

text \<open>The wait that a throttling server asks for never reaches the engine: whatever
  \<open>Retry-After\<close> says, a FolderSync answered with 429 or 503 comes back as \<open>RateLimited 60\<close>, and 60 is
  read as an epoch, a minute after 1970.\<close>

lemma eas_throttle_window_lost:
  assumes "net_post net (build_http_request (net_base64 net) (eas_config_of acc) ''FolderSync'' sent) (ew_server s)
      = (Inr resp, w)"
    and "serialize_tree (build_folder_sync_request ''0'') = Inr sent"
    and "hr_status resp = 429 \<or> hr_status resp = 503"
  shows "eas_list_folders net acc s = (Returned (Inl (RateLimited 60)), s\<lparr>ew_server := w\<rparr>)"
proof -
  let ?c = "\<lparr>cl_config = eas_config_of acc, cl_world = ew_server s\<rparr>"
  have "read_response resp = Returned (Inl (HttpStatus (hr_status resp) (unwrap_or [] (hr_text resp))
      (Option.bind (hr_header resp ''Retry-After'') (\<lambda>v. Option.bind (header_str v)
        (\<lambda>t. parse_retry_after_delta t (hr_now_epoch resp))))))"
    using assms(3) by (auto simp: read_response_def Let_def)
  with assms have "send_command net ''FolderSync'' (build_folder_sync_request ''0'') ?c =
     (Returned (Inl (HttpStatus (hr_status resp) (''http '' @ dec_string (unat (hr_status resp))) None)),
      ?c\<lparr>cl_world := w\<rparr>)"
    by (auto simp: send_command_def send_command_no_retry_def retry_decision_for_http_err_def recovery_defs)
  then have "folder_sync net ''0'' ?c =
     (Returned (Inl (HttpStatus (hr_status resp) (''http '' @ dec_string (unat (hr_status resp))) None)),
      ?c\<lparr>cl_world := w\<rparr>)"
    by (simp add: folder_sync_def run_command_def io_bind_def)
  from eas_call_error [where m = "folder_sync net ''0''", OF this] assms(3) show ?thesis
    by (auto simp: eas_list_folders_def io_bind_def map_eas_error_def RATE_LIMIT_DEFAULT_WINDOW_SECS_def)
qed

definition test_account :: eas_account where
  "test_account = \<lparr>ea_email = ''me@x'', ea_imap_username = None, ea_imap_password = None,
     ea_access_token = None, ea_refresh_token = None, ea_accept_invalid_certs = False, ea_url = Some ''https://x'',
     ea_protocol_version = None, ea_device_id = None, ea_policy_key = None, ea_user_agent = None,
     ea_auth_type = None\<rparr>"

definition test_world :: "unit eas_world" where
  "test_world = \<lparr>ew_server = (), ew_saved_keys = [], ew_uuids = 0\<rparr>"

definition test_mail :: mail_entry where
  "test_mail = \<lparr>me_server_id = ''5:1'', me_subject = ''s'', me_from = ''a@b'', me_to = ''me@x'',
     me_read = True, me_body_type = 1, me_body = ''hi''\<rparr>"

lemma sync_request_wf:
  "wire_string cid \<Longrightarrow> wire_string key \<Longrightarrow> codec_wf (build_sync_request (email_sync_request cid key))"
  using request_codec_wf [of "ReqSync (email_sync_request cid key)"]
  by (simp add: email_sync_request_def wire_string_ascii)

definition inbox7 :: remote_folder where
  "inbox7 = remote_folder_default\<lparr>rf_remote_id := ''7'', rf_role := Some ''inbox''\<rparr>"

lemma test_reply_wf: "codec_wf (render_sync 1 ''k2'' False [SyncAdd test_mail])"
proof -
  have "is_valid_page 2" by (simp add: is_valid_page_def NUM_CODE_PAGES_def)
  then show ?thesis by (simp add: render_sync_def render_mail_def test_mail_def wire_string_ascii)
qed

lemma eas_sync_end_to_end_witness:
  "\<exists>body. eas_sync_folder (fixed_net (ok_response body)) test_account inbox7 (EasCursor ''7'' ''k1'') test_world
     = (Returned (Inr \<lparr>fd_added = [eas_item_to_remote (item_of test_mail) ''7''], fd_updated = [], fd_flag_updates = [],
          fd_vanished_uids = [], fd_next_cursor = EasCursor ''7'' ''k2'', fd_uidvalidity_changed = False\<rparr>), test_world)"
proof -
  have pos: "sync_position inbox7 (EasCursor ''7'' ''k1'') = (''7'', ''k1'')" by (simp add: sync_position_def)
  have req: "codec_wf (build_sync_request (email_sync_request ''7'' ''k1''))"
    by (rule sync_request_wf) (simp_all add: wire_string_ascii)
  obtain sent where sent: "serialize_tree (build_sync_request (email_sync_request ''7'' ''k1'')) = Inr sent"
    using wbxml.roundtrip [OF req] by auto
  obtain body where body: "serialize_tree (render_sync 1 ''k2'' False [SyncAdd test_mail]) = Inr body"
    using wbxml.roundtrip [OF test_reply_wf] by auto
  show ?thesis
    using eas_sync_end_to_end [OF pos req test_reply_wf sent body _ ok_response_reply,
        of "fixed_net (ok_response body)" test_account test_world "()"]
    by (intro exI [of _ body]) (simp add: fixed_net_def test_world_def inbox7_def)
qed

lemma folder_sync_request_bytes: "\<exists>sent. serialize_tree (build_folder_sync_request ''0'') = Inr sent"
  using wbxml.roundtrip [OF request_codec_wf, of "ReqFolderSync ''0''"] by (auto simp: wire_string_ascii)

text \<open>A SendMail that the server accepts, with its empty success body, is reported as a failure.\<close>

lemma eas_send_accepted:
  assumes "serialize_tree (build_send_mail_request \<lparr>sm_mime = mime, sm_save_to_sent = True,
      sm_client_id = Some (''SendMail-'' @ uuid (ew_uuids s))\<rparr>) = Inr sent"
    and "net_post net (build_http_request (net_base64 net) (eas_config_of acc) ''SendMail'' sent) (ew_server s) = (Inr resp, w)"
    and "wbxml_reply resp []"
  shows "eas_send net acc uuid mime s =
    (Returned (Inl (Other ''HTTP transport error: empty response body'')), s\<lparr>ew_server := w, ew_uuids := ew_uuids s + 1\<rparr>)"
proof -
  let ?c = "\<lparr>cl_config = eas_config_of acc, cl_world = ew_server s\<rparr>"
  let ?req = "\<lparr>sm_mime = mime, sm_save_to_sent = True, sm_client_id = Some (''SendMail-'' @ uuid (ew_uuids s))\<rparr>"
  have "send_command_no_retry net ''SendMail'' (build_send_mail_request ?req) ?c
      = (Returned (Inl (Transport ''empty response body'')), ?c\<lparr>cl_world := w\<rparr>)"
    using assms by (simp add: send_command_no_retry_def wbxml_reply_def read_response_def read_body_def
        wbxml_content_type)
  then have "send_mail net ?req ?c = (Returned (Inl (Transport ''empty response body'')), ?c\<lparr>cl_world := w\<rparr>)"
    by (simp add: send_mail_def run_command_def io_bind_def send_command_def)
  then show ?thesis by (simp add: eas_send_def with_client_def map_eas_error_def eas_error_string_def)
qed

end
