(* ===== verification/Db_Store.thy ===== *)
theory Db_Store
  imports Mail_Source
begin

text \<open>
  The SQLite database as far as the queue, the mutations and the sync state use it
  (\<open>migrations/20260627000001_baseline.sql\<close>, \<open>20260630000001_rate_limit.sql\<close>): its tables, its
  clock and one SQL statement.

  A statement may fail with an error of the driver. Which of them fail is not the code's
  choice, so a state carries the fates of the statements to come, \<open>db_faults\<close>: \<^term>\<open>Some e\<close>
  for one that fails with \<open>e\<close>; past the end of the list every statement succeeds. Only the columns
  that the modelled statements read or write are kept.

  The \<open>params\<close> column holds JSON text. It is represented by the value that a JSON reader finds
  in it, or by the reader's error; numbers are the integers the code writes.
\<close>

section \<open>JSON\<close>

datatype json =
    JNull | JBool bool | JNum int | JStr string | JArr "json list" | JObj "(string \<times> json) list"

datatype json_text = JsonText json | NotJson string

fun json_get :: "json \<Rightarrow> string \<Rightarrow> json option" where
  "json_get (JObj kvs) k = map_of kvs k"
| "json_get _ k = None"

fun as_array :: "json \<Rightarrow> json list option" where
  "as_array (JArr xs) = Some xs"
| "as_array _ = None"

fun as_str :: "json \<Rightarrow> string option" where
  "as_str (JStr s) = Some s"
| "as_str _ = None"

fun as_bool :: "json \<Rightarrow> bool option" where
  "as_bool (JBool b) = Some b"
| "as_bool _ = None"

fun as_i64 :: "json \<Rightarrow> int option" where
  "as_i64 (JNum n) = (if - (2 ^ 63) \<le> n \<and> n < 2 ^ 63 then Some n else None)"
| "as_i64 _ = None"

fun as_u64 :: "json \<Rightarrow> int option" where
  "as_u64 (JNum n) = (if 0 \<le> n \<and> n < 2 ^ 64 then Some n else None)"
| "as_u64 _ = None"

text \<open>\<open>json_extract(params, '$.k') = n\<close> in SQL: JSON booleans are the integers 0 and 1.\<close>

definition json_extract_is :: "json \<Rightarrow> string \<Rightarrow> int \<Rightarrow> bool" where
  "json_extract_is j k n =
     (case json_get j k of
        Some (JNum m) \<Rightarrow> m = n
      | Some (JBool b) \<Rightarrow> of_bool b = n
      | _ \<Rightarrow> False)"

section \<open>Tables\<close>

datatype op_status = StatusPending | StatusFailed

record pending_row =
  po_id :: string
  po_account :: string
  po_operation_type :: string
  po_resource :: string
  po_params :: json_text
  po_status :: op_status
  po_retry_count :: nat
  po_max_retries :: nat
  po_next_retry_at :: "int option"
  po_created_at :: int
  po_error_message :: "string option"

record thread_content =
  tc_subject :: "string option"
  tc_snippet :: "string option"
  tc_last_message_at :: int
  tc_message_count :: int
  tc_is_starred :: int
  tc_is_important :: int
  tc_has_attachments :: int
  tc_from_name :: "string option"
  tc_from_address :: "string option"
  tc_is_encrypted :: int
  tc_is_signed :: int

record thread_row =
  th_account :: string
  th_id :: string
  th_is_read :: int
  th_content :: thread_content

record message_content =
  mc_from_address :: "string option"
  mc_from_name :: "string option"
  mc_to_addresses :: "string option"
  mc_cc_addresses :: "string option"
  mc_bcc_addresses :: "string option"
  mc_reply_to :: "string option"
  mc_subject :: "string option"
  mc_snippet :: "string option"
  mc_date :: int
  mc_body_text :: "string option"
  mc_body_cached :: int
  mc_raw_size :: int
  mc_message_id_header :: string
  mc_in_reply_to :: "string option"
  mc_references :: "string option"
  mc_list_unsubscribe :: "string option"
  mc_list_unsubscribe_post :: "string option"
  mc_auth_results :: "string option"
  mc_imap_uid :: "int option"
  mc_imap_folder :: "string option"
  mc_is_encrypted :: int
  mc_is_signed :: int
  mc_remote_email_id :: "string option"
  mc_remote_thread_id :: "string option"

record message_row =
  ms_account :: string
  ms_id :: string
  ms_thread :: string
  ms_is_read :: int
  ms_is_starred :: int
  ms_content :: message_content

record body_row =
  mb_account :: string
  mb_message :: string
  mb_html :: "string option"
  mb_fetched_at :: int
  mb_ciphertext :: "u8 list option"
  mb_signed_part :: "u8 list option"

record attachment_row =
  at_id :: string
  at_message :: string
  at_account :: string
  at_filename :: "string option"
  at_mime_type :: "string option"
  at_size :: int
  at_content_id :: "string option"
  at_is_inline :: int
  at_imap_part_id :: "string option"
  at_local_path :: "string option"
  at_cached_at :: "int option"
  at_cache_size :: "int option"

text \<open>The tables of the cryptographic part (\<open>20260710000001_crypto_keys.sql\<close>, \<open>20260712000001_crypto_receive.sql\<close>
  and their later extensions).\<close>

record crypto_key_row =
  ck_id :: string
  ck_account :: string
  ck_standard :: string
  ck_key_type :: string
  ck_email :: "string option"
  ck_fingerprint :: string
  ck_public_data :: string
  ck_private_data_enc :: "string option"
  ck_token_serial :: "string option"
  ck_token_key_id :: "string option"
  ck_origin :: string
  ck_is_default_sign :: int
  ck_is_default_encrypt :: int
  ck_created_at :: string
  ck_expires_at :: "string option"
  ck_policy_json :: "json_text option"

record trust_decision_row =
  td_id :: int
  td_account :: string
  td_peer_email :: string
  td_standard :: string
  td_fingerprint :: string
  td_decision :: string
  td_evidence_json :: "string option"
  td_decided_at :: string

record crypto_result_row =
  cr_account :: string
  cr_message :: string
  cr_crypto_kind :: string
  cr_decrypt_state :: string
  cr_signature_state :: string
  cr_signer_fingerprint :: "string option"
  cr_signer_email :: "string option"
  cr_chain_valid :: "int option"
  cr_revocation_state :: string
  cr_verified_at :: string
  cr_failure_reason :: "string option"
  cr_revocation_reason :: "string option"

record crl_row =
  cl_der :: "u8 list"
  cl_issuer_dn :: "string option"
  cl_next_update :: "string option"
  cl_fetched_at :: string

record thread_label_row =
  tl_account :: string
  tl_thread :: string
  tl_label :: string

record imap_cursor_row =
  ic_uidvalidity :: "int option"
  ic_last_uid :: "int option"
  ic_modseq :: "int option"

text \<open>Of an account, the columns that the sync engine reads.\<close>

record account_row =
  ac_email :: string
  ac_crypto_method :: "string option"
  ac_crypto_granularity :: "string option"
  ac_last_sync_at :: "int option"

record label_row =
  lb_id :: string
  lb_account :: string
  lb_name :: string
  lb_type :: string
  lb_color_bg :: "string option"
  lb_color_fg :: "string option"
  lb_visible :: int
  lb_sort_order :: int
  lb_imap_folder_path :: "string option"
  lb_imap_special_use :: "string option"
  lb_source :: string
  lb_role :: "string option"
  lb_parent_id :: "string option"
  lb_remote_id :: "string option"
  lb_delimiter :: "string option"
  lb_mail_class :: string
  lb_unread_count :: int
  lb_total_count :: int
  lb_hierarchical_name :: "string option"

record db =
  db_now :: int
  db_faults :: "string option list"
  t_pending :: "pending_row list"
  t_rate_limit :: "string \<Rightarrow> int option"
  t_imap_cursor :: "string \<times> string \<Rightarrow> imap_cursor_row option"
  t_eas_cursor :: "string \<times> string \<Rightarrow> (string option \<times> string option) option"
  t_threads :: "thread_row list"
  t_messages :: "message_row list"
  t_thread_labels :: "thread_label_row list"
  t_bodies :: "body_row list"
  t_attachments :: "attachment_row list"
  t_accounts :: "string \<Rightarrow> account_row option"
  t_settings :: "string \<Rightarrow> string option"
  t_labels :: "label_row list"
  t_aliases :: "(string \<times> string) list"
  t_crypto_keys :: "crypto_key_row list"
  t_trust_decisions :: "trust_decision_row list"
  t_crypto_results :: "crypto_result_row list"
  t_crls :: "(string \<times> crl_row) list"

type_synonym 'a db_io = "(db, string, 'a) io"

section \<open>Statements and transactions\<close>

definition db_stmt :: "(db \<Rightarrow> 'a \<times> db) \<Rightarrow> 'a db_io" where
  "db_stmt f d =
     (case db_faults d of
        Some e # fs \<Rightarrow> (Returned (Inl e), d\<lparr>db_faults := fs\<rparr>)
      | _ \<Rightarrow> (case f (d\<lparr>db_faults := tl (db_faults d)\<rparr>) of (x, d') \<Rightarrow> (Returned (Inr x), d')))"

definition db_query :: "(db \<Rightarrow> 'a) \<Rightarrow> 'a db_io" where
  "db_query q = db_stmt (\<lambda>d. (q d, d))"

definition db_update :: "(db \<Rightarrow> db) \<Rightarrow> unit db_io" where
  "db_update u = db_stmt (\<lambda>d. ((), u d))"

text \<open>
  \<open>pool.begin()\<close>, the statements, \<open>tx.commit()\<close>. When a statement or the commit fails the tables
  are those of before: the dropped transaction rolls back.
\<close>

definition roll_back :: "db \<Rightarrow> db \<Rightarrow> db" where
  "roll_back before d = before\<lparr>db_faults := db_faults d\<rparr>"

definition db_transaction :: "'a db_io \<Rightarrow> 'a db_io" where
  "db_transaction m d =
     (case io_bind (db_update id) (\<lambda>_. io_bind m (\<lambda>x. io_bind (db_update id) (\<lambda>_. io_ret x))) d of
        (Returned (Inl e), d') \<Rightarrow> (Returned (Inl e), roll_back d d')
      | r \<Rightarrow> r)"

text \<open>A \<open>for\<close> loop of fallible statements.\<close>

fun io_each :: "('a \<Rightarrow> ('s, 'e, unit) io) \<Rightarrow> 'a list \<Rightarrow> ('s, 'e, unit) io" where
  "io_each f [] = io_ret ()"
| "io_each f (x # xs) = io_bind (f x) (\<lambda>_. io_each f xs)"

text \<open>A database without rows, some time after the epoch.\<close>

definition empty_db :: db where
  "empty_db = \<lparr>db_now = 1000, db_faults = [], t_pending = [], t_rate_limit = (\<lambda>_. None),
     t_imap_cursor = (\<lambda>_. None), t_eas_cursor = (\<lambda>_. None), t_threads = [], t_messages = [],
     t_thread_labels = [], t_bodies = [], t_attachments = [],
     t_accounts = (\<lambda>_. None), t_settings = (\<lambda>_. None), t_labels = [], t_aliases = [],
     t_crypto_keys = [], t_trust_decisions = [], t_crypto_results = [], t_crls = []\<rparr>"

section \<open>A healthy database\<close>

definition healthy :: "db \<Rightarrow> bool" where
  "healthy d \<longleftrightarrow> db_faults d = []"

lemma db_stmt_healthy: "healthy d \<Longrightarrow> db_stmt f d = (case f d of (x, d') \<Rightarrow> (Returned (Inr x), d'))"
  by (cases d) (simp add: db_stmt_def healthy_def)

lemma db_query_healthy: "healthy d \<Longrightarrow> db_query q d = (Returned (Inr (q d)), d)"
  by (simp add: db_query_def db_stmt_healthy)

lemma db_update_healthy: "healthy d \<Longrightarrow> db_update u d = (Returned (Inr ()), u d)"
  by (simp add: db_update_def db_stmt_healthy)

text \<open>A failing statement changes nothing but the fates to come.\<close>

definition same_tables :: "db \<Rightarrow> db \<Rightarrow> bool" where
  "same_tables d d' \<longleftrightarrow> d' = d\<lparr>db_faults := db_faults d'\<rparr>"

lemma same_tables_refl [simp]: "same_tables d d"
  by (simp add: same_tables_def)

lemma same_tables_trans: "same_tables a b \<Longrightarrow> same_tables b c \<Longrightarrow> same_tables a c"
  by (cases a; cases b; cases c; simp add: same_tables_def)

lemma db_stmt_Inl: "db_stmt f d = (Returned (Inl e), d') \<Longrightarrow> same_tables d d'"
  by (cases d) (auto simp: db_stmt_def same_tables_def split: list.splits option.splits prod.splits)

lemma db_update_Inl: "db_update u d = (Returned (Inl e), d') \<Longrightarrow> same_tables d d'"
  by (simp add: db_update_def db_stmt_Inl)

lemma db_query_same: "db_query q d = (r, d') \<Longrightarrow> same_tables d d'"
  by (cases d) (auto simp: db_query_def db_stmt_def same_tables_def
      split: list.splits option.splits prod.splits)

lemma db_query_Inr: "db_query q d = (Returned (Inr x), d') \<Longrightarrow> x = q (d\<lparr>db_faults := tl (db_faults d)\<rparr>)"
  by (auto simp: db_query_def db_stmt_def split: list.splits option.splits prod.splits)

lemma db_transaction_Inl: "db_transaction m d = (Returned (Inl e), d') \<Longrightarrow> same_tables d d'"
  by (auto simp: db_transaction_def roll_back_def same_tables_def
      split: prod.splits panicky.splits sum.splits)

lemma db_transaction_healthy:
  assumes "healthy d" and "m d = (Returned (Inr x), d')" and "healthy d'"
  shows "db_transaction m d = (Returned (Inr x), d')"
  using assms by (simp add: db_transaction_def io_bind_def db_update_healthy io_ret_def)

lemma io_each_healthy:
  assumes "healthy d" and "\<And>x d. healthy d \<Longrightarrow> f x d = (Returned (Inr ()), u x d)"
    and "\<And>x d. healthy d \<Longrightarrow> healthy (u x d)"
  shows "io_each f xs d = (Returned (Inr ()), fold u xs d) \<and> healthy (fold u xs d)"
  using assms(1)
proof (induction xs arbitrary: d)
  case Nil
  then show ?case by (simp add: io_ret_def)
next
  case (Cons x xs)
  then show ?case using assms(2,3) by (simp add: io_bind_def)
qed

end
