(* ===== verification/Queue.thy ===== *)
theory Queue
  imports Db_Store "HOL-Library.Multiset"
begin

text \<open>
  \<open>db/queue.rs\<close>: the offline operations queue over the table \<open>pending_operations\<close>. Each SQL
  statement is a transformation of the rows; the functions wrap it in the statement that may fail.
  \<open>ORDER BY created_at ASC\<close> is a stable sort, rows with the same second staying in insertion order.
\<close>

section \<open>Operations\<close>

record pending_operation =
  pop_id :: string
  pop_account :: string
  pop_operation_type :: string
  pop_resource :: string
  pop_params :: json_text

definition row_to_op :: "pending_row \<Rightarrow> pending_operation" where
  "row_to_op r = \<lparr>pop_id = po_id r, pop_account = po_account r, pop_operation_type = po_operation_type r,
     pop_resource = po_resource r, pop_params = po_params r\<rparr>"

definition new_row :: "string \<Rightarrow> string \<Rightarrow> string \<Rightarrow> string \<Rightarrow> json_text \<Rightarrow> int \<Rightarrow> pending_row" where
  "new_row uuid account_id operation_type resource_id params now =
     \<lparr>po_id = uuid, po_account = account_id, po_operation_type = operation_type,
      po_resource = resource_id, po_params = params, po_status = StatusPending, po_retry_count = 0,
      po_max_retries = 10, po_next_retry_at = None, po_created_at = now, po_error_message = None\<rparr>"

text \<open>The id is a fresh UUID, generated outside; a duplicate violates the primary key.\<close>

definition enqueue :: "string \<Rightarrow> string \<Rightarrow> string \<Rightarrow> string \<Rightarrow> json_text \<Rightarrow> string db_io" where
  "enqueue uuid account_id operation_type resource_id params =
     io_bind (db_stmt (\<lambda>d.
       if uuid \<in> set (map po_id (t_pending d))
       then (Inl ''UNIQUE constraint failed: pending_operations.id'', d)
       else (Inr uuid, d\<lparr>t_pending := t_pending d
               @ [new_row uuid account_id operation_type resource_id params (db_now d)]\<rparr>)))
     io_lift"

definition sql_limit :: "int \<Rightarrow> 'a list \<Rightarrow> 'a list" where
  "sql_limit n xs = (if n < 0 then xs else take (nat n) xs)"

definition is_due :: "int \<Rightarrow> pending_row \<Rightarrow> bool" where
  "is_due now r \<longleftrightarrow> po_status r = StatusPending \<and>
     (case po_next_retry_at r of None \<Rightarrow> True | Some t \<Rightarrow> t \<le> now)"

definition due_rows :: "(pending_row \<Rightarrow> bool) \<Rightarrow> int \<Rightarrow> db \<Rightarrow> pending_operation list" where
  "due_rows scope limit d =
     map row_to_op (sql_limit limit (sort_key po_created_at
       (filter (\<lambda>r. scope r \<and> is_due (db_now d) r) (t_pending d))))"

definition dequeue_pending :: "int \<Rightarrow> pending_operation list db_io" where
  "dequeue_pending limit = db_query (due_rows (\<lambda>_. True) limit)"

definition dequeue_pending_for_account :: "string \<Rightarrow> int \<Rightarrow> pending_operation list db_io" where
  "dequeue_pending_for_account account_id limit =
     db_query (due_rows (\<lambda>r. po_account r = account_id) limit)"

definition pending_of_account :: "string \<Rightarrow> pending_row list \<Rightarrow> pending_row list" where
  "pending_of_account account_id rows =
     filter (\<lambda>r. po_account r = account_id \<and> po_status r = StatusPending) rows"

definition pending_count_for_account :: "string \<Rightarrow> nat db_io" where
  "pending_count_for_account account_id =
     db_query (\<lambda>d. length (pending_of_account account_id (t_pending d)))"

definition has_pending_for_resource :: "string \<Rightarrow> string \<Rightarrow> db \<Rightarrow> bool \<times> db" where
  "has_pending_for_resource account_id resource_id d =
     (case db_query (\<lambda>d. length (filter (\<lambda>r. po_resource r = resource_id)
              (pending_of_account account_id (t_pending d)))) d of
        (Returned (Inr n), d') \<Rightarrow> (0 < n, d')
      | (_, d') \<Rightarrow> (False, d'))"

fun text_less :: "string \<Rightarrow> string \<Rightarrow> bool" where
  "text_less _ [] = False"
| "text_less [] (_ # _) = True"
| "text_less (a # as) (b # bs) =
     (let x = of_char a :: nat; y = of_char b in x < y \<or> (x = y \<and> text_less as bs))"

definition is_toggle :: "pending_row \<Rightarrow> bool" where
  "is_toggle r \<longleftrightarrow> po_operation_type r = ''markRead'' \<or> po_operation_type r = ''setFlag''"

definition read_is :: "pending_row \<Rightarrow> int \<Rightarrow> bool" where
  "read_is r n = (case po_params r of JsonText j \<Rightarrow> json_extract_is j ''read'' n | NotJson _ \<Rightarrow> False)"

definition cancels :: "pending_row \<Rightarrow> pending_row \<Rightarrow> bool" where
  "cancels a b \<longleftrightarrow>
     po_account a = po_account b \<and> po_resource a = po_resource b \<and>
     po_operation_type a = po_operation_type b \<and> text_less (po_id a) (po_id b) \<and>
     po_status a = StatusPending \<and> po_status b = StatusPending \<and>
     is_toggle a \<and> read_is a 1 \<and> read_is b 0"

definition cancel_pairs :: "string \<Rightarrow> pending_row list \<Rightarrow> (string \<times> string) list" where
  "cancel_pairs account_id rows =
     concat (map (\<lambda>a. map (\<lambda>b. (po_id a, po_id b))
       (filter (\<lambda>b. po_account a = account_id \<and> cancels a b) rows)) rows)"

text \<open>\<open>json_extract\<close> raises an SQL error on a row it has to look into that is not JSON.\<close>

definition malformed_toggle :: "string \<Rightarrow> pending_row list \<Rightarrow> bool" where
  "malformed_toggle account_id rows =
     list_ex (\<lambda>r. is_toggle r \<and> (case po_params r of NotJson _ \<Rightarrow> True | JsonText _ \<Rightarrow> False))
       (pending_of_account account_id rows)"

definition without_ids :: "string list \<Rightarrow> pending_row list \<Rightarrow> pending_row list" where
  "without_ids ids rows = filter (\<lambda>r. po_id r \<notin> set ids) rows"

definition delete_ids :: "string list \<Rightarrow> unit db_io" where
  "delete_ids ids =
     (if ids = [] then io_ret ()
      else db_update (\<lambda>d. d\<lparr>t_pending := without_ids ids (t_pending d)\<rparr>))"

definition compact_queue :: "string \<Rightarrow> unit db_io" where
  "compact_queue account_id =
     io_bind (db_query (\<lambda>d.
       if malformed_toggle account_id (t_pending d) then Inl ''malformed JSON''
       else Inr (cancel_pairs account_id (t_pending d))))
     (\<lambda>r. io_bind (io_lift r)
     (\<lambda>pairs.
        if pairs = [] then io_ret ()
        else io_bind (delete_ids (map fst pairs)) (\<lambda>_. delete_ids (map snd pairs))))"

definition complete_rows :: "string \<Rightarrow> pending_row list \<Rightarrow> pending_row list" where
  "complete_rows i rows = filter (\<lambda>r. po_id r \<noteq> i) rows"

definition mark_completed :: "string \<Rightarrow> unit db_io" where
  "mark_completed i = db_update (\<lambda>d. d\<lparr>t_pending := complete_rows i (t_pending d)\<rparr>)"

definition fail_row :: "int \<Rightarrow> string \<Rightarrow> pending_row \<Rightarrow> pending_row" where
  "fail_row now err r = r
     \<lparr>po_retry_count := po_retry_count r + 1,
      po_next_retry_at := Some (now + 60 * 2 ^ po_retry_count r),
      po_error_message := Some err,
      po_status := (if po_retry_count r + 1 \<ge> po_max_retries r then StatusFailed else StatusPending)\<rparr>"

definition fail_rows :: "int \<Rightarrow> string \<Rightarrow> string \<Rightarrow> pending_row list \<Rightarrow> pending_row list" where
  "fail_rows now err i rows = map (\<lambda>r. if po_id r = i then fail_row now err r else r) rows"

definition mark_failed :: "string \<Rightarrow> string \<Rightarrow> unit db_io" where
  "mark_failed i err = db_update (\<lambda>d. d\<lparr>t_pending := fail_rows (db_now d) err i (t_pending d)\<rparr>)"

section \<open>The queue invariant\<close>

text \<open>
  Ids identify rows; a row is pending exactly while it has failures left; a row that has failed
  carries the time of its next attempt.
\<close>

definition row_ok :: "pending_row \<Rightarrow> bool" where
  "row_ok r \<longleftrightarrow>
     (po_status r = StatusPending \<longleftrightarrow> po_retry_count r < po_max_retries r) \<and>
     (0 < po_retry_count r \<longrightarrow> po_next_retry_at r \<noteq> None)"

definition queue_ok :: "pending_row list \<Rightarrow> bool" where
  "queue_ok rows \<longleftrightarrow> distinct (map po_id rows) \<and> list_all row_ok rows"

lemma new_row_ok [simp]: "row_ok (new_row uuid a t r p now)"
  by (simp add: row_ok_def new_row_def)

lemma fail_row_ok: "row_ok (fail_row now err r)"
  by (simp add: row_ok_def fail_row_def)

lemma fail_row_id [simp]: "po_id (fail_row now err r) = po_id r"
  by (simp add: fail_row_def)

lemma map_id_fail_rows [simp]: "map po_id (fail_rows now err i rows) = map po_id rows"
  by (simp add: fail_rows_def)

lemma queue_ok_filter [invariant_intros]: "queue_ok rows \<Longrightarrow> queue_ok (filter P rows)"
  by (auto simp: queue_ok_def list_all_iff distinct_map inj_on_def)

lemma queue_ok_without_ids [invariant_intros]: "queue_ok rows \<Longrightarrow> queue_ok (without_ids ids rows)"
  unfolding without_ids_def by (rule queue_ok_filter)

lemma queue_ok_complete [invariant_intros]: "queue_ok rows \<Longrightarrow> queue_ok (complete_rows i rows)"
  unfolding complete_rows_def by (rule queue_ok_filter)

lemma queue_ok_fail [invariant_intros]: "queue_ok rows \<Longrightarrow> queue_ok (fail_rows now err i rows)"
  unfolding queue_ok_def map_id_fail_rows by (auto simp: list_all_iff fail_rows_def fail_row_ok)

lemma queue_ok_insert [invariant_intros]:
  "queue_ok rows \<Longrightarrow> uuid \<notin> set (map po_id rows) \<Longrightarrow> queue_ok (rows @ [new_row uuid a t r p now])"
  by (auto simp: queue_ok_def new_row_def [of uuid] row_ok_def)

definition queue_inv :: "db \<Rightarrow> bool" where
  "queue_inv d \<longleftrightarrow> queue_ok (t_pending d)"

text \<open>A statement keeps the invariant of the state when its transformation does.\<close>

definition keeps_inv :: "'a db_io \<Rightarrow> bool" where
  "keeps_inv m \<longleftrightarrow> (\<forall>d. queue_inv d \<longrightarrow> queue_inv (snd (m d)))"

lemma keeps_inv_bind [invariant_intros]:
  "keeps_inv m \<Longrightarrow> (\<And>x. keeps_inv (f x)) \<Longrightarrow> keeps_inv (io_bind m f)"
proof -
  assume m: "keeps_inv m" and f: "\<And>x. keeps_inv (f x)"
  have "io_keeps (\<lambda>a b. queue_inv a \<longrightarrow> queue_inv b) (io_bind m f)"
    using m f by (intro io_keeps_bind) (auto simp: keeps_inv_def io_keeps_def)
  then show ?thesis by (simp add: keeps_inv_def io_keeps_def)
qed

lemma keeps_inv_ret [invariant_intros]: "keeps_inv (io_ret x)" "keeps_inv (io_fail e)" "keeps_inv (io_lift r)"
  by (simp_all add: keeps_inv_def io_ret_def io_fail_def io_lift_def)

lemma keeps_inv_stmt:
  "(\<And>d x d'. queue_inv d \<Longrightarrow> f d = (x, d') \<Longrightarrow> queue_inv d') \<Longrightarrow> keeps_inv (db_stmt f)"
proof -
  assume step: "\<And>d x d'. queue_inv d \<Longrightarrow> f d = (x, d') \<Longrightarrow> queue_inv d'"
  have "queue_inv (snd (f (d\<lparr>db_faults := fs\<rparr>)))" if "queue_inv d" for d fs
    using step [of "d\<lparr>db_faults := fs\<rparr>"] that by (cases "f (d\<lparr>db_faults := fs\<rparr>)") (simp add: queue_inv_def)
  then show ?thesis
    unfolding keeps_inv_def db_stmt_def
    by (auto simp: queue_inv_def split: list.split option.split prod.split) (metis snd_conv)+
qed

lemma keeps_inv_query [invariant_intros]: "keeps_inv (db_query q)"
  unfolding db_query_def by (rule keeps_inv_stmt) auto

lemma keeps_inv_update:
  "(\<And>d. queue_inv d \<Longrightarrow> queue_inv (u d)) \<Longrightarrow> keeps_inv (db_update u)"
  unfolding db_update_def by (rule keeps_inv_stmt) auto

lemma keeps_inv_enqueue: "keeps_inv (enqueue uuid a t r p)"
proof -
  have "keeps_inv (db_stmt (\<lambda>d.
       if uuid \<in> set (map po_id (t_pending d))
       then (Inl ''UNIQUE constraint failed: pending_operations.id'', d)
       else (Inr uuid, d\<lparr>t_pending := t_pending d @ [new_row uuid a t r p (db_now d)]\<rparr>)))"
    by (rule keeps_inv_stmt) (auto simp: queue_inv_def intro: queue_ok_insert split: if_splits)
  then show ?thesis unfolding enqueue_def by (intro invariant_intros)
qed

lemma keeps_inv_mark:
  "keeps_inv (mark_completed i)" "keeps_inv (mark_failed i err)" "keeps_inv (delete_ids ids)"
  unfolding mark_completed_def mark_failed_def delete_ids_def
  by (auto simp: queue_inv_def intro!: keeps_inv_update keeps_inv_ret intro: invariant_intros)

lemma keeps_inv_compact: "keeps_inv (compact_queue a)"
  unfolding compact_queue_def
  by (intro keeps_inv_bind keeps_inv_query keeps_inv_ret)
    (auto intro!: keeps_inv_bind keeps_inv_ret keeps_inv_mark)

text \<open>C22. Every operation of the queue keeps its invariant, also when a statement fails half-way
  through: ids stay unique, a row is pending exactly while it has failures left, a row that has
  failed always has the time of its next attempt.\<close>

theorem queue_invariant:
  "keeps_inv (enqueue uuid a t r p) \<and> keeps_inv (dequeue_pending n) \<and>
   keeps_inv (dequeue_pending_for_account a n) \<and> keeps_inv (pending_count_for_account a) \<and>
   keeps_inv (compact_queue a) \<and> keeps_inv (mark_completed i) \<and> keeps_inv (mark_failed i err)"
  by (simp add: keeps_inv_enqueue keeps_inv_mark keeps_inv_compact keeps_inv_query
      dequeue_pending_def dequeue_pending_for_account_def pending_count_for_account_def)

section \<open>Dequeuing\<close>

definition selected :: "string \<Rightarrow> db \<Rightarrow> pending_row list" where
  "selected account_id d = filter (\<lambda>r. po_account r = account_id \<and> is_due (db_now d) r) (t_pending d)"

lemma due_rows_selected:
  "due_rows (\<lambda>r. po_account r = account_id) limit d
     = map row_to_op (sql_limit limit (sort_key po_created_at (selected account_id d)))"
  by (simp add: due_rows_def selected_def)

lemma sql_limit_split: "\<exists>zs. xs = sql_limit n xs @ zs"
  by (auto simp: sql_limit_def intro: exI [of _ "drop (nat n) xs"])

lemma sorted_append_le:
  "sorted (map f (xs @ ys)) \<Longrightarrow> x \<in> set xs \<Longrightarrow> y \<in> set ys \<Longrightarrow> f x \<le> f y"
  by (auto simp: sorted_append)

text \<open>Dequeuing for an account returns only its own operations that are pending and due, oldest
  first, at most the limit of them, each row at most once, and changes no table; a due operation
  that is left out is at least as young as every one returned.\<close>

lemma dequeue_for_account_spec:
  assumes "healthy d" and "0 \<le> limit"
  shows "\<exists>rows rest. dequeue_pending_for_account account_id limit d = (Returned (Inr (map row_to_op rows)), d) \<and>
    mset rows + mset rest = mset (selected account_id d) \<and>
    length rows = min (nat limit) (length (selected account_id d)) \<and>
    sorted (map po_created_at rows) \<and>
    (\<forall>r \<in> set rows. \<forall>q \<in> set rest. po_created_at r \<le> po_created_at q)"
proof -
  let ?all = "sort_key po_created_at (selected account_id d)"
  let ?rows = "sql_limit limit ?all"
  obtain rest where rest: "?all = ?rows @ rest" using sql_limit_split by blast
  have "mset ?rows + mset rest = mset ?all" by (subst rest) simp
  moreover have "sorted (map po_created_at ?rows)" and
    "\<forall>r \<in> set ?rows. \<forall>q \<in> set rest. po_created_at r \<le> po_created_at q"
    using sorted_sort_key [of po_created_at "selected account_id d"] rest
    by (metis map_append sorted_append) (metis rest sorted_append_le sorted_sort_key)
  moreover have "length ?rows = min (nat limit) (length (selected account_id d))"
    using assms(2) by (simp add: sql_limit_def min.commute)
  ultimately show ?thesis
    using assms(1) by (intro exI [of _ ?rows] exI [of _ rest])
      (simp add: dequeue_pending_for_account_def db_query_healthy due_rows_selected)
qed

lemma dequeue_for_account_spec_witness:
  "\<exists>rows rest. dequeue_pending_for_account ''a'' 50
       (empty_db\<lparr>t_pending := [new_row ''i'' ''a'' ''send'' ''r'' (JsonText JNull) 5]\<rparr>)
     = (Returned (Inr (map row_to_op rows)),
        empty_db\<lparr>t_pending := [new_row ''i'' ''a'' ''send'' ''r'' (JsonText JNull) 5]\<rparr>) \<and>
     length rows = 1"
proof -
  let ?d = "empty_db\<lparr>t_pending := [new_row ''i'' ''a'' ''send'' ''r'' (JsonText JNull) 5]\<rparr>"
  have "healthy ?d" by (simp add: healthy_def empty_db_def)
  moreover have "length (selected ''a'' ?d) = 1" by (simp add: selected_def new_row_def is_due_def)
  ultimately show ?thesis using dequeue_for_account_spec [of ?d 50 "''a''"] by fastforce
qed

section \<open>Retries\<close>

text \<open>
  A round of the worker either completes or fails an operation. What it needs of the queue is that
  completing removes the operation and nothing else, and that failing uses up one of a bounded
  number of attempts.
\<close>

locale retry_queue =
  fixes waiting :: "'q \<Rightarrow> 'k set"
    and budget :: "'q \<Rightarrow> 'k \<Rightarrow> nat"
    and complete :: "'k \<Rightarrow> 'q \<Rightarrow> 'q"
    and fail :: "'e \<Rightarrow> 'k \<Rightarrow> 'q \<Rightarrow> 'q"
    and ok :: "'q \<Rightarrow> bool"
  assumes finite_waiting: "finite (waiting q)"
    and ok_complete: "ok q \<Longrightarrow> ok (complete k q)"
    and ok_fail: "ok q \<Longrightarrow> ok (fail e k q)"
    and waiting_complete: "waiting (complete k q) = waiting q - {k}"
    and budget_complete: "ok q \<Longrightarrow> k' \<in> waiting (complete k q) \<Longrightarrow> budget (complete k q) k' = budget q k'"
    and waiting_fail: "ok q \<Longrightarrow> waiting (fail e k q) \<subseteq> waiting q"
    and budget_fail: "ok q \<Longrightarrow> k \<in> waiting (fail e k q) \<Longrightarrow> budget (fail e k q) k < budget q k"
    and budget_other: "ok q \<Longrightarrow> k' \<in> waiting (fail e k q) \<Longrightarrow> k' \<noteq> k \<Longrightarrow> budget (fail e k q) k' = budget q k'"
    and budget_pos: "ok q \<Longrightarrow> k \<in> waiting q \<Longrightarrow> 0 < budget q k"
begin

definition work_left :: "'q \<Rightarrow> nat" where
  "work_left q = sum (budget q) (waiting q)"

lemma work_left_zero: "ok q \<Longrightarrow> work_left q = 0 \<Longrightarrow> waiting q = {}"
  using budget_pos finite_waiting by (force simp: work_left_def)

lemma complete_decreases:
  assumes "ok q" and "k \<in> waiting q"
  shows "work_left (complete k q) < work_left q"
proof -
  have "work_left (complete k q) = sum (budget q) (waiting q - {k})"
    unfolding work_left_def using assms(1) budget_complete
    by (intro sum.cong) (auto simp: waiting_complete)
  then show ?thesis using assms budget_pos
    by (simp add: work_left_def sum.remove [OF finite_waiting assms(2)])
qed

lemma fail_decreases:
  assumes "ok q" and "k \<in> waiting q"
  shows "work_left (fail e k q) < work_left q"
proof -
  let ?w = "waiting (fail e k q)"
  have sub: "?w - {k} \<subseteq> waiting q - {k}" using waiting_fail [OF assms(1)] by blast
  have fin: "finite ?w" "finite (waiting q - {k})" using finite_waiting by auto
  have "sum (budget (fail e k q)) (?w - {k}) = sum (budget q) (?w - {k})"
    by (rule sum.cong) (auto intro: budget_other [OF assms(1)])
  also have "\<dots> \<le> sum (budget q) (waiting q - {k})" using fin sub by (intro sum_mono2) auto
  finally have rest: "sum (budget (fail e k q)) (?w - {k}) \<le> sum (budget q) (waiting q - {k})" .
  have "work_left q = budget q k + sum (budget q) (waiting q - {k})"
    by (simp add: work_left_def sum.remove [OF finite_waiting assms(2)])
  moreover have "work_left (fail e k q) < budget q k + sum (budget q) (waiting q - {k})"
  proof (cases "k \<in> ?w")
    case True
    then have "work_left (fail e k q) = budget (fail e k q) k + sum (budget (fail e k q)) (?w - {k})"
      by (simp add: work_left_def sum.remove [OF fin(1)])
    with rest budget_fail [OF assms(1) True] show ?thesis by linarith
  next
    case False
    then have "work_left (fail e k q) = sum (budget (fail e k q)) (?w - {k})" by (simp add: work_left_def)
    with rest budget_pos [OF assms] show ?thesis by linarith
  qed
  ultimately show ?thesis by simp
qed

text \<open>A history of attempts: each names the operation and how it ended.\<close>

fun attempts :: "('k \<times> 'e option) list \<Rightarrow> 'q \<Rightarrow> 'q" where
  "attempts [] q = q"
| "attempts ((k, None) # h) q = attempts h (complete k q)"
| "attempts ((k, Some e) # h) q = attempts h (fail e k q)"

fun live :: "('k \<times> 'e option) list \<Rightarrow> 'q \<Rightarrow> bool" where
  "live [] q = True"
| "live ((k, r) # h) q = (k \<in> waiting q \<and> live h (attempts [(k, r)] q))"

lemma live_bounded: "ok q \<Longrightarrow> live h q \<Longrightarrow> length h \<le> work_left q"
proof (induction h arbitrary: q)
  case Nil
  then show ?case by simp
next
  case (Cons kr h)
  obtain k r where kr: "kr = (k, r)" by (cases kr)
  let ?q = "attempts [(k, r)] q"
  have "ok ?q" and "work_left ?q < work_left q"
    using Cons.prems kr ok_complete ok_fail complete_decreases fail_decreases by (cases r; simp)+
  moreover have "live h ?q" using Cons.prems kr by simp
  ultimately show ?case using Cons.IH [of ?q] by simp
qed

end

definition waiting_ids :: "pending_row list \<Rightarrow> string set" where
  "waiting_ids rows = po_id ` set (filter (\<lambda>r. po_status r = StatusPending) rows)"

definition attempts_left :: "pending_row list \<Rightarrow> string \<Rightarrow> nat" where
  "attempts_left rows i =
     sum_list (map (\<lambda>r. if po_id r = i then po_max_retries r - po_retry_count r else 0) rows)"

lemma attempts_left_row:
  "queue_ok rows \<Longrightarrow> r \<in> set rows \<Longrightarrow> attempts_left rows (po_id r) = po_max_retries r - po_retry_count r"
proof (induction rows)
  case Nil
  then show ?case by simp
next
  case (Cons x rows)
  have none: "attempts_left rows (po_id x) = 0"
    using Cons.prems(1) by (auto simp: queue_ok_def attempts_left_def sum_list_eq_0_iff image_iff)
  have "queue_ok rows" using Cons.prems(1) by (simp add: queue_ok_def)
  with Cons none show ?case by (auto simp: attempts_left_def queue_ok_def)
qed

lemma attempts_left_other:
  "i' \<noteq> i \<Longrightarrow> attempts_left (fail_rows now err i rows) i' = attempts_left rows i'"
  "i' \<noteq> i \<Longrightarrow> attempts_left (complete_rows i rows) i' = attempts_left rows i'"
  by (induction rows) (auto simp: attempts_left_def fail_rows_def complete_rows_def)

lemma waiting_row: "i \<in> waiting_ids rows \<Longrightarrow>
    \<exists>r \<in> set rows. po_id r = i \<and> po_status r = StatusPending"
  by (auto simp: waiting_ids_def)

lemma attempts_left_fail:
  assumes ok: "queue_ok rows" and i: "i \<in> waiting_ids (fail_rows now err i rows)"
  shows "attempts_left (fail_rows now err i rows) i < attempts_left rows i"
proof -
  from waiting_row [OF i] obtain r where r: "r \<in> set rows" "po_id r = i"
    "po_status (fail_row now err r) = StatusPending"
    by (auto simp: fail_rows_def split: if_splits)
  then have "fail_row now err r \<in> set (fail_rows now err i rows)" by (auto simp: fail_rows_def)
  from attempts_left_row [OF queue_ok_fail [OF ok] this] attempts_left_row [OF ok r(1)] r
  show ?thesis by (auto simp: fail_row_def split: if_splits)
qed

lemma waiting_fail_rows:
  assumes "queue_ok rows"
  shows "waiting_ids (fail_rows now err i rows) \<subseteq> waiting_ids rows"
proof
  fix k
  assume "k \<in> waiting_ids (fail_rows now err i rows)"
  then obtain r' where r': "r' \<in> set (fail_rows now err i rows)" "po_id r' = k" "po_status r' = StatusPending"
    by (auto dest!: waiting_row)
  then obtain r where r: "r \<in> set rows" "r' = (if po_id r = i then fail_row now err r else r)"
    by (auto simp: fail_rows_def)
  have "po_status r = StatusPending"
  proof (cases "po_id r = i")
    case True
    with r r' have "po_retry_count r < po_max_retries r" by (auto simp: fail_row_def split: if_splits)
    with assms r(1) show ?thesis by (auto simp: queue_ok_def list_all_iff row_ok_def)
  next
    case False
    with r r' show ?thesis by simp
  qed
  moreover have "po_id r = k" using r r' by (auto split: if_splits)
  ultimately show "k \<in> waiting_ids rows" using r(1) by (auto simp: waiting_ids_def)
qed

interpretation replay: retry_queue waiting_ids attempts_left complete_rows
  "\<lambda>(now, err) i. fail_rows now err i" queue_ok
proof
  fix q :: "pending_row list" and k k' :: string and e :: "int \<times> string"
  obtain now err where e: "e = (now, err)" by (cases e)
  show "finite (waiting_ids q)" by (simp add: waiting_ids_def)
  show "waiting_ids (complete_rows k q) = waiting_ids q - {k}"
    by (auto simp: waiting_ids_def complete_rows_def)
  show "queue_ok q \<Longrightarrow> queue_ok (complete_rows k q)" by (rule queue_ok_complete)
  show "queue_ok q \<Longrightarrow> queue_ok ((case e of (now, err) \<Rightarrow> \<lambda>i. fail_rows now err i) k q)"
    by (simp add: e queue_ok_fail)
  show "k' \<in> waiting_ids (complete_rows k q) \<Longrightarrow> attempts_left (complete_rows k q) k' = attempts_left q k'"
    by (rule attempts_left_other) (auto simp: waiting_ids_def complete_rows_def)
  show "queue_ok q \<Longrightarrow> waiting_ids ((case e of (now, err) \<Rightarrow> \<lambda>i. fail_rows now err i) k q) \<subseteq> waiting_ids q"
    by (simp add: e waiting_fail_rows)
  show "queue_ok q \<Longrightarrow> k \<in> waiting_ids ((case e of (now, err) \<Rightarrow> \<lambda>i. fail_rows now err i) k q) \<Longrightarrow>
      attempts_left ((case e of (now, err) \<Rightarrow> \<lambda>i. fail_rows now err i) k q) k < attempts_left q k"
    by (simp add: e attempts_left_fail)
  show "k' \<noteq> k \<Longrightarrow>
      attempts_left ((case e of (now, err) \<Rightarrow> \<lambda>i. fail_rows now err i) k q) k' = attempts_left q k'"
    by (simp add: e attempts_left_other)
  show "queue_ok q \<Longrightarrow> k \<in> waiting_ids q \<Longrightarrow> 0 < attempts_left q k"
    using attempts_left_row by (force simp: queue_ok_def row_ok_def list_all_iff dest!: waiting_row)
qed

text \<open>Histories of attempts over the rows themselves.\<close>

definition attempt :: "string \<times> (int \<times> string) option \<Rightarrow> pending_row list \<Rightarrow> pending_row list" where
  "attempt a rows =
     (case a of
        (i, None) \<Rightarrow> complete_rows i rows
      | (i, Some (now, err)) \<Rightarrow> fail_rows now err i rows)"

fun replay_history :: "(string \<times> (int \<times> string) option) list \<Rightarrow> pending_row list \<Rightarrow> bool" where
  "replay_history [] rows = True"
| "replay_history (a # h) rows = (fst a \<in> waiting_ids rows \<and> replay_history h (attempt a rows))"

lemma attempt_replay: "attempt (i, r) rows = replay.attempts [(i, r)] rows"
  by (cases r) (auto simp: attempt_def)

lemma replay_history_live: "replay_history h rows = replay.live h rows"
proof (induction h arbitrary: rows)
  case Nil
  show ?case by (simp only: replay_history.simps replay.live.simps)
next
  case (Cons a h)
  obtain i r where a: "a = (i, r)" by (cases a)
  show ?case
    unfolding a replay_history.simps replay.live.simps fst_conv Cons.IH attempt_replay ..
qed



lemma fail_row_iterate:
  fixes uuid a t r p created now err
  defines "row n \<equiv> (fail_row now err ^^ n) (new_row uuid a t r p created)"
  shows "po_retry_count (row n) = n" and "po_max_retries (row n) = 10"
    and "po_status (row n) = (if n < 10 then StatusPending else StatusFailed)"
    and "po_next_retry_at (row n) = (if n = 0 then None else Some (now + 60 * 2 ^ (n - 1)))"
proof -
  have count: "po_retry_count (row n) = n \<and> po_max_retries (row n) = 10" for n
    by (induction n) (simp_all add: row_def fail_row_def new_row_def)
  then show "po_retry_count (row n) = n" "po_max_retries (row n) = 10" by simp_all
  show "po_status (row n) = (if n < 10 then StatusPending else StatusFailed)"
    using count by (cases n) (simp_all add: row_def fail_row_def new_row_def)
  show "po_next_retry_at (row n) = (if n = 0 then None else Some (now + 60 * 2 ^ (n - 1)))"
    using count by (cases n) (simp_all add: row_def fail_row_def new_row_def)
qed

text \<open>The backoff schedule of a queued operation, with the exponent taken before the increment:
  after \<open>n\<close> failures, the last at \<open>now\<close>, it is due again from \<open>now + 60 * 2^(n-1)\<close> seconds on; a
  new operation is due at once; after the tenth failure it is never due again.\<close>

lemma backoff_schedule:
  "is_due t ((fail_row now err ^^ n) (new_row uuid a ty r p created)) \<longleftrightarrow>
     n < 10 \<and> (n = 0 \<or> now + 60 * 2 ^ (n - 1) \<le> t)"
  by (simp add: is_due_def fail_row_iterate)

section \<open>Compaction\<close>

lemma cancel_pairs_iff:
  "(x, y) \<in> set (cancel_pairs acc rows) \<longleftrightarrow>
     (\<exists>a \<in> set rows. \<exists>b \<in> set rows. po_account a = acc \<and> cancels a b \<and> x = po_id a \<and> y = po_id b)"
  by (auto simp: cancel_pairs_def)

definition compacted :: "string \<Rightarrow> pending_row list \<Rightarrow> pending_row list" where
  "compacted acc rows = without_ids (map snd (cancel_pairs acc rows))
     (without_ids (map fst (cancel_pairs acc rows)) rows)"

lemma without_ids_Nil [simp]: "without_ids [] rows = rows"
  by (simp add: without_ids_def)

lemma compact_queue_healthy:
  assumes "healthy d"
  shows "compact_queue acc d =
    (if malformed_toggle acc (t_pending d) then (Returned (Inl ''malformed JSON''), d)
     else (Returned (Inr ()), d\<lparr>t_pending := compacted acc (t_pending d)\<rparr>))"
proof (cases "malformed_toggle acc (t_pending d)")
  case True
  then show ?thesis using assms by (simp add: compact_queue_def io_bind_def db_query_healthy io_lift_def io_fail_def)
next
  case False
  have "healthy (d\<lparr>t_pending := rows\<rparr>)" for rows using assms by (simp add: healthy_def)
  with False assms show ?thesis
    by (auto simp: compact_queue_def io_bind_def db_query_healthy io_lift_def io_ret_def delete_ids_def
        db_update_healthy compacted_def)
qed

lemma removed_by_compaction:
  assumes ok: "queue_ok rows" and r: "r \<in> set rows" "r \<notin> set (compacted acc rows)"
  shows "\<exists>q \<in> set rows. po_account r = acc \<and> (cancels r q \<or> cancels q r) \<and> q \<notin> set (compacted acc rows)"
proof -
  from r obtain a b where ab: "a \<in> set rows" "b \<in> set rows" "po_account a = acc" "cancels a b"
    "po_id r = po_id a \<or> po_id r = po_id b"
    by (auto simp: compacted_def without_ids_def cancel_pairs_iff)
  have gone: "a \<notin> set (compacted acc rows)" "b \<notin> set (compacted acc rows)"
  proof -
    have "(po_id a, po_id b) \<in> set (cancel_pairs acc rows)" using ab(1-4) by (auto simp: cancel_pairs_iff)
    then show "a \<notin> set (compacted acc rows)" "b \<notin> set (compacted acc rows)"
      by (force simp: compacted_def without_ids_def)+
  qed
  have same: "x = y" if "x \<in> set rows" "y \<in> set rows" "po_id x = po_id y" for x y
    using that ok by (auto simp: queue_ok_def distinct_map inj_on_def)
  from ab(5) same r(1) ab(1,2) have "r = a \<or> r = b" by blast
  then show ?thesis using ab gone by (auto simp: cancels_def)
qed

text \<open>Compaction only drops cancelled toggles: a row that disappears is a pending \<open>markRead\<close> or
  \<open>setFlag\<close> of that account, and its counterpart for the same message disappears with it. Sends,
  moves and deletes always stay.\<close>

lemma compact_only_cancelled:
  assumes "healthy d" and "queue_inv d" and "compact_queue acc d = (Returned (Inr ()), d')"
    and "r \<in> set (t_pending d)" and "r \<notin> set (t_pending d')"
  shows "po_account r = acc \<and> po_status r = StatusPending \<and> is_toggle r \<and>
    (\<exists>q \<in> set (t_pending d). q \<notin> set (t_pending d') \<and> (cancels r q \<or> cancels q r))"
proof -
  from assms(1,3) have d': "t_pending d' = compacted acc (t_pending d)"
    by (auto simp: compact_queue_healthy split: if_splits)
  from removed_by_compaction [of "t_pending d" r acc] assms(2,4,5) d'
  obtain q where "q \<in> set (t_pending d)" "po_account r = acc" "cancels r q \<or> cancels q r"
    "q \<notin> set (t_pending d')"
    by (auto simp: queue_inv_def)
  then show ?thesis by (auto simp: cancels_def is_toggle_def)
qed

definition toggle_row :: "string \<Rightarrow> int \<Rightarrow> int \<Rightarrow> pending_row" where
  "toggle_row uuid v created =
     new_row uuid ''acc'' ''markRead'' ''m1'' (JsonText (JObj [(''read'', JNum v)])) created"

lemma toggle_cancels: "cancels (toggle_row ''a'' 1 t1) (toggle_row ''b'' 0 t2)"
  by (simp add: cancels_def toggle_row_def new_row_def is_toggle_def read_is_def json_extract_is_def)

lemma compact_toggles:
  "healthy d \<Longrightarrow> t_pending d = [toggle_row ''b'' 0 t2, toggle_row ''a'' 1 t1] \<Longrightarrow>
   compact_queue ''acc'' d = (Returned (Inr ()), d\<lparr>t_pending := []\<rparr>)"
proof -
  assume d: "healthy d" "t_pending d = [toggle_row ''b'' 0 t2, toggle_row ''a'' 1 t1]"
  have "(''a'', ''b'') \<in> set (cancel_pairs ''acc'' (t_pending d))"
    using d(2) toggle_cancels by (force simp: cancel_pairs_iff toggle_row_def new_row_def)
  then have "compacted ''acc'' (t_pending d) = []"
    by (force simp: compacted_def without_ids_def d(2) toggle_row_def new_row_def filter_empty_conv)
  moreover have "\<not> malformed_toggle ''acc'' (t_pending d)"
    by (simp add: d(2) malformed_toggle_def pending_of_account_def toggle_row_def new_row_def)
  ultimately show ?thesis using d(1) by (simp add: compact_queue_healthy)
qed

lemma compact_only_cancelled_witness:
  "is_toggle (toggle_row ''a'' 1 7)"
proof -
  let ?d = "empty_db\<lparr>t_pending := [toggle_row ''b'' 0 5, toggle_row ''a'' 1 7]\<rparr>"
  have h: "healthy ?d" by (simp add: healthy_def empty_db_def)
  have "queue_inv ?d" by (simp add: queue_inv_def queue_ok_def toggle_row_def) (simp add: new_row_def)
  from compact_only_cancelled [OF h this compact_toggles [OF h], of 5 7 "toggle_row ''a'' 1 7"]
  show ?thesis by simp
qed

text \<open>Compaction can discard the user's last word: a message marked unread and then read again
  has both rows deleted whenever the later row happens to have the smaller random id, so neither
  change reaches the server, although the queue holds them in the order unread, read.\<close>

lemma compact_drops_last_toggle:
  "compact_queue ''acc'' (empty_db\<lparr>t_pending := [toggle_row ''b'' 0 created, toggle_row ''a'' 1 (created + 60)]\<rparr>)
     = (Returned (Inr ()), empty_db\<lparr>t_pending := []\<rparr>)"
  using compact_toggles [of "empty_db\<lparr>t_pending := [toggle_row ''b'' 0 created, toggle_row ''a'' 1 (created + 60)]\<rparr>"]
  by (simp add: healthy_def empty_db_def)

end
