(* ===== verification/Sync_State.thy ===== *)
theory Sync_State
  imports Db_Store
begin

text \<open>
  \<open>db/rate_limit.rs\<close> and \<open>db/sync_state.rs\<close>: the window during which an account must not be
  polled, and the cursors from which a folder's next delta sync resumes.
\<close>

section \<open>Rate limits\<close>

text \<open>\<open>let _ = statement\<close>: an error is dropped.\<close>

definition io_ignore :: "'a db_io \<Rightarrow> unit db_io" where
  "io_ignore m d = (case m d of (Panicked, d') \<Rightarrow> (Panicked, d') | (_, d') \<Rightarrow> (Returned (Inr ()), d'))"

definition set_rate_limit :: "string \<Rightarrow> int \<Rightarrow> unit db_io" where
  "set_rate_limit account_id retry_after =
     db_update (\<lambda>d. d\<lparr>t_rate_limit := (t_rate_limit d)(account_id := Some retry_after)\<rparr>)"

definition clear_rate_limit :: "string \<Rightarrow> unit db_io" where
  "clear_rate_limit account_id =
     db_update (\<lambda>d. d\<lparr>t_rate_limit := (t_rate_limit d)(account_id := None)\<rparr>)"

definition get_rate_limit :: "string \<Rightarrow> int option db_io" where
  "get_rate_limit account_id =
     io_bind (db_query (\<lambda>d. t_rate_limit d account_id)) (\<lambda>row.
     case row of
       None \<Rightarrow> io_ret None
     | Some retry_after \<Rightarrow>
         io_bind (db_query db_now) (\<lambda>now.
         if retry_after > now then io_ret (Some retry_after)
         else io_bind (io_ignore (clear_rate_limit account_id)) (\<lambda>_. io_ret None)))"

definition is_rate_limited :: "string \<Rightarrow> db \<Rightarrow> bool \<times> db" where
  "is_rate_limited account_id d =
     (case get_rate_limit account_id d of
        (Returned (Inr (Some _)), d') \<Rightarrow> (True, d')
      | (_, d') \<Rightarrow> (False, d'))"

section \<open>Cursors\<close>

definition i64_of_u64 :: "u64 \<Rightarrow> int" where
  "i64_of_u64 w = sint w"

definition u32_of_i64 :: "int \<Rightarrow> u32" where
  "u32_of_i64 n = word_of_int n"

definition u64_of_i64 :: "int \<Rightarrow> u64" where
  "u64_of_i64 n = word_of_int n"

definition get_imap_cursor :: "string \<Rightarrow> string \<Rightarrow> db \<Rightarrow> cursor \<times> db" where
  "get_imap_cursor account_id folder_path d =
     (case db_query (\<lambda>d. t_imap_cursor d (account_id, folder_path)) d of
        (Returned (Inr (Some r)), d') \<Rightarrow>
          (ImapCursor (u32_of_i64 (opt_or 0 (ic_uidvalidity r))) (u32_of_i64 (opt_or 0 (ic_last_uid r)))
             (u64_of_i64 (opt_or 0 (ic_modseq r))), d')
      | (_, d') \<Rightarrow> (initial_imap, d'))"

text \<open>The scalar \<open>MAX\<close> of SQLite is NULL as soon as an argument is.\<close>

fun sql_max :: "int option \<Rightarrow> int option \<Rightarrow> int option" where
  "sql_max (Some a) (Some b) = Some (max a b)"
| "sql_max _ _ = None"

definition merge_imap_row :: "imap_cursor_row option \<Rightarrow> imap_cursor_row \<Rightarrow> imap_cursor_row" where
  "merge_imap_row old excluded =
     (case old of
        None \<Rightarrow> excluded
      | Some r \<Rightarrow>
          (let same = (ic_uidvalidity r \<noteq> None \<and> ic_uidvalidity r = ic_uidvalidity excluded)
           in \<lparr>ic_uidvalidity = ic_uidvalidity excluded,
               ic_last_uid = (if same then sql_max (ic_last_uid excluded) (ic_last_uid r)
                              else ic_last_uid excluded),
               ic_modseq = (if same then sql_max (ic_modseq excluded) (ic_modseq r)
                            else ic_modseq excluded)\<rparr>))"

definition advance_imap_cursor :: "string \<Rightarrow> string \<Rightarrow> u32 \<Rightarrow> u32 \<Rightarrow> u64 \<Rightarrow> unit db_io" where
  "advance_imap_cursor account_id folder_path uidvalidity highest_uid modseq =
     db_update (\<lambda>d. d\<lparr>t_imap_cursor := (t_imap_cursor d)((account_id, folder_path) := Some
       (merge_imap_row (t_imap_cursor d (account_id, folder_path))
         \<lparr>ic_uidvalidity = Some (uint uidvalidity), ic_last_uid = Some (uint highest_uid),
          ic_modseq = Some (i64_of_u64 modseq)\<rparr>))\<rparr>)"

definition get_eas_cursor :: "string \<Rightarrow> string \<Rightarrow> db \<Rightarrow> cursor \<times> db" where
  "get_eas_cursor account_id folder_id d =
     (case db_query (\<lambda>d. t_eas_cursor d (account_id, folder_id)) d of
        (Returned (Inr (Some (cid, sk))), d') \<Rightarrow> (EasCursor (opt_or [] cid) (opt_or ''0'' sk), d')
      | (_, d') \<Rightarrow> (initial_eas folder_id, d'))"

definition advance_eas_cursor :: "string \<Rightarrow> string \<Rightarrow> string \<Rightarrow> string \<Rightarrow> unit db_io" where
  "advance_eas_cursor account_id folder_id collection_id sync_key =
     db_update (\<lambda>d. d\<lparr>t_eas_cursor := (t_eas_cursor d)
       ((account_id, folder_id) := Some (Some collection_id, Some sync_key))\<rparr>)"

section \<open>What they guarantee\<close>

lemma get_rate_limit_healthy:
  assumes "healthy d"
  shows "get_rate_limit a d =
    (case t_rate_limit d a of
       Some r \<Rightarrow> if db_now d < r then (Returned (Inr (Some r)), d)
                 else (Returned (Inr None), d\<lparr>t_rate_limit := (t_rate_limit d)(a := None)\<rparr>)
     | None \<Rightarrow> (Returned (Inr None), d))"
  using assms by (simp add: get_rate_limit_def io_bind_def db_query_healthy io_ret_def io_ignore_def
      clear_rate_limit_def db_update_healthy split: option.split)

text \<open>An account is skipped exactly while the window that its server announced is open: after
  \<open>set_rate_limit\<close> the account is limited if and only if the given epoch second lies in the
  future, and a window that has passed is deleted by the first look at it.\<close>

lemma rate_limit_window:
  assumes "healthy d" and "set_rate_limit a r d = (Returned (Inr ()), d1)"
  shows "(fst (is_rate_limited a d1) \<longleftrightarrow> db_now d < r) \<and>
    t_rate_limit (snd (is_rate_limited a d1)) a = (if db_now d < r then Some r else None)"
  using assms by (auto simp: is_rate_limited_def set_rate_limit_def db_update_healthy
      get_rate_limit_healthy healthy_def split: option.splits if_splits)

text \<open>A stored row as \<open>advance_imap_cursor\<close> writes it: no NULL, values of the columns' widths.\<close>

definition imap_row_ok :: "imap_cursor_row \<Rightarrow> bool" where
  "imap_row_ok r \<longleftrightarrow> (\<exists>uv u m. r = \<lparr>ic_uidvalidity = Some (uint (uv :: u32)), ic_last_uid = Some (uint (u :: u32)),
     ic_modseq = Some (i64_of_u64 m)\<rparr>)"

lemma u32_of_i64_uint [simp]: "u32_of_i64 (uint w) = w"
  by (simp add: u32_of_i64_def)

lemma u64_of_i64_of_u64 [simp]: "u64_of_i64 (i64_of_u64 w) = w"
  by (simp add: u64_of_i64_def i64_of_u64_def)

lemma u32_max: "u32_of_i64 (max (uint a) (uint b)) = max a b"
  by (auto simp: max_def word_le_def)

lemma u64_max:
  assumes "a < 2 ^ 63" and "b < 2 ^ 63"
  shows "u64_of_i64 (max (i64_of_u64 a) (i64_of_u64 b)) = max a b"
proof -
  have sint: "sint w = uint w" if "w < 2 ^ 63" for w :: u64
  proof -
    have "uint w < 2 ^ 63" using that by (simp add: word_less_def)
    then have "signed_take_bit 63 (uint w) = uint w" using uint_ge_0 [of w]
      by (intro signed_take_bit_int_eq_self) (simp_all add: order_trans [of _ 0])
    then show ?thesis by (simp add: sint_uint)
  qed
  show ?thesis using sint [OF assms(1)] sint [OF assms(2)]
    by (auto simp: i64_of_u64_def u64_of_i64_def max_def word_le_def)
qed

definition imap_table_ok :: "db \<Rightarrow> bool" where
  "imap_table_ok d \<longleftrightarrow> (\<forall>k r. t_imap_cursor d k = Some r \<longrightarrow> imap_row_ok r)"

lemma merge_imap_row_ok:
  assumes "pred_option imap_row_ok old"
  shows "imap_row_ok (merge_imap_row old \<lparr>ic_uidvalidity = Some (uint (uv :: u32)),
    ic_last_uid = Some (uint (u :: u32)), ic_modseq = Some (i64_of_u64 m)\<rparr>)"
proof (cases old)
  case None
  then show ?thesis by (auto simp: merge_imap_row_def imap_row_ok_def)
next
  case (Some r)
  with assms obtain uv' u' m' where r: "r = \<lparr>ic_uidvalidity = Some (uint (uv' :: u32)),
      ic_last_uid = Some (uint (u' :: u32)), ic_modseq = Some (i64_of_u64 m')\<rparr>"
    by (auto simp: imap_row_ok_def)
  have "\<exists>w :: u32. max (uint u) (uint u') = uint w" by (auto simp: max_def)
  moreover have "\<exists>w. max (i64_of_u64 m) (i64_of_u64 m') = i64_of_u64 w" by (auto simp: max_def)
  ultimately show ?thesis using Some r by (auto simp: merge_imap_row_def imap_row_ok_def Let_def)
qed

text \<open>The IMAP cursor never goes backwards under one UIDVALIDITY: after an advance the folder
  resumes from the larger of the old and the new UID and modification sequence while UIDVALIDITY is
  the stored one, and from exactly the new values when it changed.\<close>

lemma imap_cursor_monotone:
  assumes "healthy d" and "imap_table_ok d"
    and "get_imap_cursor a f d = (ImapCursor uv u m, d)"
    and "advance_imap_cursor a f uv' u' m' d = (Returned (Inr ()), d')"
    and "m < 2 ^ 63" and "m' < 2 ^ 63"
  shows "get_imap_cursor a f d' =
    (if uv' = uv then ImapCursor uv (max u' u) (max m' m) else ImapCursor uv' u' m', d')"
proof -
  let ?new = "\<lparr>ic_uidvalidity = Some (uint uv'), ic_last_uid = Some (uint u'), ic_modseq = Some (i64_of_u64 m')\<rparr>"
  have d': "d' = d\<lparr>t_imap_cursor := (t_imap_cursor d)((a, f) := Some
      (merge_imap_row (t_imap_cursor d (a, f)) ?new))\<rparr>"
    using assms(1,4) by (simp add: advance_imap_cursor_def db_update_healthy)
  have "healthy d'" using assms(1) by (simp add: d' healthy_def)
  show ?thesis
  proof (cases "t_imap_cursor d (a, f)")
    case None
    with assms(1,3) have "uv = 0 \<and> u = 0 \<and> m = 0"
      by (simp add: get_imap_cursor_def db_query_healthy initial_imap_def)
    then show ?thesis using \<open>healthy d'\<close> None
      by (simp add: get_imap_cursor_def db_query_healthy d' merge_imap_row_def max_def)
  next
    case (Some r)
    with assms(2) have "imap_row_ok r" unfolding imap_table_ok_def by blast
    then obtain uv0 u0 m0 where r: "r = \<lparr>ic_uidvalidity = Some (uint (uv0 :: u32)),
        ic_last_uid = Some (uint (u0 :: u32)), ic_modseq = Some (i64_of_u64 m0)\<rparr>"
      unfolding imap_row_ok_def by blast
    with assms(1,3) Some have eq: "uv0 = uv" "u0 = u" "m0 = m"
      by (simp_all add: get_imap_cursor_def db_query_healthy)
    show ?thesis using \<open>healthy d'\<close> Some r eq assms(5,6)
      by (simp add: get_imap_cursor_def db_query_healthy d' merge_imap_row_def Let_def u32_max u64_max
          word_uint_eq_iff [symmetric])
  qed
qed

lemma imap_cursor_monotone_witness:
  "\<exists>d'. advance_imap_cursor ''a'' ''INBOX'' 0 7 9 empty_db = (Returned (Inr ()), d') \<and>
     get_imap_cursor ''a'' ''INBOX'' d' = (ImapCursor 0 7 9, d')"
proof -
  have h: "healthy empty_db" by (simp add: healthy_def empty_db_def)
  have "get_imap_cursor ''a'' ''INBOX'' empty_db = (ImapCursor 0 0 0, empty_db)"
    using h by (simp add: get_imap_cursor_def db_query_healthy empty_db_def initial_imap_def)
  moreover have "imap_table_ok empty_db" by (simp add: imap_table_ok_def empty_db_def)
  moreover obtain d' where "advance_imap_cursor ''a'' ''INBOX'' 0 7 9 empty_db = (Returned (Inr ()), d')"
    using h by (simp add: advance_imap_cursor_def db_update_healthy)
  ultimately show ?thesis
    using imap_cursor_monotone [OF h, of "''a''" "''INBOX''" 0 0 0 0 7 9 d'] by (simp add: max_def)
qed

text \<open>The state that the previous theorem starts from is kept: every advance leaves rows of the
  columns' widths, without NULL.\<close>

lemma advance_imap_table_ok [invariant_intros]:
  "imap_table_ok d \<Longrightarrow> advance_imap_cursor a f uv u m d = (r, d') \<Longrightarrow> imap_table_ok d'"
proof -
  assume ok: "imap_table_ok d" and adv: "advance_imap_cursor a f uv u m d = (r, d')"
  have "pred_option imap_row_ok (t_imap_cursor d k)" for k
    using ok unfolding imap_table_ok_def by (cases "t_imap_cursor d k") (simp, fastforce)
  from merge_imap_row_ok [OF this] adv ok show "imap_table_ok d'"
    by (auto simp: advance_imap_cursor_def db_update_def db_stmt_def imap_table_ok_def
        split: list.splits option.splits if_splits)
qed

text \<open>An EAS cursor is overwritten, never merged: what the next round loads is the collection and
  the sync key of the last advance.\<close>

lemma eas_cursor_roundtrip:
  assumes "healthy d" and "advance_eas_cursor a f cid key d = (Returned (Inr ()), d')"
  shows "get_eas_cursor a f d' = (EasCursor cid key, d')"
  using assms by (auto simp: advance_eas_cursor_def db_update_healthy get_eas_cursor_def
      db_query_healthy healthy_def)

lemma eas_cursor_roundtrip_witness:
  "\<exists>d'. advance_eas_cursor ''a'' ''5'' ''5'' ''k1'' empty_db = (Returned (Inr ()), d') \<and>
     get_eas_cursor ''a'' ''5'' d' = (EasCursor ''5'' ''k1'', d')"
proof -
  have h: "healthy empty_db" by (simp add: healthy_def empty_db_def)
  then obtain d' where "advance_eas_cursor ''a'' ''5'' ''5'' ''k1'' empty_db = (Returned (Inr ()), d')"
    by (simp add: advance_eas_cursor_def db_update_healthy)
  with eas_cursor_roundtrip [OF h this] show ?thesis by blast
qed

lemma rate_limit_window_witness:
  "\<exists>d1. set_rate_limit ''a'' 1500 empty_db = (Returned (Inr ()), d1) \<and> fst (is_rate_limited ''a'' d1)"
proof -
  have h: "healthy empty_db" by (simp add: healthy_def empty_db_def)
  then obtain d1 where "set_rate_limit ''a'' 1500 empty_db = (Returned (Inr ()), d1)"
    by (simp add: set_rate_limit_def db_update_healthy)
  with rate_limit_window [OF h this] show ?thesis by (simp add: empty_db_def)
qed

end
