(* ===== verification/Crypto_Types.thy ===== *)
theory Crypto_Types
  imports Rust_Std
begin

text \<open>
  The vocabulary of the cryptographic part (\<open>kylins.client.crypto/core/src/\<close>): standards, key handles,
  trust, policies, envelopes, verification results and the keys a key store holds.
\<close>

type_synonym i64 = "64 word"

section \<open>Errors\<close>

datatype crypto_error =
    BackendError string
  | PolicyError string
  | KeyNotFound string
  | UnsupportedStandard string
  | MalformedInput string
  | NotImplemented string

fun crypto_error_display :: "crypto_error \<Rightarrow> string" where
  "crypto_error_display (BackendError e) = ''crypto backend error: '' @ e"
| "crypto_error_display (PolicyError e) = ''policy rejected algorithm: '' @ e"
| "crypto_error_display (KeyNotFound e) = ''key not found: '' @ e"
| "crypto_error_display (UnsupportedStandard e) = ''unsupported standard: '' @ e"
| "crypto_error_display (MalformedInput e) = ''malformed input: '' @ e"
| "crypto_error_display (NotImplemented e) = ''not implemented: '' @ e"

section \<open>Standards and keys\<close>

datatype standard = OpenPgp | Smime | Sm

fun standard_as_str :: "standard \<Rightarrow> string" where
  "standard_as_str OpenPgp = ''openpgp''"
| "standard_as_str Smime = ''smime''"
| "standard_as_str Sm = ''sm''"

definition standard_from_str :: "string \<Rightarrow> crypto_error + standard" where
  "standard_from_str s =
     (if s = ''openpgp'' then Inr OpenPgp
      else if s = ''smime'' then Inr Smime
      else if s = ''sm'' then Inr Sm
      else Inl (UnsupportedStandard s))"

lemma standard_from_as_str [simp]: "standard_from_str (standard_as_str s) = Inr s"
  by (cases s) (simp_all add: standard_from_str_def)

lemma standard_from_str_Inr: "standard_from_str t = Inr s \<longleftrightarrow> t = standard_as_str s"
  by (cases s) (auto simp: standard_from_str_def)

datatype key_usage = UsageSign | UsageEncrypt | SignAndEncrypt

text \<open>A software key is named by its \<open>KeyId\<close>, a key on a token by the token's serial and its key id.\<close>

datatype key_handle = Software string | Token string string

record key_handle_ref =
  kr_handle :: key_handle
  kr_standard :: standard
  kr_fingerprint :: string
  kr_usage :: key_usage
  kr_algorithm :: string

definition fingerprint_new :: "string \<Rightarrow> string" where
  "fingerprint_new v = to_ascii_lowercase v"

text \<open>\<open>format!("{:?}")\<close> of a string: the characters that have an escape are escaped, all others are taken to be
  printable.\<close>

definition debug_char :: "char \<Rightarrow> string" where
  "debug_char c =
     (if c = CHR 0x22 then [CHR 0x5C, c] else if c = CHR 0x5C then [c, c]
      else if c = CHR 0x0A then [CHR 0x5C, CHR ''n''] else if c = CHR 0x0D then [CHR 0x5C, CHR ''r'']
      else if c = CHR 0x09 then [CHR 0x5C, CHR ''t''] else if c = CHR 0x00 then [CHR 0x5C, CHR ''0''] else [c])"

definition debug_str :: "string \<Rightarrow> string" where
  "debug_str s = [CHR 0x22] @ concat (map debug_char s) @ [CHR 0x22]"

fun debug_handle :: "key_handle \<Rightarrow> string" where
  "debug_handle (Software i) = ''Software(KeyId('' @ debug_str i @ ''))''"
| "debug_handle (Token s i) = ''Token { token_serial: '' @ debug_str s @ '', key_id: TokenKeyId('' @ debug_str i @ '') }''"

section \<open>Trust\<close>

datatype trust_state = Rejected | Undecided | Unverified | Verified | Personal

definition may_encrypt_to :: "trust_state \<Rightarrow> bool" where
  "may_encrypt_to t \<longleftrightarrow> t = Verified \<or> t = Personal"

section \<open>Policies\<close>

datatype hash_algorithm = Sha256 | Sha384 | Sha512 | Sha3_256 | Sm3
datatype symmetric_algorithm = Aes128 | Aes256 | Aes128Gcm | Aes256Gcm | Sm4Cbc | Sm4Gcm
datatype aead_algorithm = Ocb | Eax | Gcm
datatype pk_algorithm = Ed25519 | X25519 | EcdsaP256 | EcdsaP384 | Rsa3072Plus | Sm2

record dos_limits =
  dos_max_message_size :: u64
  dos_max_s2k_trials :: u32

record crypto_policy =
  cp_allowed_hashes :: "hash_algorithm list"
  cp_allowed_symmetric :: "symmetric_algorithm list"
  cp_allowed_aead :: "aead_algorithm list"
  cp_allowed_pk :: "pk_algorithm list"
  cp_rejected_hashes :: "hash_algorithm list"
  cp_rejected_symmetric :: "symmetric_algorithm list"
  cp_rejected_pk :: "pk_algorithm list"
  cp_min_rsa_bits :: u32
  cp_dos :: dos_limits

definition default_baseline :: crypto_policy where
  "default_baseline = \<lparr>cp_allowed_hashes = [Sha256, Sha384, Sha512, Sm3],
     cp_allowed_symmetric = [Aes256Gcm, Aes128Gcm, Aes256, Aes128, Sm4Gcm, Sm4Cbc],
     cp_allowed_aead = [Gcm, Ocb, Eax],
     cp_allowed_pk = [Ed25519, X25519, EcdsaP256, EcdsaP384, Rsa3072Plus, Sm2],
     cp_rejected_hashes = [], cp_rejected_symmetric = [], cp_rejected_pk = [],
     cp_min_rsa_bits = 3072,
     cp_dos = \<lparr>dos_max_message_size = 50 * 1024 * 1024, dos_max_s2k_trials = 5\<rparr>\<rparr>"

definition is_hash_allowed :: "crypto_policy \<Rightarrow> hash_algorithm \<Rightarrow> bool" where
  "is_hash_allowed p a \<longleftrightarrow> a \<in> set (cp_allowed_hashes p) \<and> a \<notin> set (cp_rejected_hashes p)"

definition is_symmetric_allowed :: "crypto_policy \<Rightarrow> symmetric_algorithm \<Rightarrow> bool" where
  "is_symmetric_allowed p a \<longleftrightarrow> a \<in> set (cp_allowed_symmetric p) \<and> a \<notin> set (cp_rejected_symmetric p)"

definition is_pk_allowed :: "crypto_policy \<Rightarrow> pk_algorithm \<Rightarrow> bool" where
  "is_pk_allowed p a \<longleftrightarrow> a \<in> set (cp_allowed_pk p) \<and> a \<notin> set (cp_rejected_pk p)"

section \<open>Envelopes\<close>

datatype part_kind = PartBody | PartAttachment string string "string option"

record crypto_part =
  pt_id :: string
  pt_kind :: part_kind
  pt_data :: "u8 list"

record detached_signature =
  ds_standard :: standard
  ds_signer :: key_handle_ref
  ds_signature :: "u8 list"

record encrypted_part =
  ep_id :: string
  ep_kind :: part_kind
  ep_ciphertext :: "u8 list"
  ep_signature :: "detached_signature option"

datatype serialization_strategy = SplitPerPart | SingleMimeBlob

record key_packet_ref =
  kp_recipient :: key_handle_ref
  kp_packet :: "u8 list"

record encrypted_envelope =
  ee_standard :: standard
  ee_serialization :: serialization_strategy
  ee_parts :: "encrypted_part list"
  ee_recipients :: "key_packet_ref list"

record signed_envelope =
  se_standard :: standard
  se_payload :: "u8 list"
  se_signature :: detached_signature

record decrypted_payload =
  dp_standard :: standard
  dp_parts :: "crypto_part list"

datatype signature_state = NotSigned | ValidVerified | ValidUnverified | Invalid | UnknownKey | Mismatch

record verification_result =
  vr_state :: signature_state
  vr_signer :: "key_handle_ref option"
  vr_failure_reason :: "string option"
  vr_revocation_reason :: "string option"

section \<open>Operations of a backend and of a key store\<close>

record encrypt_op =
  eo_parts :: "crypto_part list"
  eo_serialization :: serialization_strategy
  eo_recipients :: "key_handle_ref list"
  eo_sign_with :: "key_handle_ref option"

record decrypt_op =
  do_envelope :: encrypted_envelope
  do_decryption_key :: key_handle_ref

record sign_op =
  so_payload :: "u8 list"
  so_signing_key :: key_handle_ref
  so_detached :: bool

record key_gen_params =
  kg_standard :: standard
  kg_user_id :: string
  kg_algorithm :: string
  kg_passphrase :: "string option"

text \<open>A key with its public data and, unless it is public only, its private data. Zeroing the memory of secrets
  when they are dropped has no counterpart in the model.\<close>

record stored_key =
  sk_handle :: key_handle_ref
  sk_public_data :: "u8 list"
  sk_private_data :: "u8 list option"

text \<open>The trait \<open>KeyStore\<close> and the trait \<open>CryptoBackend\<close>, over the state that their implementations change.\<close>

record 's key_store =
  ks_put :: "stored_key \<Rightarrow> ('s, crypto_error, key_handle_ref) io"
  ks_get :: "key_handle \<Rightarrow> ('s, crypto_error, stored_key option) io"
  ks_find_by_email :: "standard \<Rightarrow> string \<Rightarrow> ('s, crypto_error, key_handle_ref list) io"
  ks_remove :: "key_handle \<Rightarrow> ('s, crypto_error, unit) io"

record 's crypto_backend =
  cb_standard :: standard
  cb_policy :: crypto_policy
  cb_encrypt :: "encrypt_op \<Rightarrow> ('s, crypto_error, encrypted_envelope) io"
  cb_decrypt :: "decrypt_op \<Rightarrow> ('s, crypto_error, decrypted_payload) io"
  cb_sign :: "sign_op \<Rightarrow> ('s, crypto_error, signed_envelope) io"
  cb_verify :: "signed_envelope \<Rightarrow> ('s, crypto_error, verification_result) io"
  cb_generate_key :: "key_gen_params \<Rightarrow> ('s, crypto_error, key_handle_ref) io"
  cb_import_key :: "u8 list \<Rightarrow> string option \<Rightarrow> ('s, crypto_error, key_handle_ref) io"
  cb_export_public :: "key_handle \<Rightarrow> ('s, crypto_error, u8 list) io"

end
