(* ===== verification/Mutations.thy ===== *)
theory Mutations
  imports Queue Crypto_Types
begin

text \<open>
  \<open>db/mutations.rs\<close> (with the draft types of \<open>mail/builder.rs\<close>): the five mutations of a mailbox,
  their optimistic local write, the row each leaves in the queue, the way back from a row to an
  operation, and its execution on the server. The derived serde code of \<open>SendDraft\<close> is a pair of
  parameters.
\<close>

section \<open>Drafts\<close>

record address_spec =
  as_name :: "string option"
  as_email :: string

record attachment_ref =
  ar_file_path :: string
  ar_filename :: string
  ar_mime_type :: string
  ar_cid :: "string option"

datatype crypto_method = MethodNone | MethodSmime | MethodOpenpgp

definition crypto_method_as_db_str :: "crypto_method \<Rightarrow> string" where
  "crypto_method_as_db_str m =
     (case m of MethodNone \<Rightarrow> ''none'' | MethodSmime \<Rightarrow> ''smime'' | MethodOpenpgp \<Rightarrow> ''openpgp'')"

definition crypto_method_from_db_str :: "string \<Rightarrow> crypto_method" where
  "crypto_method_from_db_str s =
     (if s = ''smime'' then MethodSmime else if s = ''openpgp'' then MethodOpenpgp else MethodNone)"

definition crypto_method_standard :: "crypto_method \<Rightarrow> standard option" where
  "crypto_method_standard m =
     (case m of MethodNone \<Rightarrow> None | MethodSmime \<Rightarrow> Some Smime | MethodOpenpgp \<Rightarrow> Some OpenPgp)"

record send_draft =
  dr_draft_id :: string
  dr_from :: address_spec
  dr_to :: "address_spec list"
  dr_cc :: "address_spec list"
  dr_bcc :: "address_spec list"
  dr_reply_to :: "address_spec list"
  dr_subject :: string
  dr_html_body :: "string option"
  dr_text_body :: "string option"
  dr_in_reply_to :: "string option"
  dr_references :: "string list"
  dr_attachments :: "attachment_ref list"
  dr_inline_images :: "attachment_ref list"
  dr_extra_headers :: "(string \<times> string) list"
  dr_crypto_method :: crypto_method
  dr_sign :: bool
  dr_encrypt :: bool

section \<open>Operations\<close>

datatype mutation_op =
    MarkRead (mo_thread_id: string) (mo_message_ids: "string list") (mo_folder_path: string)
      (mo_uids: "u32 list") (mo_read: bool)
  | SetFlag (mo_message_ids: "string list") (mo_folder_path: string) (mo_uids: "u32 list")
      (mo_flag: string) (mo_add: bool)
  | Move (mo_message_ids: "string list") (mo_src_label: string) (mo_dst_label: string)
      (mo_src_folder_path: string) (mo_dst_folder_path: string) (mo_uids: "u32 list")
  | Delete (mo_message_ids: "string list") (mo_folder_path: string) (mo_uids: "u32 list")
  | Send (mo_draft: send_draft)

definition FLAGGED :: string where
  "FLAGGED = CHR 0x5C # ''Flagged''"

definition SEEN :: string where
  "SEEN = CHR 0x5C # ''Seen''"

definition first_uid :: "json \<Rightarrow> u32" where
  "first_uid v =
     word_of_int (opt_or 0
       (Option.bind (Option.bind (json_get v ''uids'') as_array)
         (\<lambda>a. case a of [] \<Rightarrow> None | x # _ \<Rightarrow> as_u64 x)))"

definition str_field :: "json \<Rightarrow> string \<Rightarrow> string \<Rightarrow> string" where
  "str_field v k dflt = opt_or dflt (Option.bind (json_get v k) as_str)"

definition from_json :: "(json \<Rightarrow> string + send_draft) \<Rightarrow> string \<Rightarrow> string \<Rightarrow> json \<Rightarrow> string + mutation_op" where
  "from_json decode_draft ty rid v =
     (let uid = first_uid v; folder = str_field v ''folderPath'' []
      in if ty = ''markRead''
         then Inr (MarkRead rid [rid] folder [uid]
                (opt_or 0 (Option.bind (json_get v ''read'') as_i64) = 1))
         else if ty = ''setFlag''
         then Inr (SetFlag [rid] folder [uid] (str_field v ''flag'' FLAGGED)
                (opt_or True (Option.bind (json_get v ''add'') as_bool)))
         else if ty = ''move''
         then Inr (Move [rid] [] (str_field v ''dstLabel'' []) (str_field v ''srcFolderPath'' [])
                (str_field v ''dstFolderPath'' []) [uid])
         else if ty = ''delete''
         then Inr (Delete [rid] folder [uid])
         else if ty = ''send''
         then (case json_get v ''draft'' of
                 None \<Rightarrow> Inl (''send op missing '' @ [CHR 0x27] @ ''draft'' @ [CHR 0x27] @ '' field'')
               | Some j \<Rightarrow>
                   (case decode_draft j of
                      Inl e \<Rightarrow> Inl (''decode draft: '' @ e)
                    | Inr draft \<Rightarrow> Inr (Send draft)))
         else Inl (''unknown op type '' @ ty))"

definition from_pending :: "(json \<Rightarrow> string + send_draft) \<Rightarrow> pending_operation \<Rightarrow> string + mutation_op" where
  "from_pending decode_draft row =
     (case pop_params row of
        NotJson e \<Rightarrow> Inl e
      | JsonText v \<Rightarrow> from_json decode_draft (pop_operation_type row) (pop_resource row) v)"

definition op_type :: "mutation_op \<Rightarrow> string" where
  "op_type op =
     (case op of
        MarkRead _ _ _ _ _ \<Rightarrow> ''markRead''
      | SetFlag _ _ _ _ _ \<Rightarrow> ''setFlag''
      | Move _ _ _ _ _ _ \<Rightarrow> ''move''
      | Delete _ _ _ \<Rightarrow> ''delete''
      | Send _ \<Rightarrow> ''send'')"

definition json_uids :: "u32 list \<Rightarrow> json" where
  "json_uids uids = JArr (map (\<lambda>u. JNum (uint u)) uids)"

definition encode_params :: "(send_draft \<Rightarrow> json) \<Rightarrow> mutation_op \<Rightarrow> json" where
  "encode_params encode_draft op =
     (case op of
        MarkRead _ _ folder_path uids read \<Rightarrow>
          JObj [(''folderPath'', JStr folder_path), (''read'', JNum (of_bool read)),
                (''uids'', json_uids uids)]
      | SetFlag _ folder_path uids flag add \<Rightarrow>
          JObj [(''folderPath'', JStr folder_path), (''flag'', JStr flag),
                (''read'', JNum (of_bool add)), (''add'', JBool add), (''uids'', json_uids uids)]
      | Move _ _ dst_label src_folder_path dst_folder_path uids \<Rightarrow>
          JObj [(''srcFolderPath'', JStr src_folder_path), (''dstFolderPath'', JStr dst_folder_path),
                (''dstLabel'', JStr dst_label), (''uids'', json_uids uids)]
      | Delete _ folder_path uids \<Rightarrow>
          JObj [(''folderPath'', JStr folder_path), (''uids'', json_uids uids)]
      | Send draft \<Rightarrow> JObj [(''draft'', encode_draft draft)])"

fun join_commas :: "string list \<Rightarrow> string" where
  "join_commas [] = []"
| "join_commas [s] = s"
| "join_commas (s # t # ss) = s @ '','' @ join_commas (t # ss)"

definition resource_id :: "mutation_op \<Rightarrow> string" where
  "resource_id op =
     (case op of
        MarkRead thread_id _ _ _ _ \<Rightarrow> thread_id
      | SetFlag message_ids _ _ _ _ \<Rightarrow> join_commas message_ids
      | Move message_ids _ _ _ _ _ \<Rightarrow> join_commas message_ids
      | Delete message_ids _ _ \<Rightarrow> join_commas message_ids
      | Send draft \<Rightarrow> ''send:'' @ dr_draft_id draft)"

section \<open>The optimistic local write\<close>

definition set_thread_read :: "string \<Rightarrow> string \<Rightarrow> int \<Rightarrow> db \<Rightarrow> db" where
  "set_thread_read acc tid v d = d\<lparr>t_threads := map (\<lambda>r.
     if th_account r = acc \<and> th_id r = tid then r\<lparr>th_is_read := v\<rparr> else r) (t_threads d)\<rparr>"

definition set_messages_read :: "string \<Rightarrow> string \<Rightarrow> int \<Rightarrow> db \<Rightarrow> db" where
  "set_messages_read acc tid v d = d\<lparr>t_messages := map (\<lambda>r.
     if ms_account r = acc \<and> ms_thread r = tid then r\<lparr>ms_is_read := v\<rparr> else r) (t_messages d)\<rparr>"

definition set_starred :: "string \<Rightarrow> string \<Rightarrow> int \<Rightarrow> db \<Rightarrow> db" where
  "set_starred acc mid v d = d\<lparr>t_messages := map (\<lambda>r.
     if ms_account r = acc \<and> ms_id r = mid then r\<lparr>ms_is_starred := v\<rparr> else r) (t_messages d)\<rparr>"

definition threads_of_message :: "string \<Rightarrow> string \<Rightarrow> db \<Rightarrow> string list" where
  "threads_of_message acc mid d =
     map ms_thread (filter (\<lambda>r. ms_account r = acc \<and> ms_id r = mid) (t_messages d))"

definition unlink_label :: "string \<Rightarrow> string \<Rightarrow> string \<Rightarrow> db \<Rightarrow> db" where
  "unlink_label acc label mid d = d\<lparr>t_thread_labels := filter (\<lambda>r.
     \<not> (tl_account r = acc \<and> tl_label r = label \<and> tl_thread r \<in> set (threads_of_message acc mid d)))
     (t_thread_labels d)\<rparr>"

definition link_label :: "string \<Rightarrow> string \<Rightarrow> string \<Rightarrow> db \<Rightarrow> db" where
  "link_label acc label mid d = d\<lparr>t_thread_labels := fold (\<lambda>tid rows.
     let r = \<lparr>tl_account = acc, tl_thread = tid, tl_label = label\<rparr>
     in if r \<in> set rows then rows else rows @ [r]) (threads_of_message acc mid d) (t_thread_labels d)\<rparr>"

definition delete_message :: "string \<Rightarrow> string \<Rightarrow> db \<Rightarrow> db" where
  "delete_message acc mid d = d\<lparr>t_messages := filter (\<lambda>r.
       \<not> (ms_account r = acc \<and> ms_id r = mid)) (t_messages d),
     t_bodies := filter (\<lambda>b. \<not> (mb_account b = acc \<and> mb_message b = mid)) (t_bodies d),
     t_attachments := filter (\<lambda>a. \<not> (at_account a = acc \<and> at_message a = mid)) (t_attachments d),
     t_crypto_results := filter (\<lambda>c. \<not> (cr_account c = acc \<and> cr_message c = mid)) (t_crypto_results d)\<rparr>"

text \<open>
  The sweep of threads without messages; the foreign key of \<open>thread_labels\<close> is ON DELETE CASCADE
  and enforced. (A deleted thread has no messages of that account, so the cascade on \<open>messages\<close>
  has nothing to delete.)
\<close>

definition orphan :: "string \<Rightarrow> db \<Rightarrow> string \<Rightarrow> bool" where
  "orphan acc d tid \<longleftrightarrow>
     tid \<notin> set (map ms_thread (filter (\<lambda>r. ms_account r = acc) (t_messages d)))"

definition sweep_orphans :: "string \<Rightarrow> db \<Rightarrow> db" where
  "sweep_orphans acc d =
     (let gone = set (map th_id (filter (\<lambda>r. th_account r = acc \<and> orphan acc d (th_id r)) (t_threads d)))
      in d\<lparr>t_threads := filter (\<lambda>r. \<not> (th_account r = acc \<and> th_id r \<in> gone)) (t_threads d),
           t_thread_labels := filter (\<lambda>r. \<not> (tl_account r = acc \<and> tl_thread r \<in> gone))
             (t_thread_labels d)\<rparr>)"

definition local_statements :: "string \<Rightarrow> mutation_op \<Rightarrow> string list db_io" where
  "local_statements acc op =
     (case op of
        MarkRead thread_id message_ids _ _ read \<Rightarrow>
          io_bind (db_update (set_thread_read acc thread_id (of_bool read))) (\<lambda>_.
          io_bind (db_update (set_messages_read acc thread_id (of_bool read))) (\<lambda>_.
          io_ret message_ids))
      | SetFlag message_ids _ _ flag add \<Rightarrow>
          (let v = of_bool (flag = FLAGGED \<and> add)
           in io_bind (io_each (\<lambda>mid. db_update (set_starred acc mid v)) message_ids) (\<lambda>_.
              io_ret message_ids))
      | Move message_ids src_label dst_label _ _ _ \<Rightarrow>
          io_bind (io_each (\<lambda>mid.
            io_bind (db_update (unlink_label acc src_label mid)) (\<lambda>_.
            db_update (link_label acc dst_label mid))) message_ids) (\<lambda>_.
          io_ret message_ids)
      | Delete message_ids _ _ \<Rightarrow>
          io_bind (io_each (\<lambda>mid. db_update (delete_message acc mid)) message_ids) (\<lambda>_.
          io_bind (db_update (sweep_orphans acc)) (\<lambda>_.
          io_ret message_ids))
      | Send _ \<Rightarrow> io_ret [])"

definition local_writes :: "string \<Rightarrow> mutation_op \<Rightarrow> string list db_io" where
  "local_writes acc op = db_transaction (local_statements acc op)"

section \<open>The remote side\<close>

definition folder_remote :: "string \<Rightarrow> remote_folder" where
  "folder_remote path = remote_folder_default
     \<lparr>rf_remote_id := path, rf_name := path, rf_delimiter := ''/''\<rparr>"

definition exec_via_source :: "'w mail_source \<Rightarrow> mutation_op \<Rightarrow> ('w, unit) source_call" where
  "exec_via_source src op =
     (case op of
        MarkRead _ _ folder_path uids read \<Rightarrow>
          src_set_flags src (folder_remote folder_path) uids SEEN read
      | SetFlag _ folder_path uids flag add \<Rightarrow>
          src_set_flags src (folder_remote folder_path) uids flag add
      | Move _ _ _ src_folder_path dst_folder_path uids \<Rightarrow>
          src_move_messages src (folder_remote src_folder_path) uids (folder_remote dst_folder_path)
      | Delete _ folder_path uids \<Rightarrow> src_delete_messages src (folder_remote folder_path) uids
      | Send _ \<Rightarrow>
          io_fail (Other ''Send is handled by run_replay_round, not exec_via_source''))"

section \<open>Applying a mutation\<close>

text \<open>
  \<open>apply_mutation_inner\<close> of \<open>sync_engine/commands.rs\<close>: the local write, then one queue row per
  affected message. \<open>uuids\<close> supplies the fresh UUIDs; the removal of cached attachment files and
  the nudge of the worker, both best effort, are left out.
\<close>

fun enqueue_all :: "(send_draft \<Rightarrow> json) \<Rightarrow> string \<Rightarrow> mutation_op \<Rightarrow> (string \<times> string) list \<Rightarrow> unit db_io" where
  "enqueue_all encode_draft acc op [] = io_ret ()"
| "enqueue_all encode_draft acc op ((uuid, rid) # rest) =
     io_bind (enqueue uuid acc (op_type op) rid (JsonText (encode_params encode_draft op))) (\<lambda>_.
     enqueue_all encode_draft acc op rest)"

definition apply_mutation :: "(send_draft \<Rightarrow> json) \<Rightarrow> (nat \<Rightarrow> string) \<Rightarrow> string \<Rightarrow> mutation_op \<Rightarrow> unit db_io" where
  "apply_mutation encode_draft uuids acc op =
     io_bind (local_writes acc op) (\<lambda>affected.
       let ids = (if affected = [] then [''send:'' @ uuids 0] else affected)
       in enqueue_all encode_draft acc op (zip (map (\<lambda>n. uuids (Suc n)) [0..<length ids]) ids))"

section \<open>Rows and operations\<close>

lemma u32_of_json: "word_of_int (uint u) = (u :: u32)"
  by simp

lemma first_uid_encoded:
  "first_uid (encode_params enc op) =
     (case op of Send _ \<Rightarrow> first_uid (encode_params enc op)
      | MarkRead _ _ _ us _ \<Rightarrow> (case us of [] \<Rightarrow> 0 | u # _ \<Rightarrow> u)
      | SetFlag _ _ us _ _ \<Rightarrow> (case us of [] \<Rightarrow> 0 | u # _ \<Rightarrow> u)
      | Move _ _ _ _ _ us \<Rightarrow> (case us of [] \<Rightarrow> 0 | u # _ \<Rightarrow> u)
      | Delete _ _ us \<Rightarrow> (case us of [] \<Rightarrow> 0 | u # _ \<Rightarrow> u))"
proof -
  have "uint (u :: u32) < 2 ^ 64" for u by (rule less_trans [OF uint_lt2p]) simp
  then show ?thesis
    by (auto simp: first_uid_def encode_params_def json_uids_def
        split: mutation_op.splits list.splits)
qed

text \<open>What is left of an operation when the row of one affected message is replayed.\<close>

definition first_or_zero :: "u32 list \<Rightarrow> u32" where
  "first_or_zero us = (case us of [] \<Rightarrow> 0 | u # _ \<Rightarrow> u)"

definition replay_form :: "string \<Rightarrow> mutation_op \<Rightarrow> mutation_op" where
  "replay_form rid op =
     (case op of
        MarkRead _ _ folder us read \<Rightarrow> MarkRead rid [rid] folder [first_or_zero us] read
      | SetFlag _ folder us flag add \<Rightarrow> SetFlag [rid] folder [first_or_zero us] flag add
      | Move _ _ dst src_path dst_path us \<Rightarrow> Move [rid] [] dst src_path dst_path [first_or_zero us]
      | Delete _ folder us \<Rightarrow> Delete [rid] folder [first_or_zero us]
      | Send draft \<Rightarrow> Send draft)"

definition op_uids :: "mutation_op \<Rightarrow> u32 list" where
  "op_uids op =
     (case op of
        MarkRead _ _ _ us _ \<Rightarrow> us | SetFlag _ _ us _ _ \<Rightarrow> us | Move _ _ _ _ _ us \<Rightarrow> us
      | Delete _ _ us \<Rightarrow> us | Send _ \<Rightarrow> [])"

lemma from_json_encoded:
  assumes "\<And>draft. dec (enc draft) = Inr draft"
  shows "from_json dec (op_type op) rid (encode_params enc op) = Inr (replay_form rid op)"
proof (cases op)
  case (Send draft)
  then show ?thesis
    by (simp add: from_json_def op_type_def encode_params_def replay_form_def assms Let_def)
next
  case (MarkRead t ms folder us read)
  then show ?thesis using first_uid_encoded [of enc op]
    by (simp add: from_json_def op_type_def replay_form_def first_or_zero_def Let_def)
      (simp add: encode_params_def str_field_def)
next
  case (SetFlag ms folder us flag add)
  then show ?thesis using first_uid_encoded [of enc op]
    by (simp add: from_json_def op_type_def replay_form_def first_or_zero_def Let_def)
      (simp add: encode_params_def str_field_def)
next
  case (Move ms src dst src_path dst_path us)
  then show ?thesis using first_uid_encoded [of enc op]
    by (simp add: from_json_def op_type_def replay_form_def first_or_zero_def Let_def)
      (simp add: encode_params_def str_field_def)
next
  case (Delete ms folder us)
  then show ?thesis using first_uid_encoded [of enc op]
    by (simp add: from_json_def op_type_def replay_form_def first_or_zero_def Let_def)
      (simp add: encode_params_def str_field_def)
qed

section \<open>The local write\<close>

text \<open>The effect of an operation on a database whose statements all succeed.\<close>

definition affected_ids :: "mutation_op \<Rightarrow> string list" where
  "affected_ids op =
     (case op of MarkRead _ ms _ _ _ \<Rightarrow> ms | SetFlag ms _ _ _ _ \<Rightarrow> ms | Move ms _ _ _ _ _ \<Rightarrow> ms
      | Delete ms _ _ \<Rightarrow> ms | Send _ \<Rightarrow> [])"

definition local_effect :: "string \<Rightarrow> mutation_op \<Rightarrow> db \<Rightarrow> db" where
  "local_effect acc op d =
     (case op of
        MarkRead tid _ _ _ read \<Rightarrow> set_messages_read acc tid (of_bool read) (set_thread_read acc tid (of_bool read) d)
      | SetFlag ms _ _ flag add \<Rightarrow> fold (\<lambda>mid. set_starred acc mid (of_bool (flag = FLAGGED \<and> add))) ms d
      | Move ms src dst _ _ _ \<Rightarrow> fold (\<lambda>mid d. link_label acc dst mid (unlink_label acc src mid d)) ms d
      | Delete ms _ _ \<Rightarrow> sweep_orphans acc (fold (delete_message acc) ms d)
      | Send _ \<Rightarrow> d)"

lemma healthy_writes [simp]:
  "healthy (set_thread_read acc tid v d) = healthy d"
  "healthy (set_messages_read acc tid v d) = healthy d"
  "healthy (set_starred acc mid v d) = healthy d"
  "healthy (unlink_label acc l mid d) = healthy d"
  "healthy (link_label acc l mid d) = healthy d"
  "healthy (delete_message acc mid d) = healthy d"
  "healthy (sweep_orphans acc d) = healthy d"
  by (simp_all add: healthy_def set_thread_read_def set_messages_read_def set_starred_def unlink_label_def
      link_label_def delete_message_def sweep_orphans_def Let_def)

lemma queue_kept [simp]:
  "t_pending (set_thread_read acc tid v d) = t_pending d"
  "t_pending (set_messages_read acc tid v d) = t_pending d"
  "t_pending (set_starred acc mid v d) = t_pending d"
  "t_pending (unlink_label acc l mid d) = t_pending d"
  "t_pending (link_label acc l mid d) = t_pending d"
  "t_pending (delete_message acc mid d) = t_pending d"
  "t_pending (sweep_orphans acc d) = t_pending d"
  by (simp_all add: set_thread_read_def set_messages_read_def set_starred_def unlink_label_def
      link_label_def delete_message_def sweep_orphans_def Let_def)

lemma fold_keeps: "(\<And>x d. g (f x d) = g d) \<Longrightarrow> g (fold f xs d) = g d"
  by (induction xs arbitrary: d) simp_all

lemma local_effect_queue [simp]: "t_pending (local_effect acc op d) = t_pending d"
  by (cases op) (simp_all add: local_effect_def fold_keeps)

lemma local_effect_healthy [simp]: "healthy (local_effect acc op d) = healthy d"
  by (cases op) (simp_all add: local_effect_def fold_keeps)

lemma statements_effect:
  assumes d: "healthy d"
  shows "local_statements acc op d = (Returned (Inr (affected_ids op)), local_effect acc op d)"
proof (cases op)
  case (MarkRead t ms folder us read)
  with d show ?thesis
    by (simp add: local_statements_def io_bind_def db_update_healthy io_ret_def affected_ids_def local_effect_def)
next
  case (SetFlag ms folder us flag add)
  have "io_each (\<lambda>mid. db_update (set_starred acc mid v)) ms d
      = (Returned (Inr ()), fold (\<lambda>mid. set_starred acc mid v) ms d)" for v
    by (rule conjunct1 [OF io_each_healthy [OF d]]) (simp_all add: db_update_healthy)
  with SetFlag show ?thesis
    by (simp add: local_statements_def io_bind_def io_ret_def affected_ids_def local_effect_def)
next
  case (Move ms src dst sp dp us)
  have "io_each (\<lambda>mid. io_bind (db_update (unlink_label acc src mid)) (\<lambda>_. db_update (link_label acc dst mid))) ms d
      = (Returned (Inr ()), fold (\<lambda>mid d. link_label acc dst mid (unlink_label acc src mid d)) ms d)"
    by (rule conjunct1 [OF io_each_healthy [OF d]]) (simp_all add: io_bind_def db_update_healthy)
  with Move show ?thesis
    by (simp add: local_statements_def io_bind_def io_ret_def affected_ids_def local_effect_def)
next
  case (Delete ms folder us)
  have "io_each (\<lambda>mid. db_update (delete_message acc mid)) ms d
      = (Returned (Inr ()), fold (delete_message acc) ms d) \<and> healthy (fold (delete_message acc) ms d)"
    by (rule io_each_healthy [OF d]) (simp_all add: db_update_healthy)
  with Delete show ?thesis
    by (simp add: local_statements_def io_bind_def io_ret_def db_update_healthy affected_ids_def local_effect_def)
next
  case (Send draft)
  then show ?thesis by (simp add: local_statements_def io_ret_def affected_ids_def local_effect_def)
qed


definition blank_thread :: thread_content where
  "blank_thread = \<lparr>tc_subject = None, tc_snippet = None, tc_last_message_at = 0, tc_message_count = 1,
     tc_is_starred = 0, tc_is_important = 0, tc_has_attachments = 0, tc_from_name = None, tc_from_address = None,
     tc_is_encrypted = 0, tc_is_signed = 0\<rparr>"

definition blank_message :: message_content where
  "blank_message = \<lparr>mc_from_address = None, mc_from_name = None, mc_to_addresses = None, mc_cc_addresses = None,
     mc_bcc_addresses = None, mc_reply_to = None, mc_subject = None, mc_snippet = None, mc_date = 0,
     mc_body_text = None, mc_body_cached = 0, mc_raw_size = 0, mc_message_id_header = [], mc_in_reply_to = None,
     mc_references = None, mc_list_unsubscribe = None, mc_list_unsubscribe_post = None, mc_auth_results = None,
     mc_imap_uid = None, mc_imap_folder = None, mc_is_encrypted = 0, mc_is_signed = 0, mc_remote_email_id = None,
     mc_remote_thread_id = None\<rparr>"

definition mailbox_db :: db where
  "mailbox_db = empty_db
     \<lparr>t_threads := [\<lparr>th_account = ''a'', th_id = ''t1'', th_is_read = 0, th_content = blank_thread\<rparr>, \<lparr>th_account = ''a'', th_id = ''t2'', th_is_read = 1, th_content = blank_thread\<rparr>],
      t_messages := [\<lparr>ms_account = ''a'', ms_id = ''m1'', ms_thread = ''t1'', ms_is_read = 0, ms_is_starred = 1, ms_content = blank_message\<rparr>,
                     \<lparr>ms_account = ''a'', ms_id = ''m2'', ms_thread = ''t2'', ms_is_read = 1, ms_is_starred = 0, ms_content = blank_message\<rparr>],
      t_thread_labels := [\<lparr>tl_account = ''a'', tl_thread = ''t1'', tl_label = ''inbox''\<rparr>]\<rparr>"

lemma mailbox_db_healthy [simp]: "healthy mailbox_db" "healthy (mailbox_db\<lparr>t_pending := q\<rparr>)"
  by (simp_all add: mailbox_db_def empty_db_def healthy_def)


section \<open>Referential integrity\<close>

definition has_thread :: "db \<Rightarrow> string \<Rightarrow> string \<Rightarrow> bool" where
  "has_thread d acc tid \<longleftrightarrow> (acc, tid) \<in> set (map (\<lambda>r. (th_account r, th_id r)) (t_threads d))"

definition has_message :: "db \<Rightarrow> string \<Rightarrow> string \<Rightarrow> bool" where
  "has_message d acc mid \<longleftrightarrow> (acc, mid) \<in> set (map (\<lambda>r. (ms_account r, ms_id r)) (t_messages d))"

definition mailbox_ok :: "db \<Rightarrow> bool" where
  "mailbox_ok d \<longleftrightarrow>
     list_all (\<lambda>m. has_thread d (ms_account m) (ms_thread m)) (t_messages d) \<and>
     list_all (\<lambda>l. has_thread d (tl_account l) (tl_thread l)) (t_thread_labels d) \<and>
     list_all (\<lambda>b. has_message d (mb_account b) (mb_message b)) (t_bodies d) \<and>
     list_all (\<lambda>a. has_message d (at_account a) (at_message a)) (t_attachments d) \<and>
     list_all (\<lambda>c. has_message d (cr_account c) (cr_message c)) (t_crypto_results d)"

definition keeps_mailbox :: "'a db_io \<Rightarrow> bool" where
  "keeps_mailbox = io_keeps (\<lambda>d d'. mailbox_ok d \<longrightarrow> mailbox_ok d')"

lemma keeps_mailbox_bind [invariant_intros]:
  "keeps_mailbox m \<Longrightarrow> (\<And>x. keeps_mailbox (f x)) \<Longrightarrow> keeps_mailbox (io_bind m f)"
  unfolding keeps_mailbox_def by (rule io_keeps_bind) auto

lemma keeps_mailbox_ret [invariant_intros]: "keeps_mailbox (io_ret x)"
  by (simp add: keeps_mailbox_def io_keeps_ret)

lemma mailbox_ok_faults [simp]: "mailbox_ok (d\<lparr>db_faults := fs\<rparr>) = mailbox_ok d"
  by (simp add: mailbox_ok_def has_thread_def has_message_def)

lemma same_tables_mailbox: "same_tables d d' \<Longrightarrow> mailbox_ok d' = mailbox_ok d"
  unfolding same_tables_def by (metis mailbox_ok_faults)

lemma keeps_mailbox_update [invariant_intros]:
  "(\<And>d. mailbox_ok d \<Longrightarrow> mailbox_ok (u d)) \<Longrightarrow> keeps_mailbox (db_update u)"
  by (auto simp: keeps_mailbox_def io_keeps_def db_update_def db_stmt_def split: list.splits option.splits)

lemma keeps_mailbox_each [invariant_intros]: "(\<And>x. keeps_mailbox (f x)) \<Longrightarrow> keeps_mailbox (io_each f xs)"
  by (induction xs) (auto intro: invariant_intros)

lemma keeps_mailbox_transaction [invariant_intros]:
  assumes "keeps_mailbox m"
  shows "keeps_mailbox (db_transaction m)"
proof -
  have "keeps_mailbox (io_bind (db_update id) (\<lambda>_. io_bind m (\<lambda>x. io_bind (db_update id) (\<lambda>_. io_ret x))))"
    using assms by (intro invariant_intros) simp_all
  then show ?thesis
    by (auto simp: keeps_mailbox_def io_keeps_def db_transaction_def roll_back_def
        split: prod.splits panicky.splits sum.splits)
qed

lemma mailbox_ok_writes:
  assumes "mailbox_ok d"
  shows "mailbox_ok (set_thread_read acc tid v d)" "mailbox_ok (set_messages_read acc tid v d)"
    "mailbox_ok (set_starred acc mid v d)" "mailbox_ok (unlink_label acc l mid d)"
    "mailbox_ok (delete_message acc mid d)"
  using assms
  by (auto simp: mailbox_ok_def has_thread_def has_message_def list_all_iff set_thread_read_def set_messages_read_def
      set_starred_def unlink_label_def delete_message_def image_iff)

lemma set_link_fold:
  "set (fold (\<lambda>tid rows. let r = f tid in if r \<in> set rows then rows else rows @ [r]) ts rows)
     = f ` set ts \<union> set rows"
  by (induction ts arbitrary: rows) (auto simp: Let_def)

lemma mailbox_ok_link:
  assumes "mailbox_ok d"
  shows "mailbox_ok (link_label acc l mid d)"
  using assms unfolding mailbox_ok_def link_label_def list_all_iff
  by (auto simp: set_link_fold has_thread_def has_message_def threads_of_message_def)

lemma has_thread_sweep:
  "has_thread (sweep_orphans acc d) a t \<longleftrightarrow> has_thread d a t \<and> \<not> (a = acc \<and> orphan acc d t)"
  by (auto simp: sweep_orphans_def has_thread_def Let_def image_iff)

lemma sweep_labels:
  "l \<in> set (t_thread_labels (sweep_orphans acc d)) \<longleftrightarrow>
     l \<in> set (t_thread_labels d) \<and>
     \<not> (tl_account l = acc \<and> has_thread d acc (tl_thread l) \<and> orphan acc d (tl_thread l))"
  by (auto simp: sweep_orphans_def has_thread_def Let_def image_iff)

lemma sweep_messages [simp]: "t_messages (sweep_orphans acc d) = t_messages d"
  by (simp add: sweep_orphans_def Let_def)

lemma sweep_bodies [simp]:
  "t_bodies (sweep_orphans acc d) = t_bodies d" "t_attachments (sweep_orphans acc d) = t_attachments d"
  "t_crypto_results (sweep_orphans acc d) = t_crypto_results d" "has_message (sweep_orphans acc d) = has_message d"
  by (simp_all add: sweep_orphans_def has_message_def Let_def fun_eq_iff)

lemma orphan_message: "m \<in> set (t_messages d) \<Longrightarrow> ms_account m = acc \<Longrightarrow> \<not> orphan acc d (ms_thread m)"
  by (auto simp: orphan_def)

lemma mailbox_ok_sweep:
  assumes "mailbox_ok d"
  shows "mailbox_ok (sweep_orphans acc d)"
  using assms unfolding mailbox_ok_def list_all_iff
  by (auto simp: has_thread_sweep sweep_labels orphan_message)

text \<open>C25. Whatever statement fails, a mutation keeps the mailbox consistent: every message and every
  label link still points to a thread of its account, and every stored body to a message.\<close>

theorem mutations_keep_integrity:
  "mailbox_ok d \<longrightarrow> mailbox_ok (snd (local_writes acc op d))"
proof -
  have "keeps_mailbox (local_writes acc op)"
    by (cases op)
      (auto simp: local_writes_def local_statements_def Let_def mailbox_ok_writes mailbox_ok_link mailbox_ok_sweep
        intro!: invariant_intros)
  then show ?thesis by (simp add: keeps_mailbox_def io_keeps_def)
qed

lemma mutations_keep_integrity_witness:
  "mailbox_ok (snd (local_writes ''a'' (Delete [''m1''] ''INBOX'' [7]) mailbox_db))"
  using mutations_keep_integrity [of mailbox_db "''a''" "Delete [''m1''] ''INBOX'' [7]"]
  by (simp add: mailbox_ok_def mailbox_db_def empty_db_def has_thread_def)

section \<open>What the local writes do\<close>

lemma fold_delete_message:
  "fold (delete_message acc) ids d
     = d\<lparr>t_messages := filter (\<lambda>r. \<not> (ms_account r = acc \<and> ms_id r \<in> set ids)) (t_messages d),
         t_bodies := filter (\<lambda>b. \<not> (mb_account b = acc \<and> mb_message b \<in> set ids)) (t_bodies d),
         t_attachments := filter (\<lambda>a. \<not> (at_account a = acc \<and> at_message a \<in> set ids)) (t_attachments d),
         t_crypto_results := filter (\<lambda>c. \<not> (cr_account c = acc \<and> cr_message c \<in> set ids)) (t_crypto_results d)\<rparr>"
proof (induction ids arbitrary: d)
  case (Cons i ids)
  have step: "fold (delete_message acc) (i # ids) d = fold (delete_message acc) ids (delete_message acc i d)" by simp
  show ?case unfolding step Cons.IH
    by (cases d) (auto simp: delete_message_def intro!: filter_cong)
qed simp

lemma local_writes_result:
  "healthy d \<Longrightarrow> local_writes acc op d = (Returned (Inr (affected_ids op)), local_effect acc op d)"
  unfolding local_writes_def using statements_effect [of d acc op]
  by (intro db_transaction_healthy) simp_all

text \<open>Deleting messages removes exactly the rows with those ids in the account, and then exactly
  the threads of the account that no longer have a message, with their label links.\<close>

lemma delete_spec:
  assumes "healthy d"
  shows "\<exists>d'. local_writes acc (Delete ids folder us) d = (Returned (Inr ids), d') \<and>
    t_messages d' = filter (\<lambda>r. \<not> (ms_account r = acc \<and> ms_id r \<in> set ids)) (t_messages d) \<and>
    (\<forall>a t. has_thread d' a t \<longleftrightarrow> has_thread d a t \<and>
       (a = acc \<longrightarrow> (\<exists>m. m \<in> set (t_messages d') \<and> ms_account m = acc \<and> ms_thread m = t))) \<and>
    (mailbox_ok d \<longrightarrow> (\<forall>l. l \<in> set (t_thread_labels d') \<longleftrightarrow>
       l \<in> set (t_thread_labels d) \<and> has_thread d' (tl_account l) (tl_thread l)))"
proof -
  let ?del = "fold (delete_message acc) ids d"
  let ?d' = "sweep_orphans acc ?del"
  have run: "local_writes acc (Delete ids folder us) d = (Returned (Inr ids), ?d')"
    by (simp add: local_writes_result [OF assms] affected_ids_def local_effect_def)
  have threads: "has_thread ?del a t = has_thread d a t" for a t
    by (simp add: fold_delete_message has_thread_def)
  have orphans: "\<not> orphan acc ?del t \<longleftrightarrow> (\<exists>m. m \<in> set (t_messages ?del) \<and> ms_account m = acc \<and> ms_thread m = t)" for t
    by (auto simp: orphan_def)
  have labels: "t_thread_labels ?del = t_thread_labels d" by (simp add: fold_delete_message)
  show ?thesis
  proof (intro exI [of _ ?d'] conjI allI impI)
    show "l \<in> set (t_thread_labels ?d') \<longleftrightarrow>
        l \<in> set (t_thread_labels d) \<and> has_thread ?d' (tl_account l) (tl_thread l)" if "mailbox_ok d" for l
      using that by (auto simp: sweep_labels labels has_thread_sweep threads mailbox_ok_def list_all_iff)
    show "has_thread ?d' a t \<longleftrightarrow> has_thread d a t \<and>
       (a = acc \<longrightarrow> (\<exists>m. m \<in> set (t_messages ?d') \<and> ms_account m = acc \<and> ms_thread m = t))" for a t
      using orphans [of t] by (auto simp: has_thread_sweep threads)
  qed (simp_all add: run, simp add: fold_delete_message)
qed

lemma delete_spec_witness:
  "\<exists>d'. local_writes ''a'' (Delete [''m1''] ''INBOX'' [7]) mailbox_db = (Returned (Inr [''m1'']), d') \<and>
     \<not> has_thread d' ''a'' ''t1'' \<and> t_thread_labels d' = []"
proof -
  obtain d' where d': "local_writes ''a'' (Delete [''m1''] ''INBOX'' [7]) mailbox_db = (Returned (Inr [''m1'']), d')"
    and m: "t_messages d' = filter (\<lambda>r. \<not> (ms_account r = ''a'' \<and> ms_id r \<in> set [''m1''])) (t_messages mailbox_db)"
    and h: "\<forall>a t. has_thread d' a t \<longleftrightarrow> has_thread mailbox_db a t \<and>
       (a = ''a'' \<longrightarrow> (\<exists>m. m \<in> set (t_messages d') \<and> ms_account m = ''a'' \<and> ms_thread m = t))"
    and l: "mailbox_ok mailbox_db \<longrightarrow> (\<forall>l. l \<in> set (t_thread_labels d') \<longleftrightarrow>
       l \<in> set (t_thread_labels mailbox_db) \<and> has_thread d' (tl_account l) (tl_thread l))"
    using delete_spec [OF mailbox_db_healthy(1), of "''a''" "[''m1'']" "''INBOX''" "[7]"] by blast
  have "\<not> has_thread d' ''a'' ''t1''" using h m by (simp add: mailbox_db_def)
  moreover have "mailbox_ok mailbox_db" by (simp add: mailbox_ok_def mailbox_db_def empty_db_def has_thread_def)
  ultimately have "\<forall>l. l \<notin> set (t_thread_labels d')" using l by (auto simp: mailbox_db_def)
  then show ?thesis using d' \<open>\<not> has_thread d' ''a'' ''t1''\<close> by auto
qed

text \<open>A flag without a local column is not only encoded for the server, as the comment has it:
  setting it, \<open>\Answered\<close> for instance, clears the star of every message it is set on.\<close>

lemma set_flag_clears_star:
  assumes "healthy d" and "flag \<noteq> FLAGGED"
    and "m \<in> set (t_messages d)" and "ms_account m = acc" and "ms_id m \<in> set ids"
  shows "\<exists>d'. local_writes acc (SetFlag ids folder us flag True) d = (Returned (Inr ids), d') \<and>
    m\<lparr>ms_is_starred := 0\<rparr> \<in> set (t_messages d')"
proof -
  have unstar: "m\<lparr>ms_is_starred := 0\<rparr> \<in> set (t_messages (fold (\<lambda>mid. set_starred acc mid 0) ids d))"
    if "m\<lparr>ms_is_starred := 0\<rparr> \<in> set (t_messages d)" for ids d
    using that
  proof (induction ids arbitrary: d)
    case (Cons i ids)
    have "m\<lparr>ms_is_starred := 0\<rparr> \<in> set (t_messages (set_starred acc i 0 d))"
      using Cons.prems by (auto simp: set_starred_def image_iff intro: bexI [of _ "m\<lparr>ms_is_starred := 0\<rparr>"])
    then show ?case by (simp add: Cons.IH)
  qed simp
  have "m\<lparr>ms_is_starred := 0\<rparr> \<in> set (t_messages (fold (\<lambda>mid. set_starred acc mid 0) ids d))"
    using assms(3,5)
  proof (induction ids arbitrary: d)
    case (Cons i ids)
    show ?case
    proof (cases "ms_id m = i")
      case True
      then have "m\<lparr>ms_is_starred := 0\<rparr> \<in> set (t_messages (set_starred acc i 0 d))"
        using Cons.prems assms(4) by (auto simp: set_starred_def image_iff intro: bexI [of _ m])
      then show ?thesis by (simp add: unstar)
    next
      case False
      then have "m \<in> set (t_messages (set_starred acc i 0 d))"
        using Cons.prems by (auto simp: set_starred_def image_iff intro: bexI [of _ m])
      then show ?thesis using Cons False by simp
    qed
  qed simp
  then show ?thesis
    using assms(2) by (simp add: local_writes_result [OF assms(1)] affected_ids_def local_effect_def)
qed

lemma set_flag_clears_star_witness:
  "\<exists>d'. local_writes ''a'' (SetFlag [''m1''] ''INBOX'' [7] (CHR 0x5C # ''Answered'') True) mailbox_db
       = (Returned (Inr [''m1'']), d') \<and>
     \<lparr>ms_account = ''a'', ms_id = ''m1'', ms_thread = ''t1'', ms_is_read = 0, ms_is_starred = 0, ms_content = blank_message\<rparr> \<in> set (t_messages d')"
  using set_flag_clears_star [of mailbox_db "CHR 0x5C # ''Answered''"
      "\<lparr>ms_account = ''a'', ms_id = ''m1'', ms_thread = ''t1'', ms_is_read = 0, ms_is_starred = 1, ms_content = blank_message\<rparr>" "''a''" "[''m1'']" "''INBOX''" "[7]"]
  by (simp add: FLAGGED_def) (simp add: mailbox_db_def)

section \<open>Drafts as JSON\<close>

text \<open>
  The JSON that the derived \<open>Serialize\<close> and \<open>Deserialize\<close> of the draft types stand for, by their
  attributes: names in camel case, empty optional fields left out and defaulted when absent.
\<close>

definition entry :: "string \<Rightarrow> bool \<Rightarrow> json \<Rightarrow> (string \<times> json) list" where
  "entry k skip v = (if skip then [] else [(k, v)])"

lemma json_get_entry [simp]:
  "map_of (entry k skip v @ rest) k' = (if k = k' \<and> \<not> skip then Some v else map_of rest k')"
  "map_of (entry k skip v) k' = (if k = k' \<and> \<not> skip then Some v else None)"
  by (simp_all add: entry_def)

definition str_of_json :: "json \<Rightarrow> string + string" where
  "str_of_json j = (case j of JStr s \<Rightarrow> Inr s | _ \<Rightarrow> Inl ''invalid type: expected a string'')"

definition bool_of_json :: "json \<Rightarrow> string + bool" where
  "bool_of_json j = (case j of JBool b \<Rightarrow> Inr b | _ \<Rightarrow> Inl ''invalid type: expected a boolean'')"

definition option_of_json :: "(json \<Rightarrow> string + 'a) \<Rightarrow> json \<Rightarrow> string + 'a option" where
  "option_of_json f j = (case j of JNull \<Rightarrow> Inr None | _ \<Rightarrow> res_bind (f j) (\<lambda>x. Inr (Some x)))"

fun each_of_json :: "(json \<Rightarrow> string + 'a) \<Rightarrow> json list \<Rightarrow> string + 'a list" where
  "each_of_json f [] = Inr []"
| "each_of_json f (j # js) = res_bind (f j) (\<lambda>x. res_bind (each_of_json f js) (\<lambda>xs. Inr (x # xs)))"

definition vec_of_json :: "(json \<Rightarrow> string + 'a) \<Rightarrow> json \<Rightarrow> string + 'a list" where
  "vec_of_json f j = (case j of JArr js \<Rightarrow> each_of_json f js | _ \<Rightarrow> Inl ''invalid type: expected a sequence'')"

definition required :: "json \<Rightarrow> string \<Rightarrow> (json \<Rightarrow> string + 'a) \<Rightarrow> string + 'a" where
  "required j k f = (case json_get j k of None \<Rightarrow> Inl (''missing field `'' @ k @ ''`'') | Some v \<Rightarrow> f v)"

definition defaulted :: "'a \<Rightarrow> json \<Rightarrow> string \<Rightarrow> (json \<Rightarrow> string + 'a) \<Rightarrow> string + 'a" where
  "defaulted x j k f = (case json_get j k of None \<Rightarrow> Inr x | Some v \<Rightarrow> f v)"

definition opt_str_json :: "string option \<Rightarrow> json" where
  "opt_str_json x = (case x of None \<Rightarrow> JNull | Some s \<Rightarrow> JStr s)"

definition address_json :: "address_spec \<Rightarrow> json" where
  "address_json a = JObj (entry ''name'' (as_name a = None) (opt_str_json (as_name a))
     @ entry ''email'' False (JStr (as_email a)))"

definition address_of_json :: "json \<Rightarrow> string + address_spec" where
  "address_of_json j =
     res_bind (defaulted None j ''name'' (option_of_json str_of_json)) (\<lambda>name.
     res_bind (required j ''email'' str_of_json) (\<lambda>email.
     Inr \<lparr>as_name = name, as_email = email\<rparr>))"

definition attachment_json :: "attachment_ref \<Rightarrow> json" where
  "attachment_json a = JObj (entry ''filePath'' False (JStr (ar_file_path a))
     @ entry ''filename'' False (JStr (ar_filename a))
     @ entry ''mimeType'' False (JStr (ar_mime_type a))
     @ entry ''cid'' (ar_cid a = None) (opt_str_json (ar_cid a)))"

definition attachment_of_json :: "json \<Rightarrow> string + attachment_ref" where
  "attachment_of_json j =
     res_bind (required j ''filePath'' str_of_json) (\<lambda>file_path.
     res_bind (required j ''filename'' str_of_json) (\<lambda>filename.
     res_bind (required j ''mimeType'' str_of_json) (\<lambda>mime_type.
     res_bind (defaulted None j ''cid'' (option_of_json str_of_json)) (\<lambda>cid.
     Inr \<lparr>ar_file_path = file_path, ar_filename = filename, ar_mime_type = mime_type, ar_cid = cid\<rparr>))))"

definition method_json :: "crypto_method \<Rightarrow> json" where
  "method_json m = JStr (crypto_method_as_db_str m)"

definition method_of_json :: "json \<Rightarrow> string + crypto_method" where
  "method_of_json j =
     (if j = JStr ''none'' then Inr MethodNone else if j = JStr ''smime'' then Inr MethodSmime
      else if j = JStr ''openpgp'' then Inr MethodOpenpgp else Inl ''unknown variant'')"

definition header_json :: "string \<times> string \<Rightarrow> json" where
  "header_json h = JArr [JStr (fst h), JStr (snd h)]"

definition header_of_json :: "json \<Rightarrow> string + (string \<times> string)" where
  "header_of_json j =
     (case j of
        JArr [a, b] \<Rightarrow> res_bind (str_of_json a) (\<lambda>x. res_bind (str_of_json b) (\<lambda>y. Inr (x, y)))
      | _ \<Rightarrow> Inl ''invalid length: expected a tuple of size 2'')"

definition vec_json :: "('a \<Rightarrow> json) \<Rightarrow> 'a list \<Rightarrow> json" where
  "vec_json f xs = JArr (map f xs)"

definition draft_json :: "send_draft \<Rightarrow> json" where
  "draft_json d = JObj (
     entry ''draftId'' False (JStr (dr_draft_id d))
     @ entry ''from'' False (address_json (dr_from d))
     @ entry ''to'' False (vec_json address_json (dr_to d))
     @ entry ''cc'' (dr_cc d = []) (vec_json address_json (dr_cc d))
     @ entry ''bcc'' (dr_bcc d = []) (vec_json address_json (dr_bcc d))
     @ entry ''replyTo'' (dr_reply_to d = []) (vec_json address_json (dr_reply_to d))
     @ entry ''subject'' False (JStr (dr_subject d))
     @ entry ''htmlBody'' (dr_html_body d = None) (opt_str_json (dr_html_body d))
     @ entry ''textBody'' (dr_text_body d = None) (opt_str_json (dr_text_body d))
     @ entry ''inReplyTo'' (dr_in_reply_to d = None) (opt_str_json (dr_in_reply_to d))
     @ entry ''references'' (dr_references d = []) (vec_json JStr (dr_references d))
     @ entry ''attachments'' (dr_attachments d = []) (vec_json attachment_json (dr_attachments d))
     @ entry ''inlineImages'' (dr_inline_images d = []) (vec_json attachment_json (dr_inline_images d))
     @ entry ''extraHeaders'' (dr_extra_headers d = []) (vec_json header_json (dr_extra_headers d))
     @ entry ''cryptoMethod'' False (method_json (dr_crypto_method d))
     @ entry ''sign'' False (JBool (dr_sign d))
     @ entry ''encrypt'' False (JBool (dr_encrypt d)))"

definition draft_of_json :: "json \<Rightarrow> string + send_draft" where
  "draft_of_json j =
     res_bind (required j ''draftId'' str_of_json) (\<lambda>draft_id.
     res_bind (required j ''from'' address_of_json) (\<lambda>from.
     res_bind (required j ''to'' (vec_of_json address_of_json)) (\<lambda>to.
     res_bind (defaulted [] j ''cc'' (vec_of_json address_of_json)) (\<lambda>cc.
     res_bind (defaulted [] j ''bcc'' (vec_of_json address_of_json)) (\<lambda>bcc.
     res_bind (defaulted [] j ''replyTo'' (vec_of_json address_of_json)) (\<lambda>reply_to.
     res_bind (required j ''subject'' str_of_json) (\<lambda>subject.
     res_bind (defaulted None j ''htmlBody'' (option_of_json str_of_json)) (\<lambda>html_body.
     res_bind (defaulted None j ''textBody'' (option_of_json str_of_json)) (\<lambda>text_body.
     res_bind (defaulted None j ''inReplyTo'' (option_of_json str_of_json)) (\<lambda>in_reply_to.
     res_bind (defaulted [] j ''references'' (vec_of_json str_of_json)) (\<lambda>references.
     res_bind (defaulted [] j ''attachments'' (vec_of_json attachment_of_json)) (\<lambda>attachments.
     res_bind (defaulted [] j ''inlineImages'' (vec_of_json attachment_of_json)) (\<lambda>inline_images.
     res_bind (defaulted [] j ''extraHeaders'' (vec_of_json header_of_json)) (\<lambda>extra_headers.
     res_bind (defaulted MethodNone j ''cryptoMethod'' method_of_json) (\<lambda>crypto_method.
     res_bind (defaulted False j ''sign'' bool_of_json) (\<lambda>sign.
     res_bind (defaulted False j ''encrypt'' bool_of_json) (\<lambda>encrypt.
     Inr \<lparr>dr_draft_id = draft_id, dr_from = from, dr_to = to, dr_cc = cc, dr_bcc = bcc, dr_reply_to = reply_to,
       dr_subject = subject, dr_html_body = html_body, dr_text_body = text_body, dr_in_reply_to = in_reply_to,
       dr_references = references, dr_attachments = attachments, dr_inline_images = inline_images,
       dr_extra_headers = extra_headers, dr_crypto_method = crypto_method, dr_sign = sign,
       dr_encrypt = encrypt\<rparr>)))))))))))))))))"

lemma vec_json_back: "(\<And>x. g (f x) = Inr x) \<Longrightarrow> vec_of_json g (vec_json f xs) = Inr xs"
  unfolding vec_of_json_def vec_json_def by simp (induction xs; simp)

lemma str_json_back: "str_of_json (JStr s) = Inr s"
  by (simp add: str_of_json_def)

lemma bool_json_back: "bool_of_json (JBool b) = Inr b"
  by (simp add: bool_of_json_def)

lemma opt_str_json_back: "option_of_json str_of_json (opt_str_json x) = Inr x"
  by (cases x) (simp_all add: option_of_json_def opt_str_json_def str_of_json_def)

lemma method_json_back: "method_of_json (method_json m) = Inr m"
  by (cases m) (simp_all add: method_of_json_def method_json_def crypto_method_as_db_str_def)

lemma header_json_back: "header_of_json (header_json h) = Inr h"
  by (simp add: header_of_json_def header_json_def str_of_json_def)

lemma address_json_back: "address_of_json (address_json a) = Inr a"
  by (simp add: address_of_json_def address_json_def defaulted_def required_def str_json_back opt_str_json_back
      del: map_of_append)

lemma attachment_json_back: "attachment_of_json (attachment_json a) = Inr a"
  by (simp add: attachment_of_json_def attachment_json_def defaulted_def required_def str_json_back
      opt_str_json_back del: map_of_append)

lemmas json_back = str_json_back bool_json_back opt_str_json_back method_json_back
  address_json_back attachment_json_back header_json_back
  vec_json_back [OF str_json_back] vec_json_back [OF address_json_back]
  vec_json_back [OF attachment_json_back] vec_json_back [OF header_json_back]

lemma skipped_list:
  "(case (if xs \<noteq> [] then Some v else None) of None \<Rightarrow> Inr [] | Some w \<Rightarrow> f w) = (if xs = [] then Inr [] else f v)"
  "(if xs = [] then Inr [] else Inr xs) = Inr xs"
  by simp_all

lemma skipped_option:
  "(case (if \<exists>y. z = Some y then Some v else None) of None \<Rightarrow> Inr None | Some w \<Rightarrow> f w)
     = (if z = None then Inr None else f v)"
  "(if z = None then Inr None else Inr z) = Inr z"
  by (cases z; simp)+

lemma draft_codec: "draft_of_json (draft_json d) = Inr d"
  by (simp add: draft_of_json_def draft_json_def defaulted_def required_def json_back skipped_list skipped_option
      del: map_of_append split del: if_split cong: if_cong)

text \<open>A draft survives the queue: reading the JSON that a draft was written as gives the same
  draft, fields left out because they are empty included.\<close>

lemma draft_json_roundtrip:
  "draft_of_json (draft_json d) = Inr d"
  by (rule draft_codec)

section \<open>From a mutation to its queue rows\<close>

definition mutation_rows :: "(send_draft \<Rightarrow> json) \<Rightarrow> string \<Rightarrow> mutation_op \<Rightarrow> int \<Rightarrow> (string \<times> string) list \<Rightarrow> pending_row list" where
  "mutation_rows enc acc op now ids =
     map (\<lambda>(uuid, rid). new_row uuid acc (op_type op) rid (JsonText (encode_params enc op)) now) ids"

lemma enqueue_all_healthy:
  assumes "healthy d" and "distinct (map po_id (t_pending d) @ map fst ids)"
  shows "enqueue_all enc acc op ids d =
    (Returned (Inr ()), d\<lparr>t_pending := t_pending d @ mutation_rows enc acc op (db_now d) ids\<rparr>)"
  using assms
proof (induction ids arbitrary: d)
  case Nil
  then show ?case by (simp add: mutation_rows_def io_ret_def)
next
  case (Cons p ids)
  obtain uuid rid where p: "p = (uuid, rid)" by (cases p)
  define d1 where "d1 = d\<lparr>t_pending := t_pending d
    @ [new_row uuid acc (op_type op) rid (JsonText (encode_params enc op)) (db_now d)]\<rparr>"
  have fresh: "uuid \<notin> po_id ` set (t_pending d)" using Cons.prems(2) by (auto simp: p)
  then have "enqueue uuid acc (op_type op) rid (JsonText (encode_params enc op)) d = (Returned (Inr uuid), d1)"
    using Cons.prems(1) by (simp add: enqueue_def io_bind_def db_stmt_healthy io_ret_def d1_def)
  moreover have "enqueue_all enc acc op ids d1 = (Returned (Inr ()), d1\<lparr>t_pending := t_pending d1
      @ mutation_rows enc acc op (db_now d1) ids\<rparr>)"
    using Cons.prems fresh by (intro Cons.IH) (auto simp: d1_def healthy_def p new_row_def)
  ultimately show ?case by (simp add: p io_bind_def d1_def mutation_rows_def)
qed

definition fresh_uuids :: "(nat \<Rightarrow> string) \<Rightarrow> db \<Rightarrow> bool" where
  "fresh_uuids uuids d \<longleftrightarrow> inj uuids \<and> range uuids \<inter> set (map po_id (t_pending d)) = {}"

lemma apply_mutation_healthy:
  assumes d: "healthy d" "distinct (map po_id (t_pending d))" and u: "fresh_uuids uuids d"
    and ids: "ids = (if affected_ids op = [] then [''send:'' @ uuids 0] else affected_ids op)"
  shows "apply_mutation enc uuids acc op d =
    (Returned (Inr ()), (local_effect acc op d)\<lparr>t_pending := t_pending d
       @ mutation_rows enc acc op (db_now (local_effect acc op d))
           (zip (map (\<lambda>n. uuids (Suc n)) [0..<length ids]) ids)\<rparr>)"
proof -
  have inj: "inj uuids" and disj: "uuids n \<notin> po_id ` set (t_pending d)" for n
    using u by (auto simp: fresh_uuids_def)
  have "distinct (map (\<lambda>n. uuids (Suc n)) [0..<length ids])"
    using inj by (auto simp: distinct_map inj_on_def dest: injD)
  then have "distinct (map po_id (t_pending (local_effect acc op d))
      @ map fst (zip (map (\<lambda>n. uuids (Suc n)) [0..<length ids]) ids))"
    using d(2) disj by (auto simp: image_iff) (metis)
  with d(1) have "enqueue_all enc acc op (zip (map (\<lambda>n. uuids (Suc n)) [0..<length ids]) ids) (local_effect acc op d)
     = (Returned (Inr ()), (local_effect acc op d)\<lparr>t_pending := t_pending d
       @ mutation_rows enc acc op (db_now (local_effect acc op d))
           (zip (map (\<lambda>n. uuids (Suc n)) [0..<length ids]) ids)\<rparr>)"
    by (subst enqueue_all_healthy) simp_all
  then show ?thesis
    by (simp add: apply_mutation_def io_bind_def local_writes_result [OF d(1)] Let_def ids)
qed

text \<open>Applying a mutation appends to the queue one row per affected message (one row keyed by a
  fresh \<open>send:\<close> id when there is none), in their order, each pending and due at once, and touches no
  other row; reading such a row back gives the operation restricted to that message and to the
  first UID.\<close>

lemma mutation_queue_spec:
  assumes "healthy d" and "distinct (map po_id (t_pending d))" and "fresh_uuids uuids d"
    and "\<And>draft. dec (enc draft) = Inr draft"
  shows "\<exists>d' rows. apply_mutation enc uuids acc op d = (Returned (Inr ()), d') \<and>
    t_pending d' = t_pending d @ rows \<and>
    map po_resource rows = (if affected_ids op = [] then [''send:'' @ uuids 0] else affected_ids op) \<and>
    list_all (\<lambda>r. po_account r = acc \<and> is_due now r \<and>
      from_pending dec (row_to_op r) = Inr (replay_form (po_resource r) op)) rows"
proof -
  let ?ids = "if affected_ids op = [] then [''send:'' @ uuids 0] else affected_ids op"
  let ?rows = "mutation_rows enc acc op (db_now (local_effect acc op d))
    (zip (map (\<lambda>n. uuids (Suc n)) [0..<length ?ids]) ?ids)"
  have row: "from_pending dec (row_to_op (new_row i acc (op_type op) rid (JsonText (encode_params enc op)) t))
      = Inr (replay_form rid op)" for i rid t
    by (simp add: from_pending_def row_to_op_def new_row_def from_json_encoded assms(4))
  have "map po_resource ?rows = ?ids"
    by (simp add: mutation_rows_def new_row_def case_prod_beta comp_def)
  moreover have "list_all (\<lambda>r. po_account r = acc \<and> is_due now r \<and>
      from_pending dec (row_to_op r) = Inr (replay_form (po_resource r) op)) ?rows"
    using row by (auto simp: mutation_rows_def list_all_iff is_due_def) (auto simp: new_row_def)
  ultimately show ?thesis
    using apply_mutation_healthy [OF assms(1-3) refl, of enc acc op] by simp
qed

text \<open>Every queue row of a batch names all UIDs of the batch, and reading a row back keeps only
  the first. So the server is asked to change the first UID once per message and none of the
  others: of two deleted messages the second is deleted locally only.\<close>

lemma batch_replays_first_uid:
  assumes "healthy d" and "distinct (map po_id (t_pending d))" and "fresh_uuids uuids d"
    and "mids \<noteq> []"
  shows "\<exists>d' rows. apply_mutation enc uuids acc (Delete mids folder (u # us)) d = (Returned (Inr ()), d') \<and>
    t_pending d' = t_pending d @ rows \<and> length rows = length mids \<and>
    (\<forall>r. r \<in> set rows \<longrightarrow> (\<exists>op. from_pending dec (row_to_op r) = Inr op \<and>
       (\<forall>src :: 'w mail_source. exec_via_source src op = src_delete_messages src (folder_remote folder) [u])))"
proof -
  let ?op = "Delete mids folder (u # us)"
  let ?rows = "mutation_rows enc acc ?op (db_now (local_effect acc ?op d))
    (zip (map (\<lambda>n. uuids (Suc n)) [0..<length mids]) mids)"
  have "from_pending dec (row_to_op (new_row i acc (op_type ?op) rid (JsonText (encode_params enc ?op)) t))
      = Inr (Delete [rid] folder [u])" for i rid t
    using first_uid_encoded [of enc ?op]
    by (simp add: from_pending_def row_to_op_def new_row_def from_json_def op_type_def Let_def)
      (simp add: encode_params_def str_field_def)
  then have "\<forall>r. r \<in> set ?rows \<longrightarrow> (\<exists>op. from_pending dec (row_to_op r) = Inr op \<and>
       (\<forall>src :: 'w mail_source. exec_via_source src op = src_delete_messages src (folder_remote folder) [u]))"
    by (auto simp: mutation_rows_def exec_via_source_def)
  moreover have "length ?rows = length mids" by (simp add: mutation_rows_def)
  ultimately show ?thesis
    using apply_mutation_healthy [OF assms(1-3) refl, of enc acc ?op] assms(4) by (simp add: affected_ids_def)
qed

definition numbered :: "nat \<Rightarrow> string" where
  "numbered n = replicate n (CHR ''u'')"

lemma fresh_numbered: "t_pending d = [] \<Longrightarrow> fresh_uuids numbered d"
  by (auto simp: fresh_uuids_def numbered_def inj_def dest: arg_cong [where f = length])

definition test_draft :: send_draft where
  "test_draft = \<lparr>dr_draft_id = ''d1'', dr_from = \<lparr>as_name = None, as_email = ''me@x''\<rparr>,
     dr_to = [\<lparr>as_name = None, as_email = ''you@y''\<rparr>], dr_cc = [], dr_bcc = [], dr_reply_to = [],
     dr_subject = ''s'', dr_html_body = None, dr_text_body = Some ''hi'', dr_in_reply_to = None,
     dr_references = [], dr_attachments = [], dr_inline_images = [], dr_extra_headers = [],
     dr_crypto_method = MethodNone, dr_sign = False, dr_encrypt = False\<rparr>"

lemma mutation_queue_spec_witness:
  "\<exists>d' r. apply_mutation draft_json numbered ''a'' (Send test_draft) mailbox_db = (Returned (Inr ()), d') \<and>
     t_pending d' = [r] \<and> from_pending draft_of_json (row_to_op r) = Inr (Send test_draft)"
proof -
  have "t_pending mailbox_db = []" by (simp add: mailbox_db_def empty_db_def)
  moreover from this have "distinct (map po_id (t_pending mailbox_db))" by simp
  ultimately show ?thesis
    using mutation_queue_spec [OF mailbox_db_healthy(1) _ fresh_numbered draft_codec, of "''a''" "Send test_draft"]
    by (fastforce simp: affected_ids_def replay_form_def)
qed

lemma batch_replays_first_uid_witness:
  "\<exists>d' r1 r2. apply_mutation draft_json numbered ''a'' (Delete [''m1'', ''m2''] ''INBOX'' [7, 8]) mailbox_db
       = (Returned (Inr ()), d') \<and> t_pending d' = [r1, r2] \<and>
     (\<exists>op. from_pending draft_of_json (row_to_op r2) = Inr op \<and>
       (\<forall>src :: unit mail_source. exec_via_source src op = src_delete_messages src (folder_remote ''INBOX'') [7]))"
proof -
  have q: "t_pending mailbox_db = []" by (simp add: mailbox_db_def empty_db_def)
  then have dist: "distinct (map po_id (t_pending mailbox_db))" by simp
  obtain d' rows where run: "apply_mutation draft_json numbered ''a'' (Delete [''m1'', ''m2''] ''INBOX'' [7, 8]) mailbox_db
       = (Returned (Inr ()), d')" and rows: "t_pending d' = t_pending mailbox_db @ rows" "length rows = length [''m1'', ''m2'']"
     and all: "\<forall>r. r \<in> set rows \<longrightarrow> (\<exists>op. from_pending draft_of_json (row_to_op r) = Inr op \<and>
       (\<forall>src :: unit mail_source. exec_via_source src op = src_delete_messages src (folder_remote ''INBOX'') [7]))"
    using batch_replays_first_uid [OF mailbox_db_healthy(1) dist fresh_numbered [OF q], of "[''m1'', ''m2'']" draft_json
        "''a''" "''INBOX''" 7 "[8]" draft_of_json] by auto
  obtain r1 r2 where "rows = [r1, r2]" using rows(2) by (auto simp: length_Suc_conv)
  with run rows(1) all q show ?thesis by auto
qed

end
