(* ===== verification/Labels.thy ===== *)
theory Labels
  imports Db_Store
begin

text \<open>
  \<open>db/labels.rs\<close>, and \<open>upsert_folder_label\<close> of \<open>sync_engine/engine.rs\<close>: the folders of all sources
  as rows of the table \<open>labels\<close>, keyed by account and id, and the links from threads to them.
\<close>

section \<open>Folders\<close>

record mail_folder =
  mf_id :: string
  mf_account_id :: string
  mf_source :: string
  mf_role :: "string option"
  mf_name :: string
  mf_parent_id :: "string option"
  mf_remote_id :: string
  mf_delimiter :: "string option"
  mf_unread_count :: int
  mf_total_count :: int
  mf_sort_order :: int
  mf_visible :: bool
  mf_hierarchical_name :: "string option"
  mf_mail_class :: string
  mf_type :: "string option"
  mf_color_bg :: "string option"
  mf_color_fg :: "string option"
  mf_imap_folder_path :: "string option"
  mf_imap_special_use :: "string option"

definition row_to_folder :: "label_row \<Rightarrow> mail_folder" where
  "row_to_folder r =
     \<lparr>mf_id = lb_id r, mf_account_id = lb_account r, mf_source = lb_source r, mf_role = lb_role r,
      mf_name = lb_name r, mf_parent_id = lb_parent_id r,
      mf_remote_id = opt_or (lb_id r) (lb_remote_id r), mf_delimiter = lb_delimiter r,
      mf_unread_count = lb_unread_count r, mf_total_count = lb_total_count r,
      mf_sort_order = lb_sort_order r, mf_visible = (lb_visible r = 1),
      mf_hierarchical_name = lb_hierarchical_name r, mf_mail_class = lb_mail_class r,
      mf_type = Some (lb_type r), mf_color_bg = lb_color_bg r, mf_color_fg = lb_color_fg r,
      mf_imap_folder_path = lb_imap_folder_path r, mf_imap_special_use = lb_imap_special_use r\<rparr>"

section \<open>Queries\<close>

definition get_folders_by_account :: "string \<Rightarrow> mail_folder list db_io" where
  "get_folders_by_account acc = db_query (\<lambda>d. map row_to_folder
     (filter (\<lambda>r. lb_account r = acc \<and> lb_mail_class r = ''mail'' \<and> lb_visible r = 1) (t_labels d)))"

definition get_all_folders :: "mail_folder list db_io" where
  "get_all_folders = db_query (\<lambda>d. map row_to_folder
     (filter (\<lambda>r. lb_mail_class r = ''mail'' \<and> lb_visible r = 1) (t_labels d)))"

definition get_folder_by_role :: "string \<Rightarrow> string \<Rightarrow> mail_folder option db_io" where
  "get_folder_by_role acc role = db_query (\<lambda>d. map_option row_to_folder
     (find (\<lambda>r. lb_account r = acc \<and> lb_role r = Some role \<and> lb_mail_class r = ''mail'') (t_labels d)))"

definition resolve_sent_folder :: "string \<Rightarrow> mail_folder option db_io" where
  "resolve_sent_folder acc = get_folder_by_role acc ''sent''"

text \<open>The join of \<open>thread_labels\<close> with the unread threads.\<close>

definition unread_links :: "db \<Rightarrow> thread_label_row list" where
  "unread_links d = concat (map (\<lambda>l. map (\<lambda>_. l)
     (filter (\<lambda>t. th_account t = tl_account l \<and> th_id t = tl_thread l \<and> th_is_read t = 0) (t_threads d)))
     (t_thread_labels d))"

text \<open>A label without unread threads has no entry in the map.\<close>

definition get_unread_counts_by_account :: "string \<Rightarrow> (string \<Rightarrow> int option) db_io" where
  "get_unread_counts_by_account acc = db_query (\<lambda>d label.
     (let n = length (filter (\<lambda>l. tl_account l = acc \<and> tl_label l = label) (unread_links d))
      in if n = 0 then None else Some (int n)))"

definition get_total_unread :: "string option \<Rightarrow> int db_io" where
  "get_total_unread acc = db_query (\<lambda>d. int (length
     (case acc of None \<Rightarrow> unread_links d
      | Some a \<Rightarrow> filter (\<lambda>l. tl_account l = a) (unread_links d))))"

section \<open>Updates\<close>

text \<open>\<open>INSERT ... ON CONFLICT(account_id, id) DO UPDATE\<close>: the counts of an existing row stay.\<close>

definition same_label :: "label_row \<Rightarrow> label_row \<Rightarrow> bool" where
  "same_label a b \<longleftrightarrow> lb_account a = lb_account b \<and> lb_id a = lb_id b"

definition merge_label :: "label_row \<Rightarrow> label_row \<Rightarrow> label_row" where
  "merge_label new old = old
     \<lparr>lb_name := lb_name new, lb_type := lb_type new, lb_visible := lb_visible new,
      lb_sort_order := lb_sort_order new, lb_source := lb_source new, lb_role := lb_role new,
      lb_parent_id := lb_parent_id new, lb_remote_id := lb_remote_id new,
      lb_delimiter := lb_delimiter new, lb_mail_class := lb_mail_class new,
      lb_hierarchical_name := lb_hierarchical_name new\<rparr>"

definition upsert_label :: "label_row \<Rightarrow> label_row list \<Rightarrow> label_row list" where
  "upsert_label new rows =
     (if list_ex (same_label new) rows
      then map (\<lambda>r. if same_label new r then merge_label new r else r) rows
      else rows @ [new])"

definition type_of_role :: "string option \<Rightarrow> string" where
  "type_of_role role = (case role of Some _ \<Rightarrow> ''system'' | None \<Rightarrow> ''user'')"

definition folder_row :: "mail_folder \<Rightarrow> label_row" where
  "folder_row f =
     \<lparr>lb_id = mf_id f, lb_account = mf_account_id f, lb_name = mf_name f, lb_type = type_of_role (mf_role f),
      lb_color_bg = None, lb_color_fg = None, lb_visible = of_bool (mf_visible f),
      lb_sort_order = mf_sort_order f, lb_imap_folder_path = None, lb_imap_special_use = None,
      lb_source = mf_source f, lb_role = mf_role f, lb_parent_id = mf_parent_id f,
      lb_remote_id = Some (mf_remote_id f), lb_delimiter = mf_delimiter f, lb_mail_class = mf_mail_class f,
      lb_unread_count = 0, lb_total_count = 0, lb_hierarchical_name = mf_hierarchical_name f\<rparr>"

definition write_label :: "label_row \<Rightarrow> unit db_io" where
  "write_label r = db_update (\<lambda>d. d\<lparr>t_labels := upsert_label r (t_labels d)\<rparr>)"

definition upsert_folders :: "mail_folder list \<Rightarrow> unit db_io" where
  "upsert_folders folders =
     (if folders = [] then io_ret ()
      else db_transaction (io_each (\<lambda>f. write_label (folder_row f)) folders))"

definition remote_folder_row :: "string \<Rightarrow> string \<Rightarrow> remote_folder \<Rightarrow> label_row" where
  "remote_folder_row acc source f =
     \<lparr>lb_id = acc @ '':'' @ rf_remote_id f, lb_account = acc, lb_name = rf_name f,
      lb_type = type_of_role (rf_role f), lb_color_bg = None, lb_color_fg = None, lb_visible = 1,
      lb_sort_order = 0, lb_imap_folder_path = None, lb_imap_special_use = None, lb_source = source,
      lb_role = rf_role f, lb_parent_id = rf_parent_id f, lb_remote_id = Some (rf_remote_id f),
      lb_delimiter = Some (rf_delimiter f), lb_mail_class = ''mail'',
      lb_unread_count = uint (rf_unseen f), lb_total_count = uint (rf_exists f),
      lb_hierarchical_name = None\<rparr>"

definition upsert_folder_label :: "string \<Rightarrow> string \<Rightarrow> remote_folder \<Rightarrow> unit db_io" where
  "upsert_folder_label acc source f = write_label (remote_folder_row acc source f)"

text \<open>\<open>id\<close> is the fresh UUID; the primary key refuses a duplicate.\<close>

definition max_sort_order :: "string \<Rightarrow> db \<Rightarrow> int option" where
  "max_sort_order acc d =
     (case filter (\<lambda>r. lb_account r = acc) (t_labels d) of
        [] \<Rightarrow> None
      | r # rs \<Rightarrow> Some (fold max (map lb_sort_order rs) (lb_sort_order r)))"

definition local_folder :: "string \<Rightarrow> string \<Rightarrow> string \<Rightarrow> string option \<Rightarrow> int \<Rightarrow> mail_folder" where
  "local_folder uuid acc name parent_id sort_order =
     \<lparr>mf_id = uuid, mf_account_id = acc, mf_source = ''local'', mf_role = None, mf_name = name,
      mf_parent_id = parent_id, mf_remote_id = uuid, mf_delimiter = None, mf_unread_count = 0,
      mf_total_count = 0, mf_sort_order = sort_order, mf_visible = True, mf_hierarchical_name = None,
      mf_mail_class = ''mail'', mf_type = Some ''user'', mf_color_bg = None, mf_color_fg = None,
      mf_imap_folder_path = None, mf_imap_special_use = None\<rparr>"

definition create_folder :: "string \<Rightarrow> string \<Rightarrow> string \<Rightarrow> string option \<Rightarrow> mail_folder db_io" where
  "create_folder uuid acc name parent_id =
     io_bind (db_query (max_sort_order acc)) (\<lambda>m.
       let sort_order = opt_or (- 1) m + 1;
           f = local_folder uuid acc name parent_id sort_order
       in io_bind (db_stmt (\<lambda>d.
            if list_ex (same_label (folder_row f)) (t_labels d)
            then (Inl ''UNIQUE constraint failed: labels.account_id, labels.id'', d)
            else (Inr f, d\<lparr>t_labels := t_labels d @ [folder_row f]\<rparr>))) io_lift)"

definition rename_folder :: "string \<Rightarrow> string \<Rightarrow> string \<Rightarrow> unit db_io" where
  "rename_folder acc label new_name = db_update (\<lambda>d. d\<lparr>t_labels := map (\<lambda>r.
     if lb_account r = acc \<and> lb_id r = label then r\<lparr>lb_name := new_name\<rparr> else r) (t_labels d)\<rparr>)"

definition drop_links :: "string \<Rightarrow> string \<Rightarrow> db \<Rightarrow> db" where
  "drop_links acc label d = d\<lparr>t_thread_labels :=
     filter (\<lambda>l. \<not> (tl_account l = acc \<and> tl_label l = label)) (t_thread_labels d)\<rparr>"

definition drop_label :: "string \<Rightarrow> string \<Rightarrow> db \<Rightarrow> db" where
  "drop_label acc label d = d\<lparr>t_labels :=
     filter (\<lambda>r. \<not> (lb_account r = acc \<and> lb_id r = label)) (t_labels d)\<rparr>"

definition delete_folder :: "string \<Rightarrow> string \<Rightarrow> unit db_io" where
  "delete_folder acc label = db_transaction
     (io_bind (db_update (drop_links acc label)) (\<lambda>_. db_update (drop_label acc label)))"

text \<open>The rows are read once, before the deletions; the result counts the deleted labels.\<close>

definition stale_labels :: "string \<Rightarrow> string \<Rightarrow> string list \<Rightarrow> db \<Rightarrow> string list" where
  "stale_labels acc source keep d = map lb_id (filter (\<lambda>r.
     lb_account r = acc \<and> lb_source r = source \<and>
     (case lb_remote_id r of None \<Rightarrow> False | Some i \<Rightarrow> i \<notin> set keep)) (t_labels d))"

definition prune_stale_labels :: "string \<Rightarrow> string \<Rightarrow> string list \<Rightarrow> nat db_io" where
  "prune_stale_labels acc source keep =
     (if keep = [] then io_ret 0
      else io_bind (db_query (stale_labels acc source keep)) (\<lambda>ids.
           io_bind (io_each (delete_folder acc) ids) (\<lambda>_. io_ret (length ids))))"

section \<open>Keys\<close>

definition label_key :: "label_row \<Rightarrow> string \<times> string" where
  "label_key r = (lb_account r, lb_id r)"

definition labels_ok :: "label_row list \<Rightarrow> bool" where
  "labels_ok rows \<longleftrightarrow> distinct (map label_key rows)"

lemma same_label_key: "same_label a b \<longleftrightarrow> label_key a = label_key b"
  by (simp add: same_label_def label_key_def)

lemma merge_label_key [simp]: "label_key (merge_label new old) = label_key old"
  by (simp add: merge_label_def label_key_def)

lemma upsert_label_keys:
  "map label_key (upsert_label new rows) =
     (if label_key new \<in> label_key ` set rows then map label_key rows else map label_key rows @ [label_key new])"
  by (auto simp: upsert_label_def list_ex_iff same_label_key comp_def)

lemma labels_ok_upsert [invariant_intros]: "labels_ok rows \<Longrightarrow> labels_ok (upsert_label new rows)"
  by (auto simp: labels_ok_def upsert_label_keys)

lemma labels_ok_filter [invariant_intros]: "labels_ok rows \<Longrightarrow> labels_ok (filter P rows)"
  by (simp add: labels_ok_def distinct_map_filter)

lemma merge_label_twice: "merge_label new (merge_label new r) = merge_label new r"
  by (simp add: merge_label_def)

lemma merge_label_self: "merge_label new new = new"
  by (simp add: merge_label_def)

lemma merge_label_fields [simp]:
  "lb_source (merge_label new old) = lb_source new"
  "lb_remote_id (merge_label new old) = lb_remote_id new"
  by (simp_all add: merge_label_def)

lemma upsert_label_twice: "upsert_label new (upsert_label new rows) = upsert_label new rows"
proof (cases "list_ex (same_label new) rows")
  case True
  then obtain r where "r \<in> set rows" "same_label new r" by (auto simp: list_ex_iff)
  then have "list_ex (same_label new) (map (\<lambda>r. if same_label new r then merge_label new r else r) rows)"
    by (auto simp: list_ex_iff same_label_key intro!: bexI [of _ "merge_label new r"] image_eqI [of _ _ r])
  with True show ?thesis
    by (simp add: upsert_label_def same_label_key comp_def merge_label_twice)
next
  case False
  then have old: "map (\<lambda>r. if same_label new r then merge_label new r else r) rows = rows"
    by (intro map_idI) (auto simp: list_ex_iff)
  from False show ?thesis by (simp add: upsert_label_def old) (simp add: same_label_key merge_label_self)
qed

lemma upsert_label_other:
  "label_key r \<noteq> label_key new \<Longrightarrow> r \<in> set (upsert_label new rows) \<longleftrightarrow> r \<in> set rows"
  by (auto simp: upsert_label_def same_label_key)

lemma upsert_label_written:
  "\<exists>r. r \<in> set (upsert_label new rows) \<and> label_key r = label_key new \<and> merge_label new r = r"
proof (cases "list_ex (same_label new) rows")
  case True
  then obtain r where "r \<in> set rows" "label_key new = label_key r"
    by (auto simp: list_ex_iff same_label_key)
  with True show ?thesis
    by (intro exI [of _ "merge_label new r"]) (auto simp: upsert_label_def same_label_key merge_label_twice)
next
  case False
  then show ?thesis by (auto simp: upsert_label_def merge_label_self)
qed

section \<open>What a round leaves in the table\<close>

definition written :: "string \<Rightarrow> string \<Rightarrow> remote_folder \<Rightarrow> label_row list \<Rightarrow> bool" where
  "written acc source f rows \<longleftrightarrow> (\<exists>r. r \<in> set rows \<and>
     label_key r = (acc, acc @ '':'' @ rf_remote_id f) \<and> lb_source r = source \<and>
     lb_remote_id r = Some (rf_remote_id f))"

lemma remote_folder_row_key [simp]:
  "label_key (remote_folder_row acc source f) = (acc, acc @ '':'' @ rf_remote_id f)"
  by (simp add: label_key_def remote_folder_row_def)

lemma written_upsert: "written acc source f (upsert_label (remote_folder_row acc source f) rows)"
proof -
  let ?new = "remote_folder_row acc source f"
  obtain r where r: "r \<in> set (upsert_label ?new rows)" "label_key r = label_key ?new" "merge_label ?new r = r"
    using upsert_label_written by blast
  from arg_cong [OF r(3), of lb_source] arg_cong [OF r(3), of lb_remote_id]
  have "lb_source r = source \<and> lb_remote_id r = Some (rf_remote_id f)"
    by (simp add: remote_folder_row_def)
  with r show ?thesis by (auto simp: written_def)
qed

lemma written_kept:
  assumes "written acc source f rows"
  shows "written acc source f (upsert_label (remote_folder_row acc source g) rows)"
proof (cases "rf_remote_id g = rf_remote_id f")
  case True
  then show ?thesis using written_upsert [of acc source g rows] by (simp add: written_def)
next
  case False
  obtain r where r: "r \<in> set rows" "label_key r = (acc, acc @ '':'' @ rf_remote_id f)" "lb_source r = source"
      "lb_remote_id r = Some (rf_remote_id f)"
    using assms by (auto simp: written_def)
  then have "r \<in> set (upsert_label (remote_folder_row acc source g) rows)"
    using False by (subst upsert_label_other) simp_all
  with r show ?thesis by (auto simp: written_def)
qed

definition upsert_all :: "string \<Rightarrow> string \<Rightarrow> remote_folder list \<Rightarrow> label_row list \<Rightarrow> label_row list" where
  "upsert_all acc source fs rows = fold (\<lambda>f. upsert_label (remote_folder_row acc source f)) fs rows"

lemma written_all: "f \<in> set fs \<Longrightarrow> written acc source f (upsert_all acc source fs rows)"
proof (induction fs arbitrary: rows)
  case (Cons g fs)
  have keep: "written acc source f rows \<Longrightarrow> written acc source f (upsert_all acc source fs rows)" for fs rows
    by (induction fs arbitrary: rows) (simp_all add: upsert_all_def written_kept)
  have step: "upsert_all acc source (g # fs) rows
      = upsert_all acc source fs (upsert_label (remote_folder_row acc source g) rows)"
    by (simp add: upsert_all_def)
  show ?case
  proof (cases "f = g")
    case True
    then show ?thesis unfolding step by (intro keep) (simp add: written_upsert)
  next
    case False
    then show ?thesis unfolding step using Cons by simp
  qed
qed simp

lemma labels_ok_upsert_all: "labels_ok rows \<Longrightarrow> labels_ok (upsert_all acc source fs rows)"
  by (induction fs arbitrary: rows) (simp_all add: upsert_all_def labels_ok_upsert)

lemma upserts_healthy:
  assumes "healthy d"
  shows "io_each (upsert_folder_label acc source) fs d
    = (Returned (Inr ()), d\<lparr>t_labels := upsert_all acc source fs (t_labels d)\<rparr>)"
  using assms
proof (induction fs arbitrary: d)
  case Nil
  then show ?case by (simp add: io_ret_def upsert_all_def)
next
  case (Cons f fs)
  let ?d = "d\<lparr>t_labels := upsert_label (remote_folder_row acc source f) (t_labels d)\<rparr>"
  have "healthy ?d" using Cons.prems by (simp add: healthy_def)
  then show ?case using Cons
    by (simp add: io_bind_def upsert_folder_label_def write_label_def db_update_healthy upsert_all_def)
qed

section \<open>Deleting and pruning\<close>

lemma delete_folder_healthy:
  assumes "healthy d"
  shows "delete_folder acc label d = (Returned (Inr ()), drop_label acc label (drop_links acc label d))"
proof -
  have h: "healthy (drop_links acc label d)" "healthy (drop_label acc label (drop_links acc label d))"
    using assms by (simp_all add: healthy_def drop_links_def drop_label_def)
  show ?thesis unfolding delete_folder_def
    by (intro db_transaction_healthy) (simp_all add: assms h io_bind_def db_update_healthy)
qed

definition pruned :: "string \<Rightarrow> string list \<Rightarrow> db \<Rightarrow> db" where
  "pruned acc ids d = d
     \<lparr>t_labels := filter (\<lambda>r. \<not> (lb_account r = acc \<and> lb_id r \<in> set ids)) (t_labels d),
      t_thread_labels := filter (\<lambda>l. \<not> (tl_account l = acc \<and> tl_label l \<in> set ids)) (t_thread_labels d)\<rparr>"

lemma delete_folders_healthy:
  assumes "healthy d"
  shows "io_each (delete_folder acc) ids d = (Returned (Inr ()), pruned acc ids d)"
  using assms
proof (induction ids arbitrary: d)
  case Nil
  then show ?case by (simp add: io_ret_def pruned_def)
next
  case (Cons i ids)
  let ?d = "drop_label acc i (drop_links acc i d)"
  have "healthy ?d" using Cons.prems by (simp add: healthy_def drop_label_def drop_links_def)
  moreover have "pruned acc ids ?d = pruned acc (i # ids) d"
    by (auto simp: pruned_def drop_label_def drop_links_def intro!: arg_cong2 [where f = "\<lambda>a b. d\<lparr>t_labels := a, t_thread_labels := b\<rparr>"] filter_cong)
  ultimately show ?case using Cons by (simp add: io_bind_def delete_folder_healthy)
qed

lemma stale_row:
  assumes "labels_ok (t_labels d)" and "r \<in> set (t_labels d)" and "lb_account r = acc"
  shows "lb_id r \<in> set (stale_labels acc source keep d) \<longleftrightarrow>
    lb_source r = source \<and> (\<exists>i. lb_remote_id r = Some i \<and> i \<notin> set keep)"
proof
  assume "lb_id r \<in> set (stale_labels acc source keep d)"
  then obtain r' where r': "r' \<in> set (t_labels d)" "lb_account r' = acc" "lb_id r' = lb_id r" "lb_source r' = source"
      "\<exists>i. lb_remote_id r' = Some i \<and> i \<notin> set keep"
    by (auto simp: stale_labels_def split: option.splits)
  then have "label_key r' = label_key r" using assms(3) by (simp add: label_key_def)
  then have "r' = r" using assms(1,2) r'(1) by (auto simp: labels_ok_def distinct_map dest: inj_onD)
  with r' show "lb_source r = source \<and> (\<exists>i. lb_remote_id r = Some i \<and> i \<notin> set keep)" by simp
next
  assume "lb_source r = source \<and> (\<exists>i. lb_remote_id r = Some i \<and> i \<notin> set keep)"
  with assms(2,3) show "lb_id r \<in> set (stale_labels acc source keep d)"
    by (auto simp: stale_labels_def)
qed

lemma prune_run:
  assumes "healthy d" and "keep \<noteq> []"
  shows "prune_stale_labels acc source keep d =
    (Returned (Inr (length (stale_labels acc source keep d))), pruned acc (stale_labels acc source keep d) d)"
  using assms by (simp add: prune_stale_labels_def io_bind_def db_query_healthy delete_folders_healthy io_ret_def)

lemma prune_labels:
  assumes "labels_ok (t_labels d)"
  shows "t_labels (pruned acc (stale_labels acc source keep d) d) = filter (\<lambda>r. \<not> (lb_account r = acc \<and>
    lb_source r = source \<and> (\<exists>i. lb_remote_id r = Some i \<and> i \<notin> set keep))) (t_labels d)"
  unfolding pruned_def by (simp, rule filter_cong) (use stale_row [OF assms] in blast)+

text \<open>Pruning deletes exactly the labels of the account and source whose remote id the server no
  longer lists, with the thread links of those labels, and nothing else; when the server's list is
  empty it deletes nothing at all.\<close>

lemma prune_stale_spec:
  assumes "healthy d" and "labels_ok (t_labels d)"
  shows "\<exists>n d'. prune_stale_labels acc source keep d = (Returned (Inr n), d') \<and>
    (keep = [] \<longrightarrow> n = 0 \<and> d' = d) \<and>
    (keep \<noteq> [] \<longrightarrow>
      t_labels d' = filter (\<lambda>r. \<not> (lb_account r = acc \<and> lb_source r = source \<and>
        (\<exists>i. lb_remote_id r = Some i \<and> i \<notin> set keep))) (t_labels d) \<and>
      length (t_labels d') + n = length (t_labels d) \<and>
      (\<forall>l. l \<in> set (t_thread_labels d') \<longleftrightarrow> l \<in> set (t_thread_labels d) \<and>
        \<not> (tl_account l = acc \<and> (\<exists>r. r \<in> set (t_labels d) \<and> r \<notin> set (t_labels d') \<and> lb_id r = tl_label l))))"
proof (cases "keep = []")
  case True
  then show ?thesis by (simp add: prune_stale_labels_def io_ret_def)
next
  case False
  let ?ids = "stale_labels acc source keep d"
  let ?stale = "\<lambda>r. lb_account r = acc \<and> lb_source r = source \<and> (\<exists>i. lb_remote_id r = Some i \<and> i \<notin> set keep)"
  let ?d' = "pruned acc ?ids d"
  have run: "prune_stale_labels acc source keep d = (Returned (Inr (length ?ids)), ?d')"
    by (rule prune_run [OF assms(1) False])
  have labels: "t_labels ?d' = filter (\<lambda>r. \<not> ?stale r) (t_labels d)"
    by (rule prune_labels [OF assms(2)])
  have "?ids = map lb_id (filter ?stale (t_labels d))"
    by (auto simp: stale_labels_def split: option.splits intro!: arg_cong [where f = "map lb_id"] filter_cong)
  then have count: "length (t_labels ?d') + length ?ids = length (t_labels d)"
    unfolding labels using sum_length_filter_compl [of ?stale "t_labels d"] by simp
  have gone: "(\<exists>r. r \<in> set (t_labels d) \<and> r \<notin> set (t_labels ?d') \<and> lb_id r = i) \<longleftrightarrow> i \<in> set ?ids" for i
    unfolding labels by (auto simp: stale_labels_def split: option.splits)
  show ?thesis
  proof (intro exI [of _ "length ?ids"] exI [of _ ?d'] conjI impI)
    show "\<forall>l. l \<in> set (t_thread_labels ?d') \<longleftrightarrow> l \<in> set (t_thread_labels d) \<and>
        \<not> (tl_account l = acc \<and> (\<exists>r. r \<in> set (t_labels d) \<and> r \<notin> set (t_labels ?d') \<and> lb_id r = tl_label l))"
      unfolding gone by (auto simp: pruned_def)
  qed (use False run labels count in simp_all)
qed

definition label_db :: db where
  "label_db = empty_db\<lparr>t_labels :=
     [remote_folder_row ''a'' ''imap'' (remote_folder_default\<lparr>rf_remote_id := ''INBOX''\<rparr>),
      remote_folder_row ''a'' ''imap'' (remote_folder_default\<lparr>rf_remote_id := ''Old''\<rparr>)],
    t_thread_labels := [\<lparr>tl_account = ''a'', tl_thread = ''t'', tl_label = ''a:Old''\<rparr>]\<rparr>"

lemma label_db_ok: "healthy label_db" "labels_ok (t_labels label_db)"
  by (simp_all add: label_db_def empty_db_def healthy_def labels_ok_def)

lemma prune_stale_spec_witness:
  "\<exists>d'. prune_stale_labels ''a'' ''imap'' [''INBOX''] label_db = (Returned (Inr 1), d') \<and>
     length (t_labels d') = 1 \<and> t_thread_labels d' = []"
proof -
  let ?in = "remote_folder_row ''a'' ''imap'' (remote_folder_default\<lparr>rf_remote_id := ''INBOX''\<rparr>)"
  let ?old = "remote_folder_row ''a'' ''imap'' (remote_folder_default\<lparr>rf_remote_id := ''Old''\<rparr>)"
  obtain n d' where d': "prune_stale_labels ''a'' ''imap'' [''INBOX''] label_db = (Returned (Inr n), d')"
    and claim: "[''INBOX''] \<noteq> [] \<longrightarrow>
      t_labels d' = filter (\<lambda>r. \<not> (lb_account r = ''a'' \<and> lb_source r = ''imap'' \<and>
        (\<exists>i. lb_remote_id r = Some i \<and> i \<notin> set [''INBOX'']))) (t_labels label_db) \<and>
      length (t_labels d') + n = length (t_labels label_db) \<and>
      (\<forall>l. l \<in> set (t_thread_labels d') \<longleftrightarrow> l \<in> set (t_thread_labels label_db) \<and>
        \<not> (tl_account l = ''a'' \<and> (\<exists>r. r \<in> set (t_labels label_db) \<and> r \<notin> set (t_labels d') \<and> lb_id r = tl_label l)))"
    using prune_stale_spec [OF label_db_ok, of "''a''" "''imap''" "[''INBOX'']"]
    by (elim exE conjE) (rule that)
  note l = mp [OF claim list.distinct(2), THEN conjunct1]
    and n = mp [OF claim list.distinct(2), THEN conjunct2, THEN conjunct1]
    and t = mp [OF claim list.distinct(2), THEN conjunct2, THEN conjunct2]
  have l': "t_labels d' = [?in]" unfolding l by (simp add: label_db_def remote_folder_row_def)
  have "n = 1" using n by (simp add: l' label_db_def)
  moreover have "?old \<in> set (t_labels label_db)" "?old \<notin> set (t_labels d')" "lb_id ?old = ''a:Old''"
    unfolding l' by (simp_all add: label_db_def remote_folder_row_def)
  then have gone: "\<exists>r. r \<in> set (t_labels label_db) \<and> r \<notin> set (t_labels d') \<and> lb_id r = ''a:Old''" by blast
  have "l \<notin> set (t_thread_labels d')" for l
  proof
    assume "l \<in> set (t_thread_labels d')"
    with spec [OF t] have "l \<in> set (t_thread_labels label_db)" and "\<not> (tl_account l = ''a'' \<and>
        (\<exists>r. r \<in> set (t_labels label_db) \<and> r \<notin> set (t_labels d') \<and> lb_id r = tl_label l))" by blast+
    moreover from this(1) have "tl_account l = ''a''" "tl_label l = ''a:Old''" by (simp_all add: label_db_def)
    ultimately show False using gone by simp
  qed
  then have "t_thread_labels d' = []" by (simp flip: set_empty add: set_eq_iff del: set_empty)
  ultimately show ?thesis using d' by (auto simp: l')
qed



end
