(* ===== verification/Messages.thy ===== *)
theory Messages
  imports Mutations
begin

text \<open>
  \<open>db/messages.rs\<close>: storing what a folder synchronisation brought, and the small reads and writes of
  single messages. Phase 0 threading: one thread per message, with the id of the message.
\<close>

section \<open>Rows\<close>

definition imap_message_id :: "string \<Rightarrow> string \<Rightarrow> u32 \<Rightarrow> string" where
  "imap_message_id acc folder uid = ''imap-'' @ acc @ ''-'' @ folder @ ''-'' @ dec_string (unat uid)"

definition remote_id :: "string \<Rightarrow> remote_message \<Rightarrow> string" where
  "remote_id acc m = imap_message_id acc (rm_folder m) (rm_uid m)"

definition synthetic_id :: "string \<Rightarrow> remote_message \<Rightarrow> string" where
  "synthetic_id acc m = ''synthetic-'' @ acc @ ''-'' @ rm_folder m @ ''-'' @ dec_string (unat (rm_uid m)) @ ''@kylins.local''"

definition crypto_flags :: "remote_message \<Rightarrow> int \<times> int" where
  "crypto_flags m = opt_or (0, 0) (map_option db_flags (rm_crypto_kind m))"

definition thread_of :: "string \<Rightarrow> remote_message \<Rightarrow> thread_row" where
  "thread_of acc m =
     \<lparr>th_account = acc, th_id = remote_id acc m, th_is_read = of_bool (rm_is_read m),
      th_content = \<lparr>tc_subject = rm_subject m, tc_snippet = rm_snippet m, tc_last_message_at = rm_date m,
        tc_message_count = 1, tc_is_starred = of_bool (rm_is_starred m), tc_is_important = 0,
        tc_has_attachments = of_bool (rm_has_attachments m), tc_from_name = rm_from_name m,
        tc_from_address = rm_from_address m, tc_is_encrypted = fst (crypto_flags m),
        tc_is_signed = snd (crypto_flags m)\<rparr>\<rparr>"

definition message_of :: "string \<Rightarrow> remote_message \<Rightarrow> message_row" where
  "message_of acc m =
     \<lparr>ms_account = acc, ms_id = remote_id acc m, ms_thread = remote_id acc m,
      ms_is_read = of_bool (rm_is_read m), ms_is_starred = of_bool (rm_is_starred m),
      ms_content = \<lparr>mc_from_address = rm_from_address m, mc_from_name = rm_from_name m,
        mc_to_addresses = rm_to_addresses m, mc_cc_addresses = rm_cc_addresses m,
        mc_bcc_addresses = rm_bcc_addresses m, mc_reply_to = rm_reply_to m, mc_subject = rm_subject m,
        mc_snippet = rm_snippet m, mc_date = rm_date m, mc_body_text = rm_body_text m, mc_body_cached = 0,
        mc_raw_size = uint (rm_raw_size m),
        mc_message_id_header = opt_or (synthetic_id acc m) (rm_message_id m),
        mc_in_reply_to = rm_in_reply_to m, mc_references = rm_references m,
        mc_list_unsubscribe = rm_list_unsubscribe m, mc_list_unsubscribe_post = rm_list_unsubscribe_post m,
        mc_auth_results = rm_auth_results m, mc_imap_uid = Some (uint (rm_uid m)),
        mc_imap_folder = Some (rm_folder m), mc_is_encrypted = fst (crypto_flags m),
        mc_is_signed = snd (crypto_flags m), mc_remote_email_id = rm_remote_email_id m,
        mc_remote_thread_id = rm_remote_thread_id m\<rparr>\<rparr>"

text \<open>\<open>ON CONFLICT DO UPDATE\<close>: the columns of the message that are not overwritten.\<close>

definition merge_message :: "message_row \<Rightarrow> message_row \<Rightarrow> message_row" where
  "merge_message old new = new\<lparr>ms_thread := ms_thread old,
     ms_content := (ms_content new)
       \<lparr>mc_body_cached := mc_body_cached (ms_content old),
        mc_in_reply_to := mc_in_reply_to (ms_content old),
        mc_references := mc_references (ms_content old),
        mc_list_unsubscribe := mc_list_unsubscribe (ms_content old),
        mc_list_unsubscribe_post := mc_list_unsubscribe_post (ms_content old),
        mc_auth_results := mc_auth_results (ms_content old)\<rparr>\<rparr>"

definition upsert_by :: "('r \<Rightarrow> 'k) \<Rightarrow> ('r \<Rightarrow> 'r \<Rightarrow> 'r) \<Rightarrow> 'r \<Rightarrow> 'r list \<Rightarrow> 'r list" where
  "upsert_by key merge new rows =
     (if list_ex (\<lambda>r. key r = key new) rows
      then map (\<lambda>r. if key r = key new then merge r new else r) rows
      else rows @ [new])"

definition message_key :: "message_row \<Rightarrow> string \<times> string" where
  "message_key r = (ms_account r, ms_id r)"

definition thread_key :: "thread_row \<Rightarrow> string \<times> string" where
  "thread_key r = (th_account r, th_id r)"

definition put_thread :: "string \<Rightarrow> remote_message \<Rightarrow> db \<Rightarrow> db" where
  "put_thread acc m d = d\<lparr>t_threads := upsert_by thread_key (\<lambda>_ new. new) (thread_of acc m) (t_threads d)\<rparr>"

definition put_message :: "string \<Rightarrow> remote_message \<Rightarrow> db \<Rightarrow> db" where
  "put_message acc m d = d\<lparr>t_messages := upsert_by message_key merge_message (message_of acc m) (t_messages d)\<rparr>"

definition put_link :: "string \<Rightarrow> string \<Rightarrow> string \<Rightarrow> db \<Rightarrow> db" where
  "put_link acc label tid d =
     (let r = \<lparr>tl_account = acc, tl_thread = tid, tl_label = label\<rparr>
      in if r \<in> set (t_thread_labels d) then d else d\<lparr>t_thread_labels := t_thread_labels d @ [r]\<rparr>)"

section \<open>Storing one message\<close>

text \<open>The write lock: a local mutation of the message waits in the queue.\<close>

definition is_locked :: "string \<Rightarrow> string \<Rightarrow> db \<Rightarrow> bool" where
  "is_locked acc mid d \<longleftrightarrow>
     length (filter (\<lambda>r. po_resource r = mid) (pending_of_account acc (t_pending d))) > 0"

definition upsert_message :: "string \<Rightarrow> string \<Rightarrow> remote_message \<Rightarrow> unit db_io" where
  "upsert_message acc label m =
     io_bind (db_query (is_locked acc (remote_id acc m))) (\<lambda>locked.
     if locked then io_ret ()
     else io_bind (db_update (put_thread acc m)) (\<lambda>_.
          io_bind (db_update (put_message acc m)) (\<lambda>_.
          db_update (put_link acc label (remote_id acc m)))))"

section \<open>Storing a delta\<close>

definition APPLY_BATCH_SIZE :: nat where "APPLY_BATCH_SIZE = 200"

function chunks :: "nat \<Rightarrow> 'a list \<Rightarrow> 'a list list" where
  "chunks n xs = (if n = 0 \<or> xs = [] then [] else take n xs # chunks n (drop n xs))"
  by pat_completeness auto
termination
  by (relation "measure (\<lambda>(n, xs). length xs)") auto

declare chunks.simps [simp del]

text \<open>Deleting messages takes their bodies and attachment rows with them: the foreign keys cascade.\<close>

definition delete_messages_where :: "(message_row \<Rightarrow> bool) \<Rightarrow> db \<Rightarrow> db" where
  "delete_messages_where p d =
     (let gone = map message_key (filter p (t_messages d))
      in d\<lparr>t_messages := filter (\<lambda>r. \<not> p r) (t_messages d),
           t_bodies := filter (\<lambda>b. (mb_account b, mb_message b) \<notin> set gone) (t_bodies d),
           t_attachments := filter (\<lambda>a. (at_account a, at_message a) \<notin> set gone) (t_attachments d),
           t_crypto_results := filter (\<lambda>c. (cr_account c, cr_message c) \<notin> set gone) (t_crypto_results d)\<rparr>)"

definition wipe_folder :: "string \<Rightarrow> string \<Rightarrow> unit db_io" where
  "wipe_folder acc folder =
     db_transaction
       (io_bind (db_update (delete_messages_where (\<lambda>r. ms_account r = acc \<and> mc_imap_folder (ms_content r) = Some folder)))
         (\<lambda>_. db_update (sweep_orphans acc)))"

definition store_messages :: "string \<Rightarrow> string \<Rightarrow> remote_message list \<Rightarrow> unit db_io" where
  "store_messages acc label ms =
     io_each (\<lambda>chunk. db_transaction (io_each (upsert_message acc label) chunk))
       (chunks APPLY_BATCH_SIZE ms)"

fun io_sum :: "('a \<Rightarrow> ('s, 'e, nat) io) \<Rightarrow> 'a list \<Rightarrow> ('s, 'e, nat) io" where
  "io_sum f [] = io_ret 0"
| "io_sum f (x # xs) = io_bind (f x) (\<lambda>n. io_bind (io_sum f xs) (\<lambda>m. io_ret (n + m)))"

definition delete_uid :: "string \<Rightarrow> string \<Rightarrow> u32 \<Rightarrow> nat db_io" where
  "delete_uid acc folder uid =
     (let mid = imap_message_id acc folder uid
      in io_bind (db_stmt (\<lambda>d. (length (filter (\<lambda>r. ms_id r = mid) (t_messages d)),
                                delete_messages_where (\<lambda>r. ms_id r = mid) d))) (\<lambda>n.
         io_bind (db_update (\<lambda>d. d\<lparr>t_bodies := filter (\<lambda>b. mb_message b \<noteq> mid) (t_bodies d)\<rparr>)) (\<lambda>_.
         io_ret n)))"

definition delete_vanished :: "string \<Rightarrow> string \<Rightarrow> u32 list \<Rightarrow> nat db_io" where
  "delete_vanished acc folder uids =
     (if uids = [] then io_ret 0
      else io_bind (io_sum (\<lambda>chunk. db_transaction (io_sum (delete_uid acc folder) chunk))
                      (chunks APPLY_BATCH_SIZE uids)) (\<lambda>n.
           io_bind (db_transaction (db_update (sweep_orphans acc))) (\<lambda>_.
           io_ret n)))"

definition set_message_flags :: "string \<Rightarrow> string \<Rightarrow> flag_update \<Rightarrow> message_row \<Rightarrow> message_row" where
  "set_message_flags acc folder u r =
     (if ms_account r = acc \<and> mc_imap_folder (ms_content r) = Some folder
         \<and> mc_imap_uid (ms_content r) = Some (uint (fu_uid u))
      then r\<lparr>ms_is_read := of_bool (fu_is_read u), ms_is_starred := of_bool (fu_is_starred u)\<rparr> else r)"

definition flag_targets :: "string \<Rightarrow> string \<Rightarrow> flag_update \<Rightarrow> db \<Rightarrow> nat" where
  "flag_targets acc folder u d = length (filter (\<lambda>r. ms_account r = acc \<and>
     mc_imap_folder (ms_content r) = Some folder \<and> mc_imap_uid (ms_content r) = Some (uint (fu_uid u))) (t_messages d))"

definition set_thread_flags :: "string \<Rightarrow> flag_update \<Rightarrow> thread_row \<Rightarrow> thread_row" where
  "set_thread_flags tid u r =
     (if th_id r = tid
      then r\<lparr>th_is_read := of_bool (fu_is_read u),
             th_content := (th_content r)\<lparr>tc_is_starred := of_bool (fu_is_starred u)\<rparr>\<rparr> else r)"

definition apply_flag_update :: "string \<Rightarrow> string \<Rightarrow> flag_update \<Rightarrow> nat db_io" where
  "apply_flag_update acc folder u =
     (let mid = imap_message_id acc folder (fu_uid u)
      in io_bind (db_query (is_locked acc mid)) (\<lambda>locked.
         if locked then io_ret 0
         else io_bind (db_stmt (\<lambda>d. (flag_targets acc folder u d,
                  d\<lparr>t_messages := map (set_message_flags acc folder u) (t_messages d)\<rparr>))) (\<lambda>n.
              if n > 0
              then io_bind (db_update (\<lambda>d. d\<lparr>t_threads := map (set_thread_flags mid u) (t_threads d)\<rparr>))
                     (\<lambda>_. io_ret 1)
              else io_ret 0)))"

definition apply_flag_updates :: "string \<Rightarrow> string \<Rightarrow> flag_update list \<Rightarrow> nat db_io" where
  "apply_flag_updates acc folder updates = io_sum (apply_flag_update acc folder) updates"

record applied_counts =
  apc_added :: nat
  apc_updated :: nat
  apc_deleted :: nat

definition apply_folder_delta :: "string \<Rightarrow> string \<Rightarrow> string \<Rightarrow> folder_delta \<Rightarrow> applied_counts db_io" where
  "apply_folder_delta acc label folder delta =
     io_bind (if fd_uidvalidity_changed delta then wipe_folder acc folder else io_ret ()) (\<lambda>_.
     io_bind (store_messages acc label (fd_added delta @ fd_updated delta)) (\<lambda>_.
     io_bind (delete_vanished acc folder (fd_vanished_uids delta)) (\<lambda>deleted.
     io_bind (apply_flag_updates acc folder (fd_flag_updates delta)) (\<lambda>flagged.
     io_ret \<lparr>apc_added = length (fd_added delta), apc_updated = length (fd_updated delta) + flagged,
             apc_deleted = deleted\<rparr>))))"

section \<open>Single messages\<close>

definition message_row_of :: "string \<Rightarrow> string \<Rightarrow> db \<Rightarrow> message_row option" where
  "message_row_of acc mid d = find (\<lambda>r. ms_account r = acc \<and> ms_id r = mid) (t_messages d)"

definition get_folder_uid_for_message :: "string \<Rightarrow> string \<Rightarrow> (string \<times> u32) option db_io" where
  "get_folder_uid_for_message acc mid =
     db_query (\<lambda>d. case message_row_of acc mid d of
       None \<Rightarrow> None
     | Some r \<Rightarrow>
         (case (mc_imap_folder (ms_content r), mc_imap_uid (ms_content r)) of
            (Some folder, Some uid) \<Rightarrow> if 0 \<le> uid \<and> uid < 2 ^ 32 then Some (folder, word_of_int uid) else None
          | _ \<Rightarrow> None))"

definition get_thread_id_for_message :: "string \<Rightarrow> string \<Rightarrow> string option db_io" where
  "get_thread_id_for_message acc mid = db_query (\<lambda>d. map_option ms_thread (message_row_of acc mid d))"

definition list_local_uids :: "string \<Rightarrow> string \<Rightarrow> u32 list db_io" where
  "list_local_uids acc folder =
     db_query (\<lambda>d. map word_of_int (List.map_filter (\<lambda>r. mc_imap_uid (ms_content r))
       (filter (\<lambda>r. ms_account r = acc \<and> mc_imap_folder (ms_content r) = Some folder) (t_messages d))))"

definition map_message :: "string \<Rightarrow> string \<Rightarrow> (message_content \<Rightarrow> message_content) \<Rightarrow> db \<Rightarrow> db" where
  "map_message acc mid f d = d\<lparr>t_messages := map (\<lambda>r.
     if ms_account r = acc \<and> ms_id r = mid then r\<lparr>ms_content := f (ms_content r)\<rparr> else r) (t_messages d)\<rparr>"

definition map_thread :: "string \<Rightarrow> string \<Rightarrow> (thread_content \<Rightarrow> thread_content) \<Rightarrow> db \<Rightarrow> db" where
  "map_thread acc tid f d = d\<lparr>t_threads := map (\<lambda>r.
     if th_account r = acc \<and> th_id r = tid then r\<lparr>th_content := f (th_content r)\<rparr> else r) (t_threads d)\<rparr>"

definition set_message_snippet :: "string \<Rightarrow> string \<Rightarrow> string \<Rightarrow> unit db_io" where
  "set_message_snippet acc mid snippet =
     db_transaction
       (io_bind (db_stmt (\<lambda>d. (map_option ms_thread (message_row_of acc mid d),
            map_message acc mid (\<lambda>c. c\<lparr>mc_snippet := Some snippet\<rparr>) d))) (\<lambda>tid.
        case tid of
          None \<Rightarrow> io_ret ()
        | Some t \<Rightarrow> db_update (map_thread acc t (\<lambda>c. c\<lparr>tc_snippet := Some snippet\<rparr>))))"

definition raise_flags :: "bool \<Rightarrow> bool \<Rightarrow> message_content \<Rightarrow> message_content" where
  "raise_flags enc sig c = c\<lparr>mc_is_encrypted := (if enc \<and> mc_is_encrypted c = 0 then 1 else mc_is_encrypted c),
     mc_is_signed := (if sig \<and> mc_is_signed c = 0 then 1 else mc_is_signed c)\<rparr>"

definition raise_thread_flags :: "bool \<Rightarrow> bool \<Rightarrow> thread_content \<Rightarrow> thread_content" where
  "raise_thread_flags enc sig c = c\<lparr>tc_is_encrypted := (if enc \<and> tc_is_encrypted c = 0 then 1 else tc_is_encrypted c),
     tc_is_signed := (if sig \<and> tc_is_signed c = 0 then 1 else tc_is_signed c)\<rparr>"

text \<open>One statement per flag that is set.\<close>

definition when_set :: "bool \<Rightarrow> (db \<Rightarrow> db) \<Rightarrow> unit db_io" where
  "when_set b u = (if b then db_update u else io_ret ())"

definition set_message_crypto_flags :: "string \<Rightarrow> string \<Rightarrow> bool \<Rightarrow> bool \<Rightarrow> unit db_io" where
  "set_message_crypto_flags acc mid has_ciphertext has_signed_part =
     (let enc = (has_ciphertext \<and> \<not> has_signed_part); sig = has_signed_part
      in if \<not> enc \<and> \<not> sig then io_ret ()
         else db_transaction
           (io_bind (when_set enc (map_message acc mid (raise_flags True False))) (\<lambda>_.
            io_bind (when_set sig (map_message acc mid (raise_flags False True))) (\<lambda>_.
            io_bind (db_query (\<lambda>d. map_option ms_thread (message_row_of acc mid d))) (\<lambda>tid.
            case tid of
              None \<Rightarrow> io_ret ()
            | Some t \<Rightarrow>
                io_bind (when_set enc (map_thread acc t (raise_thread_flags True False))) (\<lambda>_.
                when_set sig (map_thread acc t (raise_thread_flags False True))))))))"

fun io_collect :: "('a \<Rightarrow> ('s, 'e, 'b list) io) \<Rightarrow> 'a list \<Rightarrow> ('s, 'e, 'b list) io" where
  "io_collect f [] = io_ret []"
| "io_collect f (x # xs) = io_bind (f x) (\<lambda>ys. io_bind (io_collect f xs) (\<lambda>zs. io_ret (ys @ zs)))"

definition get_uncached_body_message_ids :: "string \<Rightarrow> string list \<Rightarrow> string list db_io" where
  "get_uncached_body_message_ids acc ids =
     io_collect (\<lambda>chunk. db_query (\<lambda>d. map ms_id (filter (\<lambda>r. ms_account r = acc \<and> ms_id r \<in> set chunk \<and>
       mc_body_cached (ms_content r) = 0) (t_messages d)))) (chunks 500 ids)"

end
