(* ===== verification/Engine.thy ===== *)
theory Engine
  imports Messages Labels Sync_State
begin

text \<open>
  \<open>sync_engine/engine.rs\<close>: the replay of queued operations, sending, the circuit breaker and a
  sync round, over the database, the mail source and the events sent to the window.

  Code that the engine calls and that has no model of its own is a field of \<open>services\<close>: building
  the MIME text, the cryptographic backends and the file system. The log
  lines and the extraction of contacts, whose results the engine ignores, are left out.
\<close>

section \<open>The state of the engine\<close>

record breaker_state =
  bs_failures :: u32
  bs_cooldown_until :: int

datatype event =
    DeltaEvent (ev_op: string) (ev_table: string) (ev_account: string) (ev_label: string) (ev_count: int)
  | NewMailEvent (ev_account: string) (ev_folder: string) (ev_count: int) (ev_message_ids: "string list")
  | StatusEvent (ev_account: string) (ev_state: string) (ev_detail: "int option")
  | QueueEvent (ev_account: string) (ev_pending: int)
  | SendResultEvent (ev_account: string) (ev_draft: string) (ev_success: bool) (ev_error: "string option")

record 'w engine =
  en_db :: db
  en_world :: 'w
  en_breakers :: "string \<Rightarrow> breaker_state option"
  en_events :: "event list"

type_synonym ('w, 'e, 'a) eng = "('w engine, 'e, 'a) io"

definition on_db :: "('d \<Rightarrow> 'r \<times> 'd) \<Rightarrow> ('d \<Rightarrow> 's \<Rightarrow> 's) \<Rightarrow> ('s \<Rightarrow> 'd) \<Rightarrow> 's \<Rightarrow> 'r \<times> 's" where
  "on_db f put get s = (case f (get s) of (r, d) \<Rightarrow> (r, put d s))"

definition in_db :: "'a db_io \<Rightarrow> ('w, string, 'a) eng" where
  "in_db m = on_db m (\<lambda>d s. s\<lparr>en_db := d\<rparr>) en_db"

definition in_src :: "('w, 'e, 'a) io \<Rightarrow> ('w, 'e, 'a) eng" where
  "in_src m = on_db m (\<lambda>w s. s\<lparr>en_world := w\<rparr>) en_world"

definition emit :: "event \<Rightarrow> ('w, 'e, unit) eng" where
  "emit ev s = (Returned (Inr ()), s\<lparr>en_events := en_events s @ [ev]\<rparr>)"

text \<open>\<open>match r.await { Ok(..) .. Err(..) .. }\<close>: the outcome as a value; a panic goes on.\<close>

definition io_try :: "('s, 'e, 'a) io \<Rightarrow> ('s, 'x, 'e + 'a) io" where
  "io_try m s =
     (case m s of (Panicked, s') \<Rightarrow> (Panicked, s') | (Returned r, s') \<Rightarrow> (Returned (Inr r), s'))"

definition unix_now :: "('w, 'e, int) eng" where
  "unix_now = io_bind (io_try (in_db (db_query db_now))) (\<lambda>r. io_ret (unwrap_or 0 r))"

section \<open>Encryption granularity\<close>

datatype encryption_granularity = WholeMessage | BodyInlineAndPerAttachment | BodyInlineAndMergedAttachments

definition granularity_from_db_str :: "string option \<Rightarrow> encryption_granularity" where
  "granularity_from_db_str s =
     (if s = Some ''body_inline_per_attachment'' then BodyInlineAndPerAttachment
      else if s = Some ''body_inline_merged_attachments'' then BodyInlineAndMergedAttachments
      else WholeMessage)"

definition granularity_as_db_str :: "encryption_granularity \<Rightarrow> string" where
  "granularity_as_db_str g =
     (case g of WholeMessage \<Rightarrow> ''whole_message''
      | BodyInlineAndPerAttachment \<Rightarrow> ''body_inline_per_attachment''
      | BodyInlineAndMergedAttachments \<Rightarrow> ''body_inline_merged_attachments'')"

section \<open>Small reads of the database\<close>

definition get_crypto_granularity :: "string \<Rightarrow> string option db_io" where
  "get_crypto_granularity acc =
     db_query (\<lambda>d. Option.bind (t_accounts d acc) ac_crypto_granularity)"

text \<open>\<open>fetch_one\<close> fails when there is no row.\<close>

definition get_email_and_method :: "string \<Rightarrow> (string \<times> string option) db_io" where
  "get_email_and_method acc =
     io_bind (db_query (\<lambda>d. t_accounts d acc)) (\<lambda>row.
     case row of
       Some r \<Rightarrow> io_ret (ac_email r, ac_crypto_method r)
     | None \<Rightarrow> io_fail ''no rows returned by a query that expected to return at least one row'')"

definition get_bool :: "string \<Rightarrow> bool option db_io" where
  "get_bool key = db_query (\<lambda>d. map_option (\<lambda>v. v = ''true'') (t_settings d key))"

definition save_sent_copy :: "string \<Rightarrow> bool option db_io" where
  "save_sent_copy acc = get_bool (''account.'' @ acc @ ''.save_sent_copy'')"

definition touch_last_sync :: "string \<Rightarrow> unit db_io" where
  "touch_last_sync acc = db_update (\<lambda>d. d\<lparr>t_accounts := (t_accounts d)(acc :=
     map_option (\<lambda>r. r\<lparr>ac_last_sync_at := Some (db_now d)\<rparr>) (t_accounts d acc))\<rparr>)"

section \<open>Services\<close>

type_synonym path = "string list"

record 'w services =
  sv_build_mime :: "send_draft \<Rightarrow> encryption_granularity \<Rightarrow> ('w, string, u8 list) io"
  sv_crypto_backend :: "standard \<Rightarrow> string \<Rightarrow> string + unit"
  sv_default_signing_key :: "string \<Rightarrow> standard \<Rightarrow> ('w, string, string option) io"
  sv_apply_crypto :: "standard \<Rightarrow> u8 list \<Rightarrow> send_draft \<Rightarrow> string \<Rightarrow> string option
     \<Rightarrow> ('w, string, u8 list) io"
  sv_canonicalize :: "path \<Rightarrow> 'w \<Rightarrow> path option"
  sv_remove_dir_all :: "path \<Rightarrow> ('w, string, unit) io"
  sv_data_dir :: path

section \<open>Cleaning up after a send\<close>

definition valid_draft_id :: "string \<Rightarrow> bool" where
  "valid_draft_id i \<longleftrightarrow>
     i \<noteq> [] \<and> i \<noteq> ''.'' \<and> i \<noteq> ''..'' \<and> CHR ''/'' \<notin> set i \<and> CHR 0x5C \<notin> set i"

definition cleanup_attachment_files :: "'w services \<Rightarrow> string \<Rightarrow> ('w, string, unit) io" where
  "cleanup_attachment_files sv draft_id =
     (let root = sv_data_dir sv @ [''outbox-attachments'']; dir = root @ [draft_id]
      in if \<not> valid_draft_id draft_id
         then io_fail (''invalid draft_id for attachment cleanup: '' @ draft_id)
         else (\<lambda>w. case sv_canonicalize sv root w of
           None \<Rightarrow> io_ret () w
         | Some canonical_root \<Rightarrow>
             (case sv_canonicalize sv dir w of
                None \<Rightarrow> io_ret () w
              | Some canonical_target \<Rightarrow>
                  if take (length canonical_root) canonical_target \<noteq> canonical_root
                  then io_fail ''attachment cleanup path escapes staging root'' w
                  else sv_remove_dir_all sv dir w)))"

definition mail_folder_to_remote :: "mail_folder \<Rightarrow> remote_folder" where
  "mail_folder_to_remote f =
     \<lparr>rf_remote_id = mf_remote_id f, rf_name = mf_name f, rf_delimiter = opt_or ''/'' (mf_delimiter f),
      rf_special_use = mf_imap_special_use f, rf_role = mf_role f, rf_parent_id = mf_parent_id f,
      rf_exists = 0, rf_unseen = 0\<rparr>"

section \<open>Sending\<close>

text \<open>\<open>{:?}\<close> of a string, for the characters that a column value has.\<close>

definition debug_char :: "char \<Rightarrow> string" where
  "debug_char c = (if c = CHR 0x22 \<or> c = CHR 0x5C then [CHR 0x5C, c]
     else if c = CHR 0x0A then [CHR 0x5C, CHR ''n''] else if c = CHR 0x0D then [CHR 0x5C, CHR ''r'']
     else if c = CHR 0x09 then [CHR 0x5C, CHR ''t''] else [c])"

definition debug_option :: "string option \<Rightarrow> string" where
  "debug_option x = (case x of None \<Rightarrow> ''None''
     | Some s \<Rightarrow> ''Some('' @ [CHR 0x22] @ concat (map debug_char s) @ [CHR 0x22] @ '')'')"

text \<open>Every failure before the transport: the event first, then the error.\<close>

definition send_failed :: "string \<Rightarrow> send_draft \<Rightarrow> source_error \<Rightarrow> ('w, source_error, 'a) eng" where
  "send_failed acc draft e =
     io_bind (emit (SendResultEvent acc (dr_draft_id draft) False (Some (source_error_string e))))
       (\<lambda>_. io_fail e)"

definition or_send_failed :: "string \<Rightarrow> send_draft \<Rightarrow> string \<Rightarrow> ('w, string, 'a) eng
    \<Rightarrow> ('w, source_error, 'a) eng" where
  "or_send_failed acc draft context m =
     io_bind (io_try m) (\<lambda>r.
     case r of Inr x \<Rightarrow> io_ret x | Inl e \<Rightarrow> send_failed acc draft (Other (context @ e)))"

definition send_granularity :: "string \<Rightarrow> send_draft \<Rightarrow> ('w, source_error, encryption_granularity) eng" where
  "send_granularity acc draft =
     (if dr_encrypt draft
      then io_bind (or_send_failed acc draft ''get_crypto_granularity: '' (in_db (get_crypto_granularity acc)))
             (\<lambda>s. io_ret (granularity_from_db_str s))
      else io_ret WholeMessage)"

definition no_crypto_method :: "string option \<Rightarrow> string" where
  "no_crypto_method m =
     ''account has no crypto method configured but the draft requested sign/encrypt; set a crypto method (PGP or S/MIME) in Preferences (crypto_method=''
     @ debug_option m @ '')''"

definition send_wrapped :: "'w services \<Rightarrow> string \<Rightarrow> send_draft \<Rightarrow> u8 list \<Rightarrow> string \<Rightarrow> standard
    \<Rightarrow> ('w, source_error, u8 list) eng" where
  "send_wrapped sv acc draft mime email std =
     io_bind (or_send_failed acc draft ''crypto_backend build: '' (io_lift (sv_crypto_backend sv std acc))) (\<lambda>_.
     io_bind (or_send_failed acc draft ''lookup default signing key: ''
                (in_src (sv_default_signing_key sv acc std))) (\<lambda>key.
     or_send_failed acc draft [] (in_src (sv_apply_crypto sv std mime draft email key))))"

definition send_crypto :: "'w services \<Rightarrow> string \<Rightarrow> send_draft \<Rightarrow> u8 list \<Rightarrow> ('w, source_error, u8 list) eng" where
  "send_crypto sv acc draft mime =
     (if dr_sign draft \<or> dr_encrypt draft
      then io_bind (or_send_failed acc draft ''lookup account email + crypto_method: ''
                      (in_db (get_email_and_method acc))) (\<lambda>(email, method).
           case crypto_method_standard (opt_or MethodNone (map_option crypto_method_from_db_str method)) of
             None \<Rightarrow> send_failed acc draft (Other (no_crypto_method method))
           | Some std \<Rightarrow> send_wrapped sv acc draft mime email std)
      else io_ret mime)"

definition send_transport :: "'w mail_source \<Rightarrow> string \<Rightarrow> send_draft \<Rightarrow> u8 list \<Rightarrow> ('w, source_error, unit) eng" where
  "send_transport src acc draft mime =
     io_bind (io_try (in_src (src_send src mime))) (\<lambda>r.
     case r of
       Inr _ \<Rightarrow> emit (SendResultEvent acc (dr_draft_id draft) True None)
     | Inl e \<Rightarrow> send_failed acc draft e)"

text \<open>Best effort from here on: whatever fails is only logged.\<close>

definition best_effort :: "('w, 'e, 'a) eng \<Rightarrow> ('w, 'x, unit) eng" where
  "best_effort m = io_bind (io_try m) (\<lambda>_. io_ret ())"

definition source_caps :: "'w mail_source \<Rightarrow> ('w, 'e, capabilities) eng" where
  "source_caps src s = (Returned (Inr (src_capabilities src (en_world s))), s)"

definition sent_append :: "'w mail_source \<Rightarrow> string \<Rightarrow> u8 list \<Rightarrow> ('w, 'e, unit) eng" where
  "sent_append src acc mime =
     io_bind (source_caps src) (\<lambda>caps.
     if cap_saves_sent_automatically caps then io_ret ()
     else io_bind (io_try (in_db (save_sent_copy acc))) (\<lambda>save.
       if unwrap_or None save = Some False then io_ret ()
       else io_bind (io_try (in_db (resolve_sent_folder acc))) (\<lambda>folder.
         case folder of
           Inr (Some f) \<Rightarrow> best_effort (in_src (src_append src (mail_folder_to_remote f) mime [SEEN]))
         | _ \<Rightarrow> io_ret ())))"

definition send_op :: "'w services \<Rightarrow> 'w mail_source \<Rightarrow> string \<Rightarrow> send_draft \<Rightarrow> ('w, source_error, unit) eng" where
  "send_op sv src acc draft =
     io_bind (send_granularity acc draft) (\<lambda>granularity.
     io_bind (or_send_failed acc draft ''build_mime: '' (in_src (sv_build_mime sv draft granularity))) (\<lambda>plain.
     io_bind (send_crypto sv acc draft plain) (\<lambda>mime.
     io_bind (send_transport src acc draft mime) (\<lambda>_.
     io_bind (sent_append src acc mime) (\<lambda>_.
     best_effort (in_src (cleanup_attachment_files sv (dr_draft_id draft))))))))"

section \<open>Replaying the queue\<close>

definition dispatch :: "'w services \<Rightarrow> 'w mail_source \<Rightarrow> string \<Rightarrow> mutation_op \<Rightarrow> ('w, source_error, unit) eng" where
  "dispatch sv src acc op =
     (case op of
        Send draft \<Rightarrow> send_op sv src acc draft
      | _ \<Rightarrow> in_src (exec_via_source src op))"

definition replay_row :: "'w services \<Rightarrow> 'w mail_source \<Rightarrow> string \<Rightarrow> pending_operation \<Rightarrow> ('w, 'e, unit) eng" where
  "replay_row sv src acc row =
     (case from_pending draft_of_json row of
        Inl _ \<Rightarrow> io_ret ()
      | Inr op \<Rightarrow>
          io_bind (io_try (dispatch sv src acc op)) (\<lambda>r.
          case r of
            Inr _ \<Rightarrow> best_effort (in_db (mark_completed (pop_id row)))
          | Inl e \<Rightarrow> best_effort (in_db (mark_failed (pop_id row) (source_error_string e)))))"

definition emit_queue :: "string \<Rightarrow> ('w, 'e, unit) eng" where
  "emit_queue acc =
     io_bind (io_try (in_db (pending_count_for_account acc))) (\<lambda>n.
     emit (QueueEvent acc (int (unwrap_or 0 n))))"

definition run_replay_round :: "'w services \<Rightarrow> 'w mail_source \<Rightarrow> string \<Rightarrow> ('w, 'e, unit) eng" where
  "run_replay_round sv src acc =
     io_bind (best_effort (in_db (compact_queue acc))) (\<lambda>_.
     io_bind (io_try (in_db (dequeue_pending_for_account acc 50))) (\<lambda>r.
     case r of
       Inl _ \<Rightarrow> io_ret ()
     | Inr ops \<Rightarrow> io_bind (io_each (replay_row sv src acc) ops) (\<lambda>_. emit_queue acc)))"

section \<open>The circuit breaker\<close>

definition BREAKER_THRESHOLD_SHORT :: u32 where "BREAKER_THRESHOLD_SHORT = 3"
definition BREAKER_THRESHOLD_LONG :: u32 where "BREAKER_THRESHOLD_LONG = 5"
definition BREAKER_COOLDOWN_SHORT_SECS :: int where "BREAKER_COOLDOWN_SHORT_SECS = 15"
definition BREAKER_COOLDOWN_LONG_SECS :: int where "BREAKER_COOLDOWN_LONG_SECS = 60"

definition saturating_succ :: "u32 \<Rightarrow> u32" where
  "saturating_succ n = (if n = - 1 then n else n + 1)"

definition cooldown_of :: "breaker_state option \<Rightarrow> int \<Rightarrow> int option" where
  "cooldown_of b now =
     (case b of
        None \<Rightarrow> None
      | Some st \<Rightarrow> if now < bs_cooldown_until st then Some (bs_cooldown_until st) else None)"

definition breaker_failed :: "int \<Rightarrow> breaker_state option \<Rightarrow> breaker_state" where
  "breaker_failed now b =
     (let st = opt_or \<lparr>bs_failures = 0, bs_cooldown_until = 0\<rparr> b;
          st = st\<lparr>bs_failures := saturating_succ (bs_failures st)\<rparr>
      in if bs_failures st \<ge> BREAKER_THRESHOLD_LONG
         then st\<lparr>bs_cooldown_until := now + BREAKER_COOLDOWN_LONG_SECS\<rparr>
         else if bs_failures st \<ge> BREAKER_THRESHOLD_SHORT
         then st\<lparr>bs_cooldown_until := now + BREAKER_COOLDOWN_SHORT_SECS\<rparr>
         else st)"

definition breaker_cooldown :: "string \<Rightarrow> ('w, 'e, int option) eng" where
  "breaker_cooldown acc =
     io_bind unix_now (\<lambda>now s. (Returned (Inr (cooldown_of (en_breakers s acc) now)), s))"

definition breaker_record_failure :: "string \<Rightarrow> ('w, 'e, unit) eng" where
  "breaker_record_failure acc =
     io_bind unix_now (\<lambda>now s. (Returned (Inr ()),
       s\<lparr>en_breakers := (en_breakers s)(acc := Some (breaker_failed now (en_breakers s acc)))\<rparr>))"

definition breaker_record_success :: "string \<Rightarrow> ('w, 'e, unit) eng" where
  "breaker_record_success acc s = (Returned (Inr ()), s\<lparr>en_breakers := (en_breakers s)(acc := None)\<rparr>)"

section \<open>A sync round\<close>

datatype realtime_strategy = Idle | Poll

definition pick_realtime_strategy :: "capabilities \<Rightarrow> bool \<Rightarrow> realtime_strategy" where
  "pick_realtime_strategy caps supports_idle = (if cap_idle caps \<and> supports_idle then Idle else Poll)"

definition load_cursor :: "'w mail_source \<Rightarrow> string \<Rightarrow> string \<Rightarrow> ('w, 'e, cursor) eng" where
  "load_cursor src acc folder_path s =
     (case (case src_cursor_table src of
              NoCursorTable \<Rightarrow> (initial_imap, en_db s)
            | ImapCursorTable \<Rightarrow> get_imap_cursor acc folder_path (en_db s)
            | EasCursorTable \<Rightarrow> get_eas_cursor acc folder_path (en_db s)) of
        (c, d) \<Rightarrow> (Returned (Inr c), s\<lparr>en_db := d\<rparr>))"

definition emit_folder_delta :: "string \<Rightarrow> string \<Rightarrow> string option \<Rightarrow> applied_counts \<Rightarrow> remote_message list
    \<Rightarrow> ('w, 'e, unit) eng" where
  "emit_folder_delta acc label role counts added =
     (if apc_added counts > 0 \<or> apc_updated counts > 0 \<or> apc_deleted counts > 0
      then io_bind (emit (DeltaEvent ''persist'' ''messages'' acc label (int (apc_added counts)))) (\<lambda>_.
           if role = Some ''inbox''
           then emit (NewMailEvent acc label (int (apc_added counts)) (map (remote_id acc) added))
           else io_ret ())
      else io_ret ())"

definition advance_cursor :: "string \<Rightarrow> string \<Rightarrow> cursor \<Rightarrow> unit db_io" where
  "advance_cursor acc folder_path c =
     (case c of
        ImapCursor v u m \<Rightarrow> advance_imap_cursor acc folder_path v u m
      | EasCursor cid key \<Rightarrow> advance_eas_cursor acc folder_path cid key)"

definition label_of :: "string \<Rightarrow> remote_folder \<Rightarrow> string" where
  "label_of acc f = acc @ '':'' @ rf_remote_id f"

definition apply_folder_and_emit :: "string \<Rightarrow> remote_folder \<Rightarrow> folder_delta \<Rightarrow> ('w, 'e, unit) eng" where
  "apply_folder_and_emit acc f delta =
     io_bind (io_try (in_db (apply_folder_delta acc (label_of acc f) (rf_remote_id f) delta))) (\<lambda>r.
     case r of
       Inl _ \<Rightarrow> io_ret ()
     | Inr counts \<Rightarrow>
         io_bind (best_effort (in_db (advance_cursor acc (rf_remote_id f) (fd_next_cursor delta)))) (\<lambda>_.
         emit_folder_delta acc (label_of acc f) (rf_role f) counts (fd_added delta)))"

definition sync_one_folder :: "'w mail_source \<Rightarrow> string \<Rightarrow> remote_folder \<Rightarrow> ('w, 'e, unit) eng" where
  "sync_one_folder src acc f =
     io_bind (load_cursor src acc (rf_remote_id f)) (\<lambda>c.
     io_bind (io_try (in_src (src_sync_folder src f c))) (\<lambda>r.
     case r of
       Inl _ \<Rightarrow> io_ret ()
     | Inr delta \<Rightarrow> apply_folder_and_emit acc f delta))"

definition inbox_folder :: "mail_folder \<Rightarrow> remote_folder" where
  "inbox_folder f = remote_folder_default
     \<lparr>rf_remote_id := mf_remote_id f, rf_name := mf_name f, rf_delimiter := opt_or ''/'' (mf_delimiter f),
      rf_role := Some ''inbox''\<rparr>"

definition run_inbox_push_sync :: "'w mail_source \<Rightarrow> string \<Rightarrow> ('w, 'e, unit) eng" where
  "run_inbox_push_sync src acc =
     io_bind (io_try (in_db (get_folder_by_role acc ''inbox''))) (\<lambda>r.
     case r of
       Inr (Some f) \<Rightarrow> sync_one_folder src acc (inbox_folder f)
     | _ \<Rightarrow> io_ret ())"

definition list_failed :: "string \<Rightarrow> source_error \<Rightarrow> ('w, string, unit) eng" where
  "list_failed acc e =
     io_bind (case e of
         RateLimited retry_after \<Rightarrow> best_effort (in_db (set_rate_limit acc retry_after))
       | _ \<Rightarrow> breaker_record_failure acc) (\<lambda>_.
     io_bind (emit (StatusEvent acc ''error'' None)) (\<lambda>_.
     io_fail (source_error_string e)))"

definition store_folders :: "string \<Rightarrow> string \<Rightarrow> remote_folder list \<Rightarrow> ('w, 'e, unit) eng" where
  "store_folders acc provider folders =
     io_bind (io_each (\<lambda>f. best_effort (in_db (upsert_folder_label acc provider f))) folders) (\<lambda>_.
     io_bind (best_effort (in_db (prune_stale_labels acc provider (map rf_remote_id folders)))) (\<lambda>_.
     emit (DeltaEvent ''sync'' ''labels'' acc [] 0)))"

definition receive_round :: "'w mail_source \<Rightarrow> string \<Rightarrow> string \<Rightarrow> ('w, string, unit) eng" where
  "receive_round src acc provider =
     io_bind (emit (StatusEvent acc ''syncing'' None)) (\<lambda>_.
     io_bind (io_try (in_src (src_list_folders src))) (\<lambda>r.
     case r of
       Inl e \<Rightarrow> list_failed acc e
     | Inr folders \<Rightarrow>
         io_bind (store_folders acc provider folders) (\<lambda>_.
         io_bind (io_each (sync_one_folder src acc) folders) (\<lambda>_.
         io_bind (best_effort (in_db (touch_last_sync acc))) (\<lambda>_.
         io_bind (breaker_record_success acc) (\<lambda>_.
         emit (StatusEvent acc ''idle'' None)))))))"

definition gated_round :: "'w mail_source \<Rightarrow> string \<Rightarrow> string \<Rightarrow> ('w, string, unit) eng" where
  "gated_round src acc provider =
     io_bind (io_try (in_db (get_rate_limit acc))) (\<lambda>limit.
     case unwrap_or None limit of
       Some retry_after \<Rightarrow> emit (StatusEvent acc ''rate_limited'' (Some retry_after))
     | None \<Rightarrow>
         io_bind (breaker_cooldown acc) (\<lambda>cooldown.
         case cooldown of
           Some cooldown_until \<Rightarrow> emit (StatusEvent acc ''error'' (Some cooldown_until))
         | None \<Rightarrow> receive_round src acc provider))"

definition run_sync_round :: "'w services \<Rightarrow> 'w mail_source \<Rightarrow> string \<Rightarrow> string \<Rightarrow> ('w, string, unit) eng" where
  "run_sync_round sv src acc provider =
     io_bind (run_replay_round sv src acc) (\<lambda>_. gated_round src acc provider)"

end
