(* ===== verification/Engine_Send.thy ===== *)
theory Engine_Send
  imports Engine
begin

text \<open>
  What \<open>send_op\<close> guarantees. The interface is a mail source that records what it was asked to
  transmit and whether it accepted it; its laws are those of the source and the services with such
  a record beside their own state.
\<close>

section \<open>Quiet steps and reporting phases\<close>

lemma io_try_cases:
  "io_try m s = (r, s') \<longleftrightarrow>
     (r = Panicked \<and> m s = (Panicked, s')) \<or> (\<exists>x. r = Returned (Inr x) \<and> m s = (Returned x, s'))"
  by (cases "m s"; cases "fst (m s)") (auto simp: io_try_def)

lemma io_try_never_fails: "io_try m s \<noteq> (Returned (Inl e), s')"
  by (auto simp: io_try_def split: prod.splits panicky.splits)

lemma io_bind_cases:
  "io_bind m f s = (r, s'') \<longleftrightarrow>
     (m s = (Panicked, s'') \<and> r = Panicked) \<or> (\<exists>e. m s = (Returned (Inl e), s'') \<and> r = Returned (Inl e)) \<or>
     (\<exists>x s'. m s = (Returned (Inr x), s') \<and> f x s' = (r, s''))"
  by (auto simp: io_bind_def split: prod.splits panicky.splits sum.splits)

definition never_fails :: "('s, 'e, 'a) io \<Rightarrow> bool" where
  "never_fails m \<longleftrightarrow> (\<forall>s e s'. m s \<noteq> (Returned (Inl e), s'))"

named_theorems never_fails_intros

lemma never_fails_try [never_fails_intros]: "never_fails (io_try m)"
  by (simp add: never_fails_def io_try_never_fails)

lemma never_fails_ret [never_fails_intros]: "never_fails (io_ret x)"
  by (simp add: never_fails_def io_ret_def)

lemma never_fails_emit [never_fails_intros]: "never_fails (emit e)"
  by (simp add: never_fails_def emit_def)

lemma never_fails_bind [never_fails_intros]:
  "never_fails m \<Longrightarrow> (\<And>x. never_fails (f x)) \<Longrightarrow> never_fails (io_bind m f)"
  by (auto simp: never_fails_def io_bind_cases)

lemma never_fails_best_effort [never_fails_intros]: "never_fails (best_effort m)"
  unfolding best_effort_def by (intro never_fails_intros)

lemma never_fails_caps [never_fails_intros]: "never_fails (source_caps src)"
  by (simp add: never_fails_def source_caps_def)

lemma never_fails_each [never_fails_intros]: "(\<And>x. never_fails (f x)) \<Longrightarrow> never_fails (io_each f xs)"
  by (induction xs) (auto intro: never_fails_intros)

lemma never_fails_sent_append [never_fails_intros]: "never_fails (sent_append src acc mime)"
  unfolding sent_append_def
  by (auto intro!: never_fails_intros split: sum.split option.split)

section \<open>The three parts of a send\<close>

definition send_prepare :: "'w services \<Rightarrow> string \<Rightarrow> send_draft \<Rightarrow> ('w, source_error, u8 list) eng" where
  "send_prepare sv acc draft =
     io_bind (send_granularity acc draft) (\<lambda>granularity.
     io_bind (or_send_failed acc draft ''build_mime: '' (in_src (sv_build_mime sv draft granularity)))
       (send_crypto sv acc draft))"

definition send_finish :: "'w services \<Rightarrow> 'w mail_source \<Rightarrow> string \<Rightarrow> send_draft \<Rightarrow> u8 list
    \<Rightarrow> ('w, source_error, unit) eng" where
  "send_finish sv src acc draft mime =
     io_bind (sent_append src acc mime)
       (\<lambda>_. best_effort (in_src (cleanup_attachment_files sv (dr_draft_id draft))))"

lemma send_op_parts:
  "send_op sv src acc draft = io_bind (send_prepare sv acc draft) (\<lambda>mime.
     io_bind (send_transport src acc draft mime) (\<lambda>_. send_finish sv src acc draft mime))"
  by (simp add: send_op_def send_prepare_def send_finish_def io_bind_assoc)

text \<open>
  The bytes of a draft that asks for protection come out of the cryptographic backend, for the
  method and the address in the account's row.
\<close>

definition protected_mime :: "'w services \<Rightarrow> db \<Rightarrow> string \<Rightarrow> send_draft \<Rightarrow> u8 list \<Rightarrow> bool" where
  "protected_mime sv d acc draft mime \<longleftrightarrow> (\<exists>row std plain key w w'. t_accounts d acc = Some row \<and>
     crypto_method_standard (opt_or MethodNone (map_option crypto_method_from_db_str (ac_crypto_method row)))
       = Some std \<and>
     sv_apply_crypto sv std plain draft (ac_email row) key w = (Returned (Inr mime), w'))"

lemma in_src_cases: "in_src m s = (r, s') \<longleftrightarrow> (\<exists>w. m (en_world s) = (r, w) \<and> s' = s\<lparr>en_world := w\<rparr>)"
  by (auto simp: in_src_def on_db_def split: prod.splits)

lemma in_db_cases: "in_db m s = (r, s') \<longleftrightarrow> (\<exists>d. m (en_db s) = (r, d) \<and> s' = s\<lparr>en_db := d\<rparr>)"
  by (auto simp: in_db_def on_db_def split: prod.splits)

lemma send_failed_not_Inr: "send_failed acc draft e s \<noteq> (Returned (Inr x), s')"
  by (simp add: send_failed_def io_bind_def emit_def io_fail_def)

lemma or_send_failed_Inr:
  "or_send_failed acc draft context m s = (Returned (Inr x), s') \<longleftrightarrow> m s = (Returned (Inr x), s')"
proof (cases "m s")
  case (Pair r t)
  then show ?thesis
    by (cases r; cases "case r of Returned y \<Rightarrow> y"; simp add: or_send_failed_def io_bind_def io_try_def
        send_failed_not_Inr io_ret_def)
qed

lemma same_tables_accounts: "same_tables d d' \<Longrightarrow> t_accounts d' = t_accounts d"
  by (cases d; cases d') (simp add: same_tables_def)

lemma email_and_method_Inr:
  assumes "get_email_and_method acc d = (Returned (Inr (email, mth)), d')"
  shows "\<exists>row. t_accounts d acc = Some row \<and> email = ac_email row \<and> mth = ac_crypto_method row"
  using assms
  by (auto simp: get_email_and_method_def io_bind_cases io_ret_def io_fail_def dest!: db_query_Inr
      split: option.splits) (metis)

lemma send_crypto_protected:
  assumes "send_crypto sv acc draft plain s = (Returned (Inr mime), s')" and "dr_sign draft \<or> dr_encrypt draft"
  shows "protected_mime sv (en_db s) acc draft mime"
proof -
  obtain email mth s1 std where row: "in_db (get_email_and_method acc) s = (Returned (Inr (email, mth)), s1)"
      and std: "crypto_method_standard (opt_or MethodNone (map_option crypto_method_from_db_str mth)) = Some std"
      and wrap: "send_wrapped sv acc draft plain email std s1 = (Returned (Inr mime), s')"
    using assms by (auto simp: send_crypto_def io_bind_cases or_send_failed_Inr send_failed_not_Inr
        split: option.splits)
  from wrap obtain key w w' where "sv_apply_crypto sv std plain draft email key w = (Returned (Inr mime), w')"
    by (auto simp: send_wrapped_def io_bind_cases or_send_failed_Inr in_src_cases)
  with row std show ?thesis
    by (auto simp: protected_mime_def in_db_cases dest!: email_and_method_Inr) blast
qed

lemma granularity_accounts:
  assumes "send_granularity acc draft s = (Returned (Inr g), s')"
  shows "t_accounts (en_db s') = t_accounts (en_db s)"
  using assms
  by (auto simp: send_granularity_def io_bind_cases or_send_failed_Inr in_db_cases io_ret_def
      get_crypto_granularity_def same_tables_accounts dest!: db_query_same split: if_splits)

lemma prepare_protected:
  assumes "send_prepare sv acc draft s = (Returned (Inr mime), s')" and want: "dr_sign draft \<or> dr_encrypt draft"
  shows "protected_mime sv (en_db s) acc draft mime"
proof -
  obtain g s1 plain s2 where g: "send_granularity acc draft s = (Returned (Inr g), s1)"
      and b: "in_src (sv_build_mime sv draft g) s1 = (Returned (Inr plain), s2)"
      and c: "send_crypto sv acc draft plain s2 = (Returned (Inr mime), s')"
    using assms(1) by (auto simp: send_prepare_def io_bind_cases or_send_failed_Inr)
  from b have "en_db s2 = en_db s1" by (auto simp: in_src_cases)
  with granularity_accounts [OF g] send_crypto_protected [OF c want] show ?thesis
    by (simp add: protected_mime_def)
qed

section \<open>A recorded transport\<close>

text \<open>The record is kept by everything but \<open>send\<close>, which appends what it was given and its outcome.\<close>

definition keeps_record :: "('w \<Rightarrow> 'l) \<Rightarrow> ('w, 'e, 'a) io \<Rightarrow> bool" where
  "keeps_record sent m \<longleftrightarrow> (\<forall>w. sent (snd (m w)) = sent w)"

locale recorded_transport =
  fixes sent :: "'w \<Rightarrow> (u8 list \<times> bool) list"
    and src :: "'w mail_source"
    and sv :: "'w services"
  assumes send_recorded: "src_send src mime w = (r, w') \<Longrightarrow> sent w' = sent w @ [(mime, r = Returned (Inr ()))]"
    and append_keeps: "keeps_record sent (src_append src f mime flags)"
    and build_keeps: "keeps_record sent (sv_build_mime sv draft g)"
    and key_keeps: "keeps_record sent (sv_default_signing_key sv acc std)"
    and crypto_keeps: "keeps_record sent (sv_apply_crypto sv std mime draft email key)"
    and remove_keeps: "keeps_record sent (sv_remove_dir_all sv p)"
begin

text \<open>A quiet step neither transmits nor reports.\<close>

definition quiet :: "('w, 'e, 'a) eng \<Rightarrow> bool" where
  "quiet = io_keeps (\<lambda>s s'. sent (en_world s') = sent (en_world s) \<and> en_events s' = en_events s)"

lemma quiet_bind: "quiet m \<Longrightarrow> (\<And>x. quiet (f x)) \<Longrightarrow> quiet (io_bind m f)"
  unfolding quiet_def by (rule io_keeps_bind) auto

lemma quiet_ret: "quiet (io_ret x)" "quiet (io_fail e)" "quiet (io_lift r)"
  by (simp_all add: quiet_def io_keeps_def io_ret_def io_fail_def io_lift_def)

lemma quiet_try: "quiet m \<Longrightarrow> quiet (io_try m)"
  by (auto simp: quiet_def io_keeps_def io_try_def split: prod.splits panicky.splits) (metis snd_conv)+

lemma quiet_in_db: "quiet (in_db m)"
  by (simp add: quiet_def io_keeps_def in_db_def on_db_def split: prod.splits)

lemma quiet_in_src: "keeps_record sent m \<Longrightarrow> quiet (in_src m)"
  by (auto simp: quiet_def io_keeps_def in_src_def on_db_def keeps_record_def split: prod.splits) (metis snd_conv)

lemma quiet_caps: "quiet (source_caps s)"
  by (simp add: quiet_def io_keeps_def source_caps_def)

lemma quiet_best_effort: "quiet m \<Longrightarrow> quiet (best_effort m)"
  unfolding best_effort_def by (intro quiet_bind quiet_try quiet_ret)

lemmas quiet_intros = quiet_bind quiet_ret quiet_try quiet_in_db quiet_in_src quiet_caps quiet_best_effort
  append_keeps build_keeps key_keeps crypto_keeps

lemma cleanup_keeps: "keeps_record sent (cleanup_attachment_files sv i)"
  using remove_keeps
  by (auto simp: keeps_record_def cleanup_attachment_files_def io_ret_def io_fail_def Let_def split: option.splits)

lemma quiet_sent_append: "quiet (sent_append src acc mime)"
  unfolding sent_append_def by (auto intro!: quiet_intros split: sum.split option.split)

text \<open>A reporting phase transmits nothing; when it fails it has reported the failure, once.\<close>

definition reported :: "string \<Rightarrow> send_draft \<Rightarrow> 'w engine \<Rightarrow> (source_error + 'a) panicky \<Rightarrow> 'w engine \<Rightarrow> bool" where
  "reported acc draft s r s' \<longleftrightarrow> sent (en_world s') = sent (en_world s) \<and>
     (\<forall>x. r = Returned (Inr x) \<longrightarrow> en_events s' = en_events s) \<and>
     (\<forall>e. r = Returned (Inl e) \<longrightarrow> en_events s' =
        en_events s @ [SendResultEvent acc (dr_draft_id draft) False (Some (source_error_string e))])"

definition reports :: "string \<Rightarrow> send_draft \<Rightarrow> ('w, source_error, 'a) eng \<Rightarrow> bool" where
  "reports acc draft m \<longleftrightarrow> (\<forall>s r s'. m s = (r, s') \<longrightarrow> reported acc draft s r s')"

lemma reportsD: "reports acc draft m \<Longrightarrow> m s = (r, s') \<Longrightarrow> reported acc draft s r s'"
  by (simp add: reports_def)

lemma reports_bind:
  assumes m: "reports acc draft m" and f: "\<And>x. reports acc draft (f x)"
  shows "reports acc draft (io_bind m f)"
  unfolding reports_def
proof (intro allI impI)
  fix s r s'' assume "io_bind m f s = (r, s'')"
  then consider "m s = (Panicked, s'')" "r = Panicked" | e where "m s = (Returned (Inl e), s'')" "r = Returned (Inl e)"
    | x s' where "m s = (Returned (Inr x), s')" "f x s' = (r, s'')"
    by (auto simp: io_bind_cases)
  then show "reported acc draft s r s''"
    by cases (use reportsD [OF m, of s] reportsD [OF f] in \<open>fastforce simp: reported_def\<close>)+
qed

lemma reports_ret: "reports acc draft (io_ret x)"
  by (simp add: reports_def reported_def io_ret_def)

lemma reports_failed: "reports acc draft (send_failed acc draft e)"
  by (auto simp: reports_def reported_def send_failed_def io_bind_def emit_def io_fail_def)

lemma reports_quiet: "quiet m \<Longrightarrow> never_fails m \<Longrightarrow> reports acc draft m"
  by (auto simp: reports_def reported_def quiet_def io_keeps_def never_fails_def) (metis snd_conv)+

lemma reports_or_failed: "quiet m \<Longrightarrow> reports acc draft (or_send_failed acc draft context m)"
  unfolding or_send_failed_def
  by (rule reports_bind) (auto intro: reports_quiet quiet_try never_fails_try reports_ret reports_failed
      split: sum.split)

lemmas reports_intros = reports_bind reports_ret reports_failed reports_or_failed quiet_intros

lemma reports_granularity: "reports acc draft (send_granularity acc draft)"
  unfolding send_granularity_def by (auto intro!: reports_intros)

lemma reports_crypto: "reports acc draft (send_crypto sv acc draft mime)"
  unfolding send_crypto_def send_wrapped_def by (auto intro!: reports_intros split: option.split prod.split)

lemma reports_prepare: "reports acc draft (send_prepare sv acc draft)"
  unfolding send_prepare_def by (intro reports_intros reports_granularity reports_crypto)

lemma finish_quiet: "quiet (send_finish sv src acc draft mime)"
  unfolding send_finish_def by (intro quiet_intros quiet_sent_append cleanup_keeps)

lemma finish_never_fails: "never_fails (send_finish sv src acc draft mime)"
  unfolding send_finish_def by (intro never_fails_intros)

lemma transport_recorded:
  assumes "send_transport src acc draft mime s = (Returned r, s')"
  shows "(r = Inr () \<and> sent (en_world s') = sent (en_world s) @ [(mime, True)] \<and>
      en_events s' = en_events s @ [SendResultEvent acc (dr_draft_id draft) True None]) \<or>
    (\<exists>e. r = Inl e \<and> sent (en_world s') = sent (en_world s) @ [(mime, False)] \<and>
      en_events s' = en_events s @ [SendResultEvent acc (dr_draft_id draft) False (Some (source_error_string e))])"
proof (cases "src_send src mime (en_world s)")
  case (Pair r0 w)
  with assms send_recorded [OF Pair] show ?thesis
    by (cases r0)
      (auto simp: send_transport_def io_bind_def io_try_def in_src_def on_db_def emit_def send_failed_def io_fail_def
        split: sum.splits)
qed

lemma send_op_outcome:
  assumes run: "send_op sv src acc draft s = (Returned r, s')"
  shows "(r = Inr () \<and> (\<exists>mime. sent (en_world s') = sent (en_world s) @ [(mime, True)]) \<and>
      en_events s' = en_events s @ [SendResultEvent acc (dr_draft_id draft) True None]) \<or>
    (\<exists>e. r = Inl e \<and> (sent (en_world s') = sent (en_world s) \<or>
        (\<exists>mime. sent (en_world s') = sent (en_world s) @ [(mime, False)])) \<and>
      en_events s' = en_events s @ [SendResultEvent acc (dr_draft_id draft) False (Some (source_error_string e))])"
proof -
  let ?fin = "\<lambda>mime. send_finish sv src acc draft mime"
  from run consider e where "send_prepare sv acc draft s = (Returned (Inl e), s')" "r = Inl e"
    | mime s1 e where "send_prepare sv acc draft s = (Returned (Inr mime), s1)"
        "send_transport src acc draft mime s1 = (Returned (Inl e), s')" "r = Inl e"
    | mime s1 s2 where "send_prepare sv acc draft s = (Returned (Inr mime), s1)"
        "send_transport src acc draft mime s1 = (Returned (Inr ()), s2)" "?fin mime s2 = (Returned r, s')"
    unfolding send_op_parts io_bind_cases by (auto simp: old.unit.exhaust)
  then show ?thesis
  proof cases
    case 1
    with reportsD [OF reports_prepare 1(1)] show ?thesis by (simp add: reported_def)
  next
    case 2
    with reportsD [OF reports_prepare 2(1)] transport_recorded [OF 2(2)] show ?thesis
      by (auto simp: reported_def)
  next
    case 3
    from finish_never_fails 3(3) have "r = Inr ()" by (cases r) (auto simp: never_fails_def)
    moreover have "sent (en_world s') = sent (en_world s2)" "en_events s' = en_events s2"
      using finish_quiet 3(3) by (auto simp: quiet_def io_keeps_def) (metis snd_conv)+
    ultimately show ?thesis
      using reportsD [OF reports_prepare 3(1)] transport_recorded [OF 3(2)] by (auto simp: reported_def)
  qed
qed

lemma send_op_protected:
  assumes run: "send_op sv src acc draft s = (r, s')" and want: "dr_sign draft \<or> dr_encrypt draft"
  shows "sent (en_world s') = sent (en_world s) \<or>
    (\<exists>mime b. sent (en_world s') = sent (en_world s) @ [(mime, b)] \<and> protected_mime sv (en_db s) acc draft mime)"
proof (cases "send_prepare sv acc draft s")
  case (Pair r0 s1)
  note keeps = reportsD [OF reports_prepare Pair]
  show ?thesis
  proof (cases "\<exists>mime. r0 = Returned (Inr mime)")
    case False
    then have "s' = s1" using run Pair
      by (cases r0) (auto simp: send_op_parts io_bind_def split: sum.splits)
    with keeps show ?thesis by (simp add: reported_def)
  next
    case True
    then obtain mime where r0: "r0 = Returned (Inr mime)" by blast
    have prot: "protected_mime sv (en_db s) acc draft mime"
      by (rule prepare_protected [OF _ want]) (use Pair r0 in simp)
    obtain r1 s2 where t: "send_transport src acc draft mime s1 = (r1, s2)" by fastforce
    obtain r2 w2 where send: "src_send src mime (en_world s1) = (r2, w2)" by fastforce
    have s2: "sent (en_world s2) = sent (en_world s1) @ [(mime, r2 = Returned (Inr ()))]"
      using t send_recorded [OF send] send
      by (auto simp: send_transport_def io_bind_def io_try_def in_src_def on_db_def emit_def send_failed_def
          io_fail_def split: sum.splits panicky.splits)
    have "s' = s2 \<or> send_finish sv src acc draft mime s2 = (r, s')"
      using run Pair r0 t by (auto simp: send_op_parts io_bind_def split: panicky.splits sum.splits)
    then have "sent (en_world s') = sent (en_world s2)"
      using finish_quiet by (auto simp: quiet_def io_keeps_def) (metis snd_conv)
    with s2 keeps prot r0 show ?thesis by (auto simp: reported_def)
  qed
qed

end

section \<open>The record beside any source and services\<close>

definition beside :: "('w, 'e, 'a) io \<Rightarrow> ('w \<times> 'l, 'e, 'a) io" where
  "beside m = on_db m (\<lambda>w s. (w, snd s)) fst"

lemma beside_keeps: "keeps_record snd (beside m)"
  by (simp add: keeps_record_def beside_def on_db_def split: prod.splits)

definition logged_source :: "'w mail_source \<Rightarrow> ('w \<times> (u8 list \<times> bool) list) mail_source" where
  "logged_source src =
     \<lparr>src_capabilities = (\<lambda>s. src_capabilities src (fst s)),
      src_cursor_table = src_cursor_table src,
      src_list_folders = beside (src_list_folders src),
      src_sync_folder = (\<lambda>f c. beside (src_sync_folder src f c)),
      src_set_flags = (\<lambda>f us flag add. beside (src_set_flags src f us flag add)),
      src_move_messages = (\<lambda>f us g. beside (src_move_messages src f us g)),
      src_delete_messages = (\<lambda>f us. beside (src_delete_messages src f us)),
      src_append = (\<lambda>f mime flags. beside (src_append src f mime flags)),
      src_send = (\<lambda>mime s. case src_send src mime (fst s) of
        (r, w) \<Rightarrow> (r, (w, snd s @ [(mime, r = Returned (Inr ()))]))),
      src_ping = (\<lambda>cs. beside (src_ping src cs))\<rparr>"

definition logged_services :: "'w services \<Rightarrow> ('w \<times> (u8 list \<times> bool) list) services" where
  "logged_services sv =
     \<lparr>sv_build_mime = (\<lambda>draft g. beside (sv_build_mime sv draft g)),
      sv_crypto_backend = sv_crypto_backend sv,
      sv_default_signing_key = (\<lambda>acc std. beside (sv_default_signing_key sv acc std)),
      sv_apply_crypto = (\<lambda>std mime draft email key. beside (sv_apply_crypto sv std mime draft email key)),
      sv_canonicalize = (\<lambda>p s. sv_canonicalize sv p (fst s)),
      sv_remove_dir_all = (\<lambda>p. beside (sv_remove_dir_all sv p)),
      sv_data_dir = sv_data_dir sv\<rparr>"

interpretation logged: recorded_transport snd "logged_source src" "logged_services sv" for src sv
  by unfold_locales
    (auto simp: logged_source_def logged_services_def beside_keeps split: prod.splits)

text \<open>C2. A send is retried only if the transport did not accept it. When \<open>send_op\<close> returns \<open>Ok\<close>, and the
  operation leaves the queue, exactly one transmission was attempted and it was accepted; when it
  returns an error, at most one was attempted and none was accepted, whatever happens to the copy
  in the Sent folder and to the staged files. One result is reported, and it is the right one.\<close>

theorem send_op_exactly_once:
  assumes "send_op (logged_services sv) (logged_source src) acc draft s = (Returned r, s')"
  shows "(r = Inr () \<and> (\<exists>mime. snd (en_world s') = snd (en_world s) @ [(mime, True)]) \<and>
      en_events s' = en_events s @ [SendResultEvent acc (dr_draft_id draft) True None]) \<or>
    (\<exists>e. r = Inl e \<and> (snd (en_world s') = snd (en_world s) \<or>
        (\<exists>mime. snd (en_world s') = snd (en_world s) @ [(mime, False)])) \<and>
      en_events s' = en_events s @ [SendResultEvent acc (dr_draft_id draft) False (Some (source_error_string e))])"
  by (rule logged.send_op_outcome [OF assms])

text \<open>C4. Protection fails closed: when the draft asks for a signature or encryption, whatever is handed
  to the transport, accepted or not, is the output of the cryptographic backend, never the plain
  message, and without a configured method nothing is handed over.\<close>

theorem send_op_fails_closed:
  assumes "send_op (logged_services sv) (logged_source src) acc draft s = (r, s')"
    and "dr_sign draft \<or> dr_encrypt draft"
  shows "snd (en_world s') = snd (en_world s) \<or>
    (\<exists>mime b. snd (en_world s') = snd (en_world s) @ [(mime, b)] \<and>
       protected_mime (logged_services sv) (en_db s) acc draft mime)"
  by (rule logged.send_op_protected [OF assms])

section \<open>Cleaning up\<close>

text \<open>C28. The clean-up after a send removes nothing outside the staging directory: whenever it changes
  anything, the id of the draft is a plain file name and the directory it removes, links resolved,
  lies inside the resolved staging root.\<close>

theorem cleanup_confined:
  assumes "cleanup_attachment_files sv draft_id w = (r, w')" and "w' \<noteq> w"
  shows "\<exists>root target. sv_canonicalize sv (sv_data_dir sv @ [''outbox-attachments'']) w = Some root \<and>
    sv_canonicalize sv (sv_data_dir sv @ [''outbox-attachments'', draft_id]) w = Some (root @ target) \<and>
    sv_remove_dir_all sv (sv_data_dir sv @ [''outbox-attachments'', draft_id]) w = (r, w') \<and>
    CHR ''/'' \<notin> set draft_id \<and> draft_id \<notin> {[], ''.'', ''..''}"
proof -
  have split_take: "take (length root) p = root \<Longrightarrow> \<exists>q. p = root @ q" for root p :: path
    by (metis append_take_drop_id)
  from assms show ?thesis
    by (auto simp: cleanup_attachment_files_def valid_draft_id_def io_ret_def io_fail_def Let_def
        split: if_splits option.splits dest!: split_take)
qed

section \<open>A small mail server\<close>

text \<open>A source that accepts everything, over services that leave the message as it is.\<close>

definition open_source :: "'w mail_source" where
  "open_source =
     \<lparr>src_capabilities = (\<lambda>_. capabilities_default), src_cursor_table = NoCursorTable,
      src_list_folders = io_ret [], src_sync_folder = (\<lambda>_ _. io_fail Unsupported),
      src_set_flags = (\<lambda>_ _ _ _. io_ret ()), src_move_messages = (\<lambda>_ _ _. io_ret ()),
      src_delete_messages = (\<lambda>_ _. io_ret ()), src_append = (\<lambda>_ _ _. io_fail (Other ''append refused'')),
      src_send = (\<lambda>_. io_ret ()), src_ping = (\<lambda>_. io_fail Unsupported)\<rparr>"

definition plain_services :: "string list services" where
  "plain_services =
     \<lparr>sv_build_mime = (\<lambda>_ _. io_ret [77]), sv_crypto_backend = (\<lambda>_ _. Inr ()),
      sv_default_signing_key = (\<lambda>_ _. io_ret None),
      sv_apply_crypto = (\<lambda>_ mime _ _ _. io_ret (67 # mime)),
      sv_canonicalize = (\<lambda>p _. Some p), sv_remove_dir_all = (\<lambda>p w. (Returned (Inr ()), [])),
      sv_data_dir = [''data'']\<rparr>"

definition test_engine :: "'w \<Rightarrow> 'w engine" where
  "test_engine w = \<lparr>en_db = empty_db\<lparr>t_accounts := [''a'' \<mapsto> \<lparr>ac_email = ''me@x'', ac_crypto_method = Some ''smime'',
       ac_crypto_granularity = None, ac_last_sync_at = None\<rparr>]\<rparr>,
     en_world = w, en_breakers = (\<lambda>_. None), en_events = []\<rparr>"

lemma cleanup_confined_witness:
  "sv_remove_dir_all plain_services [''data'', ''outbox-attachments'', ''d1''] [''f''] = (Returned (Inr ()), [])"
  using cleanup_confined [of plain_services "''d1''" "[''f'']" "Returned (Inr ())" "[]"]
  by (simp add: plain_services_def cleanup_attachment_files_def valid_draft_id_def)

lemma send_test_run:
  "send_op (logged_services plain_services) (logged_source open_source) ''a'' (test_draft\<lparr>dr_sign := b\<rparr>)
      (test_engine ([''f''], []))
    = (Returned (Inr ()), (test_engine ([], [(if b then [67, 77] else [77], True)]))
        \<lparr>en_events := [SendResultEvent ''a'' ''d1'' True None]\<rparr>)"
  by (cases b)
    (simp_all add: send_op_def send_granularity_def test_draft_def or_send_failed_def io_bind_def io_try_def in_src_def
      in_db_def on_db_def logged_services_def plain_services_def beside_def io_ret_def send_crypto_def
      get_email_and_method_def db_query_def db_stmt_def io_lift_def send_wrapped_def send_transport_def
      logged_source_def open_source_def emit_def sent_append_def source_caps_def capabilities_default_def
      save_sent_copy_def get_bool_def resolve_sent_folder_def get_folder_by_role_def best_effort_def
      cleanup_attachment_files_def valid_draft_id_def crypto_method_from_db_str_def crypto_method_standard_def
      test_engine_def empty_db_def)

lemma send_op_exactly_once_witness:
  "\<exists>s' mime. send_op (logged_services plain_services) (logged_source open_source) ''a'' (test_draft\<lparr>dr_sign := False\<rparr>)
      (test_engine ([''f''], [])) = (Returned (Inr ()), s') \<and>
    snd (en_world s') = [(mime, True)] \<and> en_events s' = [SendResultEvent ''a'' ''d1'' True None]"
  using send_op_exactly_once [OF send_test_run [of False]] send_test_run [of False]
  by (auto simp: test_engine_def)

lemma send_op_fails_closed_witness:
  "protected_mime (logged_services plain_services) (en_db (test_engine ([''f''], []))) ''a''
     (test_draft\<lparr>dr_sign := True\<rparr>) [67, 77]"
  using send_op_fails_closed [OF send_test_run [of True]]
  by (auto simp: test_engine_def)

end
