(* ===== verification/Engine_Round.thy ===== *)
theory Engine_Round
  imports Engine_Send
begin

text \<open>
  What the rounds of the worker guarantee: the replay of the queue, the two gates of a sync round
  and the circuit breaker as a state machine.
\<close>

section \<open>Steps that only read the database\<close>

text \<open>On a database whose statements succeed they leave it as it is.\<close>

definition reads_db :: "('w, 'e, 'a) eng \<Rightarrow> bool" where
  "reads_db = io_keeps (\<lambda>s s'. healthy (en_db s) \<longrightarrow> en_db s' = en_db s)"

named_theorems reads_db_intros

lemma reads_dbD: "reads_db m \<Longrightarrow> m s = (r, s') \<Longrightarrow> healthy (en_db s) \<Longrightarrow> en_db s' = en_db s"
  by (auto simp: reads_db_def io_keeps_def dest: spec [of _ s])

lemma reads_db_bind [reads_db_intros]: "reads_db m \<Longrightarrow> (\<And>x. reads_db (f x)) \<Longrightarrow> reads_db (io_bind m f)"
  unfolding reads_db_def by (rule io_keeps_bind) auto

lemma reads_db_basic [reads_db_intros]:
  "reads_db (io_ret x)" "reads_db (io_fail e)" "reads_db (io_lift r)" "reads_db (emit ev)"
  "reads_db (source_caps src)" "reads_db (in_src m)"
  by (simp_all add: reads_db_def io_keeps_def io_ret_def io_fail_def io_lift_def emit_def source_caps_def
      in_src_def on_db_def split: prod.splits)

lemma reads_db_try [reads_db_intros]: "reads_db m \<Longrightarrow> reads_db (io_try m)"
  by (auto simp: reads_db_def io_keeps_def io_try_def split: prod.splits panicky.splits)

definition query_only :: "'a db_io \<Rightarrow> bool" where
  "query_only m \<longleftrightarrow> (\<forall>d. healthy d \<longrightarrow> snd (m d) = d)"

lemma query_only_query [reads_db_intros]: "query_only (db_query q)"
  by (simp add: query_only_def db_query_healthy)

lemma query_only_bind [reads_db_intros]:
  "query_only m \<Longrightarrow> (\<And>x. query_only (f x)) \<Longrightarrow> query_only (io_bind m f)"
  by (auto simp: query_only_def io_bind_def split: prod.splits panicky.splits sum.splits)

lemma query_only_basic [reads_db_intros]: "query_only (io_ret x)" "query_only (io_fail e)"
  by (simp_all add: query_only_def io_ret_def io_fail_def)

lemma reads_db_in_db [reads_db_intros]: "query_only m \<Longrightarrow> reads_db (in_db m)"
  by (auto simp: reads_db_def io_keeps_def in_db_def on_db_def query_only_def split: prod.splits)
   

lemma query_only_reads [reads_db_intros]:
  "query_only (get_crypto_granularity acc)" "query_only (get_email_and_method acc)"
  "query_only (save_sent_copy acc)" "query_only (resolve_sent_folder acc)"
  "query_only (get_folder_by_role acc role)" "query_only (pending_count_for_account acc)"
  by (auto simp: get_crypto_granularity_def get_email_and_method_def save_sent_copy_def get_bool_def
      resolve_sent_folder_def get_folder_by_role_def pending_count_for_account_def
      intro!: reads_db_intros split: option.split)

lemma reads_db_best_effort [reads_db_intros]: "reads_db m \<Longrightarrow> reads_db (best_effort m)"
  unfolding best_effort_def by (intro reads_db_intros)

lemma reads_db_failed [reads_db_intros]: "reads_db (send_failed acc draft e)"
  unfolding send_failed_def by (intro reads_db_intros)

lemma reads_db_or_failed [reads_db_intros]: "reads_db m \<Longrightarrow> reads_db (or_send_failed acc draft c m)"
  unfolding or_send_failed_def by (auto intro!: reads_db_intros split: sum.split)

lemma reads_db_send [reads_db_intros]: "reads_db (send_op sv src acc draft)"
  unfolding send_op_def send_granularity_def send_crypto_def send_wrapped_def send_transport_def sent_append_def
  by (auto intro!: reads_db_intros split: sum.split option.split prod.split)

lemma reads_db_dispatch [reads_db_intros]: "reads_db (dispatch sv src acc op)"
  unfolding dispatch_def by (auto intro!: reads_db_intros split: mutation_op.split)

section \<open>One row of the queue\<close>

lemma in_db_healthy_update:
  "healthy (en_db s) \<Longrightarrow> best_effort (in_db (db_update u)) s = (Returned (Inr ()), s\<lparr>en_db := u (en_db s)\<rparr>)"
  by (simp add: best_effort_def in_db_def on_db_def io_try_def io_bind_def db_update_healthy io_ret_def)

text \<open>An undecodable row is passed over; any other is dispatched and then completed or failed.\<close>

lemma replay_row_undecodable:
  "from_pending draft_of_json row = Inl e \<Longrightarrow> replay_row sv src acc row s = (Returned (Inr ()), s)"
  by (simp add: replay_row_def io_ret_def)

definition settle :: "string \<Rightarrow> source_error + unit \<Rightarrow> db \<Rightarrow> db" where
  "settle i r d = (case r of
      Inr _ \<Rightarrow> d\<lparr>t_pending := complete_rows i (t_pending d)\<rparr>
    | Inl e \<Rightarrow> d\<lparr>t_pending := fail_rows (db_now d) (source_error_string e) i (t_pending d)\<rparr>)"

lemma replay_row_dispatched:
  assumes "from_pending draft_of_json row = Inr op" and "healthy (en_db s)"
    and run: "replay_row sv src acc row s = (Returned r, s')"
  obtains x s1 where "dispatch sv src acc op s = (Returned x, s1)" "en_db s1 = en_db s"
    "s' = s1\<lparr>en_db := settle (pop_id row) x (en_db s)\<rparr>" "r = Inr ()"
proof -
  obtain r0 s1 where d: "dispatch sv src acc op s = (r0, s1)" by fastforce
  with assms(2) have keep: "en_db s1 = en_db s" by (auto dest: reads_dbD [OF reads_db_dispatch])
  show thesis
  proof (cases r0)
    case Panicked
    with run d assms(1) show thesis by (simp add: replay_row_def io_bind_def io_try_def)
  next
    case (Returned x)
    with run d assms(1,2) keep show thesis
      by (intro that [of x s1])
        (auto simp: replay_row_def io_bind_def io_try_def mark_completed_def mark_failed_def
          in_db_healthy_update settle_def split: sum.splits)
  qed
qed

section \<open>Mail leaves the queue exactly when it is accepted\<close>

definition is_send_row :: "pending_row \<Rightarrow> bool" where
  "is_send_row r = (case from_pending draft_of_json (row_to_op r) of Inr (Send _) \<Rightarrow> True | _ \<Rightarrow> False)"

definition sends :: "pending_row list \<Rightarrow> nat" where
  "sends rows = length (filter is_send_row rows)"

definition accepted :: "(u8 list \<times> bool) list \<Rightarrow> nat" where
  "accepted ts = length (filter snd ts)"

lemma row_to_op_fail_row [simp]: "row_to_op (fail_row now e r) = row_to_op r"
  by (simp add: row_to_op_def fail_row_def)

lemma pop_id_row_to_op [simp]: "pop_id (row_to_op r) = po_id r"
  by (simp add: row_to_op_def)

lemma is_send_row_fail [simp]: "is_send_row (fail_row now e r) = is_send_row r"
  by (simp add: is_send_row_def)

lemma sends_fail [simp]: "sends (fail_rows now e i rows) = sends rows"
  by (simp add: sends_def fail_rows_def filter_map comp_def if_distrib cong: if_cong)

lemma sends_complete:
  assumes "distinct (map po_id rows)" and "r \<in> set rows"
  shows "sends rows = sends (complete_rows (po_id r) rows) + of_bool (is_send_row r)"
  using assms
proof (induction rows)
  case Nil
  then show ?case by simp
next
  case (Cons q rows)
  show ?case
  proof (cases "q = r")
    case True
    with Cons.prems have "\<And>x. x \<in> set rows \<Longrightarrow> po_id x \<noteq> po_id r"
      by (auto simp: image_iff)
    then have "complete_rows (po_id r) rows = rows" by (simp add: complete_rows_def)
    with True show ?thesis by (simp add: sends_def complete_rows_def)
  next
    case False
    with Cons.prems have "po_id q \<noteq> po_id r" "r \<in> set rows" by auto
    with Cons show ?thesis by (simp add: sends_def complete_rows_def)
  qed
qed

lemma sends_compacted: "queue_ok rows \<Longrightarrow> sends (compacted acc rows) = sends rows"
proof -
  assume ok: "queue_ok rows"
  have kept: "r \<in> set (compacted acc rows)" if "r \<in> set rows" "is_send_row r" for r
  proof (rule ccontr)
    assume "r \<notin> set (compacted acc rows)"
    from removed_by_compaction [OF ok that(1) this] have "is_toggle r" by (auto simp: cancels_def is_toggle_def)
    with that(2) show False
      by (auto simp: is_send_row_def is_toggle_def from_pending_def from_json_def row_to_op_def Let_def
          split: sum.splits mutation_op.splits json_text.splits)
  qed
  have "filter is_send_row (compacted acc rows) = filter is_send_row rows"
    using kept by (auto simp: compacted_def without_ids_def intro!: filter_cong)
  then show ?thesis by (simp add: sends_def)
qed

text \<open>The rows that are still to be replayed are in the table, whatever was settled before them.\<close>

definition enqueued :: "pending_operation list \<Rightarrow> pending_row list \<Rightarrow> bool" where
  "enqueued ops rows \<longleftrightarrow> distinct (map pop_id ops) \<and> distinct (map po_id rows) \<and> set ops \<subseteq> row_to_op ` set rows"

lemma enqueued_settle:
  assumes "enqueued (op # ops) (t_pending d)"
  shows "enqueued ops (t_pending (settle (pop_id op) x d))"
proof -
  have ids: "distinct (map po_id (complete_rows i (t_pending d)))" for i
    using assms by (auto simp: enqueued_def complete_rows_def distinct_map inj_on_def)
  have "o' \<in> row_to_op ` set (t_pending (settle (pop_id op) x d))" if o': "o' \<in> set ops" for o'
  proof -
    from assms o' obtain r where r: "r \<in> set (t_pending d)" "o' = row_to_op r" by (auto simp: enqueued_def)
    moreover from assms o' have "pop_id o' \<noteq> pop_id op" by (auto simp: enqueued_def image_iff)
    ultimately show ?thesis
      by (cases x) (auto simp: settle_def complete_rows_def fail_rows_def image_iff intro!: bexI [of _ r])
  qed
  with assms ids show ?thesis
    by (cases x) (auto simp: enqueued_def settle_def)
qed

section \<open>The start and the end of a round\<close>

definition replay_start :: "string \<Rightarrow> db \<Rightarrow> db" where
  "replay_start acc d = (if malformed_toggle acc (t_pending d) then d
     else d\<lparr>t_pending := compacted acc (t_pending d)\<rparr>)"

lemma compact_step:
  "healthy (en_db s) \<Longrightarrow> best_effort (in_db (compact_queue acc)) s
     = (Returned (Inr ()), s\<lparr>en_db := replay_start acc (en_db s)\<rparr>)"
  by (simp add: best_effort_def in_db_def on_db_def io_try_def io_bind_def io_ret_def
      compact_queue_healthy replay_start_def)

lemma dequeue_step:
  "healthy (en_db s) \<Longrightarrow> io_try (in_db (dequeue_pending_for_account acc n)) s
     = (Returned (Inr (Inr (due_rows (\<lambda>r. po_account r = acc) n (en_db s)))), s)"
  by (simp add: io_try_def in_db_def on_db_def dequeue_pending_for_account_def db_query_healthy)

lemma healthy_replay_start [simp]: "healthy (replay_start acc d) = healthy d"
  by (simp add: replay_start_def healthy_def)

lemma run_replay_round_started:
  assumes "healthy (en_db s)"
  shows "run_replay_round sv src acc s =
    io_bind (io_each (replay_row sv src acc) (due_rows (\<lambda>r. po_account r = acc) 50 (replay_start acc (en_db s))))
      (\<lambda>_. emit_queue acc) (s\<lparr>en_db := replay_start acc (en_db s)\<rparr>)"
  using assms by (simp add: run_replay_round_def io_bind_def [of "best_effort _"] compact_step
      io_bind_def [of "io_try _"] dequeue_step)

lemma enqueued_due:
  assumes "distinct (map po_id (t_pending d))"
  shows "enqueued (due_rows (\<lambda>r. po_account r = acc) limit d) (t_pending d)"
proof -
  let ?rows = "sort_key po_created_at (selected acc d)"
  have sub: "set (sql_limit limit ?rows) \<subseteq> set (t_pending d)"
    by (auto simp: sql_limit_def selected_def dest: in_set_takeD)
  have "mset (map po_id ?rows) = mset (map po_id (selected acc d))" by simp
  then have "distinct (map po_id ?rows)"
    using assms mset_eq_imp_distinct_iff [of "map po_id ?rows"] by (auto simp: selected_def distinct_map inj_on_def)
  then have "distinct (map po_id (sql_limit limit ?rows))"
    by (simp add: sql_limit_def take_map [symmetric] distinct_take)
  with assms sub show ?thesis by (auto simp: enqueued_def due_rows_selected comp_def)
qed

lemma emit_queue_healthy:
  assumes "healthy (en_db s)"
  shows "emit_queue acc s = (Returned (Inr ()), s\<lparr>en_events := en_events s @
    [QueueEvent acc (int (length (pending_of_account acc (t_pending (en_db s)))))]\<rparr>)"
  using assms by (simp add: emit_queue_def io_bind_def io_try_def in_db_def on_db_def
      pending_count_for_account_def db_query_healthy emit_def)

locale recorded_source = recorded_transport sent src sv
  for sent :: "'w \<Rightarrow> (u8 list \<times> bool) list" and src :: "'w mail_source" and sv :: "'w services" +
  assumes flags_keep: "keeps_record sent (src_set_flags src f us flag add)"
    and move_keep: "keeps_record sent (src_move_messages src f us g)"
    and delete_keep: "keeps_record sent (src_delete_messages src f us)"
begin

lemma exec_keeps: "keeps_record sent (exec_via_source src op)"
  using flags_keep move_keep delete_keep
  by (cases op) (auto simp: exec_via_source_def keeps_record_def io_fail_def)

text \<open>Since the state \<open>s\<close>, as many queued messages have gone as the transport has accepted.\<close>

definition conserves :: "'w engine \<Rightarrow> 'w engine \<Rightarrow> bool" where
  "conserves s s' \<longleftrightarrow> (\<exists>new. sent (en_world s') = sent (en_world s) @ new \<and>
     sends (t_pending (en_db s)) = sends (t_pending (en_db s')) + accepted new)"

lemma conserves_refl: "conserves s s"
  by (simp add: conserves_def accepted_def)

lemma conserves_trans: "conserves a b \<Longrightarrow> conserves b c \<Longrightarrow> conserves a c"
  by (fastforce simp: conserves_def accepted_def)

lemma dispatch_sends:
  assumes "dispatch sv src acc op s = (Returned x, s1)"
  shows "\<exists>new. sent (en_world s1) = sent (en_world s) @ new \<and>
    accepted new = of_bool (x = Inr () \<and> (case op of Send _ \<Rightarrow> True | _ \<Rightarrow> False))"
proof (cases "\<exists>draft. op = Send draft")
  case True
  then obtain draft where op: "op = Send draft" by blast
  with assms have "send_op sv src acc draft s = (Returned x, s1)" by (simp add: dispatch_def)
  from send_op_outcome [OF this] op show ?thesis by (auto simp: accepted_def)
next
  case False
  with assms have "in_src (exec_via_source src op) s = (Returned x, s1)"
    by (cases op) (auto simp: dispatch_def)
  with exec_keeps [of op] have "sent (en_world s1) = sent (en_world s)"
    by (auto simp: in_src_def on_db_def keeps_record_def split: prod.splits) (metis snd_conv)
  with False show ?thesis by (cases op) (auto simp: accepted_def intro!: exI [of _ "[]"])
qed

lemma replay_row_conserves:
  assumes run: "replay_row sv src acc (row_to_op q) s = (Returned r, s')" and d: "healthy (en_db s)"
    and q: "q \<in> set (t_pending (en_db s))" and ids: "distinct (map po_id (t_pending (en_db s)))"
  shows "conserves s s'"
proof (cases "from_pending draft_of_json (row_to_op q)")
  case (Inl e)
  with run show ?thesis by (simp add: replay_row_undecodable conserves_refl)
next
  case (Inr op)
  obtain x s1 where x: "dispatch sv src acc op s = (Returned x, s1)" "en_db s1 = en_db s"
    "s' = s1\<lparr>en_db := settle (pop_id (row_to_op q)) x (en_db s)\<rparr>"
    by (rule replay_row_dispatched [OF Inr d run])
  have send: "is_send_row q = (case op of Send _ \<Rightarrow> True | _ \<Rightarrow> False)" by (simp add: is_send_row_def Inr)
  from dispatch_sends [OF x(1)] obtain new where
    "sent (en_world s1) = sent (en_world s) @ new" "accepted new = of_bool (x = Inr () \<and> is_send_row q)"
    by (auto simp: send)
  then show ?thesis
    using x(3) sends_complete [OF ids q] by (cases x) (auto simp: conserves_def settle_def)
qed

lemma replay_rows_conserve:
  fixes r :: "'e + unit"
  assumes "io_each (replay_row sv src acc) ops s = (Returned r, s')" and "healthy (en_db s)"
    and "enqueued ops (t_pending (en_db s))"
  shows "conserves s s' \<and> r = Inr () \<and> healthy (en_db s')"
  using assms
proof (induction ops arbitrary: s)
  case Nil
  then show ?case by (simp add: io_ret_def conserves_refl)
next
  case (Cons op ops)
  from Cons.prems(3) obtain q where q: "q \<in> set (t_pending (en_db s))" "op = row_to_op q"
    "distinct (map po_id (t_pending (en_db s)))" by (auto simp: enqueued_def)
  from Cons.prems(1) obtain r1 :: "'e + unit" and s1 where one: "replay_row sv src acc op s = (Returned r1, s1)"
    by (simp add: io_bind_cases) blast
  have s1: "r1 = Inr () \<and> healthy (en_db s1) \<and> enqueued ops (t_pending (en_db s1))"
  proof (cases "from_pending draft_of_json op")
    case (Inl e)
    with one Cons.prems(2,3) show ?thesis by (auto simp: replay_row_undecodable enqueued_def)
  next
    case (Inr mop)
    obtain x s2 where "s1 = s2\<lparr>en_db := settle (pop_id op) x (en_db s)\<rparr>" "r1 = Inr ()"
      by (rule replay_row_dispatched [OF Inr Cons.prems(2) one])
    with Cons.prems(2) enqueued_settle [OF Cons.prems(3), of x] show ?thesis
      by (cases x) (auto simp: settle_def healthy_def)
  qed
  with one Cons.prems(1) have "io_each (replay_row sv src acc) ops s1 = (Returned r, s')"
    by (auto simp: io_bind_cases)
  moreover have "conserves s s1" using replay_row_conserves one q Cons.prems(2) by simp
  ultimately show ?case using Cons.IH [of s1] s1 conserves_trans by blast
qed

lemma replay_round_conserves:
  fixes r :: "'e + unit"
  assumes run: "run_replay_round sv src acc s = (Returned r, s')" and d: "healthy (en_db s)"
    and inv: "queue_inv (en_db s)"
  shows "conserves s s'"
proof -
  let ?d = "replay_start acc (en_db s)"
  let ?ops = "due_rows (\<lambda>r. po_account r = acc) 50 ?d"
  have start: "conserves s (s\<lparr>en_db := ?d\<rparr>)"
    using inv sends_compacted by (simp add: conserves_def accepted_def replay_start_def queue_inv_def)
  have d': "healthy ?d" using d by (simp add: replay_start_def healthy_def)
  obtain r1 :: "'e + unit" and s1 where rows: "io_each (replay_row sv src acc) ?ops (s\<lparr>en_db := ?d\<rparr>) = (Returned r1, s1)"
    and tail: "r1 = Inr () \<Longrightarrow> emit_queue acc s1 = (Returned r, s')" "r1 \<noteq> Inr () \<Longrightarrow> s' = s1"
    using run unfolding run_replay_round_started [OF d]
    by (auto simp: io_bind_cases)
  have "enqueued ?ops (t_pending ?d)"
    by (rule enqueued_due) (use inv in \<open>auto simp: replay_start_def queue_inv_def queue_ok_def compacted_def
      without_ids_def distinct_map inj_on_def\<close>)
  with replay_rows_conserve [OF rows] d' have "conserves s s1 \<and> r1 = Inr () \<and> healthy (en_db s1)"
    using conserves_trans [OF start] by auto
  moreover from this have "conserves s1 s'"
    using tail(1) by (auto simp: conserves_def accepted_def emit_queue_healthy)
  ultimately show ?thesis using conserves_trans by blast
qed

end

interpretation logged_full: recorded_source snd "logged_source src" "logged_services sv" for src sv
  by unfold_locales (auto simp: logged_source_def beside_keeps)


text \<open>A queue that holds one message, over the server that accepts everything.\<close>

definition queued_engine :: "'w \<Rightarrow> 'w engine" where
  "queued_engine w = (test_engine w)\<lparr>en_db := (en_db (test_engine w))\<lparr>t_pending :=
     [new_row ''i'' ''a'' ''send'' ''send:1'' (JsonText (JObj [(''draft'', draft_json test_draft)])) 5]\<rparr>\<rparr>"

lemma queued_replay:
  "run_replay_round (logged_services plain_services) (logged_source open_source) ''a'' (queued_engine ([''f''], []))
    = (Returned (Inr ()), (test_engine ([], [([77], True)]))
        \<lparr>en_events := [SendResultEvent ''a'' ''d1'' True None, QueueEvent ''a'' 0]\<rparr>)"
proof -
  let ?s = "queued_engine ([''f''], [] :: (u8 list \<times> bool) list)"
  let ?row = "row_to_op (new_row ''i'' ''a'' ''send'' ''send:1'' (JsonText (JObj [(''draft'', draft_json test_draft)])) 5)"
  have h: "healthy (en_db ?s)" by (simp add: queued_engine_def test_engine_def empty_db_def healthy_def)
  have start: "replay_start ''a'' (en_db ?s) = en_db ?s"
    by (simp add: queued_engine_def replay_start_def malformed_toggle_def pending_of_account_def new_row_def
        is_toggle_def compacted_def cancel_pairs_def cancels_def)
  have due: "due_rows (\<lambda>r. po_account r = ''a'') 50 (en_db ?s) = [?row]"
    by (simp add: queued_engine_def due_rows_def sql_limit_def new_row_def is_due_def)
  have dec: "from_pending draft_of_json ?row = Inr (Send test_draft)"
    by (simp add: from_pending_def row_to_op_def new_row_def from_json_def Let_def draft_codec)
  have send: "send_op (logged_services plain_services) (logged_source open_source) ''a'' test_draft ?s
    = (Returned (Inr ()), ?s\<lparr>en_world := ([], [([77], True)]), en_events := [SendResultEvent ''a'' ''d1'' True None]\<rparr>)"
    by (simp add: send_op_def send_granularity_def test_draft_def or_send_failed_def io_bind_def io_try_def in_src_def
      in_db_def on_db_def logged_services_def plain_services_def beside_def io_ret_def send_crypto_def
      db_query_def db_stmt_def io_lift_def send_transport_def
      logged_source_def open_source_def emit_def sent_append_def source_caps_def capabilities_default_def
      save_sent_copy_def get_bool_def resolve_sent_folder_def get_folder_by_role_def best_effort_def
      cleanup_attachment_files_def valid_draft_id_def queued_engine_def test_engine_def empty_db_def)
  show ?thesis
    by (simp add: run_replay_round_started [OF h] start due io_bind_def replay_row_def dec io_try_def dispatch_def send)
      (simp add: queued_engine_def test_engine_def empty_db_def healthy_def mark_completed_def in_db_healthy_update
        complete_rows_def new_row_def row_to_op_def emit_queue_healthy io_ret_def pending_of_account_def)
qed


section \<open>Rows that cannot be decoded\<close>

lemma replay_undecodable:
  "\<forall>op \<in> set ops. \<exists>e. from_pending draft_of_json op = Inl e \<Longrightarrow>
    io_each (replay_row sv src acc) ops s = (Returned (Inr ()), s)"
  by (induction ops) (auto simp: replay_row_undecodable io_ret_def io_bind_def)

text \<open>Undecodable rows starve the queue. They are passed over without being failed, so when the 50
  oldest due rows of an account cannot be decoded, a round changes nothing, and every later round
  finds the same 50 again: no younger operation, a send for instance, is ever replayed.\<close>

lemma undecodable_rows_starve_queue:
  assumes "healthy (en_db s)" and "replay_start acc (en_db s) = en_db s"
    and "\<forall>op \<in> set (due_rows (\<lambda>r. po_account r = acc) 50 (en_db s)). \<exists>e. from_pending draft_of_json op = Inl e"
  shows "run_replay_round sv src acc s = (Returned (Inr ()), s\<lparr>en_events := en_events s @
    [QueueEvent acc (int (length (pending_of_account acc (t_pending (en_db s)))))]\<rparr>)"
  by (simp add: run_replay_round_started [OF assms(1)] assms(2) io_bind_def emit_queue_healthy [OF assms(1)]
      replay_undecodable [OF assms(3)])

definition broken_row :: "nat \<Rightarrow> pending_row" where
  "broken_row n = new_row (dec_string n) ''a'' ''send'' ''r'' (NotJson ''EOF'') 5"

lemma undecodable_rows_starve_queue_witness:
  "fst (run_replay_round plain_services open_source ''a'' ((test_engine [])\<lparr>en_db :=
      empty_db\<lparr>t_pending := [broken_row 1, broken_row 2]\<rparr>\<rparr>)) = Returned (Inr ())"
proof -
  let ?s = "(test_engine [])\<lparr>en_db := empty_db\<lparr>t_pending := [broken_row 1, broken_row 2]\<rparr>\<rparr>"
  have "due_rows (\<lambda>r. po_account r = ''a'') 50 (en_db ?s) = [row_to_op (broken_row 1), row_to_op (broken_row 2)]"
    by (simp add: due_rows_def broken_row_def new_row_def is_due_def sql_limit_def)
  moreover have "replay_start ''a'' (en_db ?s) = en_db ?s"
    by (simp add: replay_start_def broken_row_def new_row_def malformed_toggle_def pending_of_account_def
        is_toggle_def compacted_def cancel_pairs_def cancels_def)
  moreover have "healthy (en_db ?s)" by (simp add: healthy_def empty_db_def)
  ultimately show ?thesis
    by (subst undecodable_rows_starve_queue) (simp_all add: row_to_op_def broken_row_def new_row_def from_pending_def)
qed

end
