(* ===== verification/Breaker.thy ===== *)
theory Breaker
  imports Engine_Round
begin

text \<open>
  The circuit breaker of \<open>sync_engine/engine.rs\<close> as a state machine of one account: time passes,
  and while it is not cooling a round may fail or succeed. The rounds of the engine are steps of it.
\<close>

section \<open>The machine\<close>

text \<open>A state is the clock and the account's entry in the table of breakers.\<close>

type_synonym breaker = "int \<times> breaker_state option"

inductive breaker_step :: "breaker \<Rightarrow> breaker \<Rightarrow> bool" where
  tick: "now \<le> now' \<Longrightarrow> breaker_step (now, b) (now', b)"
| failure: "cooldown_of b now = None \<Longrightarrow> breaker_step (now, b) (now, Some (breaker_failed now b))"
| success: "cooldown_of b now = None \<Longrightarrow> breaker_step (now, b) (now, None)"

inductive breaker_reach :: "breaker \<Rightarrow> bool" where
  start: "0 \<le> now \<Longrightarrow> breaker_reach (now, None)"
| step: "breaker_reach s \<Longrightarrow> breaker_step s s' \<Longrightarrow> breaker_reach s'"

inductive_cases breaker_step_elim: "breaker_step (now, b) s'"
inductive_simps breaker_step_iff: "breaker_step (now, b) (now', b')"

text \<open>What the counter and the deadline of a reachable breaker say of each other and of the clock.\<close>

definition breaker_ok :: "breaker \<Rightarrow> bool" where
  "breaker_ok s = (case s of (now, b) \<Rightarrow> 0 \<le> now \<and>
     (case b of None \<Rightarrow> True | Some st \<Rightarrow>
        1 \<le> unat (bs_failures st) \<and> bs_cooldown_until st \<le> now + BREAKER_COOLDOWN_LONG_SECS \<and>
        (unat (bs_failures st) < 3 \<longrightarrow> bs_cooldown_until st = 0) \<and>
        (unat (bs_failures st) < 5 \<longrightarrow> bs_cooldown_until st \<le> now + BREAKER_COOLDOWN_SHORT_SECS)))"

lemma unat_max_u32: "unat (- 1 :: u32) = 2 ^ 32 - 1"
  by (simp add: unsigned_minus_1_eq_mask mask_eq_exp_minus_1)

lemma unat_saturating_succ: "unat (saturating_succ n) = min (unat n + 1) (2 ^ 32 - 1)"
proof (cases "n = - 1")
  case True
  then show ?thesis by (simp add: saturating_succ_def unat_max_u32)
next
  case False
  have "unat n < 2 ^ 32 - 1"
  proof -
    have "unat n \<noteq> unat (- 1 :: u32)" using False by (metis word_unat_eq_iff)
    then have "unat n \<noteq> 2 ^ 32 - 1" by (simp add: unat_max_u32)
    moreover have "unat n < 2 ^ 32" by (rule less_le_trans [OF unsigned_less]) simp
    ultimately show ?thesis by simp
  qed
  then show ?thesis using False
    by (simp add: saturating_succ_def unat_add_lem [THEN iffD1])
qed

definition failures_of :: "breaker_state option \<Rightarrow> nat" where
  "failures_of b = (case b of None \<Rightarrow> 0 | Some st \<Rightarrow> unat (bs_failures st))"

lemma breaker_failed_cases:
  "unat (bs_failures (breaker_failed now b)) = min (failures_of b + 1) (2 ^ 32 - 1)"
  "bs_cooldown_until (breaker_failed now b) =
     (if 4 \<le> failures_of b then now + 60 else if 2 \<le> failures_of b then now + 15
      else case b of None \<Rightarrow> 0 | Some st \<Rightarrow> bs_cooldown_until st)"
  by (cases b; simp add: breaker_failed_def failures_of_def Let_def unat_saturating_succ word_le_nat_alt
      BREAKER_THRESHOLD_LONG_def BREAKER_THRESHOLD_SHORT_def BREAKER_COOLDOWN_LONG_SECS_def
      BREAKER_COOLDOWN_SHORT_SECS_def min_def)+

lemma breaker_step_ok: "breaker_step s s' \<Longrightarrow> breaker_ok s \<Longrightarrow> breaker_ok s'"
  by (induction rule: breaker_step.induct)
    (auto simp: breaker_ok_def breaker_failed_cases failures_of_def BREAKER_COOLDOWN_LONG_SECS_def
      BREAKER_COOLDOWN_SHORT_SECS_def split: option.splits)

lemma breaker_reach_ok: "breaker_reach s \<Longrightarrow> breaker_ok s"
  by (induction rule: breaker_reach.induct) (simp add: breaker_ok_def, rule breaker_step_ok)

text \<open>C7. The breaker never wedges an account: from every state that rounds, failures, successes and
  waiting can reach, a round is admitted again after at most 60 seconds, and at once while fewer
  than three failures have followed the last success.\<close>

theorem breaker_never_wedges:
  assumes "breaker_reach (now, b)"
  shows "cooldown_of b (now + 60) = None \<and> (failures_of b < 3 \<longrightarrow> cooldown_of b now = None)"
  using breaker_reach_ok [OF assms]
  by (auto simp: breaker_ok_def cooldown_of_def failures_of_def BREAKER_COOLDOWN_LONG_SECS_def split: option.splits)

lemma breaker_reach_fail: "breaker_reach (now, b) \<Longrightarrow> cooldown_of b now = None \<Longrightarrow> breaker_reach (now, Some (breaker_failed now b))"
  by (rule breaker_reach.step [OF _ breaker_step.failure])

lemma breaker_never_wedges_witness:
  "\<exists>b. failures_of b = 3 \<and> cooldown_of b 100 = Some 115 \<and> cooldown_of b 160 = None"
proof -
  let ?f = "\<lambda>b. Some (breaker_failed 100 b)"
  let ?b = "?f (?f (?f None))"
  have eval: "?b = Some \<lparr>bs_failures = 3, bs_cooldown_until = 115\<rparr>" by code_simp+
  have "breaker_reach (100, ?b)"
    by (intro breaker_reach_fail breaker_reach.start) (simp_all only: eval, code_simp+)
  from breaker_never_wedges [OF this] have "cooldown_of ?b 160 = None" by simp
  then show ?thesis
    by (intro exI [of _ ?b]) (simp only: eval, simp add: cooldown_of_def failures_of_def)
qed

text \<open>How the breaker reacts to failures without a success between them, at the times \<open>ts\<close>: it counts
  them, stopping at the largest \<open>u32\<close> instead of wrapping to zero; it stays closed up to the second,
  and opens for 15 seconds from the third and for 60 seconds from the fifth on.\<close>

lemma breaker_schedule:
  assumes "ts \<noteq> []"
  shows "\<exists>st. fold (\<lambda>now b. Some (breaker_failed now b)) ts None = Some st \<and>
    unat (bs_failures st) = min (length ts) (2 ^ 32 - 1) \<and>
    bs_cooldown_until st = (if 5 \<le> length ts then last ts + 60 else if 3 \<le> length ts then last ts + 15 else 0)"
  using assms
proof (induction ts rule: rev_induct)
  case Nil
  then show ?case by simp
next
  case (snoc t ts)
  let ?f = "\<lambda>now b. Some (breaker_failed now b)"
  have before: "failures_of (fold ?f ts None) = min (length ts) (2 ^ 32 - 1)"
    "length ts < 2 \<Longrightarrow> (case fold ?f ts None of None \<Rightarrow> 0 | Some st \<Rightarrow> bs_cooldown_until st) = 0"
    using snoc.IH by (cases "ts = []"; auto simp: failures_of_def)+
  then have "min (failures_of (fold ?f ts None) + 1) (2 ^ 32 - 1) = min (length (ts @ [t])) (2 ^ 32 - 1)"
    "(4 \<le> failures_of (fold ?f ts None)) = (4 \<le> length ts)" "(2 \<le> failures_of (fold ?f ts None)) = (2 \<le> length ts)"
    by auto
  then show ?case using before(2)
    by (auto simp: breaker_failed_cases)
qed

lemma breaker_schedule_witness:
  "bs_cooldown_until (breaker_failed 30 (Some (breaker_failed 20 (Some (breaker_failed 10 None))))) = 45"
  using breaker_schedule [of "[10, 20, 30]"] by simp

section \<open>The two gates of a sync round\<close>

lemma unix_now_healthy: "healthy (en_db s) \<Longrightarrow> unix_now s = (Returned (Inr (db_now (en_db s))), s)"
  by (simp add: unix_now_def io_bind_def io_try_def in_db_def on_db_def db_query_healthy io_ret_def)

definition limited_until :: "string \<Rightarrow> db \<Rightarrow> int option" where
  "limited_until acc d = (case t_rate_limit d acc of
     Some t \<Rightarrow> if db_now d < t then Some t else None | None \<Rightarrow> None)"

definition drop_expired_limit :: "string \<Rightarrow> db \<Rightarrow> db" where
  "drop_expired_limit acc d = d\<lparr>t_rate_limit := (t_rate_limit d)(acc := limited_until acc d)\<rparr>"

lemma get_rate_limit_step:
  assumes "healthy (en_db s)"
  shows "io_try (in_db (get_rate_limit acc)) s =
    (Returned (Inr (Inr (limited_until acc (en_db s)))), s\<lparr>en_db := drop_expired_limit acc (en_db s)\<rparr>)"
  using assms
  by (auto simp: io_try_def in_db_def on_db_def get_rate_limit_healthy limited_until_def drop_expired_limit_def
      fun_upd_idem split: option.split)

lemma drop_expired_limit_simps [simp]:
  "healthy (drop_expired_limit acc d) = healthy d" "db_now (drop_expired_limit acc d) = db_now d"
  by (simp_all add: drop_expired_limit_def healthy_def)

lemma breaker_cooldown_healthy:
  "healthy (en_db s) \<Longrightarrow> breaker_cooldown acc s
     = (Returned (Inr (cooldown_of (en_breakers s acc) (db_now (en_db s)))), s)"
  by (simp add: breaker_cooldown_def io_bind_def unix_now_healthy)

lemma gated_round_healthy:
  assumes "healthy (en_db s)"
  shows "gated_round src acc provider s =
    (let s1 = s\<lparr>en_db := drop_expired_limit acc (en_db s)\<rparr> in
     case limited_until acc (en_db s) of
       Some t \<Rightarrow> emit (StatusEvent acc ''rate_limited'' (Some t)) s1
     | None \<Rightarrow>
         (case cooldown_of (en_breakers s acc) (db_now (en_db s)) of
            Some t \<Rightarrow> emit (StatusEvent acc ''error'' (Some t)) s1
          | None \<Rightarrow> receive_round src acc provider s1))"
  using assms
  by (simp add: gated_round_def io_bind_def [of "io_try _"] get_rate_limit_step io_bind_def [of "breaker_cooldown _"]
      breaker_cooldown_healthy Let_def split: option.split)

section \<open>Rounds are steps of the machine\<close>

definition keeps_breakers :: "('w, 'e, 'a) eng \<Rightarrow> bool" where
  "keeps_breakers = io_keeps (\<lambda>s s'. en_breakers s' = en_breakers s)"

named_theorems keeps_breakers_intros

lemma keeps_breakersD: "keeps_breakers m \<Longrightarrow> m s = (r, s') \<Longrightarrow> en_breakers s' = en_breakers s"
  by (auto simp: keeps_breakers_def io_keeps_def dest: spec [of _ s])

lemma keeps_breakers_bind [keeps_breakers_intros]:
  "keeps_breakers m \<Longrightarrow> (\<And>x. keeps_breakers (f x)) \<Longrightarrow> keeps_breakers (io_bind m f)"
  unfolding keeps_breakers_def by (rule io_keeps_bind) auto

lemma keeps_breakers_basic [keeps_breakers_intros]:
  "keeps_breakers (io_ret x)" "keeps_breakers (io_fail e)" "keeps_breakers (emit ev)"
  "keeps_breakers (in_src m)" "keeps_breakers (in_db q)" "keeps_breakers (load_cursor src acc p)"
  by (simp_all add: keeps_breakers_def io_keeps_def io_ret_def io_fail_def emit_def in_src_def in_db_def
      on_db_def load_cursor_def split: prod.splits)

lemma keeps_breakers_try [keeps_breakers_intros]: "keeps_breakers m \<Longrightarrow> keeps_breakers (io_try m)"
  by (auto simp: keeps_breakers_def io_keeps_def io_try_def split: prod.splits panicky.splits) (metis snd_conv)+

lemma keeps_breakers_best_effort [keeps_breakers_intros]: "keeps_breakers m \<Longrightarrow> keeps_breakers (best_effort m)"
  unfolding best_effort_def by (intro keeps_breakers_intros)

lemma best_effort_breakers: "best_effort (in_db m) s = (r, s') \<Longrightarrow> en_breakers s' = en_breakers s"
  by (rule keeps_breakersD [OF keeps_breakers_best_effort [OF keeps_breakers_basic(5)]])

lemma keeps_breakers_each [keeps_breakers_intros]:
  "(\<And>x. keeps_breakers (f x)) \<Longrightarrow> keeps_breakers (io_each f xs)"
  by (induction xs) (auto intro: keeps_breakers_intros)

lemma keeps_breakers_receive [keeps_breakers_intros]:
  "keeps_breakers (store_folders acc provider fs)" "keeps_breakers (sync_one_folder src acc f)"
  unfolding store_folders_def sync_one_folder_def apply_folder_and_emit_def emit_folder_delta_def
  by (auto intro!: keeps_breakers_intros split: sum.split)

lemma never_fails_load: "never_fails (load_cursor src acc p)"
  by (simp add: never_fails_def load_cursor_def split: prod.splits)

lemma keeps_then_success:
  assumes "keeps_breakers m" and "never_fails m"
    and "io_bind m (\<lambda>_. io_bind (breaker_record_success acc) (\<lambda>_. emit ev)) s = (r, s')"
  shows "en_breakers s' = (if r = Panicked then en_breakers s else (en_breakers s)(acc := None))"
  using assms
  by (auto simp: io_bind_cases [of m] never_fails_def io_bind_def [of "breaker_record_success _"]
      breaker_record_success_def emit_def dest: keeps_breakersD)

text \<open>Listing the folders decides what happens to the breaker.\<close>

lemma receive_round_breaker:
  assumes run: "receive_round src acc provider s = (r, s')" and d: "healthy (en_db s)"
    and list: "src_list_folders src (en_world s) = (rl, w)"
  shows "en_breakers s' = (case rl of
      Panicked \<Rightarrow> en_breakers s
    | Returned (Inl (RateLimited _)) \<Rightarrow> en_breakers s
    | Returned (Inl _) \<Rightarrow> (en_breakers s)(acc := Some (breaker_failed (db_now (en_db s)) (en_breakers s acc)))
    | Returned (Inr _) \<Rightarrow> if r = Panicked then en_breakers s else (en_breakers s)(acc := None))"
proof -
  let ?s1 = "s\<lparr>en_events := en_events s @ [StatusEvent acc ''syncing'' None], en_world := w\<rparr>"
  consider "rl = Panicked" | e where "rl = Returned (Inl e)" | fs where "rl = Returned (Inr fs)"
    by (metis panicky.exhaust sum.exhaust)
  then show ?thesis
  proof cases
    case 1
    with run list show ?thesis
      by (auto simp: receive_round_def io_bind_def emit_def io_try_def in_src_def on_db_def)
  next
    case (2 e)
    with run list have "list_failed acc e ?s1 = (r, s')"
      by (auto simp: receive_round_def io_bind_def [of "emit _"] io_bind_def [of "io_try _"] emit_def io_try_def
          in_src_def on_db_def)
    then show ?thesis using 2 d
      by (auto simp: list_failed_def io_bind_cases emit_def io_fail_def breaker_record_failure_def
          unix_now_healthy dest: best_effort_breakers split: source_error.splits)
  next
    case (3 fs)
    let ?m = "io_bind (store_folders acc provider fs) (\<lambda>_. io_bind (io_each (sync_one_folder src acc) fs) (\<lambda>_.
      best_effort (in_db (touch_last_sync acc))))"
    have "keeps_breakers ?m" by (intro keeps_breakers_intros)
    moreover have "never_fails ?m"
      unfolding store_folders_def sync_one_folder_def apply_folder_and_emit_def emit_folder_delta_def
      by (auto intro!: never_fails_intros never_fails_load split: sum.split)
    moreover from 3 run list have "io_bind ?m (\<lambda>_. io_bind (breaker_record_success acc)
        (\<lambda>_. emit (StatusEvent acc ''idle'' None))) ?s1 = (r, s')"
      by (auto simp: receive_round_def io_bind_def [of "emit _"] io_bind_def [of "io_try _"] emit_def io_try_def
          in_src_def on_db_def io_bind_assoc)
    ultimately have "en_breakers s' = (if r = Panicked then en_breakers ?s1 else (en_breakers ?s1)(acc := None))"
      by (rule keeps_then_success)
    with 3 show ?thesis by auto
  qed
qed



text \<open>A closed gate is silent: while the server's window is open or the breaker is cooling, a round
  neither calls the server nor touches mail, cursors or breakers; it succeeds with a single status
  event that carries the deadline. Otherwise the round is the one that lists and synchronises.\<close>

lemma gates_of_a_round:
  assumes "healthy (en_db s)"
  shows "gated_round src acc provider s =
    (let s1 = s\<lparr>en_db := drop_expired_limit acc (en_db s)\<rparr> in
     case limited_until acc (en_db s) of
       Some t \<Rightarrow> (Returned (Inr ()), s1\<lparr>en_events := en_events s @ [StatusEvent acc ''rate_limited'' (Some t)]\<rparr>)
     | None \<Rightarrow>
         (case cooldown_of (en_breakers s acc) (db_now (en_db s)) of
            Some t \<Rightarrow> (Returned (Inr ()), s1\<lparr>en_events := en_events s @ [StatusEvent acc ''error'' (Some t)]\<rparr>)
          | None \<Rightarrow> receive_round src acc provider s1))"
  using assms by (simp add: gated_round_healthy emit_def Let_def split: option.split)

lemma gates_of_a_round_witness:
  "fst (gated_round open_source ''a'' ''imap''
      ((test_engine ())\<lparr>en_breakers := [''a'' \<mapsto> \<lparr>bs_failures = 3, bs_cooldown_until = 1010\<rparr>]\<rparr>)) = Returned (Inr ())"
  using gates_of_a_round [of "(test_engine ())\<lparr>en_breakers := [''a'' \<mapsto> \<lparr>bs_failures = 3, bs_cooldown_until = 1010\<rparr>]\<rparr>"
      open_source "''a''" "''imap''"]
  by (simp add: test_engine_def empty_db_def healthy_def limited_until_def cooldown_of_def Let_def)

end
