(* ===== verification/Worker.thy ===== *)
theory Worker
  imports Breaker
begin

text \<open>
  The workers of \<open>sync_engine/engine.rs\<close>: how concurrent calls of \<open>ensure_worker\<close> reserve and spawn
  the worker of an account, and the loop that each worker runs.

  Calls interleave at every \<open>await\<close>. The two asynchronous mutexes are held only as long as the code
  holds them: \<open>workers\<close> for single map operations, which are therefore atomic, \<open>workers_starting\<close>
  across the \<open>await\<close> for the lock of \<open>workers\<close>.
\<close>

section \<open>Starting a worker\<close>

text \<open>
  Where a call of \<open>ensure_worker\<close> stands: before the fast path, waiting for the lock of the
  reservations, holding it and waiting for the workers, in \<open>spawn_worker\<close>, about to drop its guard.
\<close>

datatype call_pc = FastPath | AwaitStarting | HoldStarting | Spawning | DropGuard

record call =
  call_account :: string
  call_pc :: call_pc

text \<open>
  \<open>wk_workers\<close> and \<open>wk_starting\<close> are the two collections, \<open>wk_holder\<close> is the call that holds the lock of
  the second. \<open>wk_running\<close> counts the tasks of an account that have not been told to shut down and
  have not died, \<open>wk_spawned\<close> is the counter of the code.
\<close>

record workers =
  wk_workers :: "string set"
  wk_starting :: "string set"
  wk_holder :: "nat option"
  wk_calls :: "nat \<Rightarrow> call option"
  wk_running :: "string \<Rightarrow> nat"
  wk_spawned :: nat

definition no_workers :: workers where
  "no_workers = \<lparr>wk_workers = {}, wk_starting = {}, wk_holder = None, wk_calls = (\<lambda>_. None),
     wk_running = (\<lambda>_. 0), wk_spawned = 0\<rparr>"

definition goto :: "nat \<Rightarrow> call_pc \<Rightarrow> workers \<Rightarrow> workers" where
  "goto i pc s = s\<lparr>wk_calls := (wk_calls s)(i := map_option (\<lambda>c. c\<lparr>call_pc := pc\<rparr>) (wk_calls s i))\<rparr>"

definition finish :: "nat \<Rightarrow> workers \<Rightarrow> workers" where
  "finish i s = s\<lparr>wk_calls := (wk_calls s)(i := None)\<rparr>"

definition at_pc :: "workers \<Rightarrow> nat \<Rightarrow> string \<Rightarrow> call_pc \<Rightarrow> bool" where
  "at_pc s i a pc \<longleftrightarrow> wk_calls s i = Some \<lparr>call_account = a, call_pc = pc\<rparr>"

text \<open>
  \<open>spawn_missing\<close> is the early return when the account cannot be read. \<open>release\<close> and \<open>leak\<close> are the two
  outcomes of \<open>try_lock\<close> in the guard's \<open>Drop\<close>. \<open>stop_all\<close> drains the map; \<open>die\<close> is a worker that panics,
  which its supervisor only logs.
\<close>

inductive worker_step :: "workers \<Rightarrow> workers \<Rightarrow> bool" where
  call: "wk_calls s i = None \<Longrightarrow>
    worker_step s (s\<lparr>wk_calls := (wk_calls s)(i \<mapsto> \<lparr>call_account = a, call_pc = FastPath\<rparr>)\<rparr>)"
| fast_hit: "at_pc s i a FastPath \<Longrightarrow> a \<in> wk_workers s \<Longrightarrow> worker_step s (finish i s)"
| fast_miss: "at_pc s i a FastPath \<Longrightarrow> a \<notin> wk_workers s \<Longrightarrow> worker_step s (goto i AwaitStarting s)"
| lock: "at_pc s i a AwaitStarting \<Longrightarrow> wk_holder s = None \<Longrightarrow>
    worker_step s ((goto i HoldStarting s)\<lparr>wk_holder := Some i\<rparr>)"
| taken: "at_pc s i a HoldStarting \<Longrightarrow> a \<in> wk_workers s \<or> a \<in> wk_starting s \<Longrightarrow>
    worker_step s ((finish i s)\<lparr>wk_holder := None\<rparr>)"
| reserve: "at_pc s i a HoldStarting \<Longrightarrow> a \<notin> wk_workers s \<Longrightarrow> a \<notin> wk_starting s \<Longrightarrow>
    worker_step s ((goto i Spawning s)\<lparr>wk_holder := None, wk_starting := insert a (wk_starting s)\<rparr>)"
| spawn_missing: "at_pc s i a Spawning \<Longrightarrow> worker_step s ((goto i DropGuard s)\<lparr>wk_spawned := wk_spawned s + 1\<rparr>)"
| spawn: "at_pc s i a Spawning \<Longrightarrow>
    worker_step s ((goto i DropGuard s)\<lparr>wk_spawned := wk_spawned s + 1,
      wk_workers := insert a (wk_workers s), wk_running := (wk_running s)(a := wk_running s a + 1)\<rparr>)"
| release: "at_pc s i a DropGuard \<Longrightarrow> wk_holder s = None \<Longrightarrow>
    worker_step s ((finish i s)\<lparr>wk_starting := wk_starting s - {a}\<rparr>)"
| leak: "at_pc s i a DropGuard \<Longrightarrow> wk_holder s \<noteq> None \<Longrightarrow> worker_step s (finish i s)"
| stop_all: "worker_step s (s\<lparr>wk_workers := {}, wk_running := (\<lambda>a. if a \<in> wk_workers s then 0 else wk_running s a)\<rparr>)"
| die: "0 < wk_running s a \<Longrightarrow> worker_step s (s\<lparr>wk_running := (wk_running s)(a := wk_running s a - 1)\<rparr>)"

inductive worker_reach :: "workers \<Rightarrow> bool" where
  start: "worker_reach no_workers"
| step: "worker_reach s \<Longrightarrow> worker_step s s' \<Longrightarrow> worker_reach s'"

inductive_cases worker_step_elim: "worker_step s s'"

lemmas worker_simps = goto_def finish_def at_pc_def

text \<open>
  The invariant: whoever holds a reservation is the only one for its account, a call that spawns
  finds no worker registered, and an account runs at most one task, only while it is registered.
\<close>

definition guards :: "workers \<Rightarrow> nat \<Rightarrow> string \<Rightarrow> bool" where
  "guards s i a \<longleftrightarrow> at_pc s i a Spawning \<or> at_pc s i a DropGuard"

definition workers_ok :: "workers \<Rightarrow> bool" where
  "workers_ok s \<longleftrightarrow>
     (\<forall>i a. guards s i a \<longrightarrow> a \<in> wk_starting s) \<and>
     (\<forall>i j a. guards s i a \<longrightarrow> guards s j a \<longrightarrow> i = j) \<and>
     (\<forall>i a. at_pc s i a Spawning \<longrightarrow> a \<notin> wk_workers s) \<and>
     (\<forall>a. wk_running s a \<le> 1 \<and> (a \<notin> wk_workers s \<longrightarrow> wk_running s a = 0))"

lemma at_pc_unique: "at_pc s i a pc \<Longrightarrow> at_pc s i b pc' \<Longrightarrow> a = b \<and> pc = pc'"
  by (simp add: at_pc_def)

lemma at_pc_goto [simp]:
  "at_pc (goto i q s) j b pc \<longleftrightarrow> (if j = i then pc = q \<and> (\<exists>p. at_pc s i b p) else at_pc s j b pc)"
  by (cases "wk_calls s i"; cases "the (wk_calls s i)") (auto simp: at_pc_def goto_def)

lemma at_pc_finish [simp]: "at_pc (finish i s) j b pc \<longleftrightarrow> j \<noteq> i \<and> at_pc s j b pc"
  by (simp add: at_pc_def finish_def)

lemma at_pc_fields [simp]:
  "at_pc (s\<lparr>wk_holder := h\<rparr>) j b pc = at_pc s j b pc" "at_pc (s\<lparr>wk_starting := st\<rparr>) j b pc = at_pc s j b pc"
  "at_pc (s\<lparr>wk_workers := w\<rparr>) j b pc = at_pc s j b pc" "at_pc (s\<lparr>wk_running := r\<rparr>) j b pc = at_pc s j b pc"
  "at_pc (s\<lparr>wk_spawned := n\<rparr>) j b pc = at_pc s j b pc"
  by (simp_all add: at_pc_def)

lemma goto_fields [simp]:
  "wk_workers (goto i q s) = wk_workers s" "wk_starting (goto i q s) = wk_starting s"
  "wk_holder (goto i q s) = wk_holder s" "wk_running (goto i q s) = wk_running s"
  "wk_workers (finish i s) = wk_workers s" "wk_starting (finish i s) = wk_starting s"
  "wk_holder (finish i s) = wk_holder s" "wk_running (finish i s) = wk_running s"
  by (simp_all add: goto_def finish_def)

lemma at_pc_call [simp]:
  "at_pc (s\<lparr>wk_calls := (wk_calls s)(i \<mapsto> c)\<rparr>) j b pc \<longleftrightarrow>
    (if j = i then c = \<lparr>call_account = b, call_pc = pc\<rparr> else at_pc s j b pc)"
  by (auto simp: at_pc_def)

lemma workers_ok_start: "workers_ok no_workers"
  by (simp add: workers_ok_def no_workers_def guards_def at_pc_def)

lemma guards_step:
  assumes "worker_step s s'" and "workers_ok s" and "guards s' i a"
  shows "(guards s i a \<or> a \<notin> wk_starting s \<and> wk_starting s' = insert a (wk_starting s)) \<and> a \<in> wk_starting s'"
  using assms
  by (induction rule: worker_step.induct)
    (auto simp: guards_def workers_ok_def dest: at_pc_unique split: if_splits)

lemma workers_okD:
  assumes "workers_ok s"
  shows "guards s i a \<Longrightarrow> a \<in> wk_starting s" "guards s i a \<Longrightarrow> guards s j a \<Longrightarrow> i = j"
    "at_pc s i a Spawning \<Longrightarrow> a \<notin> wk_workers s" "wk_running s a \<le> 1"
    "a \<notin> wk_workers s \<Longrightarrow> wk_running s a = 0"
  using assms by (auto simp: workers_ok_def)

lemma new_guard:
  "worker_step s s' \<Longrightarrow> guards s' i a \<Longrightarrow> \<not> guards s i a \<Longrightarrow> guards s' j a \<Longrightarrow> \<not> guards s j a \<Longrightarrow> i = j"
  by (induction rule: worker_step.induct) (auto simp: guards_def dest: at_pc_unique split: if_splits)

lemma guards_unique_step:
  assumes "worker_step s s'" and "workers_ok s" and "guards s' i a" and "guards s' j a"
  shows "i = j"
proof (cases "guards s i a \<or> guards s j a")
  case True
  then have "a \<in> wk_starting s" using assms(2) workers_okD(1) by blast
  then have "guards s i a" "guards s j a" using guards_step assms by blast+
  then show ?thesis using assms(2) workers_okD(2) by blast
next
  case False
  then show ?thesis using assms new_guard by blast
qed

lemma spawning_step: "worker_step s s' \<Longrightarrow> workers_ok s \<Longrightarrow> at_pc s' i a Spawning \<Longrightarrow> a \<notin> wk_workers s'"
  by (induction rule: worker_step.induct)
    (auto dest: workers_okD(3) workers_okD(2) [unfolded guards_def] at_pc_unique split: if_splits)

lemma running_step:
  "worker_step s s' \<Longrightarrow> workers_ok s \<Longrightarrow> wk_running s' a \<le> 1 \<and> (a \<notin> wk_workers s' \<longrightarrow> wk_running s' a = 0)"
proof (induction rule: worker_step.induct)
  case (spawn s i b)
  then have "wk_running s b = 0" by (auto dest: workers_okD)
  with spawn show ?case by (auto dest: workers_okD)
next
  case (die s b)
  then have "wk_running s b \<le> 1" using workers_okD(4) by blast
  with die show ?case by (auto dest: workers_okD)
qed (auto dest: workers_okD)

lemma worker_step_ok:
  assumes "worker_step s s'" and "workers_ok s"
  shows "workers_ok s'"
  unfolding workers_ok_def
proof (intro conjI allI impI)
  fix i a assume "guards s' i a" then show "a \<in> wk_starting s'" using guards_step [OF assms] by blast
next
  fix i j a assume "guards s' i a" "guards s' j a" then show "i = j" by (rule guards_unique_step [OF assms])
next
  fix i a assume "at_pc s' i a Spawning" then show "a \<notin> wk_workers s'" by (rule spawning_step [OF assms])
next
  fix a show "wk_running s' a \<le> 1" using running_step [OF assms] by blast
next
  fix a assume "a \<notin> wk_workers s'" then show "wk_running s' a = 0" using running_step [OF assms] by blast
qed

lemma worker_reach_ok: "worker_reach s \<Longrightarrow> workers_ok s"
  by (induction rule: worker_reach.induct) (auto simp: workers_ok_start worker_step_ok)


section \<open>Workers that are never started again\<close>

text \<open>A reservation without an owner stays, and blocks its account.\<close>

definition blocked :: "workers \<Rightarrow> string \<Rightarrow> bool" where
  "blocked s a \<longleftrightarrow> a \<in> wk_starting s \<and> a \<notin> wk_workers s \<and> (\<forall>i. \<not> guards s i a)"

lemma blocked_step: "worker_step s s' \<Longrightarrow> blocked s a \<Longrightarrow> blocked s' a"
  by (induction rule: worker_step.induct)
    (auto simp: blocked_def guards_def dest: at_pc_unique split: if_splits)

lemma blocked_forever: "worker_step\<^sup>*\<^sup>* s s' \<Longrightarrow> blocked s a \<Longrightarrow> blocked s' a"
  by (induction rule: rtranclp_induct) (auto intro: blocked_step)

text \<open>A registered worker that has died is not replaced while it stays registered.\<close>

lemma dead_worker_not_replaced:
  "worker_step s s' \<Longrightarrow> workers_ok s \<Longrightarrow> a \<in> wk_workers s \<Longrightarrow> wk_running s a = 0 \<Longrightarrow> wk_running s' a = 0"
  by (induction rule: worker_step.induct) (auto simp: workers_ok_def split: if_splits)

definition leaked :: workers where
  "leaked = no_workers\<lparr>wk_starting := {''a''}, wk_spawned := 2\<rparr>"

text \<open>
  The run: the call for \<open>a\<close> has spawned and drops its guard while the call for \<open>b\<close> holds the lock of
  the reservations; later everything is stopped.
\<close>

definition two_calls :: "call_pc \<Rightarrow> call_pc option \<Rightarrow> nat \<Rightarrow> call option" where
  "two_calls pa pb = [0 \<mapsto> \<lparr>call_account = ''a'', call_pc = pa\<rparr>]
     (1 := map_option (\<lambda>pc. \<lparr>call_account = ''b'', call_pc = pc\<rparr>) pb)"

lemma leaked_reach: "worker_reach leaked"
proof -
  let ?s = "\<lambda>cs st h w r n. \<lparr>wk_workers = w, wk_starting = st, wk_holder = h, wk_calls = cs,
    wk_running = r, wk_spawned = n\<rparr>"
  let ?b = "[1 \<mapsto> \<lparr>call_account = ''b'', call_pc = HoldStarting\<rparr>]"
  let ?none = "\<lambda>_. 0 :: nat"
  note nxt = worker_reach.step
  have "worker_reach (?s (\<lambda>_. None) {} None {} ?none 0)"
    using worker_reach.start by (simp add: no_workers_def)
  from nxt [OF this worker_step.call [of _ 0 "''a''"]]
  have "worker_reach (?s (two_calls FastPath None) {} None {} ?none 0)" by (simp add: two_calls_def)
  from nxt [OF this worker_step.fast_miss [of _ 0 "''a''"]]
  have "worker_reach (?s (two_calls AwaitStarting None) {} None {} ?none 0)"
    by (simp add: two_calls_def worker_simps)
  from nxt [OF this worker_step.lock [of _ 0 "''a''"]]
  have "worker_reach (?s (two_calls HoldStarting None) {} (Some 0) {} ?none 0)"
    by (simp add: two_calls_def worker_simps)
  from nxt [OF this worker_step.reserve [of _ 0 "''a''"]]
  have "worker_reach (?s (two_calls Spawning None) {''a''} None {} ?none 0)"
    by (simp add: two_calls_def worker_simps)
  from nxt [OF this worker_step.spawn [of _ 0 "''a''"]]
  have "worker_reach (?s (two_calls DropGuard None) {''a''} None {''a''} (?none(''a'' := 1)) 1)"
    by (simp add: two_calls_def worker_simps)
  from nxt [OF this worker_step.call [of _ 1 "''b''"]]
  have "worker_reach (?s (two_calls DropGuard (Some FastPath)) {''a''} None {''a''} (?none(''a'' := 1)) 1)"
    by (simp add: two_calls_def)
  from nxt [OF this worker_step.fast_miss [of _ 1 "''b''"]]
  have "worker_reach (?s (two_calls DropGuard (Some AwaitStarting)) {''a''} None {''a''} (?none(''a'' := 1)) 1)"
    by (simp add: two_calls_def worker_simps)
  from nxt [OF this worker_step.lock [of _ 1 "''b''"]]
  have "worker_reach (?s (two_calls DropGuard (Some HoldStarting)) {''a''} (Some 1) {''a''} (?none(''a'' := 1)) 1)"
    by (simp add: two_calls_def worker_simps)
  from nxt [OF this worker_step.leak [of _ 0 "''a''"]]
  have "worker_reach (?s ?b {''a''} (Some 1) {''a''} (?none(''a'' := 1)) 1)"
    by (simp add: two_calls_def worker_simps fun_upd_twist)
  from nxt [OF this worker_step.reserve [of _ 1 "''b''"]]
  have "worker_reach (?s [1 \<mapsto> \<lparr>call_account = ''b'', call_pc = Spawning\<rparr>] {''a'', ''b''} None {''a''} (?none(''a'' := 1)) 1)"
    by (simp add: worker_simps insert_commute)
  from nxt [OF this worker_step.spawn_missing [of _ 1 "''b''"]]
  have "worker_reach (?s [1 \<mapsto> \<lparr>call_account = ''b'', call_pc = DropGuard\<rparr>] {''a'', ''b''} None {''a''} (?none(''a'' := 1)) 2)"
    by (simp add: worker_simps numeral_2_eq_2)
  from nxt [OF this worker_step.release [of _ 1 "''b''"]]
  have "worker_reach (?s ((\<lambda>_. None)(1 := None)) {''a''} None {''a''} (?none(''a'' := 1)) 2)"
    by (simp add: worker_simps fun_upd_def insert_Diff_if cong: if_cong)
  from nxt [OF this worker_step.stop_all] show ?thesis
    by (simp add: leaked_def no_workers_def fun_upd_def cong: if_cong)
qed

text \<open>A reservation can be leaked, and then its account never gets a worker again. The guard that is
  to remove it only tries the lock; when another call holds it, the reservation stays, and once the
  workers have been stopped every later \<open>ensure_worker\<close> for the account is a no-op.\<close>

lemma leaked_reservation_blocks_account:
  "\<exists>s. worker_reach s \<and> wk_calls s = (\<lambda>_. None) \<and> wk_holder s = None \<and>
     (\<forall>s'. worker_step\<^sup>*\<^sup>* s s' \<longrightarrow> ''a'' \<notin> wk_workers s' \<and> wk_running s' ''a'' = 0)"
proof (intro exI [of _ leaked] conjI allI impI)
  fix s' assume run: "worker_step\<^sup>*\<^sup>* leaked s'"
  have "blocked leaked ''a''" by (simp add: blocked_def leaked_def no_workers_def guards_def at_pc_def)
  from blocked_forever [OF run this] show out: "''a'' \<notin> wk_workers s'" by (simp add: blocked_def)
  from run have "worker_reach s'" by (induction rule: rtranclp_induct) (auto intro: leaked_reach worker_reach.step)
  with out show "wk_running s' ''a'' = 0" by (auto dest: worker_reach_ok workers_okD)
qed (simp_all add: leaked_reach, simp_all add: leaked_def no_workers_def)


lemma leaked_reservation_blocks_account_witness:
  "\<exists>s. worker_reach s \<and> ''a'' \<notin> wk_workers s"
  using leaked_reservation_blocks_account by blast

section \<open>The loop of a worker\<close>

datatype sync_op = SyncNow | ReplayNow | Shutdown

text \<open>
  What \<open>tokio::select!\<close> can find ready: the timer, the channel of operations (\<open>None\<close> once it is
  closed), the notices of the IDLE connection (\<open>False\<close> once they are closed). With the first channel
  closed only the timer is awaited.
\<close>

datatype wake = Tick | Operation "sync_op option" | Notice bool

datatype action = SyncRound | ReplayRound | InboxPush

definition POLL_INTERVAL_SECS :: nat where "POLL_INTERVAL_SECS = 60"
definition IDLE_BACKSTOP_SECS :: nat where "IDLE_BACKSTOP_SECS = 300"

definition poll_secs :: "bool \<Rightarrow> nat" where
  "poll_secs has_idle = (if has_idle then IDLE_BACKSTOP_SECS else POLL_INTERVAL_SECS)"

text \<open>One turn: the action it runs and whether the channel is still open, or nothing after the last.\<close>

fun loop_turn :: "bool \<Rightarrow> wake \<Rightarrow> (action option \<times> bool) option" where
  "loop_turn channel_open Tick = Some (Some SyncRound, channel_open)"
| "loop_turn True (Operation (Some SyncNow)) = Some (Some SyncRound, True)"
| "loop_turn True (Operation (Some ReplayNow)) = Some (Some ReplayRound, True)"
| "loop_turn True (Operation (Some Shutdown)) = None"
| "loop_turn True (Operation None) = Some (None, False)"
| "loop_turn True (Notice some) = Some (if some then Some InboxPush else None, True)"
| "loop_turn False _ = Some (None, False)"

text \<open>The rounds a worker runs, the first one before the loop. The source is looked up for each.\<close>

fun run_action :: "'w services \<Rightarrow> string + 'w mail_source \<Rightarrow> string \<Rightarrow> string \<Rightarrow> action \<Rightarrow> ('w, 'e, unit) eng" where
  "run_action sv (Inl _) acc provider act = io_ret ()"
| "run_action sv (Inr src) acc provider SyncRound = best_effort (run_sync_round sv src acc provider)"
| "run_action sv (Inr src) acc provider ReplayRound = run_replay_round sv src acc"
| "run_action sv (Inr src) acc provider InboxPush = run_inbox_push_sync src acc"

fun loop_actions :: "bool \<Rightarrow> wake list \<Rightarrow> action list" where
  "loop_actions channel_open [] = []"
| "loop_actions channel_open (w # ws) =
     (case loop_turn channel_open w of
        None \<Rightarrow> []
      | Some (act, channel_open') \<Rightarrow> (case act of None \<Rightarrow> [] | Some x \<Rightarrow> [x]) @ loop_actions channel_open' ws)"

text \<open>Before the loop the folders are listed once more, for the source to learn its capabilities.\<close>

definition warm_up :: "string + 'w mail_source \<Rightarrow> ('w, 'e, unit) eng" where
  "warm_up src = (case src of Inl _ \<Rightarrow> io_ret () | Inr s \<Rightarrow> best_effort (in_src (src_list_folders s)))"

definition run_worker :: "'w services \<Rightarrow> string + 'w mail_source \<Rightarrow> string \<Rightarrow> string \<Rightarrow> wake list \<Rightarrow> ('w, 'e, unit) eng" where
  "run_worker sv src acc provider ws =
     io_bind (run_action sv src acc provider SyncRound) (\<lambda>_.
     io_bind (warm_up src) (\<lambda>_.
     io_each (run_action sv src acc provider) (loop_actions True ws)))"

text \<open>A worker polls for as long as it lives: unless it is told to shut down, every tick of its timer
  runs a full round, also after the channel of operations has been closed, and a nudge runs one
  while it is open; nothing else does.\<close>

lemma worker_keeps_polling:
  assumes "Operation (Some Shutdown) \<notin> set ws"
  shows "length (filter ((=) SyncRound) (loop_actions True ws)) =
    length (filter ((=) Tick) ws)
    + length (filter ((=) (Operation (Some SyncNow))) (takeWhile ((\<noteq>) (Operation None)) ws))"
proof -
  have closed: "length (filter ((=) SyncRound) (loop_actions False vs)) = length (filter ((=) Tick) vs)" for vs
  proof (induction vs)
    case (Cons v vs)
    then show ?case by (cases v) auto
  qed simp
  show ?thesis using assms
  proof (induction ws)
    case (Cons w ws)
    then show ?case
      by (cases "(True, w)" rule: loop_turn.cases) (auto simp: closed)
  qed simp
qed

lemma worker_keeps_polling_witness:
  "length (filter ((=) SyncRound) (loop_actions True [Operation (Some SyncNow), Operation None, Tick, Tick])) = 3"
  using worker_keeps_polling [of "[Operation (Some SyncNow), Operation None, Tick, Tick]"] by simp

end
