(* ===== verification/Engine_Eas.thy ===== *)
theory Engine_Eas
  imports Worker Eas_Source
begin

text \<open>
  The sync engine over an Exchange account: what the protocol's answers do to the gates and to the
  queue when the source of \<open>eas_source.rs\<close> stands behind the engine.
\<close>

text \<open>A throttling Exchange server is not left alone. It answers the FolderSync of a round with 429 or
  503 and any \<open>Retry-After\<close>; the round fails, but the window that is stored ended in 1970 and the
  breaker does not count it, so the next round calls the server again at once.\<close>

lemma eas_throttling_ignored:
  assumes "healthy (en_db s)" and "60 \<le> db_now (en_db s)"
    and "limited_until acc (en_db s) = None" and "cooldown_of (en_breakers s acc) (db_now (en_db s)) = None"
    and "serialize_tree (build_folder_sync_request ''0'') = Inr sent"
    and "net_post net (build_http_request (net_base64 net) (eas_config_of ea) ''FolderSync'' sent)
           (ew_server (en_world s)) = (Inr resp, w)"
    and "hr_status resp = 429 \<or> hr_status resp = 503"
  shows "\<exists>s1. gated_round (eas_source net ea uuid) acc ''eas'' s
      = (Returned (Inl (source_error_string (RateLimited 60))), s1) \<and>
    gated_round (eas_source net ea uuid) acc ''eas'' s1
      = receive_round (eas_source net ea uuid) acc ''eas'' (s1\<lparr>en_db := drop_expired_limit acc (en_db s1)\<rparr>)"
proof -
  let ?src = "eas_source net ea uuid"
  let ?s0 = "s\<lparr>en_db := drop_expired_limit acc (en_db s),
      en_events := en_events s @ [StatusEvent acc ''syncing'' None], en_world := (en_world s)\<lparr>ew_server := w\<rparr>\<rparr>"
  let ?s1 = "?s0\<lparr>en_db := (en_db ?s0)\<lparr>t_rate_limit := (t_rate_limit (en_db ?s0))(acc \<mapsto> 60)\<rparr>,
      en_events := en_events ?s0 @ [StatusEvent acc ''error'' None]\<rparr>"
  have list: "src_list_folders ?src (en_world s) = (Returned (Inl (RateLimited 60)), (en_world s)\<lparr>ew_server := w\<rparr>)"
    using eas_throttle_window_lost [OF assms(6,5,7)] by (simp add: eas_source_def)
  have "receive_round ?src acc ''eas'' (s\<lparr>en_db := drop_expired_limit acc (en_db s)\<rparr>) =
    list_failed acc (RateLimited 60) ?s0"
    using list by (simp add: receive_round_def io_bind_def emit_def io_try_def in_src_def on_db_def)
  also have "\<dots> = (Returned (Inl (source_error_string (RateLimited 60))), ?s1)"
    using assms(1) by (simp add: list_failed_def set_rate_limit_def io_bind_def in_db_healthy_update emit_def io_fail_def)
  finally have "gated_round ?src acc ''eas'' s = (Returned (Inl (source_error_string (RateLimited 60))), ?s1)"
    using assms(1,3,4) by (simp add: gated_round_healthy)
  moreover have "limited_until acc (en_db ?s1) = None" "healthy (en_db ?s1)" "en_breakers ?s1 = en_breakers s"
      "db_now (en_db ?s1) = db_now (en_db s)"
    using assms(1,2) by (simp_all add: limited_until_def drop_expired_limit_def healthy_def)
  then have "gated_round ?src acc ''eas'' ?s1
      = receive_round ?src acc ''eas'' (?s1\<lparr>en_db := drop_expired_limit acc (en_db ?s1)\<rparr>)"
    using assms(4) by (simp only: gated_round_healthy option.case Let_def)
  ultimately show ?thesis by blast
qed

text \<open>C29. A message that Exchange has accepted stays in the queue and is sent again. The server answers
  SendMail with its success, 200 and an empty body; the source reports an error, the window is told
  that the send failed, and the row is put back with one more failure.\<close>

theorem eas_accepted_mail_requeued:
  assumes "healthy (en_db s)" and "r \<in> set (t_pending (en_db s))"
    and "from_pending draft_of_json (row_to_op r) = Inr (Send draft)"
    and "send_prepare sv acc draft s = (Returned (Inr mime), s1)"
    and "serialize_tree (build_send_mail_request \<lparr>sm_mime = mime, sm_save_to_sent = True,
      sm_client_id = Some (''SendMail-'' @ uuid (ew_uuids (en_world s1)))\<rparr>) = Inr sent"
    and "net_post net (build_http_request (net_base64 net) (eas_config_of ea) ''SendMail'' sent)
           (ew_server (en_world s1)) = (Inr resp, w)"
    and "wbxml_reply resp []"
  shows "\<exists>s' e. replay_row sv (eas_source net ea uuid) acc (row_to_op r) s = (Returned (Inr ()), s') \<and>
    ew_server (en_world s') = w \<and>
    fail_row (db_now (en_db s)) e r \<in> set (t_pending (en_db s')) \<and>
    en_events s' = en_events s1 @ [SendResultEvent acc (dr_draft_id draft) False (Some e)]"
proof -
  let ?src = "eas_source net ea uuid"
  let ?e = "Other ''HTTP transport error: empty response body''"
  let ?w = "(en_world s1)\<lparr>ew_server := w, ew_uuids := ew_uuids (en_world s1) + 1\<rparr>"
  have send: "src_send ?src mime (en_world s1) = (Returned (Inl ?e), ?w)"
    using eas_send_accepted [where uuid = uuid and s = "en_world s1", OF assms(5,6,7)] by (simp add: eas_source_def)
  then have op: "send_op sv ?src acc draft s = (Returned (Inl ?e), s1\<lparr>en_world := ?w, en_events := en_events s1
      @ [SendResultEvent acc (dr_draft_id draft) False (Some (source_error_string ?e))]\<rparr>)"
    using assms(4) by (simp add: send_op_parts io_bind_def send_transport_def io_try_def in_src_def on_db_def
        send_failed_def emit_def io_fail_def)
  have run: "replay_row sv ?src acc (row_to_op r) s = (Returned (Inr ()), (snd (send_op sv ?src acc draft s))
      \<lparr>en_db := settle (po_id r) (Inl ?e) (en_db s)\<rparr>)"
  proof -
    have "en_db (snd (send_op sv ?src acc draft s)) = en_db s"
      using reads_dbD [OF reads_db_send surjective_pairing assms(1)] .
    then show ?thesis using op assms(1,3)
      by (simp add: replay_row_def dispatch_def io_bind_def io_try_def mark_failed_def in_db_healthy_update
          settle_def)
  qed
  have "fail_row (db_now (en_db s)) (source_error_string ?e) r \<in> set (t_pending (settle (po_id r) (Inl ?e) (en_db s)))"
    using assms(2) by (auto simp: settle_def fail_rows_def image_iff intro!: bexI [of _ r])
  with run op show ?thesis by auto
qed

section \<open>Concrete runs\<close>

definition idle_services :: "'w services" where
  "idle_services =
     \<lparr>sv_build_mime = (\<lambda>_ _. io_ret [77]), sv_crypto_backend = (\<lambda>_ _. Inr ()),
      sv_default_signing_key = (\<lambda>_ _. io_ret None), sv_apply_crypto = (\<lambda>_ mime _ _ _. io_ret mime),
      sv_canonicalize = (\<lambda>_ _. None), sv_remove_dir_all = (\<lambda>_. io_ret ()),
      sv_data_dir = []\<rparr>"

lemma eas_throttling_ignored_witness:
  "\<exists>s1. gated_round (eas_source (fixed_net (status_response 429 retry_after_120)) test_account (\<lambda>_. []))
      ''a'' ''eas'' (test_engine test_world) = (Returned (Inl (source_error_string (RateLimited 60))), s1)"
proof -
  obtain sent where sent: "serialize_tree (build_folder_sync_request ''0'') = Inr sent"
    using folder_sync_request_bytes by auto
  show ?thesis
    using eas_throttling_ignored [of "test_engine test_world" "''a''" sent
        "fixed_net (status_response 429 retry_after_120)" test_account "status_response 429 retry_after_120" "()"
        "\<lambda>_. []"] sent
    by (auto simp: test_engine_def empty_db_def healthy_def limited_until_def cooldown_of_def fixed_net_def
        status_response_def)
qed

lemma eas_accepted_mail_requeued_witness:
  "\<exists>s' e r. r \<in> set (t_pending (en_db (queued_engine test_world))) \<and>
    replay_row idle_services (eas_source (fixed_net (ok_response [])) test_account (\<lambda>_. ''u'')) ''a''
      (row_to_op r) (queued_engine test_world) = (Returned (Inr ()) :: (string + unit) panicky, s') \<and>
    fail_row 1000 e r \<in> set (t_pending (en_db s'))"
proof -
  let ?req = "\<lparr>sm_mime = [77], sm_save_to_sent = True, sm_client_id = Some ''SendMail-u''\<rparr>"
  let ?r = "new_row ''i'' ''a'' ''send'' ''send:1'' (JsonText (JObj [(''draft'', draft_json test_draft)])) 5"
  have "codec_wf (build_send_mail_request ?req)"
    using request_codec_wf [of "ReqSendMail ?req"] by (simp add: wire_mime_def wire_string_ascii)
  then obtain sent where sent: "serialize_tree (build_send_mail_request ?req) = Inr sent"
    using wbxml.roundtrip by blast
  have dec: "from_pending draft_of_json (row_to_op ?r) = Inr (Send test_draft)"
    by (simp add: from_pending_def row_to_op_def new_row_def from_json_def Let_def draft_codec)
  have prep: "send_prepare idle_services ''a'' test_draft (queued_engine test_world)
      = (Returned (Inr [77]), queued_engine test_world)"
    by (simp add: send_prepare_def send_granularity_def test_draft_def or_send_failed_def io_bind_def io_try_def
        in_src_def on_db_def idle_services_def io_ret_def send_crypto_def)
  have "\<exists>s' e. replay_row idle_services (eas_source (fixed_net (ok_response [])) test_account (\<lambda>_. ''u'')) ''a''
      (row_to_op ?r) (queued_engine test_world) = (Returned (Inr ()) :: (string + unit) panicky, s') \<and>
    ew_server (en_world s') = () \<and>
    fail_row (db_now (en_db (queued_engine test_world))) e ?r \<in> set (t_pending (en_db s')) \<and>
    en_events s' = en_events (queued_engine test_world) @ [SendResultEvent ''a'' (dr_draft_id test_draft) False (Some e)]"
    by (rule eas_accepted_mail_requeued [OF _ _ dec prep _ _ ok_response_reply])
      (use sent in \<open>simp_all add: queued_engine_def test_engine_def empty_db_def healthy_def fixed_net_def test_world_def\<close>)
  moreover have "?r \<in> set (t_pending (en_db (queued_engine test_world)))" "db_now (en_db (queued_engine test_world)) = 1000"
    by (simp_all add: queued_engine_def test_engine_def empty_db_def)
  ultimately show ?thesis by metis
qed

end
