(* ===== verification/Messages_Store.thy ===== *)
theory Messages_Store
  imports Messages
begin

text \<open>
  What storing a delta guarantees: referential integrity, the write lock of messages with a pending
  mutation, and that a delta that failed half-way can be applied again.
\<close>

section \<open>Relations that every statement keeps\<close>

text \<open>A relation between two databases that does not look at the fates of statements to come.\<close>

definition fault_blind :: "(db \<Rightarrow> db \<Rightarrow> bool) \<Rightarrow> bool" where
  "fault_blind R \<longleftrightarrow> (\<forall>d d' fs fs'. R (d\<lparr>db_faults := fs\<rparr>) (d'\<lparr>db_faults := fs'\<rparr>) = R d d') \<and>
     (\<forall>d. R d d) \<and> (\<forall>a b c. R a b \<longrightarrow> R b c \<longrightarrow> R a c)"

named_theorems db_keeps_intros

lemma fault_blindD:
  assumes "fault_blind R"
  shows "R d d" "R a b \<Longrightarrow> R b c \<Longrightarrow> R a c" "R d (d'\<lparr>db_faults := fs\<rparr>) = R d d'"
    "R (d\<lparr>db_faults := fs\<rparr>) d' = R d d'"
proof -
  have blind: "R (d\<lparr>db_faults := fs\<rparr>) (d'\<lparr>db_faults := fs'\<rparr>) = R d d'" for d d' fs fs'
    using assms unfolding fault_blind_def by blast
  show "R d d" "R a b \<Longrightarrow> R b c \<Longrightarrow> R a c" using assms unfolding fault_blind_def by blast+
  show "R d (d'\<lparr>db_faults := fs\<rparr>) = R d d'" using blind [where d = d and fs = "db_faults d" and d' = d' and fs' = fs] by simp
  show "R (d\<lparr>db_faults := fs\<rparr>) d' = R d d'" using blind [where d = d and fs = fs and d' = d' and fs' = "db_faults d'"] by simp
qed

lemma io_keepsD: "io_keeps R m \<Longrightarrow> m s = (r, s') \<Longrightarrow> R s s'"
  by (auto simp: io_keeps_def dest: spec [of _ s])

lemma keeps_stmt:
  assumes "fault_blind R" and "\<And>d. R d (snd (f d))"
  shows "io_keeps R (db_stmt f)"
proof -
  have "R d (snd (f (d\<lparr>db_faults := fs\<rparr>)))" for d fs
    using assms(2) [of "d\<lparr>db_faults := fs\<rparr>"] by (simp add: fault_blindD(4) [OF assms(1)])
  then show ?thesis
    using fault_blindD [OF assms(1)]
    by (auto simp: io_keeps_def db_stmt_def split: list.split option.split prod.split) (metis snd_conv)+
qed

lemma keeps_update [db_keeps_intros]: "fault_blind R \<Longrightarrow> (\<And>d. R d (u d)) \<Longrightarrow> io_keeps R (db_update u)"
  unfolding db_update_def by (rule keeps_stmt) auto

lemma keeps_query [db_keeps_intros]: "fault_blind R \<Longrightarrow> io_keeps R (db_query q)"
  unfolding db_query_def by (rule keeps_stmt) (auto simp: fault_blindD)

lemma keeps_ret [db_keeps_intros]: "fault_blind R \<Longrightarrow> io_keeps R (io_ret x)"
  by (simp add: io_keeps_ret fault_blindD)

lemma keeps_bind [db_keeps_intros]:
  "fault_blind R \<Longrightarrow> io_keeps R m \<Longrightarrow> (\<And>x. io_keeps R (f x)) \<Longrightarrow> io_keeps R (io_bind m f)"
  by (rule io_keeps_bind) (auto dest: fault_blindD(2))

lemma keeps_each [db_keeps_intros]:
  "fault_blind R \<Longrightarrow> (\<And>x. x \<in> set xs \<Longrightarrow> io_keeps R (f x)) \<Longrightarrow> io_keeps R (io_each f xs)"
  by (induction xs) (auto intro: db_keeps_intros)

lemma keeps_sum [db_keeps_intros]:
  "fault_blind R \<Longrightarrow> (\<And>x. x \<in> set xs \<Longrightarrow> io_keeps R (f x)) \<Longrightarrow> io_keeps R (io_sum f xs)"
  by (induction xs) (auto intro!: db_keeps_intros)

lemma keeps_transaction [db_keeps_intros]:
  assumes "fault_blind R" and "io_keeps R m"
  shows "io_keeps R (db_transaction m)"
proof -
  have "io_keeps R (io_bind (db_update id) (\<lambda>_. io_bind m (\<lambda>x. io_bind (db_update id) (\<lambda>_. io_ret x))))"
    using assms by (intro db_keeps_intros) (simp_all add: fault_blindD)
  from io_keepsD [OF this] show ?thesis
    using fault_blindD [OF assms(1)]
    by (auto simp: io_keeps_def db_transaction_def roll_back_def split: prod.splits panicky.splits sum.splits)
qed

lemma set_chunks: "xs \<in> set (chunks n ys) \<Longrightarrow> set xs \<subseteq> set ys"
proof (induction n ys rule: chunks.induct)
  case (1 n ys)
  show ?case
  proof (cases "n = 0 \<or> ys = []")
    case True
    with "1.prems" show ?thesis by (simp add: chunks.simps [of n ys])
  next
    case False
    with "1.prems" have "xs = take n ys \<or> xs \<in> set (chunks n (drop n ys))" by (simp add: chunks.simps [of n ys])
    with "1.IH" False show ?thesis by (auto dest: in_set_takeD in_set_dropD)
  qed
qed

lemma chunks_Nil [simp]: "chunks n [] = []"
  by (simp add: chunks.simps)

lemma concat_chunks: "0 < n \<Longrightarrow> concat (chunks n xs) = xs"
proof (induction n xs rule: chunks.induct)
  case (1 n xs)
  then show ?case by (cases "xs = []") (simp_all add: chunks.simps [of n xs])
qed

section \<open>Integrity\<close>

lemma fault_blind_mailbox: "fault_blind (\<lambda>d d'. mailbox_ok d \<longrightarrow> mailbox_ok d')"
  by (auto simp: fault_blind_def)

lemma set_upsert:
  "set (upsert_by key merge new rows) \<subseteq> set rows \<union> {new} \<union> {merge r new | r. r \<in> set rows \<and> key r = key new}"
  by (auto simp: upsert_by_def)

lemma upsert_keys:
  "(\<And>r. key (merge r new) = key new) \<Longrightarrow>
    set (map key (upsert_by key merge new rows)) = insert (key new) (set (map key rows))"
proof (cases "list_ex (\<lambda>r. key r = key new) rows")
  case True
  assume "\<And>r. key (merge r new) = key new"
  then have "key (if key r = key new then merge r new else r) = key r" for r by simp
  moreover from True obtain q where "q \<in> set rows" "key q = key new" by (auto simp: list_ex_iff)
  then have "key new \<in> key ` set rows" by (metis imageI)
  ultimately show ?thesis using True by (auto simp: upsert_by_def comp_def)
qed (simp add: upsert_by_def)

lemma merge_message_fields [simp]:
  "message_key (merge_message old new) = message_key new" "ms_account (merge_message old new) = ms_account new"
  "ms_id (merge_message old new) = ms_id new" "ms_thread (merge_message old new) = ms_thread old"
  by (simp_all add: merge_message_def message_key_def)

lemma has_thread_keys: "has_thread d a t \<longleftrightarrow> (a, t) \<in> set (map thread_key (t_threads d))"
  by (simp add: has_thread_def thread_key_def)

lemma has_message_keys: "has_message d a i \<longleftrightarrow> (a, i) \<in> set (map message_key (t_messages d))"
  by (simp add: has_message_def message_key_def)

lemma row_keys [simp]:
  "thread_key (thread_of acc m) = (acc, remote_id acc m)" "message_key (message_of acc m) = (acc, remote_id acc m)"
  by (simp_all add: thread_key_def thread_of_def message_key_def message_of_def)

lemma has_thread_put [simp]:
  "has_thread (put_thread acc m d) a t \<longleftrightarrow> has_thread d a t \<or> (a = acc \<and> t = remote_id acc m)"
  using upsert_keys [of thread_key "\<lambda>_ new. new" "thread_of acc m" "t_threads d"]
  by (simp add: has_thread_keys put_thread_def) blast

lemma has_message_put [simp]:
  "has_message (put_message acc m d) a i \<longleftrightarrow> has_message d a i \<or> (a = acc \<and> i = remote_id acc m)"
  using upsert_keys [of message_key merge_message "message_of acc m" "t_messages d"]
  by (simp add: has_message_keys put_message_def) blast

lemma put_fields [simp]:
  "t_messages (put_thread acc m d) = t_messages d" "t_thread_labels (put_thread acc m d) = t_thread_labels d"
  "t_bodies (put_thread acc m d) = t_bodies d" "t_bodies (put_message acc m d) = t_bodies d"
  "t_thread_labels (put_message acc m d) = t_thread_labels d"
  "has_thread (put_message acc m d) = has_thread d" "has_message (put_thread acc m d) = has_message d"
  "has_thread (put_link acc l tid d) = has_thread d" "has_message (put_link acc l tid d) = has_message d"
  "t_messages (put_link acc l tid d) = t_messages d" "t_bodies (put_link acc l tid d) = t_bodies d"
  "t_pending (put_thread acc m d) = t_pending d" "t_pending (put_message acc m d) = t_pending d"
  "t_pending (put_link acc l tid d) = t_pending d"
  "t_attachments (put_thread acc m d) = t_attachments d" "t_attachments (put_message acc m d) = t_attachments d"
  "t_attachments (put_link acc l tid d) = t_attachments d"
  "t_crypto_results (put_thread acc m d) = t_crypto_results d" "t_crypto_results (put_message acc m d) = t_crypto_results d"
  "t_crypto_results (put_link acc l tid d) = t_crypto_results d"
  by (auto simp: put_thread_def put_message_def put_link_def has_thread_def has_message_def Let_def fun_eq_iff)

lemma mailbox_ok_put_thread: "mailbox_ok d \<Longrightarrow> mailbox_ok (put_thread acc m d)"
  by (auto simp: mailbox_ok_def list_all_iff)

lemma mailbox_ok_put_message:
  "mailbox_ok d \<Longrightarrow> has_thread d acc (remote_id acc m) \<Longrightarrow> mailbox_ok (put_message acc m d)"
proof -
  assume ok: "mailbox_ok d" and t: "has_thread d acc (remote_id acc m)"
  have "has_thread d (ms_account r) (ms_thread r)" if "r \<in> set (t_messages (put_message acc m d))" for r
  proof -
    from that have "r \<in> set (t_messages d) \<or> r = message_of acc m \<or>
        (\<exists>q \<in> set (t_messages d). r = merge_message q (message_of acc m) \<and> message_key q = message_key (message_of acc m))"
      using set_upsert [of message_key merge_message "message_of acc m" "t_messages d"] by (auto simp: put_message_def)
    with ok t show ?thesis
      by (auto simp: mailbox_ok_def list_all_iff message_of_def message_key_def)
  qed
  with ok show ?thesis by (auto simp: mailbox_ok_def list_all_iff)
qed

lemma mailbox_ok_put_link: "mailbox_ok d \<Longrightarrow> has_thread d acc tid \<Longrightarrow> mailbox_ok (put_link acc l tid d)"
  by (auto simp: mailbox_ok_def list_all_iff put_link_def Let_def has_thread_def has_message_def)

lemma mailbox_ok_delete: "mailbox_ok d \<Longrightarrow> mailbox_ok (delete_messages_where p d)"
proof -
  assume ok: "mailbox_ok d"
  have still: "has_message (delete_messages_where p d) a m"
    if "has_message d a m" "(a, m) \<notin> set (map message_key (filter p (t_messages d)))" for a m
  proof -
    from that(1) obtain r where "r \<in> set (t_messages d)" "message_key r = (a, m)" by (auto simp: has_message_keys)
    moreover from this that(2) have "\<not> p r" by (force simp: image_iff)
    ultimately show ?thesis by (force simp: delete_messages_where_def has_message_keys Let_def)
  qed
  from ok show ?thesis
    by (auto simp: mailbox_ok_def list_all_iff intro!: still)
      (auto simp: delete_messages_where_def Let_def has_thread_def)
qed

lemma mailbox_ok_drop_bodies: "mailbox_ok d \<Longrightarrow> mailbox_ok (d\<lparr>t_bodies := filter p (t_bodies d)\<rparr>)"
  by (auto simp: mailbox_ok_def list_all_iff has_thread_def has_message_def)

text \<open>Updates of columns other than the keys change nothing that the invariant looks at.\<close>

lemma mailbox_ok_map_messages:
  assumes "\<And>r. message_key (f r) = message_key r" and "\<And>r. ms_thread (f r) = ms_thread r"
  shows "mailbox_ok (d\<lparr>t_messages := map f (t_messages d)\<rparr>) = mailbox_ok d"
proof -
  have "ms_account (f r) = ms_account r" "ms_id (f r) = ms_id r" for r
    using assms(1) [of r] by (simp_all add: message_key_def)
  then show ?thesis by (simp add: mailbox_ok_def list_all_iff has_thread_def has_message_def image_image assms(2))
qed

lemma mailbox_ok_map_threads:
  assumes "\<And>r. thread_key (f r) = thread_key r"
  shows "mailbox_ok (d\<lparr>t_threads := map f (t_threads d)\<rparr>) = mailbox_ok d"
proof -
  have "th_account (f r) = th_account r" "th_id (f r) = th_id r" for r
    using assms(1) [of r] by (simp_all add: thread_key_def)
  then show ?thesis by (simp add: mailbox_ok_def list_all_iff has_thread_def has_message_def image_image)
qed

lemma flags_keys [simp]:
  "message_key (set_message_flags acc folder u r) = message_key r" "ms_thread (set_message_flags acc folder u r) = ms_thread r"
  "thread_key (set_thread_flags tid u q) = thread_key q"
  by (simp_all add: set_message_flags_def set_thread_flags_def message_key_def thread_key_def)

text \<open>
  Sequences whose steps depend on each other: when \<open>P\<close> holds before, \<open>Q\<close> holds after a success and \<open>E\<close>
  after a failure.
\<close>

definition triple :: "(db \<Rightarrow> bool) \<Rightarrow> 'a db_io \<Rightarrow> (db \<Rightarrow> bool) \<Rightarrow> (db \<Rightarrow> bool) \<Rightarrow> bool" where
  "triple P m Q E \<longleftrightarrow> (\<forall>d r d'. P d \<longrightarrow> m d = (r, d') \<longrightarrow> (case r of Returned (Inr _) \<Rightarrow> Q d' | _ \<Rightarrow> E d'))"

definition blind :: "(db \<Rightarrow> bool) \<Rightarrow> bool" where
  "blind P \<longleftrightarrow> (\<forall>d fs. P (d\<lparr>db_faults := fs\<rparr>) = P d)"

lemma triple_bind: "triple P m Q E \<Longrightarrow> (\<And>x. triple Q (f x) R E) \<Longrightarrow> triple P (io_bind m f) R E"
  unfolding triple_def by (fastforce simp: io_bind_def split: prod.splits panicky.splits sum.splits)

lemma triple_update:
  assumes "blind P" and "blind Q" and "blind E" and "\<And>d. P d \<Longrightarrow> E d" and "\<And>d. P d \<Longrightarrow> Q (u d)"
  shows "triple P (db_update u) Q E"
  using assms unfolding triple_def blind_def
  by (auto simp: db_update_def db_stmt_def split: list.splits option.splits)

lemma triple_keeps:
  assumes "triple P m P P"
  shows "io_keeps (\<lambda>d d'. P d \<longrightarrow> P d') m"
proof -
  have "P d'" if "P d" and "m d = (r, d')" for d r d'
  proof -
    from assms that have "case r of Returned (Inr _) \<Rightarrow> P d' | _ \<Rightarrow> P d'" unfolding triple_def by blast
    then show ?thesis by (cases r rule: panicky.exhaust) (auto split: sum.split_asm)
  qed
  then show ?thesis unfolding io_keeps_def by (metis surjective_pairing)
qed

lemma blind_mailbox: "blind mailbox_ok" "blind (\<lambda>d. mailbox_ok d \<and> has_thread d a t)"
  by (simp_all add: blind_def has_thread_def)

lemma upsert_keeps_mailbox: "io_keeps (\<lambda>d d'. mailbox_ok d \<longrightarrow> mailbox_ok d') (upsert_message acc label m)"
proof -
  let ?threaded = "\<lambda>d. mailbox_ok d \<and> has_thread d acc (remote_id acc m)"
  have "triple mailbox_ok (db_update (put_thread acc m)) ?threaded mailbox_ok"
    by (rule triple_update) (auto simp: blind_mailbox mailbox_ok_put_thread)
  moreover have "triple ?threaded (db_update (put_message acc m)) ?threaded mailbox_ok"
    by (rule triple_update) (auto simp: blind_mailbox mailbox_ok_put_message)
  moreover have "triple ?threaded (db_update (put_link acc label (remote_id acc m))) mailbox_ok mailbox_ok"
    by (rule triple_update) (auto simp: blind_mailbox mailbox_ok_put_link)
  ultimately have "io_keeps (\<lambda>d d'. mailbox_ok d \<longrightarrow> mailbox_ok d') (io_bind (db_update (put_thread acc m)) (\<lambda>_.
      io_bind (db_update (put_message acc m)) (\<lambda>_. db_update (put_link acc label (remote_id acc m)))))"
    by (intro triple_keeps triple_bind)
  then show ?thesis
    unfolding upsert_message_def
    by (intro keeps_bind [OF fault_blind_mailbox] keeps_query [OF fault_blind_mailbox])
      (auto intro: keeps_ret [OF fault_blind_mailbox])
qed

text \<open>C32. Whatever the server sends and whichever statement fails, storing a delta keeps the mailbox
  consistent: every message and every label link has its thread, every stored body its message.\<close>

theorem delta_keeps_integrity:
  "mailbox_ok d \<longrightarrow> mailbox_ok (snd (apply_folder_delta acc label folder delta d))"
proof -
  note [db_keeps_intros] = upsert_keeps_mailbox
  have stmt: "io_keeps (\<lambda>d d'. mailbox_ok d \<longrightarrow> mailbox_ok d') (db_stmt (\<lambda>d. (x d, u d)))"
    if "\<And>d. mailbox_ok d \<Longrightarrow> mailbox_ok (u d)" for x :: "db \<Rightarrow> 'b" and u
    by (rule keeps_stmt [OF fault_blind_mailbox]) (simp add: that)
  have "io_keeps (\<lambda>d d'. mailbox_ok d \<longrightarrow> mailbox_ok d') (apply_folder_delta acc label folder delta)"
    unfolding apply_folder_delta_def wipe_folder_def store_messages_def delete_vanished_def delete_uid_def
      apply_flag_updates_def apply_flag_update_def Let_def
    by (auto intro!: db_keeps_intros fault_blind_mailbox stmt
        simp: mailbox_ok_delete mailbox_ok_sweep mailbox_ok_drop_bodies mailbox_ok_map_messages mailbox_ok_map_threads)
  then show ?thesis by (simp add: io_keeps_def)
qed

definition letter :: remote_message where
  "letter = remote_message_default\<lparr>rm_uid := 7, rm_folder := ''INBOX'', rm_subject := Some ''Hi''\<rparr>"

lemma delta_keeps_integrity_witness:
  "mailbox_ok (snd (apply_folder_delta ''a'' ''a:INBOX'' ''INBOX''
     \<lparr>fd_added = [letter], fd_updated = [], fd_flag_updates = [], fd_vanished_uids = [4], fd_next_cursor = initial_imap,
      fd_uidvalidity_changed = False\<rparr> (mailbox_db\<lparr>db_faults := [None, None, None, Some ''disk full'']\<rparr>)))"
proof -
  have "mailbox_ok (mailbox_db\<lparr>db_faults := [None, None, None, Some ''disk full'']\<rparr>)"
    by (simp add: mailbox_db_def mailbox_ok_def has_thread_def has_message_def empty_db_def)
  then show ?thesis by (rule delta_keeps_integrity [rule_format])
qed

section \<open>The write lock\<close>

text \<open>The id of a row is the one built from its folder and UID, where it has both.\<close>

definition located :: "db \<Rightarrow> bool" where
  "located d \<longleftrightarrow> list_all (\<lambda>r. case (mc_imap_folder (ms_content r), mc_imap_uid (ms_content r)) of
     (Some folder, Some uid) \<Rightarrow> ms_id r = imap_message_id (ms_account r) folder (word_of_int uid)
   | _ \<Rightarrow> True) (t_messages d)"

definition rows_of_message :: "string \<Rightarrow> string \<Rightarrow> db \<Rightarrow> message_row list \<times> thread_row list" where
  "rows_of_message acc mid d =
     (filter (\<lambda>r. message_key r = (acc, mid)) (t_messages d), filter (\<lambda>r. thread_key r = (acc, mid)) (t_threads d))"

text \<open>A message with a pending mutation whose thread is its own.\<close>

definition held :: "string \<Rightarrow> string \<Rightarrow> db \<Rightarrow> bool" where
  "held acc mid d \<longleftrightarrow> located d \<and> is_locked acc mid d \<and>
     (\<exists>r \<in> set (t_messages d). message_key r = (acc, mid) \<and> ms_thread r = mid)"

definition holds_rows :: "string \<Rightarrow> string \<Rightarrow> db \<Rightarrow> db \<Rightarrow> bool" where
  "holds_rows acc mid d d' \<longleftrightarrow>
     (held acc mid d \<longrightarrow> held acc mid d' \<and> rows_of_message acc mid d' = rows_of_message acc mid d)"

lemma fault_blind_holds: "fault_blind (holds_rows acc mid)"
  by (auto simp: fault_blind_def holds_rows_def held_def located_def rows_of_message_def is_locked_def)

lemma filter_upsert:
  assumes "\<And>r. key r = key new \<Longrightarrow> key (merge r new) = key new" and "key new \<noteq> k"
  shows "filter (\<lambda>r. key r = k) (upsert_by key merge new rows) = filter (\<lambda>r. key r = k) rows"
proof -
  have "filter (\<lambda>r. key r = k) (map (\<lambda>r. if key r = key new then merge r new else r) rows) = filter (\<lambda>r. key r = k) rows"
    using assms by (induction rows) auto
  then show ?thesis using assms(2) by (simp add: upsert_by_def)
qed

lemma filter_map_keys:
  assumes "\<And>r. key (f r) = key r" and "\<And>r. key r = k \<Longrightarrow> f r = r"
  shows "filter (\<lambda>r. key r = k) (map f rows) = filter (\<lambda>r. key r = k) rows"
  using assms by (induction rows) auto

text \<open>\<^const>\<open>held\<close> reads one row of the message, the queue and the shape of the ids.\<close>

lemma heldI:
  assumes "held acc mid d" and "located d'" and "t_pending d' = t_pending d"
    and "rows_of_message acc mid d' = rows_of_message acc mid d"
  shows "held acc mid d'"
proof -
  from assms(1) obtain r where r: "r \<in> set (t_messages d)" "message_key r = (acc, mid)" "ms_thread r = mid"
    by (auto simp: held_def)
  then have "r \<in> set (filter (\<lambda>r. message_key r = (acc, mid)) (t_messages d))" by simp
  also have "filter (\<lambda>r. message_key r = (acc, mid)) (t_messages d) = filter (\<lambda>r. message_key r = (acc, mid)) (t_messages d')"
    using assms(4) by (simp add: rows_of_message_def)
  finally have "r \<in> set (t_messages d')" by simp
  with assms(1-3) r show ?thesis by (auto simp: held_def is_locked_def)
qed

lemma holds_rowsI:
  assumes "t_pending d' = t_pending d" and "held acc mid d \<Longrightarrow> located d'"
    and "held acc mid d \<Longrightarrow> rows_of_message acc mid d' = rows_of_message acc mid d"
  shows "holds_rows acc mid d d'"
  unfolding holds_rows_def using heldI [of acc mid d d'] assms by blast

lemma located_put: "located d \<Longrightarrow> located (put_message acc m d)"
  using set_upsert [of message_key merge_message "message_of acc m" "t_messages d"]
  by (fastforce simp: located_def list_all_iff put_message_def message_of_def merge_message_def remote_id_def)

lemma holds_put:
  assumes "remote_id acc' m = mid \<and> acc' = acc \<Longrightarrow> False"
  shows "holds_rows acc mid d (put_thread acc' m d)" "holds_rows acc mid d (put_message acc' m d)"
    "holds_rows acc mid d (put_link acc' l tid d)"
proof -
  show "holds_rows acc mid d (put_thread acc' m d)"
    using assms filter_upsert [of thread_key "thread_of acc' m" "\<lambda>_ new. new" "(acc, mid)" "t_threads d"]
    by (intro holds_rowsI) (auto simp: held_def located_def rows_of_message_def put_thread_def)
  have "t_messages (put_message acc' m d) = upsert_by message_key merge_message (message_of acc' m) (t_messages d)"
    "t_threads (put_message acc' m d) = t_threads d" by (simp_all add: put_message_def)
  with assms show "holds_rows acc mid d (put_message acc' m d)"
    using filter_upsert [of message_key "message_of acc' m" merge_message "(acc, mid)" "t_messages d"]
    by (intro holds_rowsI) (auto simp: held_def located_put rows_of_message_def)
  show "holds_rows acc mid d (put_link acc' l tid d)"
    by (intro holds_rowsI) (auto simp: held_def located_def rows_of_message_def put_link_def Let_def)
qed

lemma holds_sweep: "holds_rows acc mid d (sweep_orphans acc' d)"
proof (rule holds_rowsI)
  assume held: "held acc mid d"
  then obtain r where r: "r \<in> set (t_messages d)" "message_key r = (acc, mid)" "ms_thread r = mid"
    by (auto simp: held_def)
  then have "\<not> orphan acc d mid" by (force simp: orphan_def message_key_def)
  then have "filter (\<lambda>q. thread_key q = (acc, mid)) (t_threads (sweep_orphans acc' d))
      = filter (\<lambda>q. thread_key q = (acc, mid)) (t_threads d)"
    by (auto simp: sweep_orphans_def Let_def thread_key_def intro!: filter_cong)
  then show "rows_of_message acc mid (sweep_orphans acc' d) = rows_of_message acc mid d"
    by (simp add: rows_of_message_def sweep_orphans_def Let_def)
  from held show "located (sweep_orphans acc' d)"
    by (simp add: held_def located_def sweep_orphans_def Let_def)
qed (simp add: sweep_orphans_def Let_def)

lemma holds_delete:
  assumes "\<And>r. p r \<Longrightarrow> ms_id r \<noteq> mid"
  shows "holds_rows acc mid d (delete_messages_where p d)"
proof (rule holds_rowsI)
  show "rows_of_message acc mid (delete_messages_where p d) = rows_of_message acc mid d"
    using assms by (auto simp: rows_of_message_def delete_messages_where_def Let_def message_key_def intro!: filter_cong)
qed (auto simp: delete_messages_where_def Let_def held_def located_def list_all_iff)

lemma holds_bodies: "holds_rows acc mid d (d\<lparr>t_bodies := bs\<rparr>)"
  by (rule holds_rowsI) (simp_all add: held_def located_def rows_of_message_def)

lemma holds_flags:
  assumes "imap_message_id acc folder (fu_uid u) \<noteq> mid"
  shows "holds_rows acc mid d (d\<lparr>t_messages := map (set_message_flags acc folder u) (t_messages d)\<rparr>)"
proof (rule holds_rowsI)
  assume held: "held acc mid d"
  have *: "set_message_flags acc folder u r = r"
    if "r \<in> set (t_messages d)" "message_key r = (acc, mid)" for r
    using that held assms by (force simp: held_def located_def list_all_iff set_message_flags_def message_key_def)
  have "filter (\<lambda>r. message_key r = (acc, mid)) (map (set_message_flags acc folder u) rows)
      = filter (\<lambda>r. message_key r = (acc, mid)) rows" if "set rows \<subseteq> set (t_messages d)" for rows
    using that by (induction rows) (auto simp: *)
  then show "rows_of_message acc mid (d\<lparr>t_messages := map (set_message_flags acc folder u) (t_messages d)\<rparr>)
      = rows_of_message acc mid d" by (simp add: rows_of_message_def)
  from held show "located (d\<lparr>t_messages := map (set_message_flags acc folder u) (t_messages d)\<rparr>)"
    by (auto simp: held_def located_def list_all_iff set_message_flags_def)
qed simp

lemma holds_thread_flags:
  assumes "tid \<noteq> mid"
  shows "holds_rows acc mid d (d\<lparr>t_threads := map (set_thread_flags tid u) (t_threads d)\<rparr>)"
proof (rule holds_rowsI)
  show "rows_of_message acc mid (d\<lparr>t_threads := map (set_thread_flags tid u) (t_threads d)\<rparr>) = rows_of_message acc mid d"
    using assms filter_map_keys [of thread_key "set_thread_flags tid u" "(acc, mid)" "t_threads d"]
    by (auto simp: rows_of_message_def set_thread_flags_def thread_key_def)
qed (simp_all add: held_def located_def)

text \<open>A step that asks for the lock first, and stops when it is taken.\<close>

lemma holds_guarded:
  assumes "mid' \<noteq> mid \<Longrightarrow> io_keeps (holds_rows acc mid) m"
  shows "io_keeps (holds_rows acc mid) (io_bind (db_query (is_locked acc mid')) (\<lambda>locked. if locked then io_ret x else m))"
proof (cases "mid' = mid")
  case True
  have "holds_rows acc mid d (snd (io_bind (db_query (is_locked acc mid)) (\<lambda>locked. if locked then io_ret x else m) d))" for d
  proof (cases "held acc mid d")
    case held: True
    obtain r d' where q: "db_query (is_locked acc mid) d = (r, d')" by fastforce
    from held have "is_locked acc mid (d\<lparr>db_faults := fs\<rparr>)" for fs by (simp add: held_def is_locked_def)
    with q have "(\<exists>e. r = Returned (Inl e)) \<or> r = Returned (Inr True)"
      by (auto simp: db_query_def db_stmt_def split: list.splits option.splits)
    moreover have "holds_rows acc mid d d'"
      using io_keepsD [OF keeps_query [OF fault_blind_holds] q] .
    ultimately show ?thesis using True q by (auto simp: io_bind_def io_ret_def)
  qed (simp add: holds_rows_def)
  with True show ?thesis by (simp add: io_keeps_def)
qed (auto intro!: db_keeps_intros fault_blind_holds assms)

lemma upsert_holds: "io_keeps (holds_rows acc mid) (upsert_message acc label m)"
  unfolding upsert_message_def
  by (rule holds_guarded) (auto intro!: db_keeps_intros fault_blind_holds holds_put)

lemma delete_holds:
  "imap_message_id acc folder uid \<noteq> mid \<Longrightarrow> io_keeps (holds_rows acc mid) (delete_uid acc folder uid)"
  unfolding delete_uid_def Let_def
  by (intro keeps_bind keeps_update keeps_stmt keeps_ret fault_blind_holds)
    (auto intro: holds_delete holds_bodies)

lemma flag_update_holds: "io_keeps (holds_rows acc mid) (apply_flag_update acc folder u)"
  unfolding apply_flag_update_def Let_def
  by (rule holds_guarded)
    (auto intro!: keeps_bind keeps_update keeps_stmt keeps_ret fault_blind_holds holds_flags holds_thread_flags)

text \<open>C30. The write lock. A message that has a mutation waiting in the queue keeps its row, and its
  thread's, while a delta of any content is stored and whichever statement fails: the optimistic local write
  is not undone by the server's older state. It may still be expunged, or wiped with its folder.\<close>

theorem write_lock:
  assumes "held acc mid d" and "\<not> fd_uidvalidity_changed delta"
    and "\<forall>uid \<in> set (fd_vanished_uids delta). imap_message_id acc folder uid \<noteq> mid"
  shows "rows_of_message acc mid (snd (apply_folder_delta acc label folder delta d)) = rows_of_message acc mid d"
proof -
  note blind = fault_blind_holds [of acc mid]
  have "io_keeps (holds_rows acc mid) (store_messages acc label ms)" for ms
    unfolding store_messages_def by (intro keeps_each keeps_transaction upsert_holds blind)
  moreover have "io_keeps (holds_rows acc mid) (delete_uid acc folder uid)"
    if "uid \<in> set chunk" "chunk \<in> set (chunks APPLY_BATCH_SIZE (fd_vanished_uids delta))" for uid chunk
    using that assms(3) set_chunks delete_holds by blast
  then have "io_keeps (holds_rows acc mid) (delete_vanished acc folder (fd_vanished_uids delta))"
    unfolding delete_vanished_def
    by (auto intro!: keeps_bind keeps_sum keeps_transaction keeps_update keeps_ret blind holds_sweep)
  moreover have "io_keeps (holds_rows acc mid) (apply_flag_updates acc folder us)" for us
    unfolding apply_flag_updates_def by (intro keeps_sum flag_update_holds blind)
  ultimately have "io_keeps (holds_rows acc mid) (apply_folder_delta acc label folder delta)"
    using assms(2) unfolding apply_folder_delta_def by (auto intro!: keeps_bind keeps_ret blind)
  with assms(1) show ?thesis by (auto simp: io_keeps_def holds_rows_def)
qed

text \<open>A letter that the user has read and the server still believes unread.\<close>

definition read_locally :: db where
  "read_locally = empty_db
     \<lparr>t_pending := [new_row ''p1'' ''a'' ''markRead'' (remote_id ''a'' letter) (JsonText (JObj [])) 5],
      t_threads := [(thread_of ''a'' letter)\<lparr>th_is_read := 1\<rparr>],
      t_messages := [(message_of ''a'' letter)\<lparr>ms_is_read := 1\<rparr>]\<rparr>"

lemma write_lock_witness:
  "map ms_is_read (fst (rows_of_message ''a'' (remote_id ''a'' letter) (snd (apply_folder_delta ''a'' ''a:INBOX'' ''INBOX''
     \<lparr>fd_added = [], fd_updated = [letter], fd_flag_updates = [\<lparr>fu_uid = 7, fu_is_read = False, fu_is_starred = False\<rparr>],
      fd_vanished_uids = [], fd_next_cursor = initial_imap, fd_uidvalidity_changed = False\<rparr> read_locally)))) = [1]"
proof -
  have "held ''a'' (remote_id ''a'' letter) read_locally"
    by (simp add: held_def located_def is_locked_def read_locally_def pending_of_account_def new_row_def message_of_def
        message_key_def remote_id_def)
  then have "rows_of_message ''a'' (remote_id ''a'' letter) (snd (apply_folder_delta ''a'' ''a:INBOX'' ''INBOX''
     \<lparr>fd_added = [], fd_updated = [letter], fd_flag_updates = [\<lparr>fu_uid = 7, fu_is_read = False, fu_is_starred = False\<rparr>],
      fd_vanished_uids = [], fd_next_cursor = initial_imap, fd_uidvalidity_changed = False\<rparr> read_locally))
      = rows_of_message ''a'' (remote_id ''a'' letter) read_locally"
    by (rule write_lock) simp_all
  then show ?thesis by (simp add: rows_of_message_def read_locally_def message_key_def message_of_def)
qed

section \<open>A delta that failed half-way\<close>

definition put_one :: "string \<Rightarrow> string \<Rightarrow> remote_message \<Rightarrow> db \<Rightarrow> db" where
  "put_one acc label m d =
     (if is_locked acc (remote_id acc m) d then d
      else put_link acc label (remote_id acc m) (put_message acc m (put_thread acc m d)))"

lemma put_faults [simp]:
  "put_thread acc m (d\<lparr>db_faults := fs\<rparr>) = (put_thread acc m d)\<lparr>db_faults := fs\<rparr>"
  "put_message acc m (d\<lparr>db_faults := fs\<rparr>) = (put_message acc m d)\<lparr>db_faults := fs\<rparr>"
  "put_link acc l tid (d\<lparr>db_faults := fs\<rparr>) = (put_link acc l tid d)\<lparr>db_faults := fs\<rparr>"
  "is_locked acc tid (d\<lparr>db_faults := fs\<rparr>) = is_locked acc tid d"
  "put_one acc l m (d\<lparr>db_faults := fs\<rparr>) = (put_one acc l m d)\<lparr>db_faults := fs\<rparr>"
  by (simp_all add: put_thread_def put_message_def put_link_def is_locked_def put_one_def Let_def)

lemma fold_put_faults [simp]:
  "fold (put_one acc l) ms (d\<lparr>db_faults := fs\<rparr>) = (fold (put_one acc l) ms d)\<lparr>db_faults := fs\<rparr>"
  by (induction ms arbitrary: d) simp_all

text \<open>A step that, when it succeeds, has had the effect of a function on the tables.\<close>

definition does :: "'a db_io \<Rightarrow> (db \<Rightarrow> db) \<Rightarrow> bool" where
  "does m u \<longleftrightarrow> (\<forall>d d'. m d \<noteq> (Panicked, d')) \<and> (\<forall>d e d'. m d = (Returned (Inl e), d') \<longrightarrow> \<not> healthy d) \<and>
     (\<forall>d x d'. m d = (Returned (Inr x), d') \<longrightarrow> same_tables (u d) d' \<and> (healthy d \<longrightarrow> healthy d'))"

definition fault_free :: "(db \<Rightarrow> db) \<Rightarrow> bool" where
  "fault_free u \<longleftrightarrow> (\<forall>d fs. u (d\<lparr>db_faults := fs\<rparr>) = (u d)\<lparr>db_faults := fs\<rparr>)"

lemma doesD:
  assumes "does m u"
  shows "m d \<noteq> (Panicked, d')" "m d = (Returned (Inl e), d') \<Longrightarrow> \<not> healthy d"
    "m d = (Returned (Inr x), d') \<Longrightarrow> same_tables (u d) d'"
    "m d = (Returned (Inr x), d') \<Longrightarrow> healthy d \<Longrightarrow> healthy d'"
  using assms unfolding does_def by blast+

lemma doesI:
  assumes "\<And>d d'. m d = (Panicked, d') \<Longrightarrow> False"
    and "\<And>d e d'. m d = (Returned (Inl e), d') \<Longrightarrow> healthy d \<Longrightarrow> False"
    and "\<And>d x d'. m d = (Returned (Inr x), d') \<Longrightarrow> same_tables (u d) d' \<and> (healthy d \<longrightarrow> healthy d')"
  shows "does m u"
  using assms unfolding does_def by blast

lemma does_healthy:
  assumes "does m u" and "healthy d"
  obtains x d' where "m d = (Returned (Inr x), d')" and "same_tables (u d) d'" and "healthy d'"
proof -
  obtain r d' where m: "m d = (r, d')" by fastforce
  obtain x where "r = Returned (Inr x)"
  proof (cases r rule: panicky.exhaust)
    case (Returned q)
    with m assms doesD(2) [OF assms(1)] that show thesis by (cases q) blast+
  qed (use m doesD(1) [OF assms(1)] in blast)
  with m doesD [OF assms(1)] assms(2) that show thesis by blast
qed

lemma same_tablesE: "same_tables d d' \<Longrightarrow> (\<And>fs. d' = d\<lparr>db_faults := fs\<rparr> \<Longrightarrow> P) \<Longrightarrow> P"
  by (auto simp: same_tables_def)

lemma same_tables_faults [simp]: "same_tables d (d\<lparr>db_faults := fs\<rparr>)"
  by (simp add: same_tables_def)

lemma fault_free_same: "fault_free u \<Longrightarrow> same_tables d d' \<Longrightarrow> same_tables (u d) (u d')"
  unfolding fault_free_def by (metis same_tablesE same_tables_faults)

lemma fault_free_put: "fault_free (put_thread acc m)" "fault_free (put_message acc m)"
  "fault_free (put_link acc l tid)" "fault_free (put_one acc l m)" "fault_free (fold (put_one acc l) ms)"
  "fault_free id"
  by (simp_all add: fault_free_def)

lemma fault_free_fold: "(\<And>x. fault_free (u x)) \<Longrightarrow> fault_free (fold u xs)"
proof (induction xs)
  case (Cons x xs)
  then show ?case by (simp add: fault_free_def)
qed (simp add: fault_free_def)

lemma does_update: "fault_free u \<Longrightarrow> does (db_update u) u"
  by (auto simp: does_def fault_free_def db_update_def db_stmt_def healthy_def split: list.splits option.splits)

lemma does_ret: "does (io_ret x) id"
  by (simp add: does_def io_ret_def)

lemma io_bind_Panicked_iff:
  "io_bind m f s = (Panicked, t) \<longleftrightarrow> m s = (Panicked, t) \<or>
     (\<exists>x s'. m s = (Returned (Inr x), s') \<and> f x s' = (Panicked, t))"
  by (auto simp: io_bind_def split: prod.splits panicky.splits sum.splits)

lemma does_bind:
  assumes "does m u" and "\<And>x. does (f x) v" and "fault_free v"
  shows "does (io_bind m f) (\<lambda>d. v (u d))"
proof -
  have "same_tables (v (u d)) d'" if "m d = (Returned (Inr x), d1)" "f x d1 = (Returned (Inr y), d')" for d x d1 y d'
    using doesD(3) [OF assms(1) that(1)] doesD(3) [OF assms(2) that(2)] fault_free_same [OF assms(3)]
      same_tables_trans by blast
  then show ?thesis
    using doesD(1,2,4) [OF assms(1)] doesD(1,2,4) [OF assms(2)]
    by (intro doesI) (auto simp: res_simps io_bind_Panicked_iff, blast+)
qed

lemma does_each:
  assumes "\<And>x. does (f x) (u x)" and "\<And>x. fault_free (u x)"
  shows "does (io_each f xs) (fold u xs)"
proof (induction xs)
  case Nil
  then show ?case using does_ret by (simp add: id_def)
next
  case (Cons x xs)
  with does_bind [OF assms(1) Cons fault_free_fold] assms(2) show ?case by (simp add: comp_def)
qed

lemma fold_fold: "fold (fold f) xss = fold f (concat xss)"
  by (induction xss) simp_all

lemma does_transaction:
  assumes "does m u" and "fault_free u"
  shows "does (db_transaction m) u"
proof -
  let ?m = "io_bind (db_update id) (\<lambda>_. io_bind m (\<lambda>x. io_bind (db_update id) (\<lambda>_. io_ret x)))"
  have "does ?m (\<lambda>d. id (id (u (id d))))"
    using assms by (intro does_bind [where u = id and m = "db_update id"] does_bind [OF assms(1)]
        does_update does_ret fault_free_put) (simp_all add: fault_free_def)
  then have m: "does ?m u" by simp
  have eq: "db_transaction m d = (Panicked, d') \<Longrightarrow> ?m d = (Panicked, d')"
    "db_transaction m d = (Returned (Inr x), d') \<Longrightarrow> ?m d = (Returned (Inr x), d')"
    "db_transaction m d = (Returned (Inl e), d') \<Longrightarrow> \<exists>d''. ?m d = (Returned (Inl e), d'')" for d x e d'
    by (auto simp: db_transaction_def split: prod.splits panicky.splits sum.splits)
  show ?thesis by (rule doesI) (blast dest: eq doesD(2-4) [OF m] notE [OF doesD(1) [OF m]])+
qed

lemma does_guarded:
  assumes "does m u" and "\<And>d fs. p (d\<lparr>db_faults := fs\<rparr>) = p d" and "fault_free u"
  shows "does (io_bind (db_query p) (\<lambda>b. if b then io_ret () else m)) (\<lambda>d. if p d then d else u d)"
proof -
  have q: "db_query p d = (Returned (Inr b), d') \<Longrightarrow> b = p d \<and> same_tables d d' \<and> (healthy d \<longrightarrow> healthy d')"
    "db_query p d \<noteq> (Panicked, d')" "db_query p d = (Returned (Inl e), d') \<Longrightarrow> \<not> healthy d" for d b d' e
    using assms(2) by (auto simp: db_query_def db_stmt_def healthy_def split: list.splits option.splits)
  have "same_tables (u d) d'" if "db_query p d = (Returned (Inr b), d1)" "m d1 = (Returned (Inr ()), d')" for d b d1 d'
    using q(1) [OF that(1)] doesD(3) [OF assms(1) that(2)] fault_free_same [OF assms(3)] same_tables_trans by blast
  then show ?thesis
    using q doesD [OF assms(1)] by (intro doesI) (auto simp: res_simps io_bind_Panicked_iff io_ret_def split: if_splits, blast+)
qed

lemma upsert_does: "does (upsert_message acc label m) (put_one acc label m)"
proof -
  have "does (io_bind (db_update (put_thread acc m)) (\<lambda>_. io_bind (db_update (put_message acc m)) (\<lambda>_.
      db_update (put_link acc label (remote_id acc m)))))
      (\<lambda>d. put_link acc label (remote_id acc m) (put_message acc m (put_thread acc m d)))"
    by (intro does_bind [where v = "\<lambda>d. put_link acc label (remote_id acc m) (put_message acc m d)"]
        does_bind [where v = "put_link acc label (remote_id acc m)"] does_update fault_free_put)
      (simp add: fault_free_def)
  then have "does (upsert_message acc label m) (\<lambda>d. if is_locked acc (remote_id acc m) d then d
      else put_link acc label (remote_id acc m) (put_message acc m (put_thread acc m d)))"
    unfolding upsert_message_def by (rule does_guarded) (simp_all add: fault_free_def)
  then show ?thesis by (simp add: put_one_def [abs_def])
qed

text \<open>
  A batch is a transaction: what a failing \<^const>\<open>store_messages\<close> leaves is the work of a number of
  complete batches.
\<close>

lemma store_does: "does (store_messages acc label ms) (fold (put_one acc label) ms)"
proof -
  have "does (store_messages acc label ms) (fold (fold (put_one acc label)) (chunks APPLY_BATCH_SIZE ms))"
    unfolding store_messages_def
    by (intro does_each does_transaction upsert_does fault_free_put)
  also have "fold (fold (put_one acc label)) (chunks APPLY_BATCH_SIZE ms) = fold (put_one acc label) (concat (chunks APPLY_BATCH_SIZE ms))"
    by (rule fold_fold)
  finally show ?thesis by (simp add: concat_chunks APPLY_BATCH_SIZE_def)
qed

lemma store_prefix:
  assumes "io_each (\<lambda>chunk. db_transaction (io_each (upsert_message acc label) chunk)) cs d = (Returned (Inl e), d')"
  shows "\<exists>k < length cs. same_tables (fold (put_one acc label) (concat (take k cs)) d) d'"
  using assms
proof (induction cs arbitrary: d)
  case Nil
  then show ?case by (simp add: io_ret_def)
next
  case (Cons c cs)
  let ?t = "db_transaction (io_each (upsert_message acc label) c)"
  have batch: "does ?t (fold (put_one acc label) c)"
    by (intro does_each does_transaction upsert_does fault_free_put)
  from Cons.prems consider "?t d = (Returned (Inl e), d')"
    | d1 where "?t d = (Returned (Inr ()), d1)"
        "io_each (\<lambda>chunk. db_transaction (io_each (upsert_message acc label) chunk)) cs d1 = (Returned (Inl e), d')"
    by (auto simp: res_simps)
  then show ?case
  proof cases
    case 1
    then have "same_tables (fold (put_one acc label) (concat (take 0 (c # cs))) d) d'"
      using db_transaction_Inl by simp
    then show ?thesis by (intro exI [of _ 0]) simp
  next
    case 2
    from doesD(3) [OF batch 2(1)] obtain fs where fs: "d1 = (fold (put_one acc label) c d)\<lparr>db_faults := fs\<rparr>"
      by (rule same_tablesE)
    from Cons.IH [OF 2(2)] obtain k where "k < length cs" "same_tables (fold (put_one acc label) (concat (take k cs)) d1) d'"
      by blast
    then show ?thesis using fs by (intro exI [of _ "Suc k"]) (simp add: same_tables_def)
  qed
qed

section \<open>Storing again what is stored\<close>

text \<open>The row of \<open>new\<close> is there, and writing it again would change nothing.\<close>

definition absorbed :: "('r \<Rightarrow> 'k) \<Rightarrow> ('r \<Rightarrow> 'r \<Rightarrow> 'r) \<Rightarrow> 'r \<Rightarrow> 'r list \<Rightarrow> bool" where
  "absorbed key merge new rows \<longleftrightarrow>
     (\<exists>r \<in> set rows. key r = key new) \<and> (\<forall>r \<in> set rows. key r = key new \<longrightarrow> merge r new = r)"

lemma absorbed_upsert: "absorbed key merge new rows \<Longrightarrow> upsert_by key merge new rows = rows"
  by (auto simp: absorbed_def upsert_by_def list_ex_iff intro!: map_idI)

lemma upsert_absorbs:
  assumes "\<And>r. key (merge r new) = key new" and "\<And>r. merge (merge r new) new = merge r new" and "merge new new = new"
  shows "absorbed key merge new (upsert_by key merge new rows)"
  using assms by (auto simp: absorbed_def upsert_by_def list_ex_iff split: if_splits)

lemma absorbed_keep:
  assumes "absorbed key merge new rows" and "key other \<noteq> key new"
    and "\<And>r. key r = key other \<Longrightarrow> key (merge r other) = key other"
  shows "absorbed key merge new (upsert_by key merge other rows)"
  using assms by (auto simp: absorbed_def upsert_by_def split: if_splits)

lemma merge_message_idem [simp]:
  "merge_message (merge_message r n) n = merge_message r n" "merge_message n n = n"
  by (simp_all add: merge_message_def)

definition stored :: "string \<Rightarrow> string \<Rightarrow> remote_message \<Rightarrow> db \<Rightarrow> bool" where
  "stored acc label m d \<longleftrightarrow>
     absorbed thread_key (\<lambda>_ new. new) (thread_of acc m) (t_threads d) \<and>
     absorbed message_key merge_message (message_of acc m) (t_messages d) \<and>
     \<lparr>tl_account = acc, tl_thread = remote_id acc m, tl_label = label\<rparr> \<in> set (t_thread_labels d)"

lemma stored_put:
  "\<not> is_locked acc (remote_id acc m) d \<Longrightarrow> stored acc label m (put_one acc label m d)"
  by (auto simp: stored_def put_one_def put_link_def put_message_def put_thread_def Let_def
      intro!: upsert_absorbs)

lemma stored_keep:
  "stored acc label m d \<Longrightarrow> remote_id acc m' \<noteq> remote_id acc m \<Longrightarrow> stored acc label m (put_one acc label m' d)"
  by (auto simp: stored_def put_one_def put_link_def put_message_def put_thread_def Let_def intro!: absorbed_keep)

lemma stored_put_same: "stored acc label m d \<Longrightarrow> put_one acc label m d = d"
  by (simp add: stored_def put_one_def put_link_def put_message_def put_thread_def Let_def absorbed_upsert)

lemma put_one_pending [simp]:
  "t_pending (put_one acc label m d) = t_pending d" "is_locked a i (put_one acc label m d) = is_locked a i d"
  by (simp_all add: put_one_def is_locked_def)

lemma fold_put_pending [simp]: "is_locked a i (fold (put_one acc label) ms d) = is_locked a i d"
  by (induction ms arbitrary: d) simp_all

lemma fold_put_keep:
  "stored acc label m d \<Longrightarrow> remote_id acc m \<notin> set (map (remote_id acc) ms) \<Longrightarrow>
    stored acc label m (fold (put_one acc label) ms d)"
  by (induction ms arbitrary: d) (auto simp: stored_keep)

lemma fold_put_stored:
  "distinct (map (remote_id acc) ms) \<Longrightarrow> m \<in> set ms \<Longrightarrow> \<not> is_locked acc (remote_id acc m) d \<Longrightarrow>
    stored acc label m (fold (put_one acc label) ms d)"
proof (induction ms arbitrary: d)
  case (Cons a ms)
  show ?case
  proof (cases "m = a")
    case True
    with Cons.prems show ?thesis by (simp add: fold_put_keep stored_put)
  next
    case False
    with Cons show ?thesis by simp
  qed
qed simp

lemma fold_put_again:
  assumes "\<And>m. m \<in> set ms \<Longrightarrow> \<not> is_locked acc (remote_id acc m) d \<Longrightarrow> stored acc label m d"
  shows "fold (put_one acc label) ms d = d"
  using assms
proof (induction ms)
  case (Cons m ms)
  have "put_one acc label m d = d"
    using Cons.prems [of m] by (cases "is_locked acc (remote_id acc m) d") (simp add: put_one_def, simp add: stored_put_same)
  with Cons show ?case by simp
qed simp

lemma fold_put_prefix:
  assumes "distinct (map (remote_id acc) (pre @ post))"
  shows "fold (put_one acc label) (pre @ post) (fold (put_one acc label) pre d) = fold (put_one acc label) (pre @ post) d"
proof -
  have "fold (put_one acc label) pre (fold (put_one acc label) pre d) = fold (put_one acc label) pre d"
    using assms by (intro fold_put_again fold_put_stored) auto
  then show ?thesis by simp
qed

section \<open>Header deltas\<close>

text \<open>A delta with headers only: what an initial synchronisation, and every page of one, brings.\<close>

definition headers_only :: "string \<Rightarrow> folder_delta \<Rightarrow> bool" where
  "headers_only acc delta \<longleftrightarrow> fd_vanished_uids delta = [] \<and> fd_flag_updates delta = [] \<and>
     distinct (map (remote_id acc) (fd_added delta @ fd_updated delta))"

definition heal :: "db \<Rightarrow> db" where
  "heal d = d\<lparr>db_faults := []\<rparr>"

lemma healthy_heal [simp]: "healthy (heal d)"
  by (simp add: heal_def healthy_def)

definition delta_counts :: "folder_delta \<Rightarrow> applied_counts" where
  "delta_counts delta = \<lparr>apc_added = length (fd_added delta), apc_updated = length (fd_updated delta), apc_deleted = 0\<rparr>"

lemma apply_headers:
  "headers_only acc delta \<Longrightarrow> apply_folder_delta acc label folder delta =
     io_bind (if fd_uidvalidity_changed delta then wipe_folder acc folder else io_ret ()) (\<lambda>_.
     io_bind (store_messages acc label (fd_added delta @ fd_updated delta)) (\<lambda>_. io_ret (delta_counts delta)))"
  by (simp add: headers_only_def apply_folder_delta_def delete_vanished_def apply_flag_updates_def delta_counts_def)

lemma wipe_pending:
  assumes "wipe_folder acc folder d = (Returned (Inr x), d')"
  shows "t_pending d' = t_pending d"
proof -
  have blind: "fault_blind (\<lambda>d d'. t_pending d' = t_pending d)" by (auto simp: fault_blind_def)
  have "io_keeps (\<lambda>d d'. t_pending d' = t_pending d) (wipe_folder acc folder)"
    unfolding wipe_folder_def
    by (intro keeps_transaction keeps_bind keeps_update blind)
      (simp_all add: delete_messages_where_def sweep_orphans_def Let_def)
  from io_keepsD [OF this assms] show ?thesis .
qed

text \<open>A stored delta is in the tables: for every header of it that has no local mutation waiting there is
  a message, its thread and its link to the folder, and every column that the server owns is the header's.\<close>

lemma headers_stored:
  assumes "apply_folder_delta acc label folder delta d = (Returned (Inr c), d')" and "headers_only acc delta"
    and "m \<in> set (fd_added delta @ fd_updated delta)" and "\<not> is_locked acc (remote_id acc m) d"
  shows "stored acc label m d'"
proof -
  let ?ms = "fd_added delta @ fd_updated delta"
  from assms(1) obtain d0 where d0: "(if fd_uidvalidity_changed delta then wipe_folder acc folder else io_ret ()) d = (Returned (Inr ()), d0)"
    and run: "store_messages acc label ?ms d0 = (Returned (Inr ()), d')"
    by (auto simp: apply_headers [OF assms(2)] res_simps io_ret_def)
  from d0 have "t_pending d0 = t_pending d" by (auto simp: io_ret_def wipe_pending split: if_splits)
  with assms(4) have "\<not> is_locked acc (remote_id acc m) d0" by (simp add: is_locked_def)
  then have "stored acc label m (fold (put_one acc label) ?ms d0)"
    using assms(2,3) by (intro fold_put_stored) (simp_all add: headers_only_def)
  moreover from doesD(3) [OF store_does run] obtain fs where "d' = (fold (put_one acc label) ?ms d0)\<lparr>db_faults := fs\<rparr>"
    by (rule same_tablesE)
  ultimately show ?thesis by (simp add: stored_def)
qed

lemma headers_stored_witness:
  "stored ''a'' ''a:INBOX'' letter (snd (apply_folder_delta ''a'' ''a:INBOX'' ''INBOX''
     \<lparr>fd_added = [letter], fd_updated = [], fd_flag_updates = [], fd_vanished_uids = [], fd_next_cursor = initial_imap,
      fd_uidvalidity_changed = False\<rparr> empty_db))"
proof -
  let ?delta = "\<lparr>fd_added = [letter], fd_updated = [], fd_flag_updates = [], fd_vanished_uids = [], fd_next_cursor = initial_imap,
      fd_uidvalidity_changed = False\<rparr>"
  have h: "headers_only ''a'' ?delta" by (simp add: headers_only_def)
  have "healthy empty_db" by (simp add: healthy_def empty_db_def)
  then obtain u d' where "store_messages ''a'' ''a:INBOX'' [letter] empty_db = (Returned (Inr u), d')"
    by (rule does_healthy [OF store_does])
  then have "apply_folder_delta ''a'' ''a:INBOX'' ''INBOX'' ?delta empty_db = (Returned (Inr (delta_counts ?delta)), d')"
    by (simp add: apply_headers [OF h] io_bind_def io_ret_def)
  from headers_stored [OF this h, of letter] this show ?thesis
    by (simp add: is_locked_def pending_of_account_def empty_db_def)
qed

text \<open>C31. Retrying is safe. When storing a delta of headers fails, whichever statement it was, storing it again
  on a database that works succeeds and leaves exactly the tables of a first attempt that had not failed.\<close>

theorem retry_safe:
  assumes "apply_folder_delta acc label folder delta d = (Returned (Inl e), d1)" and "headers_only acc delta"
    and "\<not> fd_uidvalidity_changed delta"
  shows "\<exists>d2. apply_folder_delta acc label folder delta (heal d1) = (Returned (Inr (delta_counts delta)), d2) \<and>
    apply_folder_delta acc label folder delta (heal d) = (Returned (Inr (delta_counts delta)), d2)"
proof -
  let ?ms = "fd_added delta @ fd_updated delta"
  let ?put = "fold (put_one acc label)"
  have run: "apply_folder_delta acc label folder delta (heal x) = (Returned (Inr (delta_counts delta)), ?put ?ms (heal x))" for x
  proof -
    obtain u d' where d': "store_messages acc label ?ms (heal x) = (Returned (Inr u), d')"
      "same_tables (?put ?ms (heal x)) d'" "healthy d'"
      by (rule does_healthy [OF store_does healthy_heal])
    then have "d' = ?put ?ms (heal x)" by (simp add: same_tables_def healthy_def heal_def)
    with d'(1) assms(2,3) show ?thesis by (simp add: apply_headers [OF assms(2)] io_bind_def io_ret_def)
  qed
  from assms(1,3) have "store_messages acc label ?ms d = (Returned (Inl e), d1)"
    by (auto simp: apply_headers [OF assms(2)] res_simps io_ret_def)
  then obtain k where "same_tables (?put (concat (take k (chunks APPLY_BATCH_SIZE ?ms))) d) d1"
    unfolding store_messages_def using store_prefix by blast
  then obtain fs where d1: "d1 = (?put (concat (take k (chunks APPLY_BATCH_SIZE ?ms))) d)\<lparr>db_faults := fs\<rparr>"
    by (rule same_tablesE)
  have ms: "concat (take k (chunks APPLY_BATCH_SIZE ?ms)) @ concat (drop k (chunks APPLY_BATCH_SIZE ?ms)) = ?ms"
    by (metis append_take_drop_id concat_append concat_chunks APPLY_BATCH_SIZE_def zero_less_numeral)
  have "?put ?ms (heal d1) = ?put ?ms (heal d)"
    using fold_put_prefix [of acc "concat (take k (chunks APPLY_BATCH_SIZE ?ms))" "concat (drop k (chunks APPLY_BATCH_SIZE ?ms))" label "heal d"]
      assms(2) d1 unfolding ms by (simp add: headers_only_def heal_def)
  with run show ?thesis by simp
qed

lemma retry_safe_witness:
  "apply_folder_delta ''a'' ''a:INBOX'' ''INBOX''
     \<lparr>fd_added = [letter], fd_updated = [], fd_flag_updates = [], fd_vanished_uids = [], fd_next_cursor = initial_imap,
      fd_uidvalidity_changed = False\<rparr> (empty_db\<lparr>db_faults := [None, None, None, Some ''disk full'']\<rparr>)
     = (Returned (Inl ''disk full''), empty_db) \<and>
   (\<exists>d2. apply_folder_delta ''a'' ''a:INBOX'' ''INBOX''
     \<lparr>fd_added = [letter], fd_updated = [], fd_flag_updates = [], fd_vanished_uids = [], fd_next_cursor = initial_imap,
      fd_uidvalidity_changed = False\<rparr> (heal empty_db) = (Returned (Inr \<lparr>apc_added = 1, apc_updated = 0, apc_deleted = 0\<rparr>), d2))"
proof -
  let ?delta = "\<lparr>fd_added = [letter], fd_updated = [], fd_flag_updates = [], fd_vanished_uids = [], fd_next_cursor = initial_imap,
      fd_uidvalidity_changed = False\<rparr>"
  have h: "headers_only ''a'' ?delta" by (simp add: headers_only_def)
  have run: "apply_folder_delta ''a'' ''a:INBOX'' ''INBOX'' ?delta (empty_db\<lparr>db_faults := [None, None, None, Some ''disk full'']\<rparr>)
      = (Returned (Inl ''disk full''), empty_db)"
    by (simp add: apply_headers [OF h] store_messages_def chunks.simps APPLY_BATCH_SIZE_def db_transaction_def io_bind_def
        db_update_def db_query_def db_stmt_def upsert_message_def is_locked_def pending_of_account_def empty_db_def
        io_ret_def roll_back_def put_thread_def)
  from retry_safe [OF run h] run show ?thesis by (auto simp: delta_counts_def)
qed

end
