(* ===== verification/Bodies.thy ===== *)
theory Bodies
  imports Messages_Store
begin

text \<open>
  \<open>db/message_bodies.rs\<close>: the bodies of messages, fetched on demand and evicted oldest first. A message
  carries a flag \<open>body_cached\<close>; the foreign key of the bodies is enforced.
\<close>

section \<open>Operations\<close>

record message_body =
  bd_account_id :: string
  bd_message_id :: string
  bd_body_html :: "string option"
  bd_fetched_at :: "int option"

definition body_key :: "body_row \<Rightarrow> string \<times> string" where
  "body_key b = (mb_account b, mb_message b)"

definition body_of :: "string \<Rightarrow> string \<Rightarrow> db \<Rightarrow> body_row option" where
  "body_of acc mid d = find (\<lambda>b. body_key b = (acc, mid)) (t_bodies d)"

definition row_to_message_body :: "string \<Rightarrow> string \<Rightarrow> body_row \<Rightarrow> message_body" where
  "row_to_message_body acc mid b =
     \<lparr>bd_account_id = acc, bd_message_id = mid, bd_body_html = mb_html b, bd_fetched_at = Some (mb_fetched_at b)\<rparr>"

definition get_message_body :: "string \<Rightarrow> string \<Rightarrow> message_body option db_io" where
  "get_message_body acc mid = db_query (\<lambda>d. map_option (row_to_message_body acc mid) (body_of acc mid d))"

definition set_body_cached :: "string \<Rightarrow> string \<Rightarrow> int \<Rightarrow> db \<Rightarrow> db" where
  "set_body_cached acc mid v = map_message acc mid (\<lambda>c. c\<lparr>mc_body_cached := v\<rparr>)"

definition drop_body :: "string \<Rightarrow> string \<Rightarrow> db \<Rightarrow> db" where
  "drop_body acc mid d = d\<lparr>t_bodies := filter (\<lambda>b. body_key b \<noteq> (acc, mid)) (t_bodies d)\<rparr>"

definition fk_failed :: string where
  "fk_failed = ''error returned from database: (code: 787) FOREIGN KEY constraint failed''"

text \<open>\<open>INSERT OR REPLACE\<close>: the row that was there goes, with the columns that are not named.\<close>

definition replace_body :: "string \<Rightarrow> string \<Rightarrow> string \<Rightarrow> unit db_io" where
  "replace_body acc mid html =
     io_bind (db_stmt (\<lambda>d.
       if has_message d acc mid
       then (Inr (), d\<lparr>t_bodies := t_bodies (drop_body acc mid d) @
               [\<lparr>mb_account = acc, mb_message = mid, mb_html = Some html, mb_fetched_at = db_now d,
                 mb_ciphertext = None, mb_signed_part = None\<rparr>]\<rparr>)
       else (Inl fk_failed, d))) io_lift"

definition set_message_body :: "string \<Rightarrow> string \<Rightarrow> string \<Rightarrow> unit db_io" where
  "set_message_body acc mid html =
     db_transaction (io_bind (replace_body acc mid html) (\<lambda>_. db_update (set_body_cached acc mid 1)))"

definition evict_body :: "string \<Rightarrow> string \<Rightarrow> unit db_io" where
  "evict_body acc mid =
     db_transaction (io_bind (db_update (drop_body acc mid)) (\<lambda>_. db_update (set_body_cached acc mid 0)))"

definition oldest :: "nat \<Rightarrow> body_row list \<Rightarrow> body_row list" where
  "oldest n rows = take n (sort_key mb_fetched_at rows)"

definition delete_oldest :: "nat \<Rightarrow> string list db_io" where
  "delete_oldest n = db_stmt (\<lambda>d.
     let gone = map body_key (oldest n (t_bodies d))
     in (map mb_message (filter (\<lambda>b. body_key b \<in> set gone) (t_bodies d)),
         d\<lparr>t_bodies := filter (\<lambda>b. body_key b \<notin> set gone) (t_bodies d)\<rparr>))"

definition uncache :: "string \<Rightarrow> db \<Rightarrow> db" where
  "uncache mid d = d\<lparr>t_messages := map (\<lambda>r.
     if ms_id r = mid then r\<lparr>ms_content := (ms_content r)\<lparr>mc_body_cached := 0\<rparr>\<rparr> else r) (t_messages d)\<rparr>"

definition maybe_evict :: "int \<Rightarrow> nat db_io" where
  "maybe_evict cap_rows =
     io_bind (db_query (\<lambda>d. int (length (t_bodies d)))) (\<lambda>cnt.
     if cnt \<le> cap_rows then io_ret 0
     else db_transaction
       (io_bind (delete_oldest (nat (cnt - cap_rows))) (\<lambda>deleted_ids.
        io_bind (io_each (\<lambda>mid. db_update (uncache mid)) deleted_ids) (\<lambda>_.
        io_ret (length deleted_ids)))))"

definition map_body :: "string \<Rightarrow> string \<Rightarrow> (body_row \<Rightarrow> body_row) \<Rightarrow> db \<Rightarrow> db" where
  "map_body acc mid f d = d\<lparr>t_bodies := map (\<lambda>b. if body_key b = (acc, mid) then f b else b) (t_bodies d)\<rparr>"

definition set_message_ciphertext :: "string \<Rightarrow> string \<Rightarrow> u8 list \<Rightarrow> unit db_io" where
  "set_message_ciphertext acc mid bytes = db_update (map_body acc mid (\<lambda>b. b\<lparr>mb_ciphertext := Some bytes\<rparr>))"

definition get_message_ciphertext :: "string \<Rightarrow> string \<Rightarrow> u8 list option db_io" where
  "get_message_ciphertext acc mid = db_query (\<lambda>d. Option.bind (body_of acc mid d) mb_ciphertext)"

definition set_message_signed_part :: "string \<Rightarrow> string \<Rightarrow> u8 list \<Rightarrow> unit db_io" where
  "set_message_signed_part acc mid bytes = db_update (map_body acc mid (\<lambda>b. b\<lparr>mb_signed_part := Some bytes\<rparr>))"

definition get_message_signed_part :: "string \<Rightarrow> string \<Rightarrow> u8 list option db_io" where
  "get_message_signed_part acc mid = db_query (\<lambda>d. Option.bind (body_of acc mid d) mb_signed_part)"

section \<open>The flag and the body\<close>

text \<open>A message says that its body is cached exactly when there is one; bodies have messages and keys of
  their own.\<close>

definition bodies_ok :: "db \<Rightarrow> bool" where
  "bodies_ok d \<longleftrightarrow> mailbox_ok d \<and> distinct (map message_key (t_messages d)) \<and> distinct (map body_key (t_bodies d)) \<and>
     list_all (\<lambda>r. mc_body_cached (ms_content r) = of_bool (message_key r \<in> set (map body_key (t_bodies d)))) (t_messages d)"

text \<open>An id belongs to one account.\<close>

definition ids_owned :: "db \<Rightarrow> bool" where
  "ids_owned d \<longleftrightarrow> list_all (\<lambda>r. list_all (\<lambda>q. ms_id r = ms_id q \<longrightarrow> ms_account r = ms_account q) (t_messages d)) (t_messages d)"

definition keeps_bodies :: "db \<Rightarrow> db \<Rightarrow> bool" where
  "keeps_bodies d d' \<longleftrightarrow> (bodies_ok d \<and> ids_owned d \<longrightarrow> bodies_ok d' \<and> ids_owned d')"

lemma fault_blind_bodies: "fault_blind keeps_bodies"
  by (auto simp: fault_blind_def keeps_bodies_def bodies_ok_def ids_owned_def)

lemma db_stmt_calm [simp]: "db_stmt f d \<noteq> (Panicked, d')" "db_update u d \<noteq> (Panicked, d')" "db_query q d \<noteq> (Panicked, d')"
  by (auto simp: db_stmt_def db_update_def db_query_def split: list.splits option.splits prod.splits)

lemma db_stmt_Inr:
  assumes "db_stmt f d = (Returned (Inr x), d')"
  obtains fs where "f (d\<lparr>db_faults := fs\<rparr>) = (x, d')"
  using assms by (auto simp: db_stmt_def split: list.splits option.splits prod.splits)

text \<open>What a transaction keeps can be judged by what it does when it commits.\<close>

lemma keeps_committed:
  assumes "fault_blind R" and "\<And>d x d'. m d = (Returned (Inr x), d') \<Longrightarrow> R d d'" and "\<And>d d'. m d \<noteq> (Panicked, d')"
  shows "io_keeps R (db_transaction m)"
  unfolding io_keeps_def
proof
  fix d
  let ?m = "io_bind (db_update id) (\<lambda>_. io_bind m (\<lambda>x. io_bind (db_update id) (\<lambda>_. io_ret x)))"
  note blind = fault_blindD [OF assms(1)]
  obtain r d' where run: "?m d = (r, d')" by fastforce
  show "R d (snd (db_transaction m d))"
  proof (cases r rule: panicky.exhaust)
    case Panicked
    with run assms(3) show ?thesis by (auto simp: io_bind_Panicked_iff io_ret_def)
  next
    case (Returned q)
    show ?thesis
    proof (cases q)
      case (Inl e)
      with run Returned show ?thesis using blind by (simp add: db_transaction_def roll_back_def)
    next
      case (Inr x)
      have id: "db_update id d = (Returned (Inr u), d') \<Longrightarrow> R d d'" for d u d'
        using io_keepsD [OF keeps_update [OF assms(1)], of id] blind by auto
      from run Returned Inr have "R d d'"
        by (auto simp: res_simps io_ret_def dest!: id assms(2) intro: blind(2))
      with run Returned Inr show ?thesis by (simp add: db_transaction_def)
    qed
  qed
qed

section \<open>Each operation\<close>

lemma keeps_bodiesI:
  assumes "bodies_ok d \<Longrightarrow> ids_owned d \<Longrightarrow> bodies_ok d'" and "map message_key (t_messages d') = map message_key (t_messages d)"
  shows "keeps_bodies d d'"
proof -
  have eq: "ids_owned x \<longleftrightarrow> list_all (\<lambda>k. list_all (\<lambda>l. snd k = snd l \<longrightarrow> fst k = fst l) (map message_key (t_messages x)))
      (map message_key (t_messages x))" for x
    by (simp add: ids_owned_def list_all_iff message_key_def)
  from assms(2) have "ids_owned d' = ids_owned d" by (simp only: eq)
  with assms(1) show ?thesis by (simp add: keeps_bodies_def)
qed

lemma map_message_key [simp]: "map message_key (t_messages (map_message acc mid f d)) = map message_key (t_messages d)"
  by (simp add: map_message_def message_key_def comp_def if_distrib cong: if_cong)

lemma map_message_fields [simp]:
  "t_bodies (map_message acc mid f d) = t_bodies d" "t_attachments (map_message acc mid f d) = t_attachments d"
  "t_crypto_results (map_message acc mid f d) = t_crypto_results d"
  "has_thread (map_message acc mid f d) = has_thread d" "t_thread_labels (map_message acc mid f d) = t_thread_labels d"
  "has_message (map_message acc mid f d) = has_message d"
  by (auto simp: map_message_def has_thread_def has_message_def image_image fun_eq_iff if_distrib cong: if_cong)

lemma mailbox_ok_map_message [simp]: "mailbox_ok (map_message acc mid f d) = mailbox_ok d"
  unfolding map_message_def by (rule mailbox_ok_map_messages) (simp_all add: message_key_def)

text \<open>Setting the flag of one message, where the bodies agree with the flags of the others.\<close>

lemma bodies_ok_flag:
  assumes "mailbox_ok d" and "distinct (map message_key (t_messages d))" and "distinct (map body_key (t_bodies d))"
    and "\<And>r. r \<in> set (t_messages d) \<Longrightarrow> message_key r \<noteq> (acc, mid) \<Longrightarrow>
      mc_body_cached (ms_content r) = of_bool (message_key r \<in> set (map body_key (t_bodies d)))"
    and "v = of_bool ((acc, mid) \<in> set (map body_key (t_bodies d)))"
  shows "bodies_ok (set_body_cached acc mid v d)"
proof -
  have "mc_body_cached (ms_content r) = of_bool (message_key r \<in> set (map body_key (t_bodies d)))"
    if "r \<in> set (t_messages (set_body_cached acc mid v d))" for r
    using that assms(4,5) by (auto simp: set_body_cached_def map_message_def message_key_def)
  with assms(1-3) show ?thesis by (simp add: bodies_ok_def set_body_cached_def list_all_iff)
qed

lemma set_body_keeps: "io_keeps keeps_bodies (set_message_body acc mid html)"
  unfolding set_message_body_def
proof (rule keeps_committed [OF fault_blind_bodies])
  fix d and x :: unit and d'
  assume "io_bind (replace_body acc mid html) (\<lambda>_. db_update (set_body_cached acc mid 1)) d = (Returned (Inr x), d')"
  then obtain d1 where 1: "replace_body acc mid html d = (Returned (Inr ()), d1)"
      and 2: "db_update (set_body_cached acc mid 1) d1 = (Returned (Inr x), d')"
    by (auto simp: res_simps)
  from 2 obtain gs where d': "d' = set_body_cached acc mid 1 (d1\<lparr>db_faults := gs\<rparr>)"
    unfolding db_update_def by (blast elim: db_stmt_Inr)
  define row where "row = \<lparr>mb_account = acc, mb_message = mid, mb_html = Some html, mb_fetched_at = db_now d,
    mb_ciphertext = None, mb_signed_part = None\<rparr>"
  from 1 obtain fs where msg: "has_message d acc mid"
      and d1: "d1 = d\<lparr>db_faults := fs, t_bodies := t_bodies (drop_body acc mid d) @ [row]\<rparr>"
    by (auto simp: replace_body_def res_simps io_lift_def row_def drop_body_def has_message_def elim!: db_stmt_Inr split: if_splits)
  show "keeps_bodies d d'"
  proof (rule keeps_bodiesI)
    assume ok: "bodies_ok d"
    have keys: "set (map body_key (t_bodies d1)) = insert (acc, mid) (set (map body_key (t_bodies d)))"
      by (auto simp: d1 row_def drop_body_def body_key_def)
    have "mailbox_ok (d1\<lparr>db_faults := gs\<rparr>)"
      using ok msg unfolding bodies_ok_def mailbox_ok_def
      by (auto simp: d1 list_all_iff has_thread_def has_message_def row_def drop_body_def)
    moreover have "distinct (map message_key (t_messages d1))" "distinct (map body_key (t_bodies d1))"
      using ok by (auto simp: bodies_ok_def d1 drop_body_def distinct_map inj_on_def row_def body_key_def)
    moreover have "mc_body_cached (ms_content r) = of_bool (message_key r \<in> set (map body_key (t_bodies d1)))"
      if "r \<in> set (t_messages d1)" "message_key r \<noteq> (acc, mid)" for r
      using that ok unfolding keys by (simp add: d1 bodies_ok_def list_all_iff)
    ultimately show "bodies_ok d'"
      using keys unfolding d' by (intro bodies_ok_flag) simp_all
  qed (simp add: d' d1 set_body_cached_def)
qed (auto simp: io_bind_Panicked_iff replace_body_def io_lift_def)

lemma evict_keeps: "io_keeps keeps_bodies (evict_body acc mid)"
  unfolding evict_body_def
proof (rule keeps_committed [OF fault_blind_bodies])
  fix d and x :: unit and d'
  assume "io_bind (db_update (drop_body acc mid)) (\<lambda>_. db_update (set_body_cached acc mid 0)) d = (Returned (Inr x), d')"
  then obtain fs gs where d': "d' = set_body_cached acc mid 0 ((drop_body acc mid (d\<lparr>db_faults := fs\<rparr>))\<lparr>db_faults := gs\<rparr>)"
    unfolding db_update_def res_simps by (blast elim: db_stmt_Inr)
  show "keeps_bodies d d'"
  proof (rule keeps_bodiesI)
    assume ok: "bodies_ok d"
    then have "mailbox_ok (drop_body acc mid d)" "distinct (map message_key (t_messages (drop_body acc mid d)))"
      "distinct (map body_key (t_bodies (drop_body acc mid d)))"
      by (simp_all add: drop_body_def mailbox_ok_drop_bodies bodies_ok_def distinct_map_filter)
    with ok show "bodies_ok d'"
      unfolding d' by (intro bodies_ok_flag) (auto simp: drop_body_def bodies_ok_def list_all_iff image_iff)
  qed (simp add: d' set_body_cached_def drop_body_def)
qed (auto simp: io_bind_Panicked_iff)

section \<open>Eviction\<close>

definition evicted_keys :: "nat \<Rightarrow> db \<Rightarrow> (string \<times> string) list" where
  "evicted_keys n d = map body_key (oldest n (t_bodies d))"

definition evicted :: "nat \<Rightarrow> db \<Rightarrow> db" where
  "evicted n d = d\<lparr>t_bodies := filter (\<lambda>b. body_key b \<notin> set (evicted_keys n d)) (t_bodies d),
     t_messages := map (\<lambda>r. if ms_id r \<in> snd ` set (evicted_keys n d)
       then r\<lparr>ms_content := (ms_content r)\<lparr>mc_body_cached := 0\<rparr>\<rparr> else r) (t_messages d)\<rparr>"

definition evicted_ids :: "nat \<Rightarrow> db \<Rightarrow> string list" where
  "evicted_ids n d = map mb_message (filter (\<lambda>b. body_key b \<in> set (evicted_keys n d)) (t_bodies d))"

lemma fold_uncache:
  "fold uncache ids d = d\<lparr>t_messages := map (\<lambda>r. if ms_id r \<in> set ids
     then r\<lparr>ms_content := (ms_content r)\<lparr>mc_body_cached := 0\<rparr>\<rparr> else r) (t_messages d)\<rparr>"
proof (induction ids arbitrary: d)
  case (Cons i ids)
  have step: "fold uncache (i # ids) d = fold uncache ids (uncache i d)" by simp
  show ?case unfolding step Cons.IH by (cases d) (auto simp: uncache_def)
qed simp

lemma does_uncache: "does (io_each (\<lambda>mid. db_update (uncache mid)) ids) (fold uncache ids)"
  by (intro does_each does_update) (simp_all add: fault_free_def uncache_def)

lemma oldest_subset: "set (oldest n rows) \<subseteq> set rows"
  by (auto simp: oldest_def dest: in_set_takeD)

lemma evicted_ids_keys: "set (evicted_ids n d) = snd ` set (evicted_keys n d)"
  using oldest_subset [of n "t_bodies d"] by (force simp: evicted_ids_def evicted_keys_def body_key_def image_iff)

lemma delete_oldest_does: "does (delete_oldest n) (\<lambda>d. d\<lparr>t_bodies := t_bodies (evicted n d)\<rparr>)"
  "delete_oldest n d = (Returned (Inr ids), d') \<Longrightarrow> ids = evicted_ids n d"
  by (auto simp: does_def delete_oldest_def db_stmt_def evicted_def evicted_ids_def evicted_keys_def Let_def healthy_def
      same_tables_def split: list.splits option.splits)

lemma evicted_faults: "evicted n (d\<lparr>db_faults := fs\<rparr>) = (evicted n d)\<lparr>db_faults := fs\<rparr>"
  "evicted_ids n (d\<lparr>db_faults := fs\<rparr>) = evicted_ids n d"
  by (simp_all add: evicted_def evicted_ids_def evicted_keys_def)

lemma evict_committed:
  assumes "io_bind (delete_oldest n) (\<lambda>ids. io_bind (io_each (\<lambda>mid. db_update (uncache mid)) ids) (\<lambda>_. io_ret (length ids))) d
    = (Returned (Inr k), d')"
  shows "k = length (evicted_ids n d)" and "same_tables (evicted n d) d'"
proof -
  from assms obtain ids d1 where 1: "delete_oldest n d = (Returned (Inr ids), d1)"
      and 2: "io_each (\<lambda>mid. db_update (uncache mid)) ids d1 = (Returned (Inr ()), d')" and k: "k = length ids"
    by (auto simp: res_simps io_ret_def)
  from delete_oldest_does(2) [OF 1] k show "k = length (evicted_ids n d)" by simp
  from doesD(3) [OF delete_oldest_does(1) 1] obtain fs where d1: "d1 = (d\<lparr>t_bodies := t_bodies (evicted n d)\<rparr>)\<lparr>db_faults := fs\<rparr>"
    by (rule same_tablesE)
  have "fold uncache ids d1 = (evicted n d)\<lparr>db_faults := fs\<rparr>"
    unfolding fold_uncache delete_oldest_does(2) [OF 1] evicted_ids_keys by (simp add: d1 evicted_def)
  moreover from doesD(3) [OF does_uncache 2] obtain gs where "d' = (fold uncache ids d1)\<lparr>db_faults := gs\<rparr>"
    by (rule same_tablesE)
  ultimately show "same_tables (evicted n d) d'" by simp
qed

lemma evicted_ok:
  assumes "bodies_ok d" and "ids_owned d"
  shows "bodies_ok (evicted n d)"
proof -
  let ?gone = "set (evicted_keys n d)"
  have gone: "?gone \<subseteq> set (map body_key (t_bodies d))"
    using oldest_subset [of n "t_bodies d"] by (auto simp: evicted_keys_def)
  have key: "message_key r \<in> ?gone" if r: "r \<in> set (t_messages d)" and i: "ms_id r \<in> snd ` ?gone" for r
  proof -
    from i obtain a where a: "(a, ms_id r) \<in> ?gone" by force
    with gone obtain b where "b \<in> set (t_bodies d)" "body_key b = (a, ms_id r)" by force
    with assms(1) have "has_message d a (ms_id r)" by (auto simp: bodies_ok_def mailbox_ok_def list_all_iff body_key_def)
    then obtain q where q: "q \<in> set (t_messages d)" "ms_account q = a" "ms_id q = ms_id r" by (auto simp: has_message_def)
    from assms(2) r q(1) have "ms_id r = ms_id q \<longrightarrow> ms_account r = ms_account q"
      unfolding ids_owned_def list_all_iff by blast
    with q have "ms_account r = a" by simp
    with a show ?thesis by (simp add: message_key_def)
  qed
  have msgs: "mc_body_cached (ms_content q) = of_bool (message_key q \<in> set (map body_key (t_bodies (evicted n d))))"
    if "q \<in> set (t_messages (evicted n d))" for q
  proof -
    from that have "q \<in> (\<lambda>r. if ms_id r \<in> snd ` ?gone
        then r\<lparr>ms_content := (ms_content r)\<lparr>mc_body_cached := 0\<rparr>\<rparr> else r) ` set (t_messages d)"
      by (simp add: evicted_def)
    then obtain r where r: "r \<in> set (t_messages d)" and q: "q = (if ms_id r \<in> snd ` ?gone
        then r\<lparr>ms_content := (ms_content r)\<lparr>mc_body_cached := 0\<rparr>\<rparr> else r)"
      by (rule imageE)
    from r assms(1) have "mc_body_cached (ms_content r) = of_bool (message_key r \<in> set (map body_key (t_bodies d)))"
      by (simp add: bodies_ok_def list_all_iff)
    moreover have "message_key r \<in> ?gone \<longleftrightarrow> ms_id r \<in> snd ` ?gone"
      using key [OF r] by (force simp: message_key_def)
    moreover have "message_key q = message_key r" by (simp add: q message_key_def)
    ultimately show ?thesis by (auto simp: q evicted_def image_iff)
  qed
  have "mailbox_ok (d\<lparr>t_bodies := t_bodies (evicted n d)\<rparr>)"
    using assms(1) mailbox_ok_drop_bodies by (simp add: bodies_ok_def evicted_def)
  then have "mailbox_ok (evicted n d)"
    by (subst evicted_def, subst (asm) evicted_def)
      (auto simp: mailbox_ok_def list_all_iff has_thread_def has_message_def image_image if_distrib cong: if_cong)
  moreover have "map message_key (t_messages (evicted n d)) = map message_key (t_messages d)"
    by (simp add: evicted_def message_key_def comp_def if_distrib cong: if_cong)
  then have "distinct (map message_key (t_messages (evicted n d)))" "distinct (map body_key (t_bodies (evicted n d)))"
    using assms(1) by (simp_all only: bodies_ok_def) (simp add: evicted_def distinct_map_filter)
  ultimately show ?thesis using msgs by (simp add: bodies_ok_def list_all_iff)
qed

lemma maybe_evict_keeps: "io_keeps keeps_bodies (maybe_evict cap)"
proof -
  have "io_keeps keeps_bodies (db_transaction (io_bind (delete_oldest n) (\<lambda>ids.
      io_bind (io_each (\<lambda>mid. db_update (uncache mid)) ids) (\<lambda>_. io_ret (length ids)))))" for n
  proof (rule keeps_committed [OF fault_blind_bodies])
    fix d x d'
    assume run: "io_bind (delete_oldest n) (\<lambda>ids. io_bind (io_each (\<lambda>mid. db_update (uncache mid)) ids)
        (\<lambda>_. io_ret (length ids))) d = (Returned (Inr x), d')"
    from evict_committed(2) [OF run] obtain fs where "d' = (evicted n d)\<lparr>db_faults := fs\<rparr>" by (rule same_tablesE)
    then have "keeps_bodies d d' = keeps_bodies d (evicted n d)" by (simp add: fault_blindD [OF fault_blind_bodies])
    also have "keeps_bodies d (evicted n d)"
      using evicted_ok [of d n]
      by (intro keeps_bodiesI) (simp_all add: evicted_def message_key_def comp_def if_distrib cong: if_cong)
    finally show "keeps_bodies d d'" by simp
  qed (auto simp: io_bind_Panicked_iff delete_oldest_def io_ret_def doesD(1) [OF does_uncache])
  then show ?thesis
    unfolding maybe_evict_def by (auto intro!: keeps_bind keeps_query keeps_ret fault_blind_bodies)
qed

text \<open>Storing a delta.\<close>

lemma upsert_map:
  assumes "\<And>r. key r = key new \<Longrightarrow> key (merge r new) = key new"
  shows "map key (upsert_by key merge new rows) = map key rows @ (if key new \<in> set (map key rows) then [] else [key new])"
proof (cases "key new \<in> set (map key rows)")
  case True
  then have "list_ex (\<lambda>r. key r = key new) rows" by (auto simp: list_ex_iff)
  with True assms show ?thesis by (simp add: upsert_by_def)
next
  case False
  then have "\<not> list_ex (\<lambda>r. key r = key new) rows" by (auto simp: list_ex_iff image_iff)
  with False show ?thesis by (simp add: upsert_by_def)
qed

lemma bodies_ok_put_message:
  assumes "bodies_ok d" and "has_thread d acc (remote_id acc m)"
  shows "bodies_ok (put_message acc m d)"
proof -
  have "mc_body_cached (ms_content q) = of_bool (message_key q \<in> set (map body_key (t_bodies d)))"
    if q: "q \<in> set (t_messages (put_message acc m d))" for q
  proof -
    have old: "mc_body_cached (ms_content r) = of_bool (message_key r \<in> set (map body_key (t_bodies d)))"
      if "r \<in> set (t_messages d)" for r
      using assms(1) that by (simp add: bodies_ok_def list_all_iff)
    have fresh: "(acc, remote_id acc m) \<notin> set (map body_key (t_bodies d))" if "\<not> has_message d acc (remote_id acc m)"
      using assms(1) that by (auto simp: bodies_ok_def mailbox_ok_def list_all_iff body_key_def)
    show ?thesis
    proof (cases "has_message d acc (remote_id acc m)")
      case True
      then have "list_ex (\<lambda>r. message_key r = (acc, remote_id acc m)) (t_messages d)"
        by (auto simp: has_message_keys list_ex_iff)
      then have "t_messages (put_message acc m d) = map (\<lambda>r. if message_key r = (acc, remote_id acc m)
          then merge_message r (message_of acc m) else r) (t_messages d)"
        by (simp add: put_message_def upsert_by_def)
      with q obtain r where r: "r \<in> set (t_messages d)"
        and "q = (if message_key r = (acc, remote_id acc m) then merge_message r (message_of acc m) else r)"
        by (simp only: set_map) (erule imageE, blast)
      then have "message_key q = message_key r" "mc_body_cached (ms_content q) = mc_body_cached (ms_content r)"
        by (simp_all add: merge_message_def message_key_def message_of_def)
      with old [OF r] show ?thesis by simp
    next
      case False
      then have "\<not> list_ex (\<lambda>r. message_key r = (acc, remote_id acc m)) (t_messages d)"
        by (force simp: has_message_keys list_ex_iff)
      then have "t_messages (put_message acc m d) = t_messages d @ [message_of acc m]"
        by (simp add: put_message_def upsert_by_def)
      with q old fresh [OF False] show ?thesis
        by (auto simp: message_of_def message_key_def)
    qed
  qed
  moreover have "distinct (map message_key (t_messages (put_message acc m d)))"
    using assms(1) by (simp add: put_message_def upsert_map bodies_ok_def)
  ultimately show ?thesis
    using assms by (simp add: bodies_ok_def mailbox_ok_put_message list_all_iff)
qed

lemma bodies_ok_frame:
  assumes "bodies_ok d" and "t_messages d' = t_messages d" and "t_bodies d' = t_bodies d" and "mailbox_ok d'"
  shows "bodies_ok d'"
  using assms by (simp add: bodies_ok_def)

lemma bodies_ok_delete: "bodies_ok d \<Longrightarrow> bodies_ok (delete_messages_where p d)"
proof -
  assume ok: "bodies_ok d"
  have "message_key r \<notin> set (map message_key (filter p (t_messages d)))" if r: "r \<in> set (t_messages d)" "\<not> p r" for r
  proof
    assume "message_key r \<in> set (map message_key (filter p (t_messages d)))"
    then obtain q where "q \<in> set (t_messages d)" "p q" "message_key q = message_key r" by auto
    with ok r show False by (auto simp: bodies_ok_def distinct_map dest: inj_onD)
  qed
  with ok show ?thesis
    by (auto simp: bodies_ok_def mailbox_ok_delete)
      (auto simp: delete_messages_where_def Let_def distinct_map_filter list_all_iff body_key_def image_iff)
qed

lemma bodies_ok_map:
  assumes "\<And>r. message_key (f r) = message_key r" and "\<And>r. ms_thread (f r) = ms_thread r"
    and "\<And>r. mc_body_cached (ms_content (f r)) = mc_body_cached (ms_content r)"
  shows "bodies_ok (d\<lparr>t_messages := map f (t_messages d)\<rparr>) = bodies_ok d"
  using assms(1,3) by (simp add: bodies_ok_def mailbox_ok_map_messages [OF assms(1,2)] list_all_iff comp_def)

lemma bodies_ok_prune: "bodies_ok d \<Longrightarrow> (\<And>b. b \<in> set (t_bodies d) \<Longrightarrow> p b) \<Longrightarrow> bodies_ok (d\<lparr>t_bodies := filter p (t_bodies d)\<rparr>)"
  by (simp add: filter_id_conv)

lemma fault_blind_bodies_ok: "fault_blind (\<lambda>d d'. bodies_ok d \<longrightarrow> bodies_ok d')"
  by (auto simp: fault_blind_def bodies_ok_def)

lemma blind_bodies: "blind bodies_ok" "blind (\<lambda>d. bodies_ok d \<and> has_thread d a t)"
  by (simp_all add: blind_def has_thread_def bodies_ok_def)

lemma upsert_keeps_bodies: "io_keeps (\<lambda>d d'. bodies_ok d \<longrightarrow> bodies_ok d') (upsert_message acc label m)"
proof -
  let ?threaded = "\<lambda>d. bodies_ok d \<and> has_thread d acc (remote_id acc m)"
  have frame: "bodies_ok d \<Longrightarrow> bodies_ok (put_thread acc m d)"
    "bodies_ok d \<Longrightarrow> has_thread d acc (remote_id acc m) \<Longrightarrow> bodies_ok (put_link acc label (remote_id acc m) d)" for d
    by (auto intro: bodies_ok_frame simp: bodies_ok_def mailbox_ok_put_thread mailbox_ok_put_link)
  have "triple bodies_ok (db_update (put_thread acc m)) ?threaded bodies_ok"
    by (rule triple_update) (auto simp: blind_bodies frame)
  moreover have "triple ?threaded (db_update (put_message acc m)) ?threaded bodies_ok"
    by (rule triple_update) (auto simp: blind_bodies bodies_ok_put_message)
  moreover have "triple ?threaded (db_update (put_link acc label (remote_id acc m))) bodies_ok bodies_ok"
    by (rule triple_update) (auto simp: blind_bodies frame)
  ultimately have "io_keeps (\<lambda>d d'. bodies_ok d \<longrightarrow> bodies_ok d') (io_bind (db_update (put_thread acc m)) (\<lambda>_.
      io_bind (db_update (put_message acc m)) (\<lambda>_. db_update (put_link acc label (remote_id acc m)))))"
    by (intro triple_keeps triple_bind)
  then show ?thesis
    unfolding upsert_message_def
    by (intro keeps_bind [OF fault_blind_bodies_ok] keeps_query [OF fault_blind_bodies_ok])
      (auto intro: keeps_ret [OF fault_blind_bodies_ok])
qed

lemma triple_stmt:
  assumes "blind P" and "blind E" and "\<And>d. P d \<Longrightarrow> E d" and "\<And>d. P d \<Longrightarrow> Q (snd (f d))"
  shows "triple P (db_stmt f) Q E"
proof -
  have "Q d'" if "P d" "f (d\<lparr>db_faults := fs\<rparr>) = (x, d')" for d fs x d'
    using assms(1) that assms(4) [of "d\<lparr>db_faults := fs\<rparr>"] by (simp add: blind_def)
  with assms(2,3) show ?thesis
    unfolding triple_def blind_def
    by (auto simp: db_stmt_def split: list.splits option.splits prod.splits)
qed

lemma delete_uid_keeps_bodies: "io_keeps (\<lambda>d d'. bodies_ok d \<longrightarrow> bodies_ok d') (delete_uid acc folder uid)"
proof -
  let ?mid = "imap_message_id acc folder uid"
  let ?gone = "\<lambda>d. bodies_ok d \<and> (\<forall>b \<in> set (t_bodies d). mb_message b \<noteq> ?mid)"
  have gone: "?gone (delete_messages_where (\<lambda>r. ms_id r = ?mid) d)" if ok: "bodies_ok d" for d
  proof -
    let ?d = "delete_messages_where (\<lambda>r. ms_id r = ?mid) d"
    have del: "bodies_ok ?d" using ok by (rule bodies_ok_delete)
    have none: "\<not> has_message ?d a ?mid" for a by (auto simp: has_message_def delete_messages_where_def Let_def)
    from del have "has_message ?d (mb_account b) (mb_message b)" if "b \<in> set (t_bodies ?d)" for b
      using that unfolding bodies_ok_def mailbox_ok_def list_all_iff by blast
    with none have "mb_message b \<noteq> ?mid" if "b \<in> set (t_bodies ?d)" for b using that by metis
    with del show ?thesis by blast
  qed
  have first: "triple bodies_ok (db_stmt (\<lambda>d. (length (filter (\<lambda>r. ms_id r = ?mid) (t_messages d)),
      delete_messages_where (\<lambda>r. ms_id r = ?mid) d))) ?gone bodies_ok"
    using gone by (intro triple_stmt) (simp_all add: blind_bodies)
  have second: "triple ?gone (db_update (\<lambda>d. d\<lparr>t_bodies := filter (\<lambda>b. mb_message b \<noteq> ?mid) (t_bodies d)\<rparr>)) bodies_ok bodies_ok"
    by (rule triple_update) (auto simp: blind_def bodies_ok_def intro!: bodies_ok_prune [unfolded bodies_ok_def])
  show ?thesis
    unfolding delete_uid_def Let_def
    by (intro triple_keeps triple_bind [OF first] triple_bind [OF second])
      (auto simp: triple_def io_ret_def)
qed

text \<open>C34. The body cache is coherent: whatever statement fails, storing a body, evicting one, trimming the
  cache and storing a delta of a folder all keep every message's flag \<open>body_cached\<close> equal to whether it has a body,
  and every body attached to a message.\<close>

theorem body_cache_coherent:
  assumes "bodies_ok d" and "ids_owned d"
  shows "bodies_ok (snd (set_message_body acc mid html d)) \<and> bodies_ok (snd (evict_body acc mid d)) \<and>
    bodies_ok (snd (maybe_evict cap d)) \<and> bodies_ok (snd (apply_folder_delta acc label folder delta d))"
proof (intro conjI)
  show "bodies_ok (snd (set_message_body acc mid html d))" "bodies_ok (snd (evict_body acc mid d))"
    "bodies_ok (snd (maybe_evict cap d))"
    using assms set_body_keeps evict_keeps maybe_evict_keeps by (auto simp: io_keeps_def keeps_bodies_def)
  note [db_keeps_intros] = upsert_keeps_bodies delete_uid_keeps_bodies
  have flags: "bodies_ok (d\<lparr>t_messages := map (set_message_flags acc folder u) (t_messages d)\<rparr>) = bodies_ok d" for u d
    by (rule bodies_ok_map) (simp_all, simp add: set_message_flags_def)
  have frame: "bodies_ok (sweep_orphans acc d)" "bodies_ok (d\<lparr>t_threads := map (set_thread_flags t u) (t_threads d)\<rparr>)"
    if "bodies_ok d" for d t u
    by (rule bodies_ok_frame [OF that];
        use that in \<open>simp add: bodies_ok_def mailbox_ok_sweep mailbox_ok_map_threads\<close>)+
  have stmt: "io_keeps (\<lambda>d d'. bodies_ok d \<longrightarrow> bodies_ok d') (db_stmt (\<lambda>d. (x d, u d)))"
    if "\<And>d. bodies_ok d \<Longrightarrow> bodies_ok (u d)" for x :: "db \<Rightarrow> 'b" and u
    by (rule keeps_stmt [OF fault_blind_bodies_ok]) (simp add: that)
  have "io_keeps (\<lambda>d d'. bodies_ok d \<longrightarrow> bodies_ok d') (apply_folder_delta acc label folder delta)"
    unfolding apply_folder_delta_def wipe_folder_def store_messages_def delete_vanished_def
      apply_flag_updates_def apply_flag_update_def Let_def
    by (auto intro!: db_keeps_intros fault_blind_bodies_ok stmt simp: bodies_ok_delete flags frame)
  with assms(1) show "bodies_ok (snd (apply_folder_delta acc label folder delta d))" by (simp add: io_keeps_def)
qed

text \<open>One message, its body fetched at time 40, and a second one without.\<close>

definition read_mail :: db where
  "read_mail = mailbox_db\<lparr>t_messages := [\<lparr>ms_account = ''a'', ms_id = ''m1'', ms_thread = ''t1'', ms_is_read = 1,
       ms_is_starred = 0, ms_content = blank_message\<lparr>mc_body_cached := 1\<rparr>\<rparr>,
      \<lparr>ms_account = ''a'', ms_id = ''m2'', ms_thread = ''t2'', ms_is_read = 1, ms_is_starred = 0, ms_content = blank_message\<rparr>],
     t_bodies := [\<lparr>mb_account = ''a'', mb_message = ''m1'', mb_html = Some ''Hi'', mb_fetched_at = 40,
       mb_ciphertext = Some [1], mb_signed_part = None\<rparr>]\<rparr>"

lemma read_mail_ok: "bodies_ok read_mail" "ids_owned read_mail" "healthy read_mail"
  by (simp_all add: read_mail_def mailbox_db_def empty_db_def bodies_ok_def mailbox_ok_def has_thread_def has_message_def
      ids_owned_def message_key_def body_key_def blank_message_def healthy_def)

lemma body_cache_coherent_witness:
  "bodies_ok (snd (set_message_body ''a'' ''m2'' ''Hello'' read_mail)) \<and> bodies_ok (snd (maybe_evict 0 read_mail))"
  using body_cache_coherent [OF read_mail_ok(1,2)] by blast

lemma evicted_length:
  assumes "distinct (map body_key rows)"
  shows "length (filter (\<lambda>b. body_key b \<notin> set (map body_key (oldest n rows))) rows) = length rows - min n (length rows)"
    and "length (filter (\<lambda>b. body_key b \<in> set (map body_key (oldest n rows))) rows) = min n (length rows)"
proof -
  have inj: "inj_on body_key (set rows)" and dis: "distinct rows" using assms by (auto simp: distinct_map)
  have "body_key b \<in> set (map body_key (oldest n rows)) \<longleftrightarrow> b \<in> set (oldest n rows)" if "b \<in> set rows" for b
    using that oldest_subset [of n rows] inj by (auto dest: inj_onD)
  then have eq: "filter (\<lambda>b. body_key b \<in> set (map body_key (oldest n rows))) rows = filter (\<lambda>b. b \<in> set (oldest n rows)) rows"
    by (auto intro: filter_cong)
  have "distinct (oldest n rows)" using dis by (simp add: oldest_def)
  then have "length (oldest n rows) = card (set (oldest n rows))" by (simp add: distinct_card)
  also have "set (oldest n rows) = set (filter (\<lambda>b. b \<in> set (oldest n rows)) rows)" using oldest_subset [of n rows] by auto
  also have "card \<dots> = length (filter (\<lambda>b. b \<in> set (oldest n rows)) rows)" using dis by (intro distinct_card) simp
  finally show two: "length (filter (\<lambda>b. body_key b \<in> set (map body_key (oldest n rows))) rows) = min n (length rows)"
    unfolding eq by (simp add: oldest_def)
  show "length (filter (\<lambda>b. body_key b \<notin> set (map body_key (oldest n rows))) rows) = length rows - min n (length rows)"
    using two sum_length_filter_compl [of "\<lambda>b. body_key b \<in> set (map body_key (oldest n rows))" rows] by linarith
qed

lemma oldest_first:
  assumes "e \<in> set (oldest n rows)" and "b \<in> set rows" and "b \<notin> set (oldest n rows)"
  shows "mb_fetched_at e \<le> mb_fetched_at b"
proof -
  let ?s = "sort_key mb_fetched_at rows"
  have "b \<in> set (drop n ?s)"
    using assms(2,3) append_take_drop_id [of n ?s] unfolding oldest_def by (metis Un_iff set_append set_sort)
  moreover have "sorted (map mb_fetched_at (take n ?s @ drop n ?s))" by simp
  ultimately show ?thesis
    using assms(1) unfolding oldest_def map_append sorted_append by auto
qed

text \<open>Trimming the cache: with more bodies than the cap allows, exactly the surplus goes, no body that stays was
  fetched before one that went, and the count is returned; below the cap nothing is touched.\<close>

lemma maybe_evict_spec:
  assumes "healthy d" and "bodies_ok d" and "0 \<le> cap"
  shows "\<exists>d'. maybe_evict cap d = (Returned (Inr (length (t_bodies d) - nat cap)), d') \<and>
    length (t_bodies d') = min (length (t_bodies d)) (nat cap) \<and> set (t_bodies d') \<subseteq> set (t_bodies d) \<and>
    (\<forall>e \<in> set (t_bodies d) - set (t_bodies d'). \<forall>b \<in> set (t_bodies d'). mb_fetched_at e \<le> mb_fetched_at b)"
proof (cases "int (length (t_bodies d)) \<le> cap")
  case True
  then show ?thesis using assms(3)
    by (simp add: maybe_evict_def io_bind_def db_query_healthy [OF assms(1)] io_ret_def)
next
  case False
  define n where "n = nat (int (length (t_bodies d)) - cap)"
  let ?m = "io_bind (delete_oldest n) (\<lambda>ids. io_bind (io_each (\<lambda>mid. db_update (uncache mid)) ids) (\<lambda>_. io_ret (length ids)))"
  obtain ids d1 where 1: "delete_oldest n d = (Returned (Inr ids), d1)" "healthy d1"
    using does_healthy [OF delete_oldest_does(1) assms(1)] by metis
  obtain u d2 where 2: "io_each (\<lambda>mid. db_update (uncache mid)) ids d1 = (Returned (Inr u), d2)" "healthy d2"
    using does_healthy [OF does_uncache 1(2)] by metis
  have run: "?m d = (Returned (Inr (length ids)), d2)" by (simp add: io_bind_def 1 2 io_ret_def)
  from evict_committed [OF run] assms(1) 2(2) have d2: "length ids = length (evicted_ids n d)" "d2 = evicted n d"
    by (simp_all add: same_tables_def evicted_def healthy_def)
  have dis: "distinct (map body_key (t_bodies d))" using assms(2) by (simp add: bodies_ok_def)
  have n: "min n (length (t_bodies d)) = length (t_bodies d) - nat cap" using False assms(3) by (simp add: n_def nat_diff_distrib)
  have "maybe_evict cap d = (Returned (Inr (length ids)), d2)"
    using False db_transaction_healthy [of d ?m, OF assms(1) run 2(2)]
    by (simp add: maybe_evict_def io_bind_def [of "db_query q" for q] db_query_healthy [OF assms(1)] n_def)
  moreover have "length ids = length (t_bodies d) - nat cap"
    using evicted_length(2) [OF dis, of n] n by (simp add: d2(1) evicted_ids_def evicted_keys_def)
  moreover have "length (t_bodies d2) = min (length (t_bodies d)) (nat cap)"
    using evicted_length(1) [OF dis, of n] n False by (simp add: d2(2) evicted_def evicted_keys_def)
  moreover have "mb_fetched_at e \<le> mb_fetched_at b" if e: "e \<in> set (t_bodies d)" "e \<notin> set (t_bodies d2)"
      and b: "b \<in> set (t_bodies d2)" for e b
  proof -
    from b have "b \<in> set (t_bodies d)" "b \<notin> set (oldest n (t_bodies d))"
      by (auto simp: d2(2) evicted_def evicted_keys_def)
    moreover from e obtain x where x: "x \<in> set (oldest n (t_bodies d))" "body_key x = body_key e"
      by (auto simp: d2(2) evicted_def evicted_keys_def)
    with e dis oldest_subset [of n "t_bodies d"] have "x = e" by (auto simp: distinct_map dest: inj_onD)
    ultimately show ?thesis using x oldest_first by blast
  qed
  moreover have "set (t_bodies d2) \<subseteq> set (t_bodies d)" by (auto simp: d2(2) evicted_def)
  ultimately show ?thesis by (metis Diff_iff)
qed

lemma maybe_evict_spec_witness:
  "\<exists>d'. maybe_evict 0 read_mail = (Returned (Inr 1), d') \<and> t_bodies d' = []"
  using maybe_evict_spec [OF read_mail_ok(3,1), of 0] by (auto simp: read_mail_def)

end
