(* ===== verification/Rust_Text.thy ===== *)
theory Rust_Text
  imports Rust_Std
begin

text \<open>
  Text operations of \<open>str\<close> beyond the ASCII ones of \<open>Rust_Std\<close>, on strings as UTF-8 byte sequences:
  \<open>split\<close>, \<open>trim\<close> with Unicode white space, slices at a character boundary.
\<close>

section \<open>Splitting\<close>

fun split_char :: "char \<Rightarrow> string \<Rightarrow> string list" where
  "split_char c [] = [[]]"
| "split_char c (x # xs) =
     (if x = c then [] # split_char c xs
      else (case split_char c xs of [] \<Rightarrow> [[x]] | s # ss \<Rightarrow> (x # s) # ss))"

fun join_with :: "string \<Rightarrow> string list \<Rightarrow> string" where
  "join_with sep [] = []"
| "join_with sep [s] = s"
| "join_with sep (s # t # ss) = s @ sep @ join_with sep (t # ss)"

lemma split_char_nonempty [simp]: "split_char c s \<noteq> []"
  by (induction s) (auto split: list.split)

lemma join_split: "join_with [c] (split_char c s) = s"
proof (induction s)
  case (Cons x xs)
  then show ?case
    by (cases "split_char c xs"; cases "tl (split_char c xs)") auto
qed simp

lemma split_no_sep: "c \<notin> set s \<Longrightarrow> split_char c s = [s]"
  by (induction s) auto

lemma split_append_sep: "c \<notin> set s \<Longrightarrow> split_char c (s @ c # t) = s # split_char c t"
  by (induction s) auto

lemma split_join:
  "ss \<noteq> [] \<Longrightarrow> \<forall>s \<in> set ss. c \<notin> set s \<Longrightarrow> split_char c (join_with [c] ss) = ss"
proof (induction "[c]" ss rule: join_with.induct)
  case (3 s t ss)
  then show ?case by (simp add: split_append_sep)
qed (auto simp: split_no_sep)

text \<open>\<open>split_once\<close> and \<open>rsplit_once\<close>.\<close>

fun split_once :: "char \<Rightarrow> string \<Rightarrow> (string \<times> string) option" where
  "split_once c [] = None"
| "split_once c (x # xs) =
     (if x = c then Some ([], xs) else map_option (\<lambda>(a, b). (x # a, b)) (split_once c xs))"

definition rsplit_once :: "char \<Rightarrow> string \<Rightarrow> (string \<times> string) option" where
  "rsplit_once c s = map_option (\<lambda>(a, b). (rev b, rev a)) (split_once c (rev s))"

lemma split_onceD: "split_once c s = Some (a, b) \<Longrightarrow> s = a @ c # b \<and> c \<notin> set a"
  by (induction s arbitrary: a) (auto split: if_splits)

lemma split_onceI: "c \<notin> set a \<Longrightarrow> split_once c (a @ c # b) = Some (a, b)"
  by (induction a) auto

lemma split_once_None [simp]: "split_once c s = None \<longleftrightarrow> c \<notin> set s"
  by (induction s) auto

section \<open>Substrings\<close>

abbreviation CRLF :: string where
  "CRLF \<equiv> [CHR 0x0D, CHR 0x0A]"

text \<open>\<open>find(p)\<close> with the two slices around the first occurrence, and \<open>split(p)\<close>.\<close>

fun break_str :: "string \<Rightarrow> string \<Rightarrow> (string \<times> string) option" where
  "break_str p [] = (if p = [] then Some ([], []) else None)"
| "break_str p (x # xs) =
     (if starts_with p (x # xs) then Some ([], drop (length p) (x # xs))
      else map_option (\<lambda>(a, b). (x # a, b)) (break_str p xs))"

lemma break_strD: "break_str p s = Some (a, b) \<Longrightarrow> s = a @ p @ b"
  by (induction s arbitrary: a) (auto simp: starts_with_iff split: if_splits)

function split_str :: "string \<Rightarrow> string \<Rightarrow> string list" where
  "split_str p s =
     (if p = [] then [s]
      else (case break_str p s of None \<Rightarrow> [s] | Some (a, b) \<Rightarrow> a # split_str p b))"
  by pat_completeness auto
termination
  by (relation "measure (length \<circ> snd)") (auto dest: break_strD)

declare split_str.simps [simp del]

text \<open>\<open>str::lines\<close>: a carriage return goes with the line feed that follows it.\<close>

definition strip_cr :: "string \<Rightarrow> string" where
  "strip_cr l = (if l \<noteq> [] \<and> last l = CHR 0x0D then butlast l else l)"

definition str_lines :: "string \<Rightarrow> string list" where
  "str_lines s = (let ls = split_char (CHR 0x0A) s in map strip_cr (butlast ls) @ (if last ls = [] then [] else [last ls]))"

section \<open>White space\<close>

text \<open>The characters with the property White_Space, as byte sequences.\<close>

definition white_spaces :: "string list" where
  "white_spaces = map (\<lambda>b. [char_of (b :: nat)]) [9, 10, 11, 12, 13, 32] @
     map (map char_of) [[0xC2, 0x85], [0xC2, 0xA0 :: nat], [0xE1, 0x9A, 0x80]] @
     map (\<lambda>b. [char_of (0xE2 :: nat), char_of (0x80 :: nat), char_of b])
       [0x80, 0x81, 0x82, 0x83, 0x84, 0x85, 0x86, 0x87, 0x88, 0x89, 0x8A, 0xA8, 0xA9, 0xAF :: nat] @
     map (map char_of) [[0xE2, 0x81, 0x9F], [0xE3, 0x80, 0x80 :: nat]]"

definition leading :: "string list \<Rightarrow> string \<Rightarrow> nat" where
  "leading ws s = (case find (\<lambda>w. take (length w) s = w) ws of None \<Rightarrow> 0 | Some w \<Rightarrow> length w)"

function strip_leading :: "string list \<Rightarrow> string \<Rightarrow> string" where
  "strip_leading ws s = (let n = leading ws s in if n = 0 \<or> s = [] then s else strip_leading ws (drop n s))"
  by pat_completeness auto
termination
  by (relation "measure (\<lambda>(ws, s). length s)") auto

declare strip_leading.simps [simp del]

definition trim_start :: "string \<Rightarrow> string" where
  "trim_start s = strip_leading white_spaces s"

definition trim_end :: "string \<Rightarrow> string" where
  "trim_end s = rev (strip_leading (map rev white_spaces) (rev s))"

definition trim :: "string \<Rightarrow> string" where
  "trim s = trim_end (trim_start s)"

lemma strip_leading_suffix: "\<exists>p. s = p @ strip_leading ws s"
proof (induction ws s rule: strip_leading.induct)
  case (1 ws s)
  show ?case
  proof (cases "leading ws s = 0 \<or> s = []")
    case True
    then show ?thesis by (simp add: strip_leading.simps [of ws s] Let_def)
  next
    case False
    with 1 obtain p where "drop (leading ws s) s = p @ strip_leading ws (drop (leading ws s) s)" by auto
    then have "s = (take (leading ws s) s @ p) @ strip_leading ws (drop (leading ws s) s)"
      by (metis append.assoc append_take_drop_id)
    with False show ?thesis by (metis strip_leading.simps Let_def)
  qed
qed

lemma set_trim: "set (trim s) \<subseteq> set s"
proof -
  have "set (strip_leading ws t) \<subseteq> set t" for ws t
    using strip_leading_suffix [of t ws] by (metis Un_iff set_append subsetI)
  then show ?thesis unfolding trim_def trim_start_def trim_end_def by (metis set_rev subset_trans)
qed

lemma strip_leading_stop: "leading ws s = 0 \<Longrightarrow> strip_leading ws s = s"
  by (simp add: strip_leading.simps [of ws s] Let_def)

lemma leading_strip: "leading ws (strip_leading ws s) = 0 \<or> strip_leading ws s = []"
proof (induction ws s rule: strip_leading.induct)
  case (1 ws s)
  show ?case
  proof (cases "leading ws s = 0 \<or> s = []")
    case False
    with 1 show ?thesis by (metis strip_leading.simps Let_def)
  qed (auto simp: strip_leading.simps [of ws s] Let_def)
qed

text \<open>Text that starts and ends with a printing ASCII character is left alone.\<close>

definition graphic :: "char \<Rightarrow> bool" where
  "graphic c = (let n = of_char c :: nat in 33 \<le> n \<and> n < 127)"

lemma white_spaces_ends:
  "w \<in> set white_spaces \<Longrightarrow> w \<noteq> [] \<and> \<not> graphic (hd w) \<and> \<not> graphic (last w)"
  by (auto simp: white_spaces_def graphic_def Let_def of_char_of)

lemma leading_graphic:
  assumes "graphic c" and "\<forall>w \<in> set ws. w \<noteq> [] \<and> \<not> graphic (hd w)"
  shows "leading ws (c # s) = 0"
proof -
  have "take (length w) (c # s) \<noteq> w" if "w \<in> set ws" for w
  proof
    assume "take (length w) (c # s) = w"
    moreover from that assms(2) have "w \<noteq> []" "\<not> graphic (hd w)" by auto
    ultimately show False using assms(1) by (metis hd_take length_greater_0_conv list.sel(1))
  qed
  then have "find (\<lambda>w. take (length w) (c # s) = w) ws = None" by (simp add: find_None_iff)
  then show ?thesis by (simp add: leading_def)
qed

lemma trim_graphic:
  assumes "s \<noteq> []" and "graphic (hd s)" and "graphic (last s)"
  shows "trim s = s"
proof -
  obtain c cs where s: "s = c # cs" using assms(1) by (cases s) auto
  obtain d ds where r: "rev s = d # ds" using assms(1) by (cases "rev s") auto
  then have d: "graphic d" using assms(3) by (metis list.sel(1) hd_rev)
  have "leading white_spaces s = 0" using assms(2) white_spaces_ends by (simp add: s leading_graphic)
  moreover have "leading (map rev white_spaces) (rev s) = 0"
    unfolding r using d white_spaces_ends by (intro leading_graphic) (auto simp: hd_rev)
  ultimately show ?thesis by (simp add: trim_def trim_start_def trim_end_def strip_leading_stop)
qed

section \<open>Slices\<close>

text \<open>A byte that continues a character: \<open>10xxxxxx\<close>.\<close>

definition continues :: "char \<Rightarrow> bool" where
  "continues c = (let n = of_char c :: nat in 128 \<le> n \<and> n < 192)"

text \<open>\<open>s.get(..n)\<close>.\<close>

definition get_prefix :: "nat \<Rightarrow> string \<Rightarrow> string option" where
  "get_prefix n s =
     (if n < length s then (if continues (s ! n) then None else Some (take n s))
      else if n = length s then Some s else None)"

lemma get_prefix_set: "get_prefix n s = Some t \<Longrightarrow> set t \<subseteq> set s"
  by (auto simp: get_prefix_def split: if_splits dest: in_set_takeD)

end
