(* ===== verification/Attachments.thy ===== *)
theory Attachments
  imports Bodies Rust_Text
begin

text \<open>
  \<open>db/attachments.rs\<close>: the rows that describe the attachments of a message, found when its body is
  fetched, and the pointer to the cached file that each may carry.
\<close>

section \<open>Data\<close>

text \<open>What the MIME parser of the IMAP client finds in a body (\<open>mail/imap/types.rs\<close>).\<close>

record imap_attachment =
  ia_part_id :: string
  ia_filename :: string
  ia_mime_type :: string
  ia_size :: u32
  ia_content_id :: "string option"
  ia_is_inline :: bool

record attachment_dto =
  ad_id :: string
  ad_account_id :: string
  ad_message_id :: string
  ad_filename :: "string option"
  ad_mime_type :: "string option"
  ad_size :: int
  ad_content_id :: "string option"
  ad_is_inline :: bool
  ad_imap_part_id :: "string option"

definition row_to_attachment :: "attachment_row \<Rightarrow> attachment_dto" where
  "row_to_attachment r =
     \<lparr>ad_id = at_id r, ad_account_id = at_account r, ad_message_id = at_message r, ad_filename = at_filename r,
      ad_mime_type = at_mime_type r, ad_size = at_size r, ad_content_id = at_content_id r,
      ad_is_inline = (at_is_inline r \<noteq> 0), ad_imap_part_id = at_imap_part_id r\<rparr>"

section \<open>The set of a message\<close>

definition attachment_id :: "string \<Rightarrow> string \<Rightarrow> string \<Rightarrow> string" where
  "attachment_id acc mid part_id = acc @ ''_'' @ mid @ ''_'' @ part_id"

definition attachment_of :: "string \<Rightarrow> string \<Rightarrow> imap_attachment \<Rightarrow> attachment_row" where
  "attachment_of acc mid att =
     \<lparr>at_id = attachment_id acc mid (ia_part_id att), at_message = mid, at_account = acc,
      at_filename = Some (ia_filename att), at_mime_type = Some (ia_mime_type att), at_size = uint (ia_size att),
      at_content_id = ia_content_id att, at_is_inline = of_bool (ia_is_inline att),
      at_imap_part_id = Some (ia_part_id att), at_local_path = None, at_cached_at = None, at_cache_size = None\<rparr>"

definition of_message :: "string \<Rightarrow> string \<Rightarrow> attachment_row \<Rightarrow> bool" where
  "of_message acc mid r \<longleftrightarrow> at_account r = acc \<and> at_message r = mid"

text \<open>\<open>INSERT OR REPLACE\<close> by the primary key \<open>id\<close>, with the foreign key checked.\<close>

definition replace_attachment :: "string \<Rightarrow> string \<Rightarrow> imap_attachment \<Rightarrow> unit db_io" where
  "replace_attachment acc mid att =
     io_bind (db_stmt (\<lambda>d.
       let r = attachment_of acc mid att
       in if has_message d acc mid
          then (Inr (), d\<lparr>t_attachments := filter (\<lambda>q. at_id q \<noteq> at_id r) (t_attachments d) @ [r]\<rparr>)
          else (Inl fk_failed, d))) io_lift"

definition upsert_attachments :: "string \<Rightarrow> string \<Rightarrow> imap_attachment list \<Rightarrow> unit db_io" where
  "upsert_attachments acc mid atts =
     db_transaction
       (io_bind (db_update (\<lambda>d. d\<lparr>t_attachments := filter (\<lambda>r. \<not> of_message acc mid r) (t_attachments d)\<rparr>)) (\<lambda>_.
        io_each (replace_attachment acc mid) atts))"

section \<open>Order of MIME sections\<close>

definition u64_max :: nat where
  "u64_max = 18446744073709551615"

definition parse_u64 :: "string \<Rightarrow> nat option" where
  "parse_u64 s = parse_unsigned u64_max s"

text \<open>The keys are vectors of \<open>u64\<close>, ordered lexicographically as \<open>Vec\<close> is.\<close>

datatype part_key = Part_Key (segments: "nat list")

fun vec_le :: "nat list \<Rightarrow> nat list \<Rightarrow> bool" where
  "vec_le [] ys = True"
| "vec_le (x # xs) [] = False"
| "vec_le (x # xs) (y # ys) = (x < y \<or> x = y \<and> vec_le xs ys)"

lemma vec_le_refl: "vec_le xs xs"
  by (induction xs) simp_all

lemma vec_le_trans: "vec_le xs ys \<Longrightarrow> vec_le ys zs \<Longrightarrow> vec_le xs zs"
  by (induction xs ys arbitrary: zs rule: vec_le.induct) (auto elim: vec_le.elims(2))

lemma vec_le_antisym: "vec_le xs ys \<Longrightarrow> vec_le ys xs \<Longrightarrow> xs = ys"
  by (induction xs ys rule: vec_le.induct) (auto elim: vec_le.elims(2))

lemma vec_le_total: "vec_le xs ys \<or> vec_le ys xs"
  by (induction xs ys rule: vec_le.induct) auto

instantiation part_key :: linorder
begin

definition less_eq_part_key :: "part_key \<Rightarrow> part_key \<Rightarrow> bool" where
  "less_eq_part_key k l \<longleftrightarrow> vec_le (segments k) (segments l)"

definition less_part_key :: "part_key \<Rightarrow> part_key \<Rightarrow> bool" where
  "less_part_key k l \<longleftrightarrow> vec_le (segments k) (segments l) \<and> \<not> vec_le (segments l) (segments k)"

instance
  by standard
    (auto simp: less_eq_part_key_def less_part_key_def part_key.expand vec_le_refl vec_le_total
      intro: vec_le_trans dest: vec_le_antisym)

end

definition part_sort_key :: "string option \<Rightarrow> part_key" where
  "part_sort_key part_id =
     Part_Key (case part_id of
        Some s \<Rightarrow> if s \<noteq> [] then map (\<lambda>seg. opt_or u64_max (parse_u64 seg)) (split_char CHR ''.'' s) else [u64_max]
      | None \<Rightarrow> [u64_max])"

definition get_attachments :: "string \<Rightarrow> string \<Rightarrow> attachment_dto list db_io" where
  "get_attachments acc mid =
     db_query (\<lambda>d. sort_key (\<lambda>r. part_sort_key (ad_imap_part_id r))
       (map row_to_attachment (filter (of_message acc mid) (t_attachments d))))"

section \<open>Pointers to the cache\<close>

record attachment_meta =
  am_id :: string
  am_filename :: "string option"
  am_mime_type :: "string option"
  am_size :: int
  am_local_path :: "string option"

definition meta_of :: "attachment_row \<Rightarrow> attachment_meta" where
  "meta_of r = \<lparr>am_id = at_id r, am_filename = at_filename r, am_mime_type = at_mime_type r, am_size = at_size r,
     am_local_path = at_local_path r\<rparr>"

definition get_attachment_meta :: "string \<Rightarrow> string \<Rightarrow> string \<Rightarrow> attachment_meta option db_io" where
  "get_attachment_meta acc mid part_id =
     db_query (\<lambda>d. map_option meta_of
       (find (\<lambda>r. of_message acc mid r \<and> at_imap_part_id r = Some part_id) (t_attachments d)))"

record inline_part =
  ip_id :: string
  ip_content_id :: string
  ip_filename :: "string option"
  ip_mime_type :: "string option"
  ip_size :: int
  ip_local_path :: "string option"

definition list_inline_cid_parts :: "string \<Rightarrow> string \<Rightarrow> inline_part list db_io" where
  "list_inline_cid_parts acc mid =
     db_query (\<lambda>d. map (\<lambda>r. \<lparr>ip_id = at_id r, ip_content_id = opt_or [] (at_content_id r), ip_filename = at_filename r,
         ip_mime_type = at_mime_type r, ip_size = at_size r, ip_local_path = at_local_path r\<rparr>)
       (filter (\<lambda>r. of_message acc mid r \<and> at_is_inline r = 1 \<and> at_content_id r \<noteq> None) (t_attachments d)))"

text \<open>\<open>strftime('%s','now')\<close> is text; the column's INTEGER affinity makes it a number.\<close>

definition set_cached_path :: "string \<Rightarrow> string \<Rightarrow> int \<Rightarrow> unit db_io" where
  "set_cached_path i path n =
     db_update (\<lambda>d. d\<lparr>t_attachments := map (\<lambda>r.
       if at_id r = i then r\<lparr>at_local_path := Some path, at_cached_at := Some (db_now d), at_cache_size := Some n\<rparr> else r)
       (t_attachments d)\<rparr>)"

section \<open>What a re-fetched body leaves\<close>

definition put_attachment :: "string \<Rightarrow> string \<Rightarrow> imap_attachment \<Rightarrow> db \<Rightarrow> db" where
  "put_attachment acc mid att d =
     d\<lparr>t_attachments := filter (\<lambda>q. at_id q \<noteq> attachment_id acc mid (ia_part_id att)) (t_attachments d) @ [attachment_of acc mid att]\<rparr>"

lemma replace_attachment_run:
  assumes "healthy d" and "has_message d acc mid"
  shows "replace_attachment acc mid att d = (Returned (Inr ()), put_attachment acc mid att d)"
  using assms by (simp add: replace_attachment_def io_bind_def db_stmt_healthy io_lift_def io_ret_def put_attachment_def
      attachment_of_def Let_def)

lemma put_attachment_frame [simp]:
  "healthy (put_attachment acc mid att d) = healthy d" "has_message (put_attachment acc mid att d) = has_message d"
  by (simp_all add: put_attachment_def healthy_def has_message_def fun_eq_iff)

lemma replace_all_run:
  "healthy d \<Longrightarrow> has_message d acc mid \<Longrightarrow>
    io_each (replace_attachment acc mid) atts d = (Returned (Inr ()), fold (put_attachment acc mid) atts d) \<and>
    healthy (fold (put_attachment acc mid) atts d)"
  by (induction atts arbitrary: d) (simp_all add: io_ret_def io_bind_def replace_attachment_run)

lemma fold_put_attachment:
  assumes "distinct (map ia_part_id atts)"
    and "\<forall>r \<in> set (t_attachments d). \<forall>a \<in> set atts. at_id r \<noteq> attachment_id acc mid (ia_part_id a)"
  shows "fold (put_attachment acc mid) atts d = d\<lparr>t_attachments := t_attachments d @ map (attachment_of acc mid) atts\<rparr>"
  using assms
proof (induction atts arbitrary: d)
  case (Cons a atts)
  then have step: "put_attachment acc mid a d = d\<lparr>t_attachments := t_attachments d @ [attachment_of acc mid a]\<rparr>"
    by (auto simp: put_attachment_def filter_id_conv)
  have "fold (put_attachment acc mid) atts (put_attachment acc mid a d)
      = (put_attachment acc mid a d)\<lparr>t_attachments := t_attachments (put_attachment acc mid a d) @ map (attachment_of acc mid) atts\<rparr>"
    using Cons.prems by (intro Cons.IH) (auto simp: step attachment_of_def attachment_id_def)
  then show ?case by (simp add: step)
qed simp

text \<open>No other message owns an id that the parts of this one would get.\<close>

definition ids_free :: "string \<Rightarrow> string \<Rightarrow> imap_attachment list \<Rightarrow> db \<Rightarrow> bool" where
  "ids_free acc mid atts d \<longleftrightarrow> list_all (\<lambda>r. of_message acc mid r \<or>
     at_id r \<notin> set (map (\<lambda>a. attachment_id acc mid (ia_part_id a)) atts)) (t_attachments d)"

lemma upsert_attachments_run:
  assumes "healthy d" and "has_message d acc mid" and "distinct (map ia_part_id atts)" and "ids_free acc mid atts d"
  shows "upsert_attachments acc mid atts d = (Returned (Inr ()),
    d\<lparr>t_attachments := filter (\<lambda>r. \<not> of_message acc mid r) (t_attachments d) @ map (attachment_of acc mid) atts\<rparr>)"
proof -
  let ?d0 = "d\<lparr>t_attachments := filter (\<lambda>r. \<not> of_message acc mid r) (t_attachments d)\<rparr>"
  have d0: "healthy ?d0" "has_message ?d0 acc mid" using assms by (simp_all add: healthy_def has_message_def)
  have "fold (put_attachment acc mid) atts ?d0 = ?d0\<lparr>t_attachments := t_attachments ?d0 @ map (attachment_of acc mid) atts\<rparr>"
    using assms(3,4) by (intro fold_put_attachment) (auto simp: ids_free_def list_all_iff)
  then show ?thesis
    unfolding upsert_attachments_def using replace_all_run [OF d0, of atts] assms(1)
    by (intro db_transaction_healthy) (simp_all add: io_bind_def db_update_healthy)
qed

text \<open>The attachments of a message. Storing the parts of a body replaces the message's rows, leaves those
  of every other message, and listing them afterwards gives each part once, in the numeric order of the MIME
  sections.\<close>

lemma attachments_listed:
  assumes "healthy d" and "has_message d acc mid" and "distinct (map ia_part_id atts)" and "ids_free acc mid atts d"
  shows "\<exists>d' rows. upsert_attachments acc mid atts d = (Returned (Inr ()), d') \<and>
    get_attachments acc mid d' = (Returned (Inr rows), d') \<and>
    mset rows = mset (map (\<lambda>a. row_to_attachment (attachment_of acc mid a)) atts) \<and>
    sorted (map (\<lambda>r. part_sort_key (ad_imap_part_id r)) rows) \<and>
    filter (\<lambda>r. \<not> of_message acc mid r) (t_attachments d') = filter (\<lambda>r. \<not> of_message acc mid r) (t_attachments d)"
proof -
  let ?d' = "d\<lparr>t_attachments := filter (\<lambda>r. \<not> of_message acc mid r) (t_attachments d) @ map (attachment_of acc mid) atts\<rparr>"
  have "healthy ?d'" using assms(1) by (simp add: healthy_def)
  moreover have mine: "filter (of_message acc mid) (map (attachment_of acc mid) atts) = map (attachment_of acc mid) atts"
    by (simp add: filter_id_conv of_message_def attachment_of_def)
  moreover have "filter (\<lambda>r. \<not> of_message acc mid r) (map (attachment_of acc mid) atts) = []"
    by (simp add: filter_empty_conv of_message_def attachment_of_def)
  ultimately show ?thesis
    by (simp add: upsert_attachments_run [OF assms] get_attachments_def db_query_healthy comp_def)
qed

definition part :: "string \<Rightarrow> imap_attachment" where
  "part i = \<lparr>ia_part_id = i, ia_filename = ''f'', ia_mime_type = ''image/png'', ia_size = 3, ia_content_id = None,
     ia_is_inline = False\<rparr>"

lemma attachments_listed_witness:
  "\<exists>d' rows. upsert_attachments ''a'' ''m1'' [part ''10'', part ''2''] mailbox_db = (Returned (Inr ()), d') \<and>
     get_attachments ''a'' ''m1'' d' = (Returned (Inr rows), d') \<and> length rows = 2"
proof -
  have "has_message mailbox_db ''a'' ''m1''" "distinct (map ia_part_id [part ''10'', part ''2''])"
    "ids_free ''a'' ''m1'' [part ''10'', part ''2''] mailbox_db"
    by (simp_all add: mailbox_db_def empty_db_def has_message_def part_def ids_free_def)
  from attachments_listed [OF mailbox_db_healthy(1) this] show ?thesis
    by (metis length_Cons list.size(3) numeral_2_eq_2 size_mset length_map)
qed

text \<open>Fetching a body again forgets where its attachments are cached: the rows are written anew, so none of
  them points to a cached file any more, although a comment promises that storing the same parts again yields the
  same rows.\<close>

lemma refetch_forgets_cache:
  assumes "healthy d" and "has_message d acc mid" and "distinct (map ia_part_id atts)" and "ids_free acc mid atts d"
    and "upsert_attachments acc mid atts d = (r, d')" and "q \<in> set (t_attachments d')" and "of_message acc mid q"
  shows "at_local_path q = None"
  using assms(5-7) upsert_attachments_run [OF assms(1-4)] by (auto simp: attachment_of_def)

lemma refetch_forgets_cache_witness:
  "\<exists>d. list_ex (\<lambda>q. at_local_path q = Some ''/cache/f'') (t_attachments d) \<and>
     (\<forall>q \<in> set (t_attachments (snd (upsert_attachments ''a'' ''m1'' [part ''1''] d))).
        of_message ''a'' ''m1'' q \<longrightarrow> at_local_path q = None)"
proof -
  let ?row = "(attachment_of ''a'' ''m1'' (part ''1''))\<lparr>at_local_path := Some ''/cache/f''\<rparr>"
  let ?d = "mailbox_db\<lparr>t_attachments := [?row]\<rparr>"
  have "healthy ?d" "has_message ?d ''a'' ''m1''" "distinct (map ia_part_id [part ''1''])" "ids_free ''a'' ''m1'' [part ''1''] ?d"
    by (simp_all add: mailbox_db_def empty_db_def has_message_def ids_free_def of_message_def attachment_of_def healthy_def)
  note forgets = refetch_forgets_cache [OF this surjective_pairing]
  show ?thesis
    by (intro exI [of _ ?d] conjI ballI impI) (simp, rule forgets)
qed

end
