(* ===== verification/Attachment_Cache.thy ===== *)
theory Attachment_Cache
  imports Attachments Engine "HOL-Library.AList"
begin

text \<open>
  \<open>attachment_cache.rs\<close> and the fetching of attachments in \<open>sync_engine/commands.rs\<close> (with
  \<open>sanitize_attachment_filename\<close> of \<open>commands.rs\<close>): received attachments are files under
  \<open><data>/attachment-cache/account/shard/message/\<close>, the database points to them, and a reconciliation removes
  what no message owns.

  The disk is a tree of files and directories without symbolic links; paths are lists of components. Which
  operation of the file system fails is given by \<open>cw_fs_faults\<close>, like the fates of SQL statements; a
  \<open>remove_dir_all\<close> that fails removes nothing.
\<close>

section \<open>The disk\<close>

datatype node = File "u8 list" | Dir "(string \<times> node) list"

fun node_at :: "node \<Rightarrow> string list \<Rightarrow> node option" where
  "node_at n [] = Some n"
| "node_at (File bytes) (s # ss) = None"
| "node_at (Dir es) (s # ss) = (case map_of es s of None \<Rightarrow> None | Some n \<Rightarrow> node_at n ss)"

definition is_dir :: "node \<Rightarrow> string list \<Rightarrow> bool" where
  "is_dir disk p = (case node_at disk p of Some (Dir es) \<Rightarrow> True | _ \<Rightarrow> False)"

definition is_file :: "node \<Rightarrow> string list \<Rightarrow> bool" where
  "is_file disk p = (case node_at disk p of Some (File bytes) \<Rightarrow> True | _ \<Rightarrow> False)"

text \<open>The resolution of a path by the operating system, from the canonical path \<open>cur\<close>.\<close>

fun canon :: "node \<Rightarrow> string list \<Rightarrow> string list \<Rightarrow> string list option" where
  "canon disk cur [] = (if node_at disk cur = None then None else Some cur)"
| "canon disk cur (s # ss) =
     (if \<not> is_dir disk cur then None
      else if s = [] \<or> s = ''.'' then canon disk cur ss
      else if s = ''..'' then canon disk (butlast cur) ss
      else canon disk (cur @ [s]) ss)"

definition path_string :: "string list \<Rightarrow> string" where
  "path_string p = concat (map (\<lambda>s. CHR ''/'' # s) p)"

definition resolve :: "node \<Rightarrow> string \<Rightarrow> string list option" where
  "resolve disk path = (if starts_with ''/'' path then canon disk [] (split_char CHR ''/'' path) else None)"

definition path_exists :: "node \<Rightarrow> string \<Rightarrow> bool" where
  "path_exists disk path \<longleftrightarrow> resolve disk path \<noteq> None"

definition path_is_within_cache :: "node \<Rightarrow> string \<Rightarrow> string list \<Rightarrow> bool" where
  "path_is_within_cache disk path cache_root =
     (case resolve disk path of None \<Rightarrow> False
      | Some canonical_path \<Rightarrow>
          (case canon disk [] cache_root of None \<Rightarrow> False
           | Some canonical_root \<Rightarrow> take (length canonical_root) canonical_path = canonical_root))"

section \<open>Names\<close>

definition separators :: string where
  "separators = [CHR 0x5C, CHR ''/'', CHR '':'', CHR ''*'', CHR ''?'', CHR 0x22, CHR ''<'', CHR ''>'', CHR ''|'']"

definition replace_separators :: "string \<Rightarrow> string" where
  "replace_separators s = map (\<lambda>c. if c \<in> set separators then CHR ''_'' else c) s"

definition sanitize_path_segment :: "string \<Rightarrow> string" where
  "sanitize_path_segment segment = trim (replace_separators segment)"

definition sanitize_attachment_filename :: "string \<Rightarrow> string" where
  "sanitize_attachment_filename name =
     (let cleaned = trim (replace_separators name)
      in if cleaned = [] \<or> cleaned = ''.'' \<or> cleaned = ''..'' then ''attachment'' else cleaned)"

text \<open>\<open>Path::join\<close> of a relative path: an empty one adds no component.\<close>

definition path_join :: "string list \<Rightarrow> string \<Rightarrow> string list" where
  "path_join p s = (if s = [] then p else p @ [s])"

definition message_cache_dir :: "string list \<Rightarrow> string \<Rightarrow> string \<Rightarrow> string list" where
  "message_cache_dir cache_root acc mid =
     (let safe_account = sanitize_path_segment acc; safe_message = sanitize_path_segment mid;
          shard = opt_or safe_message (get_prefix 2 safe_message)
      in path_join (path_join (path_join cache_root safe_account) shard) safe_message)"

definition cache_file_path :: "string list \<Rightarrow> string \<Rightarrow> string \<Rightarrow> string \<Rightarrow> string \<Rightarrow> string list" where
  "cache_file_path cache_root acc mid aid filename =
     path_join (message_cache_dir cache_root acc mid)
       (sanitize_path_segment aid @ ''_'' @ sanitize_attachment_filename filename)"

section \<open>Operations on files\<close>

record 'w cache_world =
  cw_db :: db
  cw_disk :: node
  cw_fs_faults :: "string option list"
  cw_net :: 'w

type_synonym ('w, 'a) cache_io = "('w cache_world, string, 'a) io"

definition fs_op :: "(node \<Rightarrow> string + 'a \<times> node) \<Rightarrow> ('w, 'a) cache_io" where
  "fs_op f w =
     (case cw_fs_faults w of
        Some e # fs \<Rightarrow> (Returned (Inl e), w\<lparr>cw_fs_faults := fs\<rparr>)
      | _ \<Rightarrow> (case f (cw_disk w) of
                Inl e \<Rightarrow> (Returned (Inl e), w\<lparr>cw_fs_faults := tl (cw_fs_faults w)\<rparr>)
              | Inr (x, n) \<Rightarrow> (Returned (Inr x), w\<lparr>cw_fs_faults := tl (cw_fs_faults w), cw_disk := n\<rparr>)))"

definition no_entry :: string where "no_entry = ''No such file or directory (os error 2)''"
definition not_a_directory :: string where "not_a_directory = ''Not a directory (os error 20)''"
definition is_a_directory :: string where "is_a_directory = ''Is a directory (os error 21)''"

definition read_dir :: "string list \<Rightarrow> ('w, string list) cache_io" where
  "read_dir p = fs_op (\<lambda>disk. case node_at disk p of
     None \<Rightarrow> Inl no_entry | Some (File bytes) \<Rightarrow> Inl not_a_directory | Some (Dir es) \<Rightarrow> Inr (map fst es, disk))"

fun delete_at :: "string list \<Rightarrow> node \<Rightarrow> node" where
  "delete_at [] n = n"
| "delete_at (s # ss) (File bytes) = File bytes"
| "delete_at (s # ss) (Dir es) =
     Dir (if ss = [] then AList.delete s es
          else case map_of es s of None \<Rightarrow> es | Some n \<Rightarrow> AList.update s (delete_at ss n) es)"

definition remove_dir_all :: "string list \<Rightarrow> ('w, unit) cache_io" where
  "remove_dir_all p = fs_op (\<lambda>disk. case node_at disk p of
     None \<Rightarrow> Inl no_entry | Some (File bytes) \<Rightarrow> Inl not_a_directory | Some (Dir es) \<Rightarrow> Inr ((), delete_at p disk))"

fun create_at :: "string list \<Rightarrow> node \<Rightarrow> string + node" where
  "create_at ss (File bytes) = Inl not_a_directory"
| "create_at [] (Dir es) = Inr (Dir es)"
| "create_at (s # ss) (Dir es) =
     map_sum id (\<lambda>n. Dir (AList.update s n es)) (create_at ss (case map_of es s of None \<Rightarrow> Dir [] | Some n \<Rightarrow> n))"

fun write_at :: "string list \<Rightarrow> u8 list \<Rightarrow> node \<Rightarrow> string + node" where
  "write_at [] bytes n = Inl is_a_directory"
| "write_at (s # ss) bytes (File old) = Inl not_a_directory"
| "write_at (s # ss) bytes (Dir es) =
     (if ss = []
      then (case map_of es s of Some (Dir fs) \<Rightarrow> Inl is_a_directory | _ \<Rightarrow> Inr (Dir (AList.update s (File bytes) es)))
      else (case map_of es s of None \<Rightarrow> Inl no_entry
            | Some n \<Rightarrow> map_sum id (\<lambda>m. Dir (AList.update s m es)) (write_at ss bytes n)))"

text \<open>Without links, the directories above a component can be followed in the path itself.\<close>

fun lexical :: "string list \<Rightarrow> string list \<Rightarrow> string list" where
  "lexical cur [] = cur"
| "lexical cur (s # ss) =
     lexical (if s = [] \<or> s = ''.'' then cur else if s = ''..'' then butlast cur else cur @ [s]) ss"

definition debug_path :: "string list \<Rightarrow> string" where
  "debug_path p = [CHR 0x22] @ path_string p @ [CHR 0x22]"

definition create_dir_all :: "string list \<Rightarrow> ('w, unit) cache_io" where
  "create_dir_all p = fs_op (\<lambda>disk. map_sum id (\<lambda>n. ((), n)) (create_at (lexical [] p) disk))"

definition write_file :: "string list \<Rightarrow> u8 list \<Rightarrow> ('w, unit) cache_io" where
  "write_file p bytes = fs_op (\<lambda>disk. map_sum id (\<lambda>n. ((), n)) (write_at (lexical [] p) bytes disk))"

definition io_map_err :: "('e \<Rightarrow> 'f) \<Rightarrow> ('s, 'e, 'a) io \<Rightarrow> ('s, 'f, 'a) io" where
  "io_map_err g m s =
     (case m s of
        (Panicked, s') \<Rightarrow> (Panicked, s')
      | (Returned r, s') \<Rightarrow> (Returned (map_err g r), s'))"

definition write_cache_file :: "string list \<Rightarrow> u8 list \<Rightarrow> ('w, nat) cache_io" where
  "write_cache_file p bytes =
     io_bind (io_map_err (\<lambda>e. ''failed to create cache dir '' @ debug_path (butlast p) @ '': '' @ e)
       (create_dir_all (butlast p))) (\<lambda>_.
     io_bind (io_map_err (\<lambda>e. ''failed to write cache file '' @ debug_path p @ '': '' @ e) (write_file p bytes)) (\<lambda>_.
     io_ret (length bytes)))"

section \<open>Reconciliation\<close>

record reconcile_stats =
  rs_orphan_dirs_removed :: nat
  rs_orphan_files_removed :: nat
  rs_stale_paths_cleared :: nat

definition no_stats :: reconcile_stats where
  "no_stats = \<lparr>rs_orphan_dirs_removed = 0, rs_orphan_files_removed = 0, rs_stale_paths_cleared = 0\<rparr>"

definition in_cache_db :: "'a db_io \<Rightarrow> ('w, 'a) cache_io" where
  "in_cache_db m w = (case m (cw_db w) of (r, d) \<Rightarrow> (r, w\<lparr>cw_db := d\<rparr>))"

definition on_disk :: "(node \<Rightarrow> 'a) \<Rightarrow> ('w, 'a) cache_io" where
  "on_disk f w = (Returned (Inr (f (cw_disk w))), w)"

text \<open>A loop that carries the statistics.\<close>

fun io_fold :: "('a \<Rightarrow> 'st \<Rightarrow> ('s, 'e, 'st) io) \<Rightarrow> 'a list \<Rightarrow> 'st \<Rightarrow> ('s, 'e, 'st) io" where
  "io_fold f [] st = io_ret st"
| "io_fold f (x # xs) st = io_bind (f x st) (io_fold f xs)"

definition count_files_in_dir :: "string list \<Rightarrow> ('w, nat) cache_io" where
  "count_files_in_dir dir =
     io_bind (io_try (read_dir dir)) (\<lambda>r. case (r :: string + string list) of
       Inl e \<Rightarrow> io_ret 0
     | Inr names \<Rightarrow> on_disk (\<lambda>disk. length (filter (\<lambda>s. is_file disk (dir @ [s])) names)))"

definition reconcile_message :: "string \<Rightarrow> string list \<Rightarrow> string \<Rightarrow> reconcile_stats \<Rightarrow> ('w, reconcile_stats) cache_io" where
  "reconcile_message acc shard_path mid stats =
     io_bind (on_disk (\<lambda>disk. is_dir disk (shard_path @ [mid]))) (\<lambda>dir.
     if \<not> dir \<or> \<not> utf8_string mid then io_ret stats
     else
     io_bind (io_map_err (\<lambda>e. ''reconcile: check message '' @ acc @ ''/'' @ mid @ '': '' @ e)
       (in_cache_db (db_query (\<lambda>d. has_message d acc mid)))) (\<lambda>exists.
     if exists then io_ret stats
     else
     io_bind (count_files_in_dir (shard_path @ [mid])) (\<lambda>file_count.
     io_bind (io_try (remove_dir_all (shard_path @ [mid]))) (\<lambda>r. case (r :: string + unit) of
       Inl e \<Rightarrow> io_ret stats
     | Inr _ \<Rightarrow> io_ret (stats\<lparr>rs_orphan_dirs_removed := rs_orphan_dirs_removed stats + 1,
                 rs_orphan_files_removed := rs_orphan_files_removed stats + file_count\<rparr>)))))"

definition reconcile_shard :: "string \<Rightarrow> string list \<Rightarrow> string \<Rightarrow> reconcile_stats \<Rightarrow> ('w, reconcile_stats) cache_io" where
  "reconcile_shard acc account_path shard stats =
     io_bind (on_disk (\<lambda>disk. is_dir disk (account_path @ [shard]))) (\<lambda>dir.
     if \<not> dir then io_ret stats
     else io_bind (io_try (read_dir (account_path @ [shard]))) (\<lambda>r. case (r :: string + string list) of
       Inl e \<Rightarrow> io_ret stats
     | Inr names \<Rightarrow> io_fold (reconcile_message acc (account_path @ [shard])) names stats))"

definition reconcile_account :: "string list \<Rightarrow> string \<Rightarrow> reconcile_stats \<Rightarrow> ('w, reconcile_stats) cache_io" where
  "reconcile_account cache_root acc stats =
     io_bind (on_disk (\<lambda>disk. is_dir disk (cache_root @ [acc]))) (\<lambda>dir.
     if \<not> dir \<or> \<not> utf8_string acc then io_ret stats
     else io_bind (io_try (read_dir (cache_root @ [acc]))) (\<lambda>r. case (r :: string + string list) of
       Inl e \<Rightarrow> io_ret stats
     | Inr names \<Rightarrow> io_fold (reconcile_shard acc (cache_root @ [acc])) names stats))"

definition walk_and_remove_orphans :: "string list \<Rightarrow> reconcile_stats \<Rightarrow> ('w, reconcile_stats) cache_io" where
  "walk_and_remove_orphans cache_root stats =
     io_bind (io_try (read_dir cache_root)) (\<lambda>r. case (r :: string + string list) of
       Inl e \<Rightarrow> io_ret stats
     | Inr names \<Rightarrow> io_fold (reconcile_account cache_root) names stats)"

definition clear_path :: "string \<Rightarrow> attachment_row \<Rightarrow> attachment_row" where
  "clear_path path r = (if at_local_path r = Some path
     then r\<lparr>at_local_path := None, at_cached_at := None, at_cache_size := None\<rparr> else r)"

definition clear_stale_path :: "string \<Rightarrow> reconcile_stats \<Rightarrow> ('w, reconcile_stats) cache_io" where
  "clear_stale_path path stats =
     io_bind (on_disk (\<lambda>disk. path_exists disk path)) (\<lambda>exists.
     if exists then io_ret stats
     else io_bind (io_try (in_cache_db (db_stmt (\<lambda>d.
            (length (filter (\<lambda>r. at_local_path r = Some path) (t_attachments d)),
             d\<lparr>t_attachments := map (clear_path path) (t_attachments d)\<rparr>))))) (\<lambda>r. case (r :: string + nat) of
       Inl e \<Rightarrow> io_ret stats
     | Inr n \<Rightarrow> io_ret (stats\<lparr>rs_stale_paths_cleared := rs_stale_paths_cleared stats + n\<rparr>)))"

definition clear_stale_local_paths :: "reconcile_stats \<Rightarrow> ('w, reconcile_stats) cache_io" where
  "clear_stale_local_paths stats =
     io_bind (io_try (in_cache_db (db_query (\<lambda>d. List.map_filter at_local_path (t_attachments d))))) (\<lambda>r.
     case (r :: string + string list) of
       Inl e \<Rightarrow> io_ret stats
     | Inr paths \<Rightarrow> io_fold clear_stale_path paths stats)"

definition reconcile_cache :: "string list \<Rightarrow> ('w, reconcile_stats) cache_io" where
  "reconcile_cache cache_root =
     io_bind (on_disk (\<lambda>disk. canon disk [] cache_root \<noteq> None)) (\<lambda>exists.
     io_bind (if exists then walk_and_remove_orphans cache_root no_stats else io_ret no_stats)
       clear_stale_local_paths)"

section \<open>Fetching an attachment\<close>

text \<open>
  The network side of a fetch: resolving the account's source, its IMAP configuration for a folder, dropping the
  persistent session, and the fetch of one decoded part or of all the parts with a content id.
\<close>

record inline_cid_part =
  ic_content_id :: string
  ic_mime_type :: string
  ic_bytes :: "u8 list"

record ('w, 'c) imap_link =
  il_source :: "string \<Rightarrow> ('w, string, unit) io"
  il_config :: "string \<Rightarrow> ('w, string, 'c option) io"
  il_disconnect :: "string \<Rightarrow> 'w \<Rightarrow> 'w"
  il_fetch_attachment :: "'c \<Rightarrow> string \<Rightarrow> u32 \<Rightarrow> string \<Rightarrow> ('w, string, string \<times> u8 list) io"
  il_fetch_inline :: "'c \<Rightarrow> string \<Rightarrow> u32 \<Rightarrow> ('w, string, inline_cid_part list) io"

definition in_net :: "('w, string, 'a) io \<Rightarrow> ('w, 'a) cache_io" where
  "in_net m w = (case m (cw_net w) of (r, n) \<Rightarrow> (r, w\<lparr>cw_net := n\<rparr>))"

definition ok_or :: "'e \<Rightarrow> 'a option \<Rightarrow> ('s, 'e, 'a) io" where
  "ok_or e x = (case x of None \<Rightarrow> io_fail e | Some y \<Rightarrow> io_ret y)"

definition resolve_imap_for_message :: "('w, 'c) imap_link \<Rightarrow> string \<Rightarrow> string \<Rightarrow> ('w, string \<times> u32 \<times> 'c) cache_io" where
  "resolve_imap_for_message link acc mid =
     io_bind (io_map_err (\<lambda>e. ''lookup folder/uid for '' @ mid @ '': '' @ e)
       (in_cache_db (get_folder_uid_for_message acc mid))) (\<lambda>loc.
     io_bind (ok_or (''no imap_folder/uid for message '' @ mid) loc) (\<lambda>(folder, uid).
     io_bind (io_map_err (\<lambda>e. ''source for '' @ acc @ '': '' @ e) (in_net (il_source link acc))) (\<lambda>_.
     io_bind (io_map_err (\<lambda>e. ''imap config for '' @ folder @ '': '' @ e) (in_net (il_config link folder))) (\<lambda>conf.
     io_bind (ok_or (''no IMAP config for '' @ acc @ '' (non-IMAP source?)'') conf) (\<lambda>config.
     io_bind (in_net (\<lambda>n. (Returned (Inr ()), il_disconnect link acc n))) (\<lambda>_.
     io_ret (folder, uid, config)))))))"

record cached_attachment =
  ca_file_path :: string
  ca_filename :: string
  ca_mime_type :: string
  ca_size :: int

definition default_mime :: string where "default_mime = ''application/octet-stream''"

definition cache_hit :: "node \<Rightarrow> string list \<Rightarrow> attachment_meta option \<Rightarrow> cached_attachment option" where
  "cache_hit disk cache_root meta =
     (case meta of None \<Rightarrow> None
      | Some m \<Rightarrow>
          (case am_local_path m of None \<Rightarrow> None
           | Some local_path \<Rightarrow>
               if path_exists disk local_path \<and> path_is_within_cache disk local_path cache_root
               then Some \<lparr>ca_file_path = local_path, ca_filename = opt_or ''attachment'' (am_filename m),
                     ca_mime_type = opt_or default_mime (am_mime_type m), ca_size = am_size m\<rparr>
               else None))"

definition sync_fetch_attachment_inner ::
  "('w, 'c) imap_link \<Rightarrow> string list \<Rightarrow> string \<Rightarrow> string \<Rightarrow> string \<Rightarrow> ('w, cached_attachment) cache_io" where
  "sync_fetch_attachment_inner link cache_root acc mid part_id =
     io_bind (io_map_err (\<lambda>e. ''lookup attachment meta for '' @ mid @ ''/'' @ part_id @ '': '' @ e)
       (in_cache_db (get_attachment_meta acc mid part_id))) (\<lambda>meta.
     io_bind (on_disk (\<lambda>disk. cache_hit disk cache_root meta)) (\<lambda>hit.
     case hit of Some c \<Rightarrow> io_ret c
     | None \<Rightarrow>
     io_bind (resolve_imap_for_message link acc mid) (\<lambda>(folder, uid, config).
     io_bind (in_net (il_fetch_attachment link config folder uid part_id)) (\<lambda>(mime_type, bytes).
     (let aid = opt_or (attachment_id acc mid part_id) (map_option am_id meta);
          filename = opt_or ''attachment'' (Option.bind meta am_filename);
          n = (if length bytes > 0 then int (length bytes) else opt_or 0 (map_option am_size meta));
          file_path = cache_file_path cache_root acc mid aid filename
      in io_bind (write_cache_file file_path bytes) (\<lambda>written.
         io_bind (io_try (in_cache_db (set_cached_path aid (path_string file_path) (int written)))) (\<lambda>(_ :: string + unit).
         io_ret \<lparr>ca_file_path = path_string file_path, ca_filename = filename, ca_mime_type = mime_type, ca_size = n\<rparr>)))))))"

section \<open>Where the files lie\<close>

definition plain :: "string \<Rightarrow> bool" where
  "plain s \<longleftrightarrow> s \<noteq> [] \<and> s \<noteq> ''.'' \<and> s \<noteq> ''..'' \<and> set s \<inter> set separators = {}"

lemma replace_separators_clean [simp]: "set (replace_separators s) \<inter> set separators = {}"
  by (auto simp: replace_separators_def separators_def)

lemma trim_clean: "set (trim (replace_separators s)) \<inter> set separators = {}"
  using set_trim [of "replace_separators s"] replace_separators_clean [of s] by blast

lemma sanitize_clean [simp]:
  "set (sanitize_path_segment s) \<inter> set separators = {}"
  by (simp add: sanitize_path_segment_def trim_clean)

lemma sanitize_filename_plain: "plain (sanitize_attachment_filename name)"
  using trim_clean [of name] by (auto simp: plain_def sanitize_attachment_filename_def Let_def separators_def)

lemma sanitize_plain:
  "sanitize_path_segment s \<noteq> [] \<Longrightarrow> sanitize_path_segment s \<noteq> ''.'' \<Longrightarrow> sanitize_path_segment s \<noteq> ''..'' \<Longrightarrow>
    plain (sanitize_path_segment s)"
  by (simp add: plain_def)

definition shard_of :: "string \<Rightarrow> string" where
  "shard_of s = opt_or s (get_prefix 2 s)"

lemma shard_plain: "plain s \<Longrightarrow> take 2 s \<noteq> ''..'' \<Longrightarrow> plain (shard_of s)"
proof -
  assume s: "plain s" "take 2 s \<noteq> ''..''"
  show ?thesis
  proof (cases "get_prefix 2 s")
    case (Some t)
    then have "t = take 2 s" "2 \<le> length s" by (auto simp: get_prefix_def split: if_splits)
    moreover from this have "length t = 2" by simp
    then have "t \<noteq> []" "t \<noteq> ''.''" by auto
    ultimately show ?thesis using s Some get_prefix_set [OF Some]
      by (auto simp: plain_def shard_of_def)
  qed (use s in \<open>simp add: shard_of_def\<close>)
qed

lemma cache_path_segments:
  assumes "sanitize_path_segment acc \<noteq> []" and "sanitize_path_segment mid \<noteq> []"
  shows "message_cache_dir root acc mid =
    root @ [sanitize_path_segment acc, shard_of (sanitize_path_segment mid), sanitize_path_segment mid]"
proof -
  have "shard_of (sanitize_path_segment mid) \<noteq> []"
    using assms(2) by (auto simp: shard_of_def get_prefix_def)
  with assms show ?thesis by (simp add: message_cache_dir_def path_join_def Let_def shard_of_def)
qed

lemma file_component_plain: "plain (sanitize_path_segment aid @ ''_'' @ sanitize_attachment_filename name)"
  using sanitize_clean [of aid] sanitize_filename_plain [of name]
  by (auto simp: plain_def separators_def Int_Un_distrib2 append_eq_Cons_conv)

text \<open>C33. Confinement. Whatever the sender calls an attachment, its cache file is four plain components below the
  cache root, none of them \<open>.\<close> or \<open>..\<close> and none with a separator of any platform, provided that the
  account's and the message's own ids are not dots.\<close>

theorem cache_path_confined:
  assumes "sanitize_path_segment acc \<notin> {[], ''.'', ''..''}" and "sanitize_path_segment mid \<notin> {[], ''.''}"
    and "take 2 (sanitize_path_segment mid) \<noteq> ''..''"
  shows "\<exists>segs. cache_file_path root acc mid aid name = root @ segs \<and> length segs = 4 \<and> list_all plain segs"
proof -
  have "sanitize_path_segment mid \<noteq> ''..''" using assms(3) by auto
  then have "list_all plain [sanitize_path_segment acc, shard_of (sanitize_path_segment mid), sanitize_path_segment mid,
      sanitize_path_segment aid @ ''_'' @ sanitize_attachment_filename name]"
    using assms file_component_plain shard_plain sanitize_plain by simp
  moreover have "cache_file_path root acc mid aid name = root @ [sanitize_path_segment acc,
      shard_of (sanitize_path_segment mid), sanitize_path_segment mid,
      sanitize_path_segment aid @ ''_'' @ sanitize_attachment_filename name]"
    using assms by (simp add: cache_file_path_def cache_path_segments path_join_def)
  ultimately show ?thesis by (intro exI [of _ "[_, _, _, _]"]) simp
qed

lemma cache_path_confined_witness:
  "\<exists>segs. cache_file_path [''data'', ''attachment-cache''] ''a1'' ''imap-a1-Work/Sub-7'' ''x'' ''../../evil''
     = [''data'', ''attachment-cache''] @ segs \<and> length segs = 4 \<and> list_all plain segs"
proof -
  have "replace_separators ''a1'' = ''a1''" "replace_separators ''imap-a1-Work/Sub-7'' = ''imap-a1-Work_Sub-7''"
    by (simp_all add: replace_separators_def separators_def)
  then have "sanitize_path_segment ''a1'' = ''a1''" "sanitize_path_segment ''imap-a1-Work/Sub-7'' = ''imap-a1-Work_Sub-7''"
    by (simp_all add: sanitize_path_segment_def trim_graphic graphic_def)
  then show ?thesis by (intro cache_path_confined) simp_all
qed

text \<open>An account id \<open>..\<close> leaves the cache: the comment on \<open>sanitize_path_segment\<close> says that dots at
  the boundary are replaced, but only separators are, and the resolved directory is above the cache root.\<close>

lemma dots_are_not_replaced:
  "lexical [] (message_cache_dir [''data'', ''attachment-cache''] ''..'' ''..'') = []"
proof -
  have "sanitize_path_segment ''..'' = ''..''"
    by (simp add: sanitize_path_segment_def replace_separators_def separators_def trim_graphic graphic_def)
  then show ?thesis by (simp add: message_cache_dir_def path_join_def get_prefix_def Let_def)
qed

lemma dec_string_graphic: "dec_string n \<noteq> [] \<and> graphic (last (dec_string n)) \<and> set (dec_string n) \<inter> set separators = {}"
proof (induction n rule: dec_string.induct)
  case (1 n)
  have digit: "graphic (digit_char d)" "digit_char d \<notin> set separators" if "d < 10" for d
  proof -
    have "list_all (\<lambda>d. graphic (digit_char d) \<and> digit_char d \<notin> set separators) [0..<10]" by code_simp
    with that show "graphic (digit_char d)" "digit_char d \<notin> set separators" by (simp_all add: list_all_iff)
  qed
  show ?case
  proof (cases "n < 10")
    case True
    then show ?thesis using digit [of n] by (simp add: dec_string.simps [of n])
  next
    case False
    then show ?thesis using 1 digit [of "n mod 10"] by (simp add: dec_string.simps [of n])
  qed
qed

text \<open>The shards of the cache do not spread: every message of an IMAP account lies in the one shard
  \<open>im\<close>, since the ids of all of them start with \<open>imap-\<close>; the comments promise about 256 buckets.\<close>

lemma one_shard:
  assumes "sanitize_path_segment acc \<noteq> []"
  shows "\<exists>name. message_cache_dir root acc (imap_message_id acc folder uid) = root @ [sanitize_path_segment acc, ''im'', name]"
proof -
  let ?id = "imap_message_id acc folder uid"
  have id: "replace_separators ?id = ''imap-'' @ replace_separators (acc @ ''-'' @ folder @ ''-'') @ dec_string (unat uid)"
    using dec_string_graphic [of "unat uid"]
    by (simp add: imap_message_id_def replace_separators_def separators_def disjoint_iff map_idI)
  then have "sanitize_path_segment ?id = replace_separators ?id"
    using dec_string_graphic [of "unat uid"]
    by (simp add: sanitize_path_segment_def trim_graphic graphic_def)
  with id obtain rest where "sanitize_path_segment ?id = ''imap-'' @ rest" by simp
  then have "sanitize_path_segment ?id \<noteq> []" "shard_of (sanitize_path_segment ?id) = ''im''"
    by (simp_all add: shard_of_def get_prefix_def continues_def)
  with assms show ?thesis by (simp add: cache_path_segments)
qed

lemma one_shard_witness:
  "\<exists>name. message_cache_dir [''c''] ''a1'' (imap_message_id ''a1'' ''INBOX'' 7) = [''c''] @ [sanitize_path_segment ''a1'', ''im'', name]"
proof -
  have "sanitize_path_segment ''a1'' = ''a1''"
    by (simp add: sanitize_path_segment_def replace_separators_def separators_def trim_graphic graphic_def)
  then show ?thesis by (intro one_shard) simp
qed

end
