(* ===== verification/Cache_Reconcile.thy ===== *)
theory Cache_Reconcile
  imports Attachment_Cache
begin

text \<open>
  What a reconciliation of the attachment cache guarantees, and what it gets wrong: it takes the name of a
  directory for the id of a message, but the names are sanitised ids.
\<close>

section \<open>Steps that keep a relation\<close>

named_theorems cache_keeps_intros

definition fs_blind :: "('w cache_world \<Rightarrow> 'w cache_world \<Rightarrow> bool) \<Rightarrow> bool" where
  "fs_blind R \<longleftrightarrow> (\<forall>w w' fs ds. R w w' \<longrightarrow> R w (w'\<lparr>cw_fs_faults := fs, cw_db := (cw_db w')\<lparr>db_faults := ds\<rparr>\<rparr>)) \<and>
     (\<forall>w. R w w) \<and> (\<forall>a b c. R a b \<longrightarrow> R b c \<longrightarrow> R a c)"

lemma fs_blindD:
  assumes "fs_blind R"
  shows "R w w" "R a b \<Longrightarrow> R b c \<Longrightarrow> R a c" "R w (w\<lparr>cw_fs_faults := fs\<rparr>)" "R w (w\<lparr>cw_db := (cw_db w)\<lparr>db_faults := ds\<rparr>\<rparr>)"
proof -
  have blind: "R w (w\<lparr>cw_fs_faults := fs, cw_db := (cw_db w)\<lparr>db_faults := ds\<rparr>\<rparr>)" for w fs ds
    using assms unfolding fs_blind_def by blast
  show "R w w" "R a b \<Longrightarrow> R b c \<Longrightarrow> R a c" using assms unfolding fs_blind_def by blast+
  show "R w (w\<lparr>cw_fs_faults := fs\<rparr>)" using blind [where w = w and fs = fs and ds = "db_faults (cw_db w)"] by simp
  show "R w (w\<lparr>cw_db := (cw_db w)\<lparr>db_faults := ds\<rparr>\<rparr>)" using blind [where w = w and fs = "cw_fs_faults w" and ds = ds] by simp
qed

lemma cache_keeps_ret [cache_keeps_intros]: "fs_blind R \<Longrightarrow> io_keeps R (io_ret x)"
  by (simp add: io_keeps_ret fs_blindD)

lemma cache_keeps_on_disk [cache_keeps_intros]: "fs_blind R \<Longrightarrow> io_keeps R (on_disk f)"
  by (simp add: io_keeps_def on_disk_def fs_blindD)

lemma cache_keeps_bind [cache_keeps_intros]:
  "fs_blind R \<Longrightarrow> io_keeps R m \<Longrightarrow> (\<And>x. io_keeps R (f x)) \<Longrightarrow> io_keeps R (io_bind m f)"
  by (rule io_keeps_bind) (auto dest: fs_blindD(2))

lemma cache_keeps_try [cache_keeps_intros]: "io_keeps R m \<Longrightarrow> io_keeps R (io_try m)"
  unfolding io_keeps_def io_try_def by (auto split: prod.split panicky.split) (metis snd_conv)+

lemma cache_keeps_map_err [cache_keeps_intros]: "io_keeps R m \<Longrightarrow> io_keeps R (io_map_err g m)"
  unfolding io_keeps_def io_map_err_def by (auto split: prod.split panicky.split) (metis snd_conv)+

lemma cache_keeps_fold [cache_keeps_intros]:
  "fs_blind R \<Longrightarrow> (\<And>x st. x \<in> set xs \<Longrightarrow> io_keeps R (f x st)) \<Longrightarrow> io_keeps R (io_fold f xs st)"
  by (induction xs arbitrary: st) (auto intro: cache_keeps_intros)

lemma cache_keeps_db_query [cache_keeps_intros]:
  fixes R :: "'w cache_world \<Rightarrow> 'w cache_world \<Rightarrow> bool"
  assumes "fs_blind R"
  shows "io_keeps R (in_cache_db (db_query q))"
  unfolding io_keeps_def
proof
  fix w :: "'w cache_world"
  obtain r d where q: "db_query q (cw_db w) = (r, d)" by fastforce
  from db_query_same [OF q] obtain ds where "d = (cw_db w)\<lparr>db_faults := ds\<rparr>" by (rule same_tablesE)
  with q show "R w (snd (in_cache_db (db_query q) w))" by (simp add: in_cache_db_def fs_blindD [OF assms])
qed

lemma keeps_fs_op:
  fixes R :: "'w cache_world \<Rightarrow> 'w cache_world \<Rightarrow> bool"
  assumes "fs_blind R" and "\<And>w x n. f (cw_disk w) = Inr (x, n) \<Longrightarrow> R w (w\<lparr>cw_disk := n\<rparr>)"
  shows "io_keeps R (fs_op f)"
  unfolding io_keeps_def
proof
  fix w :: "'w cache_world"
  note blind = fs_blindD [OF assms(1)]
  have ran: "R w (w\<lparr>cw_fs_faults := fs, cw_disk := n\<rparr>)" if "f (cw_disk w) = Inr (x, n)" for fs x n
    using assms(2) [of "w\<lparr>cw_fs_faults := fs\<rparr>" x n] that blind(2) [OF blind(3) [of w fs]] by simp
  have next_fate: "R w (snd (case f (cw_disk w) of
      Inl e \<Rightarrow> (Returned (Inl e), w\<lparr>cw_fs_faults := fs\<rparr>)
    | Inr (x, n) \<Rightarrow> (Returned (Inr x), w\<lparr>cw_fs_faults := fs, cw_disk := n\<rparr>)))" for fs
    using ran blind(3) by (cases "f (cw_disk w)") auto
  show "R w (snd (fs_op f w))"
    unfolding fs_op_def using next_fate blind(3) by (simp split: list.split option.split)
qed

lemma cache_keeps_read_dir [cache_keeps_intros]: "fs_blind R \<Longrightarrow> io_keeps R (read_dir p)"
  unfolding read_dir_def
  by (rule keeps_fs_op) (auto simp: fs_blindD(1) split: option.splits node.splits)

lemma cache_keeps_count [cache_keeps_intros]: "fs_blind R \<Longrightarrow> io_keeps R (count_files_in_dir p)"
  unfolding count_files_in_dir_def by (auto intro!: cache_keeps_intros split: sum.split)

lemma cache_keeps_remove:
  assumes "fs_blind R" and "\<And>w. R w (w\<lparr>cw_disk := delete_at p (cw_disk w)\<rparr>)"
  shows "io_keeps R (remove_dir_all p)"
  unfolding remove_dir_all_def
  by (rule keeps_fs_op [OF assms(1)]) (auto simp: assms(2) split: option.splits node.splits)

section \<open>The cache of a live message\<close>

lemma node_at_delete: "length p = length q \<Longrightarrow> p \<noteq> q \<Longrightarrow> node_at (delete_at p n) q = node_at n q"
proof (induction p arbitrary: n q)
  case (Cons s ss)
  then obtain t tt where q: "q = t # tt" by (cases q) auto
  show ?case
  proof (cases n)
    case (Dir es)
    show ?thesis
    proof (cases "ss = []")
      case True
      with Cons.prems q have "s \<noteq> t" "tt = []" by auto
      with True show ?thesis by (simp add: Dir q delete_conv)
    next
      case False
      then show ?thesis using Cons q
        by (cases "map_of es s") (auto simp: Dir update_conv)
    qed
  qed simp
qed simp

text \<open>The message table is not touched, and a directory named by a message that exists stays as it is.\<close>

definition keeps_live :: "string list \<Rightarrow> 'w cache_world \<Rightarrow> 'w cache_world \<Rightarrow> bool" where
  "keeps_live root w w' \<longleftrightarrow> t_messages (cw_db w') = t_messages (cw_db w) \<and>
     (\<forall>acc sh mid. has_message (cw_db w) acc mid \<longrightarrow>
        node_at (cw_disk w') (root @ [acc, sh, mid]) = node_at (cw_disk w) (root @ [acc, sh, mid]))"

lemma fs_blind_live: "fs_blind (keeps_live root)"
  by (auto simp: fs_blind_def keeps_live_def has_message_def)

lemma fs_blind_unless: "fs_blind (\<lambda>w w'. has_message (cw_db w) acc mid \<or> keeps_live root w w')"
  by (auto simp: fs_blind_def keeps_live_def has_message_def)

lemma keeps_live_checked:
  fixes m :: "('w, 'a) cache_io"
  assumes "\<And>w. \<not> has_message (cw_db w) acc mid \<Longrightarrow> keeps_live root w (snd (m w))"
  shows "io_keeps (keeps_live root)
    (io_bind (io_map_err g (in_cache_db (db_query (\<lambda>d. has_message d acc mid)))) (\<lambda>e. if e then io_ret x else m))"
  unfolding io_keeps_def
proof
  fix w :: "'w cache_world"
  obtain r d where q: "db_query (\<lambda>d. has_message d acc mid) (cw_db w) = (r, d)" by fastforce
  from db_query_same [OF q] obtain ds where d: "d = (cw_db w)\<lparr>db_faults := ds\<rparr>" by (rule same_tablesE)
  let ?w = "w\<lparr>cw_db := d\<rparr>"
  have step: "keeps_live root w ?w" unfolding d by (rule fs_blindD(4) [OF fs_blind_live])
  from q have r: "(\<exists>e. r = Returned (Inl e)) \<or> r = Returned (Inr (has_message (cw_db w) acc mid))"
    by (auto simp: db_query_def db_stmt_def has_message_def split: list.splits option.splits)
  have "has_message (cw_db ?w) acc mid = has_message (cw_db w) acc mid" by (simp add: d has_message_def)
  with assms [of ?w] step have "\<not> has_message (cw_db w) acc mid \<Longrightarrow> keeps_live root w (snd (m ?w))"
    using fs_blindD(2) [OF fs_blind_live] by metis
  with r q step show "keeps_live root w (snd (io_bind (io_map_err g (in_cache_db (db_query (\<lambda>d. has_message d acc mid))))
      (\<lambda>e. if e then io_ret x else m) w))"
    by (auto simp: io_bind_def io_map_err_def in_cache_db_def io_ret_def)
qed

lemma reconcile_message_live: "io_keeps (keeps_live root) (reconcile_message acc (root @ [acc, sh]) mid st)"
proof -
  let ?R = "\<lambda>w w'. has_message (cw_db w) acc mid \<or> keeps_live root w w'"
  let ?rest = "io_bind (count_files_in_dir (root @ [acc, sh, mid])) (\<lambda>file_count.
     io_bind (io_try (remove_dir_all (root @ [acc, sh, mid]))) (\<lambda>r. case (r :: string + unit) of
       Inl e \<Rightarrow> io_ret st
     | Inr _ \<Rightarrow> io_ret (st\<lparr>rs_orphan_dirs_removed := rs_orphan_dirs_removed st + 1,
                 rs_orphan_files_removed := rs_orphan_files_removed st + file_count\<rparr>)))"
  have remove: "io_keeps ?R (remove_dir_all (root @ [acc, sh, mid]))"
    by (rule cache_keeps_remove [OF fs_blind_unless]) (auto simp: keeps_live_def intro!: node_at_delete)
  have "io_keeps ?R ?rest"
    by (auto intro!: cache_keeps_intros fs_blind_unless remove split: sum.split)
  then have "keeps_live root w (snd (?rest w))" if "\<not> has_message (cw_db w) acc mid" for w
    using that unfolding io_keeps_def by blast
  note checked = keeps_live_checked [of acc mid root ?rest, OF this]
  show ?thesis
    unfolding reconcile_message_def append_assoc append_Cons append_Nil
    by (intro cache_keeps_bind fs_blind_live cache_keeps_on_disk) (simp only: split: if_split, intro conjI impI cache_keeps_ret fs_blind_live checked)
qed

lemma cache_keeps_db_stmt:
  fixes R :: "'w cache_world \<Rightarrow> 'w cache_world \<Rightarrow> bool"
  assumes "fs_blind R" and "\<And>w. R w (w\<lparr>cw_db := snd (f (cw_db w))\<rparr>)"
  shows "io_keeps R (in_cache_db (db_stmt f))"
  unfolding io_keeps_def
proof
  fix w :: "'w cache_world"
  note blind = fs_blindD [OF assms(1)]
  have "R w (w\<lparr>cw_db := snd (f ((cw_db w)\<lparr>db_faults := ds\<rparr>))\<rparr>)" for ds
    using assms(2) [of "w\<lparr>cw_db := (cw_db w)\<lparr>db_faults := ds\<rparr>\<rparr>"] blind(2) [OF blind(4) [of w ds]] by simp
  then have "R w (w\<lparr>cw_db := d\<rparr>)" if "f ((cw_db w)\<lparr>db_faults := ds\<rparr>) = (x, d)" for ds x d
    using that by (metis snd_conv)
  then show "R w (snd (in_cache_db (db_stmt f) w))"
    using blind(4) by (auto simp: in_cache_db_def db_stmt_def split: list.split option.split prod.split)
qed

lemma reconcile_live: "io_keeps (keeps_live root) (reconcile_cache root)"
proof -
  note blind = fs_blind_live [of root]
  have shard: "io_keeps (keeps_live root) (reconcile_shard acc (root @ [acc]) sh st)" for acc sh st
    unfolding reconcile_shard_def append_assoc append_Cons append_Nil
    by (auto intro!: cache_keeps_intros blind reconcile_message_live split: sum.split)
  have account: "io_keeps (keeps_live root) (reconcile_account root acc st)" for acc st
    unfolding reconcile_account_def by (auto intro!: cache_keeps_intros blind shard split: sum.split)
  have walk: "io_keeps (keeps_live root) (walk_and_remove_orphans root st)" for st
    unfolding walk_and_remove_orphans_def by (auto intro!: cache_keeps_intros blind account split: sum.split)
  have clear: "io_keeps (keeps_live root) (clear_stale_path path st)" for path st
    unfolding clear_stale_path_def
    by (auto intro!: cache_keeps_intros blind cache_keeps_db_stmt simp: keeps_live_def split: sum.split)
  show ?thesis
    unfolding reconcile_cache_def clear_stale_local_paths_def
    by (auto intro!: cache_keeps_intros blind walk clear split: sum.split)
qed

text \<open>A reconciliation spares the living: when the ids of an account and a message are their own
  directory names, the cache directory of a message that exists is left as it was, whichever statement or file
  operation fails.\<close>

lemma live_cache_kept:
  fixes w :: "'w cache_world"
  assumes "has_message (cw_db w) acc mid" and "sanitize_path_segment acc = acc" and "sanitize_path_segment mid = mid"
    and "acc \<noteq> []" and "mid \<noteq> []"
  shows "node_at (cw_disk (snd (reconcile_cache root w))) (message_cache_dir root acc mid)
    = node_at (cw_disk w) (message_cache_dir root acc mid)"
proof -
  have "message_cache_dir root acc mid = root @ [acc, shard_of mid, mid]"
    using assms by (simp add: cache_path_segments)
  moreover have "io_keeps (keeps_live root) (reconcile_cache root :: ('w, reconcile_stats) cache_io)"
    by (rule reconcile_live)
  ultimately show ?thesis using assms(1) by (simp add: io_keeps_def keeps_live_def)
qed

section \<open>Runs without faults\<close>

definition calm :: "'w cache_world \<Rightarrow> bool" where
  "calm w \<longleftrightarrow> healthy (cw_db w) \<and> cw_fs_faults w = []"

lemma calm_ops:
  assumes "calm w"
  shows "node_at (cw_disk w) p = Some (Dir es) \<Longrightarrow> read_dir p w = (Returned (Inr (map fst es)), w)"
    and "node_at (cw_disk w) p = Some (Dir es) \<Longrightarrow> remove_dir_all p w = (Returned (Inr ()), w\<lparr>cw_disk := delete_at p (cw_disk w)\<rparr>)"
    and "in_cache_db (db_query q) w = (Returned (Inr (q (cw_db w))), w)"
    and "in_cache_db (db_stmt f) w = (case f (cw_db w) of (x, d) \<Rightarrow> (Returned (Inr x), w\<lparr>cw_db := d\<rparr>))"
    and "on_disk g w = (Returned (Inr (g (cw_disk w))), w)"
  using assms by (simp_all add: calm_def read_dir_def remove_dir_all_def fs_op_def in_cache_db_def db_query_healthy
      db_stmt_healthy on_disk_def split: prod.split)

lemma io_try_run: "m w = (Returned r, w') \<Longrightarrow> io_try m w = (Returned (Inr r), w')"
  by (simp add: io_try_def)

lemma io_bind_run: "m w = (Returned (Inr x), w') \<Longrightarrow> io_bind m f w = f x w'"
  by (simp add: io_bind_def)

lemma io_map_err_run: "m w = (Returned (Inr x), w') \<Longrightarrow> io_map_err g m w = (Returned (Inr x), w')"
  by (simp add: io_map_err_def)

text \<open>The second pass.\<close>

lemma clear_path_run:
  fixes w :: "'w cache_world"
  assumes "calm w"
  obtains st' w' where "clear_stale_path path st w = (Returned (Inr st'), w')" and "calm w'" and "cw_disk w' = cw_disk w"
    and "t_messages (cw_db w') = t_messages (cw_db w)"
    and "rs_orphan_dirs_removed st' = rs_orphan_dirs_removed st"
    and "\<And>r. r \<in> set (t_attachments (cw_db w')) \<Longrightarrow> at_local_path r \<noteq> None \<Longrightarrow>
      r \<in> set (t_attachments (cw_db w)) \<and> (at_local_path r = Some path \<longrightarrow> path_exists (cw_disk w) path)"
proof (cases "path_exists (cw_disk w) path")
  case True
  then have "clear_stale_path path st w = (Returned (Inr st), w)"
    by (simp add: clear_stale_path_def io_bind_def on_disk_def io_ret_def)
  with assms that True show thesis by blast
next
  case False
  let ?w = "w\<lparr>cw_db := (cw_db w)\<lparr>t_attachments := map (clear_path path) (t_attachments (cw_db w))\<rparr>\<rparr>"
  let ?st = "st\<lparr>rs_stale_paths_cleared := rs_stale_paths_cleared st +
    length (filter (\<lambda>r. at_local_path r = Some path) (t_attachments (cw_db w)))\<rparr>"
  have "clear_stale_path path st w = (Returned (Inr ?st), ?w)"
    using False by (simp add: clear_stale_path_def io_bind_def calm_ops [OF assms] io_try_def io_ret_def)
  moreover have "calm ?w" using assms by (simp add: calm_def healthy_def)
  moreover have "r \<in> set (t_attachments (cw_db w)) \<and> (at_local_path r = Some path \<longrightarrow> path_exists (cw_disk w) path)"
    if "r \<in> set (t_attachments (cw_db ?w))" "at_local_path r \<noteq> None" for r
  proof -
    from that(1) obtain q where "q \<in> set (t_attachments (cw_db w))" "r = clear_path path q" by auto
    with that(2) show ?thesis by (cases "at_local_path q = Some path") (simp_all add: clear_path_def)
  qed
  ultimately show thesis by (intro that [of ?st ?w]) simp_all
qed

lemma clear_paths_run:
  fixes w :: "'w cache_world"
  assumes "calm w"
  shows "\<exists>st' w'. io_fold clear_stale_path paths st w = (Returned (Inr st'), w') \<and> calm w' \<and> cw_disk w' = cw_disk w \<and>
    t_messages (cw_db w') = t_messages (cw_db w) \<and> rs_orphan_dirs_removed st' = rs_orphan_dirs_removed st \<and>
    (\<forall>r \<in> set (t_attachments (cw_db w')). at_local_path r \<noteq> None \<longrightarrow> r \<in> set (t_attachments (cw_db w)) \<and>
       (the (at_local_path r) \<in> set paths \<longrightarrow> path_exists (cw_disk w) (the (at_local_path r))))"
  using assms
proof (induction paths arbitrary: st w)
  case Nil
  then show ?case by (simp add: io_ret_def)
next
  case (Cons p paths)
  obtain st1 w1 where 1: "clear_stale_path p st w = (Returned (Inr st1), w1)" "calm w1" "cw_disk w1 = cw_disk w"
    "t_messages (cw_db w1) = t_messages (cw_db w)" "rs_orphan_dirs_removed st1 = rs_orphan_dirs_removed st"
    and rows: "\<And>r. r \<in> set (t_attachments (cw_db w1)) \<Longrightarrow> at_local_path r \<noteq> None \<Longrightarrow>
      r \<in> set (t_attachments (cw_db w)) \<and> (at_local_path r = Some p \<longrightarrow> path_exists (cw_disk w) p)"
    using clear_path_run [OF Cons.prems] by metis
  from Cons.IH [OF 1(2), of st1] obtain st2 w2 where
    2: "io_fold clear_stale_path paths st1 w1 = (Returned (Inr st2), w2)" "calm w2" "cw_disk w2 = cw_disk w1"
      "t_messages (cw_db w2) = t_messages (cw_db w1)" "rs_orphan_dirs_removed st2 = rs_orphan_dirs_removed st1"
      "\<forall>r \<in> set (t_attachments (cw_db w2)). at_local_path r \<noteq> None \<longrightarrow> r \<in> set (t_attachments (cw_db w1)) \<and>
       (the (at_local_path r) \<in> set paths \<longrightarrow> path_exists (cw_disk w1) (the (at_local_path r)))"
    by blast
  have "io_fold clear_stale_path (p # paths) st w = (Returned (Inr st2), w2)"
    by (simp add: io_bind_run [where m = "clear_stale_path p st", OF 1(1)] 2(1))
  moreover have "\<forall>r \<in> set (t_attachments (cw_db w2)). at_local_path r \<noteq> None \<longrightarrow> r \<in> set (t_attachments (cw_db w)) \<and>
       (the (at_local_path r) \<in> set (p # paths) \<longrightarrow> path_exists (cw_disk w) (the (at_local_path r)))"
    using 2(6) rows 1(3) by fastforce
  ultimately show ?case using 1 2 by auto
qed

text \<open>Operations that cannot fail when nothing else does.\<close>

definition succeeds :: "('w, 'a) cache_io \<Rightarrow> bool" where
  "succeeds m \<longleftrightarrow> (\<forall>w. calm w \<longrightarrow> (\<exists>x w'. m w = (Returned (Inr x), w') \<and> calm w'))"

named_theorems succeeds_intros

lemma succeeds_basic [succeeds_intros]:
  "succeeds (io_ret x)" "succeeds (on_disk g)" "succeeds (in_cache_db (db_query q))"
  by (auto simp: succeeds_def io_ret_def on_disk_def calm_ops)

lemma succeeds_bind [succeeds_intros]: "succeeds m \<Longrightarrow> (\<And>x. succeeds (f x)) \<Longrightarrow> succeeds (io_bind m f)"
  unfolding succeeds_def by (metis io_bind_run)

lemma succeeds_fold [succeeds_intros]: "(\<And>x st. succeeds (f x st)) \<Longrightarrow> succeeds (io_fold f xs st)"
  by (induction xs arbitrary: st) (auto intro: succeeds_intros)

lemma succeeds_map_err [succeeds_intros]: "succeeds m \<Longrightarrow> succeeds (io_map_err g m)"
  unfolding succeeds_def by (metis io_map_err_run)

lemma succeeds_fs_op [succeeds_intros]: "succeeds (io_try (fs_op f))"
  by (auto simp: succeeds_def calm_def io_try_def fs_op_def split: sum.split prod.split)

lemma succeeds_fs [succeeds_intros]: "succeeds (io_try (read_dir p))" "succeeds (io_try (remove_dir_all p))"
  unfolding read_dir_def remove_dir_all_def by (rule succeeds_fs_op)+

lemma walk_succeeds: "succeeds (walk_and_remove_orphans root st)"
proof -
  have msg: "succeeds (reconcile_message acc p mid st)" for acc p mid st
    unfolding reconcile_message_def count_files_in_dir_def by (auto intro!: succeeds_intros split: sum.split)
  have shard: "succeeds (reconcile_shard acc p sh st)" for acc p sh st
    unfolding reconcile_shard_def by (auto intro!: succeeds_intros msg split: sum.split)
  have account: "succeeds (reconcile_account p acc st)" for p acc st
    unfolding reconcile_account_def by (auto intro!: succeeds_intros shard split: sum.split)
  show ?thesis
    unfolding walk_and_remove_orphans_def by (auto intro!: succeeds_intros account split: sum.split)
qed

lemma second_pass_run:
  fixes w :: "'w cache_world"
  assumes "calm w"
  shows "\<exists>st' w'. clear_stale_local_paths st w = (Returned (Inr st'), w') \<and> calm w' \<and> cw_disk w' = cw_disk w \<and>
    t_messages (cw_db w') = t_messages (cw_db w) \<and> rs_orphan_dirs_removed st' = rs_orphan_dirs_removed st \<and>
    (\<forall>r \<in> set (t_attachments (cw_db w')). at_local_path r \<noteq> None \<longrightarrow> path_exists (cw_disk w') (the (at_local_path r)))"
proof -
  let ?paths = "List.map_filter at_local_path (t_attachments (cw_db w))"
  have run: "clear_stale_local_paths st w = io_fold clear_stale_path ?paths st w"
    by (simp add: clear_stale_local_paths_def io_bind_def io_try_def calm_ops [OF assms])
  have "the (at_local_path r) \<in> set ?paths" if "r \<in> set (t_attachments (cw_db w))" "at_local_path r \<noteq> None" for r
    using that by (force simp: map_filter_def image_iff)
  with clear_paths_run [OF assms, of ?paths st] show ?thesis unfolding run by (metis (no_types, lifting))
qed

text \<open>A reconciliation in which nothing fails ends, and afterwards no row points to a file that is not
  there.\<close>

lemma no_dangling_pointers:
  fixes w :: "'w cache_world"
  assumes "calm w"
  shows "\<exists>stats w'. reconcile_cache root w = (Returned (Inr stats), w') \<and>
    (\<forall>r \<in> set (t_attachments (cw_db w')). at_local_path r \<noteq> None \<longrightarrow> path_exists (cw_disk w') (the (at_local_path r)))"
proof -
  let ?first = "if canon (cw_disk w) [] root \<noteq> None then walk_and_remove_orphans root no_stats else io_ret no_stats"
  have "succeeds ?first" using walk_succeeds succeeds_basic(1) by auto
  with assms obtain st w1 where 1: "?first w = (Returned (Inr st), w1)" "calm w1" unfolding succeeds_def by blast
  have "reconcile_cache root w = clear_stale_local_paths st w1"
    using 1(1) by (cases "canon (cw_disk w) [] root = None") (simp_all add: reconcile_cache_def io_bind_def on_disk_def io_ret_def)
  with second_pass_run [OF 1(2), of st] show ?thesis by metis
qed

definition sample_world :: "node \<Rightarrow> db \<Rightarrow> unit cache_world" where
  "sample_world disk d = \<lparr>cw_db = d, cw_disk = disk, cw_fs_faults = [], cw_net = ()\<rparr>"

lemma no_dangling_pointers_witness:
  "\<exists>stats w'. reconcile_cache [''cache'']
      (sample_world (Dir []) (mailbox_db\<lparr>t_attachments := [(attachment_of ''a'' ''m1'' (part ''1''))\<lparr>at_local_path := Some ''/cache/f''\<rparr>]\<rparr>))
      = (Returned (Inr stats), w') \<and>
    (\<forall>r \<in> set (t_attachments (cw_db w')). at_local_path r \<noteq> None \<longrightarrow> path_exists (cw_disk w') (the (at_local_path r)))"
proof -
  have "calm (sample_world (Dir []) (mailbox_db\<lparr>t_attachments := [(attachment_of ''a'' ''m1'' (part ''1''))\<lparr>at_local_path := Some ''/cache/f''\<rparr>]\<rparr>))"
    by (simp add: calm_def sample_world_def healthy_def mailbox_db_def empty_db_def)
  then show ?thesis by (rule no_dangling_pointers)
qed

section \<open>Names that are not ids\<close>

lemma node_at_append: "node_at n (p @ q) = Option.bind (node_at n p) (\<lambda>m. node_at m q)"
  by (induction n p rule: node_at.induct) (auto split: option.split)

lemma node_at_deleted:
  "node_at n p = Some (Dir es) \<Longrightarrow> node_at (delete_at (p @ [s]) n) (p @ [s]) = None"
proof (induction p arbitrary: n)
  case Nil
  then show ?case by (simp add: delete_conv)
next
  case (Cons t p)
  then obtain fs m where n: "n = Dir fs" and m: "map_of fs t = Some m" "node_at m p = Some (Dir es)"
    by (cases n) (auto split: option.splits)
  with Cons.IH [OF m(2)] show ?case by (simp add: update_conv)
qed

text \<open>The cache of one message, in directories of the names A, S and M.\<close>

definition cached_alone :: "node \<Rightarrow> string list \<Rightarrow> string \<Rightarrow> string \<Rightarrow> string \<Rightarrow> bool" where
  "cached_alone disk root A S M \<longleftrightarrow>
     (\<exists>files. node_at disk root = Some (Dir [(A, Dir [(S, Dir [(M, Dir files)])])]))"

lemma orphan_by_name:
  fixes w :: "'w cache_world"
  assumes "calm w" and "cached_alone (cw_disk w) root A S M" and "utf8_string A" and "utf8_string M"
    and "\<not> has_message (cw_db w) A M"
  shows "\<exists>st'. walk_and_remove_orphans root st w
    = (Returned (Inr st'), w\<lparr>cw_disk := delete_at (root @ [A, S, M]) (cw_disk w)\<rparr>) \<and>
    rs_orphan_dirs_removed st' = rs_orphan_dirs_removed st + 1"
proof -
  from assms(2) obtain files where root: "node_at (cw_disk w) root = Some (Dir [(A, Dir [(S, Dir [(M, Dir files)])])])"
    by (auto simp: cached_alone_def)
  then have at: "node_at (cw_disk w) (root @ [A]) = Some (Dir [(S, Dir [(M, Dir files)])])"
    "node_at (cw_disk w) (root @ [A, S]) = Some (Dir [(M, Dir files)])"
    "node_at (cw_disk w) (root @ [A, S, M]) = Some (Dir files)"
    by (simp_all add: node_at_append)
  note run = calm_ops [OF assms(1)]
  show ?thesis
    using assms(3-5)
    by (simp add: walk_and_remove_orphans_def reconcile_account_def reconcile_shard_def reconcile_message_def
        count_files_in_dir_def io_bind_def io_try_def io_map_err_def io_ret_def is_dir_def at root run)
qed

text \<open>A reconciliation deletes the cache of live mail. A directory carries the sanitised id of its
  message, and ids contain the folder's path; where that has a separator, as every subfolder's does, no message has
  the name of the directory for an id, so the cache of a message that exists is taken for an orphan and removed.\<close>

lemma nested_folder_cache_lost:
  fixes w :: "'w cache_world"
  assumes "calm w" and "has_message (cw_db w) acc mid"
    and "cached_alone (cw_disk w) root (sanitize_path_segment acc) (shard_of (sanitize_path_segment mid)) (sanitize_path_segment mid)"
    and "\<not> has_message (cw_db w) (sanitize_path_segment acc) (sanitize_path_segment mid)"
    and "sanitize_path_segment acc \<noteq> []" and "sanitize_path_segment mid \<noteq> []"
    and "utf8_string (sanitize_path_segment acc)" and "utf8_string (sanitize_path_segment mid)"
    and "canon (cw_disk w) [] root \<noteq> None"
  shows "\<exists>stats w'. reconcile_cache root w = (Returned (Inr stats), w') \<and> rs_orphan_dirs_removed stats = 1 \<and>
    has_message (cw_db w') acc mid \<and> node_at (cw_disk w') (message_cache_dir root acc mid) = None"
proof -
  let ?A = "sanitize_path_segment acc" and ?M = "sanitize_path_segment mid"
  let ?w = "w\<lparr>cw_disk := delete_at (root @ [?A, shard_of ?M, ?M]) (cw_disk w)\<rparr>"
  obtain st where 1: "walk_and_remove_orphans root no_stats w = (Returned (Inr st), ?w)" "rs_orphan_dirs_removed st = 1"
    using orphan_by_name [OF assms(1,3,7,8,4), of no_stats] by (auto simp: no_stats_def)
  have "calm ?w" using assms(1) by (simp add: calm_def)
  with second_pass_run obtain st' w' where 2: "clear_stale_local_paths st ?w = (Returned (Inr st'), w')"
    "cw_disk w' = cw_disk ?w" "t_messages (cw_db w') = t_messages (cw_db ?w)"
    "rs_orphan_dirs_removed st' = rs_orphan_dirs_removed st" by blast
  have "reconcile_cache root w = (Returned (Inr st'), w')"
    using assms(9) 1 2 by (simp add: reconcile_cache_def io_bind_def on_disk_def)
  moreover from assms(3) obtain files where "node_at (cw_disk w) (root @ [?A, shard_of ?M]) = Some (Dir [(?M, Dir files)])"
    by (auto simp: cached_alone_def node_at_append)
  then have "node_at (cw_disk ?w) (root @ [?A, shard_of ?M, ?M]) = None"
    using node_at_deleted [of "cw_disk w" "root @ [?A, shard_of ?M]" _ ?M] by simp
  moreover have "has_message (cw_db w') acc mid" using assms(2) 2(3) by (simp add: has_message_def)
  ultimately show ?thesis using 1(2) 2 assms(5,6) by (auto simp: cache_path_segments)
qed

definition subfolder_mail :: db where
  "subfolder_mail = mailbox_db\<lparr>t_messages := [\<lparr>ms_account = ''a'', ms_id = ''imap-a-Work/Sub-7'', ms_thread = ''t1'',
     ms_is_read = 1, ms_is_starred = 0, ms_content = blank_message\<rparr>]\<rparr>"

definition subfolder_disk :: node where
  "subfolder_disk = Dir [(''c'', Dir [(''a'', Dir [(''im'', Dir [(''imap-a-Work_Sub-7'', Dir [(''f'', File [1])])])])])]"

lemma nested_folder_cache_lost_witness:
  "\<exists>stats w'. reconcile_cache [''c''] (sample_world subfolder_disk subfolder_mail) = (Returned (Inr stats), w') \<and>
     rs_orphan_dirs_removed stats = 1 \<and> has_message (cw_db w') ''a'' ''imap-a-Work/Sub-7'' \<and>
     node_at (cw_disk w') (message_cache_dir [''c''] ''a'' ''imap-a-Work/Sub-7'') = None"
proof (rule nested_folder_cache_lost)
  have "replace_separators ''a'' = ''a''" "replace_separators ''imap-a-Work/Sub-7'' = ''imap-a-Work_Sub-7''"
    by (simp_all add: replace_separators_def separators_def)
  then have names: "sanitize_path_segment ''a'' = ''a''" "sanitize_path_segment ''imap-a-Work/Sub-7'' = ''imap-a-Work_Sub-7''"
    by (simp_all add: sanitize_path_segment_def trim_graphic graphic_def)
  show "calm (sample_world subfolder_disk subfolder_mail)"
    by (simp add: calm_def sample_world_def healthy_def subfolder_mail_def mailbox_db_def empty_db_def)
  show "has_message (cw_db (sample_world subfolder_disk subfolder_mail)) ''a'' ''imap-a-Work/Sub-7''"
    "\<not> has_message (cw_db (sample_world subfolder_disk subfolder_mail)) (sanitize_path_segment ''a'')
      (sanitize_path_segment ''imap-a-Work/Sub-7'')"
    by (simp_all add: names sample_world_def has_message_def subfolder_mail_def)
  show "cached_alone (cw_disk (sample_world subfolder_disk subfolder_mail)) [''c''] (sanitize_path_segment ''a'')
      (shard_of (sanitize_path_segment ''imap-a-Work/Sub-7'')) (sanitize_path_segment ''imap-a-Work/Sub-7'')"
    by (simp add: names cached_alone_def sample_world_def subfolder_disk_def shard_of_def get_prefix_def continues_def)
  show "utf8_string (sanitize_path_segment ''a'')" unfolding names by code_simp
  show "utf8_string (sanitize_path_segment ''imap-a-Work/Sub-7'')" unfolding names by code_simp
  show "canon (cw_disk (sample_world subfolder_disk subfolder_mail)) [] [''c''] \<noteq> None"
    by (simp add: sample_world_def subfolder_disk_def is_dir_def)
qed (simp_all add: sanitize_path_segment_def replace_separators_def separators_def trim_graphic graphic_def)

lemma live_cache_kept_witness:
  "node_at (cw_disk (snd (reconcile_cache [''c''] (sample_world subfolder_disk mailbox_db)))) (message_cache_dir [''c''] ''a'' ''m1'')
    = node_at subfolder_disk (message_cache_dir [''c''] ''a'' ''m1'')"
proof -
  have "sanitize_path_segment ''a'' = ''a''" "sanitize_path_segment ''m1'' = ''m1''"
    by (simp_all add: sanitize_path_segment_def replace_separators_def separators_def trim_graphic graphic_def)
  moreover have "has_message (cw_db (sample_world subfolder_disk mailbox_db)) ''a'' ''m1''"
    by (simp add: sample_world_def has_message_def mailbox_db_def)
  ultimately have "node_at (cw_disk (snd (reconcile_cache [''c''] (sample_world subfolder_disk mailbox_db)))) (message_cache_dir [''c''] ''a'' ''m1'')
    = node_at (cw_disk (sample_world subfolder_disk mailbox_db)) (message_cache_dir [''c''] ''a'' ''m1'')"
    by (intro live_cache_kept) simp_all
  then show ?thesis by (simp add: sample_world_def)
qed

section \<open>Fetching twice\<close>

text \<open>Components that a path string can carry and the operating system takes literally.\<close>

definition literal :: "string \<Rightarrow> bool" where
  "literal s \<longleftrightarrow> s \<noteq> [] \<and> s \<noteq> ''.'' \<and> s \<noteq> ''..'' \<and> CHR ''/'' \<notin> set s"

lemma plain_literal: "plain s \<Longrightarrow> literal s"
  by (auto simp: plain_def literal_def separators_def)

lemma split_path_string:
  "list_all literal p \<Longrightarrow> p \<noteq> [] \<Longrightarrow> split_char CHR ''/'' (path_string p) = [] # p"
proof (induction p)
  case (Cons s p)
  then show ?case
  proof (cases p)
    case Nil
    with Cons.prems show ?thesis by (simp add: path_string_def literal_def split_no_sep)
  next
    case (Cons t q)
    with Cons.prems Cons.IH show ?thesis
      by (simp add: path_string_def literal_def split_append_sep)
  qed
qed simp

lemma lexical_literal: "list_all literal p \<Longrightarrow> lexical cur p = cur @ p"
  by (induction p arbitrary: cur) (auto simp: literal_def)

lemma canon_literal:
  "list_all literal p \<Longrightarrow> node_at disk (cur @ p) \<noteq> None \<Longrightarrow> canon disk cur p = Some (cur @ p)"
proof (induction p arbitrary: cur)
  case (Cons s p)
  from Cons.prems(2) obtain m where "node_at disk cur = Some m" "node_at m (s # p) \<noteq> None"
    by (cases "node_at disk cur") (simp_all add: node_at_append)
  then have "is_dir disk cur" by (cases m) (simp_all add: is_dir_def)
  with Cons show ?case by (auto simp: literal_def)
qed simp

lemma write_at_node: "write_at p bytes n = Inr n' \<Longrightarrow> node_at n' p = Some (File bytes)"
proof (induction p bytes n arbitrary: n' rule: write_at.induct)
  case (3 s ss bytes es)
  show ?case
  proof (cases "ss = []")
    case True
    with "3.prems" show ?thesis by (auto simp: update_conv split: option.splits node.splits)
  next
    case False
    with "3.prems" obtain m m' where "map_of es s = Some m" "write_at ss bytes m = Inr m'" "n' = Dir (AList.update s m' es)"
      by (cases "map_of es s"; cases "write_at ss bytes (the (map_of es s))") auto
    with "3.IH" False show ?thesis by (simp add: update_conv)
  qed
qed simp_all

lemma io_map_err_Inr [res_simps]: "io_map_err g m s = (Returned (Inr x), s') \<longleftrightarrow> m s = (Returned (Inr x), s')"
  by (auto simp: io_map_err_def res_simps split: prod.splits panicky.splits)

lemma fs_op_Inr:
  assumes "fs_op f w = (Returned (Inr x), w')"
  shows "f (cw_disk w) = Inr (x, cw_disk w') \<and> cw_db w' = cw_db w"
  using assms by (auto simp: fs_op_def split: list.splits option.splits sum.splits prod.splits)

lemma write_cache_file_run:
  assumes "write_cache_file p bytes w = (Returned (Inr n), w')"
  shows "node_at (cw_disk w') (lexical [] p) = Some (File bytes)" and "cw_db w' = cw_db w" and "n = length bytes"
proof -
  from assms obtain w1 where 1: "create_dir_all (butlast p) w = (Returned (Inr ()), w1)"
      and 2: "write_file p bytes w1 = (Returned (Inr ()), w')" and n: "n = length bytes"
    by (auto simp: write_cache_file_def res_simps io_ret_def)
  show "n = length bytes" by (fact n)
  from 1 2 show "cw_db w' = cw_db w" unfolding create_dir_all_def write_file_def by (metis fs_op_Inr)
  from 2 have "map_sum id (\<lambda>n. ((), n)) (write_at (lexical [] p) bytes (cw_disk w1)) = Inr ((), cw_disk w')"
    unfolding write_file_def using fs_op_Inr by fastforce
  then show "node_at (cw_disk w') (lexical [] p) = Some (File bytes)"
    by (cases "write_at (lexical [] p) bytes (cw_disk w1)") (auto dest: write_at_node)
qed

lemma healthy_db_run:
  "healthy (cw_db w) \<Longrightarrow> in_cache_db (db_query q) w = (Returned (Inr (q (cw_db w))), w)"
  "healthy (cw_db w) \<Longrightarrow> in_cache_db (db_update u) w = (Returned (Inr ()), w\<lparr>cw_db := u (cw_db w)\<rparr>)"
  by (simp_all add: in_cache_db_def db_query_healthy db_update_healthy)

lemma in_net_db: "in_net m w = (r, w') \<Longrightarrow> cw_db w' = cw_db w"
  by (auto simp: in_net_def split: prod.splits)

lemma ok_or_Inr [res_simps]: "ok_or e x w = (Returned (Inr y), w') \<longleftrightarrow> x = Some y \<and> w' = w"
  by (auto simp: ok_or_def io_ret_def io_fail_def split: option.splits)

lemma resolve_imap_db:
  assumes "healthy (cw_db w)" and "resolve_imap_for_message link acc mid w = (Returned (Inr x), w')"
  shows "cw_db w' = cw_db w"
proof -
  from assms(2) obtain loc w1 w2 u w3 c where steps:
    "in_cache_db (get_folder_uid_for_message acc mid) w = (Returned (Inr loc), w1)"
    "in_net (il_source link acc) w1 = (Returned (Inr u), w2)"
    "in_net (il_config link (fst (the loc))) w2 = (Returned (Inr c), w3)"
    "in_net (\<lambda>n. (Returned (Inr ()), il_disconnect link acc n)) w3 = (Returned (Inr ()), w')"
    by (auto simp: resolve_imap_for_message_def res_simps io_ret_def split: prod.splits)
  from steps(1) have "w1 = w"
    unfolding get_folder_uid_for_message_def healthy_db_run(1) [OF assms(1)] by simp
  with in_net_db [OF steps(2)] in_net_db [OF steps(3)] in_net_db [OF steps(4)] show ?thesis by simp
qed

definition row_of_part :: "string \<Rightarrow> string \<Rightarrow> string \<Rightarrow> db \<Rightarrow> attachment_row option" where
  "row_of_part acc mid part_id d =
     find (\<lambda>r. of_message acc mid r \<and> at_imap_part_id r = Some part_id) (t_attachments d)"

lemma row_of_part_cached:
  assumes "row_of_part acc mid part_id d = Some r"
  shows "row_of_part acc mid part_id (d\<lparr>t_attachments := map (\<lambda>q. if at_id q = at_id r
       then q\<lparr>at_local_path := Some p, at_cached_at := Some (db_now d), at_cache_size := Some n\<rparr> else q) (t_attachments d)\<rparr>)
    = Some (r\<lparr>at_local_path := Some p, at_cached_at := Some (db_now d), at_cache_size := Some n\<rparr>)"
proof -
  let ?f = "\<lambda>q. if at_id q = at_id r then q\<lparr>at_local_path := Some p, at_cached_at := Some (db_now d), at_cache_size := Some n\<rparr> else q"
  let ?P = "\<lambda>r. of_message acc mid r \<and> at_imap_part_id r = Some part_id"
  have "?P (?f q) = ?P q" for q by (simp add: of_message_def)
  then have "find ?P (map ?f rows) = map_option ?f (find ?P rows)" for rows
    by (induction rows) (simp_all del: if_split)
  with assms show ?thesis by (simp add: row_of_part_def)
qed

text \<open>The result of a fetch that finds the file of the row.\<close>

lemma cached_fetch:
  assumes "healthy (cw_db w)" and "row_of_part acc mid part_id (cw_db w) = Some r" and "at_local_path r = Some p"
    and "path_exists (cw_disk w) p" and "path_is_within_cache (cw_disk w) p root"
  shows "sync_fetch_attachment_inner link root acc mid part_id w = (Returned (Inr
    \<lparr>ca_file_path = p, ca_filename = opt_or ''attachment'' (at_filename r), ca_mime_type = opt_or default_mime (at_mime_type r),
     ca_size = at_size r\<rparr>), w)"
proof -
  have "in_cache_db (get_attachment_meta acc mid part_id) w = (Returned (Inr (Some (meta_of r))), w)"
    using assms(2) unfolding get_attachment_meta_def healthy_db_run(1) [OF assms(1)] by (simp add: row_of_part_def)
  then show ?thesis
    using assms(3-5)
    by (simp add: sync_fetch_attachment_inner_def io_bind_def io_map_err_def on_disk_def cache_hit_def meta_of_def io_ret_def)
qed

text \<open>An attachment is downloaded once. After a fetch that succeeded, for a part the database knows, a
  second fetch of the part succeeds without the network, whatever the network would do, returns the same file under
  the same name and changes nothing; the file is there.\<close>

lemma second_fetch_offline:
  fixes w :: "'w cache_world"
  assumes "sync_fetch_attachment_inner link root acc mid part_id w = (Returned (Inr c), w1)"
    and "healthy (cw_db w)" and "row_of_part acc mid part_id (cw_db w) = Some r"
    and "list_all literal root"
    and "sanitize_path_segment acc \<notin> {[], ''.'', ''..''}" and "sanitize_path_segment mid \<notin> {[], ''.''}"
    and "take 2 (sanitize_path_segment mid) \<noteq> ''..''"
  shows "\<exists>c'. sync_fetch_attachment_inner link' root acc mid part_id w1 = (Returned (Inr c'), w1) \<and>
    ca_file_path c' = ca_file_path c \<and> ca_filename c' = ca_filename c \<and> path_exists (cw_disk w1) (ca_file_path c)"
proof (cases "cache_hit (cw_disk w) root (Some (meta_of r))")
  case (Some hit)
  then obtain p where p: "at_local_path r = Some p" "path_exists (cw_disk w) p" "path_is_within_cache (cw_disk w) p root"
    by (auto simp: cache_hit_def meta_of_def split: option.splits if_splits)
  note hits = cached_fetch [OF assms(2,3) p]
  from assms(1) hits [of link] have "w1 = w" "ca_file_path c = p" "ca_filename c = opt_or ''attachment'' (at_filename r)"
    by auto
  with hits [of link'] p show ?thesis by simp
next
  case None
  have meta: "in_cache_db (get_attachment_meta acc mid part_id) w = (Returned (Inr (Some (meta_of r))), w)"
    using assms(3) unfolding get_attachment_meta_def healthy_db_run(1) [OF assms(2)] by (simp add: row_of_part_def)
  define name where "name = opt_or ''attachment'' (at_filename r)"
  define path where "path = cache_file_path root acc mid (at_id r) name"
  let ?store = "\<lambda>written. io_try (in_cache_db (set_cached_path (at_id r) (path_string path) (int written)))"
  let ?n = "\<lambda>bytes. if length bytes > 0 then int (length bytes) else at_size r"
  let ?tail = "\<lambda>(mime_type, bytes). io_bind (write_cache_file path bytes) (\<lambda>written.
    io_bind (?store written) (\<lambda>(_ :: string + unit). io_ret \<lparr>ca_file_path = path_string path, ca_filename = name,
      ca_mime_type = mime_type, ca_size = ?n bytes\<rparr>))"
  from assms(1) None meta have "io_bind (resolve_imap_for_message link acc mid) (\<lambda>(folder, uid, config).
      io_bind (in_net (il_fetch_attachment link config folder uid part_id)) ?tail) w = (Returned (Inr c), w1)"
    by (simp add: sync_fetch_attachment_inner_def io_bind_def [of "io_map_err g m" for g m] io_map_err_def
        io_bind_def [of "on_disk g" for g] on_disk_def Let_def meta_of_def path_def name_def cong: if_cong)
  then obtain folder uid config w2 where 2: "resolve_imap_for_message link acc mid w = (Returned (Inr (folder, uid, config)), w2)"
    and "io_bind (in_net (il_fetch_attachment link config folder uid part_id)) ?tail w2 = (Returned (Inr c), w1)"
    unfolding io_bind_Inr_iff [where m = "resolve_imap_for_message link acc mid"] by auto
  then obtain mime_type bytes w3 where 3: "in_net (il_fetch_attachment link config folder uid part_id) w2 = (Returned (Inr (mime_type, bytes)), w3)"
    and "?tail (mime_type, bytes) w3 = (Returned (Inr c), w1)"
    unfolding io_bind_Inr_iff [where m = "in_net m" for m] by auto
  then obtain n w4 res where 4: "write_cache_file path bytes w3 = (Returned (Inr n), w4)"
    and 5: "?store n w4 = (Returned (Inr res) :: (string + string + unit) panicky, w1)"
    and c: "ca_file_path c = path_string path" "ca_filename c = name"
    by (auto simp: io_bind_Inr_iff io_ret_def)
  have db: "cw_db w4 = cw_db w"
    using resolve_imap_db [OF assms(2) 2] in_net_db [OF 3] write_cache_file_run(2) [OF 4] by simp
  then have w1: "w1 = w4\<lparr>cw_db := (cw_db w)\<lparr>t_attachments := map (\<lambda>q. if at_id q = at_id r
       then q\<lparr>at_local_path := Some (path_string path), at_cached_at := Some (db_now (cw_db w)), at_cache_size := Some (int n)\<rparr>
       else q) (t_attachments (cw_db w))\<rparr>\<rparr>"
    using 5 assms(2) by (auto simp: io_try_def set_cached_path_def healthy_db_run cong: if_cong)
  from cache_path_confined [OF assms(5-7)] obtain segs where segs: "path = root @ segs" "length segs = 4" "list_all plain segs"
    unfolding path_def by blast
  then have lit: "list_all literal path" "path \<noteq> []" using assms(4) plain_literal by (auto simp: list_all_iff)
  have stored_file: "node_at (cw_disk w1) path = Some (File bytes)"
    using write_cache_file_run(1) [OF 4] lexical_literal [OF lit(1)] by (simp add: w1)
  have "canon (cw_disk w1) [] path = Some path" using canon_literal [OF lit(1), of _ "[]"] stored_file by simp
  moreover have "starts_with ''/'' (path_string path)" using lit(2) by (cases path) (simp_all add: path_string_def)
  moreover have "is_dir (cw_disk w1) []"
    using stored_file lit(2) by (cases path; cases "cw_disk w1") (simp_all add: is_dir_def)
  ultimately have resolved: "resolve (cw_disk w1) (path_string path) = Some path"
    by (simp add: resolve_def split_path_string [OF lit])
  have "node_at (cw_disk w1) root \<noteq> None"
    using stored_file segs(1) by (cases "node_at (cw_disk w1) root") (simp_all add: node_at_append)
  then have "canon (cw_disk w1) [] root = Some root" using canon_literal [OF assms(4), of _ "[]"] by simp
  with resolved segs(1) have "path_is_within_cache (cw_disk w1) (path_string path) root"
    by (simp add: path_is_within_cache_def)
  moreover have "path_exists (cw_disk w1) (path_string path)" using resolved by (simp add: path_exists_def)
  moreover have "healthy (cw_db w1)" using assms(2) by (simp add: w1 healthy_def)
  moreover have "row_of_part acc mid part_id (cw_db w1) = Some (r\<lparr>at_local_path := Some (path_string path),
      at_cached_at := Some (db_now (cw_db w)), at_cache_size := Some (int n)\<rparr>)"
    using row_of_part_cached [OF assms(3)] by (simp add: w1)
  ultimately show ?thesis
    using cached_fetch [of w1 acc mid part_id _ "path_string path" root link'] c by (simp add: name_def)
qed

definition known_part :: db where
  "known_part = mailbox_db\<lparr>t_messages := [\<lparr>ms_account = ''a'', ms_id = ''m1'', ms_thread = ''t1'', ms_is_read = 1, ms_is_starred = 0,
       ms_content = blank_message\<lparr>mc_imap_uid := Some 7, mc_imap_folder := Some ''INBOX''\<rparr>\<rparr>],
     t_attachments := [attachment_of ''a'' ''m1'' (part ''1'')]\<rparr>"

definition link_of :: "string \<Rightarrow> (unit, unit) imap_link" where
  "link_of answer = \<lparr>il_source = \<lambda>_. io_ret (), il_config = \<lambda>_. io_ret (Some ()), il_disconnect = \<lambda>_ n. n,
     il_fetch_attachment = \<lambda>_ _ _ _. if answer = [] then io_fail ''offline'' else io_ret (''image/png'', as_bytes answer),
     il_fetch_inline = \<lambda>_ _ _. io_fail ''offline''\<rparr>"

lemma second_fetch_offline_witness:
  "\<exists>c w1 c'. sync_fetch_attachment_inner (link_of ''x'') [''c''] ''a'' ''m1'' ''1'' (sample_world (Dir []) known_part) = (Returned (Inr c), w1) \<and>
     sync_fetch_attachment_inner (link_of []) [''c''] ''a'' ''m1'' ''1'' w1 = (Returned (Inr c'), w1) \<and> ca_file_path c' = ca_file_path c"
proof -
  have names: "sanitize_path_segment ''a'' = ''a''" "sanitize_path_segment ''m1'' = ''m1''" "sanitize_path_segment ''a_m1_1'' = ''a_m1_1''"
    "sanitize_attachment_filename ''f'' = ''f''"
    by (simp_all add: sanitize_path_segment_def sanitize_attachment_filename_def replace_separators_def separators_def
        trim_graphic graphic_def)
  have row: "row_of_part ''a'' ''m1'' ''1'' known_part = Some (attachment_of ''a'' ''m1'' (part ''1''))"
    by (simp add: row_of_part_def known_part_def of_message_def attachment_of_def part_def)
  have "\<exists>c w1. sync_fetch_attachment_inner (link_of ''x'') [''c''] ''a'' ''m1'' ''1'' (sample_world (Dir []) known_part) = (Returned (Inr c), w1)"
    by (simp add: sync_fetch_attachment_inner_def resolve_imap_for_message_def get_attachment_meta_def get_folder_uid_for_message_def
        message_row_of_def io_bind_def io_map_err_def in_cache_db_def db_query_def db_update_def db_stmt_def set_cached_path_def
        on_disk_def cache_hit_def in_net_def ok_or_def io_ret_def io_try_def write_cache_file_def create_dir_all_def write_file_def
        fs_op_def link_of_def sample_world_def known_part_def mailbox_db_def empty_db_def attachment_of_def attachment_id_def meta_of_def
        part_def of_message_def Let_def cache_file_path_def cache_path_segments names path_join_def shard_of_def get_prefix_def continues_def)
  then obtain c w1 where run: "sync_fetch_attachment_inner (link_of ''x'') [''c''] ''a'' ''m1'' ''1'' (sample_world (Dir []) known_part) = (Returned (Inr c), w1)"
    by blast
  have "healthy (cw_db (sample_world (Dir []) known_part))"
    by (simp add: sample_world_def known_part_def healthy_def mailbox_db_def empty_db_def)
  moreover have "row_of_part ''a'' ''m1'' ''1'' (cw_db (sample_world (Dir []) known_part)) = Some (attachment_of ''a'' ''m1'' (part ''1''))"
    using row by (simp add: sample_world_def)
  ultimately have "\<exists>c'. sync_fetch_attachment_inner (link_of []) [''c''] ''a'' ''m1'' ''1'' w1 = (Returned (Inr c'), w1) \<and>
      ca_file_path c' = ca_file_path c \<and> ca_filename c' = ca_filename c \<and> path_exists (cw_disk w1) (ca_file_path c)"
    by (rule second_fetch_offline [OF run]) (simp_all add: literal_def names)
  with run show ?thesis by blast
qed

end
