(* ===== verification/Inline_Images.thy ===== *)
theory Inline_Images
  imports Cache_Reconcile
begin

text \<open>
  The inline images of a message, referred to by content id (\<open>sync_fetch_inline_images_inner\<close> of
  \<open>sync_engine/commands.rs\<close>): served from the cache when every one of them is there, otherwise all are
  fetched again.
\<close>

record cached_inline_image =
  ci_content_id :: string
  ci_file_path :: string
  ci_mime_type :: string
  ci_size :: int

definition derive_inline_filename :: "string \<Rightarrow> string" where
  "derive_inline_filename mime_type =
     ''inline-image.'' @
     (if mime_type = ''image/png'' then ''png''
      else if mime_type = ''image/jpeg'' \<or> mime_type = ''image/jpg'' then ''jpg''
      else if mime_type = ''image/gif'' then ''gif''
      else if mime_type = ''image/webp'' then ''webp''
      else if mime_type = ''image/svg+xml'' then ''svg''
      else if mime_type = ''image/bmp'' then ''bmp''
      else if mime_type = ''image/x-icon'' \<or> mime_type = ''image/vnd.microsoft.icon'' then ''ico''
      else if mime_type = ''image/tiff'' then ''tiff''
      else ''bin'')"

text \<open>\<open>size as u64\<close> of a stored \<open>i64\<close>.\<close>

definition inline_hit :: "node \<Rightarrow> string list \<Rightarrow> inline_part \<Rightarrow> cached_inline_image option" where
  "inline_hit disk cache_root p =
     (case ip_local_path p of None \<Rightarrow> None
      | Some lp \<Rightarrow>
          if path_exists disk lp \<and> path_is_within_cache disk lp cache_root
          then Some \<lparr>ci_content_id = ip_content_id p, ci_file_path = lp,
                ci_mime_type = opt_or default_mime (ip_mime_type p), ci_size = ip_size p mod 2 ^ 64\<rparr>
          else None)"

definition inline_target :: "string \<Rightarrow> string \<Rightarrow> inline_part list \<Rightarrow> inline_cid_part \<Rightarrow> string \<times> string" where
  "inline_target acc mid db_parts f =
     (case map_of (rev (map (\<lambda>p. (ip_content_id p, p)) db_parts)) (ic_content_id f) of
        Some row \<Rightarrow> (ip_id row, opt_or (derive_inline_filename (ic_mime_type f)) (ip_filename row))
      | None \<Rightarrow> (acc @ ''_'' @ mid @ ''_inline_'' @ ic_content_id f, derive_inline_filename (ic_mime_type f)))"

definition store_inline :: "string list \<Rightarrow> string \<Rightarrow> string \<Rightarrow> inline_part list \<Rightarrow> inline_cid_part \<Rightarrow> ('w, cached_inline_image) cache_io" where
  "store_inline cache_root acc mid db_parts f =
     (case inline_target acc mid db_parts f of (aid, filename) \<Rightarrow>
        (let file_path = cache_file_path cache_root acc mid aid filename
         in io_bind (write_cache_file file_path (ic_bytes f)) (\<lambda>written.
            io_bind (if ic_content_id f \<in> set (map ip_content_id db_parts)
                     then io_bind (io_try (in_cache_db (set_cached_path aid (path_string file_path) (int written))))
                            (\<lambda>(_ :: string + unit). io_ret ())
                     else io_ret ()) (\<lambda>_.
            io_ret \<lparr>ci_content_id = ic_content_id f, ci_file_path = path_string file_path, ci_mime_type = ic_mime_type f,
                    ci_size = int written\<rparr>))))"

definition sync_fetch_inline_images_inner ::
  "('w, 'c) imap_link \<Rightarrow> string list \<Rightarrow> string \<Rightarrow> string \<Rightarrow> ('w, cached_inline_image list) cache_io" where
  "sync_fetch_inline_images_inner link cache_root acc mid =
     io_bind (io_map_err (\<lambda>e. ''list inline parts for '' @ mid @ '': '' @ e) (in_cache_db (list_inline_cid_parts acc mid))) (\<lambda>db_parts.
     io_bind (on_disk (\<lambda>disk. map (inline_hit disk cache_root) db_parts)) (\<lambda>hits.
     if db_parts \<noteq> [] \<and> list_all (\<lambda>h. h \<noteq> None) hits then io_ret (map the hits)
     else
     io_bind (resolve_imap_for_message link acc mid) (\<lambda>(folder, uid, config).
     io_bind (in_net (il_fetch_inline link config folder uid)) (\<lambda>fetched.
     io_collect (\<lambda>f. io_bind (store_inline cache_root acc mid db_parts f) (\<lambda>c. io_ret [c])) fetched))))"

text \<open>Inline images are all or nothing. When the file of every inline part is in the cache the images are
  served in the order of the rows without the network; as soon as one of them is missing, the answer depends on
  the network alone, and while the network fails so does the call, even for the parts that are cached.\<close>

lemma inline_images_all_or_network:
  fixes w :: "'w cache_world"
  assumes "healthy (cw_db w)" and "list_inline_cid_parts acc mid (cw_db w) = (Returned (Inr parts), cw_db w)" and "parts \<noteq> []"
  shows "(list_all (\<lambda>p. inline_hit (cw_disk w) root p \<noteq> None) parts \<longrightarrow>
      sync_fetch_inline_images_inner link root acc mid w = (Returned (Inr (map (\<lambda>p. the (inline_hit (cw_disk w) root p)) parts)), w)) \<and>
    (\<not> list_all (\<lambda>p. inline_hit (cw_disk w) root p \<noteq> None) parts \<longrightarrow>
      (\<forall>e w'. resolve_imap_for_message link acc mid w = (Returned (Inl e), w') \<longrightarrow>
        sync_fetch_inline_images_inner link root acc mid w = (Returned (Inl e), w')))"
proof (intro conjI impI allI)
  have parts: "in_cache_db (list_inline_cid_parts acc mid) w = (Returned (Inr parts), w)"
    using assms(2) by (simp add: in_cache_db_def)
  show "sync_fetch_inline_images_inner link root acc mid w = (Returned (Inr (map (\<lambda>p. the (inline_hit (cw_disk w) root p)) parts)), w)"
    if "list_all (\<lambda>p. inline_hit (cw_disk w) root p \<noteq> None) parts"
    using that assms(3) by (simp add: sync_fetch_inline_images_inner_def io_bind_def io_map_err_def parts on_disk_def
        io_ret_def list_all_iff comp_def)
  show "sync_fetch_inline_images_inner link root acc mid w = (Returned (Inl e), w')"
    if "\<not> list_all (\<lambda>p. inline_hit (cw_disk w) root p \<noteq> None) parts"
      "resolve_imap_for_message link acc mid w = (Returned (Inl e), w')" for e w'
    using that by (auto simp: sync_fetch_inline_images_inner_def io_bind_def io_map_err_def parts on_disk_def list_all_iff)
qed

definition picture :: "string \<Rightarrow> attachment_row" where
  "picture i = (attachment_of ''a'' ''m1'' ((part i)\<lparr>ia_content_id := Some i, ia_is_inline := True\<rparr>))"

definition two_pictures :: db where
  "two_pictures = mailbox_db\<lparr>t_attachments := [(picture ''1'')\<lparr>at_local_path := Some ''/c/p''\<rparr>, picture ''2'']\<rparr>"

lemma inline_images_all_or_network_witness:
  "\<exists>w'. sync_fetch_inline_images_inner (link_of []) [''c''] ''a'' ''m1'' (sample_world (Dir [(''c'', Dir [(''p'', File [1])])]) two_pictures)
     = (Returned (Inl ''no imap_folder/uid for message m1''), w')"
proof -
  let ?w = "sample_world (Dir [(''c'', Dir [(''p'', File [1])])]) two_pictures"
  obtain parts where parts: "list_inline_cid_parts ''a'' ''m1'' (cw_db ?w) = (Returned (Inr parts), cw_db ?w)"
    "parts \<noteq> []" "\<not> list_all (\<lambda>p. inline_hit (cw_disk ?w) [''c''] p \<noteq> None) parts"
    by (simp add: list_inline_cid_parts_def db_query_def db_stmt_def sample_world_def two_pictures_def mailbox_db_def
        empty_db_def picture_def attachment_of_def part_def of_message_def inline_hit_def)
  have "healthy (cw_db ?w)" by (simp add: sample_world_def two_pictures_def healthy_def mailbox_db_def empty_db_def)
  moreover have "resolve_imap_for_message (link_of []) ''a'' ''m1'' ?w = (Returned (Inl ''no imap_folder/uid for message m1''), ?w)"
    by (simp add: resolve_imap_for_message_def get_folder_uid_for_message_def message_row_of_def io_bind_def io_map_err_def
        in_cache_db_def db_query_def db_stmt_def ok_or_def io_fail_def sample_world_def two_pictures_def mailbox_db_def empty_db_def
        blank_message_def)
  ultimately show ?thesis
    using inline_images_all_or_network [OF _ parts(1,2), of "[''c'']" "link_of []"] parts(3) by blast
qed

end
