(* ===== verification/Body_Requests.thy ===== *)
theory Body_Requests
  imports Attachments Engine
begin

text \<open>
  \<open>request_bodies_inner\<close> of \<open>sync_engine/commands.rs\<close>: the bodies of some messages are fetched, in one batch
  per folder from an IMAP server and one by one otherwise, and stored with what the headers did not tell; then
  the cache is trimmed. Nearly every failure is logged and passed over.
\<close>

section \<open>The surroundings\<close>

record fetched_body =
  fb_uid :: u32
  fb_body_html :: "string option"
  fb_body_text :: "string option"
  fb_snippet :: string
  fb_attachments :: "imap_attachment list"
  fb_raw_ciphertext :: "u8 list option"
  fb_raw_signed_part :: "u8 list option"

record snippet_update =
  su_thread_id :: string
  su_snippet :: string

text \<open>
  The account's source and the IMAP session manager. A \<open>HashMap\<close> is walked in an order of its own:
  \<open>bl_order\<close>.
\<close>

record ('w, 'c) body_link =
  bl_source :: "string \<Rightarrow> ('w, string, unit) io"
  bl_config :: "string \<Rightarrow> ('w, string, 'c option) io"
  bl_fetch_batch :: "string \<Rightarrow> 'c \<Rightarrow> string \<Rightarrow> u32 list \<Rightarrow> nat \<Rightarrow> ('w, string, fetched_body list) io"
  bl_fetch_body :: "remote_folder \<Rightarrow> u32 \<Rightarrow> ('w, source_error, string option) io"
  bl_order :: "(string \<times> (string \<times> u32) list) list \<Rightarrow> (string \<times> (string \<times> u32) list) list"

record 'w body_world =
  bw_db :: db
  bw_net :: 'w
  bw_events :: "(string \<times> snippet_update list) list"

type_synonym ('w, 'a) body_io = "('w body_world, string, 'a) io"

text \<open>\<open>if let Err(e) = .. { log }\<close>: the outcome of a statement, of a call.\<close>

definition try_db :: "'a db_io \<Rightarrow> ('w, string + 'a) body_io" where
  "try_db m w =
     (case m (bw_db w) of
        (Panicked, d) \<Rightarrow> (Panicked, w\<lparr>bw_db := d\<rparr>)
      | (Returned r, d) \<Rightarrow> (Returned (Inr r), w\<lparr>bw_db := d\<rparr>))"

definition try_net :: "('w, 'e, 'a) io \<Rightarrow> ('w, 'e + 'a) body_io" where
  "try_net m w =
     (case m (bw_net w) of
        (Panicked, n) \<Rightarrow> (Panicked, w\<lparr>bw_net := n\<rparr>)
      | (Returned r, n) \<Rightarrow> (Returned (Inr r), w\<lparr>bw_net := n\<rparr>))"

section \<open>The request\<close>

fun add_to_folder :: "string \<Rightarrow> 'x \<Rightarrow> (string \<times> 'x list) list \<Rightarrow> (string \<times> 'x list) list" where
  "add_to_folder folder x [] = [(folder, [x])]"
| "add_to_folder folder x ((f, xs) # groups) =
     (if f = folder then (f, xs @ [x]) # groups else (f, xs) # add_to_folder folder x groups)"

fun group_by_folder :: "string \<Rightarrow> string list \<Rightarrow> (string \<times> (string \<times> u32) list) list
    \<Rightarrow> ('w, (string \<times> (string \<times> u32) list) list) body_io" where
  "group_by_folder acc [] groups = io_ret groups"
| "group_by_folder acc (mid # ids) groups =
     io_bind (try_db (get_folder_uid_for_message acc mid)) (\<lambda>r.
     group_by_folder acc ids
       (case r of Inr (Some (folder, uid)) \<Rightarrow> add_to_folder folder (mid, uid) groups | _ \<Rightarrow> groups))"

definition body_to_persist :: "fetched_body \<Rightarrow> string option" where
  "body_to_persist fb =
     (case fb_body_html fb of Some h \<Rightarrow> Some h
      | None \<Rightarrow> (case fb_body_text fb of Some t \<Rightarrow> Some t
                | None \<Rightarrow> map_option (\<lambda>_. []) (fb_raw_ciphertext fb)))"

definition try_some :: "'a option \<Rightarrow> ('a \<Rightarrow> unit db_io) \<Rightarrow> ('w, string + unit) body_io" where
  "try_some x f = (case x of None \<Rightarrow> io_ret (Inr ()) | Some y \<Rightarrow> try_db (f y))"

definition persist_fetched :: "string \<Rightarrow> string \<Rightarrow> fetched_body \<Rightarrow> ('w, snippet_update list) body_io" where
  "persist_fetched acc mid fb =
     io_bind (try_some (body_to_persist fb) (set_message_body acc mid)) (\<lambda>r.
     if isl r then io_ret []
     else
     io_bind (try_some (fb_raw_ciphertext fb) (set_message_ciphertext acc mid)) (\<lambda>_.
     io_bind (try_some (fb_raw_signed_part fb) (set_message_signed_part acc mid)) (\<lambda>_.
     io_bind (try_db (set_message_crypto_flags acc mid (fb_raw_ciphertext fb \<noteq> None) (fb_raw_signed_part fb \<noteq> None))) (\<lambda>_.
     io_bind (try_db (set_message_snippet acc mid (fb_snippet fb))) (\<lambda>r.
     if isl r then io_ret []
     else
     io_bind (if fb_attachments fb = [] then io_ret (Inr ()) else try_db (upsert_attachments acc mid (fb_attachments fb))) (\<lambda>_.
     io_bind (try_db (get_thread_id_for_message acc mid)) (\<lambda>r.
     io_ret (case r of Inr (Some tid) \<Rightarrow> [\<lparr>su_thread_id = tid, su_snippet = fb_snippet fb\<rparr>] | _ \<Rightarrow> []))))))))"

definition persist_batch :: "string \<Rightarrow> (string \<times> u32) list \<Rightarrow> fetched_body list \<Rightarrow> ('w, snippet_update list) body_io" where
  "persist_batch acc mid_uids fetched =
     io_collect (\<lambda>(mid, uid).
       case map_of (rev (map (\<lambda>f. (fb_uid f, f)) fetched)) uid of
         Some fb \<Rightarrow> persist_fetched acc mid fb
       | None \<Rightarrow> io_ret []) mid_uids"

definition fallback_folder :: "string \<Rightarrow> remote_folder" where
  "fallback_folder folder = remote_folder_default\<lparr>rf_remote_id := folder\<rparr>"

definition fetch_one :: "('w, 'c) body_link \<Rightarrow> string \<Rightarrow> string \<Rightarrow> string \<times> u32 \<Rightarrow> ('w, unit) body_io" where
  "fetch_one link acc folder = (\<lambda>(mid, uid).
     io_bind (try_net (bl_fetch_body link (fallback_folder folder) uid)) (\<lambda>r.
     case r of
       Inr (Some html) \<Rightarrow>
         io_bind (try_db (set_message_body acc mid html)) (\<lambda>r.
         if isl r then io_ret ()
         else io_bind (try_db (set_message_snippet acc mid [])) (\<lambda>_. io_ret ()))
     | _ \<Rightarrow> io_ret ()))"

definition request_folder :: "('w, 'c) body_link \<Rightarrow> string \<Rightarrow> string \<times> (string \<times> u32) list \<Rightarrow> ('w, snippet_update list) body_io" where
  "request_folder link acc = (\<lambda>(folder, mid_uids).
     io_bind (try_net (bl_config link folder)) (\<lambda>r.
     case r of
       Inr (Some config) \<Rightarrow>
         io_bind (try_net (bl_fetch_batch link acc config folder (map snd mid_uids) 50)) (\<lambda>r.
         case r of Inr fetched \<Rightarrow> persist_batch acc mid_uids fetched | Inl e \<Rightarrow> io_ret [])
     | Inr None \<Rightarrow> io_bind (io_each (fetch_one link acc folder) mid_uids) (\<lambda>_. io_ret [])
     | Inl e \<Rightarrow> io_ret []))"

definition BODY_CACHE_CAP_ROWS :: int where "BODY_CACHE_CAP_ROWS = 2000"

definition emit_bodies_written :: "string \<Rightarrow> snippet_update list \<Rightarrow> ('w, unit) body_io" where
  "emit_bodies_written acc updates w = (Returned (Inr ()), w\<lparr>bw_events := bw_events w @ [(acc, updates)]\<rparr>)"

definition request_bodies_inner :: "('w, 'c) body_link \<Rightarrow> string \<Rightarrow> string list \<Rightarrow> ('w, unit) body_io" where
  "request_bodies_inner link acc ids =
     (if ids = [] then io_ret ()
      else io_bind (group_by_folder acc ids []) (\<lambda>by_folder.
      if by_folder = [] then io_ret ()
      else io_bind (try_net (bl_source link acc)) (\<lambda>r.
      case r of Inl e \<Rightarrow> io_fail e
      | Inr _ \<Rightarrow>
      io_bind (io_collect (request_folder link acc) (bl_order link by_folder)) (\<lambda>updates.
      io_bind (try_db (maybe_evict BODY_CACHE_CAP_ROWS)) (\<lambda>_.
      if updates = [] then io_ret () else emit_bodies_written acc updates)))))"

section \<open>The only error is the source's\<close>

text \<open>Steps that return, or panic, but never fail.\<close>

definition lenient :: "('w, 'a) body_io \<Rightarrow> bool" where
  "lenient m \<longleftrightarrow> (\<forall>w e w'. m w \<noteq> (Returned (Inl e), w'))"

named_theorems lenient_intros

lemma lenient_basic [lenient_intros]:
  "lenient (io_ret x)" "lenient (try_db m)" "lenient (try_net n)" "lenient (emit_bodies_written acc us)"
  by (auto simp: lenient_def io_ret_def try_db_def try_net_def emit_bodies_written_def split: prod.split panicky.split)

lemma lenient_bind [lenient_intros]: "lenient m \<Longrightarrow> (\<And>x. lenient (f x)) \<Longrightarrow> lenient (io_bind m f)"
  unfolding lenient_def res_simps by blast

lemma lenient_collect [lenient_intros]: "(\<And>x. lenient (f x)) \<Longrightarrow> lenient (io_collect f xs)"
  by (induction xs) (auto intro: lenient_intros)

lemma lenient_each [lenient_intros]: "(\<And>x. lenient (f x)) \<Longrightarrow> lenient (io_each f xs)"
  by (induction xs) (auto intro: lenient_intros)

lemma lenient_group: "lenient (group_by_folder acc ids groups)"
  by (induction acc ids groups rule: group_by_folder.induct) (auto intro: lenient_intros)

lemma lenient_some [lenient_intros]: "lenient (try_some x f)"
  by (auto simp: try_some_def intro: lenient_intros split: option.split)

lemma lenient_folder: "lenient (request_folder link acc p)"
  unfolding request_folder_def persist_batch_def persist_fetched_def fetch_one_def
  by (auto intro!: lenient_intros split: prod.split sum.split option.split)

text \<open>A request for bodies is best effort: whatever the server answers and whichever statement fails, the
  call only ever fails when the account's source cannot be resolved, with that very error.\<close>

lemma request_fails_only_at_source:
  assumes "request_bodies_inner link acc ids w = (Returned (Inl e), w')"
  shows "\<exists>n n'. bl_source link acc n = (Returned (Inl e), n')"
proof -
  let ?rest = "\<lambda>by_folder. io_bind (io_collect (request_folder link acc) (bl_order link by_folder)) (\<lambda>updates.
      io_bind (try_db (maybe_evict BODY_CACHE_CAP_ROWS)) (\<lambda>_ :: string + nat.
      if updates = [] then io_ret () else emit_bodies_written acc updates))"
  have rest: "lenient (?rest g)" for g
    by (auto intro!: lenient_intros lenient_folder)
  have no: "group_by_folder acc ids [] w \<noteq> (Returned (Inl e), w')" "try_net (bl_source link acc) s \<noteq> (Returned (Inl e), w')" for s
    using lenient_group [of acc ids "[]"] lenient_basic(3) [of "bl_source link acc"] by (auto simp: lenient_def)
  obtain g w1 where "try_net (bl_source link acc) w1 = (Returned (Inr (Inl e)), w')"
  proof -
    from assms obtain g w1 r w2 where 1: "try_net (bl_source link acc) w1 = (Returned (Inr r), w2)"
      and 2: "(case r of Inl e \<Rightarrow> io_fail e | Inr _ \<Rightarrow> ?rest g) w2 = (Returned (Inl e), w')"
      using no by (auto simp: request_bodies_inner_def res_simps io_ret_def split: if_splits)
    from 2 rest show thesis using 1 that by (cases r) (auto simp: io_fail_def lenient_def)
  qed
  then show ?thesis by (auto simp: try_net_def split: prod.splits panicky.splits)
qed

definition gone_source :: "(unit, unit) body_link" where
  "gone_source = \<lparr>bl_source = \<lambda>_. io_fail ''account a not found'', bl_config = \<lambda>_. io_ret None,
     bl_fetch_batch = \<lambda>_ _ _ _ _. io_ret [], bl_fetch_body = \<lambda>_ _. io_ret None, bl_order = id\<rparr>"

definition world_of :: "db \<Rightarrow> unit body_world" where
  "world_of d = \<lparr>bw_db = d, bw_net = (), bw_events = []\<rparr>"

definition synced_mail :: db where
  "synced_mail = read_mail\<lparr>t_messages := [\<lparr>ms_account = ''a'', ms_id = ''m1'', ms_thread = ''t1'', ms_is_read = 1,
     ms_is_starred = 0, ms_content = blank_message\<lparr>mc_body_cached := 1, mc_imap_uid := Some 7, mc_imap_folder := Some ''INBOX'',
     mc_snippet := Some ''See you at noon''\<rparr>\<rparr>]\<rparr>"

lemma synced_mail_simps [simp]:
  "healthy synced_mail" "get_folder_uid_for_message ''a'' ''m1'' synced_mail = (Returned (Inr (Some (''INBOX'', 7))), synced_mail)"
  by (simp_all add: healthy_def synced_mail_def read_mail_def mailbox_db_def empty_db_def get_folder_uid_for_message_def
      db_query_def db_stmt_def message_row_of_def blank_message_def)

lemma request_fails_only_at_source_witness:
  "\<exists>n n'. bl_source gone_source ''a'' n = (Returned (Inl ''account a not found''), n')"
proof -
  have "request_bodies_inner gone_source ''a'' [''m1''] (world_of synced_mail)
      = (Returned (Inl ''account a not found''), world_of synced_mail)"
    by (simp add: request_bodies_inner_def gone_source_def io_bind_def try_db_def try_net_def world_of_def io_ret_def io_fail_def)
  then show ?thesis by (rule request_fails_only_at_source)
qed

section \<open>The cache stays coherent\<close>

lemma keeps_bodies_stmt:
  assumes "\<And>d. bodies_ok d \<Longrightarrow> bodies_ok (snd (f d))" and "\<And>d. map message_key (t_messages (snd (f d))) = map message_key (t_messages d)"
  shows "io_keeps keeps_bodies (db_stmt f)"
  using assms by (intro keeps_stmt fault_blind_bodies keeps_bodiesI)

lemma keeps_bodies_update:
  assumes "\<And>d. bodies_ok d \<Longrightarrow> bodies_ok (u d)" and "\<And>d. map message_key (t_messages (u d)) = map message_key (t_messages d)"
  shows "io_keeps keeps_bodies (db_update u)"
  unfolding db_update_def using assms by (intro keeps_bodies_stmt) simp_all

lemma bodies_ok_map_message:
  assumes "\<And>c. mc_body_cached (f c) = mc_body_cached c"
  shows "bodies_ok (map_message acc mid f d) = bodies_ok d"
  unfolding map_message_def by (rule bodies_ok_map) (simp_all add: assms message_key_def)

lemma bodies_ok_map_thread: "bodies_ok d \<Longrightarrow> bodies_ok (map_thread acc tid f d)"
  unfolding map_thread_def
  by (rule bodies_ok_frame, assumption) (simp_all add: bodies_ok_def mailbox_ok_map_threads thread_key_def)

lemma bodies_ok_map_body:
  assumes "\<And>b. body_key (f b) = body_key b"
  shows "bodies_ok d \<Longrightarrow> bodies_ok (map_body acc mid f d)"
proof -
  assume ok: "bodies_ok d"
  have keys: "map body_key (t_bodies (map_body acc mid f d)) = map body_key (t_bodies d)"
    by (simp add: map_body_def assms comp_def if_distrib cong: if_cong)
  have "mailbox_ok (map_body acc mid f d) = mailbox_ok d"
  proof -
    have by_key: "list_all (\<lambda>b. has_message d (mb_account b) (mb_message b)) bs
        = list_all (\<lambda>(a, m). has_message d a m) (map body_key bs)" for bs
      by (simp add: list_all_iff body_key_def)
    have "list_all (\<lambda>b. has_message d (mb_account b) (mb_message b)) (t_bodies (map_body acc mid f d))
        = list_all (\<lambda>b. has_message d (mb_account b) (mb_message b)) (t_bodies d)"
      by (simp only: by_key keys)
    moreover have "has_message (map_body acc mid f d) = has_message d" "has_thread (map_body acc mid f d) = has_thread d"
      "t_messages (map_body acc mid f d) = t_messages d" "t_thread_labels (map_body acc mid f d) = t_thread_labels d"
      "t_attachments (map_body acc mid f d) = t_attachments d" "t_crypto_results (map_body acc mid f d) = t_crypto_results d"
      by (auto simp: map_body_def has_message_def has_thread_def fun_eq_iff)
    ultimately show ?thesis by (simp only: mailbox_ok_def)
  qed
  moreover have "t_messages (map_body acc mid f d) = t_messages d" by (simp add: map_body_def)
  ultimately show ?thesis using ok by (simp only: bodies_ok_def keys)
qed

lemma set_parts_keep:
  "io_keeps keeps_bodies (set_message_ciphertext acc mid bytes)" "io_keeps keeps_bodies (set_message_signed_part acc mid bytes)"
  unfolding set_message_ciphertext_def set_message_signed_part_def
  by (intro keeps_bodies_update bodies_ok_map_body; simp add: body_key_def map_body_def)+

lemma snippet_keeps: "io_keeps keeps_bodies (set_message_snippet acc mid s)"
  unfolding set_message_snippet_def
  by (intro keeps_transaction keeps_bind fault_blind_bodies keeps_bodies_stmt)
    (auto simp: bodies_ok_map_message intro!: keeps_bodies_update keeps_ret fault_blind_bodies bodies_ok_map_thread
      split: option.split, simp add: map_thread_def)

lemma crypto_flags_keep: "io_keeps keeps_bodies (set_message_crypto_flags acc mid x y)"
proof -
  have flags: "io_keeps keeps_bodies (when_set b (map_message acc mid (raise_flags p q)))" for b p q
    by (auto simp: when_set_def bodies_ok_map_message raise_flags_def intro!: keeps_bodies_update keeps_ret fault_blind_bodies)
  have threads: "io_keeps keeps_bodies (when_set b (map_thread acc t f))" for b t f
    unfolding when_set_def
    by (auto intro!: keeps_bodies_update keeps_ret fault_blind_bodies bodies_ok_map_thread) (simp add: map_thread_def)
  show ?thesis
    unfolding set_message_crypto_flags_def Let_def
    by (auto intro!: keeps_transaction keeps_bind keeps_query keeps_ret fault_blind_bodies flags threads split: option.split)
qed

lemma attachments_keep: "io_keeps keeps_bodies (upsert_attachments acc mid atts)"
proof -
  have prune: "mailbox_ok (d\<lparr>t_attachments := filter p (t_attachments d)\<rparr>)" if "mailbox_ok d" for d p
    using that by (auto simp: mailbox_ok_def list_all_iff has_thread_def has_message_def)
  have add: "mailbox_ok (d\<lparr>t_attachments := filter p (t_attachments d) @ [attachment_of acc mid att]\<rparr>)"
    if "mailbox_ok d" "has_message d acc mid" for d p att
    using that by (auto simp: mailbox_ok_def list_all_iff has_thread_def has_message_def attachment_of_def)
  have "io_keeps keeps_bodies (replace_attachment acc mid att)" for att
    unfolding replace_attachment_def Let_def
    by (intro keeps_bind fault_blind_bodies keeps_bodies_stmt)
      (auto simp: bodies_ok_def add io_keeps_lift fault_blindD(1) [OF fault_blind_bodies])
  then show ?thesis
    unfolding upsert_attachments_def
    by (intro keeps_transaction keeps_bind keeps_each fault_blind_bodies keeps_bodies_update)
      (auto simp: bodies_ok_def prune)
qed

definition request_keeps :: "'w body_world \<Rightarrow> 'w body_world \<Rightarrow> bool" where
  "request_keeps w w' \<longleftrightarrow> keeps_bodies (bw_db w) (bw_db w')"

lemma request_keeps_order: "request_keeps w w" "request_keeps a b \<Longrightarrow> request_keeps b c \<Longrightarrow> request_keeps a c"
  by (auto simp: request_keeps_def keeps_bodies_def)

named_theorems request_intros

lemma request_keeps_basic [request_intros]:
  "io_keeps request_keeps (io_ret x)" "io_keeps request_keeps (io_fail e)" "io_keeps request_keeps (try_net n)"
  "io_keeps request_keeps (emit_bodies_written acc us)"
  by (auto simp: io_keeps_def io_ret_def io_fail_def try_net_def emit_bodies_written_def request_keeps_order
      request_keeps_def keeps_bodies_def split: prod.split panicky.split)

lemma request_keeps_db [request_intros]: "io_keeps keeps_bodies m \<Longrightarrow> io_keeps request_keeps (try_db m)"
  unfolding io_keeps_def request_keeps_def try_db_def
  by (auto split: prod.split panicky.split) (metis snd_conv)+

lemma request_keeps_bind [request_intros]:
  "io_keeps request_keeps m \<Longrightarrow> (\<And>x. io_keeps request_keeps (f x)) \<Longrightarrow> io_keeps request_keeps (io_bind m f)"
  by (rule io_keeps_bind) (auto intro: request_keeps_order)

lemma request_keeps_loops [request_intros]:
  "(\<And>x. io_keeps request_keeps (g x)) \<Longrightarrow> io_keeps request_keeps (io_collect g xs)"
  "(\<And>x. io_keeps request_keeps (h x)) \<Longrightarrow> io_keeps request_keeps (io_each h xs)"
  by (induction xs) (auto intro: request_intros)

lemma request_keeps_some [request_intros]:
  "(\<And>x. io_keeps keeps_bodies (f x)) \<Longrightarrow> io_keeps request_keeps (try_some x f)"
  by (auto simp: try_some_def intro: request_intros split: option.split)

lemma queries_keep:
  "io_keeps keeps_bodies (get_folder_uid_for_message acc mid)" "io_keeps keeps_bodies (get_thread_id_for_message acc mid)"
  unfolding get_folder_uid_for_message_def get_thread_id_for_message_def by (intro keeps_query fault_blind_bodies)+

text \<open>A request for bodies keeps the cache coherent, whatever is fetched and whichever statement fails:
  afterwards, as before, exactly the messages that have a body say so.\<close>

lemma request_keeps_cache_coherent:
  assumes "bodies_ok (bw_db w)" and "ids_owned (bw_db w)"
  shows "bodies_ok (bw_db (snd (request_bodies_inner link acc ids w)))"
proof -
  note [request_intros] = set_body_keeps set_parts_keep snippet_keeps crypto_flags_keep attachments_keep queries_keep maybe_evict_keeps
  have "io_keeps request_keeps (group_by_folder acc ids gs :: ('w, _) body_io)" for gs
    by (induction acc ids gs rule: group_by_folder.induct) (auto intro!: request_intros)
  moreover have "io_keeps request_keeps (request_folder link acc p)" for p
    unfolding request_folder_def persist_batch_def persist_fetched_def fetch_one_def
    by (auto intro!: request_intros split: prod.split sum.split option.split)
  ultimately have "io_keeps request_keeps (request_bodies_inner link acc ids)"
    unfolding request_bodies_inner_def by (auto intro!: request_intros split: sum.split)
  with assms show ?thesis by (simp add: io_keeps_def request_keeps_def keeps_bodies_def)
qed

definition one_body :: "fetched_body" where
  "one_body = \<lparr>fb_uid = 7, fb_body_html = None, fb_body_text = None, fb_snippet = ''Hi'', fb_attachments = [],
     fb_raw_ciphertext = Some [1], fb_raw_signed_part = None\<rparr>"

definition imap_source :: "(unit, unit) body_link" where
  "imap_source = gone_source\<lparr>bl_source := \<lambda>_. io_ret (), bl_config := \<lambda>_. io_ret (Some ()),
     bl_fetch_batch := \<lambda>_ _ _ _ _. io_ret [one_body]\<rparr>"

lemma synced_mail_ok: "bodies_ok synced_mail" "ids_owned synced_mail"
  by (simp_all add: synced_mail_def read_mail_def mailbox_db_def empty_db_def bodies_ok_def mailbox_ok_def has_thread_def
      has_message_def ids_owned_def message_key_def body_key_def blank_message_def)

lemma request_keeps_cache_coherent_witness:
  "bodies_ok (bw_db (snd (request_bodies_inner imap_source ''a'' [''m1''] (world_of synced_mail))))"
  by (rule request_keeps_cache_coherent) (simp_all add: world_of_def synced_mail_ok)

section \<open>A body fetched one by one\<close>

lemma set_body_run:
  assumes "healthy d" and "has_message d acc mid"
  shows "\<exists>bs. set_message_body acc mid html d = (Returned (Inr ()), set_body_cached acc mid 1 (d\<lparr>t_bodies := bs\<rparr>))"
proof -
  obtain bs where "replace_body acc mid html d = (Returned (Inr ()), d\<lparr>t_bodies := bs\<rparr>)"
    using assms by (simp add: replace_body_def io_bind_def db_stmt_healthy io_lift_def io_ret_def)
  moreover have "healthy (d\<lparr>t_bodies := bs\<rparr>)" "healthy (set_body_cached acc mid 1 (d\<lparr>t_bodies := bs\<rparr>))"
    using assms(1) by (simp_all add: healthy_def set_body_cached_def map_message_def)
  ultimately have "set_message_body acc mid html d = (Returned (Inr ()), set_body_cached acc mid 1 (d\<lparr>t_bodies := bs\<rparr>))"
    unfolding set_message_body_def using assms(1)
    by (intro db_transaction_healthy) (simp_all add: io_bind_def db_update_healthy)
  then show ?thesis by blast
qed

definition snippet_of :: "message_row \<Rightarrow> (string \<times> string) \<times> string option" where
  "snippet_of r = (message_key r, mc_snippet (ms_content r))"

lemma set_snippet_run:
  assumes "healthy d"
  shows "\<exists>d'. set_message_snippet acc mid s d = (Returned (Inr ()), d') \<and> healthy d' \<and>
    t_messages d' = t_messages (map_message acc mid (\<lambda>c. c\<lparr>mc_snippet := Some s\<rparr>) d)"
proof -
  let ?d = "map_message acc mid (\<lambda>c. c\<lparr>mc_snippet := Some s\<rparr>) d"
  let ?e = "case map_option ms_thread (message_row_of acc mid d) of None \<Rightarrow> ?d | Some t \<Rightarrow> map_thread acc t (\<lambda>c. c\<lparr>tc_snippet := Some s\<rparr>) ?d"
  have d: "healthy ?d" "healthy ?e" using assms by (simp_all add: healthy_def map_message_def map_thread_def split: option.split)
  then have "set_message_snippet acc mid s d = (Returned (Inr ()), ?e)"
    unfolding set_message_snippet_def using assms
    by (intro db_transaction_healthy)
      (simp_all add: io_bind_def db_stmt_healthy db_update_healthy io_ret_def split: option.split)
  with d show ?thesis by (auto simp: map_thread_def split: option.split)
qed

lemma evict_keeps_snippets:
  "io_keeps (\<lambda>d d'. map snippet_of (t_messages d') = map snippet_of (t_messages d)) (maybe_evict cap)"
proof -
  have blind: "fault_blind (\<lambda>d d'. map snippet_of (t_messages d') = map snippet_of (t_messages d))"
    by (auto simp: fault_blind_def)
  show ?thesis
    unfolding maybe_evict_def delete_oldest_def
    by (auto intro!: keeps_bind keeps_query keeps_ret keeps_transaction keeps_each keeps_update keeps_stmt blind
        simp: uncache_def snippet_of_def message_key_def Let_def)
qed

lemma mapped_content:
  assumes "q \<in> set (t_messages (map_message acc mid (\<lambda>c. c\<lparr>mc_snippet := Some s\<rparr>) d))" and "message_key q = (acc, mid)"
  shows "mc_snippet (ms_content q) = Some s"
proof -
  from assms(1) have "q \<in> (\<lambda>r. if ms_account r = acc \<and> ms_id r = mid
      then r\<lparr>ms_content := (ms_content r)\<lparr>mc_snippet := Some s\<rparr>\<rparr> else r) ` set (t_messages d)"
    by (simp add: map_message_def)
  then obtain r where "q = (if ms_account r = acc \<and> ms_id r = mid
      then r\<lparr>ms_content := (ms_content r)\<lparr>mc_snippet := Some s\<rparr>\<rparr> else r)" by (rule imageE)
  with assms(2) show ?thesis by (cases "ms_account r = acc \<and> ms_id r = mid") (auto simp: message_key_def)
qed

text \<open>Opening a mail of an account without IMAP loses its preview. The fallback writes an empty snippet after
  the body, for want of a preview, although the header synchronisation of such an account has stored one.\<close>

lemma body_fetch_erases_preview:
  assumes "healthy (bw_db w)" and "has_message (bw_db w) acc mid"
    and "get_folder_uid_for_message acc mid (bw_db w) = (Returned (Inr (Some (folder, uid))), bw_db w)"
    and "bl_source link acc (bw_net w) = (Returned (Inr ()), n1)"
    and "bl_config link folder n1 = (Returned (Inr None), n2)"
    and "bl_fetch_body link (fallback_folder folder) uid n2 = (Returned (Inr (Some html)), n3)"
    and "bl_order link [(folder, [(mid, uid)])] = [(folder, [(mid, uid)])]"
  shows "\<exists>w'. request_bodies_inner link acc [mid] w = (Returned (Inr ()), w') \<and>
    (\<forall>r \<in> set (t_messages (bw_db w')). message_key r = (acc, mid) \<longrightarrow> mc_snippet (ms_content r) = Some [])"
proof -
  obtain bs where 1: "set_message_body acc mid html (bw_db w) = (Returned (Inr ()), set_body_cached acc mid 1 ((bw_db w)\<lparr>t_bodies := bs\<rparr>))"
    using set_body_run [OF assms(1,2)] by blast
  have "healthy (set_body_cached acc mid 1 ((bw_db w)\<lparr>t_bodies := bs\<rparr>))"
    using assms(1) by (simp add: healthy_def set_body_cached_def map_message_def)
  then obtain d2 where 2: "set_message_snippet acc mid [] (set_body_cached acc mid 1 ((bw_db w)\<lparr>t_bodies := bs\<rparr>)) = (Returned (Inr ()), d2)"
    "healthy d2" "t_messages d2 = t_messages (map_message acc mid (\<lambda>c. c\<lparr>mc_snippet := Some []\<rparr>) (set_body_cached acc mid 1 ((bw_db w)\<lparr>t_bodies := bs\<rparr>)))"
    using set_snippet_run by blast
  obtain r3 d3 where 3: "maybe_evict BODY_CACHE_CAP_ROWS d2 = (r3, d3)" by fastforce
  have "d3 = snd (maybe_evict BODY_CACHE_CAP_ROWS d2)" "r3 \<noteq> Panicked"
  proof -
    show "d3 = snd (maybe_evict BODY_CACHE_CAP_ROWS d2)" using 3 by simp
    have "maybe_evict BODY_CACHE_CAP_ROWS d2 \<noteq> (Panicked, d3)"
      by (auto simp: maybe_evict_def io_bind_Panicked_iff io_ret_def db_transaction_def delete_oldest_def doesD(1) [OF does_uncache]
          split: prod.splits panicky.splits sum.splits)
    with 3 show "r3 \<noteq> Panicked" by auto
  qed
  let ?w = "w\<lparr>bw_db := d3, bw_net := n3\<rparr>"
  from \<open>r3 \<noteq> Panicked\<close> obtain q where q: "r3 = Returned q" by (cases r3) auto
  have "request_bodies_inner link acc [mid] w = (Returned (Inr ()), ?w)"
    by (simp add: request_bodies_inner_def io_bind_def try_db_def try_net_def assms request_folder_def fetch_one_def 1 2 3 q io_ret_def)
  moreover have "map snippet_of (t_messages d3) = map snippet_of (t_messages d2)"
    by (rule io_keepsD [OF evict_keeps_snippets 3])
  then have "set (map snippet_of (t_messages d3)) = set (map snippet_of (t_messages d2))" by simp
  then have "mc_snippet (ms_content r) = Some []" if r: "r \<in> set (t_messages d3)" "message_key r = (acc, mid)" for r
  proof -
    from r(1) have "snippet_of r \<in> set (map snippet_of (t_messages d3))" by simp
    also have "\<dots> = set (map snippet_of (t_messages d2))" by fact
    finally obtain q where q: "q \<in> set (t_messages d2)" "snippet_of r = snippet_of q" by auto
    with r(2) have "message_key q = (acc, mid)" by (simp add: snippet_of_def)
    with q(1) have "mc_snippet (ms_content q) = Some []" unfolding 2(3) by (rule mapped_content)
    with q(2) show ?thesis by (simp add: snippet_of_def)
  qed
  ultimately show ?thesis by (intro exI [of _ ?w]) simp
qed

definition eas_account :: "(unit, unit) body_link" where
  "eas_account = gone_source\<lparr>bl_source := \<lambda>_. io_ret (), bl_fetch_body := \<lambda>_ _. io_ret (Some ''See you at noon. Bring cake.'')\<rparr>"

lemma body_fetch_erases_preview_witness:
  "map (\<lambda>r. mc_snippet (ms_content r)) (t_messages synced_mail) = [Some ''See you at noon''] \<and>
   (\<exists>w'. request_bodies_inner eas_account ''a'' [''m1''] (world_of synced_mail) = (Returned (Inr ()), w') \<and>
     (\<forall>r \<in> set (t_messages (bw_db w')). message_key r = (''a'', ''m1'') \<longrightarrow> mc_snippet (ms_content r) = Some []))"
proof
  show "map (\<lambda>r. mc_snippet (ms_content r)) (t_messages synced_mail) = [Some ''See you at noon'']"
    by (simp add: synced_mail_def)
  show "\<exists>w'. request_bodies_inner eas_account ''a'' [''m1''] (world_of synced_mail) = (Returned (Inr ()), w') \<and>
     (\<forall>r \<in> set (t_messages (bw_db w')). message_key r = (''a'', ''m1'') \<longrightarrow> mc_snippet (ms_content r) = Some [])"
    by (rule body_fetch_erases_preview)
      (simp_all add: eas_account_def gone_source_def world_of_def io_ret_def, simp add: synced_mail_def has_message_def)
qed

text \<open>When the IMAP configuration of a folder cannot be had, the log promises to fall back to fetching message by
  message, but nothing is fetched and nothing stored.\<close>

lemma failed_config_fetches_nothing:
  assumes "healthy (bw_db w)" and "int (length (t_bodies (bw_db w))) \<le> BODY_CACHE_CAP_ROWS"
    and "get_folder_uid_for_message acc mid (bw_db w) = (Returned (Inr (Some (folder, uid))), bw_db w)"
    and "bl_source link acc (bw_net w) = (Returned (Inr ()), n1)"
    and "bl_config link folder n1 = (Returned (Inl e), n2)"
    and "bl_order link [(folder, [(mid, uid)])] = [(folder, [(mid, uid)])]"
  shows "request_bodies_inner link acc [mid] w = (Returned (Inr ()), w\<lparr>bw_net := n2\<rparr>)"
proof -
  have "maybe_evict BODY_CACHE_CAP_ROWS (bw_db w) = (Returned (Inr 0), bw_db w)"
    using assms(2) by (simp add: maybe_evict_def io_bind_def db_query_healthy [OF assms(1)] io_ret_def)
  then show ?thesis
    by (simp add: request_bodies_inner_def io_bind_def try_db_def try_net_def assms request_folder_def io_ret_def)
qed

lemma failed_config_fetches_nothing_witness:
  "request_bodies_inner (eas_account\<lparr>bl_config := \<lambda>_. io_fail ''no password''\<rparr>) ''a'' [''m1''] (world_of synced_mail)
     = (Returned (Inr ()), (world_of synced_mail)\<lparr>bw_net := ()\<rparr>)"
  by (rule failed_config_fetches_nothing)
    (simp_all add: eas_account_def gone_source_def world_of_def io_ret_def io_fail_def BODY_CACHE_CAP_ROWS_def,
      simp add: synced_mail_def read_mail_def)

end
