(* ===== verification/Vault.thy ===== *)
theory Vault
  imports Rust_Std
begin

text \<open>
  \<open>crypto.rs\<close>: sealing secrets at rest under the master key of the operating system's keyring. The keyring, the
  random generator, AES-256-GCM and the hexadecimal coder are parameters.
\<close>

section \<open>The master key\<close>

datatype vault_error =
    KeyLockPoisoned
  | KeyringError string
  | DecodeError string
  | CiphertextTooShort
  | UnsupportedVersion u8
  | AeadError string

fun vault_error_display :: "vault_error \<Rightarrow> string" where
  "vault_error_display KeyLockPoisoned = ''master key lock poisoned''"
| "vault_error_display (KeyringError e) = ''keyring error: '' @ e"
| "vault_error_display (DecodeError e) = ''hex decode error: '' @ e"
| "vault_error_display CiphertextTooShort = ''ciphertext too short''"
| "vault_error_display (UnsupportedVersion b) = ''unsupported vault version byte: '' @ dec_string (unat b)"
| "vault_error_display (AeadError e) = ''aes-gcm error: '' @ e"

definition VAULT_VERSION_V1 :: u8 where "VAULT_VERSION_V1 = 1"
definition NONCE_LEN :: nat where "NONCE_LEN = 12"

text \<open>What the process and the keyring hold: the cached key, whether a panicking thread has poisoned the lock, the
  stored password, the errors that the keyring answers with, and the random bytes drawn next.\<close>

record keyring =
  kg_cached :: "u8 list option"
  kg_poisoned :: bool
  kg_entry :: "string option"
  kg_open_error :: "string option"
  kg_get_error :: "string option"
  kg_set_error :: "string option"
  kg_random :: "u8 list"

record coder =
  co_hex_encode :: "u8 list \<Rightarrow> string"
  co_hex_decode :: "string \<Rightarrow> string + u8 list"

definition decode_to_slice :: "coder \<Rightarrow> string \<Rightarrow> string + u8 list" where
  "decode_to_slice co s =
     res_bind (co_hex_decode co s) (\<lambda>k. if length k = 32 then Inr k else Inl ''Invalid string length'')"

definition load_or_create_master_key :: "coder \<Rightarrow> (keyring, vault_error, u8 list) io" where
  "load_or_create_master_key co kr =
     (case kg_open_error kr of
        Some e \<Rightarrow> (Returned (Inl (KeyringError e)), kr)
      | None \<Rightarrow>
          (case kg_get_error kr of
             Some e \<Rightarrow> (Returned (Inl (KeyringError e)), kr)
           | None \<Rightarrow>
               (case kg_entry kr of
                  Some hex_key \<Rightarrow> (Returned (map_err DecodeError (decode_to_slice co hex_key)), kr)
                | None \<Rightarrow>
                    (case kg_set_error kr of
                       Some e \<Rightarrow> (Returned (Inl (KeyringError e)), kr)
                     | None \<Rightarrow> (Returned (Inr (kg_random kr)), kr\<lparr>kg_entry := Some (co_hex_encode co (kg_random kr))\<rparr>)))))"

definition acquire_key :: "coder \<Rightarrow> (keyring, vault_error, u8 list) io" where
  "acquire_key co kr =
     (if kg_poisoned kr then (Returned (Inl KeyLockPoisoned), kr)
      else (case kg_cached kr of
              Some k \<Rightarrow> (Returned (Inr k), kr)
            | None \<Rightarrow>
                (case load_or_create_master_key co kr of
                   (Returned (Inr k), kr') \<Rightarrow> (Returned (Inr k), kr'\<lparr>kg_cached := Some k\<rparr>)
                 | r \<Rightarrow> r)))"

text \<open>The key is made once: whoever asked for it first, later calls of this process and of the next one (which
  starts without the cache) get the same key, whatever the random generator would draw then.\<close>

lemma master_key_stable:
  assumes hex: "\<And>k. co_hex_decode co (co_hex_encode co k) = Inr k" and "length (kg_random kr) = 32"
    and run: "acquire_key co kr = (Returned (Inr k), kr')"
  shows "fst (acquire_key co (kr'\<lparr>kg_random := r\<rparr>)) = Returned (Inr k)"
    and "kg_cached kr = None \<Longrightarrow> kg_open_error kr = None \<Longrightarrow>
      fst (acquire_key co (kr'\<lparr>kg_cached := None, kg_random := r\<rparr>)) = Returned (Inr k)"
proof -
  from run show "fst (acquire_key co (kr'\<lparr>kg_random := r\<rparr>)) = Returned (Inr k)"
    by (auto simp: acquire_key_def load_or_create_master_key_def split: if_splits option.splits prod.splits panicky.splits sum.splits)
  from run show "fst (acquire_key co (kr'\<lparr>kg_cached := None, kg_random := r\<rparr>)) = Returned (Inr k)"
    if "kg_cached kr = None" "kg_open_error kr = None"
    using that assms(2)
    by (auto simp: acquire_key_def load_or_create_master_key_def decode_to_slice_def hex
        split: if_splits option.splits prod.splits panicky.splits sum.splits)
qed

section \<open>Sealing\<close>

text \<open>One call: the key that \<open>acquire_key\<close> gave it or its error, the nonce it draws, and the cipher.\<close>

record vault =
  va_coder :: coder
  va_key :: "vault_error + u8 list"
  va_nonce :: "u8 list"
  va_seal :: "u8 list \<Rightarrow> u8 list \<Rightarrow> u8 list \<Rightarrow> u8 list \<Rightarrow> string + u8 list"
  va_open :: "u8 list \<Rightarrow> u8 list \<Rightarrow> u8 list \<Rightarrow> u8 list \<Rightarrow> string + u8 list"

definition full_aad :: "u8 list \<Rightarrow> u8 list" where
  "full_aad aad = VAULT_VERSION_V1 # aad"

definition encrypt_with_aad :: "vault \<Rightarrow> u8 list \<Rightarrow> u8 list \<Rightarrow> vault_error + string" where
  "encrypt_with_aad v plaintext aad =
     res_bind (va_key v) (\<lambda>key.
     res_bind (map_err AeadError (va_seal v key (va_nonce v) (full_aad aad) plaintext)) (\<lambda>ciphertext.
     Inr (co_hex_encode (va_coder v) (VAULT_VERSION_V1 # va_nonce v @ ciphertext))))"

definition decrypt_with_aad :: "vault \<Rightarrow> string \<Rightarrow> u8 list \<Rightarrow> vault_error + u8 list" where
  "decrypt_with_aad v blob_hex aad =
     res_bind (map_err DecodeError (co_hex_decode (va_coder v) blob_hex)) (\<lambda>raw.
     if length raw < 1 + NONCE_LEN + 16 then Inl CiphertextTooShort
     else if hd raw \<noteq> VAULT_VERSION_V1 then Inl (UnsupportedVersion (hd raw))
     else res_bind (va_key v) (\<lambda>key.
          map_err AeadError (va_open v key (take NONCE_LEN (tl raw)) (full_aad aad) (drop (1 + NONCE_LEN) raw))))"

text \<open>The older form without a version byte and without associated data.\<close>

definition encrypt_legacy :: "vault \<Rightarrow> u8 list \<Rightarrow> vault_error + string" where
  "encrypt_legacy v plaintext =
     res_bind (va_key v) (\<lambda>key.
     res_bind (map_err AeadError (va_seal v key (va_nonce v) [] plaintext)) (\<lambda>ciphertext.
     Inr (co_hex_encode (va_coder v) (va_nonce v @ ciphertext))))"

definition decrypt_legacy :: "vault \<Rightarrow> string \<Rightarrow> vault_error + u8 list" where
  "decrypt_legacy v ciphertext_hex =
     res_bind (va_key v) (\<lambda>key.
     res_bind (map_err DecodeError (co_hex_decode (va_coder v) ciphertext_hex)) (\<lambda>combined.
     if length combined < NONCE_LEN + 16 then Inl CiphertextTooShort
     else map_err AeadError (va_open v key (take NONCE_LEN combined) [] (drop NONCE_LEN combined))))"

definition vault_encrypt :: "vault \<Rightarrow> string \<Rightarrow> string + string" where
  "vault_encrypt v plaintext = map_err vault_error_display (encrypt_legacy v (as_bytes plaintext))"

definition vault_decrypt :: "vault \<Rightarrow> string \<Rightarrow> string + string" where
  "vault_decrypt v ciphertext_hex =
     res_bind (map_err vault_error_display (decrypt_legacy v ciphertext_hex)) (\<lambda>bytes.
     case from_utf8 bytes of Some s \<Rightarrow> Inr s | None \<Rightarrow> Inl ''invalid utf-8 sequence'')"

section \<open>What is sealed can be opened\<close>

text \<open>The documented behaviour of the parameters: hexadecimal text decodes to what was encoded; the cipher has a
  16-byte tag and opens what it sealed under the same key, nonce and associated data.\<close>

definition coder_ok :: "coder \<Rightarrow> bool" where
  "coder_ok co \<longleftrightarrow> (\<forall>x. co_hex_decode co (co_hex_encode co x) = Inr x) \<and> (\<forall>x. x \<noteq> [] \<longrightarrow> co_hex_encode co x \<noteq> [])
     \<and> (\<forall>x. co_hex_encode co x \<in> {s. utf8_string s})"

definition aead_ok :: "vault \<Rightarrow> bool" where
  "aead_ok v \<longleftrightarrow> coder_ok (va_coder v) \<and> (\<exists>k. va_key v = Inr k) \<and> length (va_nonce v) = NONCE_LEN \<and>
     (\<forall>k n a m. \<exists>c. va_seal v k n a m = Inr c \<and> length c = length m + 16 \<and> va_open v k n a c = Inr m)"

lemma decrypt_encrypt:
  assumes "aead_ok v" and "encrypt_with_aad v m aad = Inr s"
  shows "decrypt_with_aad (v\<lparr>va_nonce := n\<rparr>) s aad = Inr m"
    and "s \<noteq> []"
proof -
  obtain key c where key: "va_key v = Inr key" "va_seal v key (va_nonce v) (full_aad aad) m = Inr c"
      "length c = length m + 16" "va_open v key (va_nonce v) (full_aad aad) c = Inr m"
    using assms(1) unfolding aead_ok_def by blast
  from assms(2) key have s: "s = co_hex_encode (va_coder v) (VAULT_VERSION_V1 # va_nonce v @ c)"
    by (simp add: encrypt_with_aad_def)
  have len: "length (va_nonce v) = NONCE_LEN" and hex: "\<And>x. co_hex_decode (va_coder v) (co_hex_encode (va_coder v) x) = Inr x"
    "\<And>x. x \<noteq> [] \<Longrightarrow> co_hex_encode (va_coder v) x \<noteq> []"
    using assms(1) by (auto simp: aead_ok_def coder_ok_def)
  show "decrypt_with_aad (v\<lparr>va_nonce := n\<rparr>) s aad = Inr m"
    using key len by (simp add: decrypt_with_aad_def s hex)
  show "s \<noteq> []" unfolding s by (rule hex) simp
qed

lemma decrypt_legacy_encrypt:
  assumes "aead_ok v" and "encrypt_legacy v m = Inr s"
  shows "decrypt_legacy (v\<lparr>va_nonce := n\<rparr>) s = Inr m"
proof -
  obtain key c where key: "va_key v = Inr key" "va_seal v key (va_nonce v) [] m = Inr c"
      "length c = length m + 16" "va_open v key (va_nonce v) [] c = Inr m"
    using assms(1) unfolding aead_ok_def by blast
  moreover have "length (va_nonce v) = NONCE_LEN" "\<And>x. co_hex_decode (va_coder v) (co_hex_encode (va_coder v) x) = Inr x"
    using assms(1) by (auto simp: aead_ok_def coder_ok_def)
  ultimately show ?thesis using assms(2) by (auto simp: encrypt_legacy_def decrypt_legacy_def)
qed

lemma aead_seals: "aead_ok v \<Longrightarrow> \<exists>s. encrypt_with_aad v m aad = Inr s"
proof -
  assume "aead_ok v"
  then obtain k c where "va_key v = Inr k" "va_seal v k (va_nonce v) (full_aad aad) m = Inr c"
    unfolding aead_ok_def by blast
  then show ?thesis by (simp add: encrypt_with_aad_def)
qed

section \<open>A concrete coder and cipher\<close>

definition hex_digit :: "nat \<Rightarrow> char" where
  "hex_digit d = (if d < 10 then char_of (48 + d) else char_of (87 + d))"

definition hex_value :: "char \<Rightarrow> nat option" where
  "hex_value c = (let n = of_char c in
     if 48 \<le> n \<and> n \<le> 57 then Some (n - 48) else if 97 \<le> n \<and> n \<le> 102 then Some (n - 87)
     else if 65 \<le> n \<and> n \<le> 70 then Some (n - 55) else None)"

fun hex_bytes :: "string \<Rightarrow> string + u8 list" where
  "hex_bytes [] = Inr []"
| "hex_bytes [_] = Inl ''Odd number of digits''"
| "hex_bytes (a # b # cs) =
     (case (hex_value a, hex_value b) of
        (Some x, Some y) \<Rightarrow> map_sum id ((#) (of_nat (16 * x + y))) (hex_bytes cs)
      | _ \<Rightarrow> Inl ''Invalid character'')"

definition hex_coder :: coder where
  "hex_coder = \<lparr>co_hex_encode = concat \<circ> map (\<lambda>b. [hex_digit (unat b div 16), hex_digit (unat b mod 16)]),
     co_hex_decode = hex_bytes\<rparr>"

lemma hex_value_digit: "d < 16 \<Longrightarrow> hex_value (hex_digit d) = Some d"
  by (auto simp: hex_value_def hex_digit_def Let_def)

lemma hex_coder_decode: "co_hex_decode hex_coder (co_hex_encode hex_coder x) = Inr x"
proof -
  have "hex_bytes (concat (map (\<lambda>b. [hex_digit (unat b div 16), hex_digit (unat b mod 16)]) x)) = Inr x"
  proof (induction x)
    case (Cons b x)
    have "unat b < 256" using unsigned_less [of b] by simp
    then have "hex_value (hex_digit (unat b div 16)) = Some (unat b div 16)" "hex_value (hex_digit (unat b mod 16)) = Some (unat b mod 16)"
      by (simp_all add: hex_value_digit less_mult_imp_div_less)
    moreover have "word_of_nat (16 * (unat b div 16) + unat b mod 16) = b"
      by (simp only: mult_div_mod_eq) simp
    ultimately show ?case using Cons.IH by simp
  qed simp
  then show ?thesis by (simp add: hex_coder_def)
qed

text \<open>A cipher for the witnesses: it hides nothing, but it has the shape of one.\<close>

definition sample_vault :: vault where
  "sample_vault = \<lparr>va_coder = hex_coder, va_key = Inr (replicate 32 0), va_nonce = replicate 12 0,
     va_seal = (\<lambda>k n a m. Inr (m @ replicate 16 0)), va_open = (\<lambda>k n a c. Inr (take (length c - 16) c))\<rparr>"

lemma hex_encode_ascii: "c \<in> set (co_hex_encode hex_coder x) \<Longrightarrow> of_char c < (128 :: nat)"
proof -
  have digit: "of_char (hex_digit d) < (128 :: nat)" if "d < 16" for d
    using that by (auto simp: hex_digit_def)
  assume "c \<in> set (co_hex_encode hex_coder x)"
  then obtain b where "c = hex_digit (unat (b :: u8) div 16) \<or> c = hex_digit (unat b mod 16)"
    by (auto simp: hex_coder_def)
  moreover have "unat b < 256" using unsigned_less [of b] by simp
  ultimately show ?thesis using digit [of "unat b div 16"] digit [of "unat b mod 16"]
    by (auto simp: less_mult_imp_div_less)
qed

lemma hex_coder_ok: "coder_ok hex_coder"
  unfolding coder_ok_def
proof (intro conjI allI impI)
  show "co_hex_decode hex_coder (co_hex_encode hex_coder x) = Inr x" for x by (rule hex_coder_decode)
  show "co_hex_encode hex_coder x \<noteq> []" if "x \<noteq> []" for x using that by (cases x) (simp_all add: hex_coder_def)
  show "co_hex_encode hex_coder x \<in> {s. utf8_string s}" for x
    using hex_encode_ascii by (auto intro!: utf8_string_ascii simp: list_all_iff)
qed

lemma sample_vault_ok: "aead_ok sample_vault"
  using hex_coder_ok by (simp add: aead_ok_def sample_vault_def NONCE_LEN_def)

end
