(* ===== verification/Crypto_Keys.thy ===== *)
theory Crypto_Keys
  imports Bodies Crypto_Types Vault "HOL-Library.List_Lexorder" "HOL-Library.Char_ord"
begin

text \<open>
  \<open>db/crypto_keys.rs\<close> with \<open>db/trust_decisions.rs\<close>, \<open>db/message_crypto_results.rs\<close> and \<open>db/crl_cache.rs\<close>: the
  tables of the cryptographic part. A key is unique per account, standard and fingerprint.
\<close>

section \<open>Keys\<close>

record crypto_key_info =
  ki_id :: string
  ki_account_id :: string
  ki_standard :: string
  ki_key_type :: string
  ki_email :: "string option"
  ki_fingerprint :: string
  ki_origin :: string
  ki_is_default_sign :: bool
  ki_is_default_encrypt :: bool
  ki_created_at :: string
  ki_expires_at :: "string option"
  ki_has_private :: bool
  ki_token_serial :: "string option"
  ki_token_key_id :: "string option"

record crypto_key_record =
  kc_row :: crypto_key_info
  kc_public_data :: string
  kc_private_data :: "string option"
  kc_policy_json :: "json_text option"

text \<open>What the statements depend on beyond the tables: the vault, the identifier drawn for a new row, and the order
  in which a query without (or with an ambiguous) ORDER BY meets the rows.\<close>

record key_env =
  ke_vault :: vault
  ke_uuid :: string
  ke_scan :: "crypto_key_row list \<Rightarrow> crypto_key_row list"

definition row_to_crypto_key :: "crypto_key_row \<Rightarrow> crypto_key_info" where
  "row_to_crypto_key r = \<lparr>ki_id = ck_id r, ki_account_id = ck_account r, ki_standard = ck_standard r,
     ki_key_type = ck_key_type r, ki_email = ck_email r, ki_fingerprint = ck_fingerprint r, ki_origin = ck_origin r,
     ki_is_default_sign = (ck_is_default_sign r \<noteq> 0), ki_is_default_encrypt = (ck_is_default_encrypt r \<noteq> 0),
     ki_created_at = ck_created_at r, ki_expires_at = ck_expires_at r, ki_has_private = (ck_private_data_enc r \<noteq> None),
     ki_token_serial = ck_token_serial r, ki_token_key_id = ck_token_key_id r\<rparr>"

definition PRIVATE_KEY_AAD_VERSION :: nat where "PRIVATE_KEY_AAD_VERSION = 1"

definition private_aad :: "string \<Rightarrow> string" where
  "private_aad acc = ''kylins:'' @ acc @ '':private_key:'' @ dec_string PRIVATE_KEY_AAD_VERSION"

definition check_failed :: string where
  "check_failed = ''error returned from database: (code: 275) CHECK constraint failed''"

definition id_taken :: string where
  "id_taken = ''error returned from database: (code: 1555) UNIQUE constraint failed: crypto_keys.id''"

definition same_key :: "crypto_key_row \<Rightarrow> crypto_key_row \<Rightarrow> bool" where
  "same_key r q \<longleftrightarrow> ck_account q = ck_account r \<and> ck_standard q = ck_standard r \<and> ck_fingerprint q = ck_fingerprint r"

definition key_row_valid :: "crypto_key_row \<Rightarrow> bool" where
  "key_row_valid r \<longleftrightarrow>
     ck_standard r \<in> {''openpgp'', ''smime'', ''sm''} \<and>
     ck_key_type r \<in> {''public'', ''private'', ''cert'', ''intermediate''} \<and>
     ck_origin r \<in> {''generated'', ''imported'', ''wkd'', ''keyserver'', ''autocrypt'', ''contact'', ''p12-intermediate''}"

text \<open>\<open>INSERT .. ON CONFLICT(account_id, standard, fingerprint) DO UPDATE\<close> with the constraints of the table; \<open>merge\<close>
  says what the update takes over from the refused row.\<close>

definition put_key_row :: "(crypto_key_row \<Rightarrow> crypto_key_row \<Rightarrow> crypto_key_row) \<Rightarrow> crypto_key_row \<Rightarrow> unit db_io" where
  "put_key_row merge r =
     io_bind (db_stmt (\<lambda>d.
       if \<not> key_row_valid r then (Inl check_failed, d)
       else if list_ex (same_key r) (t_crypto_keys d)
       then (Inr (), d\<lparr>t_crypto_keys := map (\<lambda>q. if same_key r q then merge q r else q) (t_crypto_keys d)\<rparr>)
       else if list_ex (\<lambda>q. ck_id q = ck_id r) (t_crypto_keys d) then (Inl id_taken, d)
       else if t_accounts d (ck_account r) = None then (Inl fk_failed, d)
       else (Inr (), d\<lparr>t_crypto_keys := t_crypto_keys d @ [r]\<rparr>))) io_lift"

definition encrypt_private :: "vault \<Rightarrow> crypto_key_record \<Rightarrow> string + string option" where
  "encrypt_private v rec =
     (case kc_private_data rec of
        Some pt \<Rightarrow>
          if pt = [] then Inr None
          else map_sum vault_error_display Some (encrypt_with_aad v (as_bytes pt) (as_bytes (private_aad (ki_account_id (kc_row rec)))))
      | None \<Rightarrow> Inr None)"

text \<open>\<open>strftime('%s','now')\<close> is the text of the clock.\<close>

definition now_text :: "db \<Rightarrow> string" where
  "now_text d = int_string (db_now d)"

definition key_row_of :: "key_env \<Rightarrow> crypto_key_record \<Rightarrow> string option \<Rightarrow> db \<Rightarrow> crypto_key_row" where
  "key_row_of e rec private_enc d =
     (let k = kc_row rec
      in \<lparr>ck_id = (if ki_id k = [] then ke_uuid e else ki_id k), ck_account = ki_account_id k, ck_standard = ki_standard k,
          ck_key_type = ki_key_type k, ck_email = ki_email k, ck_fingerprint = ki_fingerprint k,
          ck_public_data = kc_public_data rec, ck_private_data_enc = private_enc, ck_token_serial = ki_token_serial k,
          ck_token_key_id = ki_token_key_id k, ck_origin = ki_origin k, ck_is_default_sign = of_bool (ki_is_default_sign k),
          ck_is_default_encrypt = of_bool (ki_is_default_encrypt k), ck_created_at = now_text d,
          ck_expires_at = ki_expires_at k, ck_policy_json = kc_policy_json rec\<rparr>)"

definition merge_key :: "crypto_key_row \<Rightarrow> crypto_key_row \<Rightarrow> crypto_key_row" where
  "merge_key q r = r\<lparr>ck_id := ck_id q, ck_account := ck_account q, ck_standard := ck_standard q,
     ck_fingerprint := ck_fingerprint q, ck_origin := ck_origin q, ck_created_at := ck_created_at q\<rparr>"

definition upsert_crypto_key :: "key_env \<Rightarrow> crypto_key_record \<Rightarrow> unit db_io" where
  "upsert_crypto_key e rec =
     io_bind (io_lift (encrypt_private (ke_vault e) rec)) (\<lambda>private_enc d.
     put_key_row merge_key (key_row_of e rec private_enc d) d)"

definition named_key :: "string \<Rightarrow> string \<Rightarrow> crypto_key_row \<Rightarrow> bool" where
  "named_key std fp r \<longleftrightarrow> ck_standard r = std \<and> ck_fingerprint r = fp"

definition get_crypto_key_public :: "key_env \<Rightarrow> string \<Rightarrow> string \<Rightarrow> crypto_key_info option db_io" where
  "get_crypto_key_public e std fp =
     db_query (\<lambda>d. map_option row_to_crypto_key (find (named_key std fp) (ke_scan e (t_crypto_keys d))))"

definition open_private :: "vault \<Rightarrow> crypto_key_row \<Rightarrow> string + string option" where
  "open_private v r =
     (case ck_private_data_enc r of
        None \<Rightarrow> Inr None
      | Some enc \<Rightarrow>
          if enc = [] then Inr None
          else res_bind (map_err vault_error_display (decrypt_with_aad v enc (as_bytes (private_aad (ck_account r))))) (\<lambda>bytes.
               case from_utf8 bytes of Some s \<Rightarrow> Inr (Some s) | None \<Rightarrow> Inl ''invalid utf-8 sequence''))"

definition record_of :: "crypto_key_row \<Rightarrow> string option \<Rightarrow> crypto_key_record" where
  "record_of r private = \<lparr>kc_row = row_to_crypto_key r, kc_public_data = ck_public_data r, kc_private_data = private,
     kc_policy_json = ck_policy_json r\<rparr>"

definition get_crypto_key_full :: "key_env \<Rightarrow> string \<Rightarrow> string \<Rightarrow> crypto_key_record option db_io" where
  "get_crypto_key_full e std fp =
     io_bind (db_query (\<lambda>d. find (named_key std fp) (ke_scan e (t_crypto_keys d)))) (\<lambda>row.
     case row of None \<Rightarrow> io_ret None
     | Some r \<Rightarrow> io_lift (map_sum id (\<lambda>p. Some (record_of r p)) (open_private (ke_vault e) r)))"

definition list_crypto_keys_for_email :: "key_env \<Rightarrow> string \<Rightarrow> string \<Rightarrow> crypto_key_info list db_io" where
  "list_crypto_keys_for_email e std email =
     db_query (\<lambda>d. map row_to_crypto_key (sort_key ck_fingerprint
       (filter (\<lambda>r. ck_standard r = std \<and> ck_email r = Some email) (ke_scan e (t_crypto_keys d)))))"

definition list_crypto_keys_for_account :: "key_env \<Rightarrow> string \<Rightarrow> string \<Rightarrow> crypto_key_info list db_io" where
  "list_crypto_keys_for_account e acc std =
     db_query (\<lambda>d. map row_to_crypto_key (sort_key ck_fingerprint
       (filter (\<lambda>r. ck_account r = acc \<and> ck_standard r = std) (ke_scan e (t_crypto_keys d)))))"

text \<open>\<open>list_trust_anchor_certs\<close> and \<open>list_intermediate_certs\<close> differ in the type of key they select.\<close>

definition certs_of_type :: "key_env \<Rightarrow> string \<Rightarrow> string \<Rightarrow> u8 list list db_io" where
  "certs_of_type e key_type acc =
     io_bind (db_query (\<lambda>d. map ck_public_data
       (filter (\<lambda>r. ck_account r = acc \<and> ck_standard r = ''smime'' \<and> ck_key_type r = key_type) (ke_scan e (t_crypto_keys d)))))
     (\<lambda>rows. io_ret (List.map_filter (\<lambda>hex.
        case co_hex_decode (va_coder (ke_vault e)) hex of Inr der \<Rightarrow> Some der | Inl _ \<Rightarrow> None) rows))"

definition list_trust_anchor_certs :: "key_env \<Rightarrow> string \<Rightarrow> u8 list list db_io" where
  "list_trust_anchor_certs e acc = certs_of_type e ''cert'' acc"

definition list_intermediate_certs :: "key_env \<Rightarrow> string \<Rightarrow> u8 list list db_io" where
  "list_intermediate_certs e acc = certs_of_type e ''intermediate'' acc"

text \<open>The fingerprint of a certificate (SHA-1 of its public key) is computed by the S/MIME crate.\<close>

definition intermediate_row :: "key_env \<Rightarrow> string \<Rightarrow> string \<Rightarrow> u8 list \<Rightarrow> db \<Rightarrow> crypto_key_row" where
  "intermediate_row e acc fp cert_der d =
     \<lparr>ck_id = ke_uuid e, ck_account = acc, ck_standard = ''smime'', ck_key_type = ''intermediate'', ck_email = None,
      ck_fingerprint = fp, ck_public_data = co_hex_encode (va_coder (ke_vault e)) cert_der, ck_private_data_enc = None,
      ck_token_serial = None, ck_token_key_id = None, ck_origin = ''p12-intermediate'', ck_is_default_sign = 0,
      ck_is_default_encrypt = 0, ck_created_at = now_text d, ck_expires_at = None, ck_policy_json = None\<rparr>"

definition merge_intermediate :: "crypto_key_row \<Rightarrow> crypto_key_row \<Rightarrow> crypto_key_row" where
  "merge_intermediate q r = q\<lparr>ck_key_type := ck_key_type r, ck_public_data := ck_public_data r, ck_origin := ck_origin r,
     ck_is_default_sign := ck_is_default_sign r, ck_is_default_encrypt := ck_is_default_encrypt r\<rparr>"

definition upsert_intermediate_cert ::
  "(u8 list \<Rightarrow> crypto_error + string) \<Rightarrow> key_env \<Rightarrow> string \<Rightarrow> u8 list \<Rightarrow> unit db_io" where
  "upsert_intermediate_cert fingerprint e acc cert_der =
     io_bind (io_lift (map_err (\<lambda>x. ''upsert_intermediate_cert: compute fingerprint: '' @ crypto_error_display x) (fingerprint cert_der)))
       (\<lambda>fp d. put_key_row merge_intermediate (intermediate_row e acc fp cert_der d) d)"

record default_key_row =
  dk_standard :: string
  dk_fingerprint :: string
  dk_email :: "string option"

definition get_default_signing_key :: "key_env \<Rightarrow> string \<Rightarrow> standard \<Rightarrow> default_key_row option db_io" where
  "get_default_signing_key e acc std =
     db_query (\<lambda>d. map_option (\<lambda>r. \<lparr>dk_standard = ck_standard r, dk_fingerprint = ck_fingerprint r, dk_email = ck_email r\<rparr>)
       (find (\<lambda>r. ck_account r = acc \<and> ck_standard r = standard_as_str std \<and> ck_is_default_sign r = 1)
         (ke_scan e (t_crypto_keys d))))"

definition delete_crypto_key :: "string \<Rightarrow> string \<Rightarrow> string \<Rightarrow> unit db_io" where
  "delete_crypto_key acc std fp =
     db_update (\<lambda>d. d\<lparr>t_crypto_keys := filter (\<lambda>r. \<not> (ck_account r = acc \<and> named_key std fp r)) (t_crypto_keys d)\<rparr>)"

definition flag_default :: "string \<Rightarrow> string \<Rightarrow> string \<Rightarrow> crypto_key_row \<Rightarrow> crypto_key_row" where
  "flag_default acc std fp r = (if ck_account r = acc \<and> named_key std fp r then r\<lparr>ck_is_default_sign := 1\<rparr> else r)"

definition unflag_default :: "string \<Rightarrow> string \<Rightarrow> crypto_key_row \<Rightarrow> crypto_key_row" where
  "unflag_default acc std r = (if ck_account r = acc \<and> ck_standard r = std then r\<lparr>ck_is_default_sign := 0\<rparr> else r)"

definition set_default_signing_key :: "string \<Rightarrow> string \<Rightarrow> string \<Rightarrow> unit db_io" where
  "set_default_signing_key acc std fp =
     db_transaction
       (io_bind (db_update (\<lambda>d. d\<lparr>t_crypto_keys := map (unflag_default acc std) (t_crypto_keys d)\<rparr>)) (\<lambda>_.
        io_bind (db_stmt (\<lambda>d. (length (filter (\<lambda>r. ck_account r = acc \<and> named_key std fp r) (t_crypto_keys d)),
                               d\<lparr>t_crypto_keys := map (flag_default acc std fp) (t_crypto_keys d)\<rparr>))) (\<lambda>n.
        if n = 0 then io_fail (''no key for '' @ acc @ ''/'' @ std @ ''/'' @ fp) else io_ret ())))"

section \<open>Trust decisions\<close>

text \<open>An append-only history; the identifier is the next of an AUTOINCREMENT column.\<close>

definition next_decision_id :: "trust_decision_row list \<Rightarrow> int" where
  "next_decision_id rows = 1 + fold max (map td_id rows) 0"

definition put_trust_decision ::
  "string \<Rightarrow> string \<Rightarrow> string \<Rightarrow> string \<Rightarrow> string \<Rightarrow> string option \<Rightarrow> unit db_io" where
  "put_trust_decision acc peer std fp decision evidence =
     io_bind (db_stmt (\<lambda>d.
       if decision \<in> {''rejected'', ''undecided'', ''unverified'', ''verified'', ''personal''}
       then (Inr (), d\<lparr>t_trust_decisions := t_trust_decisions d @
              [\<lparr>td_id = next_decision_id (t_trust_decisions d), td_account = acc, td_peer_email = peer, td_standard = std,
                td_fingerprint = fp, td_decision = decision, td_evidence_json = evidence, td_decided_at = now_text d\<rparr>]\<rparr>)
       else (Inl check_failed, d))) io_lift"

definition decision_of :: "string \<Rightarrow> string \<Rightarrow> string \<Rightarrow> string \<Rightarrow> trust_decision_row \<Rightarrow> bool" where
  "decision_of acc peer std fp r \<longleftrightarrow>
     td_account r = acc \<and> td_peer_email r = peer \<and> td_standard r = std \<and> td_fingerprint r = fp"

text \<open>\<open>ORDER BY decided_at DESC, id DESC LIMIT 1\<close>; \<open>decided_at\<close> is compared as text.\<close>

definition latest_decision :: "trust_decision_row list \<Rightarrow> trust_decision_row option" where
  "latest_decision rows =
     (case rev (sort_key td_decided_at (sort_key td_id rows)) of [] \<Rightarrow> None | r # _ \<Rightarrow> Some r)"

definition get_latest_trust_decision ::
  "string \<Rightarrow> string \<Rightarrow> string \<Rightarrow> string \<Rightarrow> trust_decision_row option db_io" where
  "get_latest_trust_decision acc peer std fp =
     db_query (\<lambda>d. latest_decision (filter (decision_of acc peer std fp) (t_trust_decisions d)))"

section \<open>Results of opening a message\<close>

definition crypto_result_valid :: "crypto_result_row \<Rightarrow> bool" where
  "crypto_result_valid r \<longleftrightarrow>
     cr_crypto_kind r \<in> {''encrypted'', ''signed'', ''encrypted-signed''} \<and>
     cr_decrypt_state r \<in> {''ok'', ''no-key'', ''failed'', ''n/a''} \<and>
     cr_signature_state r \<in> {''not-signed'', ''valid-verified'', ''valid-unverified'', ''invalid'', ''unknown-key'', ''mismatch''} \<and>
     cr_revocation_state r \<in> {''good'', ''revoked'', ''unchecked''}"

definition result_of_message :: "string \<Rightarrow> string \<Rightarrow> crypto_result_row \<Rightarrow> bool" where
  "result_of_message acc mid r \<longleftrightarrow> cr_account r = acc \<and> cr_message r = mid"

definition upsert_message_crypto_result :: "crypto_result_row \<Rightarrow> unit db_io" where
  "upsert_message_crypto_result r =
     io_bind (db_stmt (\<lambda>d.
       let same = result_of_message (cr_account r) (cr_message r)
       in if \<not> crypto_result_valid r then (Inl check_failed, d)
          else if list_ex same (t_crypto_results d)
          then (Inr (), d\<lparr>t_crypto_results := map (\<lambda>q. if same q then r else q) (t_crypto_results d)\<rparr>)
          else if \<not> has_message d (cr_account r) (cr_message r) then (Inl fk_failed, d)
          else (Inr (), d\<lparr>t_crypto_results := t_crypto_results d @ [r]\<rparr>))) io_lift"

definition get_message_crypto_result :: "string \<Rightarrow> string \<Rightarrow> crypto_result_row option db_io" where
  "get_message_crypto_result acc mid = db_query (\<lambda>d. find (result_of_message acc mid) (t_crypto_results d))"

section \<open>Cached revocation lists\<close>

definition upsert_crl :: "string \<Rightarrow> crl_row \<Rightarrow> unit db_io" where
  "upsert_crl url row = db_update (\<lambda>d. d\<lparr>t_crls := (url, row) # filter (\<lambda>(u, _). u \<noteq> url) (t_crls d)\<rparr>)"

definition get_crl :: "string \<Rightarrow> crl_row option db_io" where
  "get_crl url = db_query (\<lambda>d. map_of (t_crls d) url)"

definition stale_crl :: "string \<Rightarrow> crl_row \<Rightarrow> bool" where
  "stale_crl now_epoch row \<longleftrightarrow> (case cl_next_update row of Some t \<Rightarrow> t < now_epoch | None \<Rightarrow> False)"

definition prune_stale_crls :: "string \<Rightarrow> nat db_io" where
  "prune_stale_crls now_epoch =
     db_stmt (\<lambda>d. (length (filter (stale_crl now_epoch \<circ> snd) (t_crls d)),
                   d\<lparr>t_crls := filter (\<lambda>(_, row). \<not> stale_crl now_epoch row) (t_crls d)\<rparr>))"

end
