(* ===== verification/Key_Store_Laws.thy ===== *)
theory Key_Store_Laws
  imports Crypto_Types
begin

text \<open>
  The contract of the trait \<open>KeyStore\<close> (\<open>core/src/keystore.rs\<close>) as its clients, the backends, use it: what was put can
  be got under the handle that the put returned. \<open>ready\<close> says when a store can take a key.
\<close>

locale key_store_laws =
  fixes ks :: "'s key_store"
    and ready :: "stored_key \<Rightarrow> 's \<Rightarrow> bool"
  assumes put_get: "ready key s \<Longrightarrow>
    \<exists>h s'. ks_put ks key s = (Returned (Inr h), s')
      \<and> kr_standard h = kr_standard (sk_handle key) \<and> kr_fingerprint h = kr_fingerprint (sk_handle key)
      \<and> kr_usage h = kr_usage (sk_handle key) \<and> kr_algorithm h = kr_algorithm (sk_handle key)
      \<and> ks_get ks (kr_handle h) s' = (Returned (Inr (Some (key\<lparr>sk_handle := h\<rparr>))), s')"
begin

text \<open>A key is stored and read back in one go.\<close>

lemma stored_back:
  assumes "ready key s"
  obtains h s' where "ks_put ks key s = (Returned (Inr h), s')" and "kr_algorithm h = kr_algorithm (sk_handle key)"
    and "kr_fingerprint h = kr_fingerprint (sk_handle key)"
    and "ks_get ks (kr_handle h) s' = (Returned (Inr (Some (key\<lparr>sk_handle := h\<rparr>))), s')"
  using put_get [OF assms] by blast

end

end
