(* ===== verification/Key_Store.thy ===== *)
theory Key_Store
  imports Crypto_Keys Key_Store_Laws Rust_Text
begin

text \<open>
  \<open>keystore_bridge.rs\<close>: the key store over the table \<open>crypto_keys\<close>, bound to one account. Keys are written with
  their material in hexadecimal and found again by the \<open>KeyId\<close> \<open>standard|fingerprint\<close>.
\<close>

section \<open>Operations\<close>

definition encode_key_id :: "standard \<Rightarrow> string \<Rightarrow> string" where
  "encode_key_id std fp = standard_as_str std @ ''|'' @ fp"

definition decode_key_id :: "string \<Rightarrow> crypto_error + standard \<times> string" where
  "decode_key_id i =
     (case split_once (CHR ''|'') i of
        None \<Rightarrow> Inl (MalformedInput (''invalid keystore KeyId (no '' @ [CHR 0x27, CHR ''|'', CHR 0x27] @ ''): '' @ i))
      | Some (std_str, fp) \<Rightarrow>
          res_bind (map_err (\<lambda>_. MalformedInput (''unknown standard in KeyId: '' @ std_str)) (standard_from_str std_str))
            (\<lambda>std. Inr (std, fingerprint_new fp)))"

definition db_error :: "string \<Rightarrow> crypto_error" where
  "db_error e = BackendError (''keystore db error: '' @ e)"

definition io_map_error :: "('e \<Rightarrow> 'f) \<Rightarrow> ('s, 'e, 'a) io \<Rightarrow> ('s, 'f, 'a) io" where
  "io_map_error g m s = (case m s of (Panicked, s') \<Rightarrow> (Panicked, s') | (Returned r, s') \<Rightarrow> (Returned (map_err g r), s'))"

fun usage_text :: "key_usage \<Rightarrow> string" where
  "usage_text UsageSign = ''sign''"
| "usage_text UsageEncrypt = ''encrypt''"
| "usage_text SignAndEncrypt = ''signandencrypt''"

definition usage_of_text :: "string \<Rightarrow> key_usage option" where
  "usage_of_text s = (if s = ''sign'' then Some UsageSign else if s = ''encrypt'' then Some UsageEncrypt
     else if s = ''signandencrypt'' then Some SignAndEncrypt else None)"

definition key_metadata :: "string \<Rightarrow> key_usage \<Rightarrow> json_text" where
  "key_metadata algorithm usage = JsonText (JObj [(''algorithm'', JStr algorithm), (''usage'', JStr (usage_text usage))])"

definition read_metadata :: "json_text \<Rightarrow> (string \<times> key_usage) option" where
  "read_metadata t =
     (case t of NotJson _ \<Rightarrow> None
      | JsonText j \<Rightarrow>
          (case (Option.bind (json_get j ''algorithm'') as_str, Option.bind (Option.bind (json_get j ''usage'') as_str) usage_of_text) of
             (Some a, Some u) \<Rightarrow> Some (a, u)
           | _ \<Rightarrow> None))"

definition no_key_info :: crypto_key_info where
  "no_key_info = \<lparr>ki_id = [], ki_account_id = [], ki_standard = [], ki_key_type = [], ki_email = None, ki_fingerprint = [],
     ki_origin = [], ki_is_default_sign = False, ki_is_default_encrypt = False, ki_created_at = [], ki_expires_at = None,
     ki_has_private = False, ki_token_serial = None, ki_token_key_id = None\<rparr>"

definition record_to_put :: "key_env \<Rightarrow> string \<Rightarrow> string option \<Rightarrow> stored_key \<Rightarrow> crypto_key_record" where
  "record_to_put e acc email key =
     (let h = sk_handle key; hex = co_hex_encode (va_coder (ke_vault e))
      in \<lparr>kc_row = no_key_info\<lparr>ki_account_id := acc, ki_standard := standard_as_str (kr_standard h), ki_key_type := ''cert'',
            ki_email := email, ki_fingerprint := kr_fingerprint h, ki_origin := ''generated''\<rparr>,
          kc_public_data = hex (sk_public_data key), kc_private_data = map_option hex (sk_private_data key),
          kc_policy_json = Some (key_metadata (kr_algorithm h) (kr_usage h))\<rparr>)"

definition store_put :: "key_env \<Rightarrow> string \<Rightarrow> stored_key \<Rightarrow> (db, crypto_error, key_handle_ref) io" where
  "store_put e acc key =
     io_bind (io_map_error db_error (db_query (\<lambda>d. map_option ac_email (t_accounts d acc)))) (\<lambda>email.
     io_bind (io_map_error db_error (upsert_crypto_key e (record_to_put e acc email key))) (\<lambda>_.
     io_ret ((sk_handle key)\<lparr>kr_handle := Software (encode_key_id (kr_standard (sk_handle key)) (kr_fingerprint (sk_handle key)))\<rparr>)))"

definition decode_material :: "coder \<Rightarrow> string \<Rightarrow> string \<Rightarrow> crypto_error + u8 list" where
  "decode_material co what hex = map_err (\<lambda>x. MalformedInput (what @ '' hex decode failed: '' @ x)) (co_hex_decode co hex)"

definition stored_of_record :: "coder \<Rightarrow> string \<Rightarrow> standard \<Rightarrow> string \<Rightarrow> crypto_key_record \<Rightarrow> crypto_error + stored_key" where
  "stored_of_record co key_id std fp rec =
     res_bind (decode_material co ''public_data'' (kc_public_data rec)) (\<lambda>public.
     res_bind (case kc_private_data rec of
                 Some hex \<Rightarrow> if hex = [] then Inr None else map_sum id Some (decode_material co ''private_data'' hex)
               | None \<Rightarrow> Inr None) (\<lambda>private.
     let (algorithm, usage) = opt_or (''unknown'', SignAndEncrypt) (Option.bind (kc_policy_json rec) read_metadata)
     in Inr \<lparr>sk_handle = \<lparr>kr_handle = Software key_id, kr_standard = std, kr_fingerprint = fp, kr_usage = usage,
               kr_algorithm = algorithm\<rparr>, sk_public_data = public, sk_private_data = private\<rparr>))"

fun store_get :: "key_env \<Rightarrow> key_handle \<Rightarrow> (db, crypto_error, stored_key option) io" where
  "store_get e (Token _ _) = io_ret None"
| "store_get e (Software key_id) =
     io_bind (io_lift (decode_key_id key_id)) (\<lambda>(std, fp).
     io_bind (io_map_error db_error (get_crypto_key_full e (standard_as_str std) fp)) (\<lambda>rec.
     case rec of None \<Rightarrow> io_ret None
     | Some r \<Rightarrow> io_lift (map_sum id Some (stored_of_record (va_coder (ke_vault e)) key_id std fp r))))"

definition ref_of_row :: "crypto_key_info \<Rightarrow> key_handle_ref option" where
  "ref_of_row k =
     (case standard_from_str (ki_standard k) of Inl _ \<Rightarrow> None
      | Inr std \<Rightarrow> Some \<lparr>kr_handle = Software (encode_key_id std (fingerprint_new (ki_fingerprint k))), kr_standard = std,
          kr_fingerprint = fingerprint_new (ki_fingerprint k), kr_usage = SignAndEncrypt, kr_algorithm = ''unknown''\<rparr>)"

definition store_find_by_email :: "key_env \<Rightarrow> standard \<Rightarrow> string \<Rightarrow> (db, crypto_error, key_handle_ref list) io" where
  "store_find_by_email e std email =
     io_bind (io_map_error db_error (list_crypto_keys_for_email e (standard_as_str std) email)) (\<lambda>rows.
     io_ret (List.map_filter ref_of_row rows))"

fun store_remove :: "key_handle \<Rightarrow> (db, crypto_error, unit) io" where
  "store_remove (Token _ _) = io_ret ()"
| "store_remove (Software key_id) =
     io_bind (io_lift (decode_key_id key_id)) (\<lambda>(std, fp).
     io_map_error db_error (db_update (\<lambda>d. d\<lparr>t_crypto_keys := filter (\<lambda>r. \<not> named_key (standard_as_str std) fp r) (t_crypto_keys d)\<rparr>)))"

definition sqlite_key_store :: "key_env \<Rightarrow> string \<Rightarrow> db key_store" where
  "sqlite_key_store e acc = \<lparr>ks_put = store_put e acc, ks_get = store_get e,
     ks_find_by_email = store_find_by_email e, ks_remove = store_remove\<rparr>"

section \<open>Key identifiers\<close>

lemma standard_no_bar: "CHR ''|'' \<notin> set (standard_as_str std)"
  by (cases std) simp_all

lemma decode_encode_key_id: "decode_key_id (encode_key_id std fp) = Inr (std, fingerprint_new fp)"
  using split_onceI [OF standard_no_bar, of std fp] by (simp add: decode_key_id_def encode_key_id_def)

lemma usage_of_usage_text [simp]: "usage_of_text (usage_text u) = Some u"
  by (cases u) (simp_all add: usage_of_text_def)

lemma read_key_metadata [simp]: "read_metadata (key_metadata a u) = Some (a, u)"
  by (simp add: read_metadata_def key_metadata_def)

section \<open>Uniqueness\<close>

definition key_triple :: "crypto_key_row \<Rightarrow> string \<times> string \<times> string" where
  "key_triple r = (ck_account r, ck_standard r, ck_fingerprint r)"

definition keys_ok :: "db \<Rightarrow> bool" where
  "keys_ok d \<longleftrightarrow> distinct (map key_triple (t_crypto_keys d)) \<and> list_all key_row_valid (t_crypto_keys d)"

lemma same_key_triple: "same_key r q \<longleftrightarrow> key_triple q = key_triple r"
  by (auto simp: same_key_def key_triple_def)

definition keeps_keys :: "(db, 'e, 'a) io \<Rightarrow> bool" where
  "keeps_keys = io_keeps (\<lambda>d d'. keys_ok d \<longrightarrow> keys_ok d')"

named_theorems keeps_keys_intros

lemma keeps_keys_basic [keeps_keys_intros]: "keeps_keys (io_ret x)" "keeps_keys (io_fail e)" "keeps_keys (io_lift r)"
  by (simp_all add: keeps_keys_def io_keeps_def io_ret_def io_fail_def io_lift_def)

lemma keeps_keys_bind [keeps_keys_intros]: "keeps_keys m \<Longrightarrow> (\<And>x. keeps_keys (f x)) \<Longrightarrow> keeps_keys (io_bind m f)"
  unfolding keeps_keys_def by (rule io_keeps_bind) auto

lemma keys_ok_faults [simp]: "keys_ok (d\<lparr>db_faults := fs\<rparr>) = keys_ok d"
  by (simp add: keys_ok_def)

lemma keeps_keys_stmt: "(\<And>d. keys_ok d \<Longrightarrow> keys_ok (snd (f d))) \<Longrightarrow> keeps_keys (db_stmt f)"
  unfolding keeps_keys_def io_keeps_def db_stmt_def
  by (auto split: list.split option.split prod.split) (metis keys_ok_faults snd_conv)+

lemma keeps_keys_query [keeps_keys_intros]: "keeps_keys (db_query q)"
  unfolding db_query_def by (rule keeps_keys_stmt) simp

lemma snd_io_map_error [simp]: "snd (io_map_error g m s) = snd (m s)"
  by (simp add: io_map_error_def split: prod.split panicky.split)

lemma keeps_keys_map_error [keeps_keys_intros]: "keeps_keys m \<Longrightarrow> keeps_keys (io_map_error g m)"
  by (simp add: keeps_keys_def io_keeps_def)

lemma keeps_keys_at: "keeps_keys m \<Longrightarrow> keys_ok d \<Longrightarrow> keys_ok (snd (m d))"
  by (simp add: keeps_keys_def io_keeps_def)

lemma keeps_keys_put:
  assumes "\<And>q r. same_key r q \<Longrightarrow> key_triple (merge q r) = key_triple q"
    and "\<And>q r. key_row_valid q \<Longrightarrow> key_row_valid r \<Longrightarrow> key_row_valid (merge q r)"
  shows "keeps_keys (put_key_row merge r)"
  unfolding put_key_row_def
proof (intro keeps_keys_bind keeps_keys_stmt keeps_keys_basic)
  fix d assume ok: "keys_ok d"
  have "map key_triple (map (\<lambda>q. if same_key r q then merge q r else q) ks) = map key_triple ks" for ks
    using assms(1) by (induction ks) auto
  note [simp del] = map_map and [simp] = this
  show "keys_ok (snd (if \<not> key_row_valid r then (Inl check_failed, d)
       else if list_ex (same_key r) (t_crypto_keys d)
       then (Inr (), d\<lparr>t_crypto_keys := map (\<lambda>q. if same_key r q then merge q r else q) (t_crypto_keys d)\<rparr>)
       else if list_ex (\<lambda>q. ck_id q = ck_id r) (t_crypto_keys d) then (Inl id_taken, d)
       else if t_accounts d (ck_account r) = None then (Inl fk_failed, d)
       else (Inr (), d\<lparr>t_crypto_keys := t_crypto_keys d @ [r]\<rparr>)))"
    using ok assms(2) by (auto simp: keys_ok_def list_all_iff list_ex_iff) (auto simp: same_key_triple)
qed

lemma keeps_keys_update: "(\<And>d. keys_ok d \<Longrightarrow> keys_ok (u d)) \<Longrightarrow> keeps_keys (db_update u)"
  unfolding db_update_def by (rule keeps_keys_stmt) simp

lemma keeps_keys_transaction: "keeps_keys m \<Longrightarrow> keeps_keys (db_transaction m)"
proof -
  assume m: "keeps_keys m"
  have "keeps_keys (io_bind (db_update id) (\<lambda>_. io_bind m (\<lambda>x. io_bind (db_update id) (\<lambda>_. io_ret x))))" (is "keeps_keys ?t")
    by (intro keeps_keys_bind keeps_keys_update m keeps_keys_basic) simp_all
  then have "keys_ok d \<Longrightarrow> keys_ok (snd (?t d))" for d by (rule keeps_keys_at)
  then show ?thesis
    unfolding keeps_keys_def io_keeps_def db_transaction_def roll_back_def
    by (auto split: prod.splits panicky.splits sum.splits) (metis snd_conv)+
qed

lemma keys_ok_map:
  assumes "\<And>r. key_triple (f r) = key_triple r" and "\<And>r. key_row_valid (f r) = key_row_valid r"
  shows "keys_ok (d\<lparr>t_crypto_keys := map f (t_crypto_keys d)\<rparr>) = keys_ok d"
  by (simp add: keys_ok_def assms comp_def list_all_iff)

lemma keys_ok_filter: "keys_ok d \<Longrightarrow> keys_ok (d\<lparr>t_crypto_keys := filter p (t_crypto_keys d)\<rparr>)"
  by (auto simp: keys_ok_def list_all_iff distinct_map inj_on_def)

lemma keeps_keys_upsert [keeps_keys_intros]: "keeps_keys (upsert_crypto_key e rec)"
proof -
  have put: "keeps_keys (put_key_row merge_key r)" for r
    by (rule keeps_keys_put) (auto simp: merge_key_def key_triple_def key_row_valid_def)
  have "keeps_keys (\<lambda>d. put_key_row merge_key (key_row_of e rec p d) d)" for p
    using put by (simp add: keeps_keys_def io_keeps_def)
  then show ?thesis unfolding upsert_crypto_key_def by (intro keeps_keys_bind keeps_keys_basic)
qed

lemma keeps_keys_intermediate: "keeps_keys (upsert_intermediate_cert fpr e acc der)"
proof -
  have put: "keeps_keys (put_key_row merge_intermediate r)" for r
    by (rule keeps_keys_put) (auto simp: merge_intermediate_def key_triple_def key_row_valid_def)
  have "keeps_keys (\<lambda>d. put_key_row merge_intermediate (intermediate_row e acc fp der d) d)" for fp
    using put by (simp add: keeps_keys_def io_keeps_def)
  then show ?thesis unfolding upsert_intermediate_cert_def by (intro keeps_keys_bind keeps_keys_basic)
qed

lemma keeps_keys_default: "keeps_keys (set_default_signing_key acc std fp)"
proof -
  have "keys_ok (d\<lparr>t_crypto_keys := map (unflag_default acc std) (t_crypto_keys d)\<rparr>) = keys_ok d"
    "keys_ok (d\<lparr>t_crypto_keys := map (flag_default acc std fp) (t_crypto_keys d)\<rparr>) = keys_ok d" for d
    by (rule keys_ok_map; simp add: unflag_default_def flag_default_def key_triple_def key_row_valid_def)+
  then show ?thesis
    unfolding set_default_signing_key_def
    by (intro keeps_keys_transaction keeps_keys_bind keeps_keys_update keeps_keys_stmt)
      (auto intro: keeps_keys_intros)
qed

lemma keeps_keys_store:
  "keeps_keys (store_put e acc key)" "keeps_keys (store_get e h)" "keeps_keys (store_remove h)"
  "keeps_keys (delete_crypto_key acc std fp)" "keeps_keys (store_find_by_email e st em)"
proof -
  have "keeps_keys (db_update (\<lambda>d. d\<lparr>t_crypto_keys := filter (p d) (t_crypto_keys d)\<rparr>))" for p
    by (rule keeps_keys_update) (rule keys_ok_filter)
  note del = this
  show "keeps_keys (delete_crypto_key acc std fp)"
    unfolding delete_crypto_key_def by (rule del)
  show "keeps_keys (store_remove h)"
    by (cases h) (auto simp del: de_Morgan_conj intro!: keeps_keys_intros del split: prod.split)
  show "keeps_keys (store_put e acc key)" "keeps_keys (store_find_by_email e st em)"
    unfolding store_put_def store_find_by_email_def list_crypto_keys_for_email_def by (intro keeps_keys_intros)+
  show "keeps_keys (store_get e h)"
    by (cases h) (auto simp: get_crypto_key_full_def intro!: keeps_keys_intros split: prod.split option.split)
qed

section \<open>What is put can be got\<close>

text \<open>After a put every row with the identifier of the key carries its material, when no other account has such a row.\<close>

definition stores :: "key_env \<Rightarrow> string \<Rightarrow> stored_key \<Rightarrow> crypto_key_row \<Rightarrow> bool" where
  "stores e acc key r \<longleftrightarrow> ck_account r = acc
     \<and> ck_public_data r = co_hex_encode (va_coder (ke_vault e)) (sk_public_data key)
     \<and> ck_policy_json r = Some (key_metadata (kr_algorithm (sk_handle key)) (kr_usage (sk_handle key)))
     \<and> (case sk_private_data key of None \<Rightarrow> ck_private_data_enc r = None
        | Some m \<Rightarrow> (\<exists>enc. ck_private_data_enc r = Some enc
            \<and> encrypt_with_aad (ke_vault e) (as_bytes (co_hex_encode (va_coder (ke_vault e)) m)) (as_bytes (private_aad acc)) = Inr enc))"

definition puttable :: "key_env \<Rightarrow> string \<Rightarrow> stored_key \<Rightarrow> db \<Rightarrow> bool" where
  "puttable e acc key d \<longleftrightarrow> t_accounts d acc \<noteq> None \<and> sk_private_data key \<noteq> Some []
     \<and> (\<forall>r \<in> set (t_crypto_keys d). ck_id r \<noteq> ke_uuid e)
     \<and> (\<forall>r \<in> set (t_crypto_keys d). named_key (standard_as_str (kr_standard (sk_handle key))) (kr_fingerprint (sk_handle key)) r
          \<longrightarrow> ck_account r = acc)"

definition scan_ok :: "key_env \<Rightarrow> bool" where
  "scan_ok e \<longleftrightarrow> (\<forall>ks. set (ke_scan e ks) = set ks)"

lemma store_put_stores:
  assumes "healthy d" and "aead_ok (ke_vault e)" and ok: "puttable e acc key d"
  shows "\<exists>d'. store_put e acc key d = (Returned (Inr ((sk_handle key)\<lparr>kr_handle :=
       Software (encode_key_id (kr_standard (sk_handle key)) (kr_fingerprint (sk_handle key)))\<rparr>)), d')
     \<and> healthy d' \<and> list_ex (named_key (standard_as_str (kr_standard (sk_handle key))) (kr_fingerprint (sk_handle key))) (t_crypto_keys d')
     \<and> (\<forall>r \<in> set (t_crypto_keys d'). named_key (standard_as_str (kr_standard (sk_handle key))) (kr_fingerprint (sk_handle key)) r
          \<longrightarrow> stores e acc key r)"
proof -
  define rec where "rec = record_to_put e acc (map_option ac_email (t_accounts d acc)) key"
  have hex: "co_hex_encode (va_coder (ke_vault e)) x \<noteq> []" if "x \<noteq> []" for x
    using assms(2) that by (auto simp: aead_ok_def coder_ok_def)
  obtain p where p: "encrypt_private (ke_vault e) rec = Inr p"
    and stored: "\<And>q. ck_account q = acc \<Longrightarrow> stores e acc key (merge_key q (key_row_of e rec p d))"
  proof (cases "sk_private_data key")
    case None
    then show ?thesis
      by (intro that [of None]) (auto simp: rec_def encrypt_private_def record_to_put_def stores_def merge_key_def key_row_of_def Let_def)
  next
    case (Some m)
    with ok hex have "co_hex_encode (va_coder (ke_vault e)) m \<noteq> []" by (auto simp: puttable_def)
    moreover obtain enc where "encrypt_with_aad (ke_vault e) (as_bytes (co_hex_encode (va_coder (ke_vault e)) m)) (as_bytes (private_aad acc)) = Inr enc"
      using aead_seals [OF assms(2)] by blast
    ultimately show ?thesis using Some
      by (intro that [of "Some enc"])
        (auto simp: rec_def encrypt_private_def record_to_put_def stores_def merge_key_def key_row_of_def no_key_info_def Let_def)
  qed
  define r where "r = key_row_of e rec p d"
  have r: "key_row_valid r" "ck_account r = acc" "ck_standard r = standard_as_str (kr_standard (sk_handle key))"
    "ck_fingerprint r = kr_fingerprint (sk_handle key)" "ck_id r = ke_uuid e"
    by (cases "kr_standard (sk_handle key)";
        simp add: r_def rec_def key_row_of_def record_to_put_def no_key_info_def key_row_valid_def Let_def)+
  have self: "stores e acc key r"
    using stored [of r] r by (simp add: r_def merge_key_def stores_def split: option.splits)
  obtain d' where put: "put_key_row merge_key r d = (Returned (Inr ()), d')" "healthy d'"
    and ex: "list_ex (named_key (ck_standard r) (ck_fingerprint r)) (t_crypto_keys d')"
    and all: "\<forall>q \<in> set (t_crypto_keys d'). named_key (ck_standard r) (ck_fingerprint r) q \<longrightarrow> stores e acc key q"
  proof (cases "list_ex (same_key r) (t_crypto_keys d)")
    case True
    let ?d = "d\<lparr>t_crypto_keys := map (\<lambda>q. if same_key r q then merge_key q r else q) (t_crypto_keys d)\<rparr>"
    have "put_key_row merge_key r d = (Returned (Inr ()), ?d)" "healthy ?d"
      using assms(1) r True by (simp_all add: put_key_row_def io_bind_def db_stmt_healthy io_lift_def io_ret_def healthy_def)
    moreover have "list_ex (named_key (ck_standard r) (ck_fingerprint r)) (t_crypto_keys ?d)"
    proof -
      from True obtain q where "q \<in> set (t_crypto_keys d)" "same_key r q" by (auto simp: list_ex_iff)
      moreover from this have "named_key (ck_standard r) (ck_fingerprint r) (merge_key q r)"
        by (simp add: same_key_def named_key_def merge_key_def)
      moreover have "merge_key q r \<in> set (t_crypto_keys ?d)"
        using calculation(1,2) by (auto intro!: image_eqI [of _ _ q])
      ultimately show ?thesis by (auto simp only: list_ex_iff)
    qed
    moreover have "\<forall>q \<in> set (t_crypto_keys ?d). named_key (ck_standard r) (ck_fingerprint r) q \<longrightarrow> stores e acc key q"
      using ok r stored by (auto simp: puttable_def same_key_def named_key_def r_def)
    ultimately show ?thesis by (rule that)
  next
    case False
    have new: "\<not> list_ex (\<lambda>q. ck_id q = ck_id r) (t_crypto_keys d)" "t_accounts d (ck_account r) \<noteq> None"
      using ok r by (auto simp: puttable_def list_ex_iff)
    let ?d = "d\<lparr>t_crypto_keys := t_crypto_keys d @ [r]\<rparr>"
    have "put_key_row merge_key r d = (Returned (Inr ()), ?d)" "healthy ?d"
      using assms(1) r False new by (auto simp: put_key_row_def io_bind_def db_stmt_healthy io_lift_def io_ret_def healthy_def)
    moreover have "list_ex (named_key (ck_standard r) (ck_fingerprint r)) (t_crypto_keys ?d)"
      by (simp add: named_key_def)
    moreover have "\<forall>q \<in> set (t_crypto_keys ?d). named_key (ck_standard r) (ck_fingerprint r) q \<longrightarrow> stores e acc key q"
      using ok r self False by (auto simp: puttable_def same_key_def named_key_def list_ex_iff)
    ultimately show ?thesis by (rule that)
  qed
  have "store_put e acc key d = (Returned (Inr ((sk_handle key)\<lparr>kr_handle :=
       Software (encode_key_id (kr_standard (sk_handle key)) (kr_fingerprint (sk_handle key)))\<rparr>)), d')"
    using assms(1) p put(1) unfolding r_def rec_def
    by (simp add: store_put_def io_bind_def io_map_error_def db_query_healthy upsert_crypto_key_def io_lift_def io_ret_def)
  with put(2) ex all r show ?thesis by auto
qed

definition fresh_nonce :: "u8 list \<Rightarrow> key_env \<Rightarrow> key_env" where
  "fresh_nonce n e = e\<lparr>ke_vault := (ke_vault e)\<lparr>va_nonce := n\<rparr>\<rparr>"

lemma open_stored:
  assumes aead: "aead_ok (ke_vault e)" and st: "stores e acc key r" and pr: "sk_private_data key \<noteq> Some []"
  shows "\<exists>p. open_private ((ke_vault e)\<lparr>va_nonce := n\<rparr>) r = Inr p
    \<and> stored_of_record (va_coder (ke_vault e)) i std fp (record_of r p)
        = Inr (key\<lparr>sk_handle := \<lparr>kr_handle = Software i, kr_standard = std, kr_fingerprint = fp,
            kr_usage = kr_usage (sk_handle key), kr_algorithm = kr_algorithm (sk_handle key)\<rparr>\<rparr>)"
proof -
  note co = aead [unfolded aead_ok_def coder_ok_def]
  show ?thesis
  proof (cases "sk_private_data key")
    case None
    with st co show ?thesis
      by (cases key) (auto simp: stores_def open_private_def stored_of_record_def record_of_def decode_material_def)
  next
    case (Some m)
    with st obtain enc where enc: "ck_private_data_enc r = Some enc"
      "encrypt_with_aad (ke_vault e) (as_bytes (co_hex_encode (va_coder (ke_vault e)) m)) (as_bytes (private_aad acc)) = Inr enc"
      by (auto simp: stores_def)
    have "open_private ((ke_vault e)\<lparr>va_nonce := n\<rparr>) r = Inr (Some (co_hex_encode (va_coder (ke_vault e)) m))"
      using enc st co decrypt_encrypt [OF aead enc(2)]
      by (auto simp: open_private_def stores_def)
    with Some st co pr show ?thesis
      by (cases key) (auto simp: stores_def stored_of_record_def record_of_def decode_material_def)
  qed
qed

lemma store_get_stored:
  assumes "healthy d" and aead: "aead_ok (ke_vault e)" and scan: "scan_ok e" and pr: "sk_private_data key \<noteq> Some []"
    and ex: "list_ex (named_key (standard_as_str std) (fingerprint_new fp)) (t_crypto_keys d)"
    and all: "\<forall>r \<in> set (t_crypto_keys d). named_key (standard_as_str std) (fingerprint_new fp) r \<longrightarrow> stores e acc key r"
  shows "store_get (fresh_nonce n e) (Software (encode_key_id std fp)) d
     = (Returned (Inr (Some (key\<lparr>sk_handle := \<lparr>kr_handle = Software (encode_key_id std fp), kr_standard = std,
            kr_fingerprint = fingerprint_new fp, kr_usage = kr_usage (sk_handle key),
            kr_algorithm = kr_algorithm (sk_handle key)\<rparr>\<rparr>))), d)"
proof -
  obtain r where r: "find (named_key (standard_as_str std) (fingerprint_new fp)) (ke_scan e (t_crypto_keys d)) = Some r"
    using ex scan by (cases "find (named_key (standard_as_str std) (fingerprint_new fp)) (ke_scan e (t_crypto_keys d))")
      (auto simp: find_None_iff list_ex_iff scan_ok_def)
  then have "r \<in> set (ke_scan e (t_crypto_keys d))" "named_key (standard_as_str std) (fingerprint_new fp) r"
    by (auto dest!: find_SomeD)
  then have "stores e acc key r" using all scan by (auto simp: scan_ok_def)
  from open_stored [OF aead this pr, of n "encode_key_id std fp" std "fingerprint_new fp"] r assms(1)
  show ?thesis
    by (auto simp: decode_encode_key_id io_bind_def io_lift_def io_ret_def io_map_error_def get_crypto_key_full_def
        db_query_healthy fresh_nonce_def)
qed

lemma sqlite_put_get:
  assumes "healthy d" and "aead_ok (ke_vault e)" and "scan_ok e" and "puttable e acc key d"
    and "fingerprint_new (kr_fingerprint (sk_handle key)) = kr_fingerprint (sk_handle key)"
  shows "\<exists>d'. ks_put (sqlite_key_store e acc) key d = (Returned (Inr ((sk_handle key)\<lparr>kr_handle :=
       Software (encode_key_id (kr_standard (sk_handle key)) (kr_fingerprint (sk_handle key)))\<rparr>)), d')
    \<and> ks_get (sqlite_key_store (fresh_nonce n e) acc) (Software (encode_key_id (kr_standard (sk_handle key)) (kr_fingerprint (sk_handle key)))) d'
       = (Returned (Inr (Some (key\<lparr>sk_handle := (sk_handle key)\<lparr>kr_handle :=
           Software (encode_key_id (kr_standard (sk_handle key)) (kr_fingerprint (sk_handle key)))\<rparr>\<rparr>))), d')"
proof -
  from store_put_stores [OF assms(1,2,4)] obtain d' where put: "store_put e acc key d = (Returned (Inr ((sk_handle key)\<lparr>kr_handle :=
       Software (encode_key_id (kr_standard (sk_handle key)) (kr_fingerprint (sk_handle key)))\<rparr>)), d')" and "healthy d'"
    and ex: "list_ex (named_key (standard_as_str (kr_standard (sk_handle key))) (kr_fingerprint (sk_handle key))) (t_crypto_keys d')"
    and all: "\<forall>r \<in> set (t_crypto_keys d'). named_key (standard_as_str (kr_standard (sk_handle key))) (kr_fingerprint (sk_handle key)) r
          \<longrightarrow> stores e acc key r" by blast
  have "sk_private_data key \<noteq> Some []" using assms(4) by (simp add: puttable_def)
  from store_get_stored [OF \<open>healthy d'\<close> assms(2,3) this, of "kr_standard (sk_handle key)" "kr_fingerprint (sk_handle key)" acc n]
    ex all put assms(5) show ?thesis
    by (cases "sk_handle key") (auto simp: sqlite_key_store_def)
qed

text \<open>The store keeps the contract whenever it can take the key.\<close>

definition sqlite_ready :: "key_env \<Rightarrow> string \<Rightarrow> stored_key \<Rightarrow> db \<Rightarrow> bool" where
  "sqlite_ready e acc key d \<longleftrightarrow> healthy d \<and> aead_ok (ke_vault e) \<and> scan_ok e \<and> puttable e acc key d
     \<and> fingerprint_new (kr_fingerprint (sk_handle key)) = kr_fingerprint (sk_handle key)"

lemma fresh_nonce_own [simp]: "fresh_nonce (va_nonce (ke_vault e)) e = e"
  by (simp add: fresh_nonce_def)

interpretation sqlite: key_store_laws "sqlite_key_store e acc" "sqlite_ready e acc" for e acc
proof
  fix key d assume "sqlite_ready e acc key d"
  then show "\<exists>h s'. ks_put (sqlite_key_store e acc) key d = (Returned (Inr h), s')
      \<and> kr_standard h = kr_standard (sk_handle key) \<and> kr_fingerprint h = kr_fingerprint (sk_handle key)
      \<and> kr_usage h = kr_usage (sk_handle key) \<and> kr_algorithm h = kr_algorithm (sk_handle key)
      \<and> ks_get (sqlite_key_store e acc) (kr_handle h) s' = (Returned (Inr (Some (key\<lparr>sk_handle := h\<rparr>))), s')"
    using sqlite_put_get [of d e acc key "va_nonce (ke_vault e)"] by (force simp: sqlite_ready_def)
qed

text \<open>C39. A key that was put is got back under the handle the put returned: its public and private bytes, its
  fingerprint, usage and algorithm, whether the row is new or replaces an older one. The vault may have drawn other
  nonces in between and the rows may be scanned in any order; no other account may hold a row with the same standard
  and fingerprint.\<close>

theorem keystore_roundtrip:
  assumes "healthy d" and "aead_ok (ke_vault e)" and "scan_ok e" and "puttable e acc key d"
    and "fingerprint_new (kr_fingerprint (sk_handle key)) = kr_fingerprint (sk_handle key)"
  shows "\<exists>h d'. ks_put (sqlite_key_store e acc) key d = (Returned (Inr h), d')
    \<and> kr_fingerprint h = kr_fingerprint (sk_handle key) \<and> kr_standard h = kr_standard (sk_handle key)
    \<and> ks_get (sqlite_key_store (fresh_nonce n e) acc) (kr_handle h) d' = (Returned (Inr (Some (key\<lparr>sk_handle := h\<rparr>))), d')"
  using sqlite_put_get [OF assms, of n] by force

section \<open>What the store does beyond its contract\<close>

lemma store_remove_spec:
  assumes "healthy d"
  shows "store_remove (Software (encode_key_id std fp)) d
     = (Returned (Inr ()), d\<lparr>t_crypto_keys := filter (\<lambda>r. \<not> named_key (standard_as_str std) (fingerprint_new fp) r) (t_crypto_keys d)\<rparr>)"
  using assms
  by (simp add: decode_encode_key_id io_bind_def io_lift_def io_map_error_def db_update_healthy)

text \<open>A finding: the store is documented as scoped to one mail account, but \<open>remove\<close> and \<open>get\<close> name a row by
  standard and fingerprint alone. A handle that the store of one account gave out removes the rows of every account
  that has the same key, its private half included, and no such row can be read afterwards.\<close>

lemma remove_crosses_accounts:
  assumes "healthy d" and "r \<in> set (t_crypto_keys d)" and "named_key (standard_as_str std) (fingerprint_new fp) r"
    and "ck_account r \<noteq> acc" and "scan_ok e"
  shows "\<exists>d'. ks_remove (sqlite_key_store e acc) (Software (encode_key_id std fp)) d = (Returned (Inr ()), d')
    \<and> r \<notin> set (t_crypto_keys d')
    \<and> ks_get (sqlite_key_store e (ck_account r)) (Software (encode_key_id std fp)) d' = (Returned (Inr None), d')"
proof -
  let ?ks = "filter (\<lambda>r. \<not> named_key (standard_as_str std) (fingerprint_new fp) r) (t_crypto_keys d)"
  have "find (named_key (standard_as_str std) (fingerprint_new fp)) (ke_scan e ?ks) = None"
    using assms(5) by (auto simp: find_None_iff scan_ok_def)
  moreover have "healthy (d\<lparr>t_crypto_keys := ?ks\<rparr>)" using assms(1) by (simp add: healthy_def)
  ultimately show ?thesis
    using assms(3) store_remove_spec [OF assms(1), of std fp]
    by (auto simp: sqlite_key_store_def decode_encode_key_id io_bind_def io_lift_def io_ret_def io_map_error_def
        get_crypto_key_full_def db_query_healthy)
qed

text \<open>A put without private material replaces the private half of the row by nothing.\<close>

lemma put_public_erases_private:
  assumes "healthy d" and "aead_ok (ke_vault e)" and "puttable e acc key d" and "sk_private_data key = None"
  shows "\<exists>h d'. store_put e acc key d = (Returned (Inr h), d')
    \<and> (\<forall>r \<in> set (t_crypto_keys d'). named_key (standard_as_str (kr_standard (sk_handle key))) (kr_fingerprint (sk_handle key)) r
        \<longrightarrow> ck_private_data_enc r = None)"
  using store_put_stores [OF assms(1-3)] assms(4) by (fastforce simp: stores_def)

section \<open>The default signing key\<close>

definition default_of :: "string \<Rightarrow> string \<Rightarrow> crypto_key_row \<Rightarrow> bool" where
  "default_of acc std r \<longleftrightarrow> ck_account r = acc \<and> ck_standard r = std \<and> ck_is_default_sign r = 1"

lemma set_default_signing_key_run:
  assumes "healthy d"
  shows "set_default_signing_key acc std fp d =
    (if list_ex (\<lambda>r. ck_account r = acc \<and> named_key std fp r) (t_crypto_keys d)
     then (Returned (Inr ()), d\<lparr>t_crypto_keys := map (flag_default acc std fp) (map (unflag_default acc std) (t_crypto_keys d))\<rparr>)
     else (Returned (Inl (''no key for '' @ acc @ ''/'' @ std @ ''/'' @ fp)), d))"
proof -
  have unflag: "(ck_account (unflag_default acc std r) = acc \<and> named_key std fp (unflag_default acc std r))
      \<longleftrightarrow> (ck_account r = acc \<and> named_key std fp r)" for r
    by (simp add: unflag_default_def named_key_def)
  have count: "length (filter (\<lambda>r. ck_account r = acc \<and> named_key std fp r) (map (unflag_default acc std) ks)) = 0
      \<longleftrightarrow> \<not> list_ex (\<lambda>r. ck_account r = acc \<and> named_key std fp r) ks" for ks
    by (auto simp: filter_map comp_def unflag list_ex_iff filter_empty_conv)
  show ?thesis
    using assms(1) count [of "t_crypto_keys d"]
    by (auto simp: set_default_signing_key_def db_transaction_def roll_back_def io_bind_def db_update_def db_stmt_healthy
        healthy_def io_ret_def io_fail_def)
qed

lemma find_only:
  assumes "scan_ok e" and "filter p ks = [x]"
  shows "find p (ke_scan e ks) = Some x"
proof (cases "find p (ke_scan e ks)")
  case None
  then have "filter p ks = []" using assms(1) by (auto simp: find_None_iff scan_ok_def filter_empty_conv)
  with assms(2) show ?thesis by simp
next
  case (Some q)
  then have "q \<in> set (filter p ks)" using assms(1) by (auto simp: scan_ok_def dest!: find_SomeD)
  with assms(2) Some show ?thesis by simp
qed

lemma only_default:
  assumes "keys_ok d" and "r \<in> set (t_crypto_keys d)" and "ck_account r = acc" and "named_key std fp r"
  shows "filter (default_of acc std) (map (flag_default acc std fp) (map (unflag_default acc std) (t_crypto_keys d)))
    = [r\<lparr>ck_is_default_sign := 1\<rparr>]"
proof -
  let ?f = "\<lambda>r. flag_default acc std fp (unflag_default acc std r)"
  obtain as bs where split: "t_crypto_keys d = as @ r # bs" using assms(2) by (auto dest: split_list)
  have other: "\<not> default_of acc std (?f q)" if "q \<in> set as \<union> set bs" for q
  proof -
    have "key_triple q \<noteq> key_triple r" using assms(1) that unfolding keys_ok_def split by (auto simp: image_iff)
    with assms(3,4) show ?thesis
      by (auto simp: default_of_def flag_default_def unflag_default_def named_key_def key_triple_def)
  qed
  have "?f r = r\<lparr>ck_is_default_sign := 1\<rparr>" "default_of acc std (?f r)"
    using assms(3,4) by (simp_all add: flag_default_def unflag_default_def named_key_def default_of_def)
  with other show ?thesis by (simp add: split filter_empty_conv)
qed

text \<open>C40. Making a key the default of its account and standard leaves exactly one default, that key, which is also the
  one that the lookup of the default returns; an unknown key is an error after which the old default still stands.\<close>

theorem set_default_signing_key_spec:
  assumes "healthy d" and "keys_ok d" and "scan_ok e"
  shows "case set_default_signing_key acc (standard_as_str std) fp d of
      (Returned (Inr _), d') \<Rightarrow>
        (\<exists>r \<in> set (t_crypto_keys d). ck_account r = acc \<and> named_key (standard_as_str std) fp r
           \<and> filter (default_of acc (standard_as_str std)) (t_crypto_keys d') = [r\<lparr>ck_is_default_sign := 1\<rparr>]
           \<and> get_default_signing_key e acc std d'
               = (Returned (Inr (Some \<lparr>dk_standard = standard_as_str std, dk_fingerprint = fp, dk_email = ck_email r\<rparr>)), d'))
    | (Returned (Inl _), d') \<Rightarrow> d' = d \<and> \<not> list_ex (\<lambda>r. ck_account r = acc \<and> named_key (standard_as_str std) fp r) (t_crypto_keys d)
    | _ \<Rightarrow> False"
proof (cases "list_ex (\<lambda>r. ck_account r = acc \<and> named_key (standard_as_str std) fp r) (t_crypto_keys d)")
  case True
  let ?std = "standard_as_str std"
  obtain r where r: "r \<in> set (t_crypto_keys d)" "ck_account r = acc" "named_key ?std fp r"
    using True by (auto simp: list_ex_iff)
  define d' where "d' = d\<lparr>t_crypto_keys := map (flag_default acc ?std fp) (map (unflag_default acc ?std) (t_crypto_keys d))\<rparr>"
  have only: "filter (default_of acc ?std) (t_crypto_keys d') = [r\<lparr>ck_is_default_sign := 1\<rparr>]"
    using only_default [OF assms(2) r] by (simp add: d'_def)
  have get: "get_default_signing_key e acc std d'
      = (Returned (Inr (Some \<lparr>dk_standard = ?std, dk_fingerprint = fp, dk_email = ck_email r\<rparr>)), d')"
    using assms(1) r find_only [OF assms(3) only]
    by (simp add: get_default_signing_key_def db_query_healthy healthy_def d'_def default_of_def [abs_def] named_key_def)
  have run: "set_default_signing_key acc ?std fp d = (Returned (Inr ()), d')"
    using set_default_signing_key_run [OF assms(1)] True by (simp add: d'_def)
  from r only get show ?thesis unfolding run by (simp split del: if_split) blast
next
  case False
  then show ?thesis using set_default_signing_key_run [OF assms(1)] by simp
qed

lemma put_key_row_rows:
  assumes "healthy d" and "put_key_row merge r d = (Returned (Inr ()), d')" and "q \<in> set (t_crypto_keys d')"
  shows "q \<in> set (t_crypto_keys d) \<and> \<not> same_key r q \<or> q = r \<or> (\<exists>q'. same_key r q' \<and> q = merge q' r)"
  using assms
  by (auto simp: put_key_row_def io_bind_def db_stmt_healthy io_lift_def io_ret_def io_fail_def list_ex_iff split: if_splits)

declare map_err_Inr_iff [simp]

text \<open>A finding: writing a key again (a repeated import, a rotated certificate) takes the flag of the default from
  the new record, which the store never sets, so the default signing key of the account is silently none afterwards.\<close>

lemma reimport_drops_default:
  assumes "healthy d" and "aead_ok (ke_vault e)" and "puttable e acc key d" and "keys_ok d" and "scan_ok e"
    and "set_default_signing_key acc (standard_as_str (kr_standard (sk_handle key))) (kr_fingerprint (sk_handle key)) d
           = (Returned (Inr ()), d1)"
    and "store_put e acc key d1 = (Returned (Inr h), d2)"
  shows "get_default_signing_key e acc (kr_standard (sk_handle key)) d2 = (Returned (Inr None), d2)"
proof -
  let ?std = "standard_as_str (kr_standard (sk_handle key))" and ?fp = "kr_fingerprint (sk_handle key)"
  have d1: "d1 = d\<lparr>t_crypto_keys := map (flag_default acc ?std ?fp) (map (unflag_default acc ?std) (t_crypto_keys d))\<rparr>"
    using set_default_signing_key_run [OF assms(1), of acc ?std ?fp] assms(6) by (auto split: if_splits)
  then have d1_ok: "healthy d1" using assms(1) by (simp add: healthy_def)
  define row where "row p = key_row_of e (record_to_put e acc (map_option ac_email (t_accounts d1 acc)) key) p d1" for p
  obtain p where put: "put_key_row merge_key (row p) d1 = (Returned (Inr ()), d2)"
    using assms(7) d1_ok
    by (auto simp: store_put_def io_bind_def io_map_error_def db_query_healthy upsert_crypto_key_def io_lift_def io_ret_def
        row_def io_fail_def split: sum.splits prod.splits panicky.splits)
  have r: "key_triple (row p) = (acc, ?std, ?fp)" "ck_is_default_sign (row p) = 0"
    by (simp_all add: row_def key_row_of_def record_to_put_def no_key_info_def key_triple_def Let_def)
  have "\<not> default_of acc ?std q" if "q \<in> set (t_crypto_keys d2)" for q
    using put_key_row_rows [OF d1_ok put that] r
    by (auto simp: d1 default_of_def merge_key_def same_key_triple key_triple_def flag_default_def unflag_default_def
        named_key_def split: if_splits)
  then have "find (default_of acc ?std) (ke_scan e (t_crypto_keys d2)) = None"
    using assms(5) by (auto simp: find_None_iff scan_ok_def)
  moreover have "healthy d2"
    using put d1_ok
    by (auto simp: put_key_row_def io_bind_def db_stmt_healthy io_lift_def io_ret_def io_fail_def healthy_def split: if_splits)
  ultimately show ?thesis by (simp add: get_default_signing_key_def db_query_healthy default_of_def [abs_def])
qed

section \<open>Intermediates\<close>

lemma set_map_filter_iff: "y \<in> set (List.map_filter f xs) \<longleftrightarrow> (\<exists>x \<in> set xs. f x = Some y)"
  by (force simp: List.map_filter_def)

lemma upsert_intermediate_existing:
  assumes "healthy d" and "fingerprint der = Inr fp" and "list_ex (same_key (intermediate_row e acc fp der d)) (t_crypto_keys d)"
  shows "upsert_intermediate_cert fingerprint e acc der d = (Returned (Inr ()),
     d\<lparr>t_crypto_keys := map (\<lambda>q. if same_key (intermediate_row e acc fp der d) q
        then merge_intermediate q (intermediate_row e acc fp der d) else q) (t_crypto_keys d)\<rparr>)"
proof -
  have "key_row_valid (intermediate_row e acc fp der d)" by (simp add: key_row_valid_def intermediate_row_def)
  with assms show ?thesis
    by (simp add: upsert_intermediate_cert_def put_key_row_def io_bind_def io_lift_def io_ret_def db_stmt_healthy healthy_def)
qed

text \<open>A finding: the import of a \<open>.p12\<close> file writes the certificates of its chain with \<open>ON CONFLICT DO UPDATE\<close>.
  Documented as leaving all but the certificate alone, it also overwrites the type, the origin and the default flag: a
  root that the user trusts is a trust anchor no longer when a file carries it, and an own certificate that signs by
  default is then no default.\<close>

lemma p12_demotes_trusted_root:
  assumes "healthy d" and "scan_ok e" and "r \<in> set (t_crypto_keys d)" and "key_triple r = (acc, ''smime'', fp)"
    and "ck_key_type r = ''cert''" and "co_hex_decode (va_coder (ke_vault e)) (ck_public_data r) = Inr der" and "fingerprint der = Inr fp"
    and only: "\<forall>q \<in> set (t_crypto_keys d). co_hex_decode (va_coder (ke_vault e)) (ck_public_data q) = Inr der \<longrightarrow> key_triple q = key_triple r"
  shows "\<exists>ders d' ders'. list_trust_anchor_certs e acc d = (Returned (Inr ders), d) \<and> der \<in> set ders
    \<and> upsert_intermediate_cert fingerprint e acc der d = (Returned (Inr ()), d')
    \<and> list_trust_anchor_certs e acc d' = (Returned (Inr ders'), d') \<and> der \<notin> set ders'
    \<and> (\<forall>q \<in> set (t_crypto_keys d'). key_triple q = key_triple r \<longrightarrow> ck_is_default_sign q = 0)"
proof -
  let ?n = "intermediate_row e acc fp der d" and ?dec = "co_hex_decode (va_coder (ke_vault e))"
  have same: "same_key ?n q \<longleftrightarrow> key_triple q = key_triple r" for q
    using assms(4) by (auto simp: same_key_def intermediate_row_def key_triple_def)
  have n: "ck_key_type ?n = ''intermediate''" "ck_is_default_sign ?n = 0" by (simp_all add: intermediate_row_def)
  define d' where "d' = d\<lparr>t_crypto_keys := map (\<lambda>q. if same_key ?n q then merge_intermediate q ?n else q) (t_crypto_keys d)\<rparr>"
  have run: "upsert_intermediate_cert fingerprint e acc der d = (Returned (Inr ()), d')"
    unfolding d'_def by (rule upsert_intermediate_existing) (use assms(1,3,7) same in \<open>auto simp: list_ex_iff\<close>)
  have anchors: "\<exists>ders. list_trust_anchor_certs e acc d0 = (Returned (Inr ders), d0) \<and> (der \<in> set ders \<longleftrightarrow>
      (\<exists>q \<in> set (t_crypto_keys d0). ck_account q = acc \<and> ck_standard q = ''smime'' \<and> ck_key_type q = ''cert'' \<and> ?dec (ck_public_data q) = Inr der))"
    if "healthy d0" for d0
  proof -
    have dec: "(case ?dec h of Inr x \<Rightarrow> Some x | Inl _ \<Rightarrow> None) = Some der \<longleftrightarrow> ?dec h = Inr der" for h
      by (cases "?dec h") auto
    define ders where "ders = List.map_filter (\<lambda>hex. case ?dec hex of Inr der \<Rightarrow> Some der | Inl _ \<Rightarrow> None)
      (map ck_public_data (filter (\<lambda>q. ck_account q = acc \<and> ck_standard q = ''smime'' \<and> ck_key_type q = ''cert'') (ke_scan e (t_crypto_keys d0))))"
    have "list_trust_anchor_certs e acc d0 = (Returned (Inr ders), d0)"
      using that by (simp add: list_trust_anchor_certs_def certs_of_type_def io_bind_def io_ret_def db_query_healthy ders_def)
    moreover have "der \<in> set ders \<longleftrightarrow>
      (\<exists>q \<in> set (t_crypto_keys d0). ck_account q = acc \<and> ck_standard q = ''smime'' \<and> ck_key_type q = ''cert'' \<and> ?dec (ck_public_data q) = Inr der)"
      using assms(2) unfolding ders_def set_map_filter_iff dec by (auto simp: scan_ok_def)
    ultimately show ?thesis by blast
  qed
  have "healthy d'" using assms(1) by (simp add: d'_def healthy_def)
  have "\<not> (ck_key_type q = ''cert'' \<and> ?dec (ck_public_data q) = Inr der)" if "q \<in> set (t_crypto_keys d')" for q
    using that only by (auto simp: d'_def same merge_intermediate_def n split: if_splits)
  moreover have "ck_is_default_sign q = 0" if "q \<in> set (t_crypto_keys d')" "key_triple q = key_triple r" for q
    using that by (auto simp: d'_def same merge_intermediate_def n split: if_splits)
  moreover have "ck_account r = acc" "ck_standard r = ''smime''" using assms(4) by (simp_all add: key_triple_def)
  ultimately show ?thesis
    using run anchors [OF assms(1)] anchors [OF \<open>healthy d'\<close>] assms(3,5,6) by blast
qed

section \<open>Witnesses\<close>

definition sample_env :: "string \<Rightarrow> key_env" where
  "sample_env u = \<lparr>ke_vault = sample_vault, ke_uuid = u, ke_scan = rev\<rparr>"

definition key_db :: db where
  "key_db = empty_db\<lparr>t_accounts := (\<lambda>a. if a \<in> {''a1'', ''a2''} then
     Some \<lparr>ac_email = a @ ''@x.org'', ac_crypto_method = None, ac_crypto_granularity = None, ac_last_sync_at = None\<rparr> else None)\<rparr>"

definition sample_key :: "u8 list option \<Rightarrow> stored_key" where
  "sample_key private = \<lparr>sk_handle = \<lparr>kr_handle = Software [], kr_standard = OpenPgp, kr_fingerprint = ''ab12'',
     kr_usage = SignAndEncrypt, kr_algorithm = ''rsa''\<rparr>, sk_public_data = [1, 2], sk_private_data = private\<rparr>"

definition sample_row :: "string \<Rightarrow> string \<Rightarrow> int \<Rightarrow> crypto_key_row" where
  "sample_row i acc dflt = \<lparr>ck_id = i, ck_account = acc, ck_standard = ''openpgp'', ck_key_type = ''cert'',
     ck_email = None, ck_fingerprint = ''ab12'', ck_public_data = ''0102'', ck_private_data_enc = None, ck_token_serial = None,
     ck_token_key_id = None, ck_origin = ''generated'', ck_is_default_sign = dflt, ck_is_default_encrypt = 0,
     ck_created_at = ''1'', ck_expires_at = None, ck_policy_json = None\<rparr>"

lemma sample_env_ok [simp]: "aead_ok (ke_vault (sample_env u))" "scan_ok (sample_env u)" "healthy key_db" "keys_ok key_db"
    "puttable (sample_env u) ''a1'' (sample_key (Some [7])) key_db" "healthy (key_db\<lparr>t_crypto_keys := ks\<rparr>)"
  by (simp_all add: sample_env_def sample_vault_ok scan_ok_def healthy_def key_db_def empty_db_def keys_ok_def puttable_def
      sample_key_def)

lemma keystore_roundtrip_witness:
  "\<exists>h d'. ks_put (sqlite_key_store (sample_env ''k1'') ''a1'') (sample_key (Some [7])) key_db = (Returned (Inr h), d')
    \<and> kr_fingerprint h = ''ab12'' \<and> kr_standard h = OpenPgp
    \<and> ks_get (sqlite_key_store (fresh_nonce (replicate 12 3) (sample_env ''k1'')) ''a1'') (kr_handle h) d'
        = (Returned (Inr (Some ((sample_key (Some [7]))\<lparr>sk_handle := h\<rparr>))), d')"
proof -
  have k: "fingerprint_new ''ab12'' = ''ab12''" "kr_standard (sk_handle (sample_key p)) = OpenPgp"
    "kr_fingerprint (sk_handle (sample_key p)) = ''ab12''" for p
    by (code_simp, simp_all add: sample_key_def)
  show ?thesis
    using keystore_roundtrip [of key_db "sample_env ''k1''" "''a1''" "sample_key (Some [7])" "replicate 12 3"]
    by (simp add: k)
qed

lemma remove_crosses_accounts_witness:
  "\<exists>d'. ks_remove (sqlite_key_store (sample_env ''k1'') ''a1'') (Software (encode_key_id OpenPgp ''ab12''))
      (key_db\<lparr>t_crypto_keys := [sample_row ''k1'' ''a2'' 0]\<rparr>) = (Returned (Inr ()), d')
    \<and> sample_row ''k1'' ''a2'' 0 \<notin> set (t_crypto_keys d')
    \<and> ks_get (sqlite_key_store (sample_env ''k1'') ''a2'') (Software (encode_key_id OpenPgp ''ab12'')) d' = (Returned (Inr None), d')"
proof -
  have fp: "fingerprint_new ''ab12'' = ''ab12''" by code_simp
  let ?d = "key_db\<lparr>t_crypto_keys := [sample_row ''k1'' ''a2'' 0]\<rparr>"
  have "sample_row ''k1'' ''a2'' 0 \<in> set (t_crypto_keys ?d)" by simp
  moreover have "named_key (standard_as_str OpenPgp) (fingerprint_new ''ab12'') (sample_row ''k1'' ''a2'' 0)"
    by (simp add: fp named_key_def sample_row_def)
  moreover have "ck_account (sample_row ''k1'' ''a2'' 0) = ''a2''" by (simp add: sample_row_def)
  ultimately show ?thesis
    using remove_crosses_accounts [of ?d "sample_row ''k1'' ''a2'' 0" OpenPgp "''ab12''" "''a1''" "sample_env ''k1''"] by simp
qed

definition default_db :: "int \<Rightarrow> db" where
  "default_db n = key_db\<lparr>t_crypto_keys := [sample_row ''k0'' ''a1'' n]\<rparr>"

lemma default_db_ok: "healthy (default_db n)" "keys_ok (default_db n)"
    "puttable (sample_env ''k1'') ''a1'' (sample_key (Some [7])) (default_db n)"
  by (simp_all add: default_db_def keys_ok_def key_row_valid_def sample_row_def puttable_def named_key_def sample_key_def
      sample_env_def) (simp add: key_db_def)

lemma set_default_signing_key_spec_witness:
  "case set_default_signing_key ''a1'' ''openpgp'' ''ab12'' (default_db 0) of
      (Returned (Inr _), d') \<Rightarrow>
        (\<exists>r \<in> set (t_crypto_keys (default_db 0)). ck_account r = ''a1'' \<and> named_key ''openpgp'' ''ab12'' r
           \<and> filter (default_of ''a1'' ''openpgp'') (t_crypto_keys d') = [r\<lparr>ck_is_default_sign := 1\<rparr>]
           \<and> get_default_signing_key (sample_env ''k1'') ''a1'' OpenPgp d'
               = (Returned (Inr (Some \<lparr>dk_standard = ''openpgp'', dk_fingerprint = ''ab12'', dk_email = ck_email r\<rparr>)), d'))
    | (Returned (Inl _), d') \<Rightarrow> d' = default_db 0
        \<and> \<not> list_ex (\<lambda>r. ck_account r = ''a1'' \<and> named_key ''openpgp'' ''ab12'' r) (t_crypto_keys (default_db 0))
    | _ \<Rightarrow> False"
  using set_default_signing_key_spec [where acc = "''a1''" and std = OpenPgp and fp = "''ab12''",
      OF default_db_ok(1,2) [of 0] sample_env_ok(2) [of "''k1''"]]
  by (simp only: standard_as_str.simps)

lemma reimport_drops_default_witness:
  "\<exists>d1 h d2. set_default_signing_key ''a1'' ''openpgp'' ''ab12'' (default_db 0) = (Returned (Inr ()), d1)
    \<and> store_put (sample_env ''k1'') ''a1'' (sample_key (Some [7])) d1 = (Returned (Inr h), d2)
    \<and> get_default_signing_key (sample_env ''k1'') ''a1'' OpenPgp d2 = (Returned (Inr None), d2)"
proof -
  let ?e = "sample_env ''k1''" and ?k = "sample_key (Some [7])"
  have k: "kr_standard (sk_handle ?k) = OpenPgp" "kr_fingerprint (sk_handle ?k) = ''ab12''" by (simp_all add: sample_key_def)
  have set: "set_default_signing_key ''a1'' ''openpgp'' ''ab12'' (default_db 0) = (Returned (Inr ()), default_db 1)"
    using default_db_ok(1) [of 0]
    by (simp add: set_default_signing_key_run default_db_def sample_row_def named_key_def flag_default_def unflag_default_def)
  obtain h d2 where put: "store_put ?e ''a1'' ?k (default_db 1) = (Returned (Inr h), d2)"
    using store_put_stores [OF default_db_ok(1) sample_env_ok(1) default_db_ok(3), of 1] by blast
  from reimport_drops_default [OF default_db_ok(1) sample_env_ok(1) default_db_ok(3) default_db_ok(2) sample_env_ok(2), of 0 "default_db 1" h d2]
    set put k show ?thesis by auto
qed

definition root_db :: db where
  "root_db = key_db\<lparr>t_crypto_keys := [(sample_row ''k0'' ''a1'' 1)\<lparr>ck_standard := ''smime''\<rparr>]\<rparr>"

lemma p12_demotes_trusted_root_witness:
  "\<exists>ders d' ders'. list_trust_anchor_certs (sample_env ''k1'') ''a1'' root_db = (Returned (Inr ders), root_db) \<and> [1, 2] \<in> set ders
    \<and> upsert_intermediate_cert (\<lambda>_. Inr ''ab12'') (sample_env ''k1'') ''a1'' [1, 2] root_db = (Returned (Inr ()), d')
    \<and> list_trust_anchor_certs (sample_env ''k1'') ''a1'' d' = (Returned (Inr ders'), d') \<and> [1, 2] \<notin> set ders'
    \<and> (\<forall>q \<in> set (t_crypto_keys d'). key_triple q = (''a1'', ''smime'', ''ab12'') \<longrightarrow> ck_is_default_sign q = 0)"
proof -
  let ?r = "(sample_row ''k0'' ''a1'' 1)\<lparr>ck_standard := ''smime''\<rparr>"
  have t: "key_triple ?r = (''a1'', ''smime'', ''ab12'')" by (simp add: key_triple_def sample_row_def)
  have "healthy root_db" by (simp add: root_db_def)
  moreover have "?r \<in> set (t_crypto_keys root_db)" by (simp add: root_db_def)
  moreover have "ck_key_type ?r = ''cert''" by (simp add: sample_row_def)
  moreover have "co_hex_decode (va_coder (ke_vault (sample_env ''k1''))) (ck_public_data ?r) = Inr [1, 2]" by code_simp
  moreover have "\<forall>q \<in> set (t_crypto_keys root_db). co_hex_decode (va_coder (ke_vault (sample_env ''k1''))) (ck_public_data q) = Inr [1, 2]
      \<longrightarrow> key_triple q = key_triple ?r"
    by (simp add: root_db_def)
  ultimately show ?thesis
    using p12_demotes_trusted_root [of root_db "sample_env ''k1''" ?r "''a1''" "''ab12''" "[1, 2]" "\<lambda>_. Inr ''ab12''"] t
    by simp
qed

end
