(* ===== verification/Smime_Chain.thy ===== *)
theory Smime_Chain
  imports Crypto_Types
begin

text \<open>
  \<open>chain.rs\<close> of the S/MIME crate: validation of a signer's certificate chain with revocation lists. The \<open>pkix\<close>
  crates (path validation, one revocation list, mailbox names) and the RSA primitives are parameters.
\<close>

section \<open>Results\<close>

datatype revocation_state = RevGood | RevRevoked | RevUnchecked | RevStale

record chain_outcome =
  co_chain_valid :: bool
  co_identity_match :: bool
  co_revocation_state :: revocation_state
  co_failure_reason :: "string option"
  co_revocation_reason :: "string option"

text \<open>The errors of \<open>pkix_revocation\<close>, as far as the code tells them apart: the serial and the reason (as \<open>Debug\<close>
  prints it) of a revoked certificate, a list of another issuer, and all others with their text; and those of \<open>pkix_chain\<close>.\<close>

datatype crl_error = Revoked string "string option" | CrlIssuerMismatch | CrlUnusable string

datatype chain_error = IdentityError string | RevocationError crl_error | OtherChainError string

section \<open>The composite checker\<close>

text \<open>The two cells of \<open>KylinsCrlChecker\<close>.\<close>

record crl_cells =
  any_matched :: bool
  any_unusable :: bool

definition fresh_cells :: crl_cells where
  "fresh_cells = \<lparr>any_matched = False, any_unusable = False\<rparr>"

text \<open>The loop of both checks; \<open>ask\<close> is the answer of one list about the certificate at hand.\<close>

fun check_with :: "('crl \<Rightarrow> crl_error + unit) \<Rightarrow> 'crl list \<Rightarrow> (crl_cells, crl_error, unit) io" where
  "check_with ask [] s = (Returned (Inr ()), s)"
| "check_with ask (crl # crls) s =
     (case ask crl of
        Inr _ \<Rightarrow> (Returned (Inr ()), s\<lparr>any_matched := True\<rparr>)
      | Inl (Revoked serial reason) \<Rightarrow> (Returned (Inl (Revoked serial reason)), s\<lparr>any_matched := True\<rparr>)
      | Inl CrlIssuerMismatch \<Rightarrow> check_with ask crls s
      | Inl (CrlUnusable _) \<Rightarrow> (Returned (Inr ()), s\<lparr>any_matched := True, any_unusable := True\<rparr>))"

definition revocation_state :: "crl_cells \<Rightarrow> revocation_state" where
  "revocation_state s =
     (if any_matched s then (if any_unusable s then RevStale else RevGood) else RevUnchecked)"

section \<open>The signature verifier and the policy\<close>

record algorithm =
  al_oid :: string
  al_params :: "u8 list option"

definition OID_RSASSA_PSS :: string where "OID_RSASSA_PSS = ''1.2.840.113549.1.1.10''"
definition SHA256_OID :: string where "SHA256_OID = ''2.16.840.1.101.3.4.2.1''"
definition SHA384_OID :: string where "SHA384_OID = ''2.16.840.1.101.3.4.2.2''"
definition SHA512_OID :: string where "SHA512_OID = ''2.16.840.1.101.3.4.2.3''"

type_synonym 'key verify = "'key \<Rightarrow> u8 list \<Rightarrow> u8 list \<Rightarrow> bool"

record 'key rsa_lib =
  rl_public_key :: "u8 list \<Rightarrow> 'key option"
  rl_signature :: "u8 list \<Rightarrow> u8 list option"
  rl_pss_hash :: "u8 list \<Rightarrow> string option"
  rl_pss256 :: "'key verify"
  rl_pss384 :: "'key verify"
  rl_pss512 :: "'key verify"
  rl_default :: "algorithm \<Rightarrow> u8 list \<Rightarrow> u8 list \<Rightarrow> u8 list \<Rightarrow> bool"

definition rsa_pss_hash_oid :: "'key rsa_lib \<Rightarrow> u8 list option \<Rightarrow> string option" where
  "rsa_pss_hash_oid rl params = Option.bind params (rl_pss_hash rl)"

definition verify_rsa_pss :: "'key rsa_lib \<Rightarrow> algorithm \<Rightarrow> u8 list \<Rightarrow> u8 list \<Rightarrow> u8 list \<Rightarrow> bool" where
  "verify_rsa_pss rl alg spki message signature =
     (case (rl_public_key rl spki, rl_signature rl signature, rsa_pss_hash_oid rl (al_params alg)) of
        (Some key, Some sig, Some oid) \<Rightarrow>
          if oid = SHA256_OID then rl_pss256 rl key message sig
          else if oid = SHA384_OID then rl_pss384 rl key message sig
          else if oid = SHA512_OID then rl_pss512 rl key message sig
          else False
      | _ \<Rightarrow> False)"

definition verify_signature :: "'key rsa_lib \<Rightarrow> algorithm \<Rightarrow> u8 list \<Rightarrow> u8 list \<Rightarrow> u8 list \<Rightarrow> bool" where
  "verify_signature rl alg spki message signature =
     (if al_oid alg = OID_RSASSA_PSS then verify_rsa_pss rl alg spki message signature
      else rl_default rl alg spki message signature)"

text \<open>The fields of a validation policy that the profile touches; the rest comes from \<open>SmimeProfile\<close>.\<close>

record validation_policy =
  vp_allowed_signature_algs :: "string list option"
  vp_max_validity_secs :: "nat option"

definition kylins_policy :: "(u64 \<Rightarrow> 'p validation_policy_scheme) \<Rightarrow> u64 \<Rightarrow> 'p validation_policy_scheme" where
  "kylins_policy smime_profile now_unix =
     (let p = smime_profile now_unix
      in p\<lparr>vp_allowed_signature_algs := map_option (\<lambda>algs. algs @ [OID_RSASSA_PSS]) (vp_allowed_signature_algs p),
           vp_max_validity_secs := None\<rparr>)"

section \<open>Validation\<close>

text \<open>A checker as \<open>pkix\<close> calls it: on a link of the chain, and on the last certificate against the anchor.\<close>

record ('cert, 'anchor) checker =
  ck_link :: "'cert \<Rightarrow> 'cert \<Rightarrow> (crl_cells, crl_error, unit) io"
  ck_anchor :: "'cert \<Rightarrow> 'anchor \<Rightarrow> (crl_cells, crl_error, unit) io"

type_synonym sig_verifier = "algorithm \<Rightarrow> u8 list \<Rightarrow> u8 list \<Rightarrow> u8 list \<Rightarrow> bool"

record ('cert, 'anchor, 'crl, 'mailbox, 'key, 'p) pkix =
  px_rsa :: "'key rsa_lib"
  px_profile :: "u64 \<Rightarrow> 'p validation_policy_scheme"
  px_display :: "chain_error \<Rightarrow> string"
  px_crl_display :: "crl_error \<Rightarrow> string"
  px_parse_cert :: "u8 list \<Rightarrow> string + 'cert"
  px_anchor :: "'cert \<Rightarrow> 'anchor"
  px_parse_crl :: "u8 list \<Rightarrow> u64 \<Rightarrow> sig_verifier \<Rightarrow> string + 'crl"
  px_check :: "'crl \<Rightarrow> 'cert \<Rightarrow> 'cert \<Rightarrow> crl_error + unit"
  px_check_anchor :: "'crl \<Rightarrow> 'cert \<Rightarrow> 'anchor \<Rightarrow> crl_error + unit"
  px_parse_mailbox :: "string \<Rightarrow> string + 'mailbox"
  px_verify_signer :: "'cert list \<Rightarrow> 'anchor list \<Rightarrow> 'mailbox \<Rightarrow> (u64 \<Rightarrow> 'p validation_policy_scheme) \<Rightarrow> u64 \<Rightarrow> sig_verifier
     \<Rightarrow> ('cert, 'anchor) checker \<Rightarrow> (crl_cells, chain_error, unit) io"
  px_verify_chain :: "'cert list \<Rightarrow> 'anchor list \<Rightarrow> 'p validation_policy_scheme \<Rightarrow> sig_verifier
     \<Rightarrow> ('cert, 'anchor) checker \<Rightarrow> (crl_cells, chain_error, unit) io"

definition kylins_crls :: "('cert, 'anchor, 'crl, 'mailbox, 'key, 'p) pkix \<Rightarrow> u8 list list \<Rightarrow> u64 \<Rightarrow> 'crl list" where
  "kylins_crls px crl_ders now_unix =
     List.map_filter (\<lambda>der. case px_parse_crl px der now_unix (verify_signature (px_rsa px)) of Inr c \<Rightarrow> Some c | Inl _ \<Rightarrow> None) crl_ders"

definition kylins_checker :: "('cert, 'anchor, 'crl, 'mailbox, 'key, 'p) pkix \<Rightarrow> 'crl list \<Rightarrow> ('cert, 'anchor) checker" where
  "kylins_checker px crls =
     \<lparr>ck_link = (\<lambda>cert issuer. check_with (\<lambda>crl. px_check px crl cert issuer) crls),
      ck_anchor = (\<lambda>cert anchor. check_with (\<lambda>crl. px_check_anchor px crl cert anchor) crls)\<rparr>"

definition fail :: "string \<Rightarrow> chain_outcome" where
  "fail reason = \<lparr>co_chain_valid = False, co_identity_match = False, co_revocation_state = RevUnchecked,
     co_failure_reason = Some reason, co_revocation_reason = None\<rparr>"

fun build_anchors_from :: "('cert, 'anchor, 'crl, 'mailbox, 'key, 'p) pkix \<Rightarrow> nat \<Rightarrow> u8 list list \<Rightarrow> string + 'anchor list" where
  "build_anchors_from px i [] = Inr []"
| "build_anchors_from px i (der # ders) =
     res_bind (map_err (\<lambda>e. ''parse trust anchor #'' @ dec_string i @ '': '' @ e) (px_parse_cert px der)) (\<lambda>cert.
     map_sum id ((#) (px_anchor px cert)) (build_anchors_from px (Suc i) ders))"

definition build_anchors :: "('cert, 'anchor, 'crl, 'mailbox, 'key, 'p) pkix \<Rightarrow> u8 list list \<Rightarrow> string + 'anchor list" where
  "build_anchors px = build_anchors_from px 0"

fun parse_chain :: "('cert, 'anchor, 'crl, 'mailbox, 'key, 'p) pkix \<Rightarrow> nat \<Rightarrow> u8 list list \<Rightarrow> string + 'cert list" where
  "parse_chain px i [] = Inr []"
| "parse_chain px i (der # ders) =
     res_bind (map_err (\<lambda>e. ''parse intermediate #'' @ dec_string i @ '': '' @ e) (px_parse_cert px der)) (\<lambda>cert.
     map_sum id ((#) cert) (parse_chain px (Suc i) ders))"

definition valid_outcome :: "crl_cells \<Rightarrow> chain_outcome" where
  "valid_outcome s = \<lparr>co_chain_valid = True, co_identity_match = True, co_revocation_state = revocation_state s,
     co_failure_reason = None, co_revocation_reason = None\<rparr>"

definition revocation_outcome :: "(crl_error \<Rightarrow> string) \<Rightarrow> crl_error \<Rightarrow> chain_outcome" where
  "revocation_outcome display rev_err =
     (case rev_err of
        Revoked serial reason_code \<Rightarrow>
          \<lparr>co_chain_valid = False, co_identity_match = False, co_revocation_state = RevRevoked,
           co_failure_reason = Some (''certificate '' @ serial @ '' revoked''
             @ (case reason_code of Some r \<Rightarrow> '' ('' @ r @ '')'' | None \<Rightarrow> [])),
           co_revocation_reason = Some (opt_or ''Unspecified'' reason_code)\<rparr>
      | other \<Rightarrow> fail (''revocation: '' @ display other))"

definition signer_outcome :: "('cert, 'anchor, 'crl, 'mailbox, 'key, 'p) pkix \<Rightarrow> (chain_error + unit) panicky \<times> crl_cells \<Rightarrow> chain_outcome panicky" where
  "signer_outcome px r =
     (case r of
        (Panicked, _) \<Rightarrow> Panicked
      | (Returned (Inr _), s) \<Rightarrow> Returned (valid_outcome s)
      | (Returned (Inl (IdentityError e)), s) \<Rightarrow>
          Returned \<lparr>co_chain_valid = True, co_identity_match = False, co_revocation_state = revocation_state s,
            co_failure_reason = Some (''identity mismatch: '' @ e), co_revocation_reason = None\<rparr>
      | (Returned (Inl (RevocationError e)), _) \<Rightarrow> Returned (revocation_outcome (px_crl_display px) e)
      | (Returned (Inl (OtherChainError e)), _) \<Rightarrow> Returned (fail (px_display px (OtherChainError e))))"

definition path_outcome :: "('cert, 'anchor, 'crl, 'mailbox, 'key, 'p) pkix \<Rightarrow> (chain_error + unit) panicky \<times> crl_cells \<Rightarrow> chain_outcome panicky" where
  "path_outcome px r =
     (case r of
        (Panicked, _) \<Rightarrow> Panicked
      | (Returned (Inr _), s) \<Rightarrow> Returned (valid_outcome s)
      | (Returned (Inl (RevocationError e)), _) \<Rightarrow> Returned (revocation_outcome (px_crl_display px) e)
      | (Returned (Inl e), _) \<Rightarrow> Returned (fail (px_display px e)))"

definition validate_signer_chain ::
  "('cert, 'anchor, 'crl, 'mailbox, 'key, 'p) pkix \<Rightarrow> u8 list \<Rightarrow> u8 list list \<Rightarrow> u8 list list \<Rightarrow> string option \<Rightarrow> i64 \<Rightarrow> u8 list list
     \<Rightarrow> chain_outcome panicky" where
  "validate_signer_chain px signer_cert_der intermediates_der trust_anchor_ders from_email signing_time_unix crls =
     (case px_parse_cert px signer_cert_der of
        Inl e \<Rightarrow> Returned (fail (''parse signer cert: '' @ e))
      | Inr leaf \<Rightarrow>
          (case parse_chain px 0 intermediates_der of
             Inl e \<Rightarrow> Returned (fail e)
           | Inr intermediates \<Rightarrow>
               (case build_anchors px trust_anchor_ders of
                  Inl e \<Rightarrow> Returned (fail e)
                | Inr anchors \<Rightarrow>
                    (let now_unix = (if signing_time_unix <s 0 then 0 else signing_time_unix);
                         verifier = verify_signature (px_rsa px);
                         checker = kylins_checker px (kylins_crls px crls now_unix)
                     in case from_email of
                          Some email \<Rightarrow>
                            (case px_parse_mailbox px email of
                               Inl e \<Rightarrow> Returned (fail (''parse from_email '' @ debug_str email @ '': '' @ e))
                             | Inr mailbox \<Rightarrow>
                                 signer_outcome px (px_verify_signer px (leaf # intermediates) anchors mailbox
                                   (kylins_policy (px_profile px)) now_unix verifier checker fresh_cells))
                        | None \<Rightarrow>
                            path_outcome px (px_verify_chain px (leaf # intermediates) anchors
                              (kylins_policy (px_profile px) now_unix) verifier checker fresh_cells)))))"

section \<open>The decisive list\<close>

text \<open>What the loop decides: the first list of the right issuer settles the question.\<close>

definition decisive :: "('crl \<Rightarrow> crl_error + unit) \<Rightarrow> 'crl list \<Rightarrow> (crl_error + unit) option" where
  "decisive ask crls = find (\<lambda>a. a \<noteq> Inl CrlIssuerMismatch) (map ask crls)"

lemma check_with_decisive:
  "check_with ask crls s =
     (case decisive ask crls of
        None \<Rightarrow> (Returned (Inr ()), s)
      | Some (Inr _) \<Rightarrow> (Returned (Inr ()), s\<lparr>any_matched := True\<rparr>)
      | Some (Inl (Revoked n r)) \<Rightarrow> (Returned (Inl (Revoked n r)), s\<lparr>any_matched := True\<rparr>)
      | Some (Inl _) \<Rightarrow> (Returned (Inr ()), s\<lparr>any_matched := True, any_unusable := True\<rparr>))"
  by (induction crls) (auto simp: decisive_def split: sum.split crl_error.split)

text \<open>What a path validator does with a checker, as \<open>pkix_chain\<close> documents it: one question per link, from the signer
  to the certificate that the anchor issued, and one question about the latter; the first error ends it.\<close>

fun walk :: "('cert, 'anchor) checker \<Rightarrow> 'cert list \<Rightarrow> 'anchor \<Rightarrow> (crl_cells, crl_error, unit) io" where
  "walk ch [] a = io_ret ()"
| "walk ch [c] a = ck_anchor ch c a"
| "walk ch (c # i # cs) a = io_bind (ck_link ch c i) (\<lambda>_. walk ch (i # cs) a)"

text \<open>The answers that a walk meets.\<close>

fun answers :: "('cert, 'anchor, 'crl, 'mailbox, 'key, 'p) pkix \<Rightarrow> 'crl list \<Rightarrow> 'cert list \<Rightarrow> 'anchor \<Rightarrow> (crl_error + unit) option list" where
  "answers px crls [] a = []"
| "answers px crls [c] a = [decisive (\<lambda>crl. px_check_anchor px crl c a) crls]"
| "answers px crls (c # i # cs) a = decisive (\<lambda>crl. px_check px crl c i) crls # answers px crls (i # cs) a"

definition is_revoked :: "(crl_error + unit) option \<Rightarrow> bool" where
  "is_revoked x = (case x of Some (Inl (Revoked _ _)) \<Rightarrow> True | _ \<Rightarrow> False)"

definition is_unusable :: "(crl_error + unit) option \<Rightarrow> bool" where
  "is_unusable x = (case x of Some (Inl (Revoked _ _)) \<Rightarrow> False | Some (Inl _) \<Rightarrow> True | _ \<Rightarrow> False)"

lemma check_with_ok:
  "check_with ask crls s = (Returned (Inr ()), s') \<longleftrightarrow> \<not> is_revoked (decisive ask crls)
     \<and> s' = s\<lparr>any_matched := any_matched s \<or> decisive ask crls \<noteq> None,
             any_unusable := any_unusable s \<or> is_unusable (decisive ask crls)\<rparr>"
  by (cases s) (auto simp: check_with_decisive is_revoked_def is_unusable_def split: option.split sum.split crl_error.split)

lemma walk_ok:
  "cs \<noteq> [] \<Longrightarrow> walk (kylins_checker px crls) cs a s = (Returned (Inr ()), s') \<longleftrightarrow>
     list_all (\<lambda>x. \<not> is_revoked x) (answers px crls cs a)
     \<and> s' = s\<lparr>any_matched := any_matched s \<or> list_ex (\<lambda>x. x \<noteq> None) (answers px crls cs a),
             any_unusable := any_unusable s \<or> list_ex is_unusable (answers px crls cs a)\<rparr>"
proof (induction cs arbitrary: s rule: induct_list012)
  case (3 c i cs)
  have "walk (kylins_checker px crls) (c # i # cs) a s = (Returned (Inr ()), s') \<longleftrightarrow>
    (\<exists>s1. check_with (\<lambda>crl. px_check px crl c i) crls s = (Returned (Inr ()), s1)
      \<and> walk (kylins_checker px crls) (i # cs) a s1 = (Returned (Inr ()), s'))"
    by (auto simp: kylins_checker_def io_bind_def split: prod.split panicky.split sum.split)
  then show ?case
    using 3(2) by (cases s) (auto simp: check_with_ok)
qed (simp_all add: kylins_checker_def check_with_ok)

text \<open>What is assumed of \<open>pkix_chain\<close>: it succeeds (or only fails to bind the mailbox, which comes last) after a walk
  to one of the anchors without an error.\<close>

definition walks :: "('cert, 'anchor, 'crl, 'mailbox, 'key, 'p) pkix \<Rightarrow> bool" where
  "walks px \<longleftrightarrow>
     (\<forall>cs as mb pf n v ch s r s'. px_verify_signer px cs as mb pf n v ch s = (Returned r, s')
        \<longrightarrow> r = Inr () \<or> (\<exists>e. r = Inl (IdentityError e)) \<longrightarrow> (\<exists>a \<in> set as. walk ch cs a s = (Returned (Inr ()), s')))
     \<and> (\<forall>cs as pol v ch s s'. px_verify_chain px cs as pol v ch s = (Returned (Inr ()), s')
        \<longrightarrow> (\<exists>a \<in> set as. walk ch cs a s = (Returned (Inr ()), s')))"

definition validation_time :: "i64 \<Rightarrow> u64" where
  "validation_time t = (if t <s 0 then 0 else t)"

definition state_of_answers :: "(crl_error + unit) option list \<Rightarrow> revocation_state" where
  "state_of_answers xs =
     (if list_all (\<lambda>x. x = None) xs then RevUnchecked else if list_ex is_unusable xs then RevStale else RevGood)"

lemma signer_outcome_valid:
  assumes "signer_outcome px r = Returned out" and "co_chain_valid out"
  shows "\<exists>x s. r = (Returned x, s) \<and> (x = Inr () \<or> (\<exists>e. x = Inl (IdentityError e))) \<and> co_revocation_state out = revocation_state s"
  using assms by (auto simp: signer_outcome_def valid_outcome_def revocation_outcome_def fail_def
      split: prod.splits panicky.splits sum.splits chain_error.splits crl_error.splits)

lemma path_outcome_valid:
  assumes "path_outcome px r = Returned out" and "co_chain_valid out"
  shows "\<exists>s. r = (Returned (Inr ()), s) \<and> co_revocation_state out = revocation_state s"
  using assms by (auto simp: path_outcome_def valid_outcome_def revocation_outcome_def fail_def
      split: prod.splits panicky.splits sum.splits chain_error.splits crl_error.splits)

lemma state_after_walk:
  assumes "cs \<noteq> []" and "walk (kylins_checker px crls) cs a fresh_cells = (Returned (Inr ()), s)"
  shows "list_all (\<lambda>x. \<not> is_revoked x) (answers px crls cs a) \<and> revocation_state s = state_of_answers (answers px crls cs a)"
proof -
  let ?xs = "answers px crls cs a"
  from assms(2) have "list_all (\<lambda>x. \<not> is_revoked x) ?xs"
    and s: "s = \<lparr>any_matched = list_ex (\<lambda>x. x \<noteq> None) ?xs, any_unusable = list_ex is_unusable ?xs\<rparr>"
    by (auto simp: walk_ok [OF assms(1)] fresh_cells_def)
  then show ?thesis
    by (auto simp: revocation_state_def state_of_answers_def list_all_iff list_ex_iff)
qed

text \<open>C14. A chain is only reported valid after every certificate of it was asked about, and for none of them the first
  list of the right issuer names it as revoked; the reported state is that of the answers: unchecked when no list
  concerned any certificate, stale when one of the lists used was unusable, good otherwise.\<close>

theorem accepted_chain_not_revoked:
  assumes "walks px"
    and "validate_signer_chain px signer intermediates roots from_email t crls = Returned out" and "co_chain_valid out"
  shows "\<exists>leaf cs as. px_parse_cert px signer = Inr leaf \<and> parse_chain px 0 intermediates = Inr cs \<and> build_anchors px roots = Inr as
    \<and> (\<exists>a \<in> set as. list_all (\<lambda>x. \<not> is_revoked x) (answers px (kylins_crls px crls (validation_time t)) (leaf # cs) a)
        \<and> co_revocation_state out = state_of_answers (answers px (kylins_crls px crls (validation_time t)) (leaf # cs) a))"
proof -
  let ?crls = "kylins_crls px crls (validation_time t)"
  let ?ch = "kylins_checker px ?crls" and ?v = "verify_signature (px_rsa px)" and ?n = "validation_time t"
  obtain leaf cs as where parsed: "px_parse_cert px signer = Inr leaf" "parse_chain px 0 intermediates = Inr cs" "build_anchors px roots = Inr as"
    using assms(2,3)
    by (auto simp: validate_signer_chain_def fail_def split: sum.splits)
  obtain s a where "a \<in> set as" "walk ?ch (leaf # cs) a fresh_cells = (Returned (Inr ()), s)" and st: "co_revocation_state out = revocation_state s"
  proof (cases from_email)
    case None
    with assms(2) parsed have "path_outcome px (px_verify_chain px (leaf # cs) as (kylins_policy (px_profile px) ?n) ?v ?ch fresh_cells) = Returned out"
      by (simp add: validate_signer_chain_def validation_time_def Let_def)
    from path_outcome_valid [OF this assms(3)] assms(1) show ?thesis
      unfolding walks_def by (blast intro: that)
  next
    case (Some email)
    with assms(2,3) parsed obtain mb where
      "signer_outcome px (px_verify_signer px (leaf # cs) as mb (kylins_policy (px_profile px)) ?n ?v ?ch fresh_cells) = Returned out"
      by (auto simp: validate_signer_chain_def validation_time_def Let_def fail_def split: sum.splits)
    from signer_outcome_valid [OF this assms(3)] assms(1) show ?thesis
      unfolding walks_def by (metis that)
  qed
  with parsed state_after_walk [of "leaf # cs" px ?crls a s] show ?thesis by auto
qed

section \<open>Two ways to be reported better than one is\<close>

text \<open>Path validation that finds nothing else to object to is its walk.\<close>

definition lift_walk :: "(crl_error + unit) panicky \<times> crl_cells \<Rightarrow> (chain_error + unit) panicky \<times> crl_cells" where
  "lift_walk r = (case r of (Panicked, s) \<Rightarrow> (Panicked, s) | (Returned x, s) \<Rightarrow> (Returned (map_err RevocationError x), s))"

definition otherwise_valid :: "('cert, 'anchor, 'crl, 'mailbox, 'key, 'p) pkix \<Rightarrow> 'cert list \<Rightarrow> 'anchor \<Rightarrow> 'mailbox \<Rightarrow> bool" where
  "otherwise_valid px cs a mb \<longleftrightarrow>
     (\<forall>pf n v ch s. px_verify_signer px cs [a] mb pf n v ch s = lift_walk (walk ch cs a s))"

lemma validate_otherwise_valid:
  assumes "px_parse_cert px signer = Inr leaf" and "parse_chain px 0 ders = Inr cs" and "px_parse_cert px root = Inr r"
    and "px_parse_mailbox px email = Inr mb" and "otherwise_valid px (leaf # cs) (px_anchor px r) mb"
  shows "validate_signer_chain px signer ders [root] (Some email) t crls
    = signer_outcome px (lift_walk (walk (kylins_checker px (kylins_crls px crls (validation_time t))) (leaf # cs) (px_anchor px r) fresh_cells))"
  using assms by (simp add: validate_signer_chain_def build_anchors_def otherwise_valid_def validation_time_def Let_def)

text \<open>A finding: an unusable list (expired, with a bad signature) of the right issuer ends the search, so a later
  usable list that names the certificate as revoked is never asked: the chain is valid. With the two lists in the other
  order the same certificate is rejected. Lists come in the order of the distribution points.\<close>

lemma crl_order_decides_revocation:
  assumes "px_parse_cert px signer = Inr leaf" and "px_parse_cert px root = Inr r" and "px_parse_mailbox px email = Inr mb"
    and "otherwise_valid px [leaf] (px_anchor px r) mb"
    and "px_parse_crl px d1 (validation_time t) (verify_signature (px_rsa px)) = Inr c1" and "px_check_anchor px c1 leaf (px_anchor px r) = Inl (CrlUnusable e)"
    and "px_parse_crl px d2 (validation_time t) (verify_signature (px_rsa px)) = Inr c2" and "px_check_anchor px c2 leaf (px_anchor px r) = Inl (Revoked n reason)"
  shows "\<exists>o1 o2. validate_signer_chain px signer [] [root] (Some email) t [d1, d2] = Returned o1
    \<and> co_chain_valid o1 \<and> co_identity_match o1 \<and> co_revocation_state o1 = RevStale
    \<and> validate_signer_chain px signer [] [root] (Some email) t [d2, d1] = Returned o2
    \<and> \<not> co_chain_valid o2 \<and> co_revocation_state o2 = RevRevoked"
  using validate_otherwise_valid [OF assms(1) _ assms(2-4), of "[]"] assms(5-8)
  by (simp add: kylins_crls_def kylins_checker_def List.map_filter_def signer_outcome_def lift_walk_def valid_outcome_def
      revocation_outcome_def revocation_state_def fresh_cells_def)

text \<open>A finding: the state is that of the whole chain. When no list at all concerns the signer's certificate but one
  is good for the certificate of its issuer, the signer is reported as checked and good.\<close>

lemma good_without_leaf_crl:
  assumes "px_parse_cert px signer = Inr leaf" and "px_parse_cert px issuer = Inr ca" and "px_parse_cert px root = Inr r"
    and "px_parse_mailbox px email = Inr mb" and "otherwise_valid px [leaf, ca] (px_anchor px r) mb"
    and "decisive (\<lambda>crl. px_check px crl leaf ca) (kylins_crls px crls (validation_time t)) = None"
    and "decisive (\<lambda>crl. px_check_anchor px crl ca (px_anchor px r)) (kylins_crls px crls (validation_time t)) = Some (Inr ())"
  shows "\<exists>out. validate_signer_chain px signer [issuer] [root] (Some email) t crls = Returned out
    \<and> co_chain_valid out \<and> co_revocation_state out = RevGood"
proof -
  have "parse_chain px 0 [issuer] = Inr [ca]" using assms(2) by simp
  from validate_otherwise_valid [OF assms(1) this assms(3-5)] assms(6,7) show ?thesis
    by (simp add: kylins_checker_def io_bind_def check_with_decisive signer_outcome_def lift_walk_def valid_outcome_def
        revocation_state_def fresh_cells_def)
qed

text \<open>RSA-PSS fails closed: without parameters or with another hash no signature is accepted.\<close>

lemma pss_fails_closed:
  "verify_rsa_pss rl alg spki message signature \<Longrightarrow>
     \<exists>p. al_params alg = Some p \<and> rl_pss_hash rl p \<in> {Some SHA256_OID, Some SHA384_OID, Some SHA512_OID}"
  by (auto simp: verify_rsa_pss_def rsa_pss_hash_oid_def Option.bind_eq_Some_conv split: option.splits if_splits)

section \<open>Witnesses\<close>

text \<open>Certificates, anchors and lists are their own bytes; the first byte of a list is its answer.\<close>

definition sample_answer :: "u8 list \<Rightarrow> crl_error + unit" where
  "sample_answer crl = (if crl = [0] then Inl (CrlUnusable ''expired'') else if crl = [1] then Inl (Revoked ''77'' (Some ''KeyCompromise''))
     else if crl = [2] then Inr () else Inl CrlIssuerMismatch)"

definition sample_pkix :: "(u8 list, u8 list, u8 list, string, unit, unit) pkix" where
  "sample_pkix = \<lparr>px_rsa = \<lparr>rl_public_key = (\<lambda>_. None), rl_signature = Some, rl_pss_hash = (\<lambda>_. None),
       rl_pss256 = (\<lambda>_ _ _. False), rl_pss384 = (\<lambda>_ _ _. False), rl_pss512 = (\<lambda>_ _ _. False), rl_default = (\<lambda>_ _ _ _. True)\<rparr>,
     px_profile = (\<lambda>_. \<lparr>vp_allowed_signature_algs = None, vp_max_validity_secs = None\<rparr>),
     px_display = (\<lambda>_. ''error''), px_crl_display = (\<lambda>_. ''error''),
     px_parse_cert = Inr, px_anchor = id, px_parse_crl = (\<lambda>der _ _. Inr der),
     px_check = (\<lambda>crl _ _. Inl CrlIssuerMismatch), px_check_anchor = (\<lambda>crl _ _. sample_answer crl), px_parse_mailbox = Inr,
     px_verify_signer = (\<lambda>cs as mb pf n v ch s. case as of [] \<Rightarrow> (Returned (Inl (OtherChainError ''no anchor'')), s)
        | a # _ \<Rightarrow> lift_walk (walk ch cs a s)),
     px_verify_chain = (\<lambda>cs as pol v ch s. case as of [] \<Rightarrow> (Returned (Inl (OtherChainError ''no anchor'')), s)
        | a # _ \<Rightarrow> lift_walk (walk ch cs a s))\<rparr>"

lemma sample_pkix_walks: "walks sample_pkix" "otherwise_valid sample_pkix cs a mb"
  by (auto simp: walks_def otherwise_valid_def sample_pkix_def lift_walk_def map_err_Inr_iff map_err_Inl_iff
      split: list.splits prod.splits panicky.splits)

lemma accepted_chain_not_revoked_witness:
  "\<exists>out. validate_signer_chain sample_pkix [9] [] [[8]] (Some ''a@x'') 5 [[2]] = Returned out \<and> co_chain_valid out
    \<and> (\<exists>leaf cs as. px_parse_cert sample_pkix [9] = Inr leaf \<and> parse_chain sample_pkix 0 [] = Inr cs
        \<and> build_anchors sample_pkix [[8]] = Inr as
        \<and> (\<exists>a \<in> set as. list_all (\<lambda>x. \<not> is_revoked x) (answers sample_pkix (kylins_crls sample_pkix [[2]] (validation_time 5)) (leaf # cs) a)
            \<and> co_revocation_state out = state_of_answers (answers sample_pkix (kylins_crls sample_pkix [[2]] (validation_time 5)) (leaf # cs) a)))"
proof -
  let ?out = "\<lparr>co_chain_valid = True, co_identity_match = True, co_revocation_state = RevGood,
     co_failure_reason = None, co_revocation_reason = None\<rparr>"
  have "validate_signer_chain sample_pkix [9] [] [[8]] (Some ''a@x'') 5 [[2]] = Returned ?out" by code_simp
  then show ?thesis using accepted_chain_not_revoked [OF sample_pkix_walks(1), of "[9]" "[]" "[[8]]" _ 5 "[[2]]" ?out] by auto
qed

lemma crl_order_decides_revocation_witness:
  "\<exists>o1 o2. validate_signer_chain sample_pkix [9] [] [[8]] (Some ''a@x'') 5 [[0], [1]] = Returned o1
    \<and> co_chain_valid o1 \<and> co_identity_match o1 \<and> co_revocation_state o1 = RevStale
    \<and> validate_signer_chain sample_pkix [9] [] [[8]] (Some ''a@x'') 5 [[1], [0]] = Returned o2
    \<and> \<not> co_chain_valid o2 \<and> co_revocation_state o2 = RevRevoked"
  by (rule crl_order_decides_revocation [OF _ _ _ sample_pkix_walks(2)])
    (auto simp: sample_pkix_def sample_answer_def)

lemma good_without_leaf_crl_witness:
  "\<exists>out. validate_signer_chain sample_pkix [9] [[7]] [[8]] (Some ''a@x'') 5 [[2]] = Returned out
    \<and> co_chain_valid out \<and> co_revocation_state out = RevGood"
  by (rule good_without_leaf_crl [OF _ _ _ _ sample_pkix_walks(2)])
    (auto simp: sample_pkix_def sample_answer_def decisive_def kylins_crls_def List.map_filter_def)

end
