(* ===== verification/Mime_Parts.thy ===== *)
theory Mime_Parts
  imports Rust_Text
begin

text \<open>
  The parts of a parsed message and what \<open>mail/imap/client.rs\<close> takes from them: the section numbers of its leaves,
  the attachments, the raw ciphertext. The parser (the crate \<open>mail_parser\<close>) is not modelled; a message is the
  structure it gives.
\<close>

section \<open>Parsed messages\<close>

datatype part_type = PartText string | PartHtml string | PartBinary "u8 list" | PartInlineBinary "u8 list"
  | PartMessage "u8 list" | PartMultipart "nat list"

record message_part =
  mp_offset_header :: nat
  mp_offset_end :: nat
  mp_body :: part_type
  mp_content_type :: "(string \<times> string option) option"
  mp_attachment_name :: "string option"
  mp_len :: nat
  mp_content_id :: "string option"
  mp_is_inline :: bool

text \<open>\<open>pm_attachments\<close> are indices of parts; the bodies are those of \<open>body_text(0)\<close> and \<open>body_html(0)\<close>.\<close>

record parsed_message =
  pm_content_type :: "(string \<times> string option) option"
  pm_raw :: "u8 list"
  pm_parts :: "message_part list"
  pm_attachments :: "nat list"
  pm_body_text :: "string option"
  pm_body_html :: "string option"

definition nth_opt :: "'a list \<Rightarrow> nat \<Rightarrow> 'a option" where
  "nth_opt xs i = (if i < length xs then Some (xs ! i) else None)"

definition full_content_type :: "string \<times> string option \<Rightarrow> string" where
  "full_content_type ct = to_ascii_lowercase (case ct of (t, Some sub) \<Rightarrow> t @ ''/'' @ sub | (t, None) \<Rightarrow> t)"

definition mime_type_of :: "(string \<times> string option) option \<Rightarrow> string" where
  "mime_type_of ct =
     (case ct of Some (t, sub) \<Rightarrow> t @ ''/'' @ unwrap_or ''octet-stream'' (case sub of Some s \<Rightarrow> Inr s | None \<Rightarrow> Inl ())
      | None \<Rightarrow> ''application/octet-stream'')"

text \<open>The bytes of a leaf; \<open>None\<close> for a container.\<close>

fun leaf_bytes :: "part_type \<Rightarrow> u8 list option" where
  "leaf_bytes (PartBinary d) = Some d"
| "leaf_bytes (PartInlineBinary d) = Some d"
| "leaf_bytes (PartText t) = Some (as_bytes t)"
| "leaf_bytes (PartHtml h) = Some (as_bytes h)"
| "leaf_bytes (PartMessage raw) = Some raw"
| "leaf_bytes (PartMultipart _) = None"

definition extract_raw_ciphertext :: "parsed_message \<Rightarrow> u8 list option" where
  "extract_raw_ciphertext m =
     (case pm_content_type m of
        None \<Rightarrow> None
      | Some ct \<Rightarrow>
          if full_content_type ct \<noteq> ''application/pkcs7-mime'' then None
          else (case pm_parts m of
                  [] \<Rightarrow> None
                | root # _ \<Rightarrow> (case mp_body root of PartMessage _ \<Rightarrow> None | b \<Rightarrow> leaf_bytes b)))"

section \<open>Sections\<close>

definition child_section :: "string \<Rightarrow> nat \<Rightarrow> string" where
  "child_section prefx i = (if prefx = [] then dec_string (i + 1) else prefx @ ''.'' @ dec_string (i + 1))"

text \<open>The recursion follows the indices that the parser gives; the fuel bounds its depth.\<close>

fun walk :: "nat \<Rightarrow> message_part list \<Rightarrow> nat \<Rightarrow> string \<Rightarrow> (nat \<Rightarrow> string option) \<Rightarrow> (nat \<Rightarrow> string option)" where
  "walk 0 parts part_idx prefx sections = sections"
| "walk (Suc fuel) parts part_idx prefx sections =
     (case nth_opt parts part_idx of
        None \<Rightarrow> sections
      | Some part \<Rightarrow>
          (case mp_body part of
             PartMultipart children \<Rightarrow>
               fold (\<lambda>(i, child_idx). walk fuel parts child_idx (child_section prefx i)) (enumerate 0 children) sections
           | _ \<Rightarrow> sections(part_idx \<mapsto> (if prefx = [] then ''1'' else prefx))))"

definition build_imap_section_map :: "parsed_message \<Rightarrow> (nat \<Rightarrow> string option)" where
  "build_imap_section_map m = walk (length (pm_parts m)) (pm_parts m) 0 [] (\<lambda>_. None)"

section \<open>Attachments\<close>

record imap_attachment =
  ia_part_id :: string
  ia_filename :: string
  ia_mime_type :: string
  ia_size :: u32
  ia_content_id :: "string option"
  ia_is_inline :: bool

definition trim_brackets :: "string \<Rightarrow> string" where
  "trim_brackets s =
     (let bracket = (\<lambda>c. c = CHR ''<'' \<or> c = CHR ''>'') in rev (dropWhile bracket (rev (dropWhile bracket s))))"

definition attachment_of :: "string \<Rightarrow> message_part \<Rightarrow> imap_attachment" where
  "attachment_of sect att = \<lparr>ia_part_id = sect,
     ia_filename = (case mp_attachment_name att of Some n \<Rightarrow> n | None \<Rightarrow> ''attachment''),
     ia_mime_type = mime_type_of (mp_content_type att), ia_size = of_nat (mp_len att),
     ia_content_id = map_option trim_brackets (mp_content_id att), ia_is_inline = mp_is_inline att\<rparr>"

definition extract_attachments :: "parsed_message \<Rightarrow> imap_attachment list" where
  "extract_attachments m =
     (let sections = build_imap_section_map m
      in List.map_filter (\<lambda>part_idx.
           case nth_opt (pm_parts m) part_idx of None \<Rightarrow> None
           | Some att \<Rightarrow> map_option (\<lambda>sect. attachment_of sect att) (sections part_idx)) (pm_attachments m))"

text \<open>The guard before a part number goes into a FETCH command.\<close>

definition valid_part_id :: "string \<Rightarrow> bool" where
  "valid_part_id part_id \<longleftrightarrow> part_id \<noteq> [] \<and> list_all (\<lambda>c. digit_val c \<noteq> None \<or> c = CHR ''.'') part_id"

section \<open>One part, decoded\<close>

definition ends_with_crlf_crlf :: "u8 list \<Rightarrow> bool" where
  "ends_with_crlf_crlf b \<longleftrightarrow> 4 \<le> length b \<and> drop (length b - 4) b = [13, 10, 13, 10]"

definition wrap_part :: "u8 list \<Rightarrow> u8 list \<Rightarrow> u8 list" where
  "wrap_part mime_headers encoded_body =
     mime_headers @ (if ends_with_crlf_crlf mime_headers then [] else [13, 10, 13, 10]) @ encoded_body"

definition decode_part_bytes :: "(u8 list \<Rightarrow> parsed_message option) \<Rightarrow> u8 list \<Rightarrow> u8 list \<Rightarrow> string + (string \<times> u8 list)" where
  "decode_part_bytes parse mime_headers encoded_body =
     (case parse (wrap_part mime_headers encoded_body) of
        None \<Rightarrow> Inl ''Failed to parse wrapped MIME part (mail_parser returned None)''
      | Some m \<Rightarrow>
          (case pm_parts m of
             [] \<Rightarrow> Inl ''Wrapped MIME part has no root part''
           | part # _ \<Rightarrow>
               (case leaf_bytes (mp_body part) of
                  Some data \<Rightarrow> Inr (mime_type_of (mp_content_type part), data)
                | None \<Rightarrow> Inl (''Wrapped MIME part parsed as multipart '' @ map char_of [0xE2, 0x80, 0x94 :: nat] @ '' expected a leaf part ''
                    @ ''(headers + body). The server may have returned a multipart ''
                    @ ''container section; caller should pass a leaf part_id.''))))"

section \<open>What a section number denotes\<close>

text \<open>Following a path of one-based positions from a part down to a leaf.\<close>

inductive leaf_at :: "message_part list \<Rightarrow> nat \<Rightarrow> nat list \<Rightarrow> nat \<Rightarrow> bool" for parts where
  here: "nth_opt parts idx = Some p \<Longrightarrow> leaf_bytes (mp_body p) \<noteq> None \<Longrightarrow> leaf_at parts idx [] idx"
| down: "nth_opt parts idx = Some p \<Longrightarrow> mp_body p = PartMultipart cs \<Longrightarrow> i < length cs \<Longrightarrow> leaf_at parts (cs ! i) path k
    \<Longrightarrow> leaf_at parts idx (Suc i # path) k"

inductive_cases leaf_at_NilE: "leaf_at parts idx [] k"
inductive_cases leaf_at_ConsE: "leaf_at parts idx (i # path) k"

definition section_text :: "nat list \<Rightarrow> string" where
  "section_text path = (if path = [] then ''1'' else join_with ''.'' (map dec_string path))"

lemma leaf_bytes_None: "leaf_bytes b = None \<longleftrightarrow> (\<exists>cs. b = PartMultipart cs)"
  by (cases b) auto

lemma leaf_at_det: "leaf_at parts idx path k \<Longrightarrow> leaf_at parts idx path k' \<Longrightarrow> k = k'"
proof (induction arbitrary: k' rule: leaf_at.induct)
  case (here idx p)
  then show ?case by (auto elim: leaf_at_NilE)
next
  case (down idx p cs i path k)
  from down.prems show ?case by (rule leaf_at_ConsE) (use down in auto)
qed

text \<open>The text of the path to a part that is reached with a prefix.\<close>

definition dotted :: "nat list \<Rightarrow> string" where
  "dotted path = join_with ''.'' (map dec_string path)"

lemma join_snoc2: "ss \<noteq> [] \<Longrightarrow> join_with sep (ss @ [s]) = join_with sep ss @ sep @ s"
  by (induction sep ss rule: join_with.induct) auto

lemma dotted_empty: "dotted path = [] \<longleftrightarrow> path = []"
  by (cases path; cases "tl path") (auto simp: dotted_def dec_string_not_Nil)

lemma child_section_dotted: "child_section (dotted path) i = dotted (path @ [Suc i])"
proof (cases "path = []")
  case False
  then show ?thesis by (simp add: child_section_def dotted_empty) (simp add: dotted_def join_snoc2)
qed (simp add: child_section_def dotted_def)

lemma walk_sound:
  assumes "walk fuel parts idx (dotted pre) sections k = Some s"
  shows "sections k = Some s \<or> (\<exists>path. leaf_at parts idx path k \<and> s = section_text (pre @ path))"
  using assms
proof (induction fuel arbitrary: idx pre sections)
  case (Suc fuel)
  consider "nth_opt parts idx = None" | p where "nth_opt parts idx = Some p" "leaf_bytes (mp_body p) \<noteq> None"
    | p cs where "nth_opt parts idx = Some p" "mp_body p = PartMultipart cs"
    using leaf_bytes_None by blast
  then show ?case
  proof cases
    case (2 p)
    then have "walk (Suc fuel) parts idx (dotted pre) sections = sections(idx \<mapsto> section_text pre)"
      by (cases "mp_body p") (simp_all add: dotted_empty section_text_def, simp_all add: dotted_def)
    moreover from 2 have "leaf_at parts idx [] idx" by (rule leaf_at.here)
    ultimately show ?thesis using Suc.prems by (cases "k = idx") (auto intro!: exI [of _ "[]"] simp del: walk.simps)
  next
    case (3 p cs)
    have "fold (\<lambda>(i, c). walk fuel parts c (child_section (dotted pre) i)) ics sections k = Some s \<Longrightarrow>
        (\<forall>(i, c) \<in> set ics. i < length cs \<and> cs ! i = c) \<Longrightarrow>
        sections k = Some s \<or> (\<exists>path. leaf_at parts idx path k \<and> s = section_text (pre @ path))" for ics
    proof (induction ics arbitrary: sections)
      case (Cons ic ics)
      obtain i c where ic: "ic = (i, c)" by (cases ic)
      with Cons.IH [of "walk fuel parts c (child_section (dotted pre) i) sections"] Cons.prems
      have "walk fuel parts c (dotted (pre @ [Suc i])) sections k = Some s
          \<or> (\<exists>path. leaf_at parts idx path k \<and> s = section_text (pre @ path))"
        by (simp add: child_section_dotted)
      with Suc.IH [of c "pre @ [Suc i]" sections] show ?case
        using Cons.prems(2) 3 ic by (auto intro: leaf_at.down)
    qed simp
    moreover have "\<forall>(i, c) \<in> set (enumerate 0 cs). i < length cs \<and> cs ! i = c"
      by (auto simp: in_set_enumerate_eq)
    ultimately show ?thesis using Suc.prems 3 by simp
  qed (use Suc.prems in simp)
qed simp

lemma section_map_sound:
  assumes "build_imap_section_map m k = Some s"
  shows "\<exists>path. leaf_at (pm_parts m) 0 path k \<and> s = section_text path"
  using walk_sound [of "length (pm_parts m)" "pm_parts m" 0 "[]" "\<lambda>_. None" k s] assms
  by (simp add: build_imap_section_map_def dotted_def)

lemma dec_string_inj: "dec_string m = dec_string n \<Longrightarrow> m = n"
  by (metis digits_val_dec_string option.inject)

lemma dec_string_digits: "c \<in> set (dec_string n) \<Longrightarrow> digit_val c \<noteq> None"
proof (induction n rule: dec_string.induct)
  case (1 n)
  then show ?case
    by (cases "n < 10") (auto simp: dec_string.simps [of n] digit_val_digit_char)
qed

lemma dec_string_no_dot: "CHR ''.'' \<notin> set (dec_string n)"
  using dec_string_digits [of "CHR ''.''" n] by (auto simp: digit_val_def)

lemma dotted_inj: "dotted p = dotted q \<Longrightarrow> p = q"
proof (cases "p = [] \<or> q = []")
  case True
  then show "dotted p = dotted q \<Longrightarrow> p = q" by (metis dotted_empty)
next
  case False
  then have "split_char (CHR ''.'') (dotted p) = map dec_string p" "split_char (CHR ''.'') (dotted q) = map dec_string q"
    unfolding dotted_def by (auto intro!: split_join simp: dec_string_no_dot)
  then show "dotted p = dotted q \<Longrightarrow> p = q" using dec_string_inj by (metis (no_types, lifting) list.inj_map_strong)
qed

lemma section_text_det:
  assumes "leaf_at parts idx p k" and "leaf_at parts idx q k'" and "section_text p = section_text q"
  shows "k = k'"
proof -
  have "p = [] \<longleftrightarrow> q = []"
    using assms(1,2) by (auto elim!: leaf_at_NilE elim: leaf_at_ConsE leaf_at.cases)
  with assms(3) have "p = q" by (auto simp: section_text_def dotted_def [symmetric] dotted_inj split: if_splits)
  with assms(1,2) show ?thesis by (auto dest: leaf_at_det)
qed

lemma join_digits: "list_all (\<lambda>c. digit_val c \<noteq> None \<or> c = CHR ''.'') (dotted path)"
proof -
  have "set (join_with ''.'' ss) \<subseteq> insert (CHR ''.'') (\<Union> (set ` set ss))" for ss
    by (induction "''.''" ss rule: join_with.induct) auto
  then have "set (dotted path) \<subseteq> insert (CHR ''.'') (\<Union> (set ` set (map dec_string path)))" unfolding dotted_def .
  then show ?thesis using dec_string_digits by (fastforce simp: list_all_iff)
qed

lemma section_text_valid: "valid_part_id (section_text path)"
  using join_digits [of path] by (simp add: valid_part_id_def section_text_def dotted_def [symmetric] dotted_empty digit_val_def)

section \<open>The fuel is enough\<close>

definition forward :: "message_part list \<Rightarrow> bool" where
  "forward parts \<longleftrightarrow> list_all (\<lambda>(i, p). case mp_body p of PartMultipart cs \<Rightarrow> list_all (\<lambda>c. i < c) cs | _ \<Rightarrow> True) (enumerate 0 parts)"

lemma forwardD: "forward parts \<Longrightarrow> nth_opt parts i = Some p \<Longrightarrow> mp_body p = PartMultipart cs \<Longrightarrow> j < length cs \<Longrightarrow> i < cs ! j"
  by (fastforce simp: forward_def nth_opt_def list_all_iff in_set_enumerate_eq split: if_splits part_type.splits)

lemma fold_keeps_key:
  assumes "\<And>i c ss. ss k \<noteq> None \<Longrightarrow> f i c ss k \<noteq> None" and "ss k \<noteq> None"
  shows "fold (\<lambda>(i, c). f i c) ics ss k \<noteq> None"
  using assms(2)
proof (induction ics arbitrary: ss)
  case (Cons ic ics)
  then show ?case using assms(1) by (cases ic) (metis comp_apply fold_simps(2) split_conv)
qed simp

lemma walk_keeps: "sections k \<noteq> None \<Longrightarrow> walk fuel parts idx pre sections k \<noteq> None"
proof (induction fuel arbitrary: idx pre sections)
  case (Suc fuel)
  have "fold (\<lambda>(i, c). walk fuel parts c (child_section pre i)) ics sections k \<noteq> None" for ics
    by (rule fold_keeps_key) (use Suc in auto)
  then show ?case using Suc.prems by (auto split: option.split part_type.split)
qed simp

lemma walk_complete:
  assumes "forward parts" and "leaf_at parts idx path k" and "length parts \<le> fuel + idx"
  shows "walk fuel parts idx pre sections k \<noteq> None"
  using assms(2,3)
proof (induction arbitrary: fuel pre sections rule: leaf_at.induct)
  case (here idx p)
  then obtain f where "fuel = Suc f" by (cases fuel) (auto simp: nth_opt_def split: if_splits)
  with here show ?case by (cases "mp_body p") auto
next
  case (down idx p cs i path k)
  then obtain f where f: "fuel = Suc f" by (cases fuel) (auto simp: nth_opt_def split: if_splits)
  have "idx < cs ! i" using forwardD [OF assms(1) down.hyps(1-3)] .
  then have IH: "walk f parts (cs ! i) q ss k \<noteq> None" for q ss using down.IH down.prems f by simp
  have keeps: "ss k \<noteq> None \<Longrightarrow> fold (\<lambda>(i, c). walk f parts c (child_section pre i)) ics ss k \<noteq> None" for ics ss
    by (rule fold_keeps_key) (auto simp: walk_keeps)
  have kept: "fold (\<lambda>(i, c). walk f parts c (child_section pre i)) ics (walk f parts (cs ! i) q ss) k \<noteq> None" for ics q ss
    by (rule keeps) (rule IH)
  have "(i, cs ! i) \<in> set (enumerate 0 cs)" using down.hyps(3) by (simp add: in_set_enumerate_eq)
  then obtain before after where "enumerate 0 cs = before @ (i, cs ! i) # after" by (metis split_list)
  then show ?case using f down.hyps(1,2) kept by simp
qed

lemma section_map_complete:
  "forward (pm_parts m) \<Longrightarrow> leaf_at (pm_parts m) 0 path k \<Longrightarrow> build_imap_section_map m k \<noteq> None"
  by (simp add: build_imap_section_map_def walk_complete)

section \<open>Attachments are addressed by their section\<close>

text \<open>C38. An attachment that is listed for a message can be fetched later by its part number: the number passes the guard of the
  fetch, following it through the message leads to that attachment and to no other, and no attachment that hangs in the tree
  of the message is left out.
\<close>

theorem attachment_sections:
  assumes "forward (pm_parts m)" and "i \<in> set (pm_attachments m)" and "leaf_at (pm_parts m) 0 path i"
  shows "\<exists>p a path'. nth_opt (pm_parts m) i = Some p \<and> a \<in> set (extract_attachments m)
    \<and> a = attachment_of (ia_part_id a) p \<and> valid_part_id (ia_part_id a)
    \<and> ia_part_id a = section_text path' \<and> leaf_at (pm_parts m) 0 path' i
    \<and> (\<forall>q k. leaf_at (pm_parts m) 0 q k \<and> section_text q = ia_part_id a \<longrightarrow> k = i)"
proof -
  obtain s where s: "build_imap_section_map m i = Some s" using section_map_complete [OF assms(1,3)] by auto
  then obtain path' where p': "leaf_at (pm_parts m) 0 path' i" "s = section_text path'" using section_map_sound by blast
  obtain p where p: "nth_opt (pm_parts m) i = Some p"
    using assms(3) by (induction rule: leaf_at.induct) auto
  have "attachment_of s p \<in> set (extract_attachments m)"
    using s p assms(2) by (auto simp: extract_attachments_def List.map_filter_def Let_def intro!: image_eqI [of _ _ i])
  moreover have "attachment_of s p = attachment_of (ia_part_id (attachment_of s p)) p" "ia_part_id (attachment_of s p) = s"
    by (simp_all add: attachment_of_def)
  ultimately show ?thesis using p p' section_text_valid section_text_det by metis
qed

definition sample_part :: "part_type \<Rightarrow> message_part" where
  "sample_part b = \<lparr>mp_offset_header = 0, mp_offset_end = 0, mp_body = b, mp_content_type = None, mp_attachment_name = None,
     mp_len = 1, mp_content_id = None, mp_is_inline = False\<rparr>"

definition sample_message :: parsed_message where
  "sample_message = \<lparr>pm_content_type = Some (''multipart'', Some ''mixed''), pm_raw = [],
     pm_parts = map sample_part [PartMultipart [1, 4], PartMultipart [2, 3], PartText ''a'', PartHtml ''a'', PartBinary [7]],
     pm_attachments = [4], pm_body_text = None, pm_body_html = None\<rparr>"

lemma attachment_sections_witness:
  "\<exists>p a path'. nth_opt (pm_parts sample_message) 4 = Some p \<and> a \<in> set (extract_attachments sample_message)
    \<and> a = attachment_of (ia_part_id a) p \<and> valid_part_id (ia_part_id a)
    \<and> ia_part_id a = section_text path' \<and> leaf_at (pm_parts sample_message) 0 path' 4
    \<and> (\<forall>q k. leaf_at (pm_parts sample_message) 0 q k \<and> section_text q = ia_part_id a \<longrightarrow> k = 4)"
proof (rule attachment_sections)
  show "forward (pm_parts sample_message)"
    by (simp add: forward_def sample_message_def sample_part_def)
  show "4 \<in> set (pm_attachments sample_message)" by (simp add: sample_message_def)
  have "leaf_at (pm_parts sample_message) 4 [] 4"
    by (rule leaf_at.here) (auto simp: nth_opt_def sample_message_def sample_part_def)
  then have "leaf_at (pm_parts sample_message) 0 (Suc 1 # []) 4"
    by (intro leaf_at.down [where cs = "[1, 4]"]) (auto simp: nth_opt_def sample_message_def sample_part_def)
  then show "leaf_at (pm_parts sample_message) 0 [2] 4" by (simp add: numeral_2_eq_2)
qed

end
