(* ===== verification/Secure_Mime.thy ===== *)
theory Secure_Mime
  imports Mime_Parts Crypto_Types
begin

text \<open>
  The MIME side of protected mail: splitting a message into outer headers and entity, the S/MIME wrappings and the
  received clear-signed parts (\<open>mail/crypto.rs\<close>, \<open>mail/pgp_mime.rs\<close>, \<open>extract_clear_signed_parts\<close> of \<open>imap/client.rs\<close>).
  Base64 and the MIME parser are parameters.
\<close>

section \<open>Outer headers and entity\<close>

datatype crypto_send_error =
    NoSigningKey
  | MissingRecipientCert string
  | InvalidRecipientCert string
  | SendBackend crypto_error
  | SendMime string

fun crypto_send_error_display :: "crypto_send_error \<Rightarrow> string" where
  "crypto_send_error_display NoSigningKey = ''no default signing key for the account''"
| "crypto_send_error_display (MissingRecipientCert e) = e"
| "crypto_send_error_display (InvalidRecipientCert e) = ''invalid recipient cert: '' @ e"
| "crypto_send_error_display (SendBackend e) = ''crypto backend: '' @ crypto_error_display e"
| "crypto_send_error_display (SendMime s) = ''mime: '' @ s"

definition ENTITY_HEADERS :: "string list" where
  "ENTITY_HEADERS = [''content-type'', ''content-transfer-encoding'', ''content-disposition'', ''content-id'',
     ''content-description'', ''content-language'']"

fun is_continuation :: "string \<Rightarrow> bool" where
  "is_continuation [] = False"
| "is_continuation (c # _) = (c = CHR '' '' \<or> c = CHR 0x09)"

definition header_name :: "string \<Rightarrow> string" where
  "header_name line = to_ascii_lowercase (trim (hd (split_char (CHR '':'') line)))"

definition is_entity_name :: "string \<Rightarrow> bool" where
  "is_entity_name line \<longleftrightarrow> List.member ENTITY_HEADERS (header_name line)"

definition push_line :: "string \<Rightarrow> string \<Rightarrow> string" where
  "push_line target line = (if target = [] then line else target @ CRLF @ line)"

text \<open>The loop over the header lines; the first argument says where the line before went.\<close>

fun split_headers :: "bool \<Rightarrow> string \<Rightarrow> string \<Rightarrow> string list \<Rightarrow> string \<times> string" where
  "split_headers last_was_entity outer entity [] = (outer, entity)"
| "split_headers last_was_entity outer entity (line # lines) =
     (let is_entity = (if is_continuation line then last_was_entity else is_entity_name line)
      in if is_entity then split_headers True outer (push_line entity line) lines
         else split_headers False (push_line outer line) entity lines)"

text \<open>The \<open>Display\<close> of \<open>Utf8Error\<close>, without the position it adds.\<close>

definition utf8_error :: "u8 list \<Rightarrow> string" where
  "utf8_error _ = ''invalid utf-8 sequence''"

definition split_message :: "u8 list \<Rightarrow> crypto_send_error + string \<times> u8 list" where
  "split_message full =
     (case from_utf8 full of
        None \<Rightarrow> Inl (SendMime (''not utf-8: '' @ utf8_error full))
      | Some s \<Rightarrow>
          (case break_str (CRLF @ CRLF) s of
             None \<Rightarrow> Inl (SendMime ''no header/body blank line'')
           | Some (header_block, body) \<Rightarrow>
               (let (outer, entity_headers) = split_headers False [] [] (split_str CRLF header_block)
                in Inr (outer, as_bytes (entity_headers @ CRLF @ CRLF @ body)))))"

section \<open>Wrapping\<close>

definition ends_with :: "'a list \<Rightarrow> 'a list \<Rightarrow> bool" where
  "ends_with p xs \<longleftrightarrow> length p \<le> length xs \<and> drop (length xs - length p) xs = p"

abbreviation crlf :: "u8 list" where
  "crlf \<equiv> [0x0D, 0x0A]"

function collapse_crlf :: "u8 list \<Rightarrow> u8 list" where
  "collapse_crlf out = (if ends_with (crlf @ crlf) out then collapse_crlf (take (length out - 2) out) else out)"
  by pat_completeness auto
termination
  by (relation "measure length") (auto simp: ends_with_def)

declare collapse_crlf.simps [simp del]

definition reattach_crlf :: "u8 list \<Rightarrow> u8 list" where
  "reattach_crlf out = (if ends_with crlf out then out else out @ crlf)"

definition ensure_one_trailing_crlf :: "u8 list \<Rightarrow> u8 list" where
  "ensure_one_trailing_crlf bytes = reattach_crlf (collapse_crlf bytes)"

function chunks :: "nat \<Rightarrow> 'a list \<Rightarrow> 'a list list" where
  "chunks n xs = (if xs = [] \<or> n = 0 then [] else take n xs # chunks n (drop n xs))"
  by pat_completeness auto
termination
  by (relation "measure (length \<circ> snd)") auto

declare chunks.simps [simp del]

definition base64_lines :: "(u8 list \<Rightarrow> string) \<Rightarrow> u8 list \<Rightarrow> u8 list" where
  "base64_lines b64 der = concat (map (\<lambda>chunk. chunk @ crlf) (chunks 72 (as_bytes (b64 der))))"

definition SIGNED_BOUNDARY :: string where
  "SIGNED_BOUNDARY = ''----=_kylins_smime_signed_0001''"

definition quoted :: "string \<Rightarrow> string" where
  "quoted s = [CHR 0x22] @ s @ [CHR 0x22]"

definition wrap_multipart_signed :: "(u8 list \<Rightarrow> string) \<Rightarrow> u8 list \<Rightarrow> u8 list \<Rightarrow> u8 list" where
  "wrap_multipart_signed b64 inner_entity_with_crlf signed_der =
     as_bytes (''Content-Type: multipart/signed; protocol='' @ quoted ''application/pkcs7-signature''
       @ ''; micalg=sha-256; boundary='' @ quoted SIGNED_BOUNDARY @ CRLF @ CRLF)
     @ as_bytes (''This is a cryptographically signed message in MIME format.'' @ CRLF)
     @ as_bytes (''--'' @ SIGNED_BOUNDARY @ CRLF)
     @ inner_entity_with_crlf
     @ as_bytes (''--'' @ SIGNED_BOUNDARY @ CRLF)
     @ as_bytes (''Content-Type: application/pkcs7-signature; name='' @ quoted ''smime.p7s'' @ CRLF
       @ ''Content-Transfer-Encoding: base64'' @ CRLF
       @ ''Content-Disposition: attachment; filename='' @ quoted ''smime.p7s'' @ CRLF
       @ ''Content-Description: S/MIME Cryptographic Signature'' @ CRLF @ CRLF)
     @ base64_lines b64 signed_der
     @ as_bytes (''--'' @ SIGNED_BOUNDARY @ ''--'' @ CRLF)"

definition wrap_enveloped :: "(u8 list \<Rightarrow> string) \<Rightarrow> u8 list \<Rightarrow> string \<Rightarrow> u8 list" where
  "wrap_enveloped b64 cms_der smime_type =
     as_bytes (''Content-Type: application/pkcs7-mime; smime-type='' @ smime_type @ ''; name='' @ quoted ''smime.p7m'' @ CRLF
       @ ''Content-Transfer-Encoding: base64'' @ CRLF
       @ ''Content-Disposition: attachment; filename='' @ quoted ''smime.p7m'' @ CRLF @ CRLF)
     @ base64_lines b64 cms_der"

text \<open>OpenPGP.\<close>

definition PGP_ENCRYPTED_BOUNDARY :: string where
  "PGP_ENCRYPTED_BOUNDARY = ''----=_kylins_pgp_encrypted_0001''"

definition PGP_SIGNED_BOUNDARY :: string where
  "PGP_SIGNED_BOUNDARY = ''----=_kylins_pgp_signed_0001''"

fun micalg_name :: "hash_algorithm \<Rightarrow> string" where
  "micalg_name Sha256 = ''pgp-sha256''"
| "micalg_name Sha384 = ''pgp-sha384''"
| "micalg_name Sha512 = ''pgp-sha512''"
| "micalg_name Sha3_256 = ''pgp-sha3-256''"
| "micalg_name Sm3 = ''pgp-sm3''"

definition wrap_pgp_encrypted :: "(u8 list \<Rightarrow> string) \<Rightarrow> u8 list \<Rightarrow> u8 list" where
  "wrap_pgp_encrypted b64 openpgp_message =
     as_bytes (''Content-Type: multipart/encrypted; protocol='' @ quoted ''application/pgp-encrypted''
       @ ''; boundary='' @ quoted PGP_ENCRYPTED_BOUNDARY @ CRLF @ CRLF)
     @ as_bytes (''This is an OpenPGP/MIME encrypted message (RFC 3156)'' @ CRLF)
     @ as_bytes (''--'' @ PGP_ENCRYPTED_BOUNDARY @ CRLF)
     @ as_bytes (''Content-Type: application/pgp-encrypted'' @ CRLF @ CRLF @ ''Version: 1'' @ CRLF)
     @ as_bytes (''--'' @ PGP_ENCRYPTED_BOUNDARY @ CRLF)
     @ as_bytes (''Content-Type: application/octet-stream; name='' @ quoted ''encrypted.asc'' @ CRLF
       @ ''Content-Transfer-Encoding: base64'' @ CRLF
       @ ''Content-Disposition: inline; filename='' @ quoted ''encrypted.asc'' @ CRLF @ CRLF)
     @ base64_lines b64 openpgp_message
     @ as_bytes (''--'' @ PGP_ENCRYPTED_BOUNDARY @ ''--'' @ CRLF)"

definition wrap_pgp_signed :: "(u8 list \<Rightarrow> string) \<Rightarrow> u8 list \<Rightarrow> string \<Rightarrow> u8 list \<Rightarrow> hash_algorithm \<Rightarrow> u8 list" where
  "wrap_pgp_signed b64 payload payload_mime detached_sig hash =
     as_bytes (''Content-Type: multipart/signed; protocol='' @ quoted ''application/pgp-signature''
       @ ''; micalg='' @ micalg_name hash @ ''; boundary='' @ quoted PGP_SIGNED_BOUNDARY @ CRLF @ CRLF)
     @ as_bytes (''This is an OpenPGP/MIME signed message (RFC 3156)'' @ CRLF)
     @ as_bytes (''--'' @ PGP_SIGNED_BOUNDARY @ CRLF)
     @ as_bytes (''Content-Type: '' @ payload_mime @ CRLF @ CRLF)
     @ ensure_one_trailing_crlf payload
     @ as_bytes (''--'' @ PGP_SIGNED_BOUNDARY @ CRLF)
     @ as_bytes (''Content-Type: application/pgp-signature; name='' @ quoted ''signature.asc'' @ CRLF
       @ ''Content-Transfer-Encoding: base64'' @ CRLF
       @ ''Content-Disposition: attachment; filename='' @ quoted ''signature.asc'' @ CRLF @ CRLF)
     @ base64_lines b64 detached_sig
     @ as_bytes (''--'' @ PGP_SIGNED_BOUNDARY @ ''--'' @ CRLF)"

text \<open>The value of \<open>Content-Type\<close> of the entity with its folded lines, and the body.\<close>

definition content_type_rest :: "string \<Rightarrow> string option" where
  "content_type_rest line =
     (if starts_with ''Content-Type:'' line \<or> starts_with ''content-type:'' line then Some (drop 13 line) else None)"

fun find_content_type :: "string option \<Rightarrow> bool \<Rightarrow> string list \<Rightarrow> string option" where
  "find_content_type value in_content_type [] = value"
| "find_content_type value in_content_type (line # lines) =
     (if is_continuation line
      then find_content_type (if in_content_type then map_option (\<lambda>ct. ct @ trim_start line) value else value) in_content_type lines
      else (case content_type_rest line of
              Some rest \<Rightarrow> find_content_type (Some (trim rest)) True lines
            | None \<Rightarrow> find_content_type value False lines))"

definition split_entity_for_pgp_signed :: "u8 list \<Rightarrow> crypto_send_error + string \<times> u8 list" where
  "split_entity_for_pgp_signed entity =
     (case from_utf8 entity of
        None \<Rightarrow> Inl (SendMime (''entity not utf-8: '' @ utf8_error entity))
      | Some s \<Rightarrow>
          (case break_str (CRLF @ CRLF) s of
             None \<Rightarrow> Inl (SendMime ''entity has no header/body blank line'')
           | Some (header_block, body) \<Rightarrow>
               (case find_content_type None False (split_str CRLF header_block) of
                  None \<Rightarrow> Inl (SendMime ''entity has no Content-Type header (required for PGP sign)'')
                | Some ct \<Rightarrow> Inr (ct, as_bytes body))))"

definition build_pgp_signed_region :: "string \<Rightarrow> u8 list \<Rightarrow> u8 list" where
  "build_pgp_signed_region content_type_value body_canonical =
     as_bytes (''Content-Type: '' @ content_type_value @ CRLF @ CRLF) @ body_canonical"

section \<open>Text made of lines\<close>

definition plain_line :: "string \<Rightarrow> bool" where
  "plain_line l \<longleftrightarrow> CHR 0x0D \<notin> set l \<and> CHR 0x0A \<notin> set l"

lemma break_str_skip:
  "CHR 0x0D \<notin> set l \<Longrightarrow> break_str (CHR 0x0D # p) (l @ s) = map_option (\<lambda>(a, b). (l @ a, b)) (break_str (CHR 0x0D # p) s)"
proof (induction l)
  case Nil
  show ?case by (cases "break_str (CHR 0x0D # p) s") auto
next
  case (Cons x l)
  then show ?case by (cases "break_str (CHR 0x0D # p) s") auto
qed

lemma break_str_here: "p \<noteq> [] \<Longrightarrow> break_str p (p @ s) = Some ([], s)"
  by (cases p) (auto simp: starts_with_iff)

lemma break_line: "plain_line l \<Longrightarrow> break_str CRLF (l @ CRLF @ s) = Some (l, s)"
  using break_str_skip [of l "[CHR 0x0A]" "CRLF @ s"] break_str_here [of CRLF s] by (simp add: plain_line_def)

lemma break_line_none: "plain_line l \<Longrightarrow> break_str CRLF l = None"
  using break_str_skip [of l "[CHR 0x0A]" "[]"] by (simp add: plain_line_def)

lemma split_str_none: "p \<noteq> [] \<Longrightarrow> break_str p s = None \<Longrightarrow> split_str p s = [s]"
  by (simp add: split_str.simps [of p s])

lemma split_str_some: "p \<noteq> [] \<Longrightarrow> break_str p s = Some (a, b) \<Longrightarrow> split_str p s = a # split_str p b"
  by (simp add: split_str.simps [of p s])

lemma join_Cons: "ls \<noteq> [] \<Longrightarrow> join_with sep (l # ls) = l @ sep @ join_with sep ls"
  by (cases ls) simp_all

lemma split_join_lines: "ls \<noteq> [] \<Longrightarrow> list_all plain_line ls \<Longrightarrow> split_str CRLF (join_with CRLF ls) = ls"
proof (induction ls rule: list_nonempty_induct)
  case (single l)
  then show ?case by (simp add: split_str_none break_line_none)
next
  case (cons l ls)
  then show ?case by (simp add: join_Cons split_str_some [OF _ break_line, simplified])
qed

lemma break_header:
  "ls \<noteq> [] \<Longrightarrow> list_all (\<lambda>l. plain_line l \<and> l \<noteq> []) ls \<Longrightarrow>
     break_str (CRLF @ CRLF) (join_with CRLF ls @ CRLF @ CRLF @ body) = Some (join_with CRLF ls, body)"
proof (induction ls rule: list_nonempty_induct)
  case (single l)
  then show ?case
    using break_str_skip [of l "[CHR 0x0A] @ CRLF" "CRLF @ CRLF @ body"] break_str_here [of "CRLF @ CRLF" body]
    by (simp add: plain_line_def)
next
  case (cons l ls)
  obtain c t where t: "join_with CRLF ls = c # t" "c \<noteq> CHR 0x0D"
    using cons(1,3) by (cases ls; cases "hd ls"; cases "tl ls") (auto simp: plain_line_def)
  have "break_str (CRLF @ CRLF) (CRLF @ join_with CRLF ls @ CRLF @ CRLF @ body) = Some (CRLF @ join_with CRLF ls, body)"
    using cons(2,3) t by simp
  then show ?case
    using cons(1,3) break_str_skip [of l "[CHR 0x0A] @ CRLF" "CRLF @ join_with CRLF ls @ CRLF @ CRLF @ body"]
    by (simp add: join_Cons plain_line_def)
qed

section \<open>Splitting by header fields\<close>

text \<open>The reference: a field is a line with its continuation lines, and goes as a whole where its name says.\<close>

function group_fields :: "string list \<Rightarrow> string list list" where
  "group_fields [] = []"
| "group_fields (l # ls) = (l # takeWhile is_continuation ls) # group_fields (dropWhile is_continuation ls)"
  by pat_completeness auto
termination
  by (relation "measure length") (auto simp: less_Suc_eq_le length_dropWhile_le)

definition entity_field :: "string list \<Rightarrow> bool" where
  "entity_field f \<longleftrightarrow> \<not> is_continuation (hd f) \<and> is_entity_name (hd f)"

definition outer_lines :: "string list \<Rightarrow> string list" where
  "outer_lines ls = concat (filter (\<lambda>f. \<not> entity_field f) (group_fields ls))"

definition entity_lines :: "string list \<Rightarrow> string list" where
  "entity_lines ls = concat (filter entity_field (group_fields ls))"

definition split_by_fields :: "u8 list \<Rightarrow> crypto_send_error + string \<times> u8 list" where
  "split_by_fields full =
     (case from_utf8 full of
        None \<Rightarrow> Inl (SendMime (''not utf-8: '' @ utf8_error full))
      | Some s \<Rightarrow>
          (case break_str (CRLF @ CRLF) s of
             None \<Rightarrow> Inl (SendMime ''no header/body blank line'')
           | Some (header_block, body) \<Rightarrow>
               (let ls = split_str CRLF header_block
                in Inr (join_with CRLF (outer_lines ls), as_bytes (join_with CRLF (entity_lines ls) @ CRLF @ CRLF @ body)))))"

fun route :: "bool \<Rightarrow> string list \<Rightarrow> (bool \<times> string) list" where
  "route last_was_entity [] = []"
| "route last_was_entity (l # ls) =
     (let e = (if is_continuation l then last_was_entity else is_entity_name l) in (e, l) # route e ls)"

lemma join_empty: "[] \<notin> set ls \<Longrightarrow> join_with sep ls = [] \<longleftrightarrow> ls = []"
  by (induction sep ls rule: join_with.induct) auto

lemma join_snoc: "ls \<noteq> [] \<Longrightarrow> join_with sep (ls @ [l]) = join_with sep ls @ sep @ l"
  by (induction ls rule: list_nonempty_induct) (simp_all add: join_Cons)

lemma push_line_join: "[] \<notin> set ls \<Longrightarrow> push_line (join_with CRLF ls) l = join_with CRLF (ls @ [l])"
  by (cases "ls = []") (simp_all add: push_line_def join_empty join_snoc)

lemma split_headers_route:
  "[] \<notin> set A \<Longrightarrow> [] \<notin> set B \<Longrightarrow> [] \<notin> set ls \<Longrightarrow>
   split_headers e (join_with CRLF A) (join_with CRLF B) ls =
     (join_with CRLF (A @ map snd (filter (\<lambda>x. \<not> fst x) (route e ls))), join_with CRLF (B @ map snd (filter fst (route e ls))))"
proof (induction ls arbitrary: e A B)
  case (Cons l ls)
  then show ?case
    using Cons.IH [of "A @ [l]" B] Cons.IH [of A "B @ [l]"] by (simp add: push_line_join Let_def)
qed simp

lemma route_continuations:
  "route e ls = map (Pair e) (takeWhile is_continuation ls) @ route e (dropWhile is_continuation ls)"
  by (induction ls arbitrary: e) (auto simp: Let_def)

lemma route_start: "ls = [] \<or> \<not> is_continuation (hd ls) \<Longrightarrow> route e ls = route e' ls"
  by (cases ls) (auto simp: Let_def)

lemma route_groups:
  "map snd (filter fst (route False ls)) = entity_lines ls \<and> map snd (filter (\<lambda>x. \<not> fst x) (route False ls)) = outer_lines ls"
proof (induction ls rule: group_fields.induct)
  case (2 l ls)
  let ?e = "\<not> is_continuation l \<and> is_entity_name l" and ?t = "takeWhile is_continuation ls" and ?d = "dropWhile is_continuation ls"
  have "?d = [] \<or> \<not> is_continuation (hd ?d)" using hd_dropWhile by blast
  then have "route False (l # ls) = (?e, l) # map (Pair ?e) ?t @ route False ?d"
    using route_continuations [of ?e ls] route_start [of ?d ?e False] by (auto simp: Let_def)
  then show ?case
    using 2 by (auto simp: entity_lines_def outer_lines_def entity_field_def filter_map comp_def)
qed (simp_all add: entity_lines_def outer_lines_def)

lemma split_headers_fields:
  "[] \<notin> set ls \<Longrightarrow> split_headers False [] [] ls = (join_with CRLF (outer_lines ls), join_with CRLF (entity_lines ls))"
  using split_headers_route [of "[]" "[]" ls False] route_groups [of ls] by simp

definition header_lines :: "u8 list \<Rightarrow> string list" where
  "header_lines full =
     (case Option.bind (from_utf8 full) (break_str (CRLF @ CRLF)) of None \<Rightarrow> [] | Some (h, _) \<Rightarrow> split_str CRLF h)"

text \<open>C35. The line-by-line loop that separates the headers of the entity from the outer ones is the separation by
  header fields: a folded header goes as a whole to the side of its name, both sides keep their order, the body is
  untouched, and the errors are the same.\<close>

theorem split_message_by_fields:
  assumes "[] \<notin> set (header_lines full)"
  shows "split_message full = split_by_fields full"
  using assms
  by (auto simp: split_message_def split_by_fields_def header_lines_def split_headers_fields Let_def split: option.splits)

lemma split_message_by_fields_witness:
  "split_message (as_bytes (''From: a'' @ CRLF @ ''Content-Type: text/plain;'' @ CRLF @ '' charset=utf-8'' @ CRLF @ ''To: b'' @ CRLF @ CRLF @ ''hi''))
    = split_by_fields (as_bytes (''From: a'' @ CRLF @ ''Content-Type: text/plain;'' @ CRLF @ '' charset=utf-8'' @ CRLF @ ''To: b'' @ CRLF @ CRLF @ ''hi''))"
proof (rule split_message_by_fields)
  show "[] \<notin> set (header_lines (as_bytes (''From: a'' @ CRLF @ ''Content-Type: text/plain;'' @ CRLF @ '' charset=utf-8'' @ CRLF
    @ ''To: b'' @ CRLF @ CRLF @ ''hi'')))"
    by code_simp
qed

section \<open>The signed region\<close>

lemma ends_with_append: "ends_with p (xs @ p)"
  by (simp add: ends_with_def)

lemma ends_withD: "ends_with p xs \<Longrightarrow> xs = take (length xs - length p) xs @ p"
  by (metis append_take_drop_id ends_with_def)

lemma ends_with_crlf2: "ends_with (crlf @ crlf) (xs @ crlf) \<longleftrightarrow> ends_with crlf xs"
proof
  assume "ends_with (crlf @ crlf) (xs @ crlf)"
  then obtain ys where "xs @ crlf = ys @ crlf @ crlf" using ends_withD by blast
  then have "xs = ys @ crlf" by simp
  then show "ends_with crlf xs" by (simp add: ends_with_append)
next
  assume "ends_with crlf xs"
  then obtain ys where "xs = ys @ crlf" using ends_withD by blast
  then show "ends_with (crlf @ crlf) (xs @ crlf)"
    using ends_with_append [of "crlf @ crlf" ys] by simp
qed

lemma collapse_done: "\<not> ends_with (crlf @ crlf) (collapse_crlf xs)"
  by (induction xs rule: collapse_crlf.induct) (subst collapse_crlf.simps, simp)

lemma collapse_id: "\<not> ends_with (crlf @ crlf) xs \<Longrightarrow> collapse_crlf xs = xs"
  by (simp add: collapse_crlf.simps [of xs])

lemma ensure_one_ends: "ends_with crlf (ensure_one_trailing_crlf xs)"
  by (simp add: ensure_one_trailing_crlf_def reattach_crlf_def ends_with_append)

lemma ensure_one_single: "\<not> ends_with (crlf @ crlf) (ensure_one_trailing_crlf xs)"
  using collapse_done [of xs] by (simp add: ensure_one_trailing_crlf_def reattach_crlf_def ends_with_crlf2 [simplified])

lemma ensure_one_idem: "ensure_one_trailing_crlf (ensure_one_trailing_crlf xs) = ensure_one_trailing_crlf xs"
  using ensure_one_ends [of xs] ensure_one_single [of xs]
  by (simp add: ensure_one_trailing_crlf_def [of "ensure_one_trailing_crlf xs"] collapse_id reattach_crlf_def)

text \<open>A slice of the raw message by the offsets of a part; the parser keeps the offsets within the message.\<close>

definition slice_part :: "parsed_message \<Rightarrow> message_part \<Rightarrow> u8 list option" where
  "slice_part m p =
     (if mp_offset_header p \<le> mp_offset_end p
         \<and> mp_offset_end p - mp_offset_header p \<le> length (pm_raw m) - mp_offset_header p
      then Some (take (mp_offset_end p - mp_offset_header p) (drop (mp_offset_header p) (pm_raw m))) else None)"

fun signature_bytes :: "part_type \<Rightarrow> u8 list option" where
  "signature_bytes (PartBinary d) = Some d"
| "signature_bytes (PartInlineBinary d) = Some d"
| "signature_bytes (PartText t) = Some (as_bytes t)"
| "signature_bytes (PartHtml h) = Some (as_bytes h)"
| "signature_bytes (PartMessage _) = None"
| "signature_bytes (PartMultipart _) = None"

definition extract_clear_signed_parts :: "parsed_message \<Rightarrow> u8 list option \<times> u8 list option" where
  "extract_clear_signed_parts m =
     (case pm_content_type m of
        None \<Rightarrow> (None, None)
      | Some ct \<Rightarrow>
          if full_content_type ct \<noteq> ''multipart/signed'' then (None, None)
          else (case pm_parts m of
                  [] \<Rightarrow> (None, None)
                | root # _ \<Rightarrow>
                    (case mp_body root of
                       PartMultipart [part1_idx, p7s_idx] \<Rightarrow>
                         (case Option.bind (nth_opt (pm_parts m) part1_idx) (slice_part m) of
                            None \<Rightarrow> (None, None)
                          | Some raw \<Rightarrow>
                              (Some (reattach_crlf raw), Option.bind (nth_opt (pm_parts m) p7s_idx) (\<lambda>p. signature_bytes (mp_body p))))
                     | _ \<Rightarrow> (None, None))))"

text \<open>What comes before the signed part.\<close>

definition signed_prologue :: "u8 list" where
  "signed_prologue =
     as_bytes (''Content-Type: multipart/signed; protocol='' @ quoted ''application/pkcs7-signature''
       @ ''; micalg=sha-256; boundary='' @ quoted SIGNED_BOUNDARY @ CRLF @ CRLF)
     @ as_bytes (''This is a cryptographically signed message in MIME format.'' @ CRLF)
     @ as_bytes (''--'' @ SIGNED_BOUNDARY @ CRLF)"

lemma wrap_multipart_signed_parts: "\<exists>rest. wrap_multipart_signed b64 part1 der = signed_prologue @ part1 @ rest"
  unfolding wrap_multipart_signed_def signed_prologue_def by (simp only: append_assoc) blast

lemma reattach_stripped: "ends_with crlf xs \<Longrightarrow> \<not> ends_with (crlf @ crlf) xs \<Longrightarrow> reattach_crlf (take (length xs - 2) xs) = xs"
proof -
  assume e: "ends_with crlf xs" and s: "\<not> ends_with (crlf @ crlf) xs"
  from ends_withD [OF e] have xs: "xs = take (length xs - 2) xs @ crlf" by (simp add: numeral_2_eq_2)
  with s have "\<not> ends_with crlf (take (length xs - 2) xs)" by (metis ends_with_crlf2)
  with xs show ?thesis by (simp add: reattach_crlf_def)
qed

lemma signed_region_extracted:
  assumes raw: "pm_raw m = outer @ crlf @ wrap_multipart_signed b64 (ensure_one_trailing_crlf entity) der"
    and ct: "pm_content_type m = Some (''multipart'', Some ''signed'')"
    and parts: "pm_parts m = root # part_one # sig # ps" "mp_body root = PartMultipart [1, 2]" "mp_body sig = PartBinary der"
    and offs: "mp_offset_header part_one = length (outer @ crlf @ signed_prologue)"
      "mp_offset_end part_one = mp_offset_header part_one + (length (ensure_one_trailing_crlf entity) - 2)"
  shows "extract_clear_signed_parts m = (Some (ensure_one_trailing_crlf entity), Some der)"
proof -
  let ?p = "ensure_one_trailing_crlf entity"
  obtain rest where rest: "wrap_multipart_signed b64 ?p der = signed_prologue @ ?p @ rest"
    using wrap_multipart_signed_parts by blast
  have "slice_part m part_one = Some (take (length ?p - 2) ?p)"
    using raw rest offs by (simp add: slice_part_def)
  moreover have "full_content_type (''multipart'', Some ''signed'') = ''multipart/signed''" by code_simp
  ultimately show ?thesis
    using ct parts reattach_stripped [OF ensure_one_ends ensure_one_single]
    by (simp add: extract_clear_signed_parts_def nth_opt_def)
qed

text \<open>What the receiver verifies is what the sender signed: from a message that carries the clear-signed wrapping of
  an entity, the receive path takes exactly the bytes that were signed, and the signature. The offsets are those that
  the code ascribes to the parser: a part begins at its headers and ends before the CRLF of the next delimiter.\<close>

lemma clear_signed_roundtrip:
  assumes raw: "pm_raw m = outer @ crlf @ wrap_multipart_signed b64 (ensure_one_trailing_crlf entity) der"
    and ct: "pm_content_type m = Some (''multipart'', Some ''signed'')"
    and parts: "pm_parts m = root # part_one # sig # ps" "mp_body root = PartMultipart [1, 2]" "mp_body sig = PartBinary der"
    and offs: "mp_offset_header part_one = length (outer @ crlf @ signed_prologue)"
      "mp_offset_end part_one = mp_offset_header part_one + (length (ensure_one_trailing_crlf entity) - 2)"
  shows "extract_clear_signed_parts m = (Some (ensure_one_trailing_crlf entity), Some der)"
  by (rule signed_region_extracted [OF assms])

definition signed_sample :: parsed_message where
  "signed_sample = \<lparr>pm_content_type = Some (''multipart'', Some ''signed''),
      pm_raw = as_bytes ''From: a'' @ crlf @ wrap_multipart_signed (\<lambda>_. ''AA=='') (ensure_one_trailing_crlf [65]) [0],
      pm_parts = [sample_part (PartMultipart [1, 2]),
        (sample_part (PartText ''A''))
          \<lparr>mp_offset_header := length (as_bytes ''From: a'' @ crlf @ signed_prologue),
           mp_offset_end := length (as_bytes ''From: a'' @ crlf @ signed_prologue) + (length (ensure_one_trailing_crlf [65]) - 2)\<rparr>,
        sample_part (PartBinary [0])],
      pm_attachments = [2], pm_body_text = Some ''A'', pm_body_html = None\<rparr>"

lemma clear_signed_roundtrip_witness:
  "extract_clear_signed_parts signed_sample = (Some (ensure_one_trailing_crlf [65]), Some [0])"
proof (rule clear_signed_roundtrip)
  show "pm_raw signed_sample = as_bytes ''From: a'' @ crlf @ wrap_multipart_signed (\<lambda>_. ''AA=='') (ensure_one_trailing_crlf [65]) [0]"
    by (simp add: signed_sample_def)
  show "pm_parts signed_sample = sample_part (PartMultipart [1, 2]) # (sample_part (PartText ''A''))
      \<lparr>mp_offset_header := length (as_bytes ''From: a'' @ crlf @ signed_prologue),
       mp_offset_end := length (as_bytes ''From: a'' @ crlf @ signed_prologue) + (length (ensure_one_trailing_crlf [65]) - 2)\<rparr>
      # sample_part (PartBinary [0]) # []"
    by (simp add: signed_sample_def)
qed (simp_all add: signed_sample_def sample_part_def)

section \<open>What an OpenPGP signature covers\<close>

lemma find_content_type_other:
  assumes "list_all (\<lambda>l. is_continuation l \<or> content_type_rest l = None) ls"
  shows "find_content_type v False ls = v"
  using assms by (induction ls) auto

text \<open>Headers of the entity other than \<open>Content-Type\<close> do not reach the signed region.\<close>

lemma split_entity_forgets:
  assumes "plain_line ct" and "content_type_rest ct = Some rest" and "\<not> is_continuation ct"
    and "list_all (\<lambda>l. plain_line l \<and> l \<noteq> [] \<and> content_type_rest l = None) ls" and "ls = [] \<or> \<not> is_continuation (hd ls)"
    and "utf8_string (join_with CRLF (ct # ls) @ CRLF @ CRLF @ body)"
  shows "split_entity_for_pgp_signed (as_bytes (join_with CRLF (ct # ls) @ CRLF @ CRLF @ body)) = Inr (trim rest, as_bytes body)"
proof -
  have ne: "list_all (\<lambda>l. plain_line l \<and> l \<noteq> []) (ct # ls)"
    using assms(1,2,4) by (auto simp: list_all_iff content_type_rest_def)
  have "find_content_type (Some (trim rest)) True ls = find_content_type (Some (trim rest)) False ls"
    using assms(4,5) by (cases ls) auto
  also have "\<dots> = Some (trim rest)"
    by (rule find_content_type_other) (use assms(4) in \<open>auto simp: list_all_iff\<close>)
  finally have "find_content_type None False (ct # ls) = Some (trim rest)" using assms(2,3) by simp
  moreover have "split_str CRLF (join_with CRLF (ct # ls)) = ct # ls"
    by (rule split_join_lines) (use ne in \<open>auto simp: list_all_iff\<close>)
  moreover have "from_utf8 (as_bytes (join_with CRLF (ct # ls) @ CRLF @ CRLF @ body)) = Some (join_with CRLF (ct # ls) @ CRLF @ CRLF @ body)"
    by (rule from_utf8_as_bytes) (rule assms(6))
  moreover have "break_str (CRLF @ CRLF) (join_with CRLF (ct # ls) @ CRLF @ CRLF @ body) = Some (join_with CRLF (ct # ls), body)"
    by (rule break_header) (use ne in auto)
  ultimately show ?thesis by (simp only: split_entity_for_pgp_signed_def option.case prod.case)
qed

end
