(* ===== verification/Cms.thy ===== *)
theory Cms
  imports Crypto_Types
begin

text \<open>
  \<open>cms_parse.rs\<close>, \<open>cms_build.rs\<close> and \<open>cert.rs\<close> of the S/MIME crate: opening \<open>EnvelopedData\<close>, checking \<open>SignedData\<close>, and
  what is asked of the builders. The DER decoder and the cryptographic primitives are parameters; a decoded structure
  is a record with the fields that the code reads.
\<close>

section \<open>Decoded structures\<close>

text \<open>\<open>to_der\<close> may fail, so it is kept as its result.\<close>

type_synonym der = "string + u8 list"

record algorithm_identifier =
  ai_oid :: string
  ai_params :: "der option"

record certificate =
  ct_issuer :: string
  ct_serial :: "u8 list"
  ct_ski_ext :: "string + u8 list option"
  ct_spki_alg :: algorithm_identifier
  ct_spki_der :: der
  ct_spki_ski :: "string + u8 list"
  ct_der :: der

datatype certificate_choice = CertChoice certificate | OtherChoice

datatype signer_identifier = IssuerAndSerial string "u8 list" | SubjectKeyId "u8 list"

record attribute_value =
  av_octets :: "u8 list option"
  av_unix_time :: "i64 option"

record attribute =
  at_oid :: string
  at_values :: "attribute_value list"

record signed_attributes =
  sa_attrs :: "attribute list"
  sa_der :: der

record signer_info =
  si_sid :: signer_identifier
  si_digest_alg :: algorithm_identifier
  si_signed_attrs :: "signed_attributes option"
  si_signature_alg :: algorithm_identifier
  si_signature :: "u8 list"

record signed_data =
  sd_econtent :: "u8 list option"
  sd_certificates :: "certificate_choice list option"
  sd_signer_infos :: "signer_info list"

datatype recipient_id = RidIssuerAndSerial string "u8 list" | RidOther

record key_trans_info =
  kt_rid :: recipient_id
  kt_enc_key :: "u8 list"

record recipient_enc_key =
  re_rid :: recipient_id
  re_enc_key :: "u8 list"

text \<open>The originator of a key agreement: its own key as the bytes of a bit string, or a reference to a certificate.\<close>

datatype originator = OriginatorKey "u8 list option" | OriginatorOther

record key_agree_info =
  ka_originator :: originator
  ka_ukm :: "u8 list option"
  ka_key_enc_alg :: algorithm_identifier
  ka_recipients :: "recipient_enc_key list"

datatype recipient_info = Ktri key_trans_info | Kari key_agree_info | OtherRecipient

record enveloped_data =
  ed_recip_infos :: "recipient_info list"
  ed_content_enc_alg :: algorithm_identifier
  ed_encrypted_content :: "u8 list option"

record content_info =
  ci_type :: string
  ci_content :: der

record asn1 =
  as_content_info :: "u8 list \<Rightarrow> string + content_info"
  as_signed_data :: "u8 list \<Rightarrow> string + signed_data"
  as_enveloped_data :: "u8 list \<Rightarrow> string + enveloped_data"
  as_certificate :: "u8 list \<Rightarrow> string + certificate"
  as_algorithm :: "u8 list \<Rightarrow> string + algorithm_identifier"
  as_octets :: "u8 list \<Rightarrow> string + u8 list"
  as_oid :: "u8 list \<Rightarrow> string + string"
  as_pss_hash :: "u8 list \<Rightarrow> string + string"
  as_shared_info :: "algorithm_identifier \<Rightarrow> u8 list option \<Rightarrow> u8 list \<Rightarrow> der"

text \<open>The primitives. A key parser refuses with a text, a signature parser with nothing to say; \<open>digest\<close> is indexed by
  the object identifier of the hash.\<close>

datatype sha = SHA1 | SHA224 | SHA256 | SHA384 | SHA512

record ('pub, 'priv) primitives =
  pr_digest :: "sha \<Rightarrow> u8 list \<Rightarrow> u8 list"
  pr_p256_key :: "u8 list \<Rightarrow> string + 'pub"
  pr_p384_key :: "u8 list \<Rightarrow> string + 'pub"
  pr_rsa_key :: "u8 list \<Rightarrow> string + 'pub"
  pr_p256_verify :: "'pub \<Rightarrow> u8 list \<Rightarrow> u8 list \<Rightarrow> bool option"
  pr_p384_verify :: "'pub \<Rightarrow> u8 list \<Rightarrow> u8 list \<Rightarrow> bool option"
  pr_pkcs1_verify :: "sha \<Rightarrow> 'pub \<Rightarrow> u8 list \<Rightarrow> u8 list \<Rightarrow> bool option"
  pr_pss_verify :: "sha \<Rightarrow> 'pub \<Rightarrow> u8 list \<Rightarrow> u8 list \<Rightarrow> bool option"
  pr_rsa_private :: "u8 list \<Rightarrow> string + 'priv"
  pr_rsa_decrypt :: "'priv \<Rightarrow> u8 list \<Rightarrow> string + u8 list"
  pr_p256_point :: "u8 list \<Rightarrow> string + 'pub"
  pr_p256_private :: "u8 list \<Rightarrow> string + 'priv"
  pr_ecdh :: "'priv \<Rightarrow> 'pub \<Rightarrow> u8 list"
  pr_kw_unwrap :: "u8 list \<Rightarrow> u8 list \<Rightarrow> string + u8 list"
  pr_cbc_decrypt :: "u8 list \<Rightarrow> u8 list \<Rightarrow> u8 list \<Rightarrow> u8 list option"

definition cms_err :: "string \<Rightarrow> string \<Rightarrow> crypto_error" where
  "cms_err ctx e = MalformedInput (''cms '' @ ctx @ '': '' @ e)"

abbreviation or_cms :: "string \<Rightarrow> string + 'a \<Rightarrow> crypto_error + 'a" where
  "or_cms ctx r \<equiv> map_err (cms_err ctx) r"

section \<open>Object identifiers\<close>

definition ID_SHA_256 :: string where "ID_SHA_256 = ''2.16.840.1.101.3.4.2.1''"
definition ID_SHA_384 :: string where "ID_SHA_384 = ''2.16.840.1.101.3.4.2.2''"
definition ID_SHA_512 :: string where "ID_SHA_512 = ''2.16.840.1.101.3.4.2.3''"
definition ID_ECDSA_WITH_SHA_256 :: string where "ID_ECDSA_WITH_SHA_256 = ''1.2.840.10045.4.3.2''"
definition ID_ECDSA_WITH_SHA_384 :: string where "ID_ECDSA_WITH_SHA_384 = ''1.2.840.10045.4.3.3''"
definition ID_ECDSA_WITH_SHA_512 :: string where "ID_ECDSA_WITH_SHA_512 = ''1.2.840.10045.4.3.4''"
definition ID_SHA256_WITH_RSA :: string where "ID_SHA256_WITH_RSA = ''1.2.840.113549.1.1.11''"
definition ID_SHA384_WITH_RSA :: string where "ID_SHA384_WITH_RSA = ''1.2.840.113549.1.1.12''"
definition ID_SHA512_WITH_RSA :: string where "ID_SHA512_WITH_RSA = ''1.2.840.113549.1.1.13''"
definition ID_RSA_ENCRYPTION :: string where "ID_RSA_ENCRYPTION = ''1.2.840.113549.1.1.1''"
definition ID_RSASSA_PSS :: string where "ID_RSASSA_PSS = ''1.2.840.113549.1.1.10''"
definition ID_EC_PUBLIC_KEY :: string where "ID_EC_PUBLIC_KEY = ''1.2.840.10045.2.1''"
definition OID_SECP256R1 :: string where "OID_SECP256R1 = ''1.2.840.10045.3.1.7''"
definition OID_SECP384R1 :: string where "OID_SECP384R1 = ''1.3.132.0.34''"
definition ID_MESSAGE_DIGEST :: string where "ID_MESSAGE_DIGEST = ''1.2.840.113549.1.9.4''"
definition ID_SIGNING_TIME :: string where "ID_SIGNING_TIME = ''1.2.840.113549.1.9.5''"

text \<open>The constants that the crate \<open>const_oid\<close> holds.\<close>

definition ID_AES_128_WRAP :: string where "ID_AES_128_WRAP = ''2.16.840.1.101.3.4.1.5''"
definition ID_AES_192_WRAP :: string where "ID_AES_192_WRAP = ''2.16.840.1.101.3.4.1.25''"
definition ID_AES_256_WRAP :: string where "ID_AES_256_WRAP = ''2.16.840.1.101.3.4.1.45''"
definition ID_AES_128_CBC :: string where "ID_AES_128_CBC = ''2.16.840.1.101.3.4.1.2''"
definition ID_AES_192_CBC :: string where "ID_AES_192_CBC = ''2.16.840.1.101.3.4.1.22''"
definition ID_AES_256_CBC :: string where "ID_AES_256_CBC = ''2.16.840.1.101.3.4.1.42''"
definition STD_DH_SHA1_KDF :: string where "STD_DH_SHA1_KDF = ''1.3.133.16.840.63.0.2''"
definition STD_DH_SHA224_KDF :: string where "STD_DH_SHA224_KDF = ''1.3.132.1.11.0''"
definition STD_DH_SHA256_KDF :: string where "STD_DH_SHA256_KDF = ''1.3.132.1.11.1''"
definition STD_DH_SHA384_KDF :: string where "STD_DH_SHA384_KDF = ''1.3.132.1.11.2''"
definition STD_DH_SHA512_KDF :: string where "STD_DH_SHA512_KDF = ''1.3.132.1.11.3''"
definition ID_SIGNED_DATA :: string where "ID_SIGNED_DATA = ''1.2.840.113549.1.7.2''"
definition ID_ENVELOPED_DATA :: string where "ID_ENVELOPED_DATA = ''1.2.840.113549.1.7.3''"

section \<open>Opening\<close>

definition be_bytes32 :: "u32 \<Rightarrow> u8 list" where
  "be_bytes32 w = [ucast (drop_bit 24 w), ucast (drop_bit 16 w), ucast (drop_bit 8 w), ucast w]"

text \<open>The key derivation of ANSI X9.63; \<open>h\<close> is the hash. The counter is a checked \<open>u32\<close>.\<close>

function kdf_loop :: "(u8 list \<Rightarrow> u8 list) \<Rightarrow> u8 list \<Rightarrow> u8 list \<Rightarrow> nat \<Rightarrow> u8 list \<Rightarrow> u32 \<Rightarrow> crypto_error + u8 list" where
  "kdf_loop h z info out_len out counter =
     (if out_len \<le> length out then Inr out
      else (let block = h (z @ be_bytes32 counter @ info);
                out' = out @ take (min (out_len - length out) (length block)) block
            in if counter = -1 then Inl (MalformedInput ''ansi_x963_kdf: counter overflow'')
               else kdf_loop h z info out_len out' (counter + 1)))"
  by pat_completeness auto
termination
proof (relation "measure (\<lambda>(_, _, _, _, _, c). 2 ^ 32 - unat c)")
  fix h :: "u8 list \<Rightarrow> u8 list" and z info out block out' :: "u8 list" and out_len and counter :: u32
  assume "counter \<noteq> -1"
  then have "unat (counter + 1) = Suc (unat counter)" by (metis Suc_eq_plus1 add.commute unatSuc add_eq_0_iff)
  moreover have "unat counter < 2 ^ 32" using unsigned_less [of counter] by simp
  ultimately show "((h, z, info, out_len, out', counter + 1), (h, z, info, out_len, out, counter))
      \<in> measure (\<lambda>(_, _, _, _, _, c). 2 ^ 32 - unat c)" by simp
qed simp

declare kdf_loop.simps [simp del]

definition ansi_x963_kdf :: "(u8 list \<Rightarrow> u8 list) \<Rightarrow> u8 list \<Rightarrow> u8 list \<Rightarrow> nat \<Rightarrow> crypto_error + u8 list" where
  "ansi_x963_kdf h z shared_info out_len =
     (if z = [] \<or> out_len = 0 then Inl (MalformedInput ''ansi_x963_kdf: empty secret or zero output length'')
      else kdf_loop h z shared_info out_len [] 1)"

definition ansi_x963_kdf_dispatch :: "('pub, 'priv) primitives \<Rightarrow> string \<Rightarrow> u8 list \<Rightarrow> u8 list \<Rightarrow> nat \<Rightarrow> crypto_error + u8 list" where
  "ansi_x963_kdf_dispatch pr oid z shared_info out_len =
     (if oid = STD_DH_SHA1_KDF then ansi_x963_kdf (pr_digest pr SHA1) z shared_info out_len
      else if oid = STD_DH_SHA224_KDF then ansi_x963_kdf (pr_digest pr SHA224) z shared_info out_len
      else if oid = STD_DH_SHA256_KDF then ansi_x963_kdf (pr_digest pr SHA256) z shared_info out_len
      else if oid = STD_DH_SHA384_KDF then ansi_x963_kdf (pr_digest pr SHA384) z shared_info out_len
      else if oid = STD_DH_SHA512_KDF then ansi_x963_kdf (pr_digest pr SHA512) z shared_info out_len
      else Inl (MalformedInput (''kari: unsupported KDF scheme OID: '' @ oid
        @ '' (supported: SHA-1/224/256/384/512 dhSinglePass-stdDH-shaXkdf-scheme)'')))"

definition parse_key_wrap_algorithm :: "asn1 \<Rightarrow> algorithm_identifier \<Rightarrow> crypto_error + algorithm_identifier" where
  "parse_key_wrap_algorithm a alg =
     (case ai_params alg of
        None \<Rightarrow> Inl (MalformedInput ''kari: key_enc_alg missing wrap-algorithm parameters'')
      | Some p \<Rightarrow>
          res_bind (or_cms ''re-derive kari key_enc_alg parameters'' p) (\<lambda>params_der.
          or_cms ''parse kari key-wrap AlgorithmIdentifier'' (as_algorithm a params_der)))"

definition aes_kek_byte_len :: "string \<Rightarrow> crypto_error + nat" where
  "aes_kek_byte_len oid =
     (if oid = ID_AES_128_WRAP then Inr 16 else if oid = ID_AES_192_WRAP then Inr 24 else if oid = ID_AES_256_WRAP then Inr 32
      else Inl (MalformedInput (''unsupported key-wrap algorithm OID: '' @ oid)))"

definition aes_kw_unwrap :: "('pub, 'priv) primitives \<Rightarrow> u8 list \<Rightarrow> u8 list \<Rightarrow> crypto_error + u8 list" where
  "aes_kw_unwrap pr kek wrapped =
     (if length wrapped \<le> 8 then Inl (MalformedInput ''AES-KW: wrapped key too short'')
      else if length kek = 16 then or_cms ''AES-128-KW unwrap'' (pr_kw_unwrap pr kek wrapped)
      else if length kek = 24 then or_cms ''AES-192-KW unwrap'' (pr_kw_unwrap pr kek wrapped)
      else if length kek = 32 then or_cms ''AES-256-KW unwrap'' (pr_kw_unwrap pr kek wrapped)
      else Inl (MalformedInput (''AES-KW: unsupported KEK size '' @ dec_string (length kek) @ '' bytes'')))"

definition unwrap_ktri_cek :: "('pub, 'priv) primitives \<Rightarrow> key_trans_info \<Rightarrow> u8 list \<Rightarrow> crypto_error + u8 list" where
  "unwrap_ktri_cek pr ktri priv_der =
     res_bind (or_cms ''parse RSA PKCS#8 private key'' (pr_rsa_private pr priv_der)) (\<lambda>key.
     or_cms ''RSA PKCS#1v1.5 CEK unwrap'' (pr_rsa_decrypt pr key (kt_enc_key ktri)))"

definition unwrap_kari_cek ::
  "asn1 \<Rightarrow> ('pub, 'priv) primitives \<Rightarrow> key_agree_info \<Rightarrow> recipient_enc_key \<Rightarrow> u8 list \<Rightarrow> crypto_error + u8 list" where
  "unwrap_kari_cek a pr kari rek priv_der =
     (case ka_originator kari of
        OriginatorOther \<Rightarrow> Inl (MalformedInput ''kari: originator is not OriginatorKey (only ephemeral-static ECDH supported)'')
      | OriginatorKey None \<Rightarrow> Inl (MalformedInput ''kari: originator public key has non-byte-aligned bits'')
      | OriginatorKey (Some bytes) \<Rightarrow>
          res_bind (or_cms ''parse originator P-256 SEC1 point'' (pr_p256_point pr bytes)) (\<lambda>point.
          res_bind (or_cms ''parse P-256 PKCS#8 private key'' (pr_p256_private pr priv_der)) (\<lambda>secret.
          res_bind (parse_key_wrap_algorithm a (ka_key_enc_alg kari)) (\<lambda>kw_alg.
          res_bind (aes_kek_byte_len (ai_oid kw_alg)) (\<lambda>kek_len.
          res_bind (or_cms ''encode EccCmsSharedInfo''
              (as_shared_info a kw_alg (ka_ukm kari) (be_bytes32 (of_nat kek_len * 8)))) (\<lambda>shared_info.
          res_bind (ansi_x963_kdf_dispatch pr (ai_oid (ka_key_enc_alg kari)) (pr_ecdh pr secret point) shared_info kek_len) (\<lambda>kek.
          aes_kw_unwrap pr kek (re_enc_key rek))))))))"

text \<open>The loop over the recipients: the first one that names our certificate decides.\<close>

fun find_and_unwrap_cek ::
  "asn1 \<Rightarrow> ('pub, 'priv) primitives \<Rightarrow> recipient_info list \<Rightarrow> recipient_id \<Rightarrow> u8 list \<Rightarrow> crypto_error + u8 list" where
  "find_and_unwrap_cek a pr [] us priv_der = Inl (MalformedInput ''no matching recipient in EnvelopedData'')"
| "find_and_unwrap_cek a pr (Ktri ktri # infos) us priv_der =
     (if kt_rid ktri = us then unwrap_ktri_cek pr ktri priv_der else find_and_unwrap_cek a pr infos us priv_der)"
| "find_and_unwrap_cek a pr (Kari kari # infos) us priv_der =
     (case find (\<lambda>rek. re_rid rek = us) (ka_recipients kari) of
        Some rek \<Rightarrow> unwrap_kari_cek a pr kari rek priv_der
      | None \<Rightarrow> find_and_unwrap_cek a pr infos us priv_der)"
| "find_and_unwrap_cek a pr (OtherRecipient # infos) us priv_der = find_and_unwrap_cek a pr infos us priv_der"

definition parse_aes_cbc_iv :: "asn1 \<Rightarrow> algorithm_identifier \<Rightarrow> crypto_error + u8 list" where
  "parse_aes_cbc_iv a alg =
     (case ai_params alg of
        None \<Rightarrow> Inl (MalformedInput ''content_enc_alg: missing IV parameters'')
      | Some p \<Rightarrow>
          res_bind (or_cms ''re-derive content_enc_alg parameters'' p) (\<lambda>params_der.
          res_bind (or_cms ''parse IV OctetString'' (as_octets a params_der)) (\<lambda>iv.
          if length iv \<noteq> 16 then Inl (MalformedInput (''AES-CBC IV must be 16 bytes, got '' @ dec_string (length iv))) else Inr iv)))"

definition cbc_with :: "('pub, 'priv) primitives \<Rightarrow> nat \<Rightarrow> string \<Rightarrow> u8 list \<Rightarrow> u8 list \<Rightarrow> u8 list \<Rightarrow> crypto_error + u8 list" where
  "cbc_with pr key_len label cek iv ct =
     (if length cek \<noteq> key_len
      then Inl (MalformedInput (label @ '' CEK must be '' @ dec_string key_len @ '' bytes''))
      else (case pr_cbc_decrypt pr cek iv ct of
              Some pt \<Rightarrow> Inr pt
            | None \<Rightarrow> Inl (MalformedInput (label @ ''-CBC decrypt failed (bad key/padding?)''))))"

definition aes_cbc_decrypt :: "('pub, 'priv) primitives \<Rightarrow> u8 list \<Rightarrow> u8 list \<Rightarrow> string \<Rightarrow> u8 list \<Rightarrow> crypto_error + u8 list" where
  "aes_cbc_decrypt pr cek iv oid ct =
     (if oid = ID_AES_128_CBC then cbc_with pr 16 ''AES-128'' cek iv ct
      else if oid = ID_AES_192_CBC then cbc_with pr 24 ''AES-192'' cek iv ct
      else if oid = ID_AES_256_CBC then cbc_with pr 32 ''AES-256'' cek iv ct
      else Inl (MalformedInput (''unsupported content-encryption algorithm: '' @ oid)))"

definition parse_content :: "asn1 \<Rightarrow> u8 list \<Rightarrow> crypto_error + u8 list" where
  "parse_content a der =
     res_bind (or_cms ''parse ContentInfo'' (as_content_info a der)) (\<lambda>ci.
     or_cms ''re-derive ContentInfo content'' (ci_content ci))"

definition decrypt_enveloped ::
  "asn1 \<Rightarrow> ('pub, 'priv) primitives \<Rightarrow> u8 list \<Rightarrow> u8 list \<Rightarrow> u8 list \<Rightarrow> crypto_error + u8 list" where
  "decrypt_enveloped a pr enveloped_der recipient_cert_der recipient_priv_der =
     res_bind (parse_content a enveloped_der) (\<lambda>inner_der.
     res_bind (or_cms ''parse EnvelopedData'' (as_enveloped_data a inner_der)) (\<lambda>env.
     res_bind (or_cms ''parse recipient cert'' (as_certificate a recipient_cert_der)) (\<lambda>our_cert.
     res_bind (find_and_unwrap_cek a pr (ed_recip_infos env) (RidIssuerAndSerial (ct_issuer our_cert) (ct_serial our_cert))
         recipient_priv_der) (\<lambda>cek.
     res_bind (parse_aes_cbc_iv a (ed_content_enc_alg env)) (\<lambda>iv.
     case ed_encrypted_content env of
       None \<Rightarrow> Inl (MalformedInput ''EnvelopedData: encrypted_content absent'')
     | Some enc \<Rightarrow> aes_cbc_decrypt pr cek iv (ai_oid (ed_content_enc_alg env)) enc)))))"

section \<open>Checking a signature\<close>

record cms_sig_check =
  cs_sig_ok :: bool
  cs_signer_cert_der :: "u8 list option"
  cs_signer_fingerprint :: "string option"
  cs_signing_time_unix :: "i64 option"

definition hex_lower_digit :: "u8 \<Rightarrow> char" where
  "hex_lower_digit d = ''0123456789abcdef'' ! unat d"

definition to_hex_lower :: "u8 list \<Rightarrow> string" where
  "to_hex_lower bytes = concat (map (\<lambda>b. [hex_lower_digit (drop_bit 4 b), hex_lower_digit (and b 0x0F)]) bytes)"

definition fingerprint_of_spki :: "certificate \<Rightarrow> crypto_error + string" where
  "fingerprint_of_spki cert = map_sum id to_hex_lower (or_cms ''compute SubjectKeyIdentifier'' (ct_spki_ski cert))"

definition fingerprint_of_cert_der :: "asn1 \<Rightarrow> u8 list \<Rightarrow> crypto_error + string" where
  "fingerprint_of_cert_der a cert_der =
     res_bind (map_err (\<lambda>e. MalformedInput (''parse cert DER: '' @ e)) (as_certificate a cert_der)) (\<lambda>cert.
     map_sum id to_hex_lower (map_err (\<lambda>e. MalformedInput (''compute SKI: '' @ e)) (ct_spki_ski cert)))"

definition find_message_digest :: "attribute list \<Rightarrow> u8 list option" where
  "find_message_digest attrs =
     Option.bind (find (\<lambda>x. at_oid x = ID_MESSAGE_DIGEST) attrs) (\<lambda>md.
     case at_values md of [] \<Rightarrow> None | v # _ \<Rightarrow> av_octets v)"

definition find_signing_time :: "attribute list \<Rightarrow> i64 option" where
  "find_signing_time attrs =
     Option.bind (find (\<lambda>x. at_oid x = ID_SIGNING_TIME) attrs) (\<lambda>st.
     case at_values st of [] \<Rightarrow> None | v # _ \<Rightarrow> av_unix_time v)"

definition cert_matches_signer_id :: "certificate \<Rightarrow> signer_identifier \<Rightarrow> crypto_error + bool" where
  "cert_matches_signer_id cert sid =
     (case sid of
        IssuerAndSerial issuer serial \<Rightarrow> Inr (ct_issuer cert = issuer \<and> ct_serial cert = serial)
      | SubjectKeyId ski \<Rightarrow>
          map_sum id (\<lambda>ext. ext = Some ski) (or_cms ''SubjectKeyIdentifier ext lookup'' (ct_ski_ext cert)))"

fun locate_signer_cert :: "certificate_choice list \<Rightarrow> signer_identifier \<Rightarrow> crypto_error + u8 list" where
  "locate_signer_cert [] sid = Inl (MalformedInput ''no signer cert matching SignerIdentifier'')"
| "locate_signer_cert (OtherChoice # certs) sid = locate_signer_cert certs sid"
| "locate_signer_cert (CertChoice cert # certs) sid =
     res_bind (cert_matches_signer_id cert sid) (\<lambda>matches.
     if matches then or_cms ''encode signer cert'' (ct_der cert) else locate_signer_cert certs sid)"

fun non_signer_ders :: "certificate_choice list \<Rightarrow> signer_identifier option \<Rightarrow> crypto_error + u8 list list" where
  "non_signer_ders [] sid = Inr []"
| "non_signer_ders (OtherChoice # certs) sid = non_signer_ders certs sid"
| "non_signer_ders (CertChoice cert # certs) sid =
     res_bind (case sid of Some x \<Rightarrow> cert_matches_signer_id cert x | None \<Rightarrow> Inr False) (\<lambda>is_signer.
     if is_signer then non_signer_ders certs sid
     else res_bind (or_cms ''encode intermediate cert'' (ct_der cert)) (\<lambda>der.
          map_sum id ((#) der) (non_signer_ders certs sid)))"

definition parse_signed :: "asn1 \<Rightarrow> u8 list \<Rightarrow> crypto_error + signed_data" where
  "parse_signed a der =
     res_bind (parse_content a der) (\<lambda>inner_der. or_cms ''parse SignedData'' (as_signed_data a inner_der))"

definition first_sid :: "signed_data \<Rightarrow> signer_identifier option" where
  "first_sid sd = (case sd_signer_infos sd of [] \<Rightarrow> None | si # _ \<Rightarrow> Some (si_sid si))"

definition extract_intermediates :: "asn1 \<Rightarrow> u8 list \<Rightarrow> crypto_error + u8 list list" where
  "extract_intermediates a signed_data_der =
     res_bind (parse_signed a signed_data_der) (\<lambda>sd.
     case sd_certificates sd of None \<Rightarrow> Inr [] | Some certs \<Rightarrow> non_signer_ders certs (first_sid sd))"

definition sha_of_oid :: "string \<Rightarrow> sha option" where
  "sha_of_oid oid = (if oid = ID_SHA_256 then Some SHA256 else if oid = ID_SHA_384 then Some SHA384
     else if oid = ID_SHA_512 then Some SHA512 else None)"

definition compute_content_digest :: "('pub, 'priv) primitives \<Rightarrow> string \<Rightarrow> u8 list \<Rightarrow> u8 list option" where
  "compute_content_digest pr oid content = map_option (\<lambda>h. pr_digest pr h content) (sha_of_oid oid)"

text \<open>A signature that does not parse is \<open>false\<close>, as is one that does not verify.\<close>

definition verified :: "bool option \<Rightarrow> bool" where
  "verified r = (r = Some True)"

definition verify_ecdsa_signature ::
  "asn1 \<Rightarrow> ('pub, 'priv) primitives \<Rightarrow> certificate \<Rightarrow> u8 list \<Rightarrow> u8 list \<Rightarrow> algorithm_identifier \<Rightarrow> crypto_error + bool" where
  "verify_ecdsa_signature a pr cert attrs_der signature digest_alg =
     (if ai_oid (ct_spki_alg cert) \<noteq> ID_EC_PUBLIC_KEY then Inr False
      else (case ai_params (ct_spki_alg cert) of
              None \<Rightarrow> Inl (MalformedInput ''ECDSA SPKI: missing curve parameters'')
            | Some p \<Rightarrow>
                res_bind (or_cms ''encode ECDSA curve params'' p) (\<lambda>curve_der.
                res_bind (or_cms ''decode ECDSA curve OID'' (as_oid a curve_der)) (\<lambda>curve.
                if curve = OID_SECP256R1 then
                  if ai_oid digest_alg \<noteq> ID_SHA_256 then Inr False
                  else res_bind (or_cms ''encode signer SPKI'' (ct_spki_der cert)) (\<lambda>spki.
                       res_bind (or_cms ''decode signer P-256 public key'' (pr_p256_key pr spki)) (\<lambda>key.
                       Inr (verified (pr_p256_verify pr key attrs_der signature))))
                else if curve = OID_SECP384R1 then
                  if ai_oid digest_alg \<noteq> ID_SHA_384 then Inr False
                  else res_bind (or_cms ''encode signer SPKI'' (ct_spki_der cert)) (\<lambda>spki.
                       res_bind (or_cms ''decode signer P-384 public key'' (pr_p384_key pr spki)) (\<lambda>key.
                       Inr (verified (pr_p384_verify pr key attrs_der signature))))
                else Inr False))))"

definition verify_rsa_pkcs1v15_signature ::
  "('pub, 'priv) primitives \<Rightarrow> certificate \<Rightarrow> u8 list \<Rightarrow> u8 list \<Rightarrow> algorithm_identifier \<Rightarrow> crypto_error + bool" where
  "verify_rsa_pkcs1v15_signature pr cert attrs_der signature digest_alg =
     res_bind (or_cms ''encode signer SPKI'' (ct_spki_der cert)) (\<lambda>spki.
     res_bind (or_cms ''decode signer RSA public key'' (pr_rsa_key pr spki)) (\<lambda>key.
     case sha_of_oid (ai_oid digest_alg) of
       Some h \<Rightarrow> Inr (verified (pr_pkcs1_verify pr h key attrs_der signature))
     | None \<Rightarrow> Inr False))"

definition pss_hash_oid :: "asn1 \<Rightarrow> algorithm_identifier \<Rightarrow> crypto_error + string" where
  "pss_hash_oid a sig_alg =
     (case ai_params sig_alg of
        None \<Rightarrow> Inl (MalformedInput ''id-RSASSA-PSS AlgorithmIdentifier: missing parameters'')
      | Some p \<Rightarrow>
          res_bind (or_cms ''encode RSA-PSS params'' p) (\<lambda>params_der. or_cms ''parse RSA-PSS params'' (as_pss_hash a params_der)))"

definition verify_rsa_pss_signature ::
  "asn1 \<Rightarrow> ('pub, 'priv) primitives \<Rightarrow> certificate \<Rightarrow> u8 list \<Rightarrow> u8 list \<Rightarrow> algorithm_identifier \<Rightarrow> crypto_error + bool" where
  "verify_rsa_pss_signature a pr cert attrs_der signature sig_alg =
     res_bind (or_cms ''encode signer SPKI'' (ct_spki_der cert)) (\<lambda>spki.
     res_bind (or_cms ''decode signer RSA public key'' (pr_rsa_key pr spki)) (\<lambda>key.
     res_bind (pss_hash_oid a sig_alg) (\<lambda>oid.
     case sha_of_oid oid of
       Some h \<Rightarrow> Inr (verified (pr_pss_verify pr h key attrs_der signature))
     | None \<Rightarrow> Inr False)))"

definition verify_signer_signature ::
  "asn1 \<Rightarrow> ('pub, 'priv) primitives \<Rightarrow> certificate \<Rightarrow> u8 list \<Rightarrow> u8 list \<Rightarrow> algorithm_identifier \<Rightarrow> algorithm_identifier
     \<Rightarrow> crypto_error + bool" where
  "verify_signer_signature a pr cert attrs_der signature digest_alg sig_alg =
     (let oid = ai_oid sig_alg
      in if oid = ID_ECDSA_WITH_SHA_256 \<or> oid = ID_ECDSA_WITH_SHA_384 \<or> oid = ID_ECDSA_WITH_SHA_512
         then verify_ecdsa_signature a pr cert attrs_der signature digest_alg
         else if oid = ID_SHA256_WITH_RSA \<or> oid = ID_SHA384_WITH_RSA \<or> oid = ID_SHA512_WITH_RSA \<or> oid = ID_RSA_ENCRYPTION
         then verify_rsa_pkcs1v15_signature pr cert attrs_der signature digest_alg
         else if oid = ID_RSASSA_PSS then verify_rsa_pss_signature a pr cert attrs_der signature sig_alg
         else Inr False)"

definition verify_signed ::
  "asn1 \<Rightarrow> ('pub, 'priv) primitives \<Rightarrow> u8 list \<Rightarrow> u8 list option \<Rightarrow> crypto_error + cms_sig_check" where
  "verify_signed a pr signed_data_der covered_content =
     res_bind (parse_signed a signed_data_der) (\<lambda>sd.
     res_bind (case sd_econtent sd of
                 Some c \<Rightarrow> Inr c
               | None \<Rightarrow> (case covered_content of Some b \<Rightarrow> Inr b
                   | None \<Rightarrow> Inl (MalformedInput ''SignedData: detached signature but no covered_content supplied''))) (\<lambda>content.
     res_bind (case sd_signer_infos sd of [] \<Rightarrow> Inl (MalformedInput ''SignedData: no signer infos'') | si # _ \<Rightarrow> Inr si) (\<lambda>si.
     res_bind (case sd_certificates sd of None \<Rightarrow> Inl (MalformedInput ''no signer cert (certificates set absent)'')
               | Some certs \<Rightarrow> locate_signer_cert certs (si_sid si)) (\<lambda>signer_cert_der.
     res_bind (or_cms ''parse signer cert'' (as_certificate a signer_cert_der)) (\<lambda>signer_cert.
     res_bind (fingerprint_of_spki signer_cert) (\<lambda>fp.
     res_bind (case si_signed_attrs si of None \<Rightarrow> Inl (MalformedInput ''SignedData: missing signed_attrs'') | Some attrs \<Rightarrow> Inr attrs) (\<lambda>attrs.
     let check = (\<lambda>ok. \<lparr>cs_sig_ok = ok, cs_signer_cert_der = Some signer_cert_der, cs_signer_fingerprint = Some fp,
                      cs_signing_time_unix = find_signing_time (sa_attrs attrs)\<rparr>)
     in res_bind (case find_message_digest (sa_attrs attrs) of None \<Rightarrow> Inl (MalformedInput ''SignedData: missing messageDigest attr'')
                  | Some d \<Rightarrow> Inr d) (\<lambda>stored_digest.
        if compute_content_digest pr (ai_oid (si_digest_alg si)) content \<noteq> Some stored_digest then Inr (check False)
        else res_bind (or_cms ''encode signed_attrs'' (sa_der attrs)) (\<lambda>attrs_der.
             map_sum id check (verify_signer_signature a pr signer_cert attrs_der (si_signature si) (si_digest_alg si)
               (si_signature_alg si)))))))))))"

section \<open>What a positive check means\<close>

text \<open>The signature that \<open>verify_signer_signature\<close> accepts is one under the key of the certificate, over the encoded
  attributes, of one of the supported kinds.\<close>

definition signs_with_key :: "('pub, 'priv) primitives \<Rightarrow> u8 list \<Rightarrow> u8 list \<Rightarrow> u8 list \<Rightarrow> bool" where
  "signs_with_key pr spki message signature \<longleftrightarrow>
     (\<exists>key. pr_p256_key pr spki = Inr key \<and> pr_p256_verify pr key message signature = Some True)
   \<or> (\<exists>key. pr_p384_key pr spki = Inr key \<and> pr_p384_verify pr key message signature = Some True)
   \<or> (\<exists>key h. pr_rsa_key pr spki = Inr key \<and> h \<in> {SHA256, SHA384, SHA512}
        \<and> (pr_pkcs1_verify pr h key message signature = Some True \<or> pr_pss_verify pr h key message signature = Some True))"

lemma sha_of_oid_strong: "sha_of_oid oid = Some h \<Longrightarrow> h \<in> {SHA256, SHA384, SHA512}"
  by (auto simp: sha_of_oid_def split: if_splits)

lemma case_hash_iff:
  "(case x of None \<Rightarrow> Inr False | Some h \<Rightarrow> Inr (f h)) = (Inr True :: 'e + bool) \<longleftrightarrow> (\<exists>h. x = Some h \<and> f h)"
  by (cases x) auto

lemma case_found_iff: "(case x of None \<Rightarrow> Inl e | Some y \<Rightarrow> f y) = Inr z \<longleftrightarrow> (\<exists>y. x = Some y \<and> f y = Inr z)"
  by (cases x) auto

lemma case_first_iff: "(case xs of [] \<Rightarrow> Inl e | x # _ \<Rightarrow> Inr x) = Inr z \<longleftrightarrow> (\<exists>t. xs = z # t)"
  by (cases xs) auto

lemmas sig_elims = case_found_iff case_first_iff res_bind_Inr_iff map_err_Inr_iff case_hash_iff

lemma ecdsa_signs:
  "verify_ecdsa_signature a pr cert attrs_der signature digest_alg = Inr True \<Longrightarrow>
     \<exists>spki. ct_spki_der cert = Inr spki \<and> signs_with_key pr spki attrs_der signature"
  by (auto simp: verify_ecdsa_signature_def sig_elims verified_def signs_with_key_def split: if_splits option.splits)

lemma pkcs1_signs:
  "verify_rsa_pkcs1v15_signature pr cert attrs_der signature digest_alg = Inr True \<Longrightarrow>
     \<exists>spki. ct_spki_der cert = Inr spki \<and> signs_with_key pr spki attrs_der signature"
  unfolding verify_rsa_pkcs1v15_signature_def signs_with_key_def
  by (fastforce simp: sig_elims verified_def dest!: sha_of_oid_strong)

lemma pss_signs:
  "verify_rsa_pss_signature a pr cert attrs_der signature sig_alg = Inr True \<Longrightarrow>
     \<exists>spki. ct_spki_der cert = Inr spki \<and> signs_with_key pr spki attrs_der signature"
  unfolding verify_rsa_pss_signature_def signs_with_key_def
  by (fastforce simp: sig_elims verified_def dest!: sha_of_oid_strong)

lemma signer_signature_signs:
  "verify_signer_signature a pr cert attrs_der signature digest_alg sig_alg = Inr True \<Longrightarrow>
     \<exists>spki. ct_spki_der cert = Inr spki \<and> signs_with_key pr spki attrs_der signature"
  unfolding verify_signer_signature_def Let_def
  by (auto split: if_splits dest: ecdsa_signs pkcs1_signs pss_signs)

lemma locate_signer_cert_matches:
  "locate_signer_cert certs sid = Inr der \<Longrightarrow>
     \<exists>cert. CertChoice cert \<in> set certs \<and> cert_matches_signer_id cert sid = Inr True \<and> ct_der cert = Inr der"
proof (induction certs)
  case (Cons c certs)
  then show ?case by (cases c) (auto simp: sig_elims split: if_splits)
qed simp

text \<open>The content that is checked: the embedded one whenever there is one.\<close>

definition checked_content :: "signed_data \<Rightarrow> u8 list option \<Rightarrow> u8 list option" where
  "checked_content sd covered = (case sd_econtent sd of Some c \<Rightarrow> Some c | None \<Rightarrow> covered)"

lemma checked_content_iff:
  "(case sd_econtent sd of Some c \<Rightarrow> Inr c | None \<Rightarrow> (case covered of Some b \<Rightarrow> Inr b | None \<Rightarrow> Inl e)) = Inr z
     \<longleftrightarrow> checked_content sd covered = Some z"
  by (auto simp: checked_content_def split: option.splits)

text \<open>C13. A signature check says yes only for this: the first signer names a certificate that comes with the message, the
  digest attribute is a SHA-2 hash of the checked content, and the encoded attributes carry a signature by that
  certificate's key. The checked content is the content embedded in the signature, and the detached one only
  when nothing is embedded.\<close>

theorem verify_signed_sound:
  assumes "verify_signed a pr der covered = Inr check" and "cs_sig_ok check"
  shows "\<exists>sd si sis certs cert cert_der cert' attrs attrs_der spki content h.
      parse_signed a der = Inr sd \<and> sd_signer_infos sd = si # sis \<and> sd_certificates sd = Some certs
    \<and> CertChoice cert \<in> set certs \<and> cert_matches_signer_id cert (si_sid si) = Inr True
    \<and> ct_der cert = Inr cert_der \<and> cs_signer_cert_der check = Some cert_der \<and> as_certificate a cert_der = Inr cert'
    \<and> si_signed_attrs si = Some attrs \<and> checked_content sd covered = Some content
    \<and> sha_of_oid (ai_oid (si_digest_alg si)) = Some h \<and> find_message_digest (sa_attrs attrs) = Some (pr_digest pr h content)
    \<and> sa_der attrs = Inr attrs_der \<and> ct_spki_der cert' = Inr spki \<and> signs_with_key pr spki attrs_der (si_signature si)"
proof -
  from assms(1) obtain sd content si sis certs cert_der cert' fp attrs stored where
    sd: "parse_signed a der = Inr sd" and content: "checked_content sd covered = Some content"
    and si: "sd_signer_infos sd = si # sis" and certs: "sd_certificates sd = Some certs"
    and loc: "locate_signer_cert certs (si_sid si) = Inr cert_der" and cert': "as_certificate a cert_der = Inr cert'"
    and attrs: "si_signed_attrs si = Some attrs" and stored: "find_message_digest (sa_attrs attrs) = Some stored"
    and rest: "(if compute_content_digest pr (ai_oid (si_digest_alg si)) content \<noteq> Some stored
        then Inr \<lparr>cs_sig_ok = False, cs_signer_cert_der = Some cert_der, cs_signer_fingerprint = Some fp,
                      cs_signing_time_unix = find_signing_time (sa_attrs attrs)\<rparr>
        else res_bind (or_cms ''encode signed_attrs'' (sa_der attrs)) (\<lambda>attrs_der.
             map_sum id (\<lambda>ok. \<lparr>cs_sig_ok = ok, cs_signer_cert_der = Some cert_der, cs_signer_fingerprint = Some fp,
                      cs_signing_time_unix = find_signing_time (sa_attrs attrs)\<rparr>)
               (verify_signer_signature a pr cert' attrs_der (si_signature si) (si_digest_alg si) (si_signature_alg si)))) = Inr check"
    unfolding verify_signed_def Let_def sig_elims checked_content_iff by blast
  from rest assms(2) obtain attrs_der where
    dig: "compute_content_digest pr (ai_oid (si_digest_alg si)) content = Some stored" and der: "sa_der attrs = Inr attrs_der"
    and sig: "verify_signer_signature a pr cert' attrs_der (si_signature si) (si_digest_alg si) (si_signature_alg si) = Inr True"
    and check: "cs_signer_cert_der check = Some cert_der"
    by (cases "verify_signer_signature a pr cert' (projr (sa_der attrs)) (si_signature si) (si_digest_alg si) (si_signature_alg si)")
      (auto simp: sig_elims split: if_splits)
  from dig obtain h where "sha_of_oid (ai_oid (si_digest_alg si)) = Some h" "stored = pr_digest pr h content"
    by (auto simp: compute_content_digest_def)
  with sd content si certs cert' attrs stored der check locate_signer_cert_matches [OF loc] signer_signature_signs [OF sig]
  show ?thesis by blast
qed

section \<open>Key derivation\<close>

definition kdf_blocks :: "(u8 list \<Rightarrow> u8 list) \<Rightarrow> u8 list \<Rightarrow> u8 list \<Rightarrow> nat \<Rightarrow> u8 list" where
  "kdf_blocks h z info k = concat (map (\<lambda>i. h (z @ be_bytes32 (of_nat i) @ info)) [1..<Suc k])"

lemma kdf_blocks_Suc: "kdf_blocks h z info (Suc k) = kdf_blocks h z info k @ h (z @ be_bytes32 (of_nat (Suc k)) @ info)"
  by (simp add: kdf_blocks_def)

lemma length_kdf_blocks: "\<forall>x. length (h x) = L \<Longrightarrow> length (kdf_blocks h z info k) = k * L"
  by (induction k) (simp_all add: kdf_blocks_Suc, simp add: kdf_blocks_def)

lemma kdf_blocks_prefix: "c \<le> k \<Longrightarrow> n \<le> length (kdf_blocks h z info c) \<Longrightarrow> take n (kdf_blocks h z info c) = take n (kdf_blocks h z info k)"
proof (induction k)
  case (Suc k)
  show ?case
  proof (cases "c = Suc k")
    case False
    have "length (kdf_blocks h z info c) \<le> length (kdf_blocks h z info k)" if "c \<le> k"
      using that by (induction k) (auto simp: kdf_blocks_Suc le_Suc_eq)
    with Suc False show ?thesis by (simp add: kdf_blocks_Suc)
  qed simp
qed simp

lemma take_min_length: "take (min m (length b)) b = take m b"
  by (simp add: min_def)

lemma kdf_loop_blocks:
  assumes len: "\<forall>x. length (h x) = L" and k: "n \<le> k * L" "k < 2 ^ 32 - 1"
  shows "c \<le> k \<Longrightarrow> kdf_loop h z info n (take n (kdf_blocks h z info c)) (of_nat (Suc c)) = Inr (take n (kdf_blocks h z info k))"
proof (induction "k - c" arbitrary: c)
  case 0
  then have "c = k" by simp
  then have "length (take n (kdf_blocks h z info c)) = n" using k by (simp add: length_kdf_blocks [OF len])
  then show ?case using \<open>c = k\<close> by (simp add: kdf_loop.simps)
next
  case (Suc m)
  let ?B = "kdf_blocks h z info c"
  show ?case
  proof (cases "n \<le> c * L")
    case True
    then have "length (take n ?B) = n" by (simp add: length_kdf_blocks [OF len])
    moreover have "take n ?B = take n (kdf_blocks h z info k)"
      using True Suc.prems by (intro kdf_blocks_prefix) (simp_all add: length_kdf_blocks [OF len])
    ultimately show ?thesis by (simp add: kdf_loop.simps)
  next
    case False
    have lt: "Suc c < 2 ^ 32 - 1" using Suc.hyps(2) k by simp
    have ne: "of_nat (Suc c) \<noteq> (-1 :: u32)"
    proof
      assume "of_nat (Suc c) = (-1 :: u32)"
      then have "unat (of_nat (Suc c) :: u32) = unat (-1 :: u32)" by (rule arg_cong)
      moreover have "unat (of_nat (Suc c) :: u32) = Suc c"
        using lt by (simp only: unat_of_nat) simp
      moreover have "unat (-1 :: u32) = 2 ^ 32 - 1" by (simp add: unsigned_minus_1_eq_mask mask_eq_exp_minus_1)
      ultimately show False using lt by simp
    qed
    let ?b = "h (z @ be_bytes32 (of_nat (Suc c)) @ info)"
    have out: "take n ?B = ?B" using False by (simp add: length_kdf_blocks [OF len])
    have "take n ?B @ take (min (n - length (take n ?B)) (length ?b)) ?b = take n (kdf_blocks h z info (Suc c))"
      using False by (simp add: kdf_blocks_Suc length_kdf_blocks [OF len] out take_min_length)
    moreover have "\<not> n \<le> length (take n ?B)" using False by (simp add: length_kdf_blocks [OF len] out)
    ultimately have "kdf_loop h z info n (take n ?B) (of_nat (Suc c)) = kdf_loop h z info n (take n (kdf_blocks h z info (Suc c))) (of_nat (Suc c) + 1)"
      using ne by (subst kdf_loop.simps) (simp only: Let_def if_False)
    also have "\<dots> = kdf_loop h z info n (take n (kdf_blocks h z info (Suc c))) (of_nat (Suc (Suc c)))"
      by (simp add: add.commute)
    also have "\<dots> = Inr (take n (kdf_blocks h z info k))"
      using Suc.hyps by (intro Suc.hyps(1)) auto
    finally show ?thesis .
  qed
qed

text \<open>C36. The loop with its length bookkeeping and its checked counter is the key derivation of ANSI X9.63: the first
  bytes of \<open>H(Z || 1 || info) || H(Z || 2 || info) || ...\<close>; the counter cannot overflow before that is enough.\<close>

theorem kdf_is_x963:
  assumes "\<forall>x. length (h x) = L" and "n \<le> k * L" and "k < 2 ^ 32 - 1" and "z \<noteq> []" and "0 < n"
  shows "ansi_x963_kdf h z info n = Inr (take n (concat (map (\<lambda>i. h (z @ be_bytes32 (of_nat i) @ info)) [1..<Suc k])))"
proof -
  have "kdf_loop h z info n (take n (kdf_blocks h z info 0)) (of_nat (Suc 0)) = Inr (take n (kdf_blocks h z info k))"
    by (rule kdf_loop_blocks [OF assms(1-3)]) simp
  with assms(4,5) show ?thesis by (simp add: ansi_x963_kdf_def kdf_blocks_def)
qed

lemma kdf_is_x963_witness:
  "ansi_x963_kdf (\<lambda>x. replicate 20 (last x)) [1] [9] 32
     = Inr (take 32 (concat (map (\<lambda>i. replicate 20 (last ([1] @ be_bytes32 (of_nat i) @ [9]))) [1..<Suc 2])))"
  by (rule kdf_is_x963 [where L = 20]) simp_all

section \<open>Opening means being addressed\<close>

definition addressed :: "enveloped_data \<Rightarrow> recipient_id \<Rightarrow> bool" where
  "addressed env us \<longleftrightarrow> list_ex (\<lambda>ri. case ri of Ktri k \<Rightarrow> kt_rid k = us | Kari k \<Rightarrow> list_ex (\<lambda>r. re_rid r = us) (ka_recipients k)
     | OtherRecipient \<Rightarrow> False) (ed_recip_infos env)"

lemma unwrap_addressed:
  "find_and_unwrap_cek a pr infos us priv = Inr cek \<Longrightarrow>
     list_ex (\<lambda>ri. case ri of Ktri k \<Rightarrow> kt_rid k = us | Kari k \<Rightarrow> list_ex (\<lambda>r. re_rid r = us) (ka_recipients k)
       | OtherRecipient \<Rightarrow> False) infos"
  by (induction a pr infos us priv rule: find_and_unwrap_cek.induct)
    (auto split: if_splits option.splits simp: list_ex_iff dest!: find_SomeD)

text \<open>A message is only opened when one of its recipients is the certificate that was tried, and with a content key of
  the length that its cipher demands.\<close>

lemma decrypt_enveloped_sound:
  assumes "decrypt_enveloped a pr enveloped cert_der priv = Inr plain"
  shows "\<exists>env cert cek iv ct. as_certificate a cert_der = Inr cert \<and> addressed env (RidIssuerAndSerial (ct_issuer cert) (ct_serial cert))
    \<and> length iv = 16 \<and> length cek \<in> {16, 24, 32} \<and> ed_encrypted_content env = Some ct \<and> pr_cbc_decrypt pr cek iv ct = Some plain"
proof -
  from assms obtain env :: enveloped_data and cert cek iv ct where
    cert: "as_certificate a cert_der = Inr cert"
    and cek: "find_and_unwrap_cek a pr (ed_recip_infos env) (RidIssuerAndSerial (ct_issuer cert) (ct_serial cert)) priv = Inr cek"
    and iv: "parse_aes_cbc_iv a (ed_content_enc_alg env) = Inr iv" and ct: "ed_encrypted_content env = Some ct"
    and dec: "aes_cbc_decrypt pr cek iv (ai_oid (ed_content_enc_alg env)) ct = Inr plain"
    unfolding decrypt_enveloped_def sig_elims by (elim exE conjE) (rule that)
  have "length iv = 16" using iv by (auto simp: parse_aes_cbc_iv_def sig_elims split: if_splits)
  moreover have "length cek \<in> {16, 24, 32} \<and> pr_cbc_decrypt pr cek iv ct = Some plain"
    using dec by (auto simp: aes_cbc_decrypt_def cbc_with_def split: if_splits option.splits)
  ultimately show ?thesis
    using cert ct unwrap_addressed [OF cek] unfolding addressed_def by blast
qed

section \<open>Witnesses\<close>

text \<open>A decoder that knows two signatures, \<open>[1]\<close> detached and \<open>[2]\<close> with the content \<open>[7]\<close> embedded, both by the same
  certificate, over a hash that is the identity.\<close>

definition sample_cert :: certificate where
  "sample_cert = \<lparr>ct_issuer = ''CA'', ct_serial = [1], ct_ski_ext = Inr None,
     ct_spki_alg = \<lparr>ai_oid = ID_EC_PUBLIC_KEY, ai_params = Some (Inr [5])\<rparr>, ct_spki_der = Inr [6], ct_spki_ski = Inr [171],
     ct_der = Inr [9]\<rparr>"

definition sample_signed :: "u8 list option \<Rightarrow> signed_data" where
  "sample_signed embedded = \<lparr>sd_econtent = embedded, sd_certificates = Some [CertChoice sample_cert],
     sd_signer_infos = [\<lparr>si_sid = IssuerAndSerial ''CA'' [1], si_digest_alg = \<lparr>ai_oid = ID_SHA_256, ai_params = None\<rparr>,
       si_signed_attrs = Some \<lparr>sa_attrs = [\<lparr>at_oid = ID_MESSAGE_DIGEST, at_values = [\<lparr>av_octets = Some [7], av_unix_time = None\<rparr>]\<rparr>],
         sa_der = Inr [3]\<rparr>,
       si_signature_alg = \<lparr>ai_oid = ID_ECDSA_WITH_SHA_256, ai_params = None\<rparr>, si_signature = [4]\<rparr>]\<rparr>"

definition sample_asn1 :: asn1 where
  "sample_asn1 = \<lparr>as_content_info = (\<lambda>d. Inr \<lparr>ci_type = ID_SIGNED_DATA, ci_content = Inr d\<rparr>),
     as_signed_data = (\<lambda>d. Inr (sample_signed (if d = [1] then None else Some [7]))),
     as_enveloped_data = (\<lambda>_. Inl ''no''), as_certificate = (\<lambda>_. Inr sample_cert), as_algorithm = (\<lambda>_. Inl ''no''),
     as_octets = Inr, as_oid = (\<lambda>_. Inr OID_SECP256R1), as_pss_hash = (\<lambda>_. Inl ''no''), as_shared_info = (\<lambda>_ _ _. Inl ''no'')\<rparr>"

definition sample_primitives :: "(u8 list, unit) primitives" where
  "sample_primitives = \<lparr>pr_digest = (\<lambda>_ x. x), pr_p256_key = Inr, pr_p384_key = Inr, pr_rsa_key = (\<lambda>_. Inl ''no''),
     pr_p256_verify = (\<lambda>_ _ _. Some True), pr_p384_verify = (\<lambda>_ _ _. None), pr_pkcs1_verify = (\<lambda>_ _ _ _. None),
     pr_pss_verify = (\<lambda>_ _ _ _. None), pr_rsa_private = (\<lambda>_. Inl ''no''), pr_rsa_decrypt = (\<lambda>_ _. Inl ''no''),
     pr_p256_point = Inr, pr_p256_private = (\<lambda>_. Inl ''no''), pr_ecdh = (\<lambda>_ p. p), pr_kw_unwrap = (\<lambda>_ _. Inl ''no''),
     pr_cbc_decrypt = (\<lambda>_ _ _. None)\<rparr>"

definition sample_check :: cms_sig_check where
  "sample_check = \<lparr>cs_sig_ok = True, cs_signer_cert_der = Some [9], cs_signer_fingerprint = Some ''ab'', cs_signing_time_unix = None\<rparr>"

lemma sample_verify:
  "verify_signed sample_asn1 sample_primitives [1] (Some [7]) = Inr sample_check"
  "verify_signed sample_asn1 sample_primitives [2] covered = Inr sample_check"
proof -
  have hex: "to_hex_lower [171] = ''ab''" by code_simp
  show "verify_signed sample_asn1 sample_primitives [1] (Some [7]) = Inr sample_check"
    "verify_signed sample_asn1 sample_primitives [2] covered = Inr sample_check"
    by (simp_all add: verify_signed_def parse_signed_def parse_content_def sample_asn1_def sample_signed_def sample_cert_def
        cert_matches_signer_id_def fingerprint_of_spki_def find_message_digest_def find_signing_time_def ID_MESSAGE_DIGEST_def
        ID_SIGNING_TIME_def compute_content_digest_def sha_of_oid_def sample_primitives_def verify_signer_signature_def
        verify_ecdsa_signature_def verified_def sample_check_def hex)
qed

lemma verify_signed_sound_witness:
  "verify_signed sample_asn1 sample_primitives [1] (Some [7]) = Inr sample_check \<and>
   (\<exists>sd si sis certs cert cert_der cert' attrs attrs_der spki content h.
      parse_signed sample_asn1 [1] = Inr sd \<and> sd_signer_infos sd = si # sis \<and> sd_certificates sd = Some certs
    \<and> CertChoice cert \<in> set certs \<and> cert_matches_signer_id cert (si_sid si) = Inr True
    \<and> ct_der cert = Inr cert_der \<and> cs_signer_cert_der sample_check = Some cert_der \<and> as_certificate sample_asn1 cert_der = Inr cert'
    \<and> si_signed_attrs si = Some attrs \<and> checked_content sd (Some [7]) = Some content
    \<and> sha_of_oid (ai_oid (si_digest_alg si)) = Some h
    \<and> find_message_digest (sa_attrs attrs) = Some (pr_digest sample_primitives h content)
    \<and> sa_der attrs = Inr attrs_der \<and> ct_spki_der cert' = Inr spki \<and> signs_with_key sample_primitives spki attrs_der (si_signature si))"
  by (rule conjI [OF sample_verify(1) verify_signed_sound [OF sample_verify(1)]]) (simp add: sample_check_def)

end
