(* ===== verification/Smime_Backend.thy ===== *)
theory Smime_Backend
  imports Cms Smime_Chain Rust_Text
begin

text \<open>
  \<open>lib.rs\<close> of the S/MIME crate: the backend over a key store. The certificate generator, the PKCS#12 crate, PKCS#8
  decryption, base64 and the builders of CMS structures are parameters beside those of \<open>Cms\<close> and \<open>Smime_Chain\<close>.
\<close>

definition utf8_em_dash :: string where
  "utf8_em_dash = [CHR 0xE2, CHR 0x80, CHR 0x94]"

section \<open>Parameters\<close>

datatype 'pub recipient_key = RsaRecipient 'pub | EcRecipient 'pub

record built_cert =
  bc_cert_der :: "u8 list"
  bc_priv_pkcs8_der :: "u8 list"
  bc_ski_hex :: string

text \<open>The errors of the PKCS#12 crate that the code tells apart.\<close>

datatype p12_error = P12MacError string | P12Pkcs5Error string | P12UnpadError | P12Other string

record p12_chain =
  pc_certs :: "u8 list list"
  pc_key :: "u8 list"

record ('pub, 'priv, 'cert, 'anchor, 'crl, 'mailbox, 'key, 'p) smime_lib =
  sm_asn1 :: asn1
  sm_prims :: "('pub, 'priv) primitives"
  sm_pkix :: "('cert, 'anchor, 'crl, 'mailbox, 'key, 'p) pkix"
  sm_now :: u64
  sm_uuid :: string
  sm_build_signed :: "signer_identifier \<Rightarrow> u8 list option \<Rightarrow> u8 list option \<Rightarrow> certificate \<Rightarrow> 'priv \<Rightarrow> crypto_error + u8 list"
  sm_build_enveloped :: "u8 list \<Rightarrow> (string \<times> u8 list \<times> 'pub recipient_key) list \<Rightarrow> crypto_error + u8 list"
  sm_self_signed :: "string \<Rightarrow> crypto_error + built_cert"
  sm_p12_read :: "u8 list \<Rightarrow> string \<Rightarrow> p12_error + p12_chain option"
  sm_p12_cert :: "u8 list \<Rightarrow> p12_error + u8 list"
  sm_p12_key :: "u8 list \<Rightarrow> p12_error + u8 list"
  sm_p12_write :: "u8 list \<Rightarrow> u8 list list \<Rightarrow> string \<Rightarrow> p12_error + u8 list"
  sm_pkcs8_parse :: "u8 list \<Rightarrow> string + u8 list"
  sm_pkcs8_decrypt :: "u8 list \<Rightarrow> string \<Rightarrow> string + u8 list"
  sm_b64_decode :: "string \<Rightarrow> string + u8 list"

section \<open>Building\<close>

definition build_signed_data ::
  "('pub, 'priv, 'cert, 'anchor, 'crl, 'mailbox, 'key, 'p) smime_lib \<Rightarrow> u8 list \<Rightarrow> bool \<Rightarrow> u8 list \<Rightarrow> u8 list \<Rightarrow> crypto_error + u8 list" where
  "build_signed_data sm payload detached signer_cert_der signer_priv_der =
     res_bind (or_cms ''parse signer cert'' (as_certificate (sm_asn1 sm) signer_cert_der)) (\<lambda>cert.
     res_bind (or_cms ''parse signer PKCS#8'' (pr_p256_private (sm_prims sm) signer_priv_der)) (\<lambda>secret.
     sm_build_signed sm (IssuerAndSerial (ct_issuer cert) (ct_serial cert))
       (if detached then None else Some payload)
       (if detached then Some (pr_digest (sm_prims sm) SHA256 payload) else None) cert secret))"

definition recipient_input_from_cert ::
  "('pub, 'priv, 'cert, 'anchor, 'crl, 'mailbox, 'key, 'p) smime_lib \<Rightarrow> u8 list \<Rightarrow> crypto_error + (string \<times> u8 list \<times> 'pub recipient_key)" where
  "recipient_input_from_cert sm cert_der =
     res_bind (or_cms ''parse recipient cert'' (as_certificate (sm_asn1 sm) cert_der)) (\<lambda>cert.
     res_bind (or_cms ''encode recipient spki'' (ct_spki_der cert)) (\<lambda>spki.
     let oid = ai_oid (ct_spki_alg cert)
     in if oid = ID_RSA_ENCRYPTION then
          map_sum id (\<lambda>k. (ct_issuer cert, ct_serial cert, RsaRecipient k)) (or_cms ''decode rsa public key'' (pr_rsa_key (sm_prims sm) spki))
        else if oid = ID_EC_PUBLIC_KEY then
          map_sum id (\<lambda>k. (ct_issuer cert, ct_serial cert, EcRecipient k)) (or_cms ''decode ec public key'' (pr_p256_key (sm_prims sm) spki))
        else Inl (UnsupportedStandard (''recipient public-key algorithm '' @ oid @ '' not supported for encryption''))))"

definition build_enveloped_data ::
  "('pub, 'priv, 'cert, 'anchor, 'crl, 'mailbox, 'key, 'p) smime_lib \<Rightarrow> u8 list \<Rightarrow> (string \<times> u8 list \<times> 'pub recipient_key) list
     \<Rightarrow> crypto_error + u8 list" where
  "build_enveloped_data sm plaintext recipients =
     (if recipients = [] then Inl (MalformedInput ''enveloped data: at least one recipient is required'')
      else sm_build_enveloped sm plaintext recipients)"

section \<open>Verifying\<close>

definition signer_ref :: "string \<Rightarrow> key_handle_ref" where
  "signer_ref fp = \<lparr>kr_handle = Software (''smime|'' @ fp), kr_standard = Smime, kr_fingerprint = fingerprint_new fp,
     kr_usage = SignAndEncrypt, kr_algorithm = ''ECDSA-P256''\<rparr>"

definition result_of_state :: "signature_state \<Rightarrow> key_handle_ref option \<Rightarrow> verification_result" where
  "result_of_state state signer = \<lparr>vr_state = state, vr_signer = signer, vr_failure_reason = None, vr_revocation_reason = None\<rparr>"

text \<open>An absent signer certificate is a result, every other error is one.\<close>

definition check_signed ::
  "('pub, 'priv, 'cert, 'anchor, 'crl, 'mailbox, 'key, 'p) smime_lib \<Rightarrow> signed_envelope \<Rightarrow> crypto_error + cms_sig_check option" where
  "check_signed sm envl =
     (case verify_signed (sm_asn1 sm) (sm_prims sm) (ds_signature (se_signature envl)) (Some (se_payload envl)) of
        Inr check \<Rightarrow> Inr (Some check)
      | Inl (MalformedInput msg) \<Rightarrow> if contains_str ''no signer cert'' msg then Inr None else Inl (MalformedInput msg)
      | Inl e \<Rightarrow> Inl e)"

definition smime_verify ::
  "('pub, 'priv, 'cert, 'anchor, 'crl, 'mailbox, 'key, 'p) smime_lib \<Rightarrow> signed_envelope \<Rightarrow> crypto_error + verification_result" where
  "smime_verify sm envl =
     map_sum id (\<lambda>check. case check of
        None \<Rightarrow> result_of_state UnknownKey None
      | Some c \<Rightarrow> result_of_state (if cs_sig_ok c then ValidUnverified else Invalid) (map_option signer_ref (cs_signer_fingerprint c)))
       (check_signed sm envl)"

definition state_of_outcome :: "chain_outcome \<Rightarrow> trust_state \<Rightarrow> signature_state" where
  "state_of_outcome outcome signer_trust =
     (if \<not> co_chain_valid outcome then Invalid
      else if \<not> co_identity_match outcome then Mismatch
      else if may_encrypt_to signer_trust then ValidVerified else ValidUnverified)"

definition verify_with_context ::
  "('pub, 'priv, 'cert, 'anchor, 'crl, 'mailbox, 'key, 'p) smime_lib \<Rightarrow> signed_envelope \<Rightarrow> string option \<Rightarrow> u8 list list
     \<Rightarrow> u8 list list \<Rightarrow> u8 list list \<Rightarrow> trust_state \<Rightarrow> (crypto_error + verification_result) panicky" where
  "verify_with_context sm envl from_email trust_anchor_ders intermediate_ders crls signer_trust =
     (case check_signed sm envl of
        Inl e \<Rightarrow> Returned (Inl e)
      | Inr None \<Rightarrow> Returned (Inr (result_of_state UnknownKey None))
      | Inr (Some check) \<Rightarrow>
          (let signer = map_option signer_ref (cs_signer_fingerprint check)
           in if \<not> cs_sig_ok check then Returned (Inr (result_of_state Invalid signer))
              else (case cs_signer_cert_der check of
                      None \<Rightarrow> Returned (Inl (MalformedInput ''verify_with_context: sig_ok=true but no signer cert (invariant violation)''))
                    | Some cert_der \<Rightarrow>
                        (case validate_signer_chain (sm_pkix sm) cert_der intermediate_ders trust_anchor_ders from_email
                                (opt_or (sm_now sm) (cs_signing_time_unix check)) crls of
                           Panicked \<Rightarrow> Panicked
                         | Returned outcome \<Rightarrow>
                             Returned (Inr \<lparr>vr_state = state_of_outcome outcome signer_trust, vr_signer = signer,
                               vr_failure_reason = co_failure_reason outcome,
                               vr_revocation_reason = co_revocation_reason outcome\<rparr>)))))"

section \<open>Encrypting, decrypting, signing\<close>

definition stored_or :: "'s key_store \<Rightarrow> key_handle \<Rightarrow> crypto_error \<Rightarrow> ('s, crypto_error, stored_key) io" where
  "stored_or ks handle e =
     io_bind (ks_get ks handle) (\<lambda>k. case k of None \<Rightarrow> io_fail e | Some stored \<Rightarrow> io_ret stored)"

definition private_or :: "stored_key \<Rightarrow> string \<Rightarrow> crypto_error + u8 list" where
  "private_or stored msg = (case sk_private_data stored of None \<Rightarrow> Inl (PolicyError msg) | Some p \<Rightarrow> Inr p)"

fun recipient_inputs ::
  "('pub, 'priv, 'cert, 'anchor, 'crl, 'mailbox, 'key, 'p) smime_lib \<Rightarrow> 's key_store \<Rightarrow> key_handle_ref list
     \<Rightarrow> ('s, crypto_error, (string \<times> u8 list \<times> 'pub recipient_key) list) io" where
  "recipient_inputs sm ks [] = io_ret []"
| "recipient_inputs sm ks (r # rs) =
     io_bind (stored_or ks (kr_handle r) (KeyNotFound (''encrypt recipient: '' @ debug_handle (kr_handle r)))) (\<lambda>stored.
     io_bind (io_lift (recipient_input_from_cert sm (sk_public_data stored))) (\<lambda>inp.
     io_bind (recipient_inputs sm ks rs) (\<lambda>inps. io_ret (inp # inps))))"

definition content_to_encrypt ::
  "('pub, 'priv, 'cert, 'anchor, 'crl, 'mailbox, 'key, 'p) smime_lib \<Rightarrow> 's key_store \<Rightarrow> u8 list \<Rightarrow> key_handle_ref option
     \<Rightarrow> ('s, crypto_error, u8 list) io" where
  "content_to_encrypt sm ks plaintext sign_with =
     (case sign_with of
        None \<Rightarrow> io_ret plaintext
      | Some signer \<Rightarrow>
          if kr_algorithm signer \<noteq> ''ECDSA-P256'' then io_fail (NotImplemented (kr_algorithm signer @ '' signing '' @ utf8_em_dash @ '' Plan 2c''))
          else io_bind (stored_or ks (kr_handle signer) (KeyNotFound (''sign_with: '' @ debug_handle (kr_handle signer)))) (\<lambda>stored.
               io_bind (io_lift (private_or stored ''sign_with: key has no private material'')) (\<lambda>priv.
               io_lift (build_signed_data sm plaintext False (sk_public_data stored) priv))))"

definition smime_encrypt ::
  "('pub, 'priv, 'cert, 'anchor, 'crl, 'mailbox, 'key, 'p) smime_lib \<Rightarrow> 's key_store \<Rightarrow> encrypt_op \<Rightarrow> ('s, crypto_error, encrypted_envelope) io" where
  "smime_encrypt sm ks op =
     (if eo_serialization op \<noteq> SingleMimeBlob
      then io_fail (UnsupportedStandard ''S/MIME encrypt requires SerializationStrategy::SingleMimeBlob'')
      else (case eo_parts op of
              [] \<Rightarrow> io_fail (MalformedInput ''encrypt: no parts'')
            | single # _ \<Rightarrow>
                io_bind (recipient_inputs sm ks (eo_recipients op)) (\<lambda>inps.
                io_bind (content_to_encrypt sm ks (pt_data single) (eo_sign_with op)) (\<lambda>content.
                io_bind (io_lift (build_enveloped_data sm content inps)) (\<lambda>der.
                io_ret \<lparr>ee_standard = Smime, ee_serialization = eo_serialization op,
                  ee_parts = [\<lparr>ep_id = ''body'', ep_kind = PartBody, ep_ciphertext = der, ep_signature = None\<rparr>],
                  ee_recipients = map (\<lambda>r. \<lparr>kp_recipient = r, kp_packet = []\<rparr>) (eo_recipients op)\<rparr>)))))"

definition smime_decrypt ::
  "('pub, 'priv, 'cert, 'anchor, 'crl, 'mailbox, 'key, 'p) smime_lib \<Rightarrow> 's key_store \<Rightarrow> decrypt_op \<Rightarrow> ('s, crypto_error, decrypted_payload) io" where
  "smime_decrypt sm ks op =
     (case ee_parts (do_envelope op) of
        [] \<Rightarrow> io_fail (MalformedInput ''decrypt: envelope has no parts'')
      | single # _ \<Rightarrow>
          (let h = kr_handle (do_decryption_key op)
           in io_bind (stored_or ks h (KeyNotFound (''decrypt: '' @ debug_handle h))) (\<lambda>stored.
              io_bind (io_lift (private_or stored ''decrypt: key has no private material'')) (\<lambda>priv.
              io_bind (io_lift (decrypt_enveloped (sm_asn1 sm) (sm_prims sm) (ep_ciphertext single) (sk_public_data stored) priv)) (\<lambda>plaintext.
              io_ret \<lparr>dp_standard = Smime, dp_parts = [\<lparr>pt_id = ''body'', pt_kind = PartBody, pt_data = plaintext\<rparr>]\<rparr>)))))"

definition smime_sign ::
  "('pub, 'priv, 'cert, 'anchor, 'crl, 'mailbox, 'key, 'p) smime_lib \<Rightarrow> 's key_store \<Rightarrow> sign_op \<Rightarrow> ('s, crypto_error, signed_envelope) io" where
  "smime_sign sm ks op =
     (let key = so_signing_key op
      in if kr_algorithm key \<noteq> ''ECDSA-P256''
         then io_fail (NotImplemented (kr_algorithm key @ '' signing '' @ utf8_em_dash @ '' Plan 2c (only ECDSA-P256 is implemented)''))
         else io_bind (stored_or ks (kr_handle key) (KeyNotFound (''sign: '' @ debug_handle (kr_handle key)))) (\<lambda>stored.
              io_bind (io_lift (private_or stored ''sign: signing key has no private material'')) (\<lambda>priv.
              io_bind (io_lift (build_signed_data sm (so_payload op) (so_detached op) (sk_public_data stored) priv)) (\<lambda>der.
              io_ret \<lparr>se_standard = Smime, se_payload = so_payload op,
                se_signature = \<lparr>ds_standard = Smime, ds_signer = key, ds_signature = der\<rparr>\<rparr>))))"

section \<open>Generating and importing keys\<close>

definition strip_prefix :: "string \<Rightarrow> string \<Rightarrow> string option" where
  "strip_prefix p s = (if starts_with p s then Some (drop (length p) s) else None)"

definition strip_suffix :: "string \<Rightarrow> string \<Rightarrow> string option" where
  "strip_suffix p s = map_option rev (strip_prefix (rev p) (rev s))"

fun pem_body :: "string \<Rightarrow> string list \<Rightarrow> (string \<times> string list) option" where
  "pem_body b64 [] = None"
| "pem_body b64 (l # ls) =
     (if starts_with ''-----END '' (trim l) then Some (b64, ls) else pem_body (b64 @ trim l) ls)"

lemma pem_body_shorter: "pem_body b64 ls = Some (b, rest) \<Longrightarrow> length rest < length ls"
  by (induction ls arbitrary: b64) (auto split: if_splits, fastforce)

definition pem_label :: "string \<Rightarrow> string option" where
  "pem_label line = Option.bind (strip_prefix ''-----BEGIN '' (trim line)) (strip_suffix ''-----'')"

function parse_pem_lines ::
  "(string \<Rightarrow> string + u8 list) \<Rightarrow> string list \<Rightarrow> crypto_error + (string \<times> u8 list) list" where
  "parse_pem_lines dec [] = Inr []"
| "parse_pem_lines dec (line # ls) =
     (case pem_label line of
        None \<Rightarrow> parse_pem_lines dec ls
      | Some label \<Rightarrow>
          (case pem_body [] ls of
             None \<Rightarrow> Inl (MalformedInput (''PEM block '' @ label @ '' missing END line''))
           | Some (b64, rest) \<Rightarrow>
               res_bind (map_err (\<lambda>e. MalformedInput (''PEM '' @ label @ '' base64 decode: '' @ e)) (dec b64)) (\<lambda>der.
               map_sum id ((#) (label, der)) (parse_pem_lines dec rest))))"
  by pat_completeness auto
termination
  by (relation "measure (length \<circ> snd)") (auto dest: pem_body_shorter)

definition parse_pem_blocks :: "(string \<Rightarrow> string + u8 list) \<Rightarrow> string \<Rightarrow> crypto_error + (string \<times> u8 list) list" where
  "parse_pem_blocks dec text = parse_pem_lines dec (str_lines text)"

definition contains_whitespace :: "string \<Rightarrow> bool" where
  "contains_whitespace s \<longleftrightarrow> list_ex (\<lambda>w. contains_str w s) white_spaces"

definition angle_inner :: "string \<Rightarrow> string option" where
  "angle_inner s =
     (case (rsplit_once (CHR ''<'') s, rsplit_once (CHR ''>'') s) of
        (Some (a, _), Some (b, _)) \<Rightarrow>
          if length a < length b
          then Some (trim (take (length b - Suc (length a)) (drop (Suc (length a)) s))) else None
      | _ \<Rightarrow> None)"

definition parse_email :: "string \<Rightarrow> crypto_error + string" where
  "parse_email user_id =
     (let trimmed = trim user_id;
          plain = (if contains_str ''@'' trimmed \<and> \<not> contains_whitespace trimmed then Inr trimmed
                   else Inl (MalformedInput (''could not parse an email address from user_id '' @ debug_str user_id)))
      in case angle_inner trimmed of
           Some inner_text \<Rightarrow> if contains_str ''@'' inner_text then Inr inner_text else plain
         | None \<Rightarrow> plain)"

definition algorithm_label :: "string \<Rightarrow> string" where
  "algorithm_label oid = (if oid = ''1.2.840.10045.2.1'' then ''ECDSA-P256'' else if oid = ''1.2.840.113549.1.1.1'' then ''RSA''
     else if oid = ''1.3.101.112'' then ''Ed25519'' else oid)"

definition map_p12_error :: "p12_error \<Rightarrow> crypto_error" where
  "map_p12_error e =
     (case e of P12Other t \<Rightarrow> MalformedInput (''p12 parse: '' @ t) | _ \<Rightarrow> PolicyError ''p12 passphrase incorrect'')"

definition decrypt_encrypted_pkcs8 ::
  "('pub, 'priv, 'cert, 'anchor, 'crl, 'mailbox, 'key, 'p) smime_lib \<Rightarrow> u8 list \<Rightarrow> string option \<Rightarrow> crypto_error + u8 list" where
  "decrypt_encrypted_pkcs8 sm block pass =
     res_bind (map_err (\<lambda>e. MalformedInput (''parse EncryptedPrivateKeyInfo: '' @ e)) (sm_pkcs8_parse sm block)) (\<lambda>info.
     case pass of
       Some p \<Rightarrow>
         if p = [] then Inl (PolicyError ''encrypted PKCS#8 requires a passphrase'')
         else map_err (\<lambda>e. PolicyError (''encrypted PKCS#8 decrypt failed: '' @ e)) (sm_pkcs8_decrypt sm info p)
     | None \<Rightarrow> Inl (PolicyError ''encrypted PKCS#8 requires a passphrase''))"

definition find_block :: "string \<Rightarrow> (string \<times> u8 list) list \<Rightarrow> u8 list option" where
  "find_block label blocks = map_option snd (find (\<lambda>b. fst b = label) blocks)"

definition parse_pem_import_bundle ::
  "('pub, 'priv, 'cert, 'anchor, 'crl, 'mailbox, 'key, 'p) smime_lib \<Rightarrow> u8 list \<Rightarrow> string option \<Rightarrow> crypto_error + u8 list \<times> u8 list" where
  "parse_pem_import_bundle sm data passphrase =
     res_bind (case from_utf8 data of None \<Rightarrow> Inl (MalformedInput ''import_key: input not UTF-8: invalid utf-8 sequence'') | Some t \<Rightarrow> Inr t) (\<lambda>text.
     res_bind (parse_pem_blocks (sm_b64_decode sm) text) (\<lambda>blocks.
     res_bind (case find_block ''CERTIFICATE'' blocks of None \<Rightarrow> Inl (MalformedInput ''no CERTIFICATE PEM block'') | Some der \<Rightarrow> Inr der) (\<lambda>cert_der.
     map_sum id (Pair cert_der)
       (case find_block ''ENCRYPTED PRIVATE KEY'' blocks of
          Some block \<Rightarrow> decrypt_encrypted_pkcs8 sm block passphrase
        | None \<Rightarrow>
            (case find_block ''PRIVATE KEY'' blocks of
               Some block \<Rightarrow> Inr block
             | None \<Rightarrow> Inl (MalformedInput (''no PRIVATE KEY PEM block (expected '' @ [CHR 0x27] @ ''PRIVATE KEY'' @ [CHR 0x27]
                 @ '' or '' @ [CHR 0x27] @ ''ENCRYPTED PRIVATE KEY'' @ [CHR 0x27] @ '')'')))))))"

definition persist_imported ::
  "('pub, 'priv, 'cert, 'anchor, 'crl, 'mailbox, 'key, 'p) smime_lib \<Rightarrow> 's key_store \<Rightarrow> u8 list \<Rightarrow> u8 list \<Rightarrow> ('s, crypto_error, key_handle_ref) io" where
  "persist_imported sm ks cert_der priv_der =
     io_bind (io_lift (map_err (\<lambda>e. MalformedInput (''parse cert DER: '' @ e)) (as_certificate (sm_asn1 sm) cert_der))) (\<lambda>cert.
     io_bind (io_lift (map_err (\<lambda>e. MalformedInput (''compute SKI: '' @ e)) (ct_spki_ski cert))) (\<lambda>ski.
     ks_put ks \<lparr>sk_handle = \<lparr>kr_handle = Software (sm_uuid sm), kr_standard = Smime, kr_fingerprint = fingerprint_new (to_hex_lower ski),
         kr_usage = SignAndEncrypt, kr_algorithm = algorithm_label (ai_oid (ct_spki_alg cert))\<rparr>,
       sk_public_data = cert_der, sk_private_data = Some priv_der\<rparr>))"

fun dedup_intermediates :: "(u8 list \<Rightarrow> crypto_error + string) \<Rightarrow> string list \<Rightarrow> u8 list list \<Rightarrow> u8 list list" where
  "dedup_intermediates fp seen [] = []"
| "dedup_intermediates fp seen (der # ders) =
     (case fp der of
        Inl _ \<Rightarrow> dedup_intermediates fp seen ders
      | Inr f \<Rightarrow> if f \<in> set seen then dedup_intermediates fp seen ders else der # dedup_intermediates fp (f # seen) ders)"

definition import_p12_with_chain ::
  "('pub, 'priv, 'cert, 'anchor, 'crl, 'mailbox, 'key, 'p) smime_lib \<Rightarrow> 's key_store \<Rightarrow> u8 list \<Rightarrow> string option
     \<Rightarrow> ('s, crypto_error, key_handle_ref \<times> u8 list list) io" where
  "import_p12_with_chain sm ks data passphrase =
     io_bind (io_lift (map_err map_p12_error (sm_p12_read sm data (opt_or [] passphrase)))) (\<lambda>found.
     case found of
       None \<Rightarrow> io_fail (MalformedInput ''p12: no private key in bag'')
     | Some chain \<Rightarrow>
         (case pc_certs chain of
            [] \<Rightarrow> io_fail (MalformedInput ''p12: no certificate in keychain'')
          | cert_der # others \<Rightarrow>
              (let fp = fingerprint_of_cert_der (sm_asn1 sm)
               in io_bind (io_lift (fp cert_der)) (\<lambda>leaf_fp.
                  io_bind (persist_imported sm ks cert_der (pc_key chain)) (\<lambda>handle.
                  io_ret (handle, dedup_intermediates fp [leaf_fp] others))))))"

definition is_pem :: "u8 list \<Rightarrow> bool" where
  "is_pem data = (case from_utf8 data of Some s \<Rightarrow> starts_with ''-----BEGIN'' (trim_start s) | None \<Rightarrow> False)"

definition import_key_with_chain ::
  "('pub, 'priv, 'cert, 'anchor, 'crl, 'mailbox, 'key, 'p) smime_lib \<Rightarrow> 's key_store \<Rightarrow> u8 list \<Rightarrow> string option
     \<Rightarrow> ('s, crypto_error, key_handle_ref \<times> u8 list list) io" where
  "import_key_with_chain sm ks data passphrase =
     (if is_pem data
      then io_bind (io_lift (parse_pem_import_bundle sm data passphrase)) (\<lambda>(cert_der, priv_der).
           io_bind (persist_imported sm ks cert_der priv_der) (\<lambda>handle. io_ret (handle, [])))
      else import_p12_with_chain sm ks data passphrase)"

definition smime_import_key where
  "smime_import_key sm ks data passphrase =
     io_bind (import_key_with_chain sm ks data passphrase) (\<lambda>(handle, _). io_ret handle)"

definition smime_generate_key ::
  "('pub, 'priv, 'cert, 'anchor, 'crl, 'mailbox, 'key, 'p) smime_lib \<Rightarrow> 's key_store \<Rightarrow> key_gen_params \<Rightarrow> ('s, crypto_error, key_handle_ref) io" where
  "smime_generate_key sm ks params =
     (if kg_standard params \<noteq> Smime
      then io_fail (UnsupportedStandard (''SmimeBackend requires Standard::Smime, got '' @ (if kg_standard params = OpenPgp then ''OpenPgp'' else ''Sm'')))
      else (let alg = to_ascii_lowercase (trim (kg_algorithm params))
            in if alg \<notin> {[], ''ecdsa-p256'', ''p-256'', ''p256''}
               then io_fail (PolicyError (''generate_key: algorithm '' @ [CHR 0x27] @ kg_algorithm params @ [CHR 0x27]
                 @ '' is unsupported; only ECDSA-P256 is implemented''))
               else io_bind (io_lift (parse_email (kg_user_id params))) (\<lambda>email.
                    io_bind (io_lift (sm_self_signed sm email)) (\<lambda>built.
                    ks_put ks \<lparr>sk_handle = \<lparr>kr_handle = Software (sm_uuid sm), kr_standard = Smime,
                        kr_fingerprint = fingerprint_new (bc_ski_hex built), kr_usage = SignAndEncrypt, kr_algorithm = ''ECDSA-P256''\<rparr>,
                      sk_public_data = bc_cert_der built, sk_private_data = Some (bc_priv_pkcs8_der built)\<rparr>))))"

definition smime_export_public :: "'s key_store \<Rightarrow> key_handle \<Rightarrow> ('s, crypto_error, u8 list) io" where
  "smime_export_public ks handle =
     io_bind (stored_or ks handle (KeyNotFound (''export_public: '' @ debug_handle handle))) (\<lambda>stored. io_ret (sk_public_data stored))"

definition export_p12 ::
  "('pub, 'priv, 'cert, 'anchor, 'crl, 'mailbox, 'key, 'p) smime_lib \<Rightarrow> 's key_store \<Rightarrow> key_handle \<Rightarrow> u8 list list \<Rightarrow> string option
     \<Rightarrow> ('s, crypto_error, u8 list) io" where
  "export_p12 sm ks handle intermediate_ders passphrase =
     (case passphrase of
        None \<Rightarrow> io_fail (PolicyError ''p12 export requires a non-empty passphrase'')
      | Some pass \<Rightarrow>
          if pass = [] then io_fail (PolicyError ''p12 export requires a non-empty passphrase'')
          else io_bind (stored_or ks handle (KeyNotFound (''export_p12: '' @ debug_handle handle))) (\<lambda>stored.
               io_bind (io_lift (private_or stored ''export_p12: key has no private material'')) (\<lambda>priv.
               io_bind (io_lift (map_err map_p12_error (sm_p12_cert sm (sk_public_data stored)))) (\<lambda>leaf.
               io_bind (io_lift (map_err map_p12_error (sm_p12_key sm priv))) (\<lambda>key.
               io_lift (map_err map_p12_error
                 (sm_p12_write sm key (leaf # List.map_filter (\<lambda>der. case sm_p12_cert sm der of Inr c \<Rightarrow> Some c | Inl _ \<Rightarrow> None) intermediate_ders) pass)))))))"

definition smime_backend ::
  "('pub, 'priv, 'cert, 'anchor, 'crl, 'mailbox, 'key, 'p) smime_lib \<Rightarrow> 's key_store \<Rightarrow> crypto_policy \<Rightarrow> 's crypto_backend" where
  "smime_backend sm ks policy = \<lparr>cb_standard = Smime, cb_policy = policy,
     cb_encrypt = smime_encrypt sm ks, cb_decrypt = smime_decrypt sm ks, cb_sign = smime_sign sm ks,
     cb_verify = (\<lambda>envl. io_lift (smime_verify sm envl)), cb_generate_key = smime_generate_key sm ks,
     cb_import_key = smime_import_key sm ks, cb_export_public = smime_export_public ks\<rparr>"

end
