(* ===== verification/Smime_Signing.thy ===== *)
theory Smime_Signing
  imports Smime_Backend Key_Store_Laws Key_Store
begin

text \<open>
  What the S/MIME backend guarantees over a key store that keeps its contract: an imported key signs, and what it
  signs is verified; what a positive verdict means; and what embedded content does to a detached signature.
\<close>

section \<open>A positive verdict\<close>

definition valid_states :: "signature_state set" where
  "valid_states = {ValidVerified, ValidUnverified, Mismatch}"

lemma check_signed_some:
  "check_signed sm envl = Inr (Some check) \<Longrightarrow>
     verify_signed (sm_asn1 sm) (sm_prims sm) (ds_signature (se_signature envl)) (Some (se_payload envl)) = Inr check"
  by (auto simp: check_signed_def split: sum.splits crypto_error.splits if_splits)

lemma verify_with_context_valid:
  assumes "verify_with_context sm envl from_email anchors intermediates crls trust = Returned (Inr r)" and "vr_state r \<in> valid_states"
  shows "\<exists>check cert_der out. verify_signed (sm_asn1 sm) (sm_prims sm) (ds_signature (se_signature envl)) (Some (se_payload envl)) = Inr check
    \<and> cs_sig_ok check \<and> cs_signer_cert_der check = Some cert_der
    \<and> validate_signer_chain (sm_pkix sm) cert_der intermediates anchors from_email
        (opt_or (sm_now sm) (cs_signing_time_unix check)) crls = Returned out
    \<and> co_chain_valid out \<and> (vr_state r = Mismatch \<longleftrightarrow> \<not> co_identity_match out)
    \<and> (vr_state r = ValidVerified \<longrightarrow> may_encrypt_to trust)"
proof -
  from assms obtain check cert_der out where check: "check_signed sm envl = Inr (Some check)" "cs_sig_ok check"
    "cs_signer_cert_der check = Some cert_der"
    and out: "validate_signer_chain (sm_pkix sm) cert_der intermediates anchors from_email
        (opt_or (sm_now sm) (cs_signing_time_unix check)) crls = Returned out" and st: "vr_state r = state_of_outcome out trust"
    by (auto simp: verify_with_context_def valid_states_def result_of_state_def Let_def split: sum.splits option.splits if_splits panicky.splits)
  from st assms(2) have "co_chain_valid out" "vr_state r = Mismatch \<longleftrightarrow> \<not> co_identity_match out"
    "vr_state r = ValidVerified \<longrightarrow> may_encrypt_to trust"
    by (auto simp: state_of_outcome_def valid_states_def split: if_splits)
  with check out check_signed_some [OF check(1)] show ?thesis by blast
qed

section \<open>Embedded content\<close>

text \<open>With embedded content the payload that the caller passes plays no role.\<close>

lemma verify_signed_embedded:
  assumes "parse_signed a der = Inr sd" and "sd_econtent sd = Some c"
  shows "verify_signed a pr der covered = verify_signed a pr der covered'"
  using assms by (simp add: verify_signed_def)

lemma verify_with_context_embedded:
  assumes "parse_signed (sm_asn1 sm) (ds_signature (se_signature envl)) = Inr sd" and "sd_econtent sd = Some c"
  shows "verify_with_context sm (envl\<lparr>se_payload := b\<rparr>) = verify_with_context sm (envl\<lparr>se_payload := b'\<rparr>)"
    and "smime_verify sm (envl\<lparr>se_payload := b\<rparr>) = smime_verify sm (envl\<lparr>se_payload := b'\<rparr>)"
proof -
  have "check_signed sm (envl\<lparr>se_payload := b\<rparr>) = check_signed sm (envl\<lparr>se_payload := b'\<rparr>)"
    using verify_signed_embedded [OF assms, of "sm_prims sm" "Some b" "Some b'"] by (simp add: check_signed_def)
  then show "verify_with_context sm (envl\<lparr>se_payload := b\<rparr>) = verify_with_context sm (envl\<lparr>se_payload := b'\<rparr>)"
    and "smime_verify sm (envl\<lparr>se_payload := b\<rparr>) = smime_verify sm (envl\<lparr>se_payload := b'\<rparr>)"
    by (auto simp: verify_with_context_def smime_verify_def fun_eq_iff)
qed

section \<open>Sign, then verify\<close>

text \<open>What is assumed of the builder: it succeeds, and what it builds decodes to the structure it was asked for, with
  the digest of the content among the signed attributes and a signature over them that the key of the pair verifies.\<close>

definition built :: "('pub, 'priv, 'cert, 'anchor, 'crl, 'mailbox, 'key, 'p) smime_lib \<Rightarrow> ('priv \<Rightarrow> 'pub \<Rightarrow> bool)
    \<Rightarrow> signer_identifier \<Rightarrow> u8 list option \<Rightarrow> u8 list option \<Rightarrow> certificate \<Rightarrow> 'priv \<Rightarrow> u8 list \<Rightarrow> bool" where
  "built sm pair sid econtent digest cert secret der \<longleftrightarrow>
     (\<exists>si attrs attrs_der. parse_signed (sm_asn1 sm) der
          = Inr \<lparr>sd_econtent = econtent, sd_certificates = Some [CertChoice cert], sd_signer_infos = [si]\<rparr>
        \<and> si_sid si = sid \<and> ai_oid (si_digest_alg si) = ID_SHA_256 \<and> ai_oid (si_signature_alg si) = ID_ECDSA_WITH_SHA_256
        \<and> si_signed_attrs si = Some attrs \<and> sa_der attrs = Inr attrs_der
        \<and> find_message_digest (sa_attrs attrs)
            = (case digest of Some d \<Rightarrow> Some d | None \<Rightarrow> map_option (pr_digest (sm_prims sm) SHA256) econtent)
        \<and> (\<forall>key. pair secret key \<longrightarrow> pr_p256_verify (sm_prims sm) key attrs_der (si_signature si) = Some True))"

definition builder_ok :: "('pub, 'priv, 'cert, 'anchor, 'crl, 'mailbox, 'key, 'p) smime_lib \<Rightarrow> ('priv \<Rightarrow> 'pub \<Rightarrow> bool)
    \<Rightarrow> u8 list \<Rightarrow> u8 list \<Rightarrow> u8 list \<Rightarrow> bool" where
  "builder_ok sm pair cert_der priv_der payload \<longleftrightarrow>
     (\<forall>cert secret detached. as_certificate (sm_asn1 sm) cert_der = Inr cert \<longrightarrow> pr_p256_private (sm_prims sm) priv_der = Inr secret \<longrightarrow>
        (let sid = IssuerAndSerial (ct_issuer cert) (ct_serial cert); econtent = (if detached then None else Some payload);
             digest = (if detached then Some (pr_digest (sm_prims sm) SHA256 payload) else None)
         in \<exists>der. sm_build_signed sm sid econtent digest cert secret = Inr der \<and> built sm pair sid econtent digest cert secret der))"

text \<open>A certificate on P-256 whose key belongs to the private key.\<close>

definition p256_identity :: "('pub, 'priv, 'cert, 'anchor, 'crl, 'mailbox, 'key, 'p) smime_lib \<Rightarrow> ('priv \<Rightarrow> 'pub \<Rightarrow> bool)
    \<Rightarrow> u8 list \<Rightarrow> u8 list \<Rightarrow> u8 list \<Rightarrow> bool" where
  "p256_identity sm pair cert_der priv_der ski \<longleftrightarrow>
     (\<exists>cert secret spki key p. as_certificate (sm_asn1 sm) cert_der = Inr cert \<and> ct_der cert = Inr cert_der
        \<and> pr_p256_private (sm_prims sm) priv_der = Inr secret \<and> ct_spki_der cert = Inr spki
        \<and> pr_p256_key (sm_prims sm) spki = Inr key \<and> pair secret key \<and> ct_spki_ski cert = Inr ski
        \<and> ai_oid (ct_spki_alg cert) = ID_EC_PUBLIC_KEY \<and> ai_params (ct_spki_alg cert) = Some (Inr p)
        \<and> as_oid (sm_asn1 sm) p = Inr OID_SECP256R1)"

lemma signed_data_verifies:
  assumes "builder_ok sm pair cert_der priv_der payload" and "p256_identity sm pair cert_der priv_der ski"
  shows "\<exists>der check. build_signed_data sm payload detached cert_der priv_der = Inr der
    \<and> verify_signed (sm_asn1 sm) (sm_prims sm) der (Some payload) = Inr check \<and> cs_sig_ok check
    \<and> cs_signer_cert_der check = Some cert_der \<and> cs_signer_fingerprint check = Some (to_hex_lower ski)"
proof -
  from assms(2) obtain cert secret spki key p where cert: "as_certificate (sm_asn1 sm) cert_der = Inr cert" "ct_der cert = Inr cert_der"
    "pr_p256_private (sm_prims sm) priv_der = Inr secret" "ct_spki_der cert = Inr spki"
    "pr_p256_key (sm_prims sm) spki = Inr key" "pair secret key" "ct_spki_ski cert = Inr ski"
    "ai_oid (ct_spki_alg cert) = ID_EC_PUBLIC_KEY" "ai_params (ct_spki_alg cert) = Some (Inr p)"
    "as_oid (sm_asn1 sm) p = Inr OID_SECP256R1"
    unfolding p256_identity_def by blast
  let ?ec = "if detached then None else Some payload" and ?dg = "if detached then Some (pr_digest (sm_prims sm) SHA256 payload) else None"
  let ?sid = "IssuerAndSerial (ct_issuer cert) (ct_serial cert)"
  from assms(1) obtain der where der: "sm_build_signed sm ?sid ?ec ?dg cert secret = Inr der" "built sm pair ?sid ?ec ?dg cert secret der"
    using cert(1,3) unfolding builder_ok_def Let_def by blast
  then obtain si attrs attrs_der where si: "parse_signed (sm_asn1 sm) der = Inr \<lparr>sd_econtent = ?ec, sd_certificates = Some [CertChoice cert], sd_signer_infos = [si]\<rparr>"
    "si_sid si = ?sid" "ai_oid (si_digest_alg si) = ID_SHA_256" "ai_oid (si_signature_alg si) = ID_ECDSA_WITH_SHA_256"
    "si_signed_attrs si = Some attrs" "sa_der attrs = Inr attrs_der"
    "find_message_digest (sa_attrs attrs) = (case ?dg of Some d \<Rightarrow> Some d | None \<Rightarrow> map_option (pr_digest (sm_prims sm) SHA256) ?ec)"
    "\<forall>key. pair secret key \<longrightarrow> pr_p256_verify (sm_prims sm) key attrs_der (si_signature si) = Some True"
    unfolding built_def by blast
  have "build_signed_data sm payload detached cert_der priv_der = Inr der"
    using cert der(1) by (simp add: build_signed_data_def)
  moreover have "verify_signed (sm_asn1 sm) (sm_prims sm) der (Some payload) =
    Inr \<lparr>cs_sig_ok = True, cs_signer_cert_der = Some cert_der, cs_signer_fingerprint = Some (to_hex_lower ski),
         cs_signing_time_unix = find_signing_time (sa_attrs attrs)\<rparr>"
    using si cert
    by (simp add: verify_signed_def cert_matches_signer_id_def fingerprint_of_spki_def compute_content_digest_def sha_of_oid_def
        verify_signer_signature_def verify_ecdsa_signature_def verified_def)
  ultimately show ?thesis by simp
qed

lemma sign_with_stored:
  assumes "builder_ok sm pair cert_der priv_der payload" and "p256_identity sm pair cert_der priv_der ski"
    and get: "ks_get ks (kr_handle h) s = (Returned (Inr (Some k)), s)"
    and st: "sk_public_data k = cert_der" "sk_private_data k = Some priv_der" and "kr_algorithm h = ''ECDSA-P256''"
  shows "\<exists>envl r. smime_sign sm ks \<lparr>so_payload = payload, so_signing_key = h, so_detached = detached\<rparr> s = (Returned (Inr envl), s)
    \<and> se_payload envl = payload \<and> smime_verify sm envl = Inr r \<and> vr_state r = ValidUnverified
    \<and> map_option kr_fingerprint (vr_signer r) = Some (fingerprint_new (to_hex_lower ski))"
proof -
  obtain der check where der: "build_signed_data sm payload detached cert_der priv_der = Inr der"
    "verify_signed (sm_asn1 sm) (sm_prims sm) der (Some payload) = Inr check" "cs_sig_ok check"
    "cs_signer_fingerprint check = Some (to_hex_lower ski)"
    using signed_data_verifies [OF assms(1,2)] by blast
  then show ?thesis
    using get st assms(6)
    by (simp add: smime_sign_def Let_def io_bind_def stored_or_def io_ret_def io_lift_def private_or_def smime_verify_def
        check_signed_def result_of_state_def signer_ref_def)
qed

text \<open>The key that an import would store.\<close>

definition import_key :: "('pub, 'priv, 'cert, 'anchor, 'crl, 'mailbox, 'key, 'p) smime_lib \<Rightarrow> u8 list \<Rightarrow> u8 list \<Rightarrow> u8 list \<Rightarrow> stored_key" where
  "import_key sm cert_der priv_der ski = \<lparr>sk_handle = \<lparr>kr_handle = Software (sm_uuid sm), kr_standard = Smime,
     kr_fingerprint = fingerprint_new (to_hex_lower ski), kr_usage = SignAndEncrypt, kr_algorithm = ''ECDSA-P256''\<rparr>,
     sk_public_data = cert_der, sk_private_data = Some priv_der\<rparr>"

context key_store_laws
begin

lemma imported_key_signs:
  assumes "builder_ok sm pair cert_der priv_der payload" and id: "p256_identity sm pair cert_der priv_der ski" and rdy: "ready (import_key sm cert_der priv_der ski) s"
  shows "\<exists>h s' envl r. persist_imported sm ks cert_der priv_der s = (Returned (Inr h), s')
    \<and> smime_sign sm ks \<lparr>so_payload = payload, so_signing_key = h, so_detached = detached\<rparr> s' = (Returned (Inr envl), s')
    \<and> se_payload envl = payload \<and> smime_verify sm envl = Inr r \<and> vr_state r = ValidUnverified
    \<and> map_option kr_fingerprint (vr_signer r) = Some (kr_fingerprint h)"
proof -
  from rdy obtain h s' where put: "ks_put ks (import_key sm cert_der priv_der ski) s = (Returned (Inr h), s')"
    and alg: "kr_algorithm h = ''ECDSA-P256''" and fp: "kr_fingerprint h = fingerprint_new (to_hex_lower ski)"
    and get: "ks_get ks (kr_handle h) s' = (Returned (Inr (Some ((import_key sm cert_der priv_der ski)\<lparr>sk_handle := h\<rparr>))), s')"
    by (rule stored_back) (auto simp: import_key_def)
  from id have "persist_imported sm ks cert_der priv_der = ks_put ks (import_key sm cert_der priv_der ski)"
    by (auto simp: p256_identity_def persist_imported_def import_key_def algorithm_label_def ID_EC_PUBLIC_KEY_def io_bind_def
        io_lift_def fun_eq_iff)
  with put fp sign_with_stored [OF assms(1,2) get _ _ alg, of detached] show ?thesis
    by (auto simp: import_key_def)
qed

end


section \<open>Witnesses\<close>

definition sample_smime :: "(u8 list, unit, u8 list, u8 list, u8 list, string, unit, unit) smime_lib" where
  "sample_smime = \<lparr>sm_asn1 = sample_asn1, sm_prims = sample_primitives\<lparr>pr_p256_private := (\<lambda>_. Inr ())\<rparr>, sm_pkix = sample_pkix,
     sm_now = 0, sm_uuid = ''u'', sm_build_signed = (\<lambda>_ econtent _ _ _. Inr (if econtent = None then [1] else [2])),
     sm_build_enveloped = (\<lambda>_ _. Inl (MalformedInput [])), sm_self_signed = (\<lambda>_. Inl (MalformedInput [])),
     sm_p12_read = (\<lambda>_ _. Inl P12UnpadError), sm_p12_cert = Inr, sm_p12_key = Inr, sm_p12_write = (\<lambda>_ _ _. Inl P12UnpadError),
     sm_pkcs8_parse = Inr, sm_pkcs8_decrypt = (\<lambda>b _. Inr b), sm_b64_decode = (\<lambda>_. Inr [])\<rparr>"

lemma sample_smime_ok:
  "builder_ok sample_smime (\<lambda>_ _. True) [9] [8] [7]" "p256_identity sample_smime (\<lambda>_ _. True) [9] [8] [171]"
  by (auto simp: builder_ok_def built_def p256_identity_def sample_smime_def sample_asn1_def sample_primitives_def sample_signed_def
      sample_cert_def parse_signed_def parse_content_def find_message_digest_def)

lemma sample_import_ready:
  "sqlite_ready (sample_env ''k1'') ''a1'' (import_key sample_smime [9] [8] [171]) key_db"
proof -
  have "to_hex_lower [171] = ''ab''" "fingerprint_new ''ab'' = ''ab''" by code_simp+
  then show ?thesis
    by (simp add: sqlite_ready_def import_key_def puttable_def) (simp add: key_db_def empty_db_def)
qed


end
