(* ===== verification/Crl_Fetch.thy ===== *)
theory Crl_Fetch
  imports Crypto_Keys Engine Smime_Backend
begin

text \<open>
  \<open>mail/crypto_crl.rs\<close>: revocation lists fetched over HTTP and kept in the table \<open>crl_cache\<close> for a day. The HTTP client
  and the base64 decoder are parameters.
\<close>

section \<open>The state\<close>

text \<open>The database and the network beside it.\<close>

record 'n online =
  ol_db :: db
  ol_net :: 'n

definition in_store :: "(db, 'e, 'a) io \<Rightarrow> ('n online, 'e, 'a) io" where
  "in_store m = on_db m (\<lambda>d s. s\<lparr>ol_db := d\<rparr>) ol_db"

text \<open>A GET request: a transport error, or the status and the outcome of reading the body.\<close>

record 'n fetcher =
  ft_get :: "string \<Rightarrow> 'n \<Rightarrow> (string + nat \<times> (string + u8 list)) \<times> 'n"
  ft_b64_decode :: "string \<Rightarrow> u8 list option"

section \<open>Normalising to DER\<close>

text \<open>Dropping the white space of a text: \<open>skip\<close> bytes belong to a white space character already seen.\<close>

fun drop_white :: "nat \<Rightarrow> string \<Rightarrow> string" where
  "drop_white skip [] = []"
| "drop_white (Suc skip) (c # cs) = drop_white skip cs"
| "drop_white 0 (c # cs) =
     (case find (\<lambda>w. starts_with w (c # cs)) white_spaces of
        Some w \<Rightarrow> drop_white (length w - 1) cs
      | None \<Rightarrow> c # drop_white 0 cs)"

definition pem_crl_to_der :: "(string \<Rightarrow> u8 list option) \<Rightarrow> string \<Rightarrow> u8 list option" where
  "pem_crl_to_der b64_decode pem =
     (let b64 = drop_white 0 (concat (filter (\<lambda>line. \<not> starts_with ''-----'' line) (str_lines pem)))
      in if b64 = [] then None else b64_decode b64)"

definition normalize_to_der :: "(string \<Rightarrow> u8 list option) \<Rightarrow> u8 list \<Rightarrow> u8 list option" where
  "normalize_to_der b64_decode bytes =
     (case bytes of
        b # _ \<Rightarrow>
          if b = 0x30 then Some bytes
          else (case from_utf8 bytes of
                  Some s \<Rightarrow>
                    if contains_str ''-----BEGIN X509 CRL-----'' s \<or> contains_str ''-----BEGIN'' s \<and> contains_str ''CRL'' s
                    then pem_crl_to_der b64_decode s else None
                | None \<Rightarrow> None)
      | [] \<Rightarrow> None)"

section \<open>Fetching\<close>

definition CRL_CACHE_TTL_SECS :: u64 where "CRL_CACHE_TTL_SECS = 24 * 60 * 60"

definition now_epoch_secs :: "db \<Rightarrow> u64" where
  "now_epoch_secs d = (if db_now d < 0 then 0 else word_of_int (db_now d))"

definition parse_u64 :: "string \<Rightarrow> u64 option" where
  "parse_u64 s = map_option of_nat (parse_unsigned (2 ^ 64 - 1) s)"

definition saturating_add64 :: "u64 \<Rightarrow> u64 \<Rightarrow> u64" where
  "saturating_add64 a b = (if unat a + unat b < 2 ^ 64 then a + b else - 1)"

definition is_fresh :: "u64 \<Rightarrow> crl_row \<Rightarrow> bool" where
  "is_fresh now row \<longleftrightarrow>
     (case parse_u64 (cl_fetched_at row) of
        Some fetched_at \<Rightarrow> now < saturating_add64 fetched_at CRL_CACHE_TTL_SECS
      | None \<Rightarrow> False)"

definition crl_row_at :: "u64 \<Rightarrow> u8 list \<Rightarrow> crl_row" where
  "crl_row_at now der = \<lparr>cl_der = der, cl_issuer_dn = None,
     cl_next_update = Some (dec_string (unat (now + CRL_CACHE_TTL_SECS))), cl_fetched_at = dec_string (unat now)\<rparr>"

definition download_crl :: "'n fetcher \<Rightarrow> string \<Rightarrow> 'n \<Rightarrow> u8 list option \<times> 'n" where
  "download_crl ft url n =
     (case ft_get ft url n of
        (Inr (status, Inr bytes), n') \<Rightarrow>
          (if 200 \<le> status \<and> status < 300 then normalize_to_der (ft_b64_decode ft) bytes else None, n')
      | (_, n') \<Rightarrow> (None, n'))"

definition cached_crl :: "string \<Rightarrow> ('n online, string, u8 list option) io" where
  "cached_crl url =
     io_bind (io_try (in_store (get_crl url))) (\<lambda>row s.
     io_ret (case row of
         Inr (Some r) \<Rightarrow> if is_fresh (now_epoch_secs (ol_db s)) r then Some (cl_der r) else None
       | _ \<Rightarrow> None) s)"

definition fetch_crl_cached :: "'n fetcher \<Rightarrow> string \<Rightarrow> ('n online, string, u8 list option) io" where
  "fetch_crl_cached ft url =
     io_bind (cached_crl url) (\<lambda>cached.
     if cached \<noteq> None then io_ret cached
     else (\<lambda>s. case download_crl ft url (ol_net s) of
            (None, n) \<Rightarrow> (Returned (Inr None), s\<lparr>ol_net := n\<rparr>)
          | (Some der, n) \<Rightarrow>
              io_bind (io_try (in_store (upsert_crl url (crl_row_at (now_epoch_secs (ol_db s)) der))))
                (\<lambda>_. io_ret (Some der)) (s\<lparr>ol_net := n\<rparr>)))"

section \<open>The text that \<open>strftime\<close> and \<open>to_string\<close> write is read back\<close>

lemma parse_u64_dec_string [simp]: "parse_u64 (dec_string (unat w)) = Some w"
proof -
  have "unat w \<le> 2 ^ 64 - 1" using unsigned_less [of w, where ?'a = nat] by simp
  then show ?thesis by (simp add: parse_u64_def parse_unsigned_dec_string)
qed

lemma is_fresh_row_at: "is_fresh now (crl_row_at fetched der) \<longleftrightarrow> unat now < min (unat fetched + 86400) (2 ^ 64 - 1)"
proof -
  have ttl: "unat CRL_CACHE_TTL_SECS = 86400" by (simp add: CRL_CACHE_TTL_SECS_def)
  show ?thesis
  proof (cases "unat fetched + 86400 < 2 ^ 64")
    case True
    then have "unat (fetched + CRL_CACHE_TTL_SECS) = unat fetched + 86400"
      using ttl by (simp add: unat_word_ariths)
    with True ttl show ?thesis
      by (simp add: is_fresh_def crl_row_at_def saturating_add64_def word_less_nat_alt min_def)
  next
    case False
    have "unat (- 1 :: u64) = 2 ^ 64 - 1" by (simp add: unsigned_minus_1_eq_mask mask_eq_exp_minus_1)
    with False ttl show ?thesis
      by (simp add: is_fresh_def crl_row_at_def saturating_add64_def word_less_nat_alt)
  qed
qed

section \<open>Fetching always returns\<close>

lemma db_stmt_returns: "\<exists>r. fst (db_stmt f d) = Returned r"
  by (simp add: db_stmt_def split: list.splits option.splits prod.splits)

lemma db_query_returns: "\<exists>r d'. db_query q d = (Returned r, d')"
  using db_stmt_returns [of "\<lambda>d. (q d, d)" d] by (cases "db_query q d") (simp add: db_query_def)

lemma db_update_returns: "\<exists>r d'. db_update u d = (Returned r, d')"
  using db_stmt_returns [of "\<lambda>d. ((), u d)" d] by (cases "db_update u d") (simp add: db_update_def)

lemma fetch_crl_cached_returns: "\<exists>r s'. fetch_crl_cached ft url s = (Returned (Inr r), s')"
proof -
  obtain r1 d1 where q: "get_crl url (ol_db s) = (Returned r1, d1)"
    using db_query_returns unfolding get_crl_def by blast
  show ?thesis
  proof -
    have u: "\<exists>r d'. upsert_crl url row d = (Returned r, d')" for row d
      using db_update_returns unfolding upsert_crl_def by blast
    show ?thesis
      using q u
      by (auto simp: fetch_crl_cached_def cached_crl_def io_bind_def io_try_def in_store_def on_db_def io_ret_def
          split: prod.splits option.splits sum.splits panicky.splits) (metis panicky.distinct(1) prod.inject)+
  qed
qed

section \<open>A day in the cache\<close>

definition at_time :: "int \<Rightarrow> 'n \<Rightarrow> 'n online \<Rightarrow> 'n online" where
  "at_time t n s = s\<lparr>ol_db := (ol_db s)\<lparr>db_now := t\<rparr>, ol_net := n\<rparr>"

definition fresh_in_cache :: "string \<Rightarrow> 'n online \<Rightarrow> u8 list option" where
  "fresh_in_cache url s =
     (case map_of (t_crls (ol_db s)) url of
        Some r \<Rightarrow> if is_fresh (now_epoch_secs (ol_db s)) r then Some (cl_der r) else None
      | None \<Rightarrow> None)"

lemma cached_crl_healthy: "healthy (ol_db s) \<Longrightarrow> cached_crl url s = (Returned (Inr (fresh_in_cache url s)), s)"
  by (simp add: cached_crl_def fresh_in_cache_def io_bind_def io_try_def in_store_def on_db_def get_crl_def db_query_healthy
      io_ret_def split: option.split)

definition store_crl :: "string \<Rightarrow> u8 list \<Rightarrow> db \<Rightarrow> db" where
  "store_crl url der d = d\<lparr>t_crls := (url, crl_row_at (now_epoch_secs d) der) # filter (\<lambda>(u, _). u \<noteq> url) (t_crls d)\<rparr>"

lemma fetch_crl_cached_healthy:
  assumes "healthy (ol_db s)"
  shows "fetch_crl_cached ft url s =
    (case fresh_in_cache url s of
       Some der \<Rightarrow> (Returned (Inr (Some der)), s)
     | None \<Rightarrow> (case download_crl ft url (ol_net s) of
         (None, n) \<Rightarrow> (Returned (Inr None), s\<lparr>ol_net := n\<rparr>)
       | (Some der, n) \<Rightarrow> (Returned (Inr (Some der)), s\<lparr>ol_net := n, ol_db := store_crl url der (ol_db s)\<rparr>)))"
  using assms
  by (auto simp: fetch_crl_cached_def io_bind_def cached_crl_healthy io_ret_def io_try_def in_store_def on_db_def
      upsert_crl_def db_update_healthy store_crl_def split: option.split prod.split)

text \<open>C37. A list that is downloaded is answered from the cache, without touching the network, until a day has passed; from
  then on the network is asked again. This is so whatever the bytes are: anything that starts with the byte 0x30 counts as a
  list, so a reply of this kind, revocation list or not, stands in for the list for a day.
\<close>

lemma crl_cached_for_a_day:
  assumes "healthy (ol_db s)" and "fresh_in_cache url s = None" and "download_crl ft url (ol_net s) = (Some der, n)"
    and "0 \<le> db_now (ol_db s)" and "db_now (ol_db s) + 86400 < 2 ^ 64 - 1"
  shows "\<exists>s'. fetch_crl_cached ft url s = (Returned (Inr (Some der)), s') \<and> ol_net s' = n
    \<and> (\<forall>t n'. 0 \<le> t \<and> t < 2 ^ 64 \<longrightarrow>
         (if t < db_now (ol_db s) + 86400
          then fetch_crl_cached ft url (at_time t n' s') = (Returned (Inr (Some der)), at_time t n' s')
          else ol_net (snd (fetch_crl_cached ft url (at_time t n' s'))) = snd (download_crl ft url n')))"
proof -
  let ?s = "s\<lparr>ol_net := n, ol_db := store_crl url der (ol_db s)\<rparr>"
  have "fetch_crl_cached ft url s = (Returned (Inr (Some der)), ?s)"
    using assms(1-3) by (simp add: fetch_crl_cached_healthy)
  moreover have "fresh_in_cache url (at_time t n' ?s) = (if t < db_now (ol_db s) + 86400 then Some der else None)"
    if "0 \<le> t" "t < 2 ^ 64" for t n'
  proof -
    have "unat (now_epoch_secs (ol_db s)) = nat (db_now (ol_db s))" "unat (word_of_int t :: u64) = nat t"
      using assms(4,5) that by (simp_all add: now_epoch_secs_def unsigned_of_int take_bit_int_eq_self)
    with assms(4,5) that show ?thesis
      by (simp add: fresh_in_cache_def at_time_def store_crl_def is_fresh_row_at now_epoch_secs_def) (simp add: crl_row_at_def, arith)
  qed
  moreover have "healthy (ol_db (at_time t n' ?s))" for t n'
    using assms(1) by (simp add: at_time_def store_crl_def healthy_def)
  ultimately show ?thesis
    by (intro exI [of _ ?s])
       (auto simp: fetch_crl_cached_healthy at_time_def split: option.split prod.split)
qed

definition sample_fetcher :: "nat fetcher" where
  "sample_fetcher = \<lparr>ft_get = (\<lambda>url n. (Inr (200, Inr [0x30, 1]), n + 1)), ft_b64_decode = (\<lambda>_. None)\<rparr>"

lemma crl_cached_for_a_day_witness:
  "\<exists>s'. fetch_crl_cached sample_fetcher ''u'' \<lparr>ol_db = empty_db, ol_net = 0\<rparr> = (Returned (Inr (Some [0x30, 1])), s') \<and> ol_net s' = 1
    \<and> fetch_crl_cached sample_fetcher ''u'' (at_time 87000 1 s') = (Returned (Inr (Some [0x30, 1])), at_time 87000 1 s')
    \<and> ol_net (snd (fetch_crl_cached sample_fetcher ''u'' (at_time 87400 1 s'))) = 2"
proof -
  let ?s = "\<lparr>ol_db = empty_db, ol_net = 0 :: nat\<rparr>"
  have "healthy (ol_db ?s)" "fresh_in_cache ''u'' ?s = None" "db_now (ol_db ?s) = 1000"
    by (simp_all add: healthy_def empty_db_def fresh_in_cache_def)
  moreover have dl: "download_crl sample_fetcher ''u'' n = (Some [0x30, 1], n + 1)" for n
    by (simp add: download_crl_def sample_fetcher_def normalize_to_der_def)
  ultimately obtain s' where s': "fetch_crl_cached sample_fetcher ''u'' ?s = (Returned (Inr (Some [0x30, 1])), s')" "ol_net s' = 1"
    and later: "\<forall>t n'. 0 \<le> t \<and> t < 2 ^ 64 \<longrightarrow>
      (if t < 1000 + 86400
       then fetch_crl_cached sample_fetcher ''u'' (at_time t n' s') = (Returned (Inr (Some [0x30, 1])), at_time t n' s')
       else ol_net (snd (fetch_crl_cached sample_fetcher ''u'' (at_time t n' s'))) = snd (download_crl sample_fetcher ''u'' n'))"
    using crl_cached_for_a_day [of ?s "''u''" sample_fetcher "[0x30, 1]" 1] by auto
  show ?thesis
    using s' later [rule_format, of 87000 1] later [rule_format, of 87400 1] by (intro exI [of _ s']) (simp add: dl)
qed

end
