(* ===== verification/Crypto_Open.thy ===== *)
theory Crypto_Open
  imports Crl_Fetch Secure_Mime Smime_Signing
begin

text \<open>
  The receive half of \<open>mail/crypto.rs\<close>: opening an encrypted or signed message. It composes the tables, the key store,
  the S/MIME backend, the chain validation and the fetching of revocation lists.
\<close>

section \<open>The environment\<close>

text \<open>A certificate as \<open>x509_parser\<close> gives it: of a distribution point the names, when it has full names; of a common
  name the text, when it is one.\<close>

datatype general_name = UriName string | OtherName

datatype x509_extension = CrlDistributionPoints "general_name list option list" | OtherExtension

record x509 =
  xc_extensions :: "x509_extension list"
  xc_subject_cns :: "string option list"
  xc_issuer_cns :: "string option list"
  xc_serial :: "u8 list"
  xc_not_before :: int
  xc_not_after :: int
  xc_key_oid :: string

record ('n, 'pub, 'priv, 'cert, 'anchor, 'crl, 'mailbox, 'key, 'p) opener =
  op_smime :: "('pub, 'priv, 'cert, 'anchor, 'crl, 'mailbox, 'key, 'p) smime_lib"
  op_keys :: key_env
  op_net :: "'n fetcher"
  op_client :: "string + unit"
  op_x509 :: "u8 list \<Rightarrow> x509 option"
  op_mime :: "u8 list \<Rightarrow> parsed_message option"

type_synonym ('n, 'a) online_io = "('n online, string, 'a) io"

definition io_panicky :: "('e + 'a) panicky \<Rightarrow> ('s, 'e, 'a) io" where
  "io_panicky r s = (r, s)"

section \<open>Trust\<close>

definition trust_of_text :: "string \<Rightarrow> trust_state" where
  "trust_of_text s =
     (if s = ''rejected'' then Rejected
      else if s = ''undecided'' then Undecided
      else if s = ''unverified'' then Unverified
      else if s = ''verified'' then Verified
      else if s = ''personal'' then Personal
      else Undecided)"

definition is_own_key :: "key_env \<Rightarrow> string \<Rightarrow> string option \<Rightarrow> (db, string, bool) io" where
  "is_own_key e acc signer_fp =
     (case signer_fp of
        None \<Rightarrow> io_ret False
      | Some fp \<Rightarrow>
          io_bind (io_try (list_crypto_keys_for_account e acc ''smime'')) (\<lambda>keys.
          io_ret (case keys of Inr ks \<Rightarrow> list_ex (\<lambda>k. ki_has_private k \<and> ki_fingerprint k = fp) ks | Inl _ \<Rightarrow> False)))"

definition resolve_signer_trust :: "key_env \<Rightarrow> string \<Rightarrow> string option \<Rightarrow> string option \<Rightarrow> (db, string, trust_state) io" where
  "resolve_signer_trust e acc signer_fp signer_email =
     io_bind (is_own_key e acc signer_fp) (\<lambda>own.
     if own then io_ret Personal
     else (case (signer_email, signer_fp) of
             (Some email, Some fp) \<Rightarrow>
               io_bind (io_try (get_latest_trust_decision acc email ''smime'' fp)) (\<lambda>decision.
               io_ret (case decision of Inr (Some d) \<Rightarrow> trust_of_text (td_decision d) | _ \<Rightarrow> Undecided))
           | _ \<Rightarrow> io_ret Undecided))"

section \<open>Revocation lists\<close>

definition uri_of :: "general_name \<Rightarrow> string option" where
  "uri_of gn = (case gn of UriName url \<Rightarrow> Some url | OtherName \<Rightarrow> None)"

definition extension_urls :: "x509_extension \<Rightarrow> string list" where
  "extension_urls ext =
     (case ext of
        CrlDistributionPoints points \<Rightarrow>
          concat (map (\<lambda>point. case point of Some names \<Rightarrow> List.map_filter uri_of names | None \<Rightarrow> []) points)
      | OtherExtension \<Rightarrow> [])"

definition extract_crl_distribution_points :: "(u8 list \<Rightarrow> x509 option) \<Rightarrow> u8 list \<Rightarrow> string list" where
  "extract_crl_distribution_points parse cert_der =
     (case parse cert_der of None \<Rightarrow> [] | Some cert \<Rightarrow> concat (map extension_urls (xc_extensions cert)))"

fun fetch_all :: "'n fetcher \<Rightarrow> string list \<Rightarrow> ('n, u8 list list) online_io" where
  "fetch_all ft [] = io_ret []"
| "fetch_all ft (url # urls) =
     io_bind (fetch_crl_cached ft url) (\<lambda>crl.
     io_bind (fetch_all ft urls) (\<lambda>crls.
     io_ret (case crl of Some der \<Rightarrow> der # crls | None \<Rightarrow> crls)))"

definition resolve_crls :: "'n fetcher \<Rightarrow> (u8 list \<Rightarrow> x509 option) \<Rightarrow> u8 list list \<Rightarrow> ('n, u8 list list) online_io" where
  "resolve_crls ft parse cert_ders = fetch_all ft (concat (map (extract_crl_distribution_points parse) cert_ders))"

section \<open>The stored result\<close>

fun signature_text :: "signature_state \<Rightarrow> string" where
  "signature_text NotSigned = ''not-signed''"
| "signature_text ValidVerified = ''valid-verified''"
| "signature_text ValidUnverified = ''valid-unverified''"
| "signature_text Invalid = ''invalid''"
| "signature_text UnknownKey = ''unknown-key''"
| "signature_text Mismatch = ''mismatch''"

fun chain_columns :: "signature_state \<Rightarrow> int option \<times> string" where
  "chain_columns ValidVerified = (Some 1, ''good'')"
| "chain_columns ValidUnverified = (Some 1, ''good'')"
| "chain_columns Mismatch = (Some 1, ''good'')"
| "chain_columns Invalid = (Some 0, ''unchecked'')"
| "chain_columns UnknownKey = (None, ''unchecked'')"
| "chain_columns NotSigned = (None, ''unchecked'')"

record crypto_outcome =
  oc_plaintext_mime :: "u8 list option"
  oc_crypto_kind :: string
  oc_decrypt_state :: string
  oc_signature_state :: signature_state
  oc_signer_fp :: "string option"
  oc_signer_email :: "string option"
  oc_failure_reason :: "string option"
  oc_revocation_reason :: "string option"

definition build_crypto_result_row :: "db \<Rightarrow> string \<Rightarrow> string \<Rightarrow> crypto_outcome \<Rightarrow> crypto_result_row" where
  "build_crypto_result_row d acc mid oc =
     \<lparr>cr_account = acc, cr_message = mid, cr_crypto_kind = oc_crypto_kind oc, cr_decrypt_state = oc_decrypt_state oc,
      cr_signature_state = signature_text (oc_signature_state oc), cr_signer_fingerprint = oc_signer_fp oc,
      cr_signer_email = oc_signer_email oc, cr_chain_valid = fst (chain_columns (oc_signature_state oc)),
      cr_revocation_state = snd (chain_columns (oc_signature_state oc)),
      cr_verified_at = dec_string (unat (now_epoch_secs d)), cr_failure_reason = oc_failure_reason oc,
      cr_revocation_reason = oc_revocation_reason oc\<rparr>"

section \<open>Looking into a signature\<close>

definition extract_signed_data_econtent :: "asn1 \<Rightarrow> u8 list \<Rightarrow> u8 list option" where
  "extract_signed_data_econtent a signed_data_der =
     (case parse_signed a signed_data_der of Inr sd \<Rightarrow> sd_econtent sd | Inl _ \<Rightarrow> None)"

definition is_signed_data :: "asn1 \<Rightarrow> u8 list \<Rightarrow> bool" where
  "is_signed_data a der = (case as_content_info a der of Inr ci \<Rightarrow> ci_type ci = ID_SIGNED_DATA | Inl _ \<Rightarrow> False)"

definition merge_intermediates_by_fingerprint :: "asn1 \<Rightarrow> u8 list list \<Rightarrow> u8 list list \<Rightarrow> u8 list list" where
  "merge_intermediates_by_fingerprint a signed_data_intermediates stored_intermediates =
     dedup_intermediates (fingerprint_of_cert_der a) [] (signed_data_intermediates @ stored_intermediates)"

fun named_cert :: "certificate_choice list \<Rightarrow> signer_identifier \<Rightarrow> certificate option" where
  "named_cert [] sid = None"
| "named_cert (OtherChoice # cs) sid = named_cert cs sid"
| "named_cert (CertChoice c # cs) sid =
     (if sid = IssuerAndSerial (ct_issuer c) (ct_serial c) then Some c else named_cert cs sid)"

text \<open>The certificates whose revocation lists are asked for: the signer's first.\<close>

definition crl_cert_ders :: "asn1 \<Rightarrow> u8 list \<Rightarrow> u8 list list \<Rightarrow> u8 list list" where
  "crl_cert_ders a signed_data_der intermediates =
     (case parse_signed a signed_data_der of
        Inl _ \<Rightarrow> intermediates
      | Inr sd \<Rightarrow>
          (case (sd_certificates sd, first_sid sd) of
             (Some certs, Some sid) \<Rightarrow>
               (case map_option ct_der (named_cert certs sid) of Some (Inr der) \<Rightarrow> der # intermediates | _ \<Rightarrow> intermediates)
           | _ \<Rightarrow> intermediates))"

section \<open>Verifying\<close>

record verify_outcome =
  vo_plaintext :: "u8 list option"
  vo_signature_state :: signature_state
  vo_signer_fp :: "string option"
  vo_signer_email :: "string option"
  vo_failure_reason :: "string option"
  vo_revocation_reason :: "string option"

definition envelope_of :: "u8 list \<Rightarrow> u8 list option \<Rightarrow> signed_envelope" where
  "envelope_of signed_data_der covered_content =
     \<lparr>se_standard = Smime, se_payload = (case covered_content of Some c \<Rightarrow> c | None \<Rightarrow> []),
      se_signature = \<lparr>ds_standard = Smime,
        ds_signer = \<lparr>kr_handle = Software [], kr_standard = Smime, kr_fingerprint = fingerprint_new [], kr_usage = SignAndEncrypt,
                     kr_algorithm = ''ECDSA-P256''\<rparr>,
        ds_signature = signed_data_der\<rparr>\<rparr>"

definition signer_fp_of :: "verification_result \<Rightarrow> string option" where
  "signer_fp_of r = map_option kr_fingerprint (vr_signer r)"

definition or_else :: "'a option \<Rightarrow> 'a option \<Rightarrow> 'a option" where
  "or_else a b = (case a of Some x \<Rightarrow> Some x | None \<Rightarrow> b)"

definition stored_intermediates :: "key_env \<Rightarrow> string \<Rightarrow> (db, string, u8 list list) io" where
  "stored_intermediates e acc = io_bind (io_try (list_intermediate_certs e acc)) (\<lambda>r. io_ret (unwrap_or [] r))"

definition verify_outcome_of ::
  "asn1 \<Rightarrow> u8 list \<Rightarrow> string option \<Rightarrow> u8 list option \<Rightarrow> verification_result \<Rightarrow> verification_result \<Rightarrow> verify_outcome" where
  "verify_outcome_of a signed_data_der from_email covered_content pre_check result =
     \<lparr>vo_plaintext = or_else covered_content (extract_signed_data_econtent a signed_data_der),
      vo_signature_state = vr_state result, vo_signer_fp = or_else (signer_fp_of result) (signer_fp_of pre_check),
      vo_signer_email = from_email, vo_failure_reason = vr_failure_reason result,
      vo_revocation_reason = vr_revocation_reason result\<rparr>"

definition run_verify_path ::
  "('n, 'pub, 'priv, 'cert, 'anchor, 'crl, 'mailbox, 'key, 'p) opener \<Rightarrow> string \<Rightarrow> u8 list \<Rightarrow> string option \<Rightarrow> u8 list option
     \<Rightarrow> ('n, verify_outcome) online_io" where
  "run_verify_path op acc signed_data_der from_email covered_content =
     (let a = sm_asn1 (op_smime op); signed = envelope_of signed_data_der covered_content
      in io_bind (io_lift (map_err (\<lambda>e. ''extract_intermediates: '' @ crypto_error_display e) (extract_intermediates a signed_data_der)))
           (\<lambda>signed_data_intermediates.
         io_bind (in_store (stored_intermediates (op_keys op) acc)) (\<lambda>stored.
         let intermediates = merge_intermediates_by_fingerprint a signed_data_intermediates stored
         in io_bind (in_store (list_trust_anchor_certs (op_keys op) acc)) (\<lambda>anchors.
            io_bind (io_lift (map_err (\<lambda>e. ''pre-chain verify: '' @ crypto_error_display e) (smime_verify (op_smime op) signed)))
              (\<lambda>pre_check.
            io_bind (in_store (resolve_signer_trust (op_keys op) acc (signer_fp_of pre_check) from_email)) (\<lambda>signer_trust.
            io_bind (resolve_crls (op_net op) (op_x509 op) (crl_cert_ders a signed_data_der intermediates)) (\<lambda>crls.
            io_bind (io_map_error (\<lambda>e. ''verify_with_context: '' @ crypto_error_display e)
              (io_panicky (verify_with_context (op_smime op) signed from_email anchors intermediates crls signer_trust))) (\<lambda>result.
            io_ret (verify_outcome_of a signed_data_der from_email covered_content pre_check result)))))))))"

section \<open>Opening\<close>

definition outcome_of_verify :: "string \<Rightarrow> string \<Rightarrow> verify_outcome \<Rightarrow> crypto_outcome" where
  "outcome_of_verify kind decrypt_state v =
     \<lparr>oc_plaintext_mime = vo_plaintext v, oc_crypto_kind = kind, oc_decrypt_state = decrypt_state,
      oc_signature_state = vo_signature_state v, oc_signer_fp = vo_signer_fp v, oc_signer_email = vo_signer_email v,
      oc_failure_reason = vo_failure_reason v, oc_revocation_reason = vo_revocation_reason v\<rparr>"

definition encrypted_outcome :: "u8 list option \<Rightarrow> string \<Rightarrow> crypto_outcome" where
  "encrypted_outcome plaintext decrypt_state =
     \<lparr>oc_plaintext_mime = plaintext, oc_crypto_kind = ''encrypted'', oc_decrypt_state = decrypt_state,
      oc_signature_state = NotSigned, oc_signer_fp = None, oc_signer_email = None, oc_failure_reason = None,
      oc_revocation_reason = None\<rparr>"

definition message_from_address :: "string \<Rightarrow> string \<Rightarrow> string option db_io" where
  "message_from_address acc mid =
     db_query (\<lambda>d. Option.bind (find (\<lambda>r. ms_account r = acc \<and> ms_id r = mid) (t_messages d)) (\<lambda>r. mc_from_address (ms_content r)))"

definition decrypt_op_for :: "u8 list \<Rightarrow> crypto_key_info \<Rightarrow> decrypt_op" where
  "decrypt_op_for ciphertext key_row =
     \<lparr>do_envelope = \<lparr>ee_standard = Smime, ee_serialization = SingleMimeBlob,
        ee_parts = [\<lparr>ep_id = ''body'', ep_kind = PartBody, ep_ciphertext = ciphertext, ep_signature = None\<rparr>], ee_recipients = []\<rparr>,
      do_decryption_key = \<lparr>kr_handle = Software (''smime|'' @ ki_fingerprint key_row), kr_standard = Smime,
        kr_fingerprint = fingerprint_new (ki_fingerprint key_row), kr_usage = SignAndEncrypt, kr_algorithm = ''ECDSA-P256''\<rparr>\<rparr>"

text \<open>Every key with private material is tried until one of them gives a part.\<close>

fun try_decrypt :: "'s crypto_backend \<Rightarrow> u8 list \<Rightarrow> crypto_key_info list \<Rightarrow> ('s, string, u8 list option) io" where
  "try_decrypt backend ciphertext [] = io_ret None"
| "try_decrypt backend ciphertext (key_row # key_rows) =
     io_bind (io_try (cb_decrypt backend (decrypt_op_for ciphertext key_row))) (\<lambda>r.
     case map_sum id dp_parts r of
       Inr (part # _) \<Rightarrow> io_ret (Some (pt_data part))
     | _ \<Rightarrow> try_decrypt backend ciphertext key_rows)"

definition open_enveloped ::
  "('n, 'pub, 'priv, 'cert, 'anchor, 'crl, 'mailbox, 'key, 'p) opener \<Rightarrow> string \<Rightarrow> string option \<Rightarrow> u8 list \<Rightarrow> ('n, crypto_outcome) online_io" where
  "open_enveloped op acc from_address ciphertext =
     (let backend = smime_backend (op_smime op) (sqlite_key_store (op_keys op) acc) default_baseline
      in io_bind (in_store (io_map_error (\<lambda>e. ''list account keys: '' @ e) (list_crypto_keys_for_account (op_keys op) acc ''smime''))) (\<lambda>keys.
         io_bind (in_store (try_decrypt backend ciphertext (filter ki_has_private keys))) (\<lambda>decrypted.
         case decrypted of
           None \<Rightarrow> io_ret (encrypted_outcome None ''no-key'')
         | Some inner_bytes \<Rightarrow>
             if is_signed_data (sm_asn1 (op_smime op)) inner_bytes
             then io_bind (run_verify_path op acc inner_bytes from_address None) (\<lambda>v. io_ret (outcome_of_verify ''encrypted-signed'' ''ok'' v))
             else io_ret (encrypted_outcome (Some inner_bytes) ''ok''))))"

definition decrypt_message_with_outcome ::
  "('n, 'pub, 'priv, 'cert, 'anchor, 'crl, 'mailbox, 'key, 'p) opener \<Rightarrow> string \<Rightarrow> string \<Rightarrow> ('n, crypto_outcome) online_io" where
  "decrypt_message_with_outcome op acc mid =
     io_bind (in_store (get_message_ciphertext acc mid)) (\<lambda>ciphertext.
     io_bind (in_store (get_message_signed_part acc mid)) (\<lambda>signed_part.
     io_bind (in_store (message_from_address acc mid)) (\<lambda>from_address.
     io_bind (io_lift (map_err (\<lambda>e. ''build reqwest client: '' @ e) (op_client op))) (\<lambda>_.
     case (signed_part, ciphertext) of
       (Some covered, Some p7s_der) \<Rightarrow>
         io_bind (run_verify_path op acc p7s_der from_address (Some covered)) (\<lambda>v.
         io_ret (outcome_of_verify ''signed'' ''n/a'' (v\<lparr>vo_plaintext := or_else (vo_plaintext v) (Some covered)\<rparr>)))
     | (_, None) \<Rightarrow> io_ret (encrypted_outcome None ''failed'')
     | (None, Some c) \<Rightarrow>
         io_bind (io_lift (map_err (\<lambda>e. ''parse ContentInfo: '' @ e) (as_content_info (sm_asn1 (op_smime op)) c))) (\<lambda>ci.
         if ci_type ci = ID_ENVELOPED_DATA then open_enveloped op acc from_address c
         else if ci_type ci = ID_SIGNED_DATA
         then io_bind (run_verify_path op acc c from_address None) (\<lambda>v. io_ret (outcome_of_verify ''signed'' ''n/a'' v))
         else io_fail (''decrypt_message_with_outcome: unsupported CMS content type OID: '' @ ci_type ci))))))"

definition decrypt_message_mime_bytes ::
  "('n, 'pub, 'priv, 'cert, 'anchor, 'crl, 'mailbox, 'key, 'p) opener \<Rightarrow> string \<Rightarrow> string \<Rightarrow> ('n, u8 list option) online_io" where
  "decrypt_message_mime_bytes op acc mid = io_bind (decrypt_message_with_outcome op acc mid) (\<lambda>oc. io_ret (oc_plaintext_mime oc))"

record open_crypto_result =
  or_plaintext_html :: "string option"
  or_plaintext_text :: "string option"
  or_attachments :: "imap_attachment list"
  or_crypto_result :: crypto_result_row

definition parse_plaintext_mime :: "(u8 list \<Rightarrow> parsed_message option) \<Rightarrow> u8 list \<Rightarrow> string option \<times> string option \<times> imap_attachment list" where
  "parse_plaintext_mime parse bytes =
     (case parse bytes of None \<Rightarrow> (None, None, [])
      | Some m \<Rightarrow> (pm_body_html m, pm_body_text m, extract_attachments m))"

definition finish_open_crypto ::
  "(u8 list \<Rightarrow> parsed_message option) \<Rightarrow> string \<Rightarrow> string \<Rightarrow> crypto_outcome \<Rightarrow> (db, string, open_crypto_result) io" where
  "finish_open_crypto parse acc mid oc d =
     (let (html, txt, atts) = (case oc_plaintext_mime oc of Some bytes \<Rightarrow> parse_plaintext_mime parse bytes | None \<Rightarrow> (None, None, []));
          row = build_crypto_result_row d acc mid oc
      in io_bind (upsert_message_crypto_result row) (\<lambda>_.
         io_ret \<lparr>or_plaintext_html = html, or_plaintext_text = txt, or_attachments = atts, or_crypto_result = row\<rparr>) d)"

definition open_crypto_message ::
  "('n, 'pub, 'priv, 'cert, 'anchor, 'crl, 'mailbox, 'key, 'p) opener \<Rightarrow> string \<Rightarrow> string \<Rightarrow> ('n, open_crypto_result) online_io" where
  "open_crypto_message op acc mid =
     io_bind (decrypt_message_with_outcome op acc mid) (\<lambda>oc. in_store (finish_open_crypto (op_mime op) acc mid oc))"

lemma lifted_Inr_iff:
  "io_map_error g (io_panicky x) s = (Returned (Inr y), t) \<longleftrightarrow> x = Returned (Inr y) \<and> t = s"
  "io_lift (map_err g r) s = (Returned (Inr z), t) \<longleftrightarrow> r = Inr z \<and> t = s"
  "io_ret a s = (Returned (Inr b), t) \<longleftrightarrow> a = b \<and> t = s"
  "io_fail e s = (Returned (Inr b), t) \<longleftrightarrow> False"
  by (auto simp: io_map_error_def io_panicky_def io_lift_def io_ret_def io_fail_def map_err_Inr_iff split: panicky.splits)

section \<open>Reading does not change a healthy database\<close>

definition reads :: "(db, 'e, 'a) io \<Rightarrow> bool" where
  "reads m \<longleftrightarrow> (\<forall>d. healthy d \<longrightarrow> snd (m d) = d)"

lemma readsD: "reads m \<Longrightarrow> healthy d \<Longrightarrow> m d = (r, d') \<Longrightarrow> d' = d"
  unfolding reads_def by (metis snd_conv)

lemma reads_pure [invariant_intros]: "reads (io_ret x)" "reads (io_fail e)" "reads (io_lift r)"
  by (simp_all add: reads_def io_ret_def io_fail_def io_lift_def)

lemma reads_query [invariant_intros]: "reads (db_query q)"
  by (simp add: reads_def db_query_healthy)

lemma reads_bind [invariant_intros]: "reads m \<Longrightarrow> (\<And>x. reads (f x)) \<Longrightarrow> reads (io_bind m f)"
  unfolding reads_def io_bind_def by (auto split: prod.splits panicky.splits sum.splits)

lemma reads_try [invariant_intros]: "reads m \<Longrightarrow> reads (io_try m)" "reads m \<Longrightarrow> reads (io_map_error g m)"
  unfolding reads_def io_try_def io_map_error_def by (auto split: prod.splits panicky.splits)

lemmas reads_rules = reads_pure reads_query reads_bind reads_try

lemma reads_get: "reads (store_get e h)"
  by (cases "(e, h)" rule: store_get.cases)
    (auto simp: get_crypto_key_full_def split: prod.split option.split intro!: reads_rules)

lemma reads_smime_decrypt: "reads (cb_decrypt (smime_backend sm (sqlite_key_store e acc) policy) op)"
  by (auto simp: smime_backend_def smime_decrypt_def sqlite_key_store_def stored_or_def Let_def
      split: list.split option.split intro!: reads_rules reads_get)

lemma reads_try_decrypt:
  "reads (try_decrypt (smime_backend sm (sqlite_key_store e acc) policy) c ks)"
  by (induction ks) (auto intro!: reads_rules reads_smime_decrypt split: sum.split list.split)

lemma reads_certs: "reads (certs_of_type e t acc)"
  by (auto simp: certs_of_type_def intro!: reads_rules)

lemma reads_stored: "reads (stored_intermediates e acc)" "reads (list_trust_anchor_certs e acc)"
  by (auto simp: stored_intermediates_def list_intermediate_certs_def list_trust_anchor_certs_def intro!: reads_rules reads_certs)

lemma reads_trust: "reads (resolve_signer_trust e acc fp email)"
  by (auto simp: resolve_signer_trust_def is_own_key_def list_crypto_keys_for_account_def get_latest_trust_decision_def
      split: option.split intro!: reads_rules)

lemma in_store_reads:
  assumes "reads m" and "healthy (ol_db s)" and "in_store m s = (r, s')"
  shows "s' = s \<and> m (ol_db s) = (r, ol_db s)"
  using assms readsD [OF assms(1,2)] by (auto simp: in_store_def on_db_def split: prod.splits)

section \<open>What a positive verdict means\<close>

text \<open>The signer may be trusted: the fingerprint is that of a private key of the account, or the latest decision on the
  sender and the fingerprint is to trust it.\<close>

definition trusted_signer :: "db \<Rightarrow> string \<Rightarrow> string option \<Rightarrow> string option \<Rightarrow> bool" where
  "trusted_signer d acc signer_fp from_email \<longleftrightarrow>
     (\<exists>fp. signer_fp = Some fp \<and>
       ((\<exists>k \<in> set (t_crypto_keys d). ck_account k = acc \<and> named_key ''smime'' fp k \<and> ck_private_data_enc k \<noteq> None)
        \<or> (\<exists>email t. from_email = Some email \<and> latest_decision (filter (decision_of acc email ''smime'' fp) (t_trust_decisions d)) = Some t
              \<and> td_decision t \<in> {''verified'', ''personal''})))"

lemma resolve_signer_trust_sound:
  assumes "healthy d" and "scan_ok e" and "resolve_signer_trust e acc fp email d = (Returned (Inr t), d')" and "may_encrypt_to t"
  shows "trusted_signer d acc fp email"
proof -
  have "set (ke_scan e ks) = set ks" for ks using assms(2) by (simp add: scan_ok_def)
  with assms(1,3,4) show ?thesis
    by (cases fp; cases email)
      (auto simp: resolve_signer_trust_def is_own_key_def list_crypto_keys_for_account_def get_latest_trust_decision_def
        db_query_healthy io_bind_def io_try_def io_ret_def trusted_signer_def list_ex_iff row_to_crypto_key_def named_key_def
        may_encrypt_to_def trust_of_text_def split: if_splits option.splits)
qed

lemma same_signer:
  assumes "smime_verify sm envl = Inr pre"
    and "verify_with_context sm envl from_email anchors intermediates crls trust = Returned (Inr r)"
  shows "vr_signer r = vr_signer pre"
  using assms
  by (auto simp: smime_verify_def verify_with_context_def result_of_state_def Let_def
      split: sum.splits option.splits if_splits panicky.splits)

text \<open>What a verdict in favour of a signature rests on: a signature that verifies over the covered content (or, when the
  structure embeds content, over that), by a certificate whose chain leads to an anchor of the account.\<close>

definition verdict_holds ::
  "('n, 'pub, 'priv, 'cert, 'anchor, 'crl, 'mailbox, 'key, 'p) opener \<Rightarrow> db \<Rightarrow> string \<Rightarrow> string option \<Rightarrow> u8 list \<Rightarrow> u8 list \<Rightarrow> string option
     \<Rightarrow> signature_state \<Rightarrow> bool" where
  "verdict_holds op d acc from_email der covered signer_fp state \<longleftrightarrow>
     (\<exists>check cert_der anchors intermediates crls out.
        verify_signed (sm_asn1 (op_smime op)) (sm_prims (op_smime op)) der (Some covered) = Inr check \<and> cs_sig_ok check
      \<and> cs_signer_cert_der check = Some cert_der
      \<and> list_trust_anchor_certs (op_keys op) acc d = (Returned (Inr anchors), d)
      \<and> validate_signer_chain (sm_pkix (op_smime op)) cert_der intermediates anchors from_email
          (opt_or (sm_now (op_smime op)) (cs_signing_time_unix check)) crls = Returned out
      \<and> co_chain_valid out \<and> (state = Mismatch \<longleftrightarrow> \<not> co_identity_match out)
      \<and> (state = ValidVerified \<longrightarrow> trusted_signer d acc signer_fp from_email))"

lemma run_verify_pathE:
  assumes "run_verify_path op acc der from_email covered s = (Returned (Inr v), s')"
  obtains ints stored s1 anchors s2 pre trust s3 crls r
  where "in_store (stored_intermediates (op_keys op) acc) s = (Returned (Inr stored), s1)"
    and "in_store (list_trust_anchor_certs (op_keys op) acc) s1 = (Returned (Inr anchors), s2)"
    and "smime_verify (op_smime op) (envelope_of der covered) = Inr pre"
    and "in_store (resolve_signer_trust (op_keys op) acc (signer_fp_of pre) from_email) s2 = (Returned (Inr trust), s3)"
    and "verify_with_context (op_smime op) (envelope_of der covered) from_email anchors
        (merge_intermediates_by_fingerprint (sm_asn1 (op_smime op)) ints stored) crls trust = Returned (Inr r)"
    and "verify_outcome_of (sm_asn1 (op_smime op)) der from_email covered pre r = v"
  using assms that by (auto simp: run_verify_path_def Let_def io_bind_Inr_iff lifted_Inr_iff)

lemma run_verify_path_valid:
  assumes run: "run_verify_path op acc der from_email covered s = (Returned (Inr v), s')" and h: "healthy (ol_db s)"
    and scan: "scan_ok (op_keys op)" and valid: "vo_signature_state v \<in> valid_states"
  shows "verdict_holds op (ol_db s) acc from_email der (case covered of Some c \<Rightarrow> c | None \<Rightarrow> []) (vo_signer_fp v) (vo_signature_state v)"
proof -
  let ?sm = "op_smime op" and ?envl = "envelope_of der covered"
  from run obtain ints stored s1 anchors s2 pre trust s3 crls r
    where st: "in_store (stored_intermediates (op_keys op) acc) s = (Returned (Inr stored), s1)"
      and an: "in_store (list_trust_anchor_certs (op_keys op) acc) s1 = (Returned (Inr anchors), s2)"
      and pre: "smime_verify ?sm ?envl = Inr pre"
      and tr: "in_store (resolve_signer_trust (op_keys op) acc (signer_fp_of pre) from_email) s2 = (Returned (Inr trust), s3)"
      and ctx: "verify_with_context ?sm ?envl from_email anchors
          (merge_intermediates_by_fingerprint (sm_asn1 ?sm) ints stored) crls trust = Returned (Inr r)"
      and v: "verify_outcome_of (sm_asn1 ?sm) der from_email covered pre r = v"
    by (rule run_verify_pathE)
  have s1: "s1 = s" using in_store_reads [OF reads_stored(1) h st] by simp
  have s2: "s2 = s" and anchors: "list_trust_anchor_certs (op_keys op) acc (ol_db s) = (Returned (Inr anchors), ol_db s)"
    using in_store_reads [OF reads_stored(2) _ an] h s1 by simp_all
  have trust: "resolve_signer_trust (op_keys op) acc (signer_fp_of pre) from_email (ol_db s) = (Returned (Inr trust), ol_db s)"
    using in_store_reads [OF reads_trust _ tr] h s2 by simp
  have state: "vo_signature_state v = vr_state r" and fp: "vo_signer_fp v = signer_fp_of pre"
    using same_signer [OF pre ctx] by (auto simp: v [symmetric] verify_outcome_of_def signer_fp_of_def or_else_def split: option.split)
  have env: "se_payload ?envl = (case covered of Some c \<Rightarrow> c | None \<Rightarrow> [])" "ds_signature (se_signature ?envl) = der"
    by (simp_all add: envelope_of_def)
  from valid state have "vr_state r \<in> valid_states" by simp
  from verify_with_context_valid [OF ctx this] obtain check cert_der out where c:
    "verify_signed (sm_asn1 ?sm) (sm_prims ?sm) (ds_signature (se_signature ?envl)) (Some (se_payload ?envl)) = Inr check"
    "cs_sig_ok check" "cs_signer_cert_der check = Some cert_der"
    "validate_signer_chain (sm_pkix ?sm) cert_der (merge_intermediates_by_fingerprint (sm_asn1 ?sm) ints stored) anchors from_email
        (opt_or (sm_now ?sm) (cs_signing_time_unix check)) crls = Returned out"
    "co_chain_valid out" "vr_state r = Mismatch \<longleftrightarrow> \<not> co_identity_match out" "vr_state r = ValidVerified \<longrightarrow> may_encrypt_to trust"
    by blast
  then have "vr_state r = ValidVerified \<longrightarrow> trusted_signer (ol_db s) acc (signer_fp_of pre) from_email"
    using resolve_signer_trust_sound [OF h scan trust] by blast
  with c [unfolded env] anchors show ?thesis
    unfolding verdict_holds_def state fp
    by (intro exI [of _ check] exI [of _ cert_der] exI [of _ anchors] exI [of _ crls] exI [of _ out]
        exI [of _ "merge_intermediates_by_fingerprint (sm_asn1 ?sm) ints stored"] conjI) simp_all
qed

section \<open>Opening a message\<close>

definition from_address_of :: "string \<Rightarrow> string \<Rightarrow> db \<Rightarrow> string option" where
  "from_address_of acc mid d =
     Option.bind (find (\<lambda>r. ms_account r = acc \<and> ms_id r = mid) (t_messages d)) (\<lambda>r. mc_from_address (ms_content r))"

definition ciphertext_of :: "string \<Rightarrow> string \<Rightarrow> db \<Rightarrow> u8 list option" where
  "ciphertext_of acc mid d = Option.bind (body_of acc mid d) mb_ciphertext"

definition signed_part_of :: "string \<Rightarrow> string \<Rightarrow> db \<Rightarrow> u8 list option" where
  "signed_part_of acc mid d = Option.bind (body_of acc mid d) mb_signed_part"

lemma in_store_query: "healthy (ol_db s) \<Longrightarrow> in_store (db_query q) s = (Returned (Inr (q (ol_db s))), s)"
  by (simp add: in_store_def on_db_def db_query_healthy)

lemma message_reads:
  assumes "healthy (ol_db s)"
  shows "in_store (get_message_ciphertext acc mid) s = (Returned (Inr (ciphertext_of acc mid (ol_db s))), s)"
    and "in_store (get_message_signed_part acc mid) s = (Returned (Inr (signed_part_of acc mid (ol_db s))), s)"
    and "in_store (message_from_address acc mid) s = (Returned (Inr (from_address_of acc mid (ol_db s))), s)"
  using assms by (simp_all add: get_message_ciphertext_def get_message_signed_part_def message_from_address_def in_store_query
      ciphertext_of_def signed_part_of_def from_address_of_def)

lemma outcome_of_verify_fields [simp]:
  "oc_signature_state (outcome_of_verify k ds v) = vo_signature_state v" "oc_signer_fp (outcome_of_verify k ds v) = vo_signer_fp v"
  by (simp_all add: outcome_of_verify_def)

lemma encrypted_outcome_state [simp]: "oc_signature_state (encrypted_outcome p ds) = NotSigned"
  by (simp add: encrypted_outcome_def)

lemma open_enveloped_valid:
  assumes run: "open_enveloped op acc from_address c s = (Returned (Inr oc), s')" and h: "healthy (ol_db s)"
    and scan: "scan_ok (op_keys op)" and valid: "oc_signature_state oc \<in> valid_states"
  shows "\<exists>der. verdict_holds op (ol_db s) acc from_address der [] (oc_signer_fp oc) (oc_signature_state oc)"
proof -
  let ?b = "smime_backend (op_smime op) (sqlite_key_store (op_keys op) acc) default_baseline"
  have keys: "reads (io_map_error g (list_crypto_keys_for_account e acc std))" for g e std
    by (auto simp: list_crypto_keys_for_account_def intro!: reads_rules)
  from run obtain ks s1 d s2 where k: "in_store (io_map_error (\<lambda>e. ''list account keys: '' @ e)
        (list_crypto_keys_for_account (op_keys op) acc ''smime'')) s = (Returned (Inr ks), s1)"
    and d: "in_store (try_decrypt ?b c (filter ki_has_private ks)) s1 = (Returned (Inr d), s2)"
    and rest: "(case d of None \<Rightarrow> io_ret (encrypted_outcome None ''no-key'')
         | Some inner_bytes \<Rightarrow>
             if is_signed_data (sm_asn1 (op_smime op)) inner_bytes
             then io_bind (run_verify_path op acc inner_bytes from_address None) (\<lambda>v. io_ret (outcome_of_verify ''encrypted-signed'' ''ok'' v))
             else io_ret (encrypted_outcome (Some inner_bytes) ''ok'')) s2 = (Returned (Inr oc), s')"
    by (auto simp: open_enveloped_def Let_def io_bind_Inr_iff)
  have "s1 = s" using in_store_reads [OF keys h k] by simp
  moreover from this have "s2 = s1" using in_store_reads [OF reads_try_decrypt _ d] h by simp
  ultimately obtain inner v where "run_verify_path op acc inner from_address None s = (Returned (Inr v), s')"
    and "oc = outcome_of_verify ''encrypted-signed'' ''ok'' v"
    using rest valid by (auto simp: lifted_Inr_iff io_bind_Inr_iff valid_states_def split: option.splits if_splits)
  with run_verify_path_valid [OF _ h scan] valid show ?thesis by fastforce
qed


section \<open>Content that the signature embeds\<close>

lemma run_verify_path_embedded:
  assumes "parse_signed (sm_asn1 (op_smime op)) der = Inr sd" and "sd_econtent sd = Some c"
  shows "run_verify_path op acc der from_email (Some b)
    = io_bind (run_verify_path op acc der from_email (Some c)) (\<lambda>v. io_ret (v\<lparr>vo_plaintext := Some b\<rparr>))"
proof -
  have env: "envelope_of der (Some x) = (envelope_of der (Some c))\<lparr>se_payload := x\<rparr>" for x by (simp add: envelope_of_def)
  have sig: "ds_signature (se_signature (envelope_of der (Some c))) = der" by (simp add: envelope_of_def)
  have same: "verify_with_context (op_smime op) (envelope_of der (Some b)) = verify_with_context (op_smime op) (envelope_of der (Some c))"
    "smime_verify (op_smime op) (envelope_of der (Some b)) = smime_verify (op_smime op) (envelope_of der (Some c))"
    using verify_with_context_embedded [of "op_smime op" "envelope_of der (Some c)" sd c b c] assms sig
    by (simp_all add: env [of b, symmetric] env [of c, symmetric])
  have out: "verify_outcome_of a der from_email (Some b) p r = (verify_outcome_of a der from_email (Some c) p r)\<lparr>vo_plaintext := Some b\<rparr>" for a p r
    by (simp add: verify_outcome_of_def or_else_def)
  show ?thesis
    by (simp only: run_verify_path_def Let_def same out io_bind_assoc io_ret_bind)
qed

lemma open_embedded:
  assumes "healthy (ol_db s)" and "op_client op = Inr ()"
    and "ciphertext_of acc mid (ol_db s) = Some p7s" and "signed_part_of acc mid (ol_db s) = Some shown"
    and "parse_signed (sm_asn1 (op_smime op)) p7s = Inr sd" and "sd_econtent sd = Some inner"
    and "run_verify_path op acc p7s (from_address_of acc mid (ol_db s)) (Some inner) s = (Returned (Inr v), s')"
  shows "decrypt_message_with_outcome op acc mid s
    = (Returned (Inr ((outcome_of_verify ''signed'' ''n/a'' v)\<lparr>oc_plaintext_mime := Some shown\<rparr>)), s')"
proof -
  have "run_verify_path op acc p7s (from_address_of acc mid (ol_db s)) (Some shown) s = (Returned (Inr (v\<lparr>vo_plaintext := Some shown\<rparr>)), s')"
    unfolding run_verify_path_embedded [OF assms(5,6), of acc _ shown] by (simp add: io_bind_def assms(7) io_ret_def)
  then show ?thesis
    by (simp add: decrypt_message_with_outcome_def io_bind_def message_reads [OF assms(1)] assms(2-4) io_ret_def outcome_of_verify_def
        or_else_def)
qed

text \<open>C16. A clear-signed message whose signature structure embeds content is judged by the embedded content and shown with its own
  first part: the outcome of opening it is the verdict on the embedded content with the first part as the plaintext, whatever
  the first part says. The digest of the part that is shown is never compared, so a structure that someone else has signed
  makes any text appear as signed by them.
\<close>

theorem embedded_content_vouches_for_any_text:
  assumes "healthy (ol_db s)" and "op_client op = Inr ()"
    and "ciphertext_of acc mid (ol_db s) = Some p7s" and "signed_part_of acc mid (ol_db s) = Some shown"
    and "parse_signed (sm_asn1 (op_smime op)) p7s = Inr sd" and "sd_econtent sd = Some inner"
    and "run_verify_path op acc p7s (from_address_of acc mid (ol_db s)) (Some inner) s = (Returned (Inr v), s')"
  shows "decrypt_message_with_outcome op acc mid s
    = (Returned (Inr ((outcome_of_verify ''signed'' ''n/a'' v)\<lparr>oc_plaintext_mime := Some shown\<rparr>)), s')"
  by (rule open_embedded [OF assms])

section \<open>What is stored\<close>

lemma db_stmt_result: "db_stmt f d = (Returned (Inr x), d') \<Longrightarrow> f (d\<lparr>db_faults := tl (db_faults d)\<rparr>) = (x, d')"
  by (auto simp: db_stmt_def split: list.splits option.splits prod.splits)

lemma bind_lift_stmt:
  "io_bind (db_stmt f) io_lift d = (Returned (Inr x), d') \<Longrightarrow> f (d\<lparr>db_faults := tl (db_faults d)\<rparr>) = (Inr x, d')"
  by (auto simp: io_bind_Inr_iff io_lift_def dest: db_stmt_result)

lemma upsert_result_stored:
  assumes "upsert_message_crypto_result r d = (Returned (Inr ()), d')"
  shows "r \<in> set (t_crypto_results d')"
proof -
  let ?same = "result_of_message (cr_account r) (cr_message r)"
  have rows: "t_crypto_results d' = (if list_ex ?same (t_crypto_results d)
      then map (\<lambda>q. if ?same q then r else q) (t_crypto_results d) else t_crypto_results d @ [r])"
    using bind_lift_stmt [OF assms [unfolded upsert_message_crypto_result_def]] by (simp add: Let_def split: if_splits) auto
  show ?thesis
  proof (cases "list_ex ?same (t_crypto_results d)")
    case True
    then obtain q where "q \<in> set (t_crypto_results d)" "?same q" by (auto simp: list_ex_iff)
    then have "r \<in> (\<lambda>q. if ?same q then r else q) ` set (t_crypto_results d)" by (intro image_eqI [of _ _ q]) simp_all
    with True show ?thesis unfolding rows by simp
  qed (simp add: rows)
qed

text \<open>C17. Opening a message stores the result that it returns. Of the revocation check the stored row tells nothing: it says \<open>good\<close>
  for every signature whose chain was accepted, whether or not a revocation list was consulted, and \<open>unchecked\<close>
  for every other, a revoked signer included; \<open>revoked\<close> is never stored.
\<close>

theorem stored_revocation_state:
  assumes "open_crypto_message op acc mid s = (Returned (Inr r), s')"
  shows "\<exists>oc s1. decrypt_message_with_outcome op acc mid s = (Returned (Inr oc), s1)
    \<and> or_crypto_result r \<in> set (t_crypto_results (ol_db s'))
    \<and> cr_account (or_crypto_result r) = acc \<and> cr_message (or_crypto_result r) = mid
    \<and> cr_signature_state (or_crypto_result r) = signature_text (oc_signature_state oc)
    \<and> cr_revocation_state (or_crypto_result r)
        = (if oc_signature_state oc \<in> {ValidVerified, ValidUnverified, Mismatch} then ''good'' else ''unchecked'')
    \<and> cr_revocation_state (or_crypto_result r) \<noteq> ''revoked''"
proof -
  from assms obtain oc s1 where d: "decrypt_message_with_outcome op acc mid s = (Returned (Inr oc), s1)"
    and f: "in_store (finish_open_crypto (op_mime op) acc mid oc) s1 = (Returned (Inr r), s')"
    by (auto simp: open_crypto_message_def io_bind_Inr_iff)
  let ?row = "build_crypto_result_row (ol_db s1) acc mid oc"
  from f have up: "upsert_message_crypto_result ?row (ol_db s1) = (Returned (Inr ()), ol_db s')" and row: "or_crypto_result r = ?row"
    by (auto simp: in_store_def on_db_def finish_open_crypto_def Let_def io_bind_Inr_iff lifted_Inr_iff split: prod.splits)
  have "?row \<in> set (t_crypto_results (ol_db s'))" by (rule upsert_result_stored [OF up])
  moreover have "cr_revocation_state ?row
      = (if oc_signature_state oc \<in> {ValidVerified, ValidUnverified, Mismatch} then ''good'' else ''unchecked'')"
    by (cases "oc_signature_state oc") (simp_all add: build_crypto_result_row_def)
  moreover have "cr_account ?row = acc" "cr_message ?row = mid" "cr_signature_state ?row = signature_text (oc_signature_state oc)"
    by (simp_all add: build_crypto_result_row_def)
  ultimately show ?thesis using d row by auto
qed

section \<open>Witnesses\<close>

text \<open>A message whose signature structure, \<open>[2]\<close>, embeds the content \<open>[7]\<close>, and an account that trusts the root \<open>[8]\<close>.\<close>

definition anchor_row :: crypto_key_row where
  "anchor_row = (sample_row ''k0'' ''a1'' 0)\<lparr>ck_standard := ''smime'', ck_public_data := ''08''\<rparr>"

definition open_db :: "u8 list option \<Rightarrow> db" where
  "open_db signed_part = key_db\<lparr>t_crypto_keys := [anchor_row],
     t_messages := [\<lparr>ms_account = ''a1'', ms_id = ''m1'', ms_thread = ''t1'', ms_is_read = 0, ms_is_starred = 0,
       ms_content = blank_message\<lparr>mc_from_address := Some ''a@x''\<rparr>\<rparr>],
     t_bodies := [\<lparr>mb_account = ''a1'', mb_message = ''m1'', mb_html = None, mb_fetched_at = 0, mb_ciphertext = Some [2],
       mb_signed_part = signed_part\<rparr>]\<rparr>"

definition sample_opener :: "(nat, u8 list, unit, u8 list, u8 list, u8 list, string, unit, unit) opener" where
  "sample_opener = \<lparr>op_smime = sample_smime, op_keys = sample_env ''k1'', op_net = sample_fetcher, op_client = Inr (),
     op_x509 = (\<lambda>_. None), op_mime = (\<lambda>_. None)\<rparr>"

definition sample_verdict :: "u8 list \<Rightarrow> verify_outcome" where
  "sample_verdict plain = \<lparr>vo_plaintext = Some plain, vo_signature_state = ValidUnverified, vo_signer_fp = Some ''ab'',
     vo_signer_email = Some ''a@x'', vo_failure_reason = None, vo_revocation_reason = None\<rparr>"

lemma open_db_ok [simp]: "healthy (open_db p)" "signed_part_of ''a1'' ''m1'' (open_db p) = p"
    "ciphertext_of ''a1'' ''m1'' (open_db p) = Some [2]" "from_address_of ''a1'' ''m1'' (open_db p) = Some ''a@x''"
  by (simp_all add: healthy_def open_db_def key_db_def empty_db_def signed_part_of_def ciphertext_of_def body_of_def body_key_def
      from_address_of_def)

lemma sample_steps:
  "extract_intermediates sample_asn1 [2] = Inr []"
  "in_store (stored_intermediates (sample_env ''k1'') ''a1'') \<lparr>ol_db = open_db p, ol_net = n\<rparr>
    = (Returned (Inr []), \<lparr>ol_db = open_db p, ol_net = n\<rparr>)"
  "in_store (list_trust_anchor_certs (sample_env ''k1'') ''a1'') \<lparr>ol_db = open_db p, ol_net = n\<rparr>
    = (Returned (Inr [[8]]), \<lparr>ol_db = open_db p, ol_net = n\<rparr>)"
  "in_store (resolve_signer_trust (sample_env ''k1'') ''a1'' fp (Some ''a@x'')) \<lparr>ol_db = open_db p, ol_net = n\<rparr>
    = (Returned (Inr Undecided), \<lparr>ol_db = open_db p, ol_net = n\<rparr>)"
  "resolve_crls ft (\<lambda>_. None) ders = io_ret []"
proof -
  have hex: "co_hex_decode hex_coder ''08'' = Inr [8]" by code_simp
  have keys: "t_crypto_keys (open_db p) = [anchor_row]" "t_trust_decisions (open_db p) = []"
    by (simp_all add: open_db_def key_db_def empty_db_def)
  have row: "ck_account anchor_row = ''a1''" "ck_standard anchor_row = ''smime''" "ck_key_type anchor_row = ''cert''"
    "ck_public_data anchor_row = ''08''" "ck_private_data_enc anchor_row = None"
    by (simp_all add: anchor_row_def sample_row_def)
  have env: "ke_scan (sample_env ''k1'') = rev" "va_coder (ke_vault (sample_env ''k1'')) = hex_coder"
    by (simp_all add: sample_env_def sample_vault_def)
  note s = in_store_def on_db_def db_query_healthy io_bind_def io_ret_def io_try_def keys row env hex
  show "extract_intermediates sample_asn1 [2] = Inr []" by code_simp
  show "in_store (stored_intermediates (sample_env ''k1'') ''a1'') \<lparr>ol_db = open_db p, ol_net = n\<rparr>
    = (Returned (Inr []), \<lparr>ol_db = open_db p, ol_net = n\<rparr>)"
    by (simp add: stored_intermediates_def list_intermediate_certs_def certs_of_type_def s)
  show "in_store (list_trust_anchor_certs (sample_env ''k1'') ''a1'') \<lparr>ol_db = open_db p, ol_net = n\<rparr>
    = (Returned (Inr [[8]]), \<lparr>ol_db = open_db p, ol_net = n\<rparr>)"
    by (simp add: list_trust_anchor_certs_def certs_of_type_def s)
  show "in_store (resolve_signer_trust (sample_env ''k1'') ''a1'' fp (Some ''a@x'')) \<lparr>ol_db = open_db p, ol_net = n\<rparr>
    = (Returned (Inr Undecided), \<lparr>ol_db = open_db p, ol_net = n\<rparr>)"
    by (cases fp) (simp_all add: resolve_signer_trust_def is_own_key_def list_crypto_keys_for_account_def
        get_latest_trust_decision_def row_to_crypto_key_def latest_decision_def s)
  have "concat (map (extract_crl_distribution_points (\<lambda>_. None)) ders) = []"
    by (induction ders) (simp_all add: extract_crl_distribution_points_def)
  then show "resolve_crls ft (\<lambda>_. None) ders = io_ret []" unfolding resolve_crls_def by (simp only: fetch_all.simps)
qed

definition sample_result :: verification_result where
  "sample_result = \<lparr>vr_state = ValidUnverified, vr_signer = Some (signer_ref ''ab''), vr_failure_reason = None, vr_revocation_reason = None\<rparr>"

lemma sample_smime_verify: "verify_signed (sm_asn1 sample_smime) (sm_prims sample_smime) [2] covered = Inr sample_check"
proof -
  let ?p = "sample_primitives\<lparr>pr_p256_private := \<lambda>_. Inr ()\<rparr>"
  have "pr_digest ?p = pr_digest sample_primitives" "pr_p256_key ?p = pr_p256_key sample_primitives"
    "pr_p384_key ?p = pr_p384_key sample_primitives" "pr_rsa_key ?p = pr_rsa_key sample_primitives"
    "pr_p256_verify ?p = pr_p256_verify sample_primitives" "pr_p384_verify ?p = pr_p384_verify sample_primitives"
    "pr_pkcs1_verify ?p = pr_pkcs1_verify sample_primitives" "pr_pss_verify ?p = pr_pss_verify sample_primitives"
    by simp_all
  then have "verify_signed sample_asn1 ?p [2] covered = verify_signed sample_asn1 sample_primitives [2] covered"
    unfolding verify_signed_def compute_content_digest_def verify_signer_signature_def verify_ecdsa_signature_def
      verify_rsa_pkcs1v15_signature_def verify_rsa_pss_signature_def by (simp only:)
  then show ?thesis by (simp add: sample_smime_def sample_verify(2))
qed

lemma sample_verdicts:
  "smime_verify sample_smime (envelope_of [2] covered) = Inr sample_result"
  "verify_with_context sample_smime (envelope_of [2] covered) (Some ''a@x'') [[8]] [] [] Undecided = Returned (Inr sample_result)"
proof -
  have check: "check_signed sample_smime (envelope_of [2] covered) = Inr (Some sample_check)"
    using sample_smime_verify by (simp add: check_signed_def envelope_of_def)
  show "smime_verify sample_smime (envelope_of [2] covered) = Inr sample_result"
    by (simp add: smime_verify_def check sample_check_def result_of_state_def sample_result_def)
  have chain: "validate_signer_chain sample_pkix [9] [] [[8]] (Some ''a@x'') 0 [] = Returned
      \<lparr>co_chain_valid = True, co_identity_match = True, co_revocation_state = RevUnchecked, co_failure_reason = None, co_revocation_reason = None\<rparr>"
    by code_simp
  have fields: "sm_pkix sample_smime = sample_pkix" "sm_now sample_smime = 0" by (simp_all add: sample_smime_def)
  show "verify_with_context sample_smime (envelope_of [2] covered) (Some ''a@x'') [[8]] [] [] Undecided = Returned (Inr sample_result)"
    by (simp add: verify_with_context_def check) (simp add: sample_check_def fields chain state_of_outcome_def may_encrypt_to_def sample_result_def)
qed

lemma sample_run:
  "run_verify_path sample_opener ''a1'' [2] (Some ''a@x'') (Some plain) \<lparr>ol_db = open_db p, ol_net = 0\<rparr>
    = (Returned (Inr (sample_verdict plain)), \<lparr>ol_db = open_db p, ol_net = 0\<rparr>)"
proof -
  have op: "op_smime sample_opener = sample_smime" "op_keys sample_opener = sample_env ''k1''" "op_x509 sample_opener = (\<lambda>_. None)"
    "sm_asn1 sample_smime = sample_asn1" by (simp_all add: sample_opener_def sample_smime_def)
  have fp: "fingerprint_new ''ab'' = ''ab''" by code_simp
  have out: "verify_outcome_of sample_asn1 [2] (Some ''a@x'') (Some plain) sample_result sample_result = sample_verdict plain"
    by (simp add: verify_outcome_of_def sample_result_def sample_verdict_def or_else_def signer_fp_of_def signer_ref_def fp)
  have merge: "merge_intermediates_by_fingerprint sample_asn1 [] [] = []" by (simp add: merge_intermediates_by_fingerprint_def)
  show ?thesis
    unfolding run_verify_path_def Let_def op sample_steps(1,5) sample_verdicts(1)
    by (simp add: io_bind_def io_lift_def merge sample_steps sample_verdicts io_map_error_def io_panicky_def io_ret_def out)
qed

abbreviation opened_at :: "u8 list \<Rightarrow> nat online" where
  "opened_at shown \<equiv> \<lparr>ol_db = open_db (Some shown), ol_net = 0\<rparr>"

definition sample_outcome :: "u8 list \<Rightarrow> crypto_outcome" where
  "sample_outcome shown = (outcome_of_verify ''signed'' ''n/a'' (sample_verdict [7]))\<lparr>oc_plaintext_mime := Some shown\<rparr>"

lemma sample_facts:
  "healthy (ol_db (opened_at shown))" "op_client sample_opener = Inr ()"
  "ciphertext_of ''a1'' ''m1'' (ol_db (opened_at shown)) = Some [2]" "signed_part_of ''a1'' ''m1'' (ol_db (opened_at shown)) = Some shown"
  "parse_signed (sm_asn1 (op_smime sample_opener)) [2] = Inr (sample_signed (Some [7]))" "sd_econtent (sample_signed (Some [7])) = Some [7]"
  "run_verify_path sample_opener ''a1'' [2] (from_address_of ''a1'' ''m1'' (ol_db (opened_at shown))) (Some [7]) (opened_at shown)
    = (Returned (Inr (sample_verdict [7])), opened_at shown)"
  using sample_run [of "[7]" "Some shown"]
  by (simp_all add: sample_opener_def sample_smime_def sample_asn1_def parse_signed_def parse_content_def sample_signed_def)

lemma sample_open: "decrypt_message_with_outcome sample_opener ''a1'' ''m1'' (opened_at shown) = (Returned (Inr (sample_outcome shown)), opened_at shown)"
  unfolding sample_outcome_def by (rule open_embedded [OF sample_facts])

lemma embedded_content_vouches_for_any_text_witness:
  "decrypt_message_with_outcome sample_opener ''a1'' ''m1'' (opened_at [66])
    = (Returned (Inr ((outcome_of_verify ''signed'' ''n/a'' (sample_verdict [7]))\<lparr>oc_plaintext_mime := Some [66]\<rparr>)), opened_at [66])
    \<and> vo_signature_state (sample_verdict [7]) = ValidUnverified"
  using embedded_content_vouches_for_any_text [OF sample_facts, of "[66]"] by (simp add: sample_verdict_def)


lemma stored_revocation_state_witness:
  "\<exists>r s'. open_crypto_message sample_opener ''a1'' ''m1'' (opened_at [66]) = (Returned (Inr r), s')
    \<and> or_crypto_result r \<in> set (t_crypto_results (ol_db s')) \<and> cr_revocation_state (or_crypto_result r) = ''good''"
proof -
  let ?row = "build_crypto_result_row (open_db (Some [66])) ''a1'' ''m1'' (sample_outcome [66])"
  have row: "crypto_result_valid ?row" "cr_account ?row = ''a1''" "cr_message ?row = ''m1''"
    by (simp_all add: build_crypto_result_row_def crypto_result_valid_def sample_outcome_def outcome_of_verify_def sample_verdict_def)
  have db: "t_crypto_results (open_db p) = []" "has_message (open_db p) ''a1'' ''m1''" for p
    by (simp_all add: open_db_def key_db_def empty_db_def has_message_def)
  have plain: "(case oc_plaintext_mime (sample_outcome [66]) of Some bytes \<Rightarrow> parse_plaintext_mime (op_mime sample_opener) bytes
      | None \<Rightarrow> (None, None, [])) = (None, None, [])"
    by (simp add: parse_plaintext_mime_def sample_opener_def split: option.split)
  have "upsert_message_crypto_result ?row (open_db (Some [66]))
      = (Returned (Inr ()), (open_db (Some [66]))\<lparr>t_crypto_results := [?row]\<rparr>)"
    by (simp add: upsert_message_crypto_result_def db_stmt_healthy io_bind_def row db io_ret_def)
  then obtain r s' where open': "open_crypto_message sample_opener ''a1'' ''m1'' (opened_at [66]) = (Returned (Inr r), s')"
    by (simp add: open_crypto_message_def io_bind_def sample_open in_store_def on_db_def finish_open_crypto_def io_ret_def Let_def
        plain split: prod.splits)
  from stored_revocation_state [OF open'] sample_open show ?thesis
    by (intro exI [of _ r] exI [of _ s'])
       (auto simp: open' sample_outcome_def outcome_of_verify_def sample_verdict_def)
qed

end
