(* ===== verification/Signer_Details.thy ===== *)
theory Signer_Details
  imports Crypto_Open
begin

text \<open>
  The details of a signer that \<open>mail/crypto.rs\<close> shows for an opened message, and what becomes of the revocation check
  when the signer is named by a key identifier.
\<close>

section \<open>Summaries\<close>

record cert_summary =
  su_subject_cn :: "string option"
  su_issuer_cn :: "string option"
  su_serial_hex :: string
  su_not_before_unix :: int
  su_not_after_unix :: int
  su_public_key_algorithm_oid :: string

definition first_text :: "string option list \<Rightarrow> string option" where
  "first_text cns = (case cns of [] \<Rightarrow> None | cn # _ \<Rightarrow> cn)"

definition summarize_cert :: "(u8 list \<Rightarrow> x509 option) \<Rightarrow> u8 list \<Rightarrow> cert_summary option" where
  "summarize_cert parse der =
     map_option (\<lambda>cert. \<lparr>su_subject_cn = first_text (xc_subject_cns cert), su_issuer_cn = first_text (xc_issuer_cns cert),
       su_serial_hex = to_hex_lower (xc_serial cert), su_not_before_unix = xc_not_before cert,
       su_not_after_unix = xc_not_after cert, su_public_key_algorithm_oid = xc_key_oid cert\<rparr>) (parse der)"

definition failure_reason_for_state :: "string \<Rightarrow> string option" where
  "failure_reason_for_state state =
     (if state = ''invalid'' then Some (''Signature did not verify '' @ utf8_em_dash @ '' content may have been altered.'')
      else if state = ''mismatch'' then Some ''Signer identity does not match the message From header.''
      else if state = ''unknown-key'' then Some ''Signer certificate is not in your keyring.''
      else if state = ''valid-unverified'' then Some ''Signature valid, but the chain does not root in a trusted anchor.''
      else None)"

text \<open>The first certificate that issuer and serial number name and that encodes.\<close>

fun leaf_der :: "certificate_choice list \<Rightarrow> signer_identifier \<Rightarrow> u8 list option" where
  "leaf_der [] sid = None"
| "leaf_der (OtherChoice # cs) sid = leaf_der cs sid"
| "leaf_der (CertChoice c # cs) sid =
     (case (sid = IssuerAndSerial (ct_issuer c) (ct_serial c), ct_der c) of
        (True, Inr der) \<Rightarrow> Some der
      | _ \<Rightarrow> leaf_der cs sid)"

definition extract_signer_leaf :: "asn1 \<Rightarrow> u8 list \<Rightarrow> (u8 list \<times> string) option" where
  "extract_signer_leaf a signed_data_der =
     (case parse_signed a signed_data_der of
        Inl _ \<Rightarrow> None
      | Inr sd \<Rightarrow>
          (case (sd_certificates sd, sd_signer_infos sd) of
             (Some certs, si # _) \<Rightarrow> map_option (\<lambda>der. (der, ai_oid (si_signature_alg si))) (leaf_der certs (si_sid si))
           | _ \<Rightarrow> None))"

section \<open>Details\<close>

record signer_cert_details =
  sc_summary :: cert_summary
  sc_fingerprint :: string
  sc_signature_algorithm_oid :: string
  sc_signing_time_unix :: "int option"

record chain_path_entry =
  ce_subject_cn :: "string option"
  ce_issuer_cn :: "string option"
  ce_is_anchor :: bool

record signer_details =
  sx_signature_state :: string
  sx_decrypt_state :: string
  sx_crypto_kind :: string
  sx_chain_valid :: "bool option"
  sx_revocation_state :: string
  sx_verified_at :: string
  sx_trust_state :: string
  sx_signer :: "signer_cert_details option"
  sx_chain_path :: "chain_path_entry list"
  sx_failure_reason :: "string option"
  sx_revocation_reason :: "string option"

fun trust_text :: "trust_state \<Rightarrow> string" where
  "trust_text Rejected = ''rejected''"
| "trust_text Undecided = ''undecided''"
| "trust_text Unverified = ''unverified''"
| "trust_text Verified = ''verified''"
| "trust_text Personal = ''personal''"

definition path_entries :: "(u8 list \<Rightarrow> x509 option) \<Rightarrow> bool \<Rightarrow> u8 list list \<Rightarrow> chain_path_entry list" where
  "path_entries parse is_anchor ders =
     List.map_filter (\<lambda>der. map_option (\<lambda>s. \<lparr>ce_subject_cn = su_subject_cn s, ce_issuer_cn = su_issuer_cn s, ce_is_anchor = is_anchor\<rparr>)
       (summarize_cert parse der)) ders"

definition signer_of :: "asn1 \<Rightarrow> (u8 list \<Rightarrow> x509 option) \<Rightarrow> crypto_result_row \<Rightarrow> u8 list option \<Rightarrow> signer_cert_details option" where
  "signer_of a parse row signed_data_der =
     Option.bind (Option.bind signed_data_der (extract_signer_leaf a)) (\<lambda>(leaf, sig_alg_oid).
       map_option (\<lambda>s. \<lparr>sc_summary = s, sc_fingerprint = opt_or [] (cr_signer_fingerprint row),
         sc_signature_algorithm_oid = sig_alg_oid, sc_signing_time_unix = None\<rparr>) (summarize_cert parse leaf))"

definition get_signer_details ::
  "('n, 'pub, 'priv, 'cert, 'anchor, 'crl, 'mailbox, 'key, 'p) opener \<Rightarrow> string \<Rightarrow> string \<Rightarrow> (db, string, signer_details option) io" where
  "get_signer_details op acc mid =
     (let a = sm_asn1 (op_smime op); parse = op_x509 op
      in io_bind (get_message_crypto_result acc mid) (\<lambda>found.
         case found of
           None \<Rightarrow> io_ret None
         | Some row \<Rightarrow>
             io_bind (get_message_ciphertext acc mid) (\<lambda>ciphertext.
             io_bind (get_message_signed_part acc mid) (\<lambda>signed_part.
             io_bind (message_from_address acc mid) (\<lambda>from_address.
             let signed_data_der = (if signed_part \<noteq> None \<or> cr_crypto_kind row = ''signed'' then ciphertext else None);
                 intermediates = (case map_option (extract_intermediates a) signed_data_der of Some (Inr ders) \<Rightarrow> ders | _ \<Rightarrow> [])
             in io_bind (list_trust_anchor_certs (op_keys op) acc) (\<lambda>anchors.
                io_bind (resolve_signer_trust (op_keys op) acc (cr_signer_fingerprint row) from_address) (\<lambda>trust_state.
                io_ret (Some \<lparr>sx_signature_state = cr_signature_state row, sx_decrypt_state = cr_decrypt_state row,
                  sx_crypto_kind = cr_crypto_kind row, sx_chain_valid = map_option (\<lambda>n. n \<noteq> 0) (cr_chain_valid row),
                  sx_revocation_state = cr_revocation_state row, sx_verified_at = cr_verified_at row,
                  sx_trust_state = trust_text trust_state, sx_signer = signer_of a parse row signed_data_der,
                  sx_chain_path = path_entries parse False intermediates @ path_entries parse True anchors,
                  sx_failure_reason = or_else (cr_failure_reason row) (failure_reason_for_state (cr_signature_state row)),
                  sx_revocation_reason = cr_revocation_reason row\<rparr>))))))))"

text \<open>Asking for the details changes nothing.\<close>

lemma reads_get_signer_details: "reads (get_signer_details op acc mid)"
  by (auto simp: get_signer_details_def get_message_crypto_result_def get_message_ciphertext_def get_message_signed_part_def
      message_from_address_def Let_def split: option.split intro!: reads_rules reads_stored reads_trust)

lemma bind_still: "snd (m s) = s \<Longrightarrow> (\<And>x. snd (f x s) = s) \<Longrightarrow> snd (io_bind m f s) = s"
  by (auto simp: io_bind_def split: prod.splits panicky.splits sum.splits)

lemma still_pure: "snd (io_lift r s) = s" "snd (io_ret x s) = s" "snd (io_panicky p s) = s" "snd (io_map_error g m s) = snd (m s)"
  by (simp_all add: io_lift_def io_ret_def io_map_error_def io_panicky_def split: prod.split panicky.split)

section \<open>A signer named by a key identifier\<close>

lemma named_cert_ski: "named_cert certs (SubjectKeyId ski) = None"
  by (induction certs "SubjectKeyId ski" rule: named_cert.induct) auto

lemma crl_cert_ders_ski:
  "parse_signed a der = Inr sd \<Longrightarrow> first_sid sd = Some (SubjectKeyId ski) \<Longrightarrow> crl_cert_ders a der intermediates = intermediates"
  by (simp add: crl_cert_ders_def named_cert_ski split: option.split)

lemma leaf_der_ski: "leaf_der certs (SubjectKeyId ski) = None"
  by (induction certs "SubjectKeyId ski" rule: leaf_der.induct) (auto split: sum.split bool.split)

text \<open>The signature check accepts a signer that is named by its subject key identifier, but the search for revocation lists
  knows only issuer and serial number. With such a signer, and no intermediate certificate at hand, opening a signature
  goes as if the certificates named no distribution point: no revocation list is fetched or taken from the cache, so the
  signer's revocation is not noticed, and the details of the signature show no signer.
\<close>

lemma key_identifier_skips_revocation:
  assumes "healthy (ol_db s)"
    and "parse_signed (sm_asn1 (op_smime op)) der = Inr sd" and "first_sid sd = Some (SubjectKeyId ski)"
    and "extract_intermediates (sm_asn1 (op_smime op)) der = Inr []"
    and "stored_intermediates (op_keys op) acc (ol_db s) = (Returned (Inr []), ol_db s)"
  shows "run_verify_path op acc der from_email covered s = run_verify_path (op\<lparr>op_x509 := (\<lambda>_. None)\<rparr>) acc der from_email covered s
    \<and> ol_net (snd (run_verify_path op acc der from_email covered s)) = ol_net s
    \<and> t_crls (ol_db (snd (run_verify_path op acc der from_email covered s))) = t_crls (ol_db s)
    \<and> extract_signer_leaf (sm_asn1 (op_smime op)) der = None"
proof -
  have stored: "in_store (stored_intermediates (op_keys op) acc) s = (Returned (Inr []), s)"
    using assms(5) by (simp add: in_store_def on_db_def)
  have merge: "merge_intermediates_by_fingerprint a [] [] = []" for a by (simp add: merge_intermediates_by_fingerprint_def)
  have crls: "resolve_crls ft parse [] = io_ret []" for ft :: "'a fetcher" and parse by (simp add: resolve_crls_def)
  note step = run_verify_path_def Let_def stored merge crls crl_cert_ders_ski [OF assms(2,3)] assms(4)
  let ?run = "run_verify_path op acc der from_email covered"
  have eq: "?run s = run_verify_path (op\<lparr>op_x509 := (\<lambda>_. None)\<rparr>) acc der from_email covered s"
    by (simp add: step io_bind_def io_lift_def)
  have rest: "snd (?run s) = s"
  proof -
    have first: "io_bind (in_store (stored_intermediates (op_keys op) acc)) f s = f [] s" for f :: "_ \<Rightarrow> ('a, verify_outcome) online_io"
      by (simp add: io_bind_def stored)
    have anchors: "snd (in_store (list_trust_anchor_certs (op_keys op) acc) s) = s"
      using in_store_reads [OF reads_stored(2) assms(1)] by (metis prod.collapse)
    have trust: "snd (in_store (resolve_signer_trust (op_keys op) acc fp from_email) s) = s" for fp
      using in_store_reads [OF reads_trust assms(1)] by (metis prod.collapse)
    show ?thesis
      by (simp add: step first) (intro bind_still; simp add: anchors trust still_pure)
  qed
  have "sd_signer_infos sd = [] \<or> (\<exists>si sis. sd_signer_infos sd = si # sis \<and> si_sid si = SubjectKeyId ski)"
    using assms(3) by (auto simp: first_sid_def split: list.splits)
  then have "extract_signer_leaf (sm_asn1 (op_smime op)) der = None"
    using assms(2) by (auto simp: extract_signer_leaf_def leaf_der_ski split: option.split)
  with eq rest show ?thesis by simp
qed

section \<open>Witnesses\<close>

text \<open>The sample signature, by a signer named with the key identifier \<open>[4]\<close>; the certificates have a distribution point.\<close>

definition ski_signed :: signed_data where
  "ski_signed = (sample_signed None)\<lparr>sd_certificates := Some [CertChoice (sample_cert\<lparr>ct_ski_ext := Inr (Some [4])\<rparr>)],
     sd_signer_infos := map (si_sid_update (\<lambda>_. SubjectKeyId [4])) (sd_signer_infos (sample_signed None))\<rparr>"

definition ski_opener :: "(nat, u8 list, unit, u8 list, u8 list, u8 list, string, unit, unit) opener" where
  "ski_opener = sample_opener\<lparr>op_smime := sample_smime\<lparr>sm_asn1 := sample_asn1\<lparr>as_signed_data := (\<lambda>_. Inr ski_signed)\<rparr>\<rparr>,
     op_x509 := (\<lambda>_. Some \<lparr>xc_extensions = [CrlDistributionPoints [Some [UriName ''http://ca.example/crl'']]], xc_subject_cns = [],
       xc_issuer_cns = [], xc_serial = [], xc_not_before = 0, xc_not_after = 0, xc_key_oid = []\<rparr>)\<rparr>"

lemma key_identifier_skips_revocation_witness:
  "run_verify_path ski_opener ''a1'' [1] (Some ''a@x'') (Some [7]) (opened_at [7])
      = run_verify_path (ski_opener\<lparr>op_x509 := (\<lambda>_. None)\<rparr>) ''a1'' [1] (Some ''a@x'') (Some [7]) (opened_at [7])
    \<and> ol_net (snd (run_verify_path ski_opener ''a1'' [1] (Some ''a@x'') (Some [7]) (opened_at [7]))) = ol_net (opened_at [7])
    \<and> t_crls (ol_db (snd (run_verify_path ski_opener ''a1'' [1] (Some ''a@x'') (Some [7]) (opened_at [7])))) = t_crls (ol_db (opened_at [7]))
    \<and> extract_signer_leaf (sm_asn1 (op_smime ski_opener)) [1] = None"
proof (rule key_identifier_skips_revocation)
  show "healthy (ol_db (opened_at [7]))" by (rule sample_facts(1))
  show parse: "parse_signed (sm_asn1 (op_smime ski_opener)) [1] = Inr ski_signed"
    by (simp add: ski_opener_def parse_signed_def parse_content_def sample_asn1_def)
  show "first_sid ski_signed = Some (SubjectKeyId [4])"
    by (simp add: ski_signed_def sample_signed_def first_sid_def)
  show "extract_intermediates (sm_asn1 (op_smime ski_opener)) [1] = Inr []"
    unfolding extract_intermediates_def parse by (simp add: ski_signed_def sample_signed_def first_sid_def cert_matches_signer_id_def)
  show "stored_intermediates (op_keys ski_opener) ''a1'' (ol_db (opened_at [7])) = (Returned (Inr []), ol_db (opened_at [7]))"
    using sample_steps(2) [of "Some [7]" "0 :: nat"]
    by (auto simp: ski_opener_def sample_opener_def in_store_def on_db_def split: prod.splits)
qed

end
