(* ===== verification/Crypto_Send.thy ===== *)
theory Crypto_Send
  imports Crypto_Open Mutations
begin

text \<open>
  The send half of \<open>mail/crypto.rs\<close>: \<open>apply_crypto\<close>, which signs, encrypts or both what the MIME builder made, with the
  choice and the check of the recipients' certificates.
\<close>

section \<open>Signer and recipients\<close>

definition missing_recipient_msg :: "standard \<Rightarrow> string \<Rightarrow> string" where
  "missing_recipient_msg std email =
     ''no '' @ (case std of Smime \<Rightarrow> ''S/MIME cert'' | OpenPgp \<Rightarrow> ''OpenPGP key'' | Sm \<Rightarrow> ''SM cert'') @ '' for recipient '' @ email"

definition key_handle_ref_of :: "default_key_row \<Rightarrow> key_handle_ref" where
  "key_handle_ref_of row =
     (let std = (if dk_standard row = ''smime'' then Smime else if dk_standard row = ''openpgp'' then OpenPgp
                 else if dk_standard row = ''sm'' then Sm else Smime)
      in \<lparr>kr_handle = Software (dk_standard row @ ''|'' @ dk_fingerprint row), kr_standard = std,
          kr_fingerprint = fingerprint_new (dk_fingerprint row), kr_usage = SignAndEncrypt,
          kr_algorithm = (case std of Smime \<Rightarrow> ''ECDSA-P256'' | OpenPgp \<Rightarrow> ''default'' | Sm \<Rightarrow> ''unknown'')\<rparr>)"

definition signer_of_draft :: "send_draft \<Rightarrow> default_key_row option \<Rightarrow> crypto_send_error + key_handle_ref option" where
  "signer_of_draft draft default_signing_key =
     (if dr_sign draft
      then (case default_signing_key of None \<Rightarrow> Inl NoSigningKey | Some row \<Rightarrow> Inr (Some (key_handle_ref_of row)))
      else Inr None)"

definition recipient_emails :: "string \<Rightarrow> send_draft \<Rightarrow> string list" where
  "recipient_emails account_email draft =
     account_email # map as_email (dr_to draft) @ map as_email (dr_cc draft) @ map as_email (dr_bcc draft)"

fun find_recipients :: "'s key_store \<Rightarrow> standard \<Rightarrow> string list \<Rightarrow> ('s, crypto_send_error, key_handle_ref list) io" where
  "find_recipients ks std [] = io_ret []"
| "find_recipients ks std (email # emails) =
     io_bind (io_map_error SendBackend (ks_find_by_email ks std email)) (\<lambda>handles.
     case handles of
       [] \<Rightarrow> io_fail (MissingRecipientCert (missing_recipient_msg std email))
     | h # _ \<Rightarrow> io_bind (find_recipients ks std emails) (\<lambda>hs. io_ret (h # hs)))"

fun export_certs :: "'s crypto_backend \<Rightarrow> key_handle_ref list \<Rightarrow> ('s, crypto_send_error, u8 list list) io" where
  "export_certs backend [] = io_ret []"
| "export_certs backend (h # hs) =
     io_bind (io_map_error SendBackend (cb_export_public backend (kr_handle h))) (\<lambda>der.
     io_bind (export_certs backend hs) (\<lambda>ders. io_ret (der # ders)))"

fun check_recipient_certs :: "('cert, 'anchor, 'crl, 'mailbox, 'key, 'p) pkix \<Rightarrow> nat \<Rightarrow> u8 list list \<Rightarrow> u8 list list \<Rightarrow> u64 \<Rightarrow> (string + unit) panicky" where
  "check_recipient_certs px i [] trust_anchor_ders now_unix = Returned (Inr ())"
| "check_recipient_certs px i (cert_der # cert_ders) trust_anchor_ders now_unix =
     (case validate_signer_chain px cert_der [] trust_anchor_ders None now_unix [] of
        Panicked \<Rightarrow> Panicked
      | Returned outcome \<Rightarrow>
          if \<not> co_chain_valid outcome
          then Returned (Inl (''recipient cert #'' @ dec_string i @ '' invalid: '' @ opt_or ''(no failure reason)'' (co_failure_reason outcome)))
          else check_recipient_certs px (Suc i) cert_ders trust_anchor_ders now_unix)"

definition validate_recipient_certs :: "('cert, 'anchor, 'crl, 'mailbox, 'key, 'p) pkix \<Rightarrow> u8 list list \<Rightarrow> u8 list list \<Rightarrow> u64 \<Rightarrow> (string + unit) panicky" where
  "validate_recipient_certs px recipient_cert_ders trust_anchor_ders now_unix =
     check_recipient_certs px 0 recipient_cert_ders trust_anchor_ders now_unix"

section \<open>Protecting a message\<close>

text \<open>What the function takes from its surroundings: the encoder of base64, the path validation of the S/MIME engine and
  the key table.\<close>

record ('cert, 'anchor, 'crl, 'mailbox, 'key, 'p) protector =
  pt_b64 :: "u8 list \<Rightarrow> string"
  pt_pkix :: "('cert, 'anchor, 'crl, 'mailbox, 'key, 'p) pkix"
  pt_keys :: key_env

definition with_outer :: "string \<Rightarrow> u8 list \<Rightarrow> u8 list" where
  "with_outer outer entity = as_bytes outer @ crlf @ entity"

definition sm_not_implemented :: crypto_send_error where
  "sm_not_implemented = SendBackend (UnsupportedStandard ''sm not implemented'')"

definition checked_recipients ::
  "('cert, 'anchor, 'crl, 'mailbox, 'key, 'p) protector \<Rightarrow> db crypto_backend \<Rightarrow> standard \<Rightarrow> db key_store \<Rightarrow> string \<Rightarrow> string list
     \<Rightarrow> (db, crypto_send_error, key_handle_ref list) io" where
  "checked_recipients pr backend std ks acc emails =
     io_bind (find_recipients ks std emails) (\<lambda>recipients.
     if std \<noteq> Smime then io_ret recipients
     else io_bind (export_certs backend recipients) (\<lambda>ders.
          io_bind (io_map_error InvalidRecipientCert (list_trust_anchor_certs (pt_keys pr) acc)) (\<lambda>anchors d.
          io_bind (io_map_error InvalidRecipientCert (io_panicky (validate_recipient_certs (pt_pkix pr) ders anchors (now_epoch_secs d))))
            (\<lambda>_. io_ret recipients) d)))"

definition body_to_encrypt :: "u8 list \<Rightarrow> key_handle_ref list \<Rightarrow> key_handle_ref option \<Rightarrow> encrypt_op" where
  "body_to_encrypt entity recipients signer =
     \<lparr>eo_parts = [\<lparr>pt_id = ''body'', pt_kind = PartBody, pt_data = entity\<rparr>], eo_serialization = SingleMimeBlob,
      eo_recipients = recipients, eo_sign_with = signer\<rparr>"

definition encrypt_entity ::
  "('cert, 'anchor, 'crl, 'mailbox, 'key, 'p) protector \<Rightarrow> db crypto_backend \<Rightarrow> standard \<Rightarrow> db key_store \<Rightarrow> string \<Rightarrow> string list
     \<Rightarrow> u8 list \<Rightarrow> key_handle_ref option \<Rightarrow> (db, crypto_send_error, u8 list) io" where
  "encrypt_entity pr backend std ks acc emails entity signer =
     io_bind (checked_recipients pr backend std ks acc emails) (\<lambda>recipients.
     io_bind (io_map_error SendBackend (cb_encrypt backend (body_to_encrypt entity recipients signer))) (\<lambda>envl.
     case ee_parts envl of
       [] \<Rightarrow> io_panicky Panicked
     | part # _ \<Rightarrow>
         (case std of
            Smime \<Rightarrow> io_ret (wrap_enveloped (pt_b64 pr) (ep_ciphertext part) ''enveloped-data'')
          | OpenPgp \<Rightarrow> io_ret (wrap_pgp_encrypted (pt_b64 pr) (ep_ciphertext part))
          | Sm \<Rightarrow> io_fail sm_not_implemented)))"

definition sign_detached :: "'s crypto_backend \<Rightarrow> u8 list \<Rightarrow> key_handle_ref \<Rightarrow> ('s, crypto_send_error, u8 list) io" where
  "sign_detached backend payload signer =
     io_bind (io_map_error SendBackend (cb_sign backend \<lparr>so_payload = payload, so_signing_key = signer, so_detached = True\<rparr>)) (\<lambda>signed.
     io_ret (ds_signature (se_signature signed)))"

definition sign_entity ::
  "('cert, 'anchor, 'crl, 'mailbox, 'key, 'p) protector \<Rightarrow> 's crypto_backend \<Rightarrow> standard \<Rightarrow> u8 list \<Rightarrow> key_handle_ref
     \<Rightarrow> ('s, crypto_send_error, u8 list) io" where
  "sign_entity pr backend std entity signer =
     (case std of
        Smime \<Rightarrow>
          (let part1 = ensure_one_trailing_crlf entity
           in io_bind (sign_detached backend part1 signer) (\<lambda>der. io_ret (wrap_multipart_signed (pt_b64 pr) part1 der)))
      | OpenPgp \<Rightarrow>
          io_bind (io_lift (split_entity_for_pgp_signed entity)) (\<lambda>(content_type_value, body_bytes).
          let body_canonical = ensure_one_trailing_crlf body_bytes
          in io_bind (sign_detached backend (build_pgp_signed_region content_type_value body_canonical) signer) (\<lambda>sig.
             io_ret (wrap_pgp_signed (pt_b64 pr) body_canonical content_type_value sig Sha512)))
      | Sm \<Rightarrow> io_fail sm_not_implemented)"

definition apply_crypto ::
  "('cert, 'anchor, 'crl, 'mailbox, 'key, 'p) protector \<Rightarrow> db crypto_backend \<Rightarrow> standard \<Rightarrow> db key_store \<Rightarrow> u8 list \<Rightarrow> send_draft \<Rightarrow> string
     \<Rightarrow> default_key_row option \<Rightarrow> string \<Rightarrow> (db, crypto_send_error, u8 list) io" where
  "apply_crypto pr backend std ks mime draft account_email default_signing_key acc =
     (if \<not> dr_sign draft \<and> \<not> dr_encrypt draft then io_ret mime
      else io_bind (io_lift (split_message mime)) (\<lambda>(outer, entity).
           io_bind (io_lift (signer_of_draft draft default_signing_key)) (\<lambda>signer.
           if dr_encrypt draft
           then io_bind (encrypt_entity pr backend std ks acc (recipient_emails account_email draft) entity signer) (\<lambda>wrapped.
                io_ret (with_outer outer wrapped))
           else (case signer of
                   Some s \<Rightarrow> io_bind (sign_entity pr backend std entity s) (\<lambda>wrapped. io_ret (with_outer outer wrapped))
                 | None \<Rightarrow> io_ret (with_outer outer entity)))))"

end
