(* ===== verification/Protected_Mail.thy ===== *)
theory Protected_Mail
  imports Crypto_Send
begin

text \<open>
  What \<open>apply_crypto\<close> (\<open>Crypto_Send\<close>) guarantees of a message that goes out protected: whom it is encrypted to and that
  nothing of the entity goes out in the clear, and that the receiver of a signed message verifies it.
\<close>

section \<open>Looking up recipients\<close>

definition chosen :: "'s key_store \<Rightarrow> standard \<Rightarrow> 's \<Rightarrow> string \<Rightarrow> key_handle_ref \<Rightarrow> bool" where
  "chosen ks std s email h \<longleftrightarrow> (case ks_find_by_email ks std email s of (Returned (Inr (h' # _)), _) \<Rightarrow> h' = h | _ \<Rightarrow> False)"

lemma chosenI: "ks_find_by_email ks std email s = (Returned (Inr (h # hs)), s') \<Longrightarrow> chosen ks std s email h"
  by (simp add: chosen_def)

definition certified :: "'s key_store \<Rightarrow> 's \<Rightarrow> key_handle_ref \<Rightarrow> u8 list \<Rightarrow> bool" where
  "certified ks s h der \<longleftrightarrow>
     (case ks_get ks (kr_handle h) s of (Returned (Inr (Some k)), _) \<Rightarrow> sk_public_data k = der | _ \<Rightarrow> False)"

definition valid_recipient :: "('cert, 'anchor, 'crl, 'mailbox, 'key, 'p) pkix \<Rightarrow> u8 list list \<Rightarrow> u64 \<Rightarrow> u8 list \<Rightarrow> bool" where
  "valid_recipient px anchors now der \<longleftrightarrow>
     (case validate_signer_chain px der [] anchors None now [] of Returned out \<Rightarrow> co_chain_valid out | Panicked \<Rightarrow> False)"

lemma check_recipient_certs_iff:
  "check_recipient_certs px i ders anchors now = Returned (Inr ()) \<longleftrightarrow> list_all (valid_recipient px anchors now) ders"
  by (induction ders arbitrary: i) (auto simp: valid_recipient_def split: panicky.splits)

lemma reads_find: "reads (store_find_by_email e std email)"
  by (auto simp: store_find_by_email_def list_crypto_keys_for_email_def intro!: reads_rules)

lemma reads_sqlite: "reads (ks_find_by_email (sqlite_key_store e acc) std email)" "reads (ks_get (sqlite_key_store e acc) h)"
  by (simp_all add: sqlite_key_store_def reads_find reads_get)

lemma reads_stored_or: "reads (stored_or (sqlite_key_store e acc) h x)"
  by (auto simp: stored_or_def intro!: reads_rules reads_sqlite split: option.split)

lemma reads_map_error: "reads m \<Longrightarrow> io_map_error g m d = (Returned (Inr x), d') \<Longrightarrow> healthy d \<Longrightarrow> m d = (Returned (Inr x), d) \<and> d' = d"
  by (auto simp: io_map_error_def split: prod.splits panicky.splits dest: readsD)

lemma find_recipients_chosen:
  assumes "healthy d" and "find_recipients (sqlite_key_store e acc) std emails d = (Returned (Inr hs), d')"
  shows "d' = d \<and> list_all2 (chosen (sqlite_key_store e acc) std d) emails hs"
  using assms(2)
proof (induction emails arbitrary: hs d')
  case (Cons email emails)
  let ?ks = "sqlite_key_store e acc"
  from Cons.prems obtain handles s where look: "io_map_error SendBackend (ks_find_by_email ?ks std email) d = (Returned (Inr handles), s)"
    and rest: "(case handles of [] \<Rightarrow> io_fail (MissingRecipientCert (missing_recipient_msg std email))
       | h # _ \<Rightarrow> io_bind (find_recipients ?ks std emails) (\<lambda>hs. io_ret (h # hs))) s = (Returned (Inr hs), d')"
    by (auto simp: io_bind_Inr_iff)
  from reads_map_error [OF reads_sqlite(1) look assms(1)] rest show ?case
    using Cons.IH by (cases handles) (auto simp: io_bind_Inr_iff io_ret_def io_fail_def intro: chosenI)
qed (simp add: io_ret_def)

lemma export_certs_certified:
  assumes "healthy d" and "export_certs (smime_backend sm (sqlite_key_store e acc) pol) hs d = (Returned (Inr ders), d')"
  shows "d' = d \<and> list_all2 (certified (sqlite_key_store e acc) d) hs ders"
  using assms(2)
proof (induction hs arbitrary: ders d')
  case (Cons h hs)
  let ?ks = "sqlite_key_store e acc"
  have reads: "reads (smime_export_public ?ks (kr_handle h))"
    by (auto simp: smime_export_public_def intro!: reads_rules reads_stored_or)
  from Cons.prems obtain der ders' s where map: "io_map_error SendBackend (smime_export_public ?ks (kr_handle h)) d = (Returned (Inr der), s)"
    and rest: "export_certs (smime_backend sm ?ks pol) hs s = (Returned (Inr ders'), d')" "ders = der # ders'"
    by (auto simp: io_bind_Inr_iff io_ret_def smime_backend_def)
  from reads_map_error [OF reads map assms(1)] have exp: "smime_export_public ?ks (kr_handle h) d = (Returned (Inr der), d)" "s = d"
    by simp_all
  have "certified ?ks d h der"
    using exp(1) by (auto simp: smime_export_public_def stored_or_def io_bind_Inr_iff io_ret_def io_fail_def certified_def split: option.splits)
  with rest exp(2) Cons.IH show ?case by simp
qed (simp add: io_ret_def)

section \<open>Encryption\<close>

lemma checked_recipients_valid:
  assumes "healthy d"
    and "checked_recipients pr (smime_backend sm (sqlite_key_store e acc') pol) Smime (sqlite_key_store e acc') acc emails d = (Returned (Inr hs), d')"
  shows "d' = d \<and> (\<exists>ders anchors. list_all2 (chosen (sqlite_key_store e acc') Smime d) emails hs
    \<and> list_all2 (certified (sqlite_key_store e acc') d) hs ders
    \<and> list_trust_anchor_certs (pt_keys pr) acc d = (Returned (Inr anchors), d)
    \<and> list_all (valid_recipient (pt_pkix pr) anchors (now_epoch_secs d)) ders)"
proof -
  let ?ks = "sqlite_key_store e acc'" and ?b = "smime_backend sm (sqlite_key_store e acc') pol"
  from assms(2) obtain s1 ders s2 anchors s3 where found: "find_recipients ?ks Smime emails d = (Returned (Inr hs), s1)"
    and exported: "export_certs ?b hs s1 = (Returned (Inr ders), s2)"
    and trusted: "io_map_error InvalidRecipientCert (list_trust_anchor_certs (pt_keys pr) acc) s2 = (Returned (Inr anchors), s3)"
    and checked: "validate_recipient_certs (pt_pkix pr) ders anchors (now_epoch_secs s3) = Returned (Inr ())" and d': "d' = s3"
    by (auto simp: checked_recipients_def io_bind_Inr_iff lifted_Inr_iff)
  have s1: "s1 = d" "list_all2 (chosen ?ks Smime d) emails hs" using find_recipients_chosen [OF assms(1) found] by simp_all
  have s2: "s2 = d" "list_all2 (certified ?ks d) hs ders" using export_certs_certified [OF assms(1) exported [unfolded s1(1)]] by simp_all
  have s3: "list_trust_anchor_certs (pt_keys pr) acc d = (Returned (Inr anchors), d)" "s3 = d"
    using reads_map_error [OF reads_stored(2)] trusted s2(1) assms(1) by blast+
  with s1 s2 checked d' show ?thesis by (auto simp: validate_recipient_certs_def check_recipient_certs_iff)
qed

lemma recipient_inputs_certified:
  assumes "recipient_inputs sm ks hs d = (Returned (Inr inps), d')" and "list_all2 (certified ks d) hs ders"
    and "\<And>h. snd (ks_get ks h d) = d"
  shows "d' = d \<and> map (recipient_input_from_cert sm) ders = map Inr inps"
  using assms(2,1)
proof (induction hs ders arbitrary: inps d' rule: list_all2_induct)
  case (Cons h hs der ders)
  from Cons.hyps(1) assms(3) [of "kr_handle h"] obtain k where get: "ks_get ks (kr_handle h) d = (Returned (Inr (Some k)), d)"
    and der: "sk_public_data k = der"
    by (auto simp: certified_def split: prod.splits panicky.splits sum.splits option.splits)
  from Cons.prems get der obtain inp inps' where "recipient_input_from_cert sm der = Inr inp" "recipient_inputs sm ks hs d = (Returned (Inr inps'), d')"
    "inps = inp # inps'"
    by (auto simp: stored_or_def io_bind_Inr_iff io_ret_def io_lift_def)
  with Cons.IH show ?case by simp
qed (simp add: io_ret_def)

lemma reads_content: "reads (content_to_encrypt sm (sqlite_key_store e acc) plaintext signer)"
  by (auto simp: content_to_encrypt_def intro!: reads_rules reads_stored_or split: option.split)

lemma encrypted_entity:
  assumes "healthy d" and "list_all2 (certified (sqlite_key_store e acc) d) hs ders"
    and "smime_encrypt sm (sqlite_key_store e acc) (body_to_encrypt entity hs signer) d = (Returned (Inr envl), d')"
  shows "d' = d \<and> (\<exists>inputs content der. map (recipient_input_from_cert sm) ders = map Inr inputs
    \<and> content_to_encrypt sm (sqlite_key_store e acc) entity signer d = (Returned (Inr content), d)
    \<and> build_enveloped_data sm content inputs = Inr der
    \<and> ee_parts envl = [\<lparr>ep_id = ''body'', ep_kind = PartBody, ep_ciphertext = der, ep_signature = None\<rparr>])"
proof -
  let ?ks = "sqlite_key_store e acc"
  from assms(3) obtain inps s1 content s2 der where inps: "recipient_inputs sm ?ks hs d = (Returned (Inr inps), s1)"
    and content: "content_to_encrypt sm ?ks entity signer s1 = (Returned (Inr content), s2)"
    and der: "build_enveloped_data sm content inps = Inr der" "d' = s2"
      "ee_parts envl = [\<lparr>ep_id = ''body'', ep_kind = PartBody, ep_ciphertext = der, ep_signature = None\<rparr>]"
    by (auto simp: smime_encrypt_def body_to_encrypt_def io_bind_Inr_iff io_lift_def io_ret_def)
  have "snd (ks_get ?ks h d) = d" for h using reads_sqlite(2) assms(1) unfolding reads_def by blast
  then have s1: "s1 = d" "map (recipient_input_from_cert sm) ders = map Inr inps"
    using recipient_inputs_certified [OF inps assms(2)] by simp_all
  with content readsD [OF reads_content assms(1)] der show ?thesis by blast
qed

lemma encrypt_entity_smime:
  "encrypt_entity pr backend Smime ks acc emails entity signer =
     io_bind (checked_recipients pr backend Smime ks acc emails) (\<lambda>recipients.
     io_bind (io_map_error SendBackend (cb_encrypt backend (body_to_encrypt entity recipients signer))) (\<lambda>envl.
     case ee_parts envl of [] \<Rightarrow> io_panicky Panicked
     | part # _ \<Rightarrow> io_ret (wrap_enveloped (pt_b64 pr) (ep_ciphertext part) ''enveloped-data'')))"
  unfolding encrypt_entity_def standard.case ..

text \<open>C11. Encryption fails closed. When \<open>apply_crypto\<close> returns a message for a draft that asks for encryption, the sender and
  every address of To, Cc and Bcc has a certificate, the first one stored for it, each of these certificates chains to a
  trust anchor of the account, and what goes out is the outer headers with the one envelope that the engine built for
  exactly these certificates; the entity, signed first if the draft asks for it, goes nowhere else. Nothing is stored.\<close>

theorem encryption_fails_closed:
  assumes "healthy d" and "dr_encrypt draft"
    and "apply_crypto pr (smime_backend sm (sqlite_key_store e acc') pol) Smime (sqlite_key_store e acc') mime draft account_email key acc d
      = (Returned (Inr out), d')"
  shows "d' = d \<and> (\<exists>outer entity signer hs ders anchors inputs content der.
      split_message mime = Inr (outer, entity) \<and> signer_of_draft draft key = Inr signer
    \<and> list_all2 (chosen (sqlite_key_store e acc') Smime d)
        (account_email # map as_email (dr_to draft) @ map as_email (dr_cc draft) @ map as_email (dr_bcc draft)) hs
    \<and> list_all2 (certified (sqlite_key_store e acc') d) hs ders
    \<and> list_trust_anchor_certs (pt_keys pr) acc d = (Returned (Inr anchors), d)
    \<and> list_all (valid_recipient (pt_pkix pr) anchors (now_epoch_secs d)) ders
    \<and> map (recipient_input_from_cert sm) ders = map Inr inputs
    \<and> content_to_encrypt sm (sqlite_key_store e acc') entity signer d = (Returned (Inr content), d)
    \<and> build_enveloped_data sm content inputs = Inr der
    \<and> out = with_outer outer (wrap_enveloped (pt_b64 pr) der ''enveloped-data''))"
proof -
  let ?ks = "sqlite_key_store e acc'" and ?b = "smime_backend sm (sqlite_key_store e acc') pol"
  from assms(2,3) obtain outer entity signer wrapped where
    parts: "split_message mime = Inr (outer, entity)" "signer_of_draft draft key = Inr signer"
    and run: "encrypt_entity pr ?b Smime ?ks acc (recipient_emails account_email draft) entity signer d = (Returned (Inr wrapped), d')"
    and out: "out = with_outer outer wrapped"
    by (auto simp: apply_crypto_def io_bind_Inr_iff io_lift_def io_ret_def)
  from run obtain hs s1 envl s2 where
    hs: "checked_recipients pr ?b Smime ?ks acc (recipient_emails account_email draft) d = (Returned (Inr hs), s1)"
    and enc: "io_map_error SendBackend (cb_encrypt ?b (body_to_encrypt entity hs signer)) s1 = (Returned (Inr envl), s2)"
    and wrapped: "(case ee_parts envl of [] \<Rightarrow> io_panicky Panicked
      | part # _ \<Rightarrow> io_ret (wrap_enveloped (pt_b64 pr) (ep_ciphertext part) ''enveloped-data'')) s2 = ((Returned (Inr wrapped), d') :: (crypto_send_error + u8 list) panicky \<times> db)"
    unfolding encrypt_entity_smime io_bind_Inr_iff by blast
  obtain ders anchors where s1: "s1 = d" and list: "list_all2 (chosen ?ks Smime d) (recipient_emails account_email draft) hs"
    and certs: "list_all2 (certified ?ks d) hs ders" and trust: "list_trust_anchor_certs (pt_keys pr) acc d = (Returned (Inr anchors), d)"
      "list_all (valid_recipient (pt_pkix pr) anchors (now_epoch_secs d)) ders"
    using checked_recipients_valid [OF assms(1) hs] by blast
  have enc': "smime_encrypt sm ?ks (body_to_encrypt entity hs signer) d = (Returned (Inr envl), s2)"
    using enc s1 by (auto simp: smime_backend_def io_map_error_def map_err_Inr_iff split: prod.splits panicky.splits)
  from encrypted_entity [OF assms(1) certs enc'] obtain inputs content der where "s2 = d"
    and content: "map (recipient_input_from_cert sm) ders = map Inr inputs"
      "content_to_encrypt sm ?ks entity signer d = (Returned (Inr content), d)" "build_enveloped_data sm content inputs = Inr der"
    and "ee_parts envl = [\<lparr>ep_id = ''body'', ep_kind = PartBody, ep_ciphertext = der, ep_signature = None\<rparr>]"
    by blast
  with wrapped have w: "wrapped = wrap_enveloped (pt_b64 pr) der ''enveloped-data''" "d' = d" by (simp_all add: io_ret_def)
  show ?thesis using parts list certs trust content unfolding w out recipient_emails_def by blast
qed

section \<open>Signing\<close>

text \<open>What the receiver's parser makes of a clear-signed message: the parts of the wrapping, with the offsets that the code
  ascribes to the parser.\<close>

definition parsed_clear_signed :: "parsed_message \<Rightarrow> u8 list \<Rightarrow> nat \<Rightarrow> u8 list \<Rightarrow> u8 list \<Rightarrow> bool" where
  "parsed_clear_signed m raw before part1 der \<longleftrightarrow>
     pm_raw m = raw \<and> pm_content_type m = Some (''multipart'', Some ''signed'')
   \<and> (case pm_parts m of
        root # part_one # sig # _ \<Rightarrow>
          mp_body root = PartMultipart [1, 2] \<and> mp_body sig = PartBinary der
        \<and> mp_offset_header part_one = before + length signed_prologue
        \<and> mp_offset_end part_one = mp_offset_header part_one + (length part1 - 2)
      | _ \<Rightarrow> False)"

lemma parsed_clear_signed_extract:
  assumes "parsed_clear_signed m (with_outer outer (wrap_multipart_signed b64 (ensure_one_trailing_crlf entity) der))
    (length (as_bytes outer) + 2) (ensure_one_trailing_crlf entity) der"
  shows "extract_clear_signed_parts m = (Some (ensure_one_trailing_crlf entity), Some der)"
proof -
  from assms obtain root part_one sig ps where "pm_parts m = root # part_one # sig # ps" "mp_body root = PartMultipart [1, 2]"
    "mp_body sig = PartBinary der" "mp_offset_header part_one = length (as_bytes outer) + 2 + length signed_prologue"
    "mp_offset_end part_one = mp_offset_header part_one + (length (ensure_one_trailing_crlf entity) - 2)"
    unfolding parsed_clear_signed_def by (auto split: list.splits)
  with assms show ?thesis
    by (intro signed_region_extracted [of m "as_bytes outer" b64 entity der root part_one sig ps])
      (simp_all add: parsed_clear_signed_def with_outer_def)
qed

text \<open>C12. A signed message verifies at its receiver. With a default key that is in the store and whose certificate belongs to
  it, \<open>apply_crypto\<close> returns a message; whatever the parser makes of it, as long as it finds the two parts where they
  are, the receive path takes from it the bytes that were signed and the signature; and the engine verifies them, by
  the fingerprint of the key.\<close>

theorem signed_mail_verifies:
  assumes "dr_sign draft" and "\<not> dr_encrypt draft" and "split_message mime = Inr (outer, entity)"
    and "dk_standard row = ''smime''"
    and "ks_get ks (Software (''smime|'' @ dk_fingerprint row)) d = (Returned (Inr (Some k)), d)"
    and "sk_private_data k = Some priv_der" and "p256_identity sm pair (sk_public_data k) priv_der ski"
    and "builder_ok sm pair (sk_public_data k) priv_der (ensure_one_trailing_crlf entity)"
  shows "\<exists>out der. apply_crypto pr (smime_backend sm ks pol) Smime ks mime draft account_email (Some row) acc d = (Returned (Inr out), d)
    \<and> (\<forall>m. parsed_clear_signed m out (length (as_bytes outer) + 2) (ensure_one_trailing_crlf entity) der \<longrightarrow>
        extract_clear_signed_parts m = (Some (ensure_one_trailing_crlf entity), Some der))
    \<and> (\<exists>r. smime_verify sm (envelope_of der (Some (ensure_one_trailing_crlf entity))) = Inr r \<and> vr_state r = ValidUnverified
         \<and> signer_fp_of r = Some (fingerprint_new (to_hex_lower ski)))"
proof -
  let ?p = "ensure_one_trailing_crlf entity"
  obtain der check where der: "build_signed_data sm ?p True (sk_public_data k) priv_der = Inr der"
    and check: "verify_signed (sm_asn1 sm) (sm_prims sm) der (Some ?p) = Inr check" "cs_sig_ok check"
      "cs_signer_fingerprint check = Some (to_hex_lower ski)"
    using signed_data_verifies [OF assms(8,7)] by blast
  have ref: "key_handle_ref_of row = \<lparr>kr_handle = Software (''smime|'' @ dk_fingerprint row), kr_standard = Smime,
      kr_fingerprint = fingerprint_new (dk_fingerprint row), kr_usage = SignAndEncrypt, kr_algorithm = ''ECDSA-P256''\<rparr>"
    using assms(4) by (simp add: key_handle_ref_of_def Let_def)
  have "sign_detached (smime_backend sm ks pol) ?p (key_handle_ref_of row) d = (Returned (Inr der), d)"
    using assms(5,6) der
    by (simp add: sign_detached_def smime_backend_def smime_sign_def ref Let_def io_bind_def io_map_error_def stored_or_def io_ret_def
        io_lift_def private_or_def)
  then have "apply_crypto pr (smime_backend sm ks pol) Smime ks mime draft account_email (Some row) acc d
      = (Returned (Inr (with_outer outer (wrap_multipart_signed (pt_b64 pr) ?p der))), d)"
    using assms(1-3) by (simp add: apply_crypto_def signer_of_draft_def sign_entity_def Let_def io_bind_def io_lift_def io_ret_def)
  moreover have "\<exists>r. smime_verify sm (envelope_of der (Some ?p)) = Inr r \<and> vr_state r = ValidUnverified
      \<and> signer_fp_of r = Some (fingerprint_new (to_hex_lower ski))"
    using check by (simp add: smime_verify_def check_signed_def envelope_of_def result_of_state_def signer_fp_of_def signer_ref_def)
  ultimately show ?thesis using parsed_clear_signed_extract by blast
qed

text \<open>Without a default key nothing is signed, and nothing goes out.\<close>

lemma no_key_no_mail:
  assumes "dr_sign draft" and "split_message mime = Inr parts"
  shows "apply_crypto pr backend std ks mime draft account_email None acc d = (Returned (Inl NoSigningKey), d)"
  using assms by (cases parts) (simp add: apply_crypto_def signer_of_draft_def io_bind_def io_lift_def io_fail_def)

section \<open>Witnesses\<close>

text \<open>An account with one key pair and a trusted root; the engine turns a content into its complement.\<close>

definition user_row :: crypto_key_row where
  "user_row = (sample_row ''k1'' ''a1'' 1)\<lparr>ck_standard := ''smime'', ck_key_type := ''keypair'', ck_email := Some ''a@x'', ck_fingerprint := ''ab'',
     ck_public_data := ''09'',
     ck_private_data_enc := Some (co_hex_encode hex_coder (VAULT_VERSION_V1 # replicate 12 0 @ as_bytes ''08'' @ replicate 16 0))\<rparr>"

definition send_db :: db where
  "send_db = key_db\<lparr>t_crypto_keys := [anchor_row, user_row]\<rparr>"

definition send_smime :: "u8 list \<Rightarrow> (u8 list, unit, u8 list, u8 list, u8 list, string, unit, unit) smime_lib" where
  "send_smime p = sample_smime\<lparr>sm_asn1 := sample_asn1\<lparr>as_signed_data := (\<lambda>d. Inr (sample_signed (if d = [1] then None else Some p)))\<rparr>,
     sm_prims := sample_primitives\<lparr>pr_p256_private := (\<lambda>_. Inr ()), pr_digest := (\<lambda>_ _. [7])\<rparr>,
     sm_build_enveloped := (\<lambda>content inputs. Inr (0x30 # of_nat (length inputs) # map (\<lambda>b. b XOR 255) content))\<rparr>"

definition sample_mime :: "u8 list" where
  "sample_mime = as_bytes (''From: a@x'' @ CRLF @ ''Content-Type: text/plain'' @ CRLF @ CRLF @ ''hi'')"

definition sample_protector :: "(u8 list, u8 list, u8 list, string, unit, unit) protector" where
  "sample_protector = \<lparr>pt_b64 = (\<lambda>_. ''AAAA''), pt_pkix = sample_pkix, pt_keys = sample_env ''k1''\<rparr>"

definition mail_to :: "string \<Rightarrow> bool \<Rightarrow> bool \<Rightarrow> send_draft" where
  "mail_to email sign encrypt = test_draft\<lparr>dr_to := [\<lparr>as_name = None, as_email = email\<rparr>], dr_sign := sign, dr_encrypt := encrypt\<rparr>"

definition sample_entity :: "u8 list" where
  "sample_entity = as_bytes (''Content-Type: text/plain'' @ CRLF @ CRLF @ ''hi'')"

lemma split_sample: "split_message sample_mime = Inr (''From: a@x'', sample_entity)"
proof -
  let ?h = "''From: a@x'' @ CRLF @ ''Content-Type: text/plain''"
  have utf8: "from_utf8 sample_mime = Some (?h @ CRLF @ CRLF @ ''hi'')"
    unfolding sample_mime_def append_assoc by (rule from_utf8_as_bytes, rule utf8_string_ascii) simp
  have brk: "break_str (CRLF @ CRLF) (?h @ CRLF @ CRLF @ ''hi'') = Some (?h, ''hi'')" by code_simp
  have lines: "split_str CRLF ?h = [''From: a@x'', ''Content-Type: text/plain'']" by code_simp
  have "is_entity_name ''From: a@x'' = False" "is_entity_name ''Content-Type: text/plain'' = True" by code_simp+
  then show ?thesis unfolding split_message_def utf8 option.case brk prod.case lines by (simp add: push_line_def sample_entity_def del: as_bytes_append)
qed

definition user_ref :: key_handle_ref where
  "user_ref = \<lparr>kr_handle = Software ''smime|ab'', kr_standard = Smime, kr_fingerprint = ''ab'', kr_usage = SignAndEncrypt, kr_algorithm = ''unknown''\<rparr>"

lemma user_rows:
  "filter (\<lambda>r. ck_standard r = ''smime'' \<and> ck_email r = Some ''a@x'') (ke_scan (sample_env u) (t_crypto_keys send_db)) = [user_row]"
  "find (named_key ''smime'' ''ab'') (ke_scan (sample_env u) (t_crypto_keys send_db)) = Some user_row"
  "healthy send_db" "standard_from_str ''smime'' = Inr Smime" "fingerprint_new ''ab'' = ''ab''"
  by (simp_all add: send_db_def sample_env_def anchor_row_def user_row_def sample_row_def named_key_def standard_from_str_def) code_simp+

lemma user_found: "ks_find_by_email (sqlite_key_store (sample_env u) acc) Smime ''a@x'' send_db = (Returned (Inr [user_ref]), send_db)"
proof -
  have "ref_of_row (row_to_crypto_key user_row) = Some user_ref"
    by (simp add: ref_of_row_def row_to_crypto_key_def user_row_def sample_row_def user_rows user_ref_def encode_key_id_def)
  then show ?thesis
    by (simp add: sqlite_key_store_def store_find_by_email_def list_crypto_keys_for_email_def io_bind_def io_map_error_def db_query_healthy
        user_rows io_ret_def List.map_filter_def)
qed

definition user_stored :: stored_key where
  "user_stored = \<lparr>sk_handle = user_ref, sk_public_data = [9], sk_private_data = Some [8]\<rparr>"

lemma user_got: "ks_get (sqlite_key_store (sample_env u) acc) (Software ''smime|ab'') send_db = (Returned (Inr (Some user_stored)), send_db)"
proof -
  have dec: "decode_key_id ''smime|ab'' = Inr (Smime, ''ab'')" 
    using decode_encode_key_id [of Smime "''ab''"] user_rows(5) by (simp add: encode_key_id_def)
  have enc: "encrypt_with_aad sample_vault (as_bytes ''08'') aad
      = Inr (co_hex_encode hex_coder (VAULT_VERSION_V1 # replicate 12 0 @ as_bytes ''08'' @ replicate 16 0))" for aad
    by (simp add: encrypt_with_aad_def sample_vault_def)
  from decrypt_encrypt(1) [OF sample_vault_ok enc, where n = "va_nonce sample_vault"]
  have opened: "open_private sample_vault user_row = Inr (Some ''08'')"
    using decrypt_encrypt(2) [OF sample_vault_ok enc] from_utf8_as_bytes [OF utf8_string_ascii, of "''08''"]
    by (simp add: open_private_def user_row_def sample_row_def)
  have hex: "co_hex_decode hex_coder ''09'' = Inr [9]" "co_hex_decode hex_coder ''08'' = Inr [8]" by code_simp+
  have "stored_of_record hex_coder ''smime|ab'' Smime ''ab'' (record_of user_row (Some ''08'')) = Inr user_stored"
    by (simp add: stored_of_record_def record_of_def user_row_def sample_row_def decode_material_def hex user_stored_def user_ref_def)
  moreover have "ke_vault (sample_env u) = sample_vault" "va_coder sample_vault = hex_coder" by (simp_all add: sample_env_def sample_vault_def)
  ultimately show ?thesis
    by (simp add: sqlite_key_store_def dec get_crypto_key_full_def io_bind_def io_map_error_def db_query_healthy io_lift_def
        user_rows opened io_ret_def)
qed

lemma send_anchors: "list_trust_anchor_certs (sample_env u) ''a1'' send_db = (Returned (Inr [[8]]), send_db)"
proof -
  have "co_hex_decode hex_coder ''08'' = Inr [8]" by code_simp
  then show ?thesis
    by (simp add: list_trust_anchor_certs_def certs_of_type_def io_bind_def db_query_healthy user_rows io_ret_def)
     (simp add: sample_env_def send_db_def anchor_row_def user_row_def sample_row_def sample_vault_def List.map_filter_def)
qed

lemma valid: "validate_signer_chain sample_pkix [9] [] [[8]] None t [] = Returned \<lparr>co_chain_valid = True, co_identity_match = True, co_revocation_state = RevUnchecked,
     co_failure_reason = None, co_revocation_reason = None\<rparr>"
  by (simp add: validate_signer_chain_def sample_pkix_def build_anchors_def Let_def lift_walk_def path_outcome_def valid_outcome_def kylins_checker_def kylins_crls_def
   List.map_filter_def io_bind_def io_ret_def fresh_cells_def revocation_state_def)

definition sample_envelope :: "u8 list" where
  "sample_envelope = 0x30 # 2 # map (\<lambda>b. b XOR 255) sample_entity"

abbreviation sample_keys :: "db key_store" where
  "sample_keys \<equiv> sqlite_key_store (sample_env ''k1'') ''a1''"

lemma encrypt_run:
  "apply_crypto sample_protector (smime_backend (send_smime p) sample_keys default_baseline) Smime sample_keys sample_mime
     (mail_to ''a@x'' False True) ''a@x'' None ''a1'' send_db
   = (Returned (Inr (with_outer ''From: a@x'' (wrap_enveloped (\<lambda>_. ''AAAA'') sample_envelope ''enveloped-data''))), send_db)"
proof -
  let ?b = "smime_backend (send_smime p) sample_keys default_baseline"
  have found: "find_recipients sample_keys Smime [''a@x'', ''a@x''] send_db = (Returned (Inr [user_ref, user_ref]), send_db)"
    by (simp add: io_bind_def io_map_error_def user_found io_ret_def)
  have stored: "stored_or sample_keys (Software ''smime|ab'') x send_db = (Returned (Inr user_stored), send_db)" for x
    by (simp add: stored_or_def io_bind_def user_got io_ret_def)
  have ref: "kr_handle user_ref = Software ''smime|ab''" by (simp add: user_ref_def)
  have certs: "export_certs ?b [user_ref, user_ref] send_db = (Returned (Inr [[9], [9]]), send_db)"
    by (simp add: smime_backend_def smime_export_public_def io_bind_def io_map_error_def stored ref user_stored_def io_ret_def)
  have checked: "checked_recipients sample_protector ?b Smime sample_keys ''a1'' [''a@x'', ''a@x''] send_db = (Returned (Inr [user_ref, user_ref]), send_db)"
    by (simp add: checked_recipients_def io_bind_def found certs sample_protector_def io_map_error_def send_anchors validate_recipient_certs_def
        valid io_panicky_def io_ret_def del: find_recipients.simps export_certs.simps)
  have inp: "recipient_input_from_cert (send_smime p) [9] = Inr (''CA'', [1], EcRecipient [6])"
    by (simp add: recipient_input_from_cert_def send_smime_def sample_asn1_def sample_cert_def sample_primitives_def ID_RSA_ENCRYPTION_def ID_EC_PUBLIC_KEY_def Let_def)
  have inps: "recipient_inputs (send_smime p) sample_keys [user_ref, user_ref] send_db
      = (Returned (Inr [(''CA'', [1], EcRecipient [6]), (''CA'', [1], EcRecipient [6])]), send_db)"
    by (simp add: io_bind_def stored ref user_stored_def inp io_lift_def io_ret_def)
  have bld: "build_enveloped_data (send_smime p) sample_entity [(''CA'', [1], EcRecipient [6]), (''CA'', [1], EcRecipient [6])] = Inr sample_envelope"
    by (simp add: build_enveloped_data_def send_smime_def sample_envelope_def)
  have enc: "smime_encrypt (send_smime p) sample_keys (body_to_encrypt sample_entity [user_ref, user_ref] None) send_db
      = (Returned (Inr \<lparr>ee_standard = Smime, ee_serialization = SingleMimeBlob,
                  ee_parts = [\<lparr>ep_id = ''body'', ep_kind = PartBody, ep_ciphertext = sample_envelope, ep_signature = None\<rparr>],
                  ee_recipients = map (\<lambda>r. \<lparr>kp_recipient = r, kp_packet = []\<rparr>) [user_ref, user_ref]\<rparr>), send_db)"
    by (simp add: smime_encrypt_def body_to_encrypt_def io_bind_def inps content_to_encrypt_def io_ret_def io_lift_def bld del: recipient_inputs.simps)
  have fields: "cb_encrypt ?b = smime_encrypt (send_smime p) sample_keys" "pt_b64 sample_protector = (\<lambda>_. ''AAAA'')"
    by (simp_all add: smime_backend_def sample_protector_def)
  have draft: "dr_encrypt (mail_to ''a@x'' False True)" "\<not> dr_sign (mail_to ''a@x'' False True)"
    "recipient_emails ''a@x'' (mail_to ''a@x'' False True) = [''a@x'', ''a@x'']"
    by (simp_all add: mail_to_def test_draft_def recipient_emails_def)
  have "encrypt_entity sample_protector ?b Smime sample_keys ''a1'' [''a@x'', ''a@x''] sample_entity None send_db
      = (Returned (Inr (wrap_enveloped (\<lambda>_. ''AAAA'') sample_envelope ''enveloped-data'')), send_db)"
    unfolding encrypt_entity_smime io_bind_def checked fields io_map_error_def by (simp add: enc io_ret_def)
  then show ?thesis
    by (simp add: apply_crypto_def draft io_bind_def io_lift_def split_sample signer_of_draft_def io_ret_def)
qed

lemma encryption_fails_closed_witness:
  "\<exists>out. apply_crypto sample_protector (smime_backend (send_smime []) sample_keys default_baseline) Smime sample_keys sample_mime
      (mail_to ''a@x'' False True) ''a@x'' None ''a1'' send_db = (Returned (Inr out), send_db)
    \<and> (\<exists>hs ders anchors. list_all2 (chosen sample_keys Smime send_db) [''a@x'', ''a@x''] hs
      \<and> list_all2 (certified sample_keys send_db) hs ders
      \<and> list_trust_anchor_certs (sample_env ''k1'') ''a1'' send_db = (Returned (Inr anchors), send_db)
      \<and> list_all (valid_recipient sample_pkix anchors (now_epoch_secs send_db)) ders)"
proof -
  have "dr_encrypt (mail_to ''a@x'' False True)" by (simp add: mail_to_def)
  from encryption_fails_closed [OF user_rows(3) this encrypt_run] encrypt_run [of "[]"] show ?thesis
    by (fastforce simp: mail_to_def test_draft_def sample_protector_def)
qed

definition user_default :: default_key_row where
  "user_default = \<lparr>dk_standard = ''smime'', dk_fingerprint = ''ab'', dk_email = Some ''a@x''\<rparr>"

definition received :: "u8 list \<Rightarrow> u8 list \<Rightarrow> parsed_message" where
  "received out der = \<lparr>pm_content_type = Some (''multipart'', Some ''signed''), pm_raw = out,
      pm_parts = [sample_part (PartMultipart [1, 2]),
        (sample_part (PartText ''hi''))\<lparr>mp_offset_header := 11 + length signed_prologue,
           mp_offset_end := 11 + length signed_prologue + length sample_entity\<rparr>,
        sample_part (PartBinary der)],
      pm_attachments = [2], pm_body_text = Some ''hi'', pm_body_html = None\<rparr>"

lemma send_smime_ok:
  "builder_ok (send_smime p) (\<lambda>_ _. True) [9] [8] p" "p256_identity (send_smime p) (\<lambda>_ _. True) [9] [8] [171]"
  by (auto simp: builder_ok_def built_def p256_identity_def send_smime_def sample_smime_def sample_asn1_def sample_primitives_def sample_signed_def
      sample_cert_def parse_signed_def parse_content_def find_message_digest_def)

lemma ensured: "ensure_one_trailing_crlf sample_entity = sample_entity @ crlf" unfolding sample_entity_def by code_simp

lemma signed_mail_verifies_witness:
  "\<exists>out der r. apply_crypto sample_protector (smime_backend (send_smime (sample_entity @ crlf)) sample_keys default_baseline) Smime
      sample_keys sample_mime (mail_to ''b@y'' True False) ''a@x'' (Some user_default) ''a1'' send_db = (Returned (Inr out), send_db)
    \<and> extract_clear_signed_parts (received out der) = (Some (sample_entity @ crlf), Some der)
    \<and> smime_verify (send_smime (sample_entity @ crlf)) (envelope_of der (Some (sample_entity @ crlf))) = Inr r \<and> vr_state r = ValidUnverified"
proof -
  let ?sm = "send_smime (sample_entity @ crlf)"
  have draft: "dr_sign (mail_to ''b@y'' True False)" "\<not> dr_encrypt (mail_to ''b@y'' True False)" by (simp_all add: mail_to_def)
  have row: "dk_standard user_default = ''smime''" "dk_fingerprint user_default = ''ab''" by (simp_all add: user_default_def)
  have key: "sk_private_data user_stored = Some [8]" "sk_public_data user_stored = [9]" by (simp_all add: user_stored_def)
  have got: "ks_get sample_keys (Software (''smime|'' @ dk_fingerprint user_default)) send_db = (Returned (Inr (Some user_stored)), send_db)"
    using user_got by (simp add: row)
  obtain out der where run: "apply_crypto sample_protector (smime_backend ?sm sample_keys default_baseline) Smime
      sample_keys sample_mime (mail_to ''b@y'' True False) ''a@x'' (Some user_default) ''a1'' send_db = (Returned (Inr out), send_db)"
    and verifies: "\<forall>m. parsed_clear_signed m out (length (as_bytes ''From: a@x'') + 2) (sample_entity @ crlf) der \<longrightarrow>
        extract_clear_signed_parts m = (Some (sample_entity @ crlf), Some der)"
      "\<exists>r. smime_verify ?sm (envelope_of der (Some (sample_entity @ crlf))) = Inr r \<and> vr_state r = ValidUnverified
         \<and> signer_fp_of r = Some (fingerprint_new (to_hex_lower [171]))"
    using signed_mail_verifies [OF draft split_sample row(1) got key(1) send_smime_ok(2) [folded key(2)] send_smime_ok(1) [folded key(2) ensured]]
    unfolding ensured by blast
  have "parsed_clear_signed (received out der) out (length (as_bytes ''From: a@x'') + 2) (sample_entity @ crlf) der"
    by (simp add: parsed_clear_signed_def received_def sample_part_def)
  with verifies run show ?thesis by blast
qed

end
