(* ===== verification/Imap_Text.thy ===== *)
theory Imap_Text
  imports Rust_Text Mail_Source
begin

text \<open>
  The text functions of \<open>mail/imap/client.rs\<close>: what the client reads out of the lines of an IMAP server, and the few
  lines that it writes.
\<close>

section \<open>Text\<close>

text \<open>A slice up to the next white space and the rest, and \<open>split_whitespace\<close>. White space is found at the first byte of
  a character only, as the byte sequences of UTF-8 do not overlap.\<close>

fun until_white :: "string \<Rightarrow> string \<times> string" where
  "until_white [] = ([], [])"
| "until_white (c # cs) =
     (if leading white_spaces (c # cs) \<noteq> 0 then ([], c # cs) else (let (w, r) = until_white cs in (c # w, r)))"

lemma until_white_append: "until_white s = (w, r) \<Longrightarrow> s = w @ r"
  by (induction s arbitrary: w) (auto simp: Let_def split: if_splits prod.splits)

lemma strip_leading_shorter: "length (strip_leading ws s) \<le> length s"
  using strip_leading_suffix [of s ws] by (metis le_add2 length_append)

lemma until_white_shorter: "until_white (trim_start s) = (c # w, r) \<Longrightarrow> length r < length s"
  using until_white_append [of "trim_start s" "c # w" r] strip_leading_shorter [of white_spaces s] by (simp add: trim_start_def)

function split_whitespace :: "string \<Rightarrow> string list" where
  "split_whitespace s =
     (case until_white (trim_start s) of ([], _) \<Rightarrow> [] | (c # w, r) \<Rightarrow> (c # w) # split_whitespace r)"
  by pat_completeness auto
termination
  by (relation "measure length") (auto dest: until_white_shorter [OF sym])

declare split_whitespace.simps [simp del]

text \<open>\<open>chars().take(n)\<close>.\<close>

fun take_chars :: "nat \<Rightarrow> string \<Rightarrow> string" where
  "take_chars 0 s = []"
| "take_chars (Suc n) [] = []"
| "take_chars (Suc n) (c # cs) = c # takeWhile continues cs @ take_chars n (dropWhile continues cs)"

text \<open>\<open>to_lowercase\<close> and \<open>to_uppercase\<close> as far as a comparison with ASCII text can tell: besides the letters of ASCII the
  characters whose image is ASCII. Any other character stays what it is, and its image is not ASCII either.\<close>

fun lower_text :: "string \<Rightarrow> string" where
  "lower_text [] = []"
| "lower_text (c # cs) =
     (if starts_with (map char_of [0xE2, 0x84, 0xAA :: nat]) (c # cs) then CHR ''k'' # lower_text (drop 2 cs)
      else ascii_lower c # lower_text cs)"

definition ascii_upper :: "char \<Rightarrow> char" where
  "ascii_upper c = (let n = of_char c :: nat in if 97 \<le> n \<and> n \<le> 122 then char_of (n - 32) else c)"

definition upper_images :: "(string \<times> string) list" where
  "upper_images = map (\<lambda>(bs, u). (map char_of bs, u))
     [([0xC4, 0xB1 :: nat], ''I''), ([0xC5, 0xBF], ''S''), ([0xC3, 0x9F], ''SS''), ([0xEF, 0xAC, 0x80], ''FF''),
      ([0xEF, 0xAC, 0x81], ''FI''), ([0xEF, 0xAC, 0x82], ''FL''), ([0xEF, 0xAC, 0x83], ''FFI''), ([0xEF, 0xAC, 0x84], ''FFL''),
      ([0xEF, 0xAC, 0x85], ''ST''), ([0xEF, 0xAC, 0x86], ''ST'')]"

function upper_text :: "string \<Rightarrow> string" where
  "upper_text [] = []"
| "upper_text (c # cs) =
     (case find (\<lambda>(p, u). starts_with p (c # cs)) upper_images of
        Some (p, u) \<Rightarrow> u @ upper_text (drop (length p - 1) cs)
      | None \<Rightarrow> ascii_upper c # upper_text cs)"
  by pat_completeness auto
termination
  by (relation "measure length") auto

text \<open>\<open>find(|c| \<dots>)\<close> with a test on ASCII characters.\<close>

definition break_at :: "(char \<Rightarrow> bool) \<Rightarrow> string \<Rightarrow> string \<times> string" where
  "break_at p s = (takeWhile (\<lambda>c. \<not> p c) s, dropWhile (\<lambda>c. \<not> p c) s)"

definition parse_usize :: "string \<Rightarrow> nat option" where
  "parse_usize s = parse_unsigned (2 ^ 64 - 1) s"

section \<open>What the client writes\<close>

record imap_config =
  ic_host :: string
  ic_port :: u16
  ic_security :: string
  ic_username :: string
  ic_password :: string
  ic_auth_method :: string
  ic_accept_invalid_certs :: bool

definition uid_set_raw :: "u32 list \<Rightarrow> string" where
  "uid_set_raw uids = join_with '','' (map (\<lambda>u. dec_string (unat u)) uids)"

definition quote :: string where
  "quote = [CHR 0x22]"

definition build_login_cmd :: "(u8 list \<Rightarrow> string) \<Rightarrow> imap_config \<Rightarrow> string" where
  "build_login_cmd b64 config =
     (if ic_auth_method config = ''oauth2''
      then ''a1 AUTHENTICATE XOAUTH2 '' @ b64 (as_bytes (''user='' @ ic_username config @ [CHR 0x01] @ ''auth=Bearer '' @ ic_password config
             @ [CHR 0x01, CHR 0x01])) @ CRLF
      else ''a1 LOGIN '' @ quote @ ic_username config @ quote @ '' '' @ quote @ ic_password config @ quote @ CRLF)"

definition BASE_SYNC_FETCH_QUERY :: string where
  "BASE_SYNC_FETCH_QUERY = ''UID FLAGS INTERNALDATE RFC822.SIZE BODY.PEEK[HEADER.FIELDS (SUBJECT FROM TO CC BCC REPLY-TO ''
     @ ''DATE MESSAGE-ID IN-REPLY-TO REFERENCES LIST-UNSUBSCRIBE LIST-UNSUBSCRIBE-POST '' @ ''AUTHENTICATION-RESULTS CONTENT-TYPE)]''"

definition sync_fetch_query :: "capabilities \<Rightarrow> string" where
  "sync_fetch_query caps = BASE_SYNC_FETCH_QUERY @ (if cap_objectid caps then '' EMAILID THREADID'' else [])
     @ (if cap_gm_ext1 caps then '' X-GM-MSGID X-GM-THRID'' else [])"

definition sync_fetch_query_wrapped :: "capabilities \<Rightarrow> string" where
  "sync_fetch_query_wrapped caps = ''('' @ sync_fetch_query caps @ '')''"

section \<open>Quoted strings, LIST and STATUS\<close>

text \<open>The loop of \<open>parse_imap_quoted\<close> after the opening quote.\<close>

fun unquote :: "string \<Rightarrow> bool \<Rightarrow> string \<Rightarrow> (string \<times> string) option" where
  "unquote out escaped [] = None"
| "unquote out escaped (c # chars) =
     (if escaped then unquote (out @ [c]) False chars
      else if c = CHR 0x5C then unquote out True chars
      else if c = CHR 0x22 then Some (out, chars)
      else unquote (out @ [c]) False chars)"

fun parse_imap_quoted :: "string \<Rightarrow> (string \<times> string) option" where
  "parse_imap_quoted [] = None"
| "parse_imap_quoted (first # chars) = (if first \<noteq> CHR 0x22 then None else unquote [] False chars)"

definition strip_prefix_of :: "string \<Rightarrow> string \<Rightarrow> string option" where
  "strip_prefix_of p s = (if starts_with p s then Some (drop (length p) s) else None)"

definition list_delimiter :: "string \<Rightarrow> (string \<times> string) option" where
  "list_delimiter rest =
     (case strip_prefix_of ''NIL'' rest of
        Some stripped \<Rightarrow> Some (''/'', trim_start stripped)
      | None \<Rightarrow>
          if starts_with quote rest then map_option (\<lambda>(v, r). (v, trim_start r)) (parse_imap_quoted rest)
          else (let (d, r) = break_at ((=) (CHR '' '')) rest in Some (d, trim_start r)))"

definition parse_list_line :: "string \<Rightarrow> (string list \<times> string \<times> string) option" where
  "parse_list_line line =
     Option.bind (strip_prefix_of ''* LIST'' line) (\<lambda>after.
     Option.bind (break_str ''('' (trim_start after)) (\<lambda>(_, opened).
     Option.bind (break_str '')'' opened) (\<lambda>(attrs_str, closed).
     Option.bind (list_delimiter (trim_start closed)) (\<lambda>(delimiter, rest).
     map_option (\<lambda>raw_path. (split_whitespace attrs_str, delimiter, raw_path))
       (if starts_with quote rest then map_option fst (parse_imap_quoted rest) else Some (trim_end rest))))))"

fun status_counts :: "u32 \<times> u32 \<Rightarrow> string list \<Rightarrow> u32 \<times> u32" where
  "status_counts (ex, unseen) (key # val # tokens) =
     status_counts
       (if upper_text key = ''MESSAGES'' then (opt_or 0 (parse_u32 val), unseen)
        else if upper_text key = ''UNSEEN'' then (ex, opt_or 0 (parse_u32 val)) else (ex, unseen)) tokens"
| "status_counts acc tokens = acc"

definition parse_status_line :: "string \<Rightarrow> (string \<times> u32 \<times> u32) option" where
  "parse_status_line line =
     Option.bind (strip_prefix_of ''* STATUS'' line) (\<lambda>after.
     let after_status = trim_start after
     in Option.bind (if starts_with quote after_status then parse_imap_quoted after_status
                     else (let (f, r) = break_at ((=) (CHR '' '')) after_status in Some (f, trim_start r))) (\<lambda>(folder, rest0).
        let rest = trim_start rest0
        in Option.bind (split_once (CHR ''('') rest) (\<lambda>(lead_in, inside).
           Option.bind (rsplit_once (CHR '')'') rest) (\<lambda>(last_close, _).
           if length last_close \<le> length lead_in then None
           else Some (folder, status_counts (0, 0) (split_whitespace (take (length last_close - length lead_in - 1) inside)))))))"

definition SPECIAL :: "string \<Rightarrow> string" where
  "SPECIAL s = CHR 0x5C # s"

fun special_of_attr :: "string \<Rightarrow> string option" where
  "special_of_attr attr =
     (if attr = SPECIAL ''Inbox'' then Some (SPECIAL ''Inbox'')
      else if attr \<in> {SPECIAL ''Sent'', SPECIAL ''SentMail''} then Some (SPECIAL ''Sent'')
      else if attr = SPECIAL ''Trash'' then Some (SPECIAL ''Trash'')
      else if attr \<in> {SPECIAL ''Drafts'', SPECIAL ''Draft''} then Some (SPECIAL ''Drafts'')
      else if attr \<in> {SPECIAL ''Junk'', SPECIAL ''Spam''} then Some (SPECIAL ''Junk'')
      else if attr = SPECIAL ''Archive'' then Some (SPECIAL ''Archive'')
      else if attr \<in> {SPECIAL ''All'', SPECIAL ''AllMail''} then Some (SPECIAL ''All'')
      else if attr = SPECIAL ''Flagged'' then Some (SPECIAL ''Flagged'')
      else None)"

definition special_of_name :: "string \<Rightarrow> string option" where
  "special_of_name lower =
     (if lower = ''inbox'' then Some (SPECIAL ''Inbox'')
      else if lower \<in> {''sent'', ''sent messages'', ''sent items'', ''[gmail]/sent mail''} then Some (SPECIAL ''Sent'')
      else if lower \<in> {''trash'', ''deleted'', ''deleted items'', ''deleted messages'', ''bin'', ''corbeille'', ''unsolbox'', ''[gmail]/trash''}
      then Some (SPECIAL ''Trash'')
      else if lower \<in> {''drafts'', ''draft'', ''draftbox'', ''brouillons'', ''[gmail]/drafts''} then Some (SPECIAL ''Drafts'')
      else if lower \<in> {''junk'', ''spam'', ''junk e-mail'', ''[gmail]/spam''} then Some (SPECIAL ''Junk'')
      else if lower \<in> {''archive'', ''archives'', ''[gmail]/all mail''} then Some (SPECIAL ''Archive'')
      else None)"

fun detect_special_use_from_attrs :: "string list \<Rightarrow> string \<Rightarrow> string option" where
  "detect_special_use_from_attrs [] folder_name = special_of_name (lower_text folder_name)"
| "detect_special_use_from_attrs (attr # attrs) folder_name =
     (case special_of_attr attr of Some s \<Rightarrow> Some s | None \<Rightarrow> detect_special_use_from_attrs attrs folder_name)"

section \<open>SELECT and FETCH\<close>

text \<open>The keyword of all calls is \<open>EXISTS\<close>, which does not overlap with the star.\<close>

definition parse_untagged_number :: "string \<Rightarrow> string \<Rightarrow> u32 option" where
  "parse_untagged_number line keyword =
     (let trimmed = trim line
      in if \<not> starts_with ''* '' trimmed \<or> \<not> starts_with (rev keyword) (rev trimmed) then None
         else parse_u32 (trim (drop 2 (take (length trimmed - length keyword) trimmed))))"

definition extract_bracket_number :: "string \<Rightarrow> string \<Rightarrow> u32 option" where
  "extract_bracket_number line keyword =
     Option.bind (break_str (''['' @ keyword @ '' '') line) (\<lambda>(_, after).
     Option.bind (break_str '']'' after) (\<lambda>(num, _). parse_u32 (trim num)))"

definition is_digit :: "char \<Rightarrow> bool" where
  "is_digit c \<longleftrightarrow> digit_val c \<noteq> None"

definition extract_fetch_uid :: "string \<Rightarrow> u32 option" where
  "extract_fetch_uid line = Option.bind (break_str ''UID '' line) (\<lambda>(_, after). parse_u32 (takeWhile is_digit after))"

definition extract_flags_from_fetch :: "string \<Rightarrow> string" where
  "extract_flags_from_fetch line =
     opt_or [] (Option.bind (break_str ''FLAGS ('' line) (\<lambda>(_, after). map_option fst (break_str '')'' after)))"

definition extract_fetch_attr :: "string \<Rightarrow> string \<Rightarrow> string option" where
  "extract_fetch_attr line key =
     Option.bind (case break_str ('' '' @ key @ '' '') line of Some x \<Rightarrow> Some x | None \<Rightarrow> break_str (''('' @ key @ '' '') line) (\<lambda>(_, after).
     let rest = trim_start after
     in if starts_with quote rest then map_option fst (parse_imap_quoted rest)
        else if starts_with ''('' rest
        then Option.bind (break_str '')'' (tl rest)) (\<lambda>(inside, _). let v = trim inside in if v = [] then None else Some v)
        else (let v = trim (fst (break_at ((=) (CHR '')'')) (fst (until_white rest)))) in if v = [] then None else Some v))"

definition extract_literal_size :: "string \<Rightarrow> nat option" where
  "extract_literal_size line =
     (let trimmed = trim_end line
      in if trimmed = [] \<or> last trimmed \<noteq> CHR ''}'' then None
         else Option.bind (rsplit_once (CHR ''{'') trimmed) (\<lambda>(_, after). parse_usize (butlast after)))"

section \<open>Dates\<close>

definition is_leap_year :: "int \<Rightarrow> bool" where
  "is_leap_year y \<longleftrightarrow> (y mod 4 = 0 \<and> y mod 100 \<noteq> 0) \<or> y mod 400 = 0"

definition month_number :: "string \<Rightarrow> nat option" where
  "month_number m = map_of (zip [''jan'', ''feb'', ''mar'', ''apr'', ''may'', ''jun'', ''jul'', ''aug'', ''sep'', ''oct'', ''nov'', ''dec''] [1..<13]) m"

definition MONTH_DAYS :: "int list" where
  "MONTH_DAYS = [0, 31, 28, 31, 30, 31, 30, 31, 31, 30, 31, 30, 31]"

text \<open>The two loops. The sums are integers here, and wrapped to 64 bits at the end, which for additions and
  multiplications comes to the same as wrapping at each step, the behaviour of a release build.\<close>

definition days_before_year :: "int \<Rightarrow> int" where
  "days_before_year year = sum_list (map (\<lambda>y. if is_leap_year y then 366 else 365) [1970..year - 1])"

definition days_before_month :: "int \<Rightarrow> nat \<Rightarrow> int" where
  "days_before_month year month = sum_list (map (\<lambda>m. MONTH_DAYS ! m + (if m = 2 \<and> is_leap_year year then 1 else 0)) [1..<month])"

text \<open>The offset; the slice of two bytes panics inside a character.\<close>

definition tz_offset :: "string option \<Rightarrow> int panicky" where
  "tz_offset tz =
     (case tz of
        None \<Rightarrow> Returned 0
      | Some z \<Rightarrow>
          (let sign = (if starts_with ''-'' z then -1 else 1); tz_num = dropWhile (\<lambda>c. c = CHR ''+'' \<or> c = CHR ''-'') z
           in if length tz_num \<noteq> 4 then Returned 0
              else (case get_prefix 2 tz_num of
                      None \<Rightarrow> Panicked
                    | Some h \<Rightarrow> Returned (sign * (opt_or 0 (parse_i64 h) * 3600 + opt_or 0 (parse_i64 (drop 2 tz_num)) * 60)))))"

definition parse_hms :: "string \<Rightarrow> int option" where
  "parse_hms s =
     (case map parse_i64 (split_char (CHR '':'') s) of
        [Some hour, Some minute, Some second] \<Rightarrow> Some (hour * 3600 + minute * 60 + second)
      | _ \<Rightarrow> None)"

definition parse_day :: "string \<Rightarrow> int option" where
  "parse_day s =
     (case split_char (CHR ''-'') s of
        [d, m, y] \<Rightarrow>
          (case (parse_u32 d, month_number (lower_text m), parse_i64 y) of
             (Some day, Some month, Some year) \<Rightarrow> Some (days_before_year year + days_before_month year month + (uint day - 1))
           | _ \<Rightarrow> None)
      | _ \<Rightarrow> None)"

definition parse_imap_date :: "string \<Rightarrow> int option panicky" where
  "parse_imap_date s =
     (case split_whitespace s of
        date # time # rest \<Rightarrow>
          (case (parse_day date, parse_hms time) of
             (Some days, Some secs) \<Rightarrow>
               (case tz_offset (case rest of [] \<Rightarrow> None | z # _ \<Rightarrow> Some z) of
                  Panicked \<Rightarrow> Panicked
                | Returned offset \<Rightarrow> Returned (Some (wrap_i64 (days * 86400 + secs - offset))))
           | _ \<Rightarrow> Returned None)
      | _ \<Rightarrow> Returned None)"

definition extract_internal_date :: "string \<Rightarrow> int option panicky" where
  "extract_internal_date line =
     (case Option.bind (break_str (''INTERNALDATE '' @ quote) line) (\<lambda>(_, after). map_option fst (break_str quote after)) of
        None \<Rightarrow> Returned None
      | Some date_str \<Rightarrow> parse_imap_date date_str)"

section \<open>Capabilities and addresses\<close>

definition note_parameter :: "string \<Rightarrow> string \<Rightarrow> capabilities \<Rightarrow> capabilities" where
  "note_parameter name val c =
     (if name = ''APPENDLIMIT'' then c\<lparr>cap_appendlimit := map_option of_nat (parse_usize val)\<rparr>
      else if name = ''MESSAGELIMIT'' then c\<lparr>cap_message_limit := parse_u32 val\<rparr>
      else if name = ''AUTH'' then
        (if val = ''OAUTHBEARER'' then c\<lparr>cap_auth_oauthbearer := True\<rparr>
         else if val \<in> {''XOAUTH2'', ''XOAUTH''} then c\<lparr>cap_auth_xoauth2 := True\<rparr> else c)
      else c)"

definition note_flag :: "string \<Rightarrow> capabilities \<Rightarrow> capabilities" where
  "note_flag up c =
     (if up = ''IDLE'' then c\<lparr>cap_idle := True\<rparr>
      else if up \<in> {''CONDSTORE'', ''XYMHIGHESTMODSEQ''} then c\<lparr>cap_condstore := True\<rparr>
      else if up = ''QRESYNC'' then c\<lparr>cap_qresync := True\<rparr>
      else if up = ''VANISHED'' then c\<lparr>cap_vanishearch := True\<rparr>
      else if up = ''MOVE'' then c\<lparr>cap_move := True\<rparr>
      else if up = ''LIST-STATUS'' then c\<lparr>cap_list_status := True\<rparr>
      else if up = ''OBJECTID'' then c\<lparr>cap_objectid := True\<rparr>
      else if up \<in> {''UIDONLY'', ''X-UIDONLY''} then c\<lparr>cap_uidonly := True\<rparr>
      else if up = ''ENABLE'' then c\<lparr>cap_enable := True\<rparr>
      else if up = ''PARTIAL'' then c\<lparr>cap_partial := True\<rparr>
      else if up = ''NAMESPACE'' then c\<lparr>cap_namespace := True\<rparr>
      else if up = ''ID'' then c\<lparr>cap_id := True\<rparr>
      else if up = ''X-GM-EXT-1'' then c\<lparr>cap_gm_ext1 := True\<rparr>
      else if up = ''UIDPLUS'' then c\<lparr>cap_uidplus := True\<rparr>
      else c)"

definition capabilities_from_strs :: "string list \<Rightarrow> capabilities" where
  "capabilities_from_strs caps =
     fold (\<lambda>raw c. let up = map ascii_upper raw
                   in case split_once (CHR ''='') up of Some (name, val) \<Rightarrow> note_parameter name val c | None \<Rightarrow> note_flag up c)
       caps capabilities_default"

record mail_address =
  ma_name :: "string option"
  ma_address :: "string option"

definition format_address :: "mail_address \<Rightarrow> string" where
  "format_address a =
     (let email = opt_or [] (ma_address a)
      in case ma_name a of Some name \<Rightarrow> if name \<noteq> [] then name @ '' <'' @ email @ ''>'' else email | None \<Rightarrow> email)"

definition format_address_list :: "mail_address list option \<Rightarrow> string option" where
  "format_address_list addr =
     (case addr of None \<Rightarrow> None
      | Some as \<Rightarrow> if as = [] then None else Some (join_with '', '' (map format_address as)))"

definition extract_first_address :: "mail_address list option \<Rightarrow> string option \<times> string option" where
  "extract_first_address addr = (case addr of Some (a # _) \<Rightarrow> (ma_address a, ma_name a) | _ \<Rightarrow> (None, None))"

section \<open>Previews and STARTTLS\<close>

definition derive_snippet :: "string \<Rightarrow> string" where
  "derive_snippet body_text = take_chars 200 (join_with '' '' (split_whitespace body_text))"

definition extract_starttls_injection :: "u8 list \<Rightarrow> string option" where
  "extract_starttls_injection ok_response =
     (case break_str CRLF (of_bytes ok_response) of
        None \<Rightarrow> None
      | Some (_, after) \<Rightarrow> if after = [] then None else Some (from_utf8_lossy (as_bytes after)))"

end
