(* ===== verification/Imap_Wire.thy ===== *)
theory Imap_Wire
  imports Imap_Text Secure_Mime
begin

text \<open>
  The raw IMAP client of \<open>mail/imap/client.rs\<close>: the functions that talk to a server over their own connection, without
  the library \<open>async_imap\<close>. A connection is the bytes that the server is going to send and what follows them; which
  bytes these are, and which writes fail, is up to the environment. A wait without a time limit may never end, which is
  an outcome of its own.
\<close>

section \<open>Connections\<close>

datatype wire_end = Closed | Broken string | Silent

record wire =
  w_in :: "u8 list"
  w_end :: wire_end
  w_out :: "u8 list list"
  w_faults :: "string option list"

datatype 'a answer = Hangs | Panics | Fails string | Answers 'a

type_synonym 'a net = "wire \<Rightarrow> 'a answer \<times> wire"

definition net_ret :: "'a \<Rightarrow> 'a net" where
  "net_ret x w = (Answers x, w)"

definition net_fail :: "string \<Rightarrow> 'a net" where
  "net_fail e w = (Fails e, w)"

definition net_bind :: "'a net \<Rightarrow> ('a \<Rightarrow> 'b net) \<Rightarrow> 'b net" where
  "net_bind m f w =
     (case m w of (Hangs, w') \<Rightarrow> (Hangs, w') | (Panics, w') \<Rightarrow> (Panics, w') | (Fails e, w') \<Rightarrow> (Fails e, w')
      | (Answers x, w') \<Rightarrow> f x w')"

definition net_lift :: "string + 'a \<Rightarrow> 'a net" where
  "net_lift r w = ((case r of Inl e \<Rightarrow> Fails e | Inr x \<Rightarrow> Answers x), w)"

text \<open>\<open>write_all\<close>. The faults say what becomes of the next writes.\<close>

definition write_all :: "(string \<Rightarrow> string) \<Rightarrow> u8 list \<Rightarrow> unit net" where
  "write_all err bytes w =
     (case w_faults w of
        Some e # fs \<Rightarrow> (Fails (err e), w\<lparr>w_faults := fs\<rparr>)
      | None # fs \<Rightarrow> (Answers (), w\<lparr>w_faults := fs, w_out := w_out w @ [bytes]\<rparr>)
      | [] \<Rightarrow> (Answers (), w\<lparr>w_out := w_out w @ [bytes]\<rparr>))"

definition write_ignored :: "u8 list \<Rightarrow> unit net" where
  "write_ignored bytes w = (case write_all id bytes w of (_, w') \<Rightarrow> (Answers (), w'))"

text \<open>\<open>read_line\<close>: up to and with the next line feed, or what is left when the server closes. A line that is not UTF-8 is
  an error.\<close>

datatype line_read = AtEnd | GotLine string | LineError string | WouldBlock

definition NOT_UTF8 :: string where
  "NOT_UTF8 = ''stream did not contain valid UTF-8''"

definition line_of :: "u8 list \<Rightarrow> line_read" where
  "line_of bytes = (case from_utf8 bytes of Some s \<Rightarrow> GotLine s | None \<Rightarrow> LineError NOT_UTF8)"

fun break_line_feed :: "u8 list \<Rightarrow> (u8 list \<times> u8 list) option" where
  "break_line_feed [] = None"
| "break_line_feed (b # bs) =
     (if b = 10 then Some ([b], bs) else map_option (\<lambda>(l, r). (b # l, r)) (break_line_feed bs))"

definition read_line :: "wire \<Rightarrow> line_read \<times> wire" where
  "read_line w =
     (case break_line_feed (w_in w) of
        Some (l, rest) \<Rightarrow> (line_of l, w\<lparr>w_in := rest\<rparr>)
      | None \<Rightarrow>
          (case w_end w of
             Closed \<Rightarrow> (if w_in w = [] then AtEnd else line_of (w_in w), w\<lparr>w_in := []\<rparr>)
           | Broken e \<Rightarrow> (LineError e, w\<lparr>w_in := []\<rparr>)
           | Silent \<Rightarrow> (WouldBlock, w\<lparr>w_in := []\<rparr>)))"

definition read_exact :: "(string \<Rightarrow> string) \<Rightarrow> nat \<Rightarrow> u8 list net" where
  "read_exact err n w =
     (if n \<le> length (w_in w) then (Answers (take n (w_in w)), w\<lparr>w_in := drop n (w_in w)\<rparr>)
      else (case w_end w of
              Closed \<Rightarrow> (Fails (err ''early eof''), w\<lparr>w_in := []\<rparr>)
            | Broken e \<Rightarrow> (Fails (err e), w\<lparr>w_in := []\<rparr>)
            | Silent \<Rightarrow> (Hangs, w\<lparr>w_in := []\<rparr>)))"

text \<open>\<open>vec![0u8; n]\<close> panics when \<open>n\<close> bytes are more than an allocation may have.\<close>

definition read_literal :: "(string \<Rightarrow> string) \<Rightarrow> nat \<Rightarrow> u8 list net" where
  "read_literal err n w = (if 2 ^ 63 \<le> n then (Panics, w) else read_exact err n w)"

lemma break_line_feedD: "break_line_feed bs = Some (l, r) \<Longrightarrow> bs = l @ r \<and> l \<noteq> [] \<and> last l = 10 \<and> 10 \<notin> set (butlast l)"
  by (induction bs arbitrary: l) (auto split: if_splits)

lemma from_utf8_Nil [simp]: "from_utf8 [] = Some []"
  by (simp add: from_utf8_def utf8_valid.simps of_bytes_def)

lemma read_line_shorter: "read_line w = (GotLine s, w') \<Longrightarrow> length (w_in w') < length (w_in w)"
  by (auto simp: read_line_def line_of_def split: option.splits wire_end.splits if_splits dest: break_line_feedD)

lemma read_exact_shorter: "read_exact err n w = (Answers bs, w') \<Longrightarrow> length (w_in w') \<le> length (w_in w)"
  by (auto simp: read_exact_def split: wire_end.splits if_splits)

section \<open>Commands and their answers\<close>

text \<open>The loop of \<open>raw_send_and_wait\<close>.\<close>

function wait_tagged :: "string \<Rightarrow> string \<Rightarrow> string net" where
  "wait_tagged tag response w =
     (case read_line w of
        (AtEnd, w') \<Rightarrow> (Fails (tag @ '': connection closed''), w')
      | (GotLine line, w') \<Rightarrow>
          (if starts_with (tag @ '' OK'') line then (Answers (response @ line), w')
           else if starts_with (tag @ '' NO'') line \<or> starts_with (tag @ '' BAD'') line
           then (Fails (tag @ '' failed: '' @ line), w')
           else wait_tagged tag (response @ line) w')
      | (LineError e, w') \<Rightarrow> (Fails (tag @ '' read: '' @ e), w')
      | (WouldBlock, w') \<Rightarrow> (Fails (tag @ '': timeout''), w'))"
  by pat_completeness auto
termination
  by (relation "measure (\<lambda>(_, _, w). length (w_in w))") (auto dest: read_line_shorter [OF sym])

declare wait_tagged.simps [simp del]

definition raw_send_and_wait :: "string \<Rightarrow> string \<Rightarrow> string net" where
  "raw_send_and_wait tag cmd = net_bind (write_all (\<lambda>e. tag @ '' write: '' @ e) (as_bytes cmd)) (\<lambda>_. wait_tagged tag [])"

record raw_fetched_message =
  rf_uid :: u32
  rf_is_read :: bool
  rf_is_starred :: bool
  rf_is_draft :: bool
  rf_internal_date :: "int option"
  rf_body :: "u8 list"
  rf_remote_email_id :: "string option"
  rf_remote_thread_id :: "string option"

definition first_some :: "'a option list \<Rightarrow> 'a option" where
  "first_some xs = Option.bind (find (\<lambda>x. x \<noteq> None) xs) id"

definition email_id_of :: "string \<Rightarrow> string option" where
  "email_id_of line = first_some [extract_fetch_attr line ''EMAILID'', extract_fetch_attr line ''X-GM-MSGID'']"

definition thread_id_of :: "string \<Rightarrow> string option" where
  "thread_id_of line = first_some [extract_fetch_attr line ''THREADID'', extract_fetch_attr line ''X-GM-THRID'']"

definition flag_in :: "string \<Rightarrow> string \<Rightarrow> bool" where
  "flag_in flag line \<longleftrightarrow> contains_str (SPECIAL flag) (extract_flags_from_fetch line)"

definition fetched_message :: "string \<Rightarrow> u32 \<Rightarrow> int option \<Rightarrow> u8 list \<Rightarrow> string \<Rightarrow> raw_fetched_message" where
  "fetched_message line uid internal_date body closing =
     \<lparr>rf_uid = uid, rf_is_read = flag_in ''Seen'' line, rf_is_starred = flag_in ''Flagged'' line, rf_is_draft = flag_in ''Draft'' line,
      rf_internal_date = internal_date, rf_body = body,
      rf_remote_email_id = first_some [email_id_of line, email_id_of closing],
      rf_remote_thread_id = first_some [thread_id_of line, thread_id_of closing]\<rparr>"

text \<open>The line that closes a FETCH response is read without a time limit, and its errors are ignored. What had been read
  before an error plays no role, as the next read fails as well.\<close>

definition read_closing :: "string net" where
  "read_closing w =
     (case read_line w of
        (GotLine s, w') \<Rightarrow> (Answers s, w') | (AtEnd, w') \<Rightarrow> (Answers [], w') | (LineError _, w') \<Rightarrow> (Answers [], w')
      | (WouldBlock, w') \<Rightarrow> (Hangs, w'))"

text \<open>One line of the answer to a FETCH, with the literal that it announces.\<close>

definition fetch_item :: "string \<Rightarrow> raw_fetched_message option net" where
  "fetch_item line =
     (if \<not> starts_with ''* '' line \<or> \<not> contains_str ''FETCH'' line then net_ret None
      else (let uid = opt_or 0 (extract_fetch_uid line)
            in if uid = 0
               then (case extract_literal_size line of
                       None \<Rightarrow> net_ret None
                     | Some n \<Rightarrow> net_bind (read_literal (\<lambda>e. ''discard literal: '' @ e) n) (\<lambda>_. net_ret None))
               else (case extract_internal_date line of
                       Panicked \<Rightarrow> (\<lambda>w. (Panics, w))
                     | Returned internal_date \<Rightarrow>
                         (case extract_literal_size line of
                            None \<Rightarrow> net_ret None
                          | Some n \<Rightarrow>
                              net_bind (read_literal (\<lambda>e. ''read literal for UID '' @ dec_string (unat uid) @ '': '' @ e) n) (\<lambda>body.
                              net_bind read_closing (\<lambda>closing. net_ret (Some (fetched_message line uid internal_date body closing))))))))"

lemma read_closing_shorter: "read_closing w = (Answers s, w') \<Longrightarrow> length (w_in w') \<le> length (w_in w)"
  by (auto simp: read_closing_def read_line_def line_of_def split: option.splits wire_end.splits if_splits line_read.splits prod.splits
      dest!: break_line_feedD)

lemma fetch_item_shorter: "fetch_item line w = (Answers m, w') \<Longrightarrow> length (w_in w') \<le> length (w_in w)"
  by (auto simp: fetch_item_def net_ret_def net_bind_def read_literal_def Let_def
      split: if_splits option.splits answer.splits prod.splits panicky.splits
      dest!: read_exact_shorter read_closing_shorter)

text \<open>The loop of \<open>raw_parse_fetch_responses\<close>.\<close>

function fetch_loop :: "string \<Rightarrow> raw_fetched_message list \<Rightarrow> raw_fetched_message list net" where
  "fetch_loop tag messages w =
     (case read_line w of
        (AtEnd, w') \<Rightarrow> (Fails ''Connection closed during FETCH'', w')
      | (LineError e, w') \<Rightarrow> (Fails (''FETCH read: '' @ e), w')
      | (WouldBlock, w') \<Rightarrow> (Fails ''FETCH timeout'', w')
      | (GotLine line, w') \<Rightarrow>
          (if starts_with (tag @ '' OK'') line then (Answers messages, w')
           else if starts_with (tag @ '' NO'') line \<or> starts_with (tag @ '' BAD'') line then (Fails (''FETCH failed: '' @ line), w')
           else (case fetch_item line w' of
                   (Hangs, w'') \<Rightarrow> (Hangs, w'')
                 | (Panics, w'') \<Rightarrow> (Panics, w'')
                 | (Fails e, w'') \<Rightarrow> (Fails e, w'')
                 | (Answers None, w'') \<Rightarrow> fetch_loop tag messages w''
                 | (Answers (Some m), w'') \<Rightarrow> fetch_loop tag (messages @ [m]) w'')))"
  by pat_completeness auto
termination
  by (relation "measure (\<lambda>(_, _, w). length (w_in w))")
    (auto dest!: read_line_shorter [OF sym] fetch_item_shorter [OF sym])

declare fetch_loop.simps [simp del]

definition raw_parse_fetch_responses :: "string \<Rightarrow> raw_fetched_message list net" where
  "raw_parse_fetch_responses tag = fetch_loop tag []"

end
