(* ===== verification/Imap_Client.thy ===== *)
theory Imap_Client
  imports Imap_Wire
begin

text \<open>
  The operations of \<open>mail/imap/client.rs\<close> that open a connection of their own: listing the folders with their counts,
  fetching headers, messages and parts. Opening a socket, the TLS handshake, the MIME parser, base64 and modified UTF-7
  are given.
\<close>

section \<open>Opening\<close>

datatype 'a timed = TimedOut | InTime 'a

text \<open>A try to start TLS: the outcomes of connecting, of writing the command, of reading the answer and of the handshake.
  The connector and the handshake fail with an error of their own text.\<close>

record starttls_try =
  st_connect :: "(string + unit) timed"
  st_write :: "string + unit"
  st_reply :: "(string + u8 list) timed"
  st_upgrade :: "string + wire"

record imap_net =
  in_stream :: "imap_config \<Rightarrow> string + wire"
  in_starttls :: "imap_config \<Rightarrow> starttls_try"
  in_b64 :: "u8 list \<Rightarrow> string"
  in_utf7 :: "string \<Rightarrow> string"

definition check_settings :: string where
  "check_settings = from_utf8_lossy [0x20, 0xE2, 0x80, 0x94, 0x20] @ ''check your server settings or network connection''"

definition raw_connect_starttls :: "imap_net \<Rightarrow> imap_config \<Rightarrow> string + wire" where
  "raw_connect_starttls net config =
     (let a = in_starttls net config
      in case st_connect a of
           TimedOut \<Rightarrow> Inl (''TCP connect to '' @ ic_host config @ '':'' @ dec_string (unat (ic_port config)) @ '' timed out after 30s'' @ check_settings)
         | InTime r \<Rightarrow>
             res_bind (map_err (\<lambda>e. ''TCP: '' @ e) r) (\<lambda>_.
             res_bind (map_err (\<lambda>e. ''STARTTLS: '' @ e) (st_write a)) (\<lambda>_.
             case st_reply a of
               TimedOut \<Rightarrow> Inl (''STARTTLS response timed out after 30s'' @ check_settings)
             | InTime reply \<Rightarrow>
                 res_bind (map_err (\<lambda>e. ''STARTTLS resp: '' @ e) reply) (\<lambda>resp_bytes.
                 let resp = from_utf8_lossy resp_bytes
                 in if \<not> contains_str ''OK'' resp then Inl (''STARTTLS rejected: '' @ resp)
                    else (case extract_starttls_injection resp_bytes of
                            Some injected \<Rightarrow> Inl (''STARTTLS plaintext injection detected (RFC 3501 ''
                              @ from_utf8_lossy [0xC2, 0xA7] @ ''6.2.1): trailing '' @ debug_str injected @ '' after OK; aborting handshake'')
                          | None \<Rightarrow> st_upgrade a)))))"

text \<open>The greeting is read without a time limit; the end of the stream is taken for one.\<close>

definition read_greeting :: "unit net" where
  "read_greeting w =
     (case read_line w of
        (LineError e, w') \<Rightarrow> (Fails (''greeting: '' @ e), w') | (WouldBlock, w') \<Rightarrow> (Hangs, w') | (_, w') \<Rightarrow> (Answers (), w'))"

text \<open>Every operation opens its connection and logs in; the wire it leaves is returned for what was sent.\<close>

definition on_connection :: "imap_net \<Rightarrow> imap_config \<Rightarrow> 'a net \<Rightarrow> 'a answer \<times> wire option" where
  "on_connection net config body =
     (case (if ic_security config = ''starttls'' then raw_connect_starttls net config else in_stream net config) of
        Inl e \<Rightarrow> (Fails e, None)
      | Inr w \<Rightarrow> (case (if ic_security config = ''starttls'' then body else net_bind read_greeting (\<lambda>_. body)) w of (r, w') \<Rightarrow> (r, Some w')))"

definition logged_in :: "imap_net \<Rightarrow> imap_config \<Rightarrow> 'a net \<Rightarrow> 'a answer \<times> wire option" where
  "logged_in net config body =
     on_connection net config (net_bind (raw_send_and_wait ''a1'' (build_login_cmd (in_b64 net) config)) (\<lambda>_. body))"

section \<open>Folders\<close>

record imap_folder =
  if_path :: string
  if_raw_path :: string
  if_name :: string
  if_delimiter :: string
  if_special_use :: "string option"
  if_exists :: u32
  if_unseen :: u32

definition LIST_STATUS :: string where
  "LIST_STATUS = ''a2 LIST '' @ quote @ quote @ '' '' @ quote @ ''*'' @ quote @ '' RETURN (STATUS (MESSAGES UNSEEN UIDNEXT UIDVALIDITY))'' @ CRLF"

fun list_rows_of :: "string list \<Rightarrow> (string list \<times> string \<times> string) list \<times> (string \<rightharpoonup> u32 \<times> u32)
    \<Rightarrow> (string list \<times> string \<times> string) list \<times> (string \<rightharpoonup> u32 \<times> u32)" where
  "list_rows_of [] acc = acc"
| "list_rows_of (line # lines) (rows, status_map) =
     (let trimmed = trim line
      in if starts_with ''* LIST'' trimmed
         then (case parse_list_line trimmed of Some row \<Rightarrow> list_rows_of lines (rows @ [row], status_map)
               | None \<Rightarrow> list_rows_of lines (rows, status_map))
         else if starts_with ''* STATUS'' trimmed
         then (case parse_status_line trimmed of Some (folder, counts) \<Rightarrow> list_rows_of lines (rows, status_map(folder \<mapsto> counts))
               | None \<Rightarrow> list_rows_of lines (rows, status_map))
         else list_rows_of lines (rows, status_map))"

definition last_component :: "string \<Rightarrow> string \<Rightarrow> string" where
  "last_component delimiter path = (case break_str (rev delimiter) (rev path) of Some (l, _) \<Rightarrow> rev l | None \<Rightarrow> path)"

definition folder_of_row :: "(string \<Rightarrow> string) \<Rightarrow> (string \<rightharpoonup> u32 \<times> u32) \<Rightarrow> string list \<times> string \<times> string \<Rightarrow> imap_folder" where
  "folder_of_row utf7 status_map row =
     (case row of (attrs, delimiter, raw_path) \<Rightarrow>
        (let path = utf7 raw_path; counts = opt_or (0, 0) (status_map raw_path)
         in \<lparr>if_path = path, if_raw_path = raw_path, if_name = last_component delimiter path, if_delimiter = delimiter,
             if_special_use = detect_special_use_from_attrs attrs path, if_exists = fst counts, if_unseen = snd counts\<rparr>))"

definition folders_of_response :: "(string \<Rightarrow> string) \<Rightarrow> string \<Rightarrow> imap_folder list" where
  "folders_of_response utf7 response =
     (case list_rows_of (str_lines response) ([], Map.empty) of (rows, status_map) \<Rightarrow> map (folder_of_row utf7 status_map) rows)"

definition list_with_status :: "imap_net \<Rightarrow> imap_config \<Rightarrow> imap_folder list answer \<times> wire option" where
  "list_with_status net config =
     logged_in net config
       (net_bind (raw_send_and_wait ''a2'' LIST_STATUS) (\<lambda>response.
        net_bind (write_ignored (as_bytes (''a3 LOGOUT'' @ CRLF))) (\<lambda>_.
        net_ret (folders_of_response (in_utf7 net) response))))"

section \<open>Selecting\<close>

record imap_folder_status =
  fs_uidvalidity :: u32
  fs_uidnext :: u32
  fs_exists :: u32
  fs_unseen :: u32
  fs_highest_modseq :: "u64 option"

definition no_folder_status :: imap_folder_status where
  "no_folder_status = \<lparr>fs_uidvalidity = 0, fs_uidnext = 0, fs_exists = 0, fs_unseen = 0, fs_highest_modseq = None\<rparr>"

definition note_select_line :: "string \<Rightarrow> imap_folder_status \<Rightarrow> imap_folder_status" where
  "note_select_line line s =
     (let s1 = (case parse_untagged_number line ''EXISTS'' of Some n \<Rightarrow> s\<lparr>fs_exists := n\<rparr> | None \<Rightarrow> s);
          s2 = (case (if contains_str ''[UIDVALIDITY'' line then extract_bracket_number line ''UIDVALIDITY'' else None) of
                  Some v \<Rightarrow> s1\<lparr>fs_uidvalidity := v\<rparr> | None \<Rightarrow> s1)
      in case (if contains_str ''[UNSEEN'' line then extract_bracket_number line ''UNSEEN'' else None) of
           Some v \<Rightarrow> s2\<lparr>fs_unseen := v\<rparr> | None \<Rightarrow> s2)"

definition select_cmd :: "string \<Rightarrow> string" where
  "select_cmd folder = ''a2 SELECT '' @ quote @ folder @ quote @ CRLF"

definition raw_select :: "string \<Rightarrow> imap_folder_status net" where
  "raw_select folder =
     net_bind (raw_send_and_wait ''a2'' (select_cmd folder)) (\<lambda>response.
     net_ret (fold note_select_line (str_lines response) no_folder_status))"

section \<open>Messages\<close>

text \<open>What \<open>parse_message\<close> asks of the MIME parser, beyond its parts. The attributes are the parameters of the content type;
  lower-casing leaves letters beyond ASCII alone.\<close>

datatype header_value = HeaderText string | HeaderTextList "string list" | OtherHeader

record parsed_mail = parsed_message +
  pl_message_id :: "string option"
  pl_subject :: "string option"
  pl_date :: "int option"
  pl_in_reply_to :: header_value
  pl_references :: header_value
  pl_from :: "mail_address list option"
  pl_to :: "mail_address list option"
  pl_cc :: "mail_address list option"
  pl_bcc :: "mail_address list option"
  pl_reply_to :: "mail_address list option"
  pl_list_unsubscribe :: "header_value option"
  pl_list_unsubscribe_post :: "header_value option"
  pl_auth_results :: "header_value option"
  pl_attributes :: "(string \<times> string) list"

record imap_message =
  im_uid :: u32
  im_folder :: string
  im_message_id :: "string option"
  im_in_reply_to :: "string option"
  im_references :: "string option"
  im_from_address :: "string option"
  im_from_name :: "string option"
  im_to_addresses :: "string option"
  im_cc_addresses :: "string option"
  im_bcc_addresses :: "string option"
  im_reply_to :: "string option"
  im_subject :: "string option"
  im_date :: int
  im_is_read :: bool
  im_is_starred :: bool
  im_is_draft :: bool
  im_body_html :: "string option"
  im_body_text :: "string option"
  im_snippet :: "string option"
  im_raw_size :: u32
  im_list_unsubscribe :: "string option"
  im_list_unsubscribe_post :: "string option"
  im_auth_results :: "string option"
  im_attachments :: "imap_attachment list"
  im_content_type :: "string option"
  im_smime_type :: "string option"
  im_remote_email_id :: "string option"
  im_remote_thread_id :: "string option"

definition extract_header_text :: "header_value option \<Rightarrow> string option" where
  "extract_header_text hv =
     (case hv of Some (HeaderText t) \<Rightarrow> Some t | Some (HeaderTextList list) \<Rightarrow> Some (join_with '', '' list) | _ \<Rightarrow> None)"

fun blank_white :: "string \<Rightarrow> string" where
  "blank_white [] = []"
| "blank_white (c # cs) =
     (let n = leading white_spaces (c # cs) in if n = 0 then c # blank_white cs else CHR '' '' # blank_white (drop (n - 1) cs))"

definition count_chars :: "string \<Rightarrow> nat" where
  "count_chars s = length (filter (\<lambda>c. \<not> continues c) s)"

definition message_snippet :: "string \<Rightarrow> string" where
  "message_snippet body_text =
     (let trimmed = trim (blank_white body_text)
      in if count_chars trimmed > 200 then take_chars 200 trimmed @ ''...'' else trimmed)"

definition header_first :: "header_value \<Rightarrow> string option" where
  "header_first hv = (case hv of HeaderText t \<Rightarrow> Some t | HeaderTextList (t # _) \<Rightarrow> Some t | _ \<Rightarrow> None)"

definition header_joined :: "header_value \<Rightarrow> string option" where
  "header_joined hv =
     (case hv of HeaderText t \<Rightarrow> Some t | HeaderTextList list \<Rightarrow> if list = [] then None else Some (join_with '' '' list) | OtherHeader \<Rightarrow> None)"

definition parse_message ::
  "(u8 list \<Rightarrow> parsed_mail option) \<Rightarrow> string \<Rightarrow> u32 \<Rightarrow> raw_fetched_message \<Rightarrow> imap_message option" where
  "parse_message parse folder raw_size r =
     map_option (\<lambda>m.
       let from_first = extract_first_address (pl_from m)
       in \<lparr>im_uid = rf_uid r, im_folder = folder, im_message_id = pl_message_id m, im_in_reply_to = header_first (pl_in_reply_to m),
           im_references = header_joined (pl_references m), im_from_address = fst from_first, im_from_name = snd from_first,
           im_to_addresses = format_address_list (pl_to m), im_cc_addresses = format_address_list (pl_cc m),
           im_bcc_addresses = format_address_list (pl_bcc m), im_reply_to = format_address_list (pl_reply_to m),
           im_subject = pl_subject m, im_date = opt_or 0 (first_some [pl_date m, rf_internal_date r]),
           im_is_read = rf_is_read r, im_is_starred = rf_is_starred r, im_is_draft = rf_is_draft r,
           im_body_html = pm_body_html m, im_body_text = pm_body_text m, im_snippet = map_option message_snippet (pm_body_text m),
           im_raw_size = raw_size, im_list_unsubscribe = extract_header_text (pl_list_unsubscribe m),
           im_list_unsubscribe_post = extract_header_text (pl_list_unsubscribe_post m),
           im_auth_results = extract_header_text (pl_auth_results m), im_attachments = extract_attachments (parsed_message.truncate m),
           im_content_type = map_option full_content_type (pm_content_type m),
           im_smime_type = (if pm_content_type m = None then None
             else map_option (\<lambda>(_, v). to_ascii_lowercase v) (find (\<lambda>(k, _). eq_ignore_ascii_case k ''smime-type'') (pl_attributes m))),
           im_remote_email_id = rf_remote_email_id r, im_remote_thread_id = rf_remote_thread_id r\<rparr>)
       (parse (rf_body r))"

text \<open>The raw path takes the length of what it fetched for the size of the message.\<close>

definition raw_message :: "(u8 list \<Rightarrow> parsed_mail option) \<Rightarrow> string \<Rightarrow> raw_fetched_message \<Rightarrow> imap_message option" where
  "raw_message parse folder r = parse_message parse folder (of_nat (length (rf_body r))) r"

section \<open>Fetching\<close>

text \<open>\<open>to_msg\<close> is \<open>raw_message\<close> over the MIME parser; a message that does not parse is left out.\<close>

record 'm imap_fetch_result =
  fr_messages :: "'m list"
  fr_folder_status :: imap_folder_status

type_synonym 'm message_maker = "string \<Rightarrow> raw_fetched_message \<Rightarrow> 'm option"

definition raw_fetch_messages ::
  "imap_net \<Rightarrow> 'm message_maker \<Rightarrow> imap_config \<Rightarrow> string \<Rightarrow> string \<Rightarrow> capabilities \<Rightarrow> 'm imap_fetch_result answer \<times> wire option" where
  "raw_fetch_messages net to_msg config folder uid_range caps =
     logged_in net config
       (net_bind (raw_select folder) (\<lambda>status.
        net_bind (write_all (\<lambda>e. ''FETCH write: '' @ e) (as_bytes (''a3 UID FETCH '' @ uid_range @ '' ('' @ sync_fetch_query caps @ '')'' @ CRLF))) (\<lambda>_.
        net_bind (raw_parse_fetch_responses ''a3'') (\<lambda>raws.
        net_bind (write_ignored (as_bytes (''a4 LOGOUT'' @ CRLF))) (\<lambda>_.
        net_ret \<lparr>fr_messages = List.map_filter (to_msg folder) raws, fr_folder_status = status\<rparr>)))))"

definition saturating_inc :: "u32 \<Rightarrow> u32" where
  "saturating_inc n = (if n = -1 then -1 else n + 1)"

text \<open>The chunks of \<open>raw_fetch_folder\<close>; a failed chunk ends the loop with what has been fetched.\<close>

fun fetch_chunks :: "'m message_maker \<Rightarrow> string \<Rightarrow> capabilities \<Rightarrow> u32 list list \<Rightarrow> u32 \<Rightarrow> 'm list \<Rightarrow> 'm list net" where
  "fetch_chunks to_msg folder caps [] tag_index messages = net_ret messages"
| "fetch_chunks to_msg folder caps (chunk # later) tag_index messages =
     (\<lambda>w. let tag = ''a'' @ dec_string (unat tag_index);
              cmd = tag @ '' UID FETCH '' @ uid_set_raw chunk @ '' ('' @ sync_fetch_query caps @ '')'' @ CRLF
          in case net_bind (write_all id (as_bytes cmd)) (\<lambda>_. raw_parse_fetch_responses tag) w of
               (Hangs, w') \<Rightarrow> (Hangs, w')
             | (Panics, w') \<Rightarrow> (Panics, w')
             | (Fails _, w') \<Rightarrow> (Answers messages, w')
             | (Answers raws, w') \<Rightarrow>
                 fetch_chunks to_msg folder caps later (saturating_inc tag_index) (messages @ List.map_filter (to_msg folder) raws) w')"

definition raw_fetch_folder ::
  "imap_net \<Rightarrow> 'm message_maker \<Rightarrow> imap_config \<Rightarrow> string \<Rightarrow> u32 list \<Rightarrow> nat \<Rightarrow> capabilities \<Rightarrow> 'm imap_fetch_result answer \<times> wire option" where
  "raw_fetch_folder net to_msg config folder uids chunk_size caps =
     (if uids = [] then (Answers \<lparr>fr_messages = [], fr_folder_status = no_folder_status\<rparr>, None)
      else logged_in net config
        (net_bind (raw_select folder) (\<lambda>status.
         if chunk_size = 0 then (\<lambda>w. (Panics, w))
         else net_bind (fetch_chunks to_msg folder caps (chunks chunk_size uids) 3 []) (\<lambda>messages.
              net_bind (write_ignored (as_bytes (''LOGOUT'' @ CRLF))) (\<lambda>_.
              net_ret \<lparr>fr_messages = messages, fr_folder_status = status\<rparr>)))))"

definition selected :: "imap_net \<Rightarrow> imap_config \<Rightarrow> string \<Rightarrow> 'a net \<Rightarrow> 'a answer \<times> wire option" where
  "selected net config folder body = logged_in net config (net_bind (raw_send_and_wait ''a2'' (select_cmd folder)) (\<lambda>_. body))"

definition fetch_literal :: "(string \<Rightarrow> string) \<Rightarrow> string \<Rightarrow> u32 \<Rightarrow> string \<Rightarrow> u8 list option net" where
  "fetch_literal err tag uid item =
     net_bind (write_all err (as_bytes (tag @ '' UID FETCH '' @ dec_string (unat uid) @ '' (UID BODY.PEEK['' @ item @ ''])'' @ CRLF))) (\<lambda>_.
     net_bind (raw_parse_fetch_responses tag) (\<lambda>raws. net_ret (case raws of [] \<Rightarrow> None | r # _ \<Rightarrow> Some (rf_body r))))"

definition fetch_parsed_message ::
  "imap_net \<Rightarrow> (u8 list \<Rightarrow> parsed_message option) \<Rightarrow> imap_config \<Rightarrow> string \<Rightarrow> u32 \<Rightarrow> parsed_message option answer \<times> wire option" where
  "fetch_parsed_message net parse config folder uid =
     selected net config folder
       (net_bind (fetch_literal (\<lambda>e. ''write fetch cmd: '' @ e) ''a3'' uid []) (\<lambda>raw. net_ret (Option.bind raw parse)))"

definition fetch_part_bytes_inner ::
  "imap_net \<Rightarrow> (u8 list \<Rightarrow> parsed_message option) \<Rightarrow> imap_config \<Rightarrow> string \<Rightarrow> u32 \<Rightarrow> string
     \<Rightarrow> (string \<times> u8 list) option answer \<times> wire option" where
  "fetch_part_bytes_inner net parse config folder uid part_id =
     (if \<not> valid_part_id part_id
      then (Fails (''Invalid IMAP part_id '' @ debug_str part_id @ '': must be a non-empty dotted numeric path (e.g. ''
              @ debug_str ''1'' @ '', '' @ debug_str ''1.2'' @ '', '' @ debug_str ''2.1.3'' @ '')''), None)
      else selected net config folder
        (net_bind (fetch_literal (\<lambda>e. ''write .MIME fetch: '' @ e) ''a3'' uid (part_id @ ''.MIME'')) (\<lambda>mime.
         case mime of
           None \<Rightarrow> net_ret None
         | Some mime_headers \<Rightarrow>
             net_bind (fetch_literal (\<lambda>e. ''write body fetch: '' @ e) ''a4'' uid part_id) (\<lambda>body.
             case body of
               None \<Rightarrow> net_ret None
             | Some encoded_body \<Rightarrow>
                 net_bind (write_ignored (as_bytes (''a5 LOGOUT'' @ CRLF))) (\<lambda>_.
                 net_bind (net_lift (decode_part_bytes parse mime_headers encoded_body)) (\<lambda>r. net_ret (Some r)))))))"

fun or_missing :: "string \<Rightarrow> 'a option answer \<times> wire option \<Rightarrow> 'a answer \<times> wire option" where
  "or_missing e (Hangs, w) = (Hangs, w)"
| "or_missing e (Panics, w) = (Panics, w)"
| "or_missing e (Fails e', w) = (Fails e', w)"
| "or_missing e (Answers None, w) = (Fails e, w)"
| "or_missing e (Answers (Some x), w) = (Answers x, w)"

definition fetch_attachment_bytes ::
  "imap_net \<Rightarrow> (u8 list \<Rightarrow> parsed_message option) \<Rightarrow> imap_config \<Rightarrow> string \<Rightarrow> u32 \<Rightarrow> string \<Rightarrow> (string \<times> u8 list) answer \<times> wire option" where
  "fetch_attachment_bytes net parse config folder uid part_id =
     or_missing (''UID '' @ dec_string (unat uid) @ '' part '' @ part_id @ '' in '' @ folder @ '': server returned no FETCH response ''
         @ ''(message deleted, UID not in folder, or part_id wrong)'')
       (fetch_part_bytes_inner net parse config folder uid part_id)"

end
