(* ===== verification/Imap_Dates.thy ===== *)
theory Imap_Dates
  imports Imap_Text Mime_Parts
begin

text \<open>
  The dates of \<open>mail/imap/client.rs\<close>: the two loops that count days agree with the calendar in closed form, and a date as
  an IMAP server writes it is read as the moment it stands for.
\<close>

section \<open>The calendar\<close>

text \<open>The days from the first of January 1970, with years that start in March.\<close>

definition civil_days :: "int \<Rightarrow> int \<Rightarrow> int \<Rightarrow> int" where
  "civil_days y m d =
     (let y' = (if m \<le> 2 then y - 1 else y)
      in 365 * y' + y' div 4 - y' div 100 + y' div 400 + (153 * ((m + 9) mod 12) + 2) div 5 + d - 719469)"

lemma div_step:
  assumes "0 < k"
  shows "(y :: int) div k = (y - 1) div k + (if y mod k = 0 then 1 else 0)"
proof -
  have y: "y = k * (y div k) + y mod k" by simp
  have r: "0 \<le> y mod k" "y mod k < k" using assms by simp_all
  show ?thesis
  proof (cases "y mod k = 0")
    case True
    have "(y - 1) div k = y div k - 1"
      by (rule int_div_pos_eq [where r = "k - 1"]) (use y True assms in \<open>simp_all add: algebra_simps\<close>)
    with True show ?thesis by simp
  next
    case False
    have "(y - 1) div k = y div k"
      by (rule int_div_pos_eq [where r = "y mod k - 1"]) (use y r False in simp_all)
    with False show ?thesis by simp
  qed
qed

lemma leap_sum:
  "(p400 \<Longrightarrow> p100) \<Longrightarrow> (p100 \<Longrightarrow> p4) \<Longrightarrow> a' = a + (if p4 then 1 else 0) \<Longrightarrow> b' = b + (if p100 then 1 else 0) \<Longrightarrow>
     c' = c + (if p400 then 1 else 0) \<Longrightarrow>
     365 * (y :: int) + a' - b' + c' = 365 * (y - 1) + a - b + c + (if p4 \<and> \<not> p100 \<or> p400 then 366 else 365)"
  by (cases p4; cases p100; cases p400) simp_all

lemma multiple_mod: "(y :: int) mod (k * n) = 0 \<Longrightarrow> y mod n = 0"
  by (simp add: mod_eq_0_iff_dvd dvd_mult_right)

lemma civil_year: "civil_days (y + 1) 1 1 = civil_days y 1 1 + (if is_leap_year y then 366 else 365)"
proof -
  have "365 * y + y div 4 - y div 100 + y div 400
      = 365 * (y - 1) + (y - 1) div 4 - (y - 1) div 100 + (y - 1) div 400 + (if is_leap_year y then 366 else 365)"
    unfolding is_leap_year_def
    using multiple_mod [of y 4 100] multiple_mod [of y 25 4]
    by (intro leap_sum [OF _ _ div_step div_step div_step]) simp_all
  then show ?thesis unfolding civil_days_def Let_def by simp
qed

lemma civil_month:
  "civil_days y m d =
     civil_days (if m \<le> 2 then y else y + 1) 1 1 - 307 + ((153 * ((m + 9) mod 12) + 2) div 5 + d)"
  unfolding civil_days_def Let_def by (cases "m \<le> 2") simp_all

lemma days_before_year: "1970 \<le> y \<Longrightarrow> days_before_year y = civil_days y 1 1"
proof (induction y rule: int_ge_induct)
  case base
  show ?case by (simp add: days_before_year_def civil_days_def)
next
  case (step y)
  have "[1970..y + 1 - 1] = [1970..y - 1] @ [y]" using step(1) upto_rec2 [of 1970 y] by simp
  with step show ?case by (simp add: days_before_year_def civil_year)
qed

lemma months: "1 \<le> m \<Longrightarrow> m \<le> 12 \<Longrightarrow> m \<in> {1, 2, 3, 4, 5, 6, 7, 8, 9, 10, 11, 12 :: nat}"
  by simp presburger

lemma days_before_month:
  assumes "1 \<le> m" and "m \<le> 12"
  shows "days_before_month y m = (if int m \<le> 2 then 0 else if is_leap_year y then 366 else 365)
    - 307 + ((153 * ((int m + 9) mod 12) + 2) div 5 + 1)"
  using months [OF assms] by (elim insertE emptyE) (simp_all add: days_before_month_def MONTH_DAYS_def upt_rec)

lemma date_days:
  assumes "1970 \<le> y" and "1 \<le> m" and "m \<le> 12"
  shows "days_before_year y + days_before_month y m + (d - 1) = civil_days y (int m) d"
  unfolding civil_month [of y "int m" d] days_before_month [OF assms(2,3)] days_before_year [OF assms(1)]
  by (simp add: civil_year)

section \<open>Words\<close>

lemma leading_white_graphic [simp]: "graphic c \<Longrightarrow> leading white_spaces (c # s) = 0"
  using white_spaces_ends by (auto intro: leading_graphic)

lemma space_char: "CHR '' '' = char_of (n :: nat) \<longleftrightarrow> n mod 256 = 32"
  by (subst eq_commute) (simp add: char_of_eq_iff take_bit_eq_mod)

lemma leading_white_space [simp]: "leading white_spaces (CHR '' '' # s) = 1"
  by (simp add: leading_def white_spaces_def space_char)

lemma leading_white_Nil [simp]: "leading white_spaces [] = 0"
  by (simp add: leading_def white_spaces_def)

lemma trim_start_graphic: "graphic c \<Longrightarrow> trim_start (c # s) = c # s"
  by (simp add: trim_start_def strip_leading_stop)

lemma trim_start_space: "trim_start (CHR '' '' # s) = trim_start s"
  by (simp add: trim_start_def strip_leading.simps [of white_spaces "CHR '' '' # s"])

lemma trim_start_Nil: "trim_start [] = []"
  by (simp add: trim_start_def strip_leading_stop)

lemma until_white_word: "\<forall>c \<in> set w. graphic c \<Longrightarrow> s = [] \<or> hd s = CHR '' '' \<Longrightarrow> until_white (w @ s) = (w, s)"
  by (induction w) (cases s; auto)+

lemma split_space [simp]: "split_whitespace (CHR '' '' # s) = split_whitespace s"
  by (simp add: split_whitespace.simps [of "CHR '' '' # s"] split_whitespace.simps [of s] trim_start_space)

lemma split_Nil [simp]: "split_whitespace [] = []"
  by (simp add: split_whitespace.simps trim_start_Nil)

lemma split_word:
  assumes "w \<noteq> []" and "\<forall>c \<in> set w. graphic c" and "s = [] \<or> hd s = CHR '' ''"
  shows "split_whitespace (w @ s) = w # split_whitespace s"
proof -
  obtain c v where w: "w = c # v" using assms(1) by (cases w) auto
  have "trim_start (w @ s) = w @ s" using assms(2) by (simp add: w trim_start_graphic)
  with until_white_word [OF assms(2,3)] show ?thesis by (subst split_whitespace.simps) (simp del: until_white.simps add: w)
qed

section \<open>A date on the wire\<close>

text \<open>\<open>date-time\<close> of RFC 3501, with the day padded by a space.\<close>

record date_time =
  dt_day :: nat
  dt_month :: nat
  dt_year :: nat
  dt_hour :: nat
  dt_minute :: nat
  dt_second :: nat
  dt_east :: bool
  dt_zone_hours :: nat
  dt_zone_minutes :: nat

definition MONTHS :: "string list" where
  "MONTHS = [''Jan'', ''Feb'', ''Mar'', ''Apr'', ''May'', ''Jun'', ''Jul'', ''Aug'', ''Sep'', ''Oct'', ''Nov'', ''Dec'']"

definition two :: "nat \<Rightarrow> string" where
  "two n = [digit_char (n div 10), digit_char (n mod 10)]"

definition zone_text :: "date_time \<Rightarrow> string" where
  "zone_text t = (if dt_east t then CHR ''+'' else CHR ''-'') # two (dt_zone_hours t) @ two (dt_zone_minutes t)"

definition clock_text :: "date_time \<Rightarrow> string" where
  "clock_text t = two (dt_hour t) @ '':'' @ two (dt_minute t) @ '':'' @ two (dt_second t)"

definition day_text :: "date_time \<Rightarrow> string" where
  "day_text t = dec_string (dt_day t) @ ''-'' @ MONTHS ! (dt_month t - 1) @ ''-'' @ dec_string (dt_year t)"

definition date_time_text :: "date_time \<Rightarrow> string" where
  "date_time_text t = (if dt_day t < 10 then '' '' else []) @ day_text t @ '' '' @ clock_text t @ '' '' @ zone_text t"

definition good_date :: "date_time \<Rightarrow> bool" where
  "good_date t \<longleftrightarrow> 1 \<le> dt_day t \<and> dt_day t \<le> 31 \<and> 1 \<le> dt_month t \<and> dt_month t \<le> 12 \<and> 1970 \<le> dt_year t \<and> dt_year t \<le> 9999
     \<and> dt_hour t < 24 \<and> dt_minute t < 60 \<and> dt_second t < 62 \<and> dt_zone_hours t < 100 \<and> dt_zone_minutes t < 60"

definition unix_time :: "date_time \<Rightarrow> int" where
  "unix_time t =
     civil_days (int (dt_year t)) (int (dt_month t)) (int (dt_day t)) * 86400 + int (dt_hour t) * 3600 + int (dt_minute t) * 60
       + int (dt_second t) - (if dt_east t then 1 else -1) * (int (dt_zone_hours t) * 3600 + int (dt_zone_minutes t) * 60)"

lemma digit_graphic: "digit_val c \<noteq> None \<Longrightarrow> graphic c \<and> c \<noteq> CHR ''-'' \<and> c \<noteq> CHR ''+'' \<and> c \<noteq> CHR '':'' \<and> \<not> continues c"
  by (auto simp: digit_val_def graphic_def continues_def Let_def split: if_splits)

lemma digit_digit_char: "d < 10 \<Longrightarrow> digit_val (digit_char d) \<noteq> None"
  by (simp add: digit_val_digit_char)

lemma parse_i64_digits: "s \<noteq> [] \<Longrightarrow> \<forall>c \<in> set s. digit_val c \<noteq> None \<Longrightarrow> digits_val 0 s = Some n \<Longrightarrow> n < 2 ^ 63 \<Longrightarrow> parse_i64 s = Some (int n)"
  using digit_graphic [of "hd s"] by (cases s) (auto simp: parse_i64_def parse_unsigned_def)

lemma two_digits: "n < 100 \<Longrightarrow> \<forall>c \<in> set (two n). digit_val c \<noteq> None"
  by (simp add: two_def digit_val_digit_char)

lemma two_sep: "digit_val c = None \<Longrightarrow> n < 100 \<Longrightarrow> c \<notin> set (two n)"
  using two_digits by blast

lemma parse_two: "n < 100 \<Longrightarrow> parse_i64 (two n) = Some (int n)"
  by (rule parse_i64_digits) (simp_all add: two_def digit_val_digit_char)

lemma parse_dec: "n < 2 ^ 63 \<Longrightarrow> parse_i64 (dec_string n) = Some (int n)"
  using dec_string_digits by (intro parse_i64_digits) (auto simp: dec_string_not_Nil digits_val_dec_string)

lemma months_text:
  assumes "1 \<le> m" and "m \<le> 12"
  shows "month_number (lower_text (MONTHS ! (m - 1))) = Some m \<and> CHR ''-'' \<notin> set (MONTHS ! (m - 1)) \<and> list_all graphic (MONTHS ! (m - 1))"
  using months [OF assms] by (elim insertE emptyE) (hypsubst, code_simp)+

lemma parse_clock:
  "dt_hour t < 100 \<Longrightarrow> dt_minute t < 100 \<Longrightarrow> dt_second t < 100 \<Longrightarrow>
     parse_hms (clock_text t) = Some (int (dt_hour t) * 3600 + int (dt_minute t) * 60 + int (dt_second t))"
  using two_sep [of "CHR '':''"]
  by (simp add: parse_hms_def clock_text_def split_append_sep split_no_sep parse_two digit_val_def)

lemma parse_zone:
  assumes "dt_zone_hours t < 100" and "dt_zone_minutes t < 100"
  shows "tz_offset (Some (zone_text t)) =
    Returned ((if dt_east t then 1 else -1) * (int (dt_zone_hours t) * 3600 + int (dt_zone_minutes t) * 60))"
proof -
  have h: "digit_val (digit_char (dt_zone_hours t div 10)) \<noteq> None" "digit_val (digit_char (dt_zone_minutes t div 10)) \<noteq> None"
    using assms by (simp_all add: digit_digit_char)
  have drop: "dropWhile (\<lambda>c. c = CHR ''+'' \<or> c = CHR ''-'') (zone_text t) = two (dt_zone_hours t) @ two (dt_zone_minutes t)"
    using digit_graphic [OF h(1)] by (simp add: zone_text_def two_def)
  have pre: "get_prefix 2 (two (dt_zone_hours t) @ two (dt_zone_minutes t)) = Some (two (dt_zone_hours t))"
    using digit_graphic [OF h(2)] by (simp add: get_prefix_def two_def)
  have "length (two n) = 2" for n by (simp add: two_def)
  then show ?thesis
    using assms by (simp add: tz_offset_def drop pre parse_two starts_with_iff) (simp add: zone_text_def)
qed

lemma parse_day_text:
  assumes "good_date t"
  shows "parse_day (day_text t) = Some (civil_days (int (dt_year t)) (int (dt_month t)) (int (dt_day t)))"
proof -
  have b: "dt_day t \<le> 31" "dt_year t \<le> 9999" "1970 \<le> int (dt_year t)" "1 \<le> dt_month t" "dt_month t \<le> 12"
    using assms by (auto simp: good_date_def)
  have no: "CHR ''-'' \<notin> set (dec_string n)" for n using dec_string_digits [of "CHR ''-''" n] by (auto simp: digit_val_def)
  have "parse_u32 (dec_string (dt_day t)) = Some (of_nat (dt_day t))"
    using b(1) by (simp add: parse_u32_def parse_unsigned_dec_string)
  moreover have "uint (of_nat (dt_day t) :: u32) = int (dt_day t)"
    using b(1) by (simp add: unsigned_of_nat take_bit_nat_eq_self_iff flip: uint_nat) 
  ultimately show ?thesis
    using months_text [OF b(4,5)] parse_dec [of "dt_year t"] b(2)
    by (simp add: parse_day_def day_text_def split_append_sep split_no_sep no date_days [OF b(3,4,5)])
qed

lemma graphic_digits: "\<forall>c \<in> set s. digit_val c \<noteq> None \<Longrightarrow> \<forall>c \<in> set s. graphic c"
  using digit_graphic by blast

lemma words_of_date:
  assumes "good_date t"
  shows "split_whitespace (date_time_text t) = [day_text t, clock_text t, zone_text t]"
proof -
  have g: "graphic CHR ''-''" "graphic CHR '':''" "graphic CHR ''+''" by (simp_all add: graphic_def)
  have two: "\<forall>c \<in> set (two n). graphic c" if "n < 100" for n using that by (rule graphic_digits [OF two_digits])
  have dec: "\<forall>c \<in> set (dec_string n). graphic c" for n using dec_string_digits by (intro graphic_digits) auto
  have "\<forall>c \<in> set (day_text t). graphic c"
    using g dec months_text [of "dt_month t"] assms by (auto simp: day_text_def good_date_def list_all_iff)
  moreover have "\<forall>c \<in> set (clock_text t). graphic c"
    using g two [of "dt_hour t"] two [of "dt_minute t"] two [of "dt_second t"] assms by (auto simp: clock_text_def good_date_def)
  moreover have "\<forall>c \<in> set (zone_text t). graphic c"
    using g two [of "dt_zone_hours t"] two [of "dt_zone_minutes t"] assms by (auto simp: zone_text_def good_date_def)
  moreover have "day_text t \<noteq> []" "clock_text t \<noteq> []" "zone_text t \<noteq> []" by (simp_all add: day_text_def clock_text_def zone_text_def)
  ultimately show ?thesis
    using split_word [of "zone_text t" "[]"] by (simp add: date_time_text_def split_word)
qed

lemma div_between: "0 < k \<Longrightarrow> - 1 \<le> y \<Longrightarrow> y < n \<Longrightarrow> 0 \<le> n \<Longrightarrow> - 1 \<le> y div k \<and> y div k < (n :: int)"
  using zdiv_mono2 [of y 1 k] by (cases "y = - 1") (simp_all add: div_eq_minus1 pos_imp_zdiv_nonneg_iff order.trans [of "- 1" 0])

lemma sum_bound:
  "- 1 \<le> y \<and> y < 10000 \<Longrightarrow> - 1 \<le> a \<and> a < 10000 \<Longrightarrow> - 1 \<le> b \<and> b < 10000 \<Longrightarrow> - 1 \<le> c \<and> c < 10000 \<Longrightarrow> 0 \<le> e \<and> e < 400 \<Longrightarrow>
     \<bar>d\<bar> < 100 \<Longrightarrow> \<bar>365 * y + a - b + c + e + d - (719469 :: int)\<bar> < 10 ^ 7"
  by auto

lemma civil_bound:
  assumes "0 \<le> y" and "y < 10000" and "\<bar>d\<bar> < 100"
  shows "\<bar>civil_days y m d\<bar> < 10 ^ 7"
proof -
  define y' where "y' = (if m \<le> 2 then y - 1 else y)"
  have y: "- 1 \<le> y'" "y' < 10000" using assms by (simp_all add: y'_def)
  have d: "- 1 \<le> y' div k \<and> y' div k < 10000" if "0 < k" for k by (rule div_between [OF that y]) simp
  have e: "0 \<le> (153 * ((m + 9) mod 12) + 2) div 5 \<and> (153 * ((m + 9) mod 12) + 2) div 5 < 400"
  proof -
    have "0 \<le> (m + 9) mod 12" "(m + 9) mod 12 < 12" by simp_all
    then show ?thesis by (auto simp: pos_imp_zdiv_nonneg_iff intro: le_less_trans [OF zdiv_mono1 [of _ "153 * 11 + 2"]])
  qed
  show ?thesis
    unfolding civil_days_def Let_def y'_def [symmetric]
    by (rule sum_bound [OF conjI [OF y] d d d e assms(3)]) (rule zero_less_numeral)+
qed

lemma date_of_text:
  assumes "good_date t"
  shows "parse_imap_date (date_time_text t) = Returned (Some (unix_time t))"
proof -
  have b: "dt_hour t < 100" "dt_minute t < 100" "dt_second t < 100" "dt_zone_hours t < 100" "dt_zone_minutes t < 100"
    using assms by (simp_all add: good_date_def)
  have "\<bar>civil_days (int (dt_year t)) (int (dt_month t)) (int (dt_day t))\<bar> < 10 ^ 7"
    using assms by (intro civil_bound) (simp_all add: good_date_def)
  then have "wrap_i64 (unix_time t) = unix_time t"
    using b by (intro wrap_i64_id) (simp_all add: unix_time_def abs_if split: if_splits)
  then show ?thesis
    using b by (simp add: parse_imap_date_def words_of_date [OF assms] parse_day_text [OF assms] parse_clock parse_zone unix_time_def algebra_simps)
qed

section \<open>The property\<close>

text \<open>C20. The date of a message is the moment it stands for: whatever a server writes as the date and time of a message in
  the years 1970 to 9999, with any zone, the client reads as the seconds since 1970 that the calendar in closed form
  gives, for all that the source counts days with two loops over the years and the months.\<close>

theorem date_is_unix_time: "good_date t \<Longrightarrow> parse_imap_date (date_time_text t) = Returned (Some (unix_time t))"
  by (rule date_of_text)

definition sample_date :: date_time where
  "sample_date = \<lparr>dt_day = 29, dt_month = 2, dt_year = 2024, dt_hour = 23, dt_minute = 59, dt_second = 60, dt_east = False,
     dt_zone_hours = 5, dt_zone_minutes = 30\<rparr>"

lemma date_is_unix_time_witness: "parse_imap_date (date_time_text sample_date) = Returned (Some 1709271000)"
  using date_is_unix_time [of sample_date] by (simp add: good_date_def sample_date_def unix_time_def civil_days_def)

end
