(* ===== verification/Imap_Fetch.thy ===== *)
theory Imap_Fetch
  imports Imap_Wire Imap_Dates
begin

text \<open>
  The answers to FETCH, read exactly: what a server writes for a list of messages, line by line with a literal for each
  body, is what \<open>raw_parse_fetch_responses\<close> returns, whatever bytes the bodies are made of.
\<close>

section \<open>Lines\<close>

definition ascii :: "string \<Rightarrow> bool" where
  "ascii s \<longleftrightarrow> list_all (\<lambda>c. of_char c < (128 :: nat)) s"

lemma line_feed_in_as_bytes: "10 \<in> set (as_bytes s) \<longleftrightarrow> CHR 0x0A \<in> set s"
proof -
  have "(of_char c :: u8) = 10 \<longleftrightarrow> c = CHR 0x0A" for c
  proof
    assume "(of_char c :: u8) = 10"
    then have "as_bytes [c] = as_bytes [CHR 0x0A]" by (simp add: as_bytes_def)
    then show "c = CHR 0x0A" by (simp only: as_bytes_eq_iff list.inject simp_thms)
  qed simp
  then show ?thesis by (force simp: as_bytes_def)
qed

lemma break_line_feed_here: "10 \<notin> set l \<Longrightarrow> break_line_feed (l @ 10 # r) = Some (l @ [10], r)"
  by (induction l) auto

lemma read_line_text:
  assumes "ascii l" and "CHR 0x0A \<notin> set l"
  shows "read_line (w\<lparr>w_in := as_bytes (l @ CRLF) @ r\<rparr>) = (GotLine (l @ CRLF), w\<lparr>w_in := r\<rparr>)"
proof -
  have "break_line_feed (as_bytes (l @ CRLF) @ r) = Some (as_bytes (l @ CRLF), r)"
  proof -
    have "10 \<notin> set (as_bytes l @ [13])" using assms(2) by (simp add: line_feed_in_as_bytes)
    from break_line_feed_here [OF this, of r] show ?thesis by (simp add: as_bytes_def)
  qed
  moreover have "utf8_string (l @ CRLF)" using assms(1) by (intro utf8_string_ascii) (simp add: ascii_def)
  ultimately show ?thesis by (simp add: read_line_def line_of_def del: as_bytes_append)
qed

lemma break_str_over:
  "c \<notin> set l \<Longrightarrow> break_str (c # p) (l @ s) = map_option (\<lambda>(a, b). (l @ a, b)) (break_str (c # p) s)"
  by (induction l; cases "break_str (c # p) s") auto

lemma break_str_to: "c \<notin> set l \<Longrightarrow> break_str [c] (l @ c # s) = Some (l, s)"
  by (simp add: break_str_over)

lemma trim_end_line:
  assumes "l \<noteq> []" and "graphic (last l)"
  shows "trim_end (l @ CRLF) = l"
proof -
  obtain c cs where r: "rev l = c # cs" "graphic c" using assms by (metis hd_rev list.exhaust_sel rev_is_Nil_conv)
  have n: "CHR 0x0A = char_of (n :: nat) \<longleftrightarrow> n mod 256 = 10" "CHR 0x0D = char_of (n :: nat) \<longleftrightarrow> n mod 256 = 13" for n
    by (subst eq_commute, simp add: char_of_eq_iff take_bit_eq_mod)+
  have "leading (map rev white_spaces) (CHR 0x0A # s) = 1" "leading (map rev white_spaces) (CHR 0x0D # s) = 1" for s
    by (simp_all add: leading_def white_spaces_def n)
  moreover have "leading (map rev white_spaces) (c # cs) = 0"
    using r(2) white_spaces_ends by (intro leading_graphic) (auto simp: hd_rev)
  ultimately have "strip_leading (map rev white_spaces) (rev (l @ CRLF)) = rev l"
    by (simp add: r strip_leading.simps [of _ "CHR 0x0A # _"] strip_leading.simps [of _ "CHR 0x0D # _"] strip_leading_stop)
  then show ?thesis by (simp add: trim_end_def)
qed

section \<open>Pairs of letters\<close>

fun has_pair :: "char \<Rightarrow> char \<Rightarrow> string \<Rightarrow> bool" where
  "has_pair a b (x # y # s) = ((x = a \<and> y = b) \<or> has_pair a b (y # s))"
| "has_pair a b s = False"

lemma has_pair_append:
  "has_pair a b (s @ t) \<longleftrightarrow> has_pair a b s \<or> has_pair a b t \<or> (s \<noteq> [] \<and> t \<noteq> [] \<and> last s = a \<and> hd t = b)"
  by (induction a b s rule: has_pair.induct) (cases t; auto)+

lemma has_pair_none: "a \<notin> set s \<Longrightarrow> \<not> has_pair a b s"
  by (induction a b s rule: has_pair.induct) auto

lemma break_str_pair:
  assumes "has_pair a b p" and "\<not> has_pair a b s"
  shows "break_str p s = None"
proof (rule ccontr)
  assume "break_str p s \<noteq> None"
  then obtain u v where "s = u @ p @ v" by (auto dest: break_strD)
  with assms show False by (simp add: has_pair_append)
qed

section \<open>A FETCH answer on the wire\<close>

text \<open>What a server reports of a message: the system flags and the keywords in lower case, the date, the size, the section
  that was asked for and its bytes.\<close>

record server_item =
  si_seq :: nat
  si_uid :: u32
  si_flags :: "string list"
  si_date :: date_time
  si_size :: nat
  si_section :: string
  si_body :: "u8 list"

definition SYSTEM_FLAGS :: "string list" where
  "SYSTEM_FLAGS = map SPECIAL [''Answered'', ''Flagged'', ''Deleted'', ''Seen'', ''Draft'', ''Recent'']"

definition keyword_char :: "char \<Rightarrow> bool" where
  "keyword_char c = (let n = of_char c :: nat in (97 \<le> n \<and> n \<le> 122) \<or> (48 \<le> n \<and> n \<le> 57) \<or> n = 36 \<or> n = 45 \<or> n = 95)"

definition good_flag :: "string \<Rightarrow> bool" where
  "good_flag f \<longleftrightarrow> f \<in> set SYSTEM_FLAGS \<or> (f \<noteq> [] \<and> list_all keyword_char f)"

definition good_section :: "string \<Rightarrow> bool" where
  "good_section s \<longleftrightarrow> list_all (\<lambda>c. c = CHR '' '' \<or> graphic c) s
     \<and> \<not> has_pair (CHR ''I'') (CHR ''L'') s \<and> \<not> has_pair (CHR ''S'') (CHR ''G'') s \<and> \<not> has_pair (CHR ''H'') (CHR ''R'') s"

definition good_item :: "server_item \<Rightarrow> bool" where
  "good_item it \<longleftrightarrow> si_uid it \<noteq> 0 \<and> list_all good_flag (si_flags it) \<and> good_date (si_date it) \<and> good_section (si_section it)
     \<and> length (si_body it) < 2 ^ 63"

definition flags_text :: "server_item \<Rightarrow> string" where
  "flags_text it = join_with '' '' (si_flags it)"

definition item_line :: "server_item \<Rightarrow> string" where
  "item_line it = ''* '' @ dec_string (si_seq it) @ '' FETCH (UID '' @ dec_string (unat (si_uid it)) @ '' FLAGS ('' @ flags_text it
     @ '') INTERNALDATE '' @ quote @ date_time_text (si_date it) @ quote @ '' RFC822.SIZE '' @ dec_string (si_size it)
     @ '' BODY['' @ si_section it @ ''] {'' @ dec_string (length (si_body it)) @ ''}''"

definition item_bytes :: "server_item \<Rightarrow> u8 list" where
  "item_bytes it = as_bytes (item_line it @ CRLF) @ si_body it @ as_bytes ('')'' @ CRLF)"

text \<open>What the client is to make of it.\<close>

definition message_of_item :: "server_item \<Rightarrow> raw_fetched_message" where
  "message_of_item it =
     \<lparr>rf_uid = si_uid it, rf_is_read = (SPECIAL ''Seen'' \<in> set (si_flags it)), rf_is_starred = (SPECIAL ''Flagged'' \<in> set (si_flags it)),
      rf_is_draft = (SPECIAL ''Draft'' \<in> set (si_flags it)), rf_internal_date = Some (unix_time (si_date it)), rf_body = si_body it,
      rf_remote_email_id = None, rf_remote_thread_id = None\<rparr>"

section \<open>The characters of the parts\<close>

definition date_char :: "char \<Rightarrow> bool" where
  "date_char c \<longleftrightarrow> digit_val c \<noteq> None \<or> c \<in> set '' -+:JanFebMrApyulgSOctNovDs''"

lemma months_chars: "list_all (list_all date_char) MONTHS" "length MONTHS = 12"
  by code_simp+

lemma date_chars: "good_date t \<Longrightarrow> \<forall>c \<in> set (date_time_text t). date_char c"
proof -
  assume g: "good_date t"
  then have "1 \<le> dt_month t" "dt_month t \<le> 12" by (simp_all add: good_date_def)
  then have m: "list_all date_char (MONTHS ! (dt_month t - 1))"
    using months_chars by (simp add: list_all_length)
  have d: "\<forall>c \<in> set (dec_string n). date_char c" for n using dec_string_digits by (auto simp: date_char_def)
  have t: "\<forall>c \<in> set (two n). date_char c" if "n < 100" for n using two_digits [OF that] by (auto simp: date_char_def)
  have s: "date_char CHR ''-''" "date_char CHR ''+''" "date_char CHR '':''" "date_char CHR '' ''" by (simp_all add: date_char_def)
  show ?thesis
    using g d m s t [of "dt_hour t"] t [of "dt_minute t"] t [of "dt_second t"] t [of "dt_zone_hours t"] t [of "dt_zone_minutes t"]
    by (auto simp: date_time_text_def day_text_def clock_text_def zone_text_def good_date_def list_all_iff)
qed

definition flag_char :: "char \<Rightarrow> bool" where
  "flag_char c \<longleftrightarrow> keyword_char c \<or> c \<in> {CHR '' '', CHR 0x5C, CHR ''A'', CHR ''F'', CHR ''D'', CHR ''S'', CHR ''R''}"

lemma system_flags_chars: "list_all (list_all flag_char) SYSTEM_FLAGS"
  by code_simp

lemma good_flag_chars: "good_flag f \<Longrightarrow> \<forall>c \<in> set f. flag_char c"
  using system_flags_chars unfolding good_flag_def list_all_iff by (metis flag_char_def)

lemma flags_chars: "list_all good_flag fs \<Longrightarrow> \<forall>c \<in> set (join_with '' '' fs). flag_char c"
proof (induction "'' ''" fs rule: join_with.induct)
  case (3 s t ss)
  then show ?case using good_flag_chars [of s] by (auto simp: flag_char_def)
qed (use good_flag_chars in auto)

section \<open>Reading the line\<close>

text \<open>Steps over a part that lacks the first letter of what is looked for.\<close>

lemma over_digits:
  "digit_val c = None \<Longrightarrow> break_str (c # p) (dec_string n @ s) = map_option (\<lambda>(a, b). (dec_string n @ a, b)) (break_str (c # p) s)"
  using dec_string_digits [of c n] by (intro break_str_over) auto

lemma over_flags:
  assumes "good_item it" and "\<not> flag_char c"
  shows "break_str (c # p) (flags_text it @ s) = map_option (\<lambda>(a, b). (flags_text it @ a, b)) (break_str (c # p) s)"
  using assms flags_chars [of "si_flags it"] by (intro break_str_over) (auto simp: good_item_def flags_text_def)

lemma over_date:
  assumes "good_item it" and "\<not> date_char c"
  shows "break_str (c # p) (date_time_text (si_date it) @ s) = map_option (\<lambda>(a, b). (date_time_text (si_date it) @ a, b)) (break_str (c # p) s)"
  using assms date_chars [of "si_date it"] by (intro break_str_over) (auto simp: good_item_def)

lemma not_flag_char: "\<not> flag_char CHR '')''" "\<not> flag_char CHR ''I''" "\<not> flag_char CHR ''E''" "\<not> flag_char CHR ''H''"
  by (simp_all add: flag_char_def keyword_char_def)

lemma not_date_char: "\<not> date_char CHR 0x22" "\<not> date_char CHR ''I''" "\<not> date_char CHR ''H''"
  by (simp_all add: date_char_def digit_val_def)

lemma not_digit: "digit_val CHR ''U'' = None" "digit_val CHR ''F'' = None" "digit_val CHR ''I'' = None" "digit_val CHR '' '' = None"
  by (simp_all add: digit_val_def)

lemma item_uid: "extract_fetch_uid (item_line it @ CRLF) = Some (si_uid it)"
proof -
  have "takeWhile is_digit (dec_string (unat (si_uid it)) @ CHR '' '' # s) = dec_string (unat (si_uid it))" for s
    using dec_string_digits by (subst takeWhile_append2) (auto simp: is_digit_def not_digit)
  then show ?thesis by (simp add: extract_fetch_uid_def item_line_def over_digits not_digit)
qed

lemma item_flags: "good_item it \<Longrightarrow> extract_flags_from_fetch (item_line it @ CRLF) = flags_text it"
  by (simp add: extract_flags_from_fetch_def item_line_def over_digits over_flags not_digit not_flag_char)

lemma item_date: "good_item it \<Longrightarrow> extract_internal_date (item_line it @ CRLF) = parse_imap_date (date_time_text (si_date it))"
  by (simp add: extract_internal_date_def item_line_def quote_def over_digits over_flags over_date not_digit not_flag_char not_date_char)

lemma rsplit_onceI: "c \<notin> set b \<Longrightarrow> rsplit_once c (a @ c # b) = Some (a, b)"
  by (simp add: rsplit_once_def split_onceI)

lemma literal_size_text:
  assumes "l = a @ CHR ''{'' # dec_string k @ ''}''" and "k < 2 ^ 64"
  shows "extract_literal_size (l @ CRLF) = Some k"
proof -
  have "trim_end (l @ CRLF) = l" by (rule trim_end_line) (simp_all add: assms(1) graphic_def)
  moreover have "rsplit_once (CHR ''{'') l = Some (a, dec_string k @ ''}'')"
    using dec_string_digits [of "CHR ''{''"] by (simp only: assms(1)) (intro rsplit_onceI, auto simp: digit_val_def)
  moreover have "parse_usize (dec_string k) = Some k" using assms(2) by (simp add: parse_usize_def parse_unsigned_dec_string)
  moreover have "last l = CHR ''}''" "l \<noteq> []" using assms(1) by simp_all
  ultimately show ?thesis by (simp add: extract_literal_size_def Let_def del: append.simps)
qed

lemma item_size:
  assumes "good_item it"
  shows "extract_literal_size (item_line it @ CRLF) = Some (length (si_body it))"
proof -
  obtain a where "item_line it = a @ CHR ''{'' # dec_string (length (si_body it)) @ ''}''" by (auto simp: item_line_def)
  then show ?thesis using assms by (intro literal_size_text) (simp_all add: good_item_def)
qed

lemma item_starts: "starts_with ''* '' (item_line it @ CRLF)" "contains_str ''FETCH'' (item_line it @ CRLF)"
proof -
  show "starts_with ''* '' (item_line it @ CRLF)" by (simp add: item_line_def)
  have "\<exists>b. item_line it @ CRLF = (''* '' @ dec_string (si_seq it) @ '' '') @ ''FETCH'' @ b" by (simp add: item_line_def)
  then show "contains_str ''FETCH'' (item_line it @ CRLF)" unfolding contains_str_iff by blast
qed

text \<open>No identifiers of the provider in the line.\<close>

lemma has_pair_over: "a \<notin> set s \<Longrightarrow> has_pair a b (s @ t) = has_pair a b t"
  by (metis has_pair_append has_pair_none last_in_set)

lemma has_pair_none_second: "b \<notin> set s \<Longrightarrow> \<not> has_pair a b s"
  by (induction a b s rule: has_pair.induct) auto

lemma has_pair_over_second: "b \<notin> set s \<Longrightarrow> x \<noteq> b \<Longrightarrow> has_pair a b (s @ x # t) = has_pair a b (x # t)"
  by (simp add: has_pair_append has_pair_none_second)

lemma has_pair_step: "x \<noteq> a \<Longrightarrow> has_pair a b (x # s) = has_pair a b s"
  by (cases s) auto

lemma pair_digits: "digit_val a = None \<Longrightarrow> has_pair a b (dec_string n @ t) = has_pair a b t"
  using dec_string_digits [of a n] by (intro has_pair_over) auto

lemma pair_flags:
  assumes "good_item it" and "\<not> flag_char b" and "b \<noteq> x"
  shows "has_pair a b (flags_text it @ x # t) = has_pair a b (x # t)"
  using assms flags_chars [of "si_flags it"] by (intro has_pair_over_second) (auto simp: good_item_def flags_text_def)

lemma pair_date:
  assumes "good_item it" and "\<not> date_char b" and "b \<noteq> x"
  shows "has_pair a b (date_time_text (si_date it) @ x # t) = has_pair a b (x # t)"
  using assms date_chars [of "si_date it"] by (intro has_pair_over_second) (auto simp: good_item_def)

lemma pair_section: "has_pair a b (si_section it @ CHR '']'' # t) \<longleftrightarrow> has_pair a b (si_section it) \<or> has_pair a b (CHR '']'' # t) \<or> (si_section it \<noteq> [] \<and> last (si_section it) = a \<and> b = CHR '']'')"
  by (auto simp: has_pair_append)

lemma no_second: "\<not> flag_char CHR ''L''" "\<not> flag_char CHR ''G''" "\<not> date_char CHR ''L''" "\<not> date_char CHR ''G''"
  by (simp_all add: flag_char_def keyword_char_def date_char_def digit_val_def)

lemma item_pairs:
  assumes "good_item it"
  shows "\<not> has_pair (CHR ''I'') (CHR ''L'') (item_line it @ CRLF)" "\<not> has_pair (CHR ''S'') (CHR ''G'') (item_line it @ CRLF)"
    "\<not> has_pair (CHR ''H'') (CHR ''R'') (item_line it @ CRLF)"
proof -
  have d: "digit_val CHR ''I'' = None" "digit_val CHR ''S'' = None" "digit_val CHR ''H'' = None" by (simp_all add: digit_val_def)
  have h: "CHR ''H'' \<notin> set (flags_text it)" "CHR ''H'' \<notin> set (date_time_text (si_date it))"
    using assms flags_chars [of "si_flags it"] date_chars [of "si_date it"] not_flag_char not_date_char
    by (auto simp: good_item_def flags_text_def)
  note parts = item_line_def quote_def has_pair_step pair_digits d pair_section
  show "\<not> has_pair (CHR ''I'') (CHR ''L'') (item_line it @ CRLF)" "\<not> has_pair (CHR ''S'') (CHR ''G'') (item_line it @ CRLF)"
    using assms by (simp_all add: parts pair_flags pair_date no_second) (simp_all add: good_item_def good_section_def)
  show "\<not> has_pair (CHR ''H'') (CHR ''R'') (item_line it @ CRLF)"
    using assms by (simp add: parts h has_pair_over) (simp add: good_item_def good_section_def)
qed

lemma no_attr:
  assumes "has_pair a b key" and "\<not> has_pair a b line"
  shows "extract_fetch_attr line key = None"
proof -
  have "has_pair a b ('' '' @ key @ '' '')" "has_pair a b (''('' @ key @ '' '')" unfolding has_pair_append using assms(1) by simp_all
  with assms(2) show ?thesis by (simp add: extract_fetch_attr_def break_str_pair [of a b])
qed

lemma no_ids:
  assumes "\<not> has_pair (CHR ''I'') (CHR ''L'') line" and "\<not> has_pair (CHR ''S'') (CHR ''G'') line" and "\<not> has_pair (CHR ''H'') (CHR ''R'') line"
  shows "email_id_of line = None" "thread_id_of line = None"
  using assms by (simp_all add: email_id_of_def thread_id_of_def first_some_def no_attr [of "CHR ''I''" "CHR ''L''"]
      no_attr [of "CHR ''S''" "CHR ''G''"] no_attr [of "CHR ''H''" "CHR ''R''"])

text \<open>The flags are found as words, although the source looks for them as substrings.\<close>

lemma contains_over: "c \<notin> set l \<Longrightarrow> contains_str (c # p) (l @ s) = contains_str (c # p) s"
  by (induction l) auto

lemma contains_flag:
  assumes "good_flag f" and "x \<in> {''Seen'', ''Flagged'', ''Draft''}" and "s = [] \<or> hd s = CHR '' ''"
  shows "contains_str (SPECIAL x) (f @ s) \<longleftrightarrow> f = SPECIAL x \<or> contains_str (SPECIAL x) s"
proof (cases "f \<in> set SYSTEM_FLAGS")
  case True
  with assms(2,3) show ?thesis by (cases s) (auto simp: SYSTEM_FLAGS_def SPECIAL_def)
next
  case False
  with assms(1) have "CHR 0x5C \<notin> set f" by (auto simp: good_flag_def list_all_iff keyword_char_def)
  then show ?thesis by (auto simp: SPECIAL_def contains_over)
qed

lemma flags_found:
  "list_all good_flag fs \<Longrightarrow> x \<in> {''Seen'', ''Flagged'', ''Draft''} \<Longrightarrow> contains_str (SPECIAL x) (join_with '' '' fs) \<longleftrightarrow> SPECIAL x \<in> set fs"
proof (induction "'' ''" fs rule: join_with.induct)
  case 1
  then show ?case by (simp add: SPECIAL_def)
next
  case (2 s)
  then show ?case using contains_flag [of s x "[]"] by (auto simp: SPECIAL_def)
next
  case (3 s t ss)
  then show ?case using contains_flag [of s x "'' '' @ join_with '' '' (t # ss)"] by (auto simp: SPECIAL_def)
qed

lemma item_flag: "good_item it \<Longrightarrow> x \<in> {''Seen'', ''Flagged'', ''Draft''} \<Longrightarrow> flag_in x (item_line it @ CRLF) \<longleftrightarrow> SPECIAL x \<in> set (si_flags it)"
  unfolding flag_in_def using flags_found [of "si_flags it" x] by (simp add: item_flags) (simp add: good_item_def flags_text_def)

section \<open>Reading the answers\<close>

definition line_char :: "char \<Rightarrow> bool" where
  "line_char c = (let n = of_char c :: nat in 32 \<le> n \<and> n < 128)"

lemma line_chars_text:
  assumes "list_all line_char l"
  shows "ascii l" "CHR 0x0A \<notin> set l"
  using assms by (auto simp: ascii_def line_char_def Let_def list_all_iff)

lemma line_char_parts:
  "digit_val c \<noteq> None \<Longrightarrow> line_char c" "date_char c \<Longrightarrow> line_char c" "flag_char c \<Longrightarrow> line_char c" "c = CHR '' '' \<or> graphic c \<Longrightarrow> line_char c"
  by (auto simp: line_char_def digit_val_def date_char_def flag_char_def keyword_char_def graphic_def Let_def split: if_splits)

lemma item_chars:
  assumes "good_item it"
  shows "list_all line_char (item_line it)"
proof -
  have d: "list_all line_char (dec_string n)" for n unfolding list_all_iff using dec_string_digits line_char_parts(1) by blast
  have f: "list_all line_char (flags_text it)"
    using assms flags_chars [of "si_flags it"] line_char_parts(3) by (auto simp: good_item_def flags_text_def list_all_iff)
  have t: "list_all line_char (date_time_text (si_date it))"
    using assms date_chars [of "si_date it"] line_char_parts(2) by (auto simp: good_item_def list_all_iff)
  have s: "list_all line_char (si_section it)"
    using assms line_char_parts(4) by (auto simp: good_item_def good_section_def list_all_iff)
  show ?thesis by (simp add: item_line_def quote_def d f t s) (simp add: line_char_def)
qed

lemma read_item_line: "good_item it \<Longrightarrow> read_line (w\<lparr>w_in := as_bytes (item_line it @ CRLF) @ r\<rparr>) = (GotLine (item_line it @ CRLF), w\<lparr>w_in := r\<rparr>)"
  by (intro read_line_text line_chars_text item_chars)

lemma fetch_good_item:
  assumes "good_item it"
  shows "fetch_item (item_line it @ CRLF) (w\<lparr>w_in := si_body it @ as_bytes ('')'' @ CRLF) @ r\<rparr>) = (Answers (Some (message_of_item it)), w\<lparr>w_in := r\<rparr>)"
proof -
  have uid: "si_uid it \<noteq> 0" and len: "length (si_body it) < 2 ^ 63" and date: "good_date (si_date it)" using assms by (simp_all add: good_item_def)
  have closing: "read_line (w\<lparr>w_in := as_bytes ('')'' @ CRLF) @ r\<rparr>) = (GotLine ('')'' @ CRLF), w\<lparr>w_in := r\<rparr>)"
    by (rule read_line_text) (simp_all add: ascii_def)
  have ids: "email_id_of ('')'' @ CRLF) = None" "thread_id_of ('')'' @ CRLF) = None" by (rule no_ids; simp)+
  have date: "extract_internal_date (item_line it @ CRLF) = Returned (Some (unix_time (si_date it)))"
    by (simp only: item_date [OF assms] date_of_text [OF date])
  have "fetched_message (item_line it @ CRLF) (si_uid it) (Some (unix_time (si_date it))) (si_body it) ('')'' @ CRLF) = message_of_item it"
    unfolding fetched_message_def message_of_item_def
    by (simp only: item_flag [OF assms] no_ids [OF item_pairs [OF assms]] ids first_some_def) (simp add: item_flag [OF assms])
  then show ?thesis
    using uid len
    by (simp only: fetch_item_def item_starts item_uid item_size [OF assms] date)
      (simp add: Let_def net_bind_def net_ret_def read_literal_def read_exact_def read_closing_def closing append_Nil del: as_bytes_append append.simps(2))
qed

definition done_line :: "string \<Rightarrow> string \<Rightarrow> string" where
  "done_line tag text = tag @ '' OK '' @ text"

lemma fetch_good_items:
  assumes "list_all good_item items" and "list_all line_char (done_line tag text)" and "tag \<noteq> []" and "hd tag \<noteq> CHR ''*''"
  shows "fetch_loop tag messages ((w :: wire)\<lparr>w_in := concat (map item_bytes items) @ as_bytes (done_line tag text @ CRLF) @ r\<rparr>)
    = (Answers (messages @ map message_of_item items), w\<lparr>w_in := r\<rparr>)"
  using assms(1)
proof (induction items arbitrary: messages)
  case Nil
  have "starts_with (tag @ '' OK'') (done_line tag text @ CRLF)" unfolding starts_with_iff done_line_def by simp
  then show ?case
    using read_line_text [OF line_chars_text [OF assms(2)], of r w] by (simp add: fetch_loop.simps [of tag messages] del: as_bytes_append)
next
  case (Cons it items)
  then have it: "good_item it" by simp
  have no: "\<not> starts_with (tag @ s) (item_line it @ CRLF)" for s using assms(3,4) by (cases tag) (auto simp: item_line_def)
  let ?r = "concat (map item_bytes items) @ as_bytes (done_line tag text @ CRLF) @ r"
  have w: "w\<lparr>w_in := concat (map item_bytes (it # items)) @ as_bytes (done_line tag text @ CRLF) @ r\<rparr>
    = w\<lparr>w_in := as_bytes (item_line it @ CRLF) @ si_body it @ as_bytes ('')'' @ CRLF) @ ?r\<rparr>"
    by (simp add: item_bytes_def)
  have "fetch_loop tag messages (w\<lparr>w_in := as_bytes (item_line it @ CRLF) @ si_body it @ as_bytes ('')'' @ CRLF) @ ?r\<rparr>)
    = fetch_loop tag (messages @ [message_of_item it]) (w\<lparr>w_in := ?r\<rparr>)"
    by (subst fetch_loop.simps) (simp only: read_item_line [OF it] fetch_good_item [OF it] no prod.case line_read.case answer.case option.case if_False simp_thms)
  then show ?case unfolding w using Cons by simp
qed

section \<open>The property\<close>

text \<open>C10. A client reads exactly what the server sends: whatever messages a server answers a FETCH with, line, literal and closing
  parenthesis of each and its tagged OK at the end, the client takes in just these messages, in their order, with their UIDs,
  their flags, the moments of their dates and their bytes, even where a body has lines that look like answers, and leaves
  what follows the OK on the connection for the next command.\<close>

theorem fetch_responses_exact:
  assumes "list_all good_item items" and "list_all line_char (done_line tag text)" and "tag \<noteq> []" and "hd tag \<noteq> CHR ''*''"
  shows "raw_parse_fetch_responses tag (w\<lparr>w_in := concat (map item_bytes items) @ as_bytes (done_line tag text @ CRLF) @ r\<rparr>)
    = (Answers (map message_of_item items), w\<lparr>w_in := r\<rparr>)"
  using fetch_good_items [OF assms, of "[]"] by (simp add: raw_parse_fetch_responses_def)

definition sample_items :: "server_item list" where
  "sample_items =
     [\<lparr>si_seq = 1, si_uid = 41, si_flags = [SPECIAL ''Seen'', ''$forwarded''],
       si_date = sample_date, si_size = 900, si_section = ''HEADER.FIELDS (SUBJECT FROM)'', si_body = as_bytes (''a3 OK'' @ CRLF)\<rparr>,
      \<lparr>si_seq = 2, si_uid = 42, si_flags = [], si_date = sample_date, si_size = 3, si_section = [], si_body = [0xFF, 0, 0x29]\<rparr>]"

lemma fetch_responses_exact_witness:
  "\<exists>w. raw_parse_fetch_responses ''a3'' (w\<lparr>w_in := concat (map item_bytes sample_items) @ as_bytes (done_line ''a3'' ''done'' @ CRLF) @ []\<rparr>)
    = (Answers (map message_of_item sample_items), w\<lparr>w_in := []\<rparr>)"
  by (intro exI fetch_responses_exact)
    (simp_all add: sample_items_def sample_date_def good_item_def good_flag_def SYSTEM_FLAGS_def SPECIAL_def good_date_def good_section_def
      keyword_char_def graphic_def done_line_def line_char_def)

end
