(* ===== verification/Imap_Safety.thy ===== *)
theory Imap_Safety
  imports Imap_Client Imap_Fetch
begin

text \<open>
  What the raw IMAP client holds against its server, and what it does not: the STARTTLS guard, the credentials as the
  server reads them, and answers that a server can crash the client with.
\<close>

section \<open>STARTTLS\<close>

lemma break_str_None: "break_str p s = None \<longleftrightarrow> \<not> contains_str p s"
  by (induction s) auto

lemma break_crlf_last: "break_str CRLF s = Some (a, []) \<longleftrightarrow> s = a @ CRLF \<and> \<not> contains_str CRLF a"
proof (induction s arbitrary: a)
  case (Cons x s)
  then show ?case by (cases a; cases s; cases "tl a") auto
qed simp

text \<open>C18. The guard of STARTTLS: the raw client goes on to the TLS handshake exactly when it has connected and sent its command and the
  server's reply has an OK in it and is a single line, that is to say nothing at all follows the first line end. Bytes that
  somebody in the middle puts behind the OK, to be taken for an answer inside the TLS session later, end the attempt.\<close>

theorem starttls_injection_refused:
  "raw_connect_starttls net config = Inr w \<longleftrightarrow>
     (\<exists>reply line. in_starttls net config =
        \<lparr>st_connect = InTime (Inr ()), st_write = Inr (), st_reply = InTime (Inr reply), st_upgrade = Inr w\<rparr>
      \<and> contains_str ''OK'' (from_utf8_lossy reply)
      \<and> of_bytes reply \<in> {line, line @ CRLF} \<and> \<not> contains_str CRLF line)"
proof -
  let ?a = "in_starttls net config"
  have guard: "extract_starttls_injection reply = None \<longleftrightarrow> (\<exists>line. of_bytes reply \<in> {line, line @ CRLF} \<and> \<not> contains_str CRLF line)"
    for reply
  proof (cases "break_str CRLF (of_bytes reply)")
    case None
    then show ?thesis using break_str_None [of CRLF "of_bytes reply"] by (auto simp: extract_starttls_injection_def)
  next
    case (Some ab)
    obtain a b where ab: "ab = (a, b)" by force
    have "contains_str CRLF (of_bytes reply)" using Some break_str_None [of CRLF "of_bytes reply"] by auto
    moreover have "extract_starttls_injection reply = None \<longleftrightarrow> b = []" by (simp add: extract_starttls_injection_def Some ab)
    moreover have "b = [] \<longleftrightarrow> (\<exists>line. of_bytes reply = line @ CRLF \<and> \<not> contains_str CRLF line)"
      unfolding break_crlf_last [symmetric] Some ab by blast
    ultimately show ?thesis by blast
  qed
  have a: "?a = \<lparr>st_connect = c, st_write = d, st_reply = e, st_upgrade = f\<rparr> \<longleftrightarrow>
    st_connect ?a = c \<and> st_write ?a = d \<and> st_reply ?a = e \<and> st_upgrade ?a = f" for c d e f by auto
  show ?thesis
    unfolding a using guard
    by (cases "st_connect ?a"; cases "st_write ?a"; cases "st_reply ?a")
      (auto simp: raw_connect_starttls_def Let_def res_bind_Inr_iff map_err_Inr_iff split: timed.splits option.splits if_splits)
qed

section \<open>The credentials\<close>

text \<open>What a server makes of a LOGIN line: two quoted strings.\<close>

definition server_login :: "string \<Rightarrow> (string \<times> string) option" where
  "server_login cmd =
     Option.bind (strip_prefix_of ''a1 LOGIN '' cmd) (\<lambda>args.
     Option.bind (parse_imap_quoted args) (\<lambda>(user, rest).
     Option.bind (strip_prefix_of '' '' rest) (\<lambda>args2.
     Option.bind (parse_imap_quoted args2) (\<lambda>(pass, end_of_line). if end_of_line = CRLF then Some (user, pass) else None))))"

definition clean :: "string \<Rightarrow> bool" where
  "clean s \<longleftrightarrow> CHR 0x22 \<notin> set s \<and> CHR 0x5C \<notin> set s"

lemma unquote_clean: "clean s \<Longrightarrow> unquote out False (s @ CHR 0x22 # r) = Some (out @ s, r)"
  by (induction s arbitrary: out) (auto simp: clean_def)

lemma unquote_length:
  "unquote out escaped s = Some (v, r) \<Longrightarrow> length v + 1 + length r \<le> length out + length s
     \<and> (\<not> escaped \<longrightarrow> length v + 1 + length r = length out + length s \<longrightarrow> (\<exists>u. v = out @ u \<and> s = u @ CHR 0x22 # r \<and> clean u))"
proof (induction out escaped s rule: unquote.induct)
  case (2 out escaped c chars)
  then show ?case by (auto simp: clean_def split: if_splits)
qed simp

lemma unquote_exact: "unquote [] False s = Some (u, r) \<Longrightarrow> length u + 1 + length r = length s \<Longrightarrow> clean u"
  using unquote_length [of "[]" False s u r] by auto

lemma quoted_length:
  assumes "parse_imap_quoted s = Some (u, r)"
  shows "length u + 2 + length r \<le> length s" "length u + 2 + length r = length s \<Longrightarrow> clean u"
  using assms unquote_length [of "[]" False "tl s" u r] unquote_exact [of "tl s" u r] by (cases s; auto split: if_splits)+

lemma quoted_clean: "clean u \<Longrightarrow> parse_imap_quoted (quote @ u @ quote @ r) = Some (u, r)"
  by (simp add: quote_def unquote_clean)


definition sample_config :: imap_config where
  "sample_config = \<lparr>ic_host = ''mail.example'', ic_port = 993, ic_security = ''tls'', ic_username = ''ann'', ic_password = [CHR ''a'', CHR 0x22, CHR ''b''],
     ic_auth_method = ''password'', ic_accept_invalid_certs = False\<rparr>"


section \<open>Answers that crash the client\<close>

definition huge_line :: "nat \<Rightarrow> u32 \<Rightarrow> nat \<Rightarrow> string" where
  "huge_line n uid k = ''* '' @ dec_string n @ '' FETCH (UID '' @ dec_string (unat uid) @ '' BODY[] {'' @ dec_string k @ ''}''"

lemma huge_line_text: "ascii (huge_line n uid k)" "CHR 0x0A \<notin> set (huge_line n uid k)"
proof -
  have "list_all line_char (dec_string m)" for m unfolding list_all_iff using dec_string_digits line_char_parts(1) by blast
  then have "list_all line_char (huge_line n uid k)" by (simp add: huge_line_def) (simp add: line_char_def)
  then show "ascii (huge_line n uid k)" "CHR 0x0A \<notin> set (huge_line n uid k)" by (fact line_chars_text)+
qed

lemma huge_line_uid: "extract_fetch_uid (huge_line n uid k @ CRLF) = Some uid"
proof -
  have "takeWhile is_digit (dec_string (unat uid) @ CHR '' '' # s) = dec_string (unat uid)" for s
    using dec_string_digits by (subst takeWhile_append2) (auto simp: is_digit_def not_digit)
  then show ?thesis by (simp add: extract_fetch_uid_def huge_line_def over_digits not_digit)
qed

lemma huge_line_size:
  assumes "k < 2 ^ 64"
  shows "extract_literal_size (huge_line n uid k @ CRLF) = Some k"
  by (rule literal_size_text [OF _ assms, of _ "''* '' @ dec_string n @ '' FETCH (UID '' @ dec_string (unat uid) @ '' BODY[] ''"]) (simp add: huge_line_def)

lemma huge_line_starts: "starts_with ''* '' (huge_line n uid k @ CRLF)" "contains_str ''FETCH'' (huge_line n uid k @ CRLF)"
proof -
  show "starts_with ''* '' (huge_line n uid k @ CRLF)" by (simp add: huge_line_def)
  have "\<exists>b. huge_line n uid k @ CRLF = (''* '' @ dec_string n @ '' '') @ ''FETCH'' @ b" by (simp add: huge_line_def)
  then show "contains_str ''FETCH'' (huge_line n uid k @ CRLF)" unfolding contains_str_iff by blast
qed

lemma huge_line_date: "extract_internal_date (huge_line n uid k @ CRLF) = Returned None"
  by (simp add: extract_internal_date_def huge_line_def over_digits not_digit)

text \<open>C21. A server can crash the client: one line that announces a literal of two to the power of 63 bytes or more makes the task that
  reads a FETCH answer panic, before a byte of the literal has been sent and whatever message the line is about.\<close>

theorem server_can_crash_client:
  assumes "2 ^ 63 \<le> k" and "k < 2 ^ 64" and "tag \<noteq> []" and "hd tag \<noteq> CHR ''*''"
  shows "fst (raw_parse_fetch_responses tag (w\<lparr>w_in := as_bytes (huge_line n uid k @ CRLF) @ r\<rparr>)) = Panics"
proof -
  have no: "\<not> starts_with (tag @ s) (huge_line n uid k @ CRLF)" for s using assms(3,4) by (cases tag) (auto simp: huge_line_def)
  have big: "\<not> k < 2 ^ 63" using assms(1) by simp
  have item: "fetch_item (huge_line n uid k @ CRLF) v = (Panics, v)" for v
    using assms(1)
    by (simp only: fetch_item_def huge_line_starts huge_line_uid huge_line_size [OF assms(2)] huge_line_date)
      (simp add: Let_def net_bind_def read_literal_def)
  show ?thesis
    unfolding raw_parse_fetch_responses_def
    by (subst fetch_loop.simps) (simp only: read_line_text [OF huge_line_text] item no prod.case line_read.case answer.case if_False simp_thms fst_conv)
qed

lemma server_can_crash_client_witness:
  "\<exists>w. fst (raw_parse_fetch_responses ''a3'' (w\<lparr>w_in := as_bytes (huge_line 1 7 (2 ^ 63) @ CRLF) @ []\<rparr>)) = Panics"
  by (intro exI server_can_crash_client) simp_all

end
