(* ===== verification/Spec2Isabelle.thy ===== *)
theory Spec2Isabelle
  imports Kylins_Prelude Rust_Std Wbxml_Code_Pages Wbxml_Types Wbxml_Serializer Wbxml_Deserializer
    Eas_Status Eas_Types Eas_Commands Eas_Wire Eas_Client Eas_Source Mail_Source Db_Store Queue
    Sync_State Mutations Labels Engine Engine_Send Engine_Round Breaker Worker Engine_Eas
    Messages Messages_Store Bodies Rust_Text Attachments Attachment_Cache Cache_Reconcile
    Inline_Images Body_Requests Crypto_Types Vault Crypto_Keys Key_Store_Laws Key_Store Smime_Chain
    Mime_Parts Secure_Mime Cms Smime_Backend Smime_Signing Crl_Fetch Crypto_Open Signer_Details Crypto_Send Protected_Mail
    Imap_Text Imap_Wire Imap_Client Imap_Dates Imap_Fetch Imap_Safety
begin

text \<open>
  A model of the mail backend of Kylins Client (\<open>kylins.client.backend\<close> and
  \<open>kylins.client.crypto\<close>): the Exchange ActiveSync protocol stack, the offline operation queue, the
  local database, the sync engine that ties them together, and the reading of encrypted and signed
  mail with its key store, its S/MIME engine and its trust decisions, and the raw IMAP client.

  The parts and how they interact. A user's action becomes a mutation (\<open>db/mutations.rs\<close>) that is
  written to the local tables at once and appended to the queue of pending operations
  (\<open>db/queue.rs\<close>). One worker per account (\<open>sync_engine/engine.rs\<close>) replays the queue against the
  account's mail source, then lists the folders, synchronises each and stores what it got. A source
  is anything that implements the trait of \<open>sync_engine/mod.rs\<close>; the one modelled here is
  \<open>sync_engine/eas_source.rs\<close>, which talks WBXML over HTTP through \<open>eas/client.rs\<close>, \<open>eas/commands.rs\<close>
  and the codec of \<open>eas/wbxml/\<close>.

  Conventions. A Rust \<open>Result\<close> is a sum with the error on the left; a computation that can also panic
  returns \<open>panicky\<close>; code that reads and changes state is \<open>('s, 'e, 'a) io\<close>, a function from the state
  to a result and the next state (\<open>Kylins_Prelude\<close>). Unsigned integers keep their width as words.
  Strings are lists of characters below 256, that is, the bytes of the UTF-8 text. \<open>Rust_Std\<close> holds the
  functions of the standard library that the code uses: UTF-8 validation, parsing and printing of
  integers, trimming, ASCII case.

  Theories, bottom up.
  \<^item> \<open>Wbxml_Code_Pages\<close>, \<open>Wbxml_Types\<close>, \<open>Wbxml_Serializer\<close>, \<open>Wbxml_Deserializer\<close>: \<open>eas/wbxml/\<close>. The page
    tables are those of \<open>code_pages.rs\<close>. The serializer is a record with its buffer, the page and the
    pending tag, one operation per method; the deserializer likewise with its cursor. Proved:
    the serializer writes the encoding \<open>enc\<close>, decoding gives back the tree, and where it panics.
    \<open>tree_loop\<close> and \<open>switch_pages\<close> carry fuel; the length of the input is enough, since every token
    consumes a byte, and the round trip is proved for the function with that fuel.
  \<^item> \<open>Eas_Status\<close>, \<open>Eas_Types\<close>, \<open>Eas_Commands\<close>: \<open>status.rs\<close>, \<open>types.rs\<close>, \<open>commands.rs\<close>, \<open>provision.rs\<close>,
    one definition per builder and parser. \<open>Eas_Wire\<close> states what the protocol means, as requests the
    server decodes and responses it lays out, and proves the builders and parsers against it.
  \<^item> \<open>Eas_Client\<close>: \<open>client.rs\<close> and \<open>auth.rs\<close>. The server and the identity provider are a function \<open>net\<close>
    from a request and a world to a response and a world. Proved: the bound on requests, delivery,
    the Provision handshake, token refresh.
  \<^item> \<open>Mail_Source\<close>: \<open>sync_engine/mod.rs\<close>; the trait is a record of its methods. \<open>Eas_Source\<close>: its EAS
    instance, with an end-to-end theorem over client, commands and codec.
  \<^item> \<open>Db_Store\<close>: the tables as a record, statements that may fail by an oracle, transactions that roll
    back. \<open>Queue\<close>, \<open>Sync_State\<close>, \<open>Labels\<close>, \<open>Mutations\<close>: \<open>db/queue.rs\<close>, \<open>db/rate_limit.rs\<close> with
    \<open>db/sync_state.rs\<close>, \<open>db/labels.rs\<close>, \<open>db/mutations.rs\<close> with \<open>apply_mutation_inner\<close>. Proved: the queue
    invariant, bounded retries, atomicity, integrity of the mailbox, exact effects, JSON round trips.
  \<^item> \<open>Engine\<close>: \<open>send_op\<close>, the replay round, the circuit breaker and the sync round of
    \<open>sync_engine/engine.rs\<close>. \<open>Engine_Send\<close>: a send is repeated only when it was not accepted, protection
    fails closed, the clean-up stays in its directory; the laws of a source that records its
    transmissions are the locale \<open>recorded_transport\<close>. \<open>Engine_Round\<close>: a replay round neither loses nor
    invents queued mail. \<open>Breaker\<close>: the circuit breaker as a step relation that the sync rounds refine.
    \<open>Worker\<close>: the starting, polling and stopping of workers as an interleaving of calls. \<open>Engine_Eas\<close>:
    the engine over the EAS source.
  \<^item> \<open>Messages\<close>: \<open>db/messages.rs\<close>, the storing of a folder's delta with its write lock and the updates of
    single messages. \<open>Messages_Store\<close>: integrity, the write lock, what a delta leaves, and that a delta
    that failed half-way may be applied again.
  \<^item> \<open>Bodies\<close>: \<open>db/message_bodies.rs\<close>, the body cache and its eviction. \<open>Attachments\<close>: \<open>db/attachments.rs\<close>,
    with the order of MIME sections. \<open>Body_Requests\<close>: \<open>request_bodies_inner\<close> of \<open>sync_engine/commands.rs\<close>.
  \<^item> \<open>Attachment_Cache\<close>, \<open>Cache_Reconcile\<close>, \<open>Inline_Images\<close>: \<open>attachment_cache.rs\<close> with the fetching of
    attachments and inline images through it, over a tree of directories and files whose operations
    may fail. \<open>Rust_Text\<close> holds the functions on text they need (splitting, Unicode trimming).

  The cryptographic side. A message that arrives encrypted or signed is kept as it came
  (\<open>db/message_bodies.rs\<close>); when the user opens it, \<open>mail/crypto.rs\<close> finds out what it is, asks the key
  store (\<open>keystore_bridge.rs\<close>, over \<open>db/crypto_keys.rs\<close> and the vault \<open>crypto.rs\<close>) for keys, lets the
  S/MIME engine (\<open>kylins.client.crypto/smime\<close>) decrypt and verify, fetches revocation lists
  (\<open>mail/crypto_crl.rs\<close>), validates the signer's chain, looks up the user's trust in the signer and stores
  the verdict.
  \<^item> \<open>Crypto_Types\<close>: \<open>kylins.client.crypto/core\<close>: identifiers, handles, trust, policy, errors, envelopes; the
    traits \<open>CryptoBackend\<close> and \<open>KeyStore\<close> are records of their methods.
  \<^item> \<open>Vault\<close>: \<open>crypto.rs\<close>, the master key and the encryption of columns. \<open>Crypto_Keys\<close>: the tables of keys,
    certificates, trust decisions, verdicts and revocation lists.
  \<^item> \<open>Key_Store_Laws\<close> states what a client may expect of a key store, as locales; \<open>Key_Store\<close> is
    \<open>SqliteKeyStore\<close>, shows that it keeps these laws within one account, and where it does not: deletion
    across accounts, the lost default, the demoted root.
  \<^item> \<open>Smime_Chain\<close>: \<open>smime/src/chain.rs\<close>, the validation of a chain with its revocation checks. \<open>Cms\<close>:
    \<open>smime/src/cms_parse.rs\<close>, \<open>cert.rs\<close>: signature checks, the unwrapping of content keys, the key
    derivation. \<open>Smime_Backend\<close>: \<open>smime/src/lib.rs\<close>, \<open>cms_build.rs\<close>: import, signing, verification,
    encryption and decryption as a \<open>CryptoBackend\<close>. \<open>Smime_Signing\<close>: over every store that keeps the laws,
    an imported key signs what verifies.
  \<^item> \<open>Mime_Parts\<close>: the parts of a parsed message, their IMAP sections and the decoding of a part
    (\<open>mail/imap/client.rs\<close>). The recursion over the parts carries fuel, the number of parts; it is enough
    for every message whose parts point forward, as those of the parser do. \<open>Secure_Mime\<close>: the shaping of
    signed and encrypted messages in \<open>mail/crypto.rs\<close>, \<open>mail/pgp_mime.rs\<close>, and the cutting out of the signed
    bytes at the receiver's side.
  \<^item> \<open>Crl_Fetch\<close>: \<open>mail/crypto_crl.rs\<close>, the cache of revocation lists. \<open>Crypto_Open\<close>: the receive half of
    \<open>mail/crypto.rs\<close>; what a verdict in favour of a signature means, and what it does not say.
    \<open>Signer_Details\<close>: the details of a signer that the window shows. \<open>Crypto_Send\<close>: the send half,
    \<open>apply_crypto\<close>; \<open>Protected_Mail\<close> shows that encryption fails closed and that a receiver verifies what was
    signed.

  The raw IMAP client. \<open>mail/imap/client.rs\<close> holds two clients: one over the library \<open>async_imap\<close>, and one that
  speaks the protocol itself, over a connection of its own, for listing the folders with their counts, for
  folders that the library fails on, and for attachments. The second one is modelled.
  \<^item> \<open>Imap_Text\<close>: the functions on lines: quoted strings, LIST and STATUS, the attributes of a FETCH line, dates,
    capabilities, addresses. \<open>Imap_Wire\<close>: a connection as the bytes that are going to arrive with what follows
    them, and the writes with their failures; a call returns, fails, panics or never ends. The loops that wait
    for a tagged answer end because every line that is read shortens the input. \<open>Imap_Client\<close>: the operations,
    from the connection to the logout.
  \<^item> \<open>Imap_Dates\<close>: the date parser against the calendar in closed form. \<open>Imap_Fetch\<close>: what a server writes for a list
    of messages is read exactly. \<open>Imap_Safety\<close>: the guard of STARTTLS, the credentials as the server reads them,
    and how a server can crash the client.

  Parameters. The HTTP exchange, the identity provider, random UUIDs, base64, the clock of the
  database and the failures of its statements are arguments. In the engine the record \<open>services\<close>
  holds what is not modelled: the MIME builder, the cryptographic backends and the file system. The
  IMAP connection is the record \<open>imap_link\<close> or \<open>body_link\<close>; the order in which a \<open>HashMap\<close> is walked is an
  argument as well. The disk of the attachment cache has no symbolic links. On the cryptographic
  side the arguments are the keyring and the authenticated cipher of the vault, the hexadecimal
  coder, the order in which SQLite returns rows, the decoder of ASN.1 structures, the primitives
  (digests, signatures, key agreement, ciphers), the path builder of \<open>rustls-pki\<close>'s kind with its policy,
  the builders of CMS structures, the parsers of MIME and X.509 and the download of a URL; what a proof
  needs of them is a named hypothesis (\<open>aead_ok\<close>, \<open>scan_ok\<close>, \<open>walks\<close>, \<open>builder_ok\<close>), each with a
  concrete instance.

  For the raw IMAP client the arguments are the outcomes of connecting, of the STARTTLS exchange and of the TLS
  handshake, the bytes of the connection and the failures of its writes, the MIME parser, base64 and modified
  UTF-7.

  Not modelled: the IMAP operations on sessions of \<open>async_imap\<close> and the diagnostic dump, the SMTP session, the OpenPGP engine, the inside of the MIME, ASN.1 and X.509
  parsers, contacts, calendars and the other tables, OAuth, and the command wrappers of the window.
\<close>

end
